(* ===== verification/Prelude.thy ===== *)
theory Prelude
  imports Complex_Main "HOL-Library.AList" "HOL-Library.Char_ord" "HOL-Library.List_Lexorder"
begin

text \<open>
  What every component shares: the exceptions of the program as a sum type with its
  combinators, Python dictionaries as association lists in insertion order, and the
  generic lemmas the component theories rest on. The collection \<open>ok\<close> holds the
  rules that say when a checked computation succeeds; a component proof usually is
  \<open>simp add: ok\<close> after unfolding the operation.
\<close>

named_theorems ok \<open>when a computation that can raise succeeds\<close>

subsection \<open>Evaluation\<close>

text \<open>Strings are compared up to the first character, and characters up to the first bit, in which they differ.\<close>

lemma equal_list_lazy [code]:
  "HOL.equal [] [] \<longleftrightarrow> True" "HOL.equal (x # xs) [] \<longleftrightarrow> False" "HOL.equal [] (y # ys) \<longleftrightarrow> False"
  "HOL.equal (x # xs) (y # ys) \<longleftrightarrow> (if HOL.equal x y then HOL.equal xs ys else False)"
  by (simp_all add: equal_eq)

lemma equal_char_lazy [code]:
  "HOL.equal (Char a b c d e f g h) (Char a' b' c' d' e' f' g' h') \<longleftrightarrow>
     (if a = a' then if b = b' then if c = c' then if d = d' then if e = e' then if f = f' then if g = g' then h = h'
      else False else False else False else False else False else False else False)"
  by (simp add: equal_char_def)

subsection \<open>Exceptions\<close>

text \<open>
  The exception classes the modelled code raises, with the message it builds. A Python
  function that can raise is a HOL function into \<open>'a result\<close>.
\<close>

datatype py_error =
    TypeError string
  | ValueError string
  | OverflowError string
  | ZeroDivisionError string
  | KeyError string
  | AttributeError string
  | ReportFinalizationError string
  | StreamingMetadataMergeError string
  | AmbiguousDirectBaselineError string
  | RuntimeError string
  | JSONDecodeError string
  | IndexError string
  | SubprocessError string string
  | OSError string string  \<comment> \<open>the class, which may be a subclass, and the message\<close>

type_synonym 'a result = "py_error + 'a"

definition bindE :: "'a result \<Rightarrow> ('a \<Rightarrow> 'b result) \<Rightarrow> 'b result" where
  "bindE m f = (case m of Inl e \<Rightarrow> Inl e | Inr x \<Rightarrow> f x)"

text \<open>\<open>raise_if b e\<close> is \<^verbatim>\<open>if b: raise e\<close>; \<open>all_ok\<close> runs statements in order.\<close>

definition raise_if :: "bool \<Rightarrow> py_error \<Rightarrow> unit result" where
  "raise_if b e = (if b then Inl e else Inr ())"

fun all_ok :: "unit result list \<Rightarrow> unit result" where
  "all_ok [] = Inr ()"
| "all_ok (m # ms) = bindE m (\<lambda>_. all_ok ms)"

text \<open>\<open>check\<close> is a call whose value is discarded; \<open>dict_item d k\<close> is \<^verbatim>\<open>d[k]\<close>.\<close>

definition check :: "'a result \<Rightarrow> unit result" where
  "check m = bindE m (\<lambda>_. Inr ())"

definition dict_item :: "(string \<times> 'v) list \<Rightarrow> string \<Rightarrow> 'v result" where
  "dict_item d k = (case map_of d k of None \<Rightarrow> Inl (KeyError k) | Some v \<Rightarrow> Inr v)"

text \<open>
  \<open>forE\<close> and \<open>foriE\<close> are \<^verbatim>\<open>for x in xs\<close> and \<^verbatim>\<open>for i, x in enumerate(xs, i)\<close> over a body
  that can raise; \<open>mapE\<close> and \<open>mapiE\<close> are the list comprehensions; \<open>foldE\<close> is a loop that
  threads a state.
\<close>

fun forE :: "('a \<Rightarrow> unit result) \<Rightarrow> 'a list \<Rightarrow> unit result" where
  "forE f [] = Inr ()"
| "forE f (x # xs) = bindE (f x) (\<lambda>_. forE f xs)"

fun foriE :: "(nat \<Rightarrow> 'a \<Rightarrow> unit result) \<Rightarrow> nat \<Rightarrow> 'a list \<Rightarrow> unit result" where
  "foriE f i [] = Inr ()"
| "foriE f i (x # xs) = bindE (f i x) (\<lambda>_. foriE f (Suc i) xs)"

fun mapE :: "('a \<Rightarrow> 'b result) \<Rightarrow> 'a list \<Rightarrow> 'b list result" where
  "mapE f [] = Inr []"
| "mapE f (x # xs) = bindE (f x) (\<lambda>y. bindE (mapE f xs) (\<lambda>ys. Inr (y # ys)))"

fun mapiE :: "(nat \<Rightarrow> 'a \<Rightarrow> 'b result) \<Rightarrow> nat \<Rightarrow> 'a list \<Rightarrow> 'b list result" where
  "mapiE f i [] = Inr []"
| "mapiE f i (x # xs) = bindE (f i x) (\<lambda>y. bindE (mapiE f (Suc i) xs) (\<lambda>ys. Inr (y # ys)))"

fun foldE :: "('s \<Rightarrow> 'a \<Rightarrow> 's result) \<Rightarrow> 's \<Rightarrow> 'a list \<Rightarrow> 's result" where
  "foldE f s [] = Inr s"
| "foldE f s (x # xs) = bindE (f s x) (\<lambda>t. foldE f t xs)"

text \<open>
  \<open>anyE\<close> is \<^verbatim>\<open>any(...)\<close> over a test that can raise, and \<open>orE\<close> the \<^verbatim>\<open>or\<close> of two tests: both stop
  at the first true one.
\<close>

fun anyE :: "('a \<Rightarrow> bool result) \<Rightarrow> 'a list \<Rightarrow> bool result" where
  "anyE f [] = Inr False"
| "anyE f (x # xs) = bindE (f x) (\<lambda>b. if b then Inr True else anyE f xs)"

definition orE :: "bool \<Rightarrow> bool result \<Rightarrow> bool result" where
  "orE b m = (if b then Inr True else m)"

text \<open>The message of an exception, \<^verbatim>\<open>str(exc)\<close>, and \<^verbatim>\<open>except (TypeError, ValueError)\<close>.\<close>

primrec error_message :: "py_error \<Rightarrow> string" where
  "error_message (TypeError m) = m"
| "error_message (ValueError m) = m"
| "error_message (OverflowError m) = m"
| "error_message (ZeroDivisionError m) = m"
| "error_message (KeyError m) = m"
| "error_message (AttributeError m) = m"
| "error_message (ReportFinalizationError m) = m"
| "error_message (StreamingMetadataMergeError m) = m"
| "error_message (AmbiguousDirectBaselineError m) = m"
| "error_message (RuntimeError m) = m"
| "error_message (JSONDecodeError m) = m"
| "error_message (IndexError m) = m"
| "error_message (SubprocessError c m) = m"
| "error_message (OSError c m) = m"

text \<open>\<^verbatim>\<open>f"{type(error).__name__}: {error}"\<close>\<close>

primrec error_class :: "py_error \<Rightarrow> string" where
  "error_class (TypeError m) = ''TypeError''"
| "error_class (ValueError m) = ''ValueError''"
| "error_class (OverflowError m) = ''OverflowError''"
| "error_class (ZeroDivisionError m) = ''ZeroDivisionError''"
| "error_class (KeyError m) = ''KeyError''"
| "error_class (AttributeError m) = ''AttributeError''"
| "error_class (ReportFinalizationError m) = ''ReportFinalizationError''"
| "error_class (StreamingMetadataMergeError m) = ''StreamingMetadataMergeError''"
| "error_class (AmbiguousDirectBaselineError m) = ''AmbiguousDirectBaselineError''"
| "error_class (RuntimeError m) = ''RuntimeError''"
| "error_class (JSONDecodeError m) = ''JSONDecodeError''"
| "error_class (IndexError m) = ''IndexError''"
| "error_class (SubprocessError c m) = c"
| "error_class (OSError c m) = c"

definition error_text :: "py_error \<Rightarrow> string" where
  "error_text e = error_class e @ '': '' @ error_message e"

text \<open>The classes of the program derive from \<^verbatim>\<open>ValueError\<close>, and so does \<^verbatim>\<open>json.JSONDecodeError\<close>.\<close>

primrec type_or_value_error :: "py_error \<Rightarrow> bool" where
  "type_or_value_error (TypeError m) = True"
| "type_or_value_error (ValueError m) = True"
| "type_or_value_error (OverflowError m) = False"
| "type_or_value_error (ZeroDivisionError m) = False"
| "type_or_value_error (KeyError m) = False"
| "type_or_value_error (AttributeError m) = False"
| "type_or_value_error (ReportFinalizationError m) = True"
| "type_or_value_error (StreamingMetadataMergeError m) = True"
| "type_or_value_error (AmbiguousDirectBaselineError m) = True"
| "type_or_value_error (RuntimeError m) = False"
| "type_or_value_error (JSONDecodeError m) = True"
| "type_or_value_error (IndexError m) = False"
| "type_or_value_error (SubprocessError c m) = False"
| "type_or_value_error (OSError c m) = False"

lemma bindE_simps [simp]:
  "bindE (Inl e) f = Inl e"
  "bindE (Inr x) f = f x"
  by (simp_all add: bindE_def)

lemma bindE_Inr [simp]: "bindE m Inr = m"
  by (cases m) simp_all

lemma bindE_ok [ok]: "bindE m f = Inr y \<longleftrightarrow> (\<exists>x. m = Inr x \<and> f x = Inr y)"
  by (cases m) simp_all

lemma bindE_unit_ok [ok]: "bindE m (\<lambda>_ :: unit. g) = Inr y \<longleftrightarrow> m = Inr () \<and> g = Inr y"
  by (cases m) simp_all

lemma bindE_cong [fundef_cong]:
  "m = n \<Longrightarrow> (\<And>x. n = Inr x \<Longrightarrow> f x = g x) \<Longrightarrow> bindE m f = bindE n g"
  by (cases n) simp_all

lemma raise_if_ok [ok]: "raise_if b e = Inr u \<longleftrightarrow> \<not> b"
  by (simp add: raise_if_def)

lemma raise_if_simps [simp]:
  "raise_if False e = Inr ()"
  "raise_if True e = Inl e"
  by (simp_all add: raise_if_def)

lemma check_ok: "check m = Inr u \<longleftrightarrow> (\<exists>x. m = Inr x)"
  by (cases m) (simp_all add: check_def)

lemma check_simps [simp]: "check (Inr x) = Inr ()" "check (Inl e) = Inl e"
  by (simp_all add: check_def)

lemma dict_item_ok [ok]: "dict_item d k = Inr v \<longleftrightarrow> map_of d k = Some v"
  by (simp add: dict_item_def split: option.splits)

lemma all_ok_ok [ok]: "all_ok ms = Inr u \<longleftrightarrow> (\<forall>m \<in> set ms. m = Inr ())"
  by (induction ms) (simp_all add: ok)

lemma forE_ok [ok]: "forE f xs = Inr u \<longleftrightarrow> (\<forall>x \<in> set xs. f x = Inr ())"
  by (induction xs) (simp_all add: ok)

lemma foriE_ok [ok]: "foriE f i xs = Inr u \<longleftrightarrow> (\<forall>k < length xs. f (i + k) (xs ! k) = Inr ())"
  by (induction xs arbitrary: i) (simp_all add: ok All_less_Suc2)

lemma foriE_Inr_imp: "foriE f i xs = Inr u \<Longrightarrow> x \<in> set xs \<Longrightarrow> \<exists>k. f k x = Inr ()"
  by (auto simp: foriE_ok in_set_conv_nth)

lemma mapE_ok [ok]: "mapE f xs = Inr ys \<longleftrightarrow> list_all2 (\<lambda>x y. f x = Inr y) xs ys"
  by (induction xs arbitrary: ys) (auto simp: ok list_all2_Cons1)

lemma mapE_member: "mapE f xs = Inr ys \<Longrightarrow> x \<in> set xs \<Longrightarrow> \<exists>y \<in> set ys. f x = Inr y"
  by (induction xs arbitrary: ys) (auto simp: bindE_ok)

lemma mapE_image: "mapE f xs = Inr ys \<Longrightarrow> y \<in> set ys \<Longrightarrow> \<exists>x \<in> set xs. f x = Inr y"
  by (induction xs arbitrary: ys) (auto simp: bindE_ok)

lemma mapE_length: "mapE f xs = Inr ys \<Longrightarrow> length ys = length xs"
  by (induction xs arbitrary: ys) (auto simp: bindE_ok)

lemma mapE_append:
  "mapE f (xs @ ys) = bindE (mapE f xs) (\<lambda>us. bindE (mapE f ys) (\<lambda>vs. Inr (us @ vs)))"
proof (induction xs)
  case (Cons x xs)
  then show ?case by (cases "f x"; cases "mapE f xs"; cases "mapE f ys") simp_all
qed simp

lemma mapiE_ok [ok]:
  "mapiE f i xs = Inr ys \<longleftrightarrow>
     length ys = length xs \<and> (\<forall>k < length xs. f (i + k) (xs ! k) = Inr (ys ! k))"
proof (induction xs arbitrary: i ys)
  case Nil
  then show ?case by auto
next
  case (Cons x xs)
  show ?case by (cases ys) (auto simp: ok Cons.IH All_less_Suc2)
qed

lemma mapE_map: "mapE f (map g xs) = mapE (\<lambda>x. f (g x)) xs"
  by (induction xs) simp_all

lemma mapE_Inr: "(\<And>x. x \<in> set xs \<Longrightarrow> f x = Inr (g x)) \<Longrightarrow> mapE f xs = Inr (map g xs)"
  by (induction xs) simp_all

lemma mapE_cong [fundef_cong]:
  "xs = ys \<Longrightarrow> (\<And>x. x \<in> set ys \<Longrightarrow> f x = g x) \<Longrightarrow> mapE f xs = mapE g ys"
  by (induction xs arbitrary: ys) auto

lemma forE_cong [fundef_cong]:
  "xs = ys \<Longrightarrow> (\<And>x. x \<in> set ys \<Longrightarrow> f x = g x) \<Longrightarrow> forE f xs = forE g ys"
  by (induction xs arbitrary: ys) auto

lemma foldE_append: "foldE f s (xs @ ys) = bindE (foldE f s xs) (\<lambda>t. foldE f t ys)"
proof (induction xs arbitrary: s)
  case Nil
  then show ?case by simp
next
  case (Cons x xs)
  show ?case by (cases "f s x") (simp_all add: Cons.IH)
qed

lemma foldE_pure: "(\<And>s x. f s x = Inr (g s x)) \<Longrightarrow> foldE f s xs = Inr (foldl g s xs)"
  by (induction xs arbitrary: s) simp_all

subsection \<open>Grouping\<close>

text \<open>
  Grouping by a key with \<^verbatim>\<open>defaultdict(list)\<close> or \<^verbatim>\<open>setdefault(key, []).append(x)\<close>: the groups
  in order of first appearance, each in the order of its members.\<close>

definition group_by :: "('a \<Rightarrow> 'k) \<Rightarrow> 'a list \<Rightarrow> ('k \<times> 'a list) list" where
  "group_by f xs =
     foldl (\<lambda>groups x. AList.update (f x)
       ((case map_of groups (f x) of None \<Rightarrow> [] | Some g \<Rightarrow> g) @ [x]) groups) [] xs"

lemma group_by_step:
  "sum_list (map (length \<circ> snd) (AList.update k ((case map_of gs k of None \<Rightarrow> [] | Some g \<Rightarrow> g) @ [x]) gs)) =
     Suc (sum_list (map (length \<circ> snd) gs))"
  by (induction gs) auto

lemma group_by_total: "sum_list (map (length \<circ> snd) (group_by f xs)) = length xs"
proof -
  have "sum_list (map (length \<circ> snd) (foldl (\<lambda>groups x. AList.update (f x)
      ((case map_of groups (f x) of None \<Rightarrow> [] | Some g \<Rightarrow> g) @ [x]) groups) gs xs)) =
      sum_list (map (length \<circ> snd) gs) + length xs" for gs
    by (induction xs arbitrary: gs) (simp_all add: group_by_step)
  then show ?thesis by (simp add: group_by_def)
qed

lemma group_by_lookup:
  "(case map_of (group_by f xs) k of None \<Rightarrow> [] | Some g \<Rightarrow> g) = filter (\<lambda>x. f x = k) xs"
proof -
  have "(case map_of (foldl (\<lambda>groups x. AList.update (f x)
      ((case map_of groups (f x) of None \<Rightarrow> [] | Some g \<Rightarrow> g) @ [x]) groups) gs xs) k of
      None \<Rightarrow> [] | Some g \<Rightarrow> g) =
      (case map_of gs k of None \<Rightarrow> [] | Some g \<Rightarrow> g) @ filter (\<lambda>x. f x = k) xs" for gs
    by (induction xs arbitrary: gs) (auto simp: update_conv')
  from this [of "[]"] show ?thesis by (simp add: group_by_def)
qed

lemma group_by_keys: "distinct (map fst (group_by f xs)) \<and> fst ` set (group_by f xs) = f ` set xs"
proof -
  have "distinct (map fst gs) \<Longrightarrow>
      distinct (map fst (foldl (\<lambda>groups x. AList.update (f x)
        ((case map_of groups (f x) of None \<Rightarrow> [] | Some g \<Rightarrow> g) @ [x]) groups) gs xs)) \<and>
      fst ` set (foldl (\<lambda>groups x. AList.update (f x)
        ((case map_of groups (f x) of None \<Rightarrow> [] | Some g \<Rightarrow> g) @ [x]) groups) gs xs) =
      fst ` set gs \<union> f ` set xs" for gs
    by (induction xs arbitrary: gs) (simp_all add: distinct_update dom_update)
  from this [of "[]"] show ?thesis by (simp add: group_by_def)
qed

lemma group_by_member:
  assumes "(k, g) \<in> set (group_by f xs)"
  shows "g = filter (\<lambda>x. f x = k) xs" "g \<noteq> []"
proof -
  have "map_of (group_by f xs) k = Some g"
    using assms group_by_keys [of f xs] by simp
  with group_by_lookup [of f xs k] show g: "g = filter (\<lambda>x. f x = k) xs" by simp
  have "k \<in> f ` set xs"
    using assms group_by_keys [of f xs] by (metis fst_conv image_eqI)
  with g show "g \<noteq> []" by (auto simp: filter_empty_conv)
qed

lemma unit_result_cases: "(m :: unit result) = Inr () \<or> (\<exists>e. m = Inl e)"
  by (cases m) auto

subsection \<open>Lists updated at a position\<close>

lemma sum_list_replace:
  "i < length xs \<Longrightarrow> (\<Sum>x\<leftarrow>xs[i := y]. f x) = (\<Sum>x\<leftarrow>xs. f x) - f (xs ! i) + (f y :: int)"
  by (induction xs arbitrary: i) (auto split: nat.splits)

lemma list_all_replace: "list_all P xs \<Longrightarrow> P y \<Longrightarrow> list_all P (xs[i := y])"
  by (auto simp: list_all_iff dest: set_update_subset_insert [THEN subsetD])

end
