(* ===== verification/PyFloat.thy ===== *)
theory PyFloat
  imports Prelude
begin

text \<open>
  Python's \<^verbatim>\<open>float\<close>: an IEEE 754 binary64 value. A finite value is the rational it denotes
  (a negative zero is the zero it compares equal to), an arithmetic operation is the exact
  rational result rounded once, half to even, as the standard prescribes. Also the
  conversions to and from decimal text the program relies on: \<^verbatim>\<open>repr\<close>, the fixed format
  \<^verbatim>\<open>{x:.nf}\<close> and the parser behind \<^verbatim>\<open>float(text)\<close>.
\<close>

datatype pyfloat = Fin rat | PInf | NInf | NaN

subsection \<open>Rounding to binary64\<close>

text \<open>\<^verbatim>\<open>n.bit_length()\<close> of a nonnegative integer.\<close>

function bit_length :: "int \<Rightarrow> nat" where
  "bit_length n = (if n \<le> 0 then 0 else Suc (bit_length (n div 2)))"
  by pat_completeness auto
termination
  by (relation "measure nat") auto

declare bit_length.simps [simp del]

definition pow2 :: "int \<Rightarrow> rat" where
  "pow2 e = (if 0 \<le> e then 2 ^ nat e else 1 / 2 ^ nat (- e))"

text \<open>The binary exponent of a positive rational: \<open>2\<^bsup>e\<^esup> \<le> x < 2\<^bsup>e+1\<^esup>\<close>.\<close>

definition ilog2 :: "rat \<Rightarrow> int" where
  "ilog2 x =
     (let (n, d) = quotient_of x;
          k = int (bit_length n) - int (bit_length d)
      in if x < pow2 k then k - 1 else k)"

text \<open>\<^verbatim>\<open>round(x)\<close>: to the nearest integer, half to even.\<close>

definition round_half_even :: "rat \<Rightarrow> int" where
  "round_half_even x =
     (let f = \<lfloor>x\<rfloor>; r = x - of_int f
      in if r < 1 / 2 then f else if 1 / 2 < r then f + 1 else if even f then f else f + 1)"

text \<open>The least magnitude that overflows: twice the largest power of two of the format.\<close>

definition float_limit :: rat where
  "float_limit = 2 ^ 1024"

text \<open>
  The exponent of the last place of the result (never below the subnormal one), and the
  multiple of that place the argument rounds to.
\<close>

definition round_scaled :: "rat \<Rightarrow> int \<Rightarrow> rat" where
  "round_scaled x e = of_int (round_half_even (x / pow2 e)) * pow2 e"

definition float_exponent :: "rat \<Rightarrow> int" where
  "float_exponent x = max (ilog2 \<bar>x\<bar> - 52) (- 1074)"

definition round64 :: "rat \<Rightarrow> pyfloat" where
  "round64 x =
     (if x = 0 then Fin 0
      else let y = round_scaled x (float_exponent x)
           in if float_limit \<le> y then PInf else if y \<le> - float_limit then NInf else Fin y)"

subsection \<open>Arithmetic and comparison\<close>

primrec is_finite :: "pyfloat \<Rightarrow> bool" where
  "is_finite (Fin r) = True"
| "is_finite PInf = False"
| "is_finite NInf = False"
| "is_finite NaN = False"

fun fneg :: "pyfloat \<Rightarrow> pyfloat" where
  "fneg (Fin a) = Fin (- a)"
| "fneg PInf = NInf"
| "fneg NInf = PInf"
| "fneg NaN = NaN"

fun fadd :: "pyfloat \<Rightarrow> pyfloat \<Rightarrow> pyfloat" where
  "fadd NaN y = NaN"
| "fadd x NaN = NaN"
| "fadd (Fin a) (Fin b) = round64 (a + b)"
| "fadd PInf NInf = NaN"
| "fadd NInf PInf = NaN"
| "fadd PInf y = PInf"
| "fadd NInf y = NInf"
| "fadd (Fin a) y = y"

definition fsub :: "pyfloat \<Rightarrow> pyfloat \<Rightarrow> pyfloat" where
  "fsub x y = fadd x (fneg y)"

definition signed_inf :: "bool \<Rightarrow> pyfloat" where
  "signed_inf negative = (if negative then NInf else PInf)"

fun fsign :: "pyfloat \<Rightarrow> int" where
  "fsign (Fin a) = (if a < 0 then -1 else if a = 0 then 0 else 1)"
| "fsign PInf = 1"
| "fsign NInf = -1"
| "fsign NaN = 0"

fun fmul :: "pyfloat \<Rightarrow> pyfloat \<Rightarrow> pyfloat" where
  "fmul (Fin a) (Fin b) = round64 (a * b)"
| "fmul x y =
     (if x = NaN \<or> y = NaN then NaN
      else let s = fsign x * fsign y in if s = 0 then NaN else signed_inf (s < 0))"

text \<open>Python raises on a zero divisor, whatever the dividend.\<close>

fun fdiv :: "pyfloat \<Rightarrow> pyfloat \<Rightarrow> pyfloat result" where
  "fdiv (Fin a) (Fin b) =
     (if b = 0 then Inl (ZeroDivisionError ''division by zero'') else Inr (round64 (a / b)))"
| "fdiv x (Fin b) =
     (if b = 0 then Inl (ZeroDivisionError ''division by zero'')
      else if x = NaN then Inr NaN else Inr (signed_inf ((fsign x < 0) \<noteq> (b < 0))))"
| "fdiv (Fin a) NaN = Inr NaN"
| "fdiv (Fin a) y = Inr (Fin 0)"
| "fdiv x y = Inr NaN"

fun flt :: "pyfloat \<Rightarrow> pyfloat \<Rightarrow> bool" where
  "flt (Fin a) (Fin b) = (a < b)"
| "flt NaN y = False"
| "flt x NaN = False"
| "flt x PInf = (x \<noteq> PInf)"
| "flt NInf y = (y \<noteq> NInf)"
| "flt x y = False"

fun feq :: "pyfloat \<Rightarrow> pyfloat \<Rightarrow> bool" where
  "feq NaN y = False"
| "feq x y = (x = y)"

definition fle :: "pyfloat \<Rightarrow> pyfloat \<Rightarrow> bool" where
  "fle x y \<longleftrightarrow> flt x y \<or> feq x y"

text \<open>\<^verbatim>\<open>float(n)\<close> of an integer: rounded, and an error beyond the largest finite value.\<close>

definition float_of_int :: "int \<Rightarrow> pyfloat result" where
  "float_of_int n =
     (case round64 (of_int n) of
        Fin r \<Rightarrow> Inr (Fin r)
      | _ \<Rightarrow> Inl (OverflowError ''int too large to convert to float''))"

text \<open>\<^verbatim>\<open>int(x)\<close> of a float truncates towards zero; infinities and NaN raise.\<close>

fun int_of_float :: "pyfloat \<Rightarrow> int result" where
  "int_of_float (Fin r) = Inr (if r < 0 then \<lceil>r\<rceil> else \<lfloor>r\<rfloor>)"
| "int_of_float NaN = Inl (ValueError ''cannot convert float NaN to integer'')"
| "int_of_float x = Inl (OverflowError ''cannot convert float infinity to integer'')"

text \<open>\<^verbatim>\<open>x.is_integer()\<close>.\<close>

fun is_integer :: "pyfloat \<Rightarrow> bool" where
  "is_integer (Fin r) = (r = of_int \<lfloor>r\<rfloor>)"
| "is_integer x = False"

subsection \<open>A total order for sorting\<close>

text \<open>
  The key order of \<^verbatim>\<open>sorted\<close> and \<^verbatim>\<open>max\<close> on the floats that occur there: it agrees with
  \<open>flt\<close> wherever neither side is NaN, and puts NaN last.
\<close>

primrec float_rank :: "pyfloat \<Rightarrow> nat \<times> rat" where
  "float_rank NInf = (0, 0)"
| "float_rank (Fin r) = (1, r)"
| "float_rank PInf = (2, 0)"
| "float_rank NaN = (3, 0)"

instantiation pyfloat :: linorder
begin

definition less_eq_pyfloat :: "pyfloat \<Rightarrow> pyfloat \<Rightarrow> bool" where
  "less_eq_pyfloat x y \<longleftrightarrow>
     fst (float_rank x) < fst (float_rank y) \<or>
     fst (float_rank x) = fst (float_rank y) \<and> snd (float_rank x) \<le> snd (float_rank y)"

definition less_pyfloat :: "pyfloat \<Rightarrow> pyfloat \<Rightarrow> bool" where
  "less_pyfloat x y \<longleftrightarrow> x \<le> y \<and> \<not> y \<le> (x :: pyfloat)"

instance
proof
  fix x y z :: pyfloat
  show "(x < y) = (x \<le> y \<and> \<not> y \<le> x)" by (simp add: less_pyfloat_def)
  show "x \<le> x" by (simp add: less_eq_pyfloat_def)
  show "x \<le> y \<Longrightarrow> y \<le> z \<Longrightarrow> x \<le> z" by (auto simp: less_eq_pyfloat_def)
  show "x \<le> y \<Longrightarrow> y \<le> x \<Longrightarrow> x = y"
    by (cases x; cases y) (auto simp: less_eq_pyfloat_def)
  show "x \<le> y \<or> y \<le> x" by (auto simp: less_eq_pyfloat_def)
qed

end

lemma Fin_le_Fin [simp]: "Fin a \<le> Fin b \<longleftrightarrow> a \<le> b"
  by (simp add: less_eq_pyfloat_def)

lemma Fin_less_Fin [simp]: "Fin a < Fin b \<longleftrightarrow> a < b"
  by (auto simp: less_pyfloat_def less_eq_pyfloat_def)

lemma flt_iff_less: "x \<noteq> NaN \<Longrightarrow> y \<noteq> NaN \<Longrightarrow> flt x y \<longleftrightarrow> x < y"
  by (cases x; cases y) (auto simp: less_pyfloat_def less_eq_pyfloat_def)

subsection \<open>Rounding lemmas\<close>

lemma bit_length_bounds:
  "0 < n \<Longrightarrow> 0 < bit_length n \<and> 2 ^ (bit_length n - 1) \<le> n \<and> n < 2 ^ bit_length n"
proof (induction n rule: bit_length.induct)
  case (1 n)
  show ?case
  proof (cases "n = 1")
    case True
    then show ?thesis by (simp add: bit_length.simps)
  next
    case False
    with "1.prems" have pos: "0 < n div 2" by auto
    have b: "bit_length n = Suc (bit_length (n div 2))"
      using "1.prems" by (subst bit_length.simps) simp
    from "1.IH" "1.prems" pos
    have ih: "0 < bit_length (n div 2)" "2 ^ (bit_length (n div 2) - 1) \<le> n div 2"
      "n div 2 < 2 ^ bit_length (n div 2)"
      by auto
    have "(2::int) ^ bit_length (n div 2) = 2 * 2 ^ (bit_length (n div 2) - 1)"
      using ih(1) by (metis Suc_diff_1 power_Suc)
    with ih b show ?thesis by simp linarith
  qed
qed

lemma pow2_pos [simp]: "0 < pow2 e"
  by (simp add: pow2_def)

lemma pow2_nonzero [simp]: "pow2 e \<noteq> 0"
  using pow2_pos [of e] by linarith

lemma pow2_eq_powi: "pow2 e = 2 powi e"
  by (simp add: pow2_def power_int_def power_one_over field_simps)

lemma pow2_add: "pow2 (a + b) = pow2 a * pow2 b"
  by (simp add: pow2_eq_powi power_int_add)

lemma pow2_mono: "a \<le> b \<Longrightarrow> pow2 a \<le> pow2 b"
  by (simp add: pow2_eq_powi power_int_increasing)

lemma pow2_strict_mono: "a < b \<Longrightarrow> pow2 a < pow2 b"
  by (simp add: pow2_eq_powi power_int_strict_increasing)

lemma pow2_of_nat: "pow2 (int k) = 2 ^ k"
  by (simp add: pow2_def)

lemma pow2_diff: "pow2 (a - b) = pow2 a / pow2 b"
  using pow2_add [of "a - b" b] by (simp add: field_simps)

lemma pow2_int: "0 \<le> e \<Longrightarrow> pow2 e = of_int (2 ^ nat e)"
  by (simp add: pow2_def)

lemma bit_length_rat:
  assumes "0 < n"
  shows "pow2 (int (bit_length n) - 1) \<le> of_int n" and "of_int n < pow2 (int (bit_length n))"
proof -
  from bit_length_bounds [OF assms] have "0 < bit_length n"
    and "2 ^ (bit_length n - 1) \<le> n" and "n < 2 ^ bit_length n" by auto
  then have e: "int (bit_length n) - 1 = int (bit_length n - 1)"
    and "(of_int (2 ^ (bit_length n - 1)) :: rat) \<le> of_int n"
    and "(of_int n :: rat) < of_int (2 ^ bit_length n)"
    by (simp_all only: of_int_le_iff of_int_less_iff)
  then show "pow2 (int (bit_length n) - 1) \<le> of_int n" and "of_int n < pow2 (int (bit_length n))"
    unfolding e pow2_of_nat by simp_all
qed

lemma ilog2_bounds:
  assumes "0 < x"
  shows "pow2 (ilog2 x) \<le> x" and "x < pow2 (ilog2 x + 1)"
proof -
  obtain n d where nd: "quotient_of x = (n, d)" by (cases "quotient_of x")
  then have x: "x = of_int n / of_int d" and d: "0 < d"
    using quotient_of_div quotient_of_denom_pos by blast+
  with assms have n: "0 < n" by (simp add: zero_less_divide_iff)
  let ?a = "int (bit_length n)" and ?b = "int (bit_length d)"
  have rd: "(0::rat) < of_int d" using d by simp
  have lo: "pow2 (?a - ?b - 1) \<le> x"
  proof -
    have "pow2 (?a - 1) / pow2 ?b \<le> of_int n / of_int d"
      using bit_length_rat [OF n] bit_length_rat [OF d] rd n
      by (intro frac_le) auto
    then show ?thesis by (simp add: x algebra_simps flip: pow2_diff)
  qed
  have hi: "x < pow2 (?a - ?b + 1)"
  proof -
    have "of_int n / of_int d < pow2 ?a / pow2 (?b - 1)"
      using bit_length_rat [OF n] bit_length_rat [OF d] rd n
      by (intro frac_less) auto
    then show ?thesis by (simp add: x algebra_simps flip: pow2_diff)
  qed
  show "pow2 (ilog2 x) \<le> x" and "x < pow2 (ilog2 x + 1)"
    using lo hi by (auto simp: ilog2_def nd Let_def)
qed

lemma round_half_even_of_int [simp]: "round_half_even (of_int n) = n"
  by (simp add: round_half_even_def Let_def)

lemma round_half_even_mono:
  assumes "x \<le> y"
  shows "round_half_even x \<le> round_half_even y"
proof (cases "\<lfloor>x\<rfloor> = \<lfloor>y\<rfloor>")
  case True
  then show ?thesis using assms by (auto simp: round_half_even_def Let_def)
next
  case False
  then have "\<lfloor>x\<rfloor> + 1 \<le> \<lfloor>y\<rfloor>" using floor_mono [OF assms] by simp
  moreover have "round_half_even x \<le> \<lfloor>x\<rfloor> + 1" "\<lfloor>y\<rfloor> \<le> round_half_even y"
    by (simp_all add: round_half_even_def Let_def)
  ultimately show ?thesis by linarith
qed

lemma round_half_even_nonneg: "0 \<le> x \<Longrightarrow> 0 \<le> round_half_even x"
  using round_half_even_mono [of 0 x] round_half_even_of_int [of 0] by simp

lemma div_pow2_mono: "x \<le> y \<Longrightarrow> x / pow2 e \<le> y / pow2 e"
  by (rule divide_right_mono) (simp_all add: less_imp_le)

lemma div_pow2_nonneg: "0 \<le> x \<Longrightarrow> 0 \<le> x / pow2 e"
  by (simp add: less_imp_le)

lemma round_half_even_uminus: "round_half_even (- x) = - round_half_even x"
proof (cases "x = of_int \<lfloor>x\<rfloor>")
  case True
  then show ?thesis by (metis of_int_minus round_half_even_of_int)
next
  case False
  then have "\<lceil>x\<rceil> = \<lfloor>x\<rfloor> + 1" by (simp add: ceiling_altdef)
  then have c: "\<lfloor>- x\<rfloor> = - \<lfloor>x\<rfloor> - 1" by (simp add: floor_minus)
  show ?thesis using False by (auto simp: round_half_even_def Let_def c)
qed

lemma abs_pow2 [simp]: "\<bar>pow2 e\<bar> = pow2 e"
  by (simp add: abs_of_pos)

lemma round64_exact:
  assumes "x = of_int m * pow2 e" and "\<bar>m\<bar> \<le> 2 ^ 53" and "- 1074 \<le> e" and "\<bar>x\<bar> < float_limit"
  shows "round64 x = Fin x"
proof (cases "x = 0")
  case True
  then show ?thesis by (simp add: round64_def)
next
  case False
  define k where "k = float_exponent x"
  have x0: "0 < \<bar>x\<bar>" using False by simp
  have ax: "\<bar>x\<bar> = of_int \<bar>m\<bar> * pow2 e" using assms(1) by (simp add: abs_mult)
  obtain j where j: "x / pow2 k = of_int j"
  proof (cases "k \<le> e")
    case True
    then have "x / pow2 k = of_int m * pow2 (e - k)" by (simp add: assms(1) pow2_diff)
    also have "\<dots> = of_int (m * 2 ^ nat (e - k))" using True by (simp add: pow2_int)
    finally show ?thesis by (rule that)
  next
    case False
    then have "k = ilog2 \<bar>x\<bar> - 52" using assms(3) by (simp add: k_def float_exponent_def)
    then have lo: "pow2 (k + 52) \<le> \<bar>x\<bar>" using ilog2_bounds [OF x0] by simp
    have "of_int \<bar>m\<bar> \<le> (pow2 53 :: rat)"
      using assms(2) by (simp add: pow2_def flip: of_int_power)
    then have "\<bar>x\<bar> \<le> pow2 (53 + e)" by (simp add: ax pow2_add)
    with lo have "pow2 (k + 52) \<le> pow2 (53 + e)" by linarith
    then have "k + 52 \<le> 53 + e" using pow2_strict_mono by (meson not_le)
    with False have ke: "k = e + 1" by simp
    with lo have "pow2 (53 + e) \<le> \<bar>x\<bar>" by (simp add: algebra_simps)
    with \<open>\<bar>x\<bar> \<le> pow2 (53 + e)\<close> have "\<bar>x\<bar> = pow2 (53 + e)" by simp
    then have "x = pow2 (53 + e) \<or> x = - pow2 (53 + e)" by linarith
    moreover have "pow2 (53 + e) / pow2 k = pow2 52"
      by (simp add: ke flip: pow2_diff)
    then have "pow2 (53 + e) / pow2 k = of_int (2 ^ 52)" by (simp add: pow2_def)
    ultimately show ?thesis using that [of "2 ^ 52"] that [of "- (2 ^ 52)"] by auto
  qed
  then have "round_scaled x k = x" by (simp add: round_scaled_def field_simps)
  with False assms(4) show ?thesis by (auto simp: round64_def k_def Let_def)
qed

lemma round64_of_int: "\<bar>n\<bar> \<le> 2 ^ 53 \<Longrightarrow> round64 (of_int n) = Fin (of_int n)"
proof (rule round64_exact [where m = n and e = 0])
  assume n: "\<bar>n\<bar> \<le> 2 ^ 53"
  have "\<bar>n\<bar> < 2 ^ 1024" using n by simp
  then have "(of_int \<bar>n\<bar> :: rat) < of_int (2 ^ 1024)" by (simp only: of_int_less_iff)
  then show "\<bar>rat_of_int n\<bar> < float_limit" by (simp add: float_limit_def)
qed (simp_all add: pow2_def)

lemma float_limit_pos: "0 < float_limit"
  by (simp add: float_limit_def)

text \<open>Small integers are floats, so nothing is rounded.\<close>

lemma round64_code [code]:
  "round64 x =
     (let n = \<lfloor>x\<rfloor>
      in if of_int n = x \<and> \<bar>n\<bar> \<le> 9007199254740992 then Fin x
         else let y = round_scaled x (float_exponent x)
              in if float_limit \<le> y then PInf else if y \<le> - float_limit then NInf else Fin y)"
proof (cases "of_int \<lfloor>x\<rfloor> = x \<and> \<bar>\<lfloor>x\<rfloor>\<bar> \<le> 9007199254740992")
  case True
  define n where "n = \<lfloor>x\<rfloor>"
  have n: "x = of_int n" "\<bar>n\<bar> \<le> 2 ^ 53" using True [THEN conjunct1, symmetric] True [THEN conjunct2] by (simp_all only: n_def) simp
  then show ?thesis by (simp add: round64_of_int)
next
  case False
  then have "x \<noteq> 0" by auto
  with False show ?thesis by (auto simp: round64_def Let_def)
qed

lemma round64_uminus: "round64 (- x) = fneg (round64 x)"
  using float_limit_pos by (auto simp: round64_def Let_def round_scaled_def float_exponent_def round_half_even_uminus)

lemma round_scaled_nonneg: "0 \<le> x \<Longrightarrow> 0 \<le> round_scaled x e"
  unfolding round_scaled_def
  by (intro mult_nonneg_nonneg) (simp_all add: round_half_even_nonneg div_pow2_nonneg less_imp_le)

lemma round64_pos:
  assumes "0 < x"
  shows "round64 x =
    (if float_limit \<le> round_scaled x (float_exponent x) then PInf else Fin (round_scaled x (float_exponent x)))"
proof -
  have "0 \<le> round_scaled x (float_exponent x)" using assms by (intro round_scaled_nonneg) simp
  then have "\<not> round_scaled x (float_exponent x) \<le> - float_limit"
    using float_limit_pos by linarith
  then show ?thesis
    using assms by (simp add: round64_def Let_def)
qed

lemma pow2_diff_int: "a \<le> n \<Longrightarrow> \<exists>c. pow2 (n - a) = of_int c"
  by (rule exI [of _ "2 ^ nat (n - a)"]) (simp add: pow2_def)

lemma pow2_split: "pow2 n = pow2 (n - a) * pow2 a"
  by (simp flip: pow2_add)

lemma round_scaled_upper:
  assumes "x \<le> pow2 n" and "a \<le> n"
  shows "round_scaled x a \<le> pow2 n"
proof -
  obtain c where c: "pow2 (n - a) = of_int c" using pow2_diff_int [OF assms(2)] by blast
  have "x / pow2 a \<le> of_int c" using div_pow2_mono [OF assms(1), of a] by (simp add: c flip: pow2_diff)
  then have "round_half_even (x / pow2 a) \<le> c" using round_half_even_mono round_half_even_of_int by metis
  then have "of_int (round_half_even (x / pow2 a)) * pow2 a \<le> of_int c * pow2 a"
    by (intro mult_right_mono) (simp_all add: less_imp_le)
  then show ?thesis by (simp add: round_scaled_def pow2_split [of n a] c)
qed

lemma round_scaled_lower:
  assumes "pow2 n \<le> y" and "a \<le> n"
  shows "pow2 n \<le> round_scaled y a"
proof -
  obtain c where c: "pow2 (n - a) = of_int c" using pow2_diff_int [OF assms(2)] by blast
  have "of_int c \<le> y / pow2 a" using div_pow2_mono [OF assms(1), of a] by (simp add: c flip: pow2_diff)
  then have "c \<le> round_half_even (y / pow2 a)" using round_half_even_mono round_half_even_of_int by metis
  then have "of_int c * pow2 a \<le> of_int (round_half_even (y / pow2 a)) * pow2 a"
    by (intro mult_right_mono) (simp_all add: less_imp_le)
  then show ?thesis by (simp add: round_scaled_def pow2_split [of n a] c)
qed

lemma round_scaled_mono:
  assumes "0 < x" and "x \<le> y"
  shows "round_scaled x (float_exponent x) \<le> round_scaled y (float_exponent y)"
proof (cases "float_exponent x = float_exponent y")
  case True
  have "round_half_even (x / pow2 (float_exponent y)) \<le> round_half_even (y / pow2 (float_exponent y))"
    using assms(2) by (intro round_half_even_mono div_pow2_mono)
  then show ?thesis unfolding True round_scaled_def
    by (intro mult_right_mono) (simp_all add: less_imp_le)
next
  case False
  have y0: "0 < y" using assms by simp
  have "pow2 (ilog2 x) < pow2 (ilog2 y + 1)"
    using ilog2_bounds [OF assms(1)] ilog2_bounds [OF y0] assms(2) by linarith
  then have "\<not> ilog2 y + 1 \<le> ilog2 x" by (meson not_le pow2_mono)
  then have le: "ilog2 x \<le> ilog2 y" by simp
  with False assms(1) y0 have lt: "ilog2 x < ilog2 y" and ab: "float_exponent x \<le> ilog2 y"
    and b: "float_exponent y \<le> ilog2 y"
    by (auto simp: float_exponent_def)
  have "x \<le> pow2 (ilog2 y)"
    using ilog2_bounds(2) [OF assms(1)] pow2_mono [of "ilog2 x + 1" "ilog2 y"] lt by linarith
  from round_scaled_upper [OF this ab] round_scaled_lower [OF ilog2_bounds(1) [OF y0] b]
  show ?thesis by (rule order_trans)
qed

lemma round64_mono_pos: "0 < x \<Longrightarrow> x \<le> y \<Longrightarrow> round64 x \<le> round64 y"
  using round_scaled_mono [of x y] by (auto simp: round64_pos less_eq_pyfloat_def)

lemma round64_ge_0: "0 \<le> x \<Longrightarrow> Fin 0 \<le> round64 x"
proof (cases "x = 0")
  case True
  then show ?thesis by (simp add: round64_def)
next
  case False
  assume "0 \<le> x"
  with False show ?thesis
    using round_scaled_nonneg [of x] by (simp add: round64_pos less_eq_pyfloat_def)
qed

lemma fneg_antimono: "x \<noteq> NaN \<Longrightarrow> y \<noteq> NaN \<Longrightarrow> fneg x \<le> fneg y \<longleftrightarrow> y \<le> x"
  by (cases x; cases y) (auto simp: less_eq_pyfloat_def)

lemma round64_not_NaN [simp]: "round64 x \<noteq> NaN"
  by (simp add: round64_def Let_def)

lemma round64_mono:
  assumes "x \<le> y"
  shows "round64 x \<le> round64 y"
proof (cases "0 < x")
  case True
  then show ?thesis using assms by (rule round64_mono_pos)
next
  case x: False
  show ?thesis
  proof (cases "0 \<le> y")
    case True
    have "Fin 0 \<le> round64 (- x)" using x by (intro round64_ge_0) simp
    then have "round64 x \<le> Fin 0"
      using fneg_antimono [of "Fin 0" "round64 x"] by (simp add: round64_uminus)
    also have "\<dots> \<le> round64 y" using True by (rule round64_ge_0)
    finally show ?thesis .
  next
    case False
    then have "round64 (- y) \<le> round64 (- x)" using assms by (intro round64_mono_pos) auto
    then show ?thesis using fneg_antimono [of "round64 y" "round64 x"] by (simp add: round64_uminus)
  qed
qed

end
