(* ===== verification/PyText.thy ===== *)
theory PyText
  imports PyFloat
begin

text \<open>
  Python's \<^verbatim>\<open>str\<close> as far as the program uses it, over strings of code points below 256:
  stripping, splitting on a comma, joining, decimal text of integers and floats, and the
  parsers behind \<^verbatim>\<open>int(text)\<close> and \<^verbatim>\<open>float(text)\<close>.
\<close>

subsection \<open>Characters and strings\<close>

definition char_code :: "char \<Rightarrow> nat" where
  "char_code c = of_char c"

definition is_space :: "char \<Rightarrow> bool" where
  "is_space c = (let n = char_code c in
     9 \<le> n \<and> n \<le> 13 \<or> 28 \<le> n \<and> n \<le> 32 \<or> n = 133 \<or> n = 160)"

definition is_digit :: "char \<Rightarrow> bool" where
  "is_digit c = (48 \<le> char_code c \<and> char_code c \<le> 57)"

definition strip :: "string \<Rightarrow> string" where
  "strip s = rev (dropWhile is_space (rev (dropWhile is_space s)))"

fun split_on :: "char \<Rightarrow> string \<Rightarrow> string list" where
  "split_on c [] = [[]]"
| "split_on c (x # xs) =
     (if x = c then [] # split_on c xs
      else case split_on c xs of [] \<Rightarrow> [[x]] | p # ps \<Rightarrow> (x # p) # ps)"

fun join :: "string \<Rightarrow> string list \<Rightarrow> string" where
  "join sep [] = []"
| "join sep [x] = x"
| "join sep (x # xs) = x @ sep @ join sep xs"

definition starts_with :: "string \<Rightarrow> string \<Rightarrow> bool" where
  "starts_with s p = (take (length p) s = p)"

definition ends_with :: "string \<Rightarrow> string \<Rightarrow> bool" where
  "ends_with s p = (rev p = take (length p) (rev s))"

subsection \<open>Decimal text of integers\<close>

definition digit_char :: "nat \<Rightarrow> char" where
  "digit_char d = ''0123456789'' ! d"

function nat_str :: "int \<Rightarrow> string" where
  "nat_str n =
     (if n < 10 then [digit_char (nat n)] else nat_str (n div 10) @ [digit_char (nat (n mod 10))])"
  by pat_completeness auto
termination
  by (relation "measure nat") auto

declare nat_str.simps [simp del]

definition int_str :: "int \<Rightarrow> string" where
  "int_str i = (if i < 0 then ''-'' @ nat_str (- i) else nat_str i)"

definition zfill :: "nat \<Rightarrow> string \<Rightarrow> string" where
  "zfill w s = replicate (w - length s) CHR ''0'' @ s"

subsection \<open>Decimal text of floats\<close>

text \<open>\<^verbatim>\<open>f"{x:.nf}"\<close>: the exact value rounded half to even at the n-th decimal.\<close>

primrec fixed_str :: "nat \<Rightarrow> pyfloat \<Rightarrow> string" where
  "fixed_str n (Fin r) =
     (let m = round_half_even (\<bar>r\<bar> * 10 ^ n)
      in (if r < 0 then ''-'' else []) @ nat_str (m div 10 ^ n) @
         (if n = 0 then [] else ''.'' @ zfill n (nat_str (m mod 10 ^ n))))"
| "fixed_str n PInf = ''inf''"
| "fixed_str n NInf = ''-inf''"
| "fixed_str n NaN = ''nan''"

definition pow10 :: "int \<Rightarrow> rat" where
  "pow10 e = (if 0 \<le> e then 10 ^ nat e else 1 / 10 ^ nat (- e))"

text \<open>The decimal exponent of a positive rational, from its binary one.\<close>

definition ilog10 :: "rat \<Rightarrow> int" where
  "ilog10 x = (let k = (ilog2 x * 1233) div 4096
     in if x < pow10 k then k - 1 else if pow10 (k + 1) \<le> x then k + 1 else k)"

text \<open>
  The shortest decimal that reads back as the same float, the closest of that length:
  the digits and the position of the decimal point, as \<^verbatim>\<open>repr(float)\<close> computes them.
\<close>

definition digit_candidates :: "rat \<Rightarrow> nat \<Rightarrow> int list" where
  "digit_candidates x n =
     (let s = pow10 (ilog10 x - int n + 1); f = \<lfloor>x / s\<rfloor>; r = x / s - of_int f
      in filter (\<lambda>m. round64 (of_int m * s) = Fin x)
           (if r < 1 / 2 \<or> r = 1 / 2 \<and> even f then [f, f + 1] else [f + 1, f]))"

fun shortest_digits :: "nat \<Rightarrow> rat \<Rightarrow> nat \<Rightarrow> string \<times> int" where
  "shortest_digits 0 x n = (nat_str \<lfloor>x / pow10 (ilog10 x - 16)\<rfloor>, ilog10 x + 1)"
| "shortest_digits (Suc fuel) x n =
     (case digit_candidates x n of
        [] \<Rightarrow> shortest_digits fuel x (Suc n)
      | m # _ \<Rightarrow> (let ds = nat_str m in (ds, ilog10 x + 1 + int (length ds) - int n)))"

definition strip_zeros :: "string \<Rightarrow> string" where
  "strip_zeros ds = rev (dropWhile (\<lambda>c. c = CHR ''0'') (rev ds))"

definition layout_float :: "string \<Rightarrow> int \<Rightarrow> string" where
  "layout_float ds decpt =
     (if -4 < decpt \<and> decpt \<le> 16 then
        (if decpt \<le> 0 then ''0.'' @ replicate (nat (- decpt)) CHR ''0'' @ ds
         else if int (length ds) \<le> decpt
         then ds @ replicate (nat decpt - length ds) CHR ''0'' @ ''.0''
         else take (nat decpt) ds @ ''.'' @ drop (nat decpt) ds)
      else
        (let e = decpt - 1
         in take 1 ds @ (if length ds = 1 then [] else ''.'' @ drop 1 ds) @ ''e'' @
            (if e < 0 then ''-'' else ''+'') @ zfill 2 (nat_str \<bar>e\<bar>)))"

primrec float_repr :: "pyfloat \<Rightarrow> string" where
  "float_repr (Fin r) =
     (if r = 0 then ''0.0''
      else case shortest_digits 17 \<bar>r\<bar> 1 of
        (ds, decpt) \<Rightarrow> (if r < 0 then ''-'' else []) @ layout_float (strip_zeros ds) decpt)"
| "float_repr PInf = ''inf''"
| "float_repr NInf = ''-inf''"
| "float_repr NaN = ''nan''"

subsection \<open>Parsing numbers\<close>

text \<open>An underscore may only stand between two digits; the digits are read without them.\<close>

fun underscores_ok :: "bool \<Rightarrow> string \<Rightarrow> bool" where
  "underscores_ok after_digit [] = True"
| "underscores_ok after_digit (c # cs) =
     (if c = CHR ''_'' then
        after_digit \<and> (case cs of [] \<Rightarrow> False | d # _ \<Rightarrow> is_digit d) \<and> underscores_ok False cs
      else underscores_ok (is_digit c) cs)"

definition drop_underscores :: "string \<Rightarrow> string" where
  "drop_underscores s = filter (\<lambda>c. c \<noteq> CHR ''_'') s"

definition digits_value :: "string \<Rightarrow> int" where
  "digits_value ds = foldl (\<lambda>n c. 10 * n + (int (char_code c) - 48)) 0 ds"

definition split_sign :: "string \<Rightarrow> bool \<times> string" where
  "split_sign s = (case s of
      [] \<Rightarrow> (False, [])
    | c # cs \<Rightarrow> if c = CHR ''-'' then (True, cs) else if c = CHR ''+'' then (False, cs) else (False, s))"

text \<open>\<^verbatim>\<open>int(text)\<close>; the interpreter's limit of 4300 digits is part of it.\<close>

definition max_int_digits :: nat where
  "max_int_digits = 4300"

definition parse_int :: "string \<Rightarrow> int option" where
  "parse_int s =
     (let (negative, body) = split_sign (strip s); ds = drop_underscores body
      in if ds \<noteq> [] \<and> list_all is_digit ds \<and> underscores_ok False body \<and> length ds \<le> max_int_digits
         then Some (if negative then - digits_value ds else digits_value ds) else None)"

definition lower_char :: "char \<Rightarrow> char" where
  "lower_char c = (if 65 \<le> char_code c \<and> char_code c \<le> 90 then char_of (char_code c + 32) else c)"

text \<open>The optional exponent of a float literal: nothing, or a mark, a sign and digits.\<close>

definition parse_exponent :: "string \<Rightarrow> int option" where
  "parse_exponent s = (case s of
      [] \<Rightarrow> Some 0
    | c # cs \<Rightarrow>
        if lower_char c = CHR ''e'' then
          (let (negative, ds) = split_sign cs
           in if ds \<noteq> [] \<and> list_all is_digit ds
              then Some (if negative then - digits_value ds else digits_value ds) else None)
        else None)"

definition parse_decimal :: "string \<Rightarrow> rat option" where
  "parse_decimal s =
     (let ip = takeWhile is_digit s; rest = dropWhile is_digit s;
          (fp, tail) = (case rest of
             [] \<Rightarrow> ([], [])
           | c # cs \<Rightarrow> if c = CHR ''.'' then (takeWhile is_digit cs, dropWhile is_digit cs) else ([], rest))
      in if ip = [] \<and> fp = [] then None
         else map_option (\<lambda>e. of_int (digits_value (ip @ fp)) * pow10 (e - int (length fp)))
                (parse_exponent tail))"

definition parse_float :: "string \<Rightarrow> pyfloat option" where
  "parse_float s =
     (let (negative, body) = split_sign (strip s); word = map lower_char body
      in if word = ''inf'' \<or> word = ''infinity'' then Some (signed_inf negative)
         else if word = ''nan'' then Some NaN
         else if underscores_ok False body
         then map_option (\<lambda>q. round64 (if negative then - q else q)) (parse_decimal (drop_underscores body))
         else None)"

subsection \<open>Lemmas\<close>

lemma join_Cons: "join sep (x # xs) = (if xs = [] then x else x @ sep @ join sep xs)"
  by (cases xs) simp_all

lemma strip_Nil [simp]: "strip [] = []"
  by (simp add: strip_def)

text \<open>The decimal text of a natural number is made of digits and read back by \<open>digits_value\<close>.\<close>

lemma digit_char_code: "d < 10 \<Longrightarrow> is_digit (digit_char d) \<and> char_code (digit_char d) = 48 + d"
proof -
  have "list_all (\<lambda>d. is_digit (digit_char d) \<and> char_code (digit_char d) = 48 + d) [0..<10]"
    by code_simp
  then show "d < 10 \<Longrightarrow> is_digit (digit_char d) \<and> char_code (digit_char d) = 48 + d"
    by (simp add: list_all_iff)
qed

lemma nat_str_digits: "0 \<le> n \<Longrightarrow> list_all is_digit (nat_str n)"
proof (induction n rule: nat_str.induct)
  case (1 n)
  then show ?case
    using digit_char_code [of "nat n"] digit_char_code [of "nat (n mod 10)"] by (subst nat_str.simps) auto
qed

lemma digits_value_nat_str: "0 \<le> n \<Longrightarrow> digits_value (nat_str n) = n"
proof (induction n rule: nat_str.induct)
  case (1 n)
  have append: "digits_value (s @ [c]) = 10 * digits_value s + (int (char_code c) - 48)" for s c
    by (simp add: digits_value_def)
  show ?case
  proof (cases "n < 10")
    case True
    then show ?thesis
      using 1(2) digit_char_code [of "nat n"] by (subst nat_str.simps) (simp add: digits_value_def)
  next
    case False
    then show ?thesis
      using 1 digit_char_code [of "nat (n mod 10)"] by (subst nat_str.simps) (simp add: append)
  qed
qed

lemma int_str_inject: "0 \<le> m \<Longrightarrow> 0 \<le> n \<Longrightarrow> int_str m = int_str n \<longleftrightarrow> m = n"
  using digits_value_nat_str by (metis int_str_def leD)

end
