(* ===== verification/PyJson.thy ===== *)
theory PyJson
  imports PyText
begin

text \<open>
  The values a decoded JSON document is made of (\<^verbatim>\<open>JsonObject = dict[str, object]\<close> in
  models.py), with the operations Python gives them: \<^verbatim>\<open>isinstance\<close> and \<^verbatim>\<open>type(x) is int\<close>
  tests, \<^verbatim>\<open>==\<close> across the numeric types, truth value, \<^verbatim>\<open>str\<close>, \<^verbatim>\<open>json.dumps\<close>, and dictionary
  access. A dictionary is an association list in insertion order with distinct keys.
\<close>

datatype json =
    JNull
  | JBool bool
  | JInt int
  | JFloat pyfloat
  | JStr string
  | JList "json list"
  | JObj "(string \<times> json) list"

type_synonym obj = "(string \<times> json) list"

subsection \<open>Dictionaries\<close>

text \<open>
  \<^verbatim>\<open>d.get(k)\<close>, \<^verbatim>\<open>d.get(k, default)\<close>, \<^verbatim>\<open>k in d\<close>, \<^verbatim>\<open>d[k] = v\<close>, \<^verbatim>\<open>d.setdefault(k, v)\<close> and
  \<^verbatim>\<open>d.update(e)\<close>. Assignment keeps the position of an existing key and appends a new one.
\<close>

definition get :: "obj \<Rightarrow> string \<Rightarrow> json" where
  "get d k = (case map_of d k of None \<Rightarrow> JNull | Some v \<Rightarrow> v)"

definition get_default :: "obj \<Rightarrow> string \<Rightarrow> json \<Rightarrow> json" where
  "get_default d k v = (case map_of d k of None \<Rightarrow> v | Some w \<Rightarrow> w)"

definition has_key :: "obj \<Rightarrow> string \<Rightarrow> bool" where
  "has_key d k = (map_of d k \<noteq> None)"

definition setdefault :: "string \<Rightarrow> 'v \<Rightarrow> (string \<times> 'v) list \<Rightarrow> (string \<times> 'v) list" where
  "setdefault k v d = (if map_of d k = None then AList.update k v d else d)"

definition dict_update :: "('k \<times> 'v) list \<Rightarrow> ('k \<times> 'v) list \<Rightarrow> ('k \<times> 'v) list" where
  "dict_update d e = foldl (\<lambda>acc kv. AList.update (fst kv) (snd kv) acc) d e"

definition wf_obj :: "(string \<times> 'v) list \<Rightarrow> bool" where
  "wf_obj d = distinct (map fst d)"

subsection \<open>Type tests\<close>

primrec is_dict :: "json \<Rightarrow> bool" where
  "is_dict JNull = False"
| "is_dict (JBool b) = False"
| "is_dict (JInt i) = False"
| "is_dict (JFloat x) = False"
| "is_dict (JStr s) = False"
| "is_dict (JList xs) = False"
| "is_dict (JObj d) = True"

fun is_str :: "json \<Rightarrow> bool" where
  "is_str (JStr s) = True"
| "is_str v = False"

fun is_list :: "json \<Rightarrow> bool" where
  "is_list (JList xs) = True"
| "is_list v = False"

text \<open>\<^verbatim>\<open>type(value) is int\<close> excludes booleans, \<^verbatim>\<open>isinstance(value, int)\<close> does not.\<close>

fun type_is_int :: "json \<Rightarrow> bool" where
  "type_is_int (JInt i) = True"
| "type_is_int v = False"

subsection \<open>Equality and truth\<close>

text \<open>
  The exact numeric value of a finite number, for comparisons across \<^verbatim>\<open>bool\<close>, \<^verbatim>\<open>int\<close>
  and \<^verbatim>\<open>float\<close>: Python compares them without rounding.
\<close>

fun as_float :: "json \<Rightarrow> pyfloat option" where
  "as_float (JBool b) = Some (Fin (if b then 1 else 0))"
| "as_float (JInt i) = Some (Fin (of_int i))"
| "as_float (JFloat x) = Some x"
| "as_float v = None"

fun py_eq :: "json \<Rightarrow> json \<Rightarrow> bool"
  and py_eq_list :: "json list \<Rightarrow> json list \<Rightarrow> bool"
  and py_eq_items :: "(string \<times> json) list \<Rightarrow> obj \<Rightarrow> bool"
where
  "py_eq JNull v = (v = JNull)"
| "py_eq (JBool b) v = (case as_float v of None \<Rightarrow> False | Some y \<Rightarrow> feq (Fin (if b then 1 else 0)) y)"
| "py_eq (JInt i) v = (case as_float v of None \<Rightarrow> False | Some y \<Rightarrow> feq (Fin (of_int i)) y)"
| "py_eq (JFloat x) v = (case as_float v of None \<Rightarrow> False | Some y \<Rightarrow> feq x y)"
| "py_eq (JStr s) v = (v = JStr s)"
| "py_eq (JList xs) v = (case v of JList ys \<Rightarrow> py_eq_list xs ys | _ \<Rightarrow> False)"
| "py_eq (JObj d) v = (case v of JObj e \<Rightarrow> length d = length e \<and> py_eq_items d e | _ \<Rightarrow> False)"
| "py_eq_list [] ys = (ys = [])"
| "py_eq_list (x # xs) ys = (case ys of [] \<Rightarrow> False | y # ys' \<Rightarrow> py_eq x y \<and> py_eq_list xs ys')"
| "py_eq_items [] e = True"
| "py_eq_items (kv # d) e =
     ((case map_of e (fst kv) of None \<Rightarrow> False | Some w \<Rightarrow> py_eq (snd kv) w) \<and> py_eq_items d e)"

fun truthy :: "json \<Rightarrow> bool" where
  "truthy JNull = False"
| "truthy (JBool b) = b"
| "truthy (JInt i) = (i \<noteq> 0)"
| "truthy (JFloat x) = (x \<noteq> Fin 0)"
| "truthy (JStr s) = (s \<noteq> [])"
| "truthy (JList xs) = (xs \<noteq> [])"
| "truthy (JObj d) = (d \<noteq> [])"

text \<open>\<^verbatim>\<open>value if isinstance(value, dict) else {}\<close>, used in several modules.\<close>

fun object_value :: "json \<Rightarrow> obj" where
  "object_value (JObj d) = d"
| "object_value v = []"

subsection \<open>Text of values\<close>

definition hex_char :: "nat \<Rightarrow> char" where
  "hex_char d = ''0123456789abcdef'' ! d"

definition hex2 :: "nat \<Rightarrow> string" where
  "hex2 n = [hex_char (n div 16), hex_char (n mod 16)]"

definition printable :: "nat \<Rightarrow> bool" where
  "printable n = (32 \<le> n \<and> n < 127 \<or> 161 \<le> n \<and> n \<noteq> 173)"

definition repr_char :: "char \<Rightarrow> char \<Rightarrow> string" where
  "repr_char quote c =
     (let n = char_code c
      in if n = 92 then [c, c]
         else if c = quote then [char_of (92::nat), c]
         else if n = 10 then [char_of (92::nat), CHR ''n'']
         else if n = 13 then [char_of (92::nat), CHR ''r'']
         else if n = 9 then [char_of (92::nat), CHR ''t'']
         else if printable n then [c]
         else [char_of (92::nat), CHR ''x''] @ hex2 n)"

definition str_repr :: "string \<Rightarrow> string" where
  "str_repr s =
     (let quote = (if CHR 0x27 \<in> set s \<and> CHR 0x22 \<notin> set s then CHR 0x22 else CHR 0x27)
      in quote # concat (map (repr_char quote) s) @ [quote])"

fun py_repr :: "json \<Rightarrow> string" where
  "py_repr JNull = ''None''"
| "py_repr (JBool b) = (if b then ''True'' else ''False'')"
| "py_repr (JInt i) = int_str i"
| "py_repr (JFloat x) = float_repr x"
| "py_repr (JStr s) = str_repr s"
| "py_repr (JList xs) = ''['' @ join '', '' (map py_repr xs) @ '']''"
| "py_repr (JObj d) =
     ''{'' @ join '', '' (map (\<lambda>kv. str_repr (fst kv) @ '': '' @ py_repr (snd kv)) d) @ ''}''"

fun py_str :: "json \<Rightarrow> string" where
  "py_str (JStr s) = s"
| "py_str v = py_repr v"

text \<open>\<^verbatim>\<open>json.dumps\<close> with \<^verbatim>\<open>sort_keys=True\<close> and the given separators.\<close>

definition dumps_char :: "char \<Rightarrow> string" where
  "dumps_char c =
     (let n = char_code c; bs = char_of (92::nat)
      in if n = 34 \<or> n = 92 then [bs, c]
         else if n = 10 then [bs, CHR ''n'']
         else if n = 13 then [bs, CHR ''r'']
         else if n = 9 then [bs, CHR ''t'']
         else if n = 8 then [bs, CHR ''b'']
         else if n = 12 then [bs, CHR ''f'']
         else if 32 \<le> n \<and> n < 127 then [c]
         else [bs, CHR ''u'', CHR ''0'', CHR ''0''] @ hex2 n)"

definition dumps_str :: "string \<Rightarrow> string" where
  "dumps_str s = CHR 0x22 # concat (map dumps_char s) @ [CHR 0x22]"

fun dumps_float :: "pyfloat \<Rightarrow> string" where
  "dumps_float PInf = ''Infinity''"
| "dumps_float NInf = ''-Infinity''"
| "dumps_float NaN = ''NaN''"
| "dumps_float x = float_repr x"

fun dumps :: "string \<Rightarrow> string \<Rightarrow> json \<Rightarrow> string" where
  "dumps isep ksep JNull = ''null''"
| "dumps isep ksep (JBool b) = (if b then ''true'' else ''false'')"
| "dumps isep ksep (JInt i) = int_str i"
| "dumps isep ksep (JFloat x) = dumps_float x"
| "dumps isep ksep (JStr s) = dumps_str s"
| "dumps isep ksep (JList xs) = ''['' @ join isep (map (dumps isep ksep) xs) @ '']''"
| "dumps isep ksep (JObj d) =
     ''{'' @ join isep (map snd (sort_key fst
        (map (\<lambda>kv. (fst kv, dumps_str (fst kv) @ ksep @ dumps isep ksep (snd kv))) d))) @ ''}''"

subsection \<open>Lemmas on dictionaries\<close>

lemma map_of_update [simp]: "map_of (AList.update k v d) = (map_of d)(k \<mapsto> v)"
  by (rule update_conv')

lemma get_update [simp]: "get (AList.update k v d) j = (if j = k then v else get d j)"
  by (simp add: get_def)

lemma has_key_update [simp]: "has_key (AList.update k v d) j \<longleftrightarrow> j = k \<or> has_key d j"
  by (simp add: has_key_def)

lemma get_not_has: "\<not> has_key d k \<Longrightarrow> get d k = JNull"
  by (simp add: get_def has_key_def)

lemma get_not_null_has: "get d k \<noteq> JNull \<Longrightarrow> has_key d k"
  using get_not_has by blast

lemma has_key_map_of: "has_key d k \<longleftrightarrow> map_of d k = Some (get d k)"
  by (auto simp: has_key_def get_def)

lemma update_same: "map_of d k = Some v \<Longrightarrow> AList.update k v d = d"
  by (induction d) (auto split: if_splits)

lemma update_twice [simp]: "AList.update k v (AList.update k w d) = AList.update k v d"
  by (induction d) auto

lemma setdefault_idem [simp]: "setdefault k v (setdefault k w d) = setdefault k w d"
  by (simp add: setdefault_def)

lemma map_of_setdefault: "map_of (setdefault k v d) j =
    (if j = k \<and> map_of d k = None then Some v else map_of d j)"
  by (simp add: setdefault_def)

lemma set_update_subset: "set (AList.update k v d) \<subseteq> insert (k, v) (set d)"
  by (induction d) auto

lemma update_items:
  "distinct (map fst d) \<Longrightarrow> set (AList.update k v d) = insert (k, v) {kv \<in> set d. fst kv \<noteq> k}"
  by (induction d) (auto simp: image_iff)

lemma wf_update [simp]: "wf_obj d \<Longrightarrow> wf_obj (AList.update k v d)"
  by (simp add: wf_obj_def distinct_update)

lemma dict_update_Nil [simp]: "dict_update d [] = d"
  by (simp add: dict_update_def)

lemma map_of_dict_update:
  "distinct (map fst e) \<Longrightarrow> map_of (dict_update d e) = map_of d ++ map_of e"
proof (induction e arbitrary: d)
  case Nil
  then show ?case by simp
next
  case (Cons kv e)
  then have "map_of (dict_update d (kv # e)) = (map_of d)(fst kv \<mapsto> snd kv) ++ map_of e"
    by (simp add: dict_update_def)
  moreover have "map_of e (fst kv) = None"
    using Cons.prems by (simp add: map_of_eq_None_iff)
  ultimately show ?case by (auto simp: map_add_def fun_eq_iff split: option.splits)
qed

subsection \<open>Lemmas on equality\<close>

lemma feq_refl: "x \<noteq> NaN \<Longrightarrow> feq x x"
  by (cases x) simp_all

lemma feq_sym: "feq x y \<longleftrightarrow> feq y x"
  by (cases x; cases y) auto

lemma feq_trans: "feq x y \<Longrightarrow> feq y z \<Longrightarrow> feq x z"
  by (cases x; cases y; cases z) auto

lemma py_eq_str [simp]:
  "py_eq v (JStr s) \<longleftrightarrow> v = JStr s"
  "py_eq (JStr s) v \<longleftrightarrow> v = JStr s"
  by (cases v) auto

lemma py_eq_null [simp]: "py_eq v JNull \<longleftrightarrow> v = JNull"
  by (cases v) auto

lemma py_eq_int: "py_eq v (JInt i) \<longleftrightarrow> (\<exists>y. as_float v = Some y \<and> feq y (Fin (of_int i)))"
  by (cases v) (auto simp: feq_sym)

lemma py_eq_int_int [simp]: "py_eq (JInt i) (JInt j) \<longleftrightarrow> i = j"
  by simp

end
