(* ===== verification/Constants.thy ===== *)
theory Constants
  imports PyJson
begin

text \<open>
  constants.py and report_schema/models.py: the names of the eight suites, the modes, and
  the versions and suites the report reader supports; creation/constants.py: the scenario
  names of the client-creation suite.
\<close>

definition ASYNC_MODE :: string where "ASYNC_MODE = ''async''"

definition SYNC_MODE :: string where "SYNC_MODE = ''sync''"

definition REQUESTS_SUITE :: string where "REQUESTS_SUITE = ''requests''"

definition CLIENT_CREATION_SUITE :: string where "CLIENT_CREATION_SUITE = ''client-creation''"

definition RESOURCE_BACKPRESSURE_SUITE :: string where
  "RESOURCE_BACKPRESSURE_SUITE = ''resource-backpressure''"

definition ONE_UPSTREAM_SUITE :: string where "ONE_UPSTREAM_SUITE = ''one-upstream''"

definition REQUEST_BUILDER_SUITE :: string where "REQUEST_BUILDER_SUITE = ''request-builder''"

definition COMPRESSED_RESPONSE_SUITE :: string where
  "COMPRESSED_RESPONSE_SUITE = ''compressed-response''"

definition RESPONSE_STREAMING_SUITE :: string where
  "RESPONSE_STREAMING_SUITE = ''response-streaming''"

definition PROXY_CONNECT_SUITE :: string where "PROXY_CONNECT_SUITE = ''proxy-connect''"

definition MIN_VARIATION_SAMPLES :: nat where "MIN_VARIATION_SAMPLES = 2"

definition REPORT_SCHEMA_VERSION :: int where "REPORT_SCHEMA_VERSION = 1"

definition REPORT_SUITES :: "string list" where
  "REPORT_SUITES =
     [''requests'', ''client-creation'', ''resource-backpressure'', ''one-upstream'',
      ''request-builder'', ''compressed-response'', ''response-streaming'', ''proxy-connect'']"

definition CREATE_CLOSE_SCENARIO :: string where "CREATE_CLOSE_SCENARIO = ''create-close''"

definition CREATE_FIRST_REQUEST_SCENARIO :: string where
  "CREATE_FIRST_REQUEST_SCENARIO = ''create-first-request''"

definition REUSED_REQUEST_SCENARIO :: string where "REUSED_REQUEST_SCENARIO = ''reused-request''"

definition MANY_CLIENTS_SCENARIO :: string where
  "MANY_CLIENTS_SCENARIO = ''many-clients-open-close''"

lemmas suite_names =
  REQUESTS_SUITE_def CLIENT_CREATION_SUITE_def RESOURCE_BACKPRESSURE_SUITE_def
  ONE_UPSTREAM_SUITE_def REQUEST_BUILDER_SUITE_def COMPRESSED_RESPONSE_SUITE_def
  RESPONSE_STREAMING_SUITE_def PROXY_CONNECT_SUITE_def

lemmas scenario_names =
  CREATE_CLOSE_SCENARIO_def CREATE_FIRST_REQUEST_SCENARIO_def REUSED_REQUEST_SCENARIO_def
  MANY_CLIENTS_SCENARIO_def

end
