(* ===== verification/Report_Fields.thy ===== *)
theory Report_Fields
  imports Constants
begin

text \<open>
  report_schema/fields.py: the typed accessors every admission check is made of. Each takes
  the value and the path the error message names, and returns the value or raises.
\<close>

definition field_path :: "string \<Rightarrow> string \<Rightarrow> string" where
  "field_path path f = path @ ''.'' @ f"

definition index_path :: "string \<Rightarrow> nat \<Rightarrow> string" where
  "index_path path i = path @ ''['' @ int_str (int i) @ '']''"

fun require_object :: "json \<Rightarrow> string \<Rightarrow> obj result" where
  "require_object (JObj d) path = Inr d"
| "require_object v path = Inl (TypeError (path @ '' must be an object''))"

fun require_rows :: "json \<Rightarrow> string \<Rightarrow> obj list result" where
  "require_rows (JList items) path = mapiE (\<lambda>i item. require_object item (index_path path i)) 0 items"
| "require_rows v path = Inl (TypeError (path @ '' must be a list of objects''))"

definition require_string :: "json \<Rightarrow> string \<Rightarrow> string result" where
  "require_string v path =
     (let err = Inl (ValueError (path @ '' must be a nonempty string''))
      in case v of JStr s \<Rightarrow> (if strip s = [] then err else Inr s) | _ \<Rightarrow> err)"

definition require_integer :: "json \<Rightarrow> string \<Rightarrow> int \<Rightarrow> int result" where
  "require_integer v path minimum =
     (let err = Inl (ValueError (path @ '' must be an integer >= '' @ int_str minimum))
      in case v of JInt i \<Rightarrow> (if i < minimum then err else Inr i) | _ \<Rightarrow> err)"

definition require_number :: "json \<Rightarrow> string \<Rightarrow> pyfloat option \<Rightarrow> pyfloat result" where
  "require_number v path minimum =
     (let msg = path @ '' must be a finite number'';
          check = (\<lambda>number.
            if \<not> is_finite number \<or> (case minimum of None \<Rightarrow> False | Some m \<Rightarrow> flt number m)
            then Inl (ValueError (msg @ (case minimum of None \<Rightarrow> [] | Some m \<Rightarrow> '' >= '' @ float_repr m)))
            else Inr number)
      in case v of
           JInt i \<Rightarrow> (case float_of_int i of Inl _ \<Rightarrow> Inl (ValueError msg) | Inr number \<Rightarrow> check number)
         | JFloat x \<Rightarrow> check x
         | _ \<Rightarrow> Inl (TypeError msg))"

text \<open>The default lower bound of \<^verbatim>\<open>require_number\<close>.\<close>

definition zero_minimum :: "pyfloat option" where
  "zero_minimum = Some (Fin 0)"

subsection \<open>When the accessors succeed\<close>

lemma require_object_ok [ok]: "require_object v p = Inr d \<longleftrightarrow> v = JObj d"
  by (cases v) auto

lemma require_object_JObj [simp]: "require_object (JObj d) p = Inr d"
  by simp

lemma require_rows_ok [ok]: "require_rows v p = Inr rows \<longleftrightarrow> v = JList (map JObj rows)"
proof (cases v)
  case (JList items)
  have "(\<forall>k < length items. items ! k = JObj (rows ! k)) \<and> length rows = length items
      \<longleftrightarrow> items = map JObj rows"
    by (auto simp: list_eq_iff_nth_eq)
  then show ?thesis by (auto simp: JList ok)
qed auto

lemma require_integer_JInt:
  "require_integer (JInt i) path m =
     (if i < m then Inl (ValueError (path @ '' must be an integer >= '' @ int_str m)) else Inr i)"
  by (simp add: require_integer_def)

lemma dict_item_get: "dict_item d k = (if has_key d k then Inr (get d k) else Inl (KeyError k))"
  by (auto simp: dict_item_def has_key_def get_def split: option.splits)

lemma require_string_ok [ok]: "require_string v p = Inr s \<longleftrightarrow> v = JStr s \<and> strip s \<noteq> []"
  by (cases v) (auto simp: require_string_def)

lemma require_integer_ok [ok]: "require_integer v p m = Inr i \<longleftrightarrow> v = JInt i \<and> m \<le> i"
  by (cases v) (auto simp: require_integer_def)

text \<open>The number a JSON value stands for once it is converted to a float.\<close>

fun json_number :: "json \<Rightarrow> pyfloat option" where
  "json_number (JInt i) = (case float_of_int i of Inl _ \<Rightarrow> None | Inr x \<Rightarrow> Some x)"
| "json_number (JFloat x) = (if is_finite x then Some x else None)"
| "json_number v = None"

lemma float_of_int_finite: "float_of_int i = Inr x \<Longrightarrow> is_finite x"
  by (cases "round64 (rat_of_int i)") (auto simp: float_of_int_def)

lemma require_number_ok:
  "require_number v p m = Inr x \<longleftrightarrow>
     json_number v = Some x \<and> (case m of None \<Rightarrow> True | Some y \<Rightarrow> \<not> flt x y)"
proof (cases v)
  case (JInt i)
  then show ?thesis
    using float_of_int_finite [of i]
    by (cases "float_of_int i") (auto simp: require_number_def Let_def split: option.splits)
qed (auto simp: require_number_def Let_def split: option.splits)

lemma json_number_finite: "json_number v = Some x \<Longrightarrow> is_finite x"
  by (cases v) (auto dest: float_of_int_finite split: sum.splits if_splits)

lemma json_number_Fin: "json_number v = Some x \<Longrightarrow> \<exists>r. x = Fin r"
  using json_number_finite [of v x] by (cases x) auto

lemma require_any_number_ok [ok]: "require_number v p None = Inr x \<longleftrightarrow> json_number v = Some x"
  by (simp add: require_number_ok)

lemma require_number_zero_ok [ok]:
  "require_number v p zero_minimum = Inr x \<longleftrightarrow> (\<exists>r. 0 \<le> r \<and> x = Fin r \<and> json_number v = Some x)"
proof (cases "json_number v")
  case None
  then show ?thesis by (simp add: require_number_ok)
next
  case (Some y)
  then obtain r where "y = Fin r" using json_number_Fin by blast
  with Some show ?thesis by (auto simp: require_number_ok zero_minimum_def not_less)
qed

subsection \<open>What an accepted value is\<close>

text \<open>The declarative counterparts of the accessors, free of paths and messages.\<close>

fun integer_ge :: "int \<Rightarrow> json \<Rightarrow> bool" where
  "integer_ge m (JInt i) = (m \<le> i)"
| "integer_ge m v = False"

definition number_ge_zero :: "json \<Rightarrow> bool" where
  "number_ge_zero v = (\<exists>r. 0 \<le> r \<and> json_number v = Some (Fin r))"

fun nonempty_string :: "json \<Rightarrow> bool" where
  "nonempty_string (JStr s) = (strip s \<noteq> [])"
| "nonempty_string v = False"

lemma integer_ge_iff: "integer_ge m v \<longleftrightarrow> (\<exists>i. v = JInt i \<and> m \<le> i)"
  by (cases v) auto

lemma nonempty_string_iff: "nonempty_string v \<longleftrightarrow> (\<exists>s. v = JStr s \<and> strip s \<noteq> [])"
  by (cases v) auto

lemma require_integer_ex [ok]: "(\<exists>i. require_integer v p m = Inr i) \<longleftrightarrow> integer_ge m v"
  by (simp add: require_integer_ok integer_ge_iff)

lemma require_string_ex [ok]: "(\<exists>s. require_string v p = Inr s) \<longleftrightarrow> nonempty_string v"
  by (simp add: require_string_ok nonempty_string_iff)

lemma require_number_ex [ok]: "(\<exists>x. require_number v p zero_minimum = Inr x) \<longleftrightarrow> number_ge_zero v"
  by (auto simp: require_number_zero_ok number_ge_zero_def)

lemma require_any_number_ex [ok]:
  "(\<exists>x. require_number v p None = Inr x) \<longleftrightarrow> (\<exists>x. json_number v = Some x)"
  by (simp add: require_number_ok)

lemma check_require [ok]:
  "check (require_integer v p m) = Inr u \<longleftrightarrow> integer_ge m v"
  "check (require_string v p) = Inr u \<longleftrightarrow> nonempty_string v"
  "check (require_number v p zero_minimum) = Inr u \<longleftrightarrow> number_ge_zero v"
  "check (require_number v p None) = Inr u \<longleftrightarrow> (\<exists>x. json_number v = Some x)"
  by (simp_all add: check_ok require_integer_ex require_string_ex require_number_ex
      require_any_number_ex)

text \<open>Whether a check succeeds does not depend on the path it would report.\<close>

lemma require_object_path: "(\<exists>d. require_object v p = Inr d) \<longleftrightarrow> is_dict v"
  by (cases v) auto

end
