(* ===== verification/Report_Identity.thy ===== *)
theory Report_Identity
  imports Report_Fields
begin

text \<open>
  report_schema/identity.py: the key of an aggregate row (its workload dimensions, never its
  measurements), the comparison group a key belongs to, and the check that no two rows of a
  report have one key. A tuple of strings is a list.
\<close>

definition IDENTITY_FIELDS :: "(string \<times> string list) list" where
  "IDENTITY_FIELDS =
     [(''requests'', [''scenario'', ''concurrency'', ''request_limit'']),
      (''compressed-response'', [''scenario'', ''concurrency'', ''request_limit'']),
      (''client-creation'', [''scenario'', ''client_count'', ''iterations'']),
      (''resource-backpressure'',
        [''scenario'', ''concurrency'', ''request_limit'', ''per_origin_request_limit'',
         ''max_pending_requests'', ''max_buffered_response_bytes'']),
      (''one-upstream'', [''group'', ''case'', ''profile'', ''concurrency'', ''request_limit'']),
      (''request-builder'', [''kind'', ''group'', ''case'', ''profile'', ''iterations'']),
      (''response-streaming'', [''case'', ''read'', ''consume'', ''concurrency'', ''request_limit'']),
      (''proxy-connect'',
        [''case'', ''group'', ''target_scheme'', ''config'', ''lifecycle'', ''concurrency'',
         ''request_limit''])]"

definition profile_dimensions :: "obj \<Rightarrow> string list result" where
  "profile_dimensions row =
     (if get row ''profile'' = JStr ''lifecycle'' then
        Inr [''lifecycle'', dumps '', '' '': '' (get_default row ''configuration'' (JObj []))]
      else if get row ''profile'' = JStr ''async-bytes'' then
        bindE (require_string (get row ''condition_fingerprint'') ''condition_fingerprint'') (\<lambda>c.
        bindE (require_string (get row ''primary_metric'') ''primary_metric'') (\<lambda>p.
        Inr [''async-bytes'', c, p]))
      else Inr [])"

definition streaming_dimensions :: "obj \<Rightarrow> string list result" where
  "streaming_dimensions row =
     bindE (profile_dimensions row) (\<lambda>dimensions.
       if has_key row ''throughput_scope'' \<or> has_key row ''timing_scope'' then
         bindE (require_string
             (get_default row ''throughput_scope'' (JStr ''legacy-observed-v1'')) ''throughput_scope'') (\<lambda>t.
         bindE (require_string
             (get_default row ''timing_scope'' (JStr ''legacy-sampler-v1'')) ''timing_scope'') (\<lambda>m.
         Inr (dimensions @ [t, m])))
       else Inr dimensions)"

definition identity_value :: "obj \<Rightarrow> string \<Rightarrow> string" where
  "identity_value row f = (if get row f = JNull then ''-'' else py_str (get row f))"

definition aggregate_identity :: "string \<Rightarrow> obj \<Rightarrow> string list result" where
  "aggregate_identity suite row =
     (case map_of IDENTITY_FIELDS suite of
        None \<Rightarrow> Inl (ValueError (''Unsupported aggregate identity suite: '' @ str_repr suite))
      | Some names \<Rightarrow>
          bindE (require_string (get row ''mode'') ''mode'') (\<lambda>mode.
          bindE (require_string (get row ''client'') ''client'') (\<lambda>client.
            let identity = mode # client # map (identity_value row) names
            in if suite = ''response-streaming''
               then bindE (streaming_dimensions row) (\<lambda>ds. Inr (identity @ ds))
               else Inr identity)))"

text \<open>\<^verbatim>\<open>(*identity[:1], *identity[2:])\<close>\<close>

definition comparison_group :: "string list \<Rightarrow> string list" where
  "comparison_group identity = take 1 identity @ drop 2 identity"

text \<open>The \<^verbatim>\<open>repr\<close> of a tuple of strings.\<close>

definition tuple_repr :: "string list \<Rightarrow> string" where
  "tuple_repr t =
     (case t of [s] \<Rightarrow> ''('' @ str_repr s @ '',)'' | _ \<Rightarrow> ''('' @ join '', '' (map str_repr t) @ '')'')"

definition duplicate_error :: "string list \<Rightarrow> string \<Rightarrow> string \<Rightarrow> py_error" where
  "duplicate_error identity first second =
     ValueError (''Duplicate aggregate identity '' @ tuple_repr identity @ '' at '' @ first @ '' and '' @ second)"

text \<open>
  The identities are computed lazily, one per turn of the loop, so each is a result; \<open>seen\<close>
  is the dictionary of the loop. The sources run out before or after the identities when a
  caller passes lists of different lengths (\<^verbatim>\<open>zip(..., strict=True)\<close>).
\<close>

fun check_positions ::
  "string list result list \<Rightarrow> string list \<Rightarrow> (string list \<times> string) list \<Rightarrow> unit result"
where
  "check_positions [] [] seen = Inr ()"
| "check_positions [] (s # ss) seen = Inl (ValueError ''zip() argument 2 is longer than argument 1'')"
| "check_positions (m # ms) [] seen =
     bindE m (\<lambda>_. Inl (ValueError ''zip() argument 2 is shorter than argument 1''))"
| "check_positions (m # ms) (s # ss) seen =
     bindE m (\<lambda>identity.
       case map_of seen identity of
         Some first \<Rightarrow> Inl (duplicate_error identity first s)
       | None \<Rightarrow> check_positions ms ss (AList.update identity s seen))"

definition position_names :: "nat \<Rightarrow> string list" where
  "position_names n = map (index_path ''aggregate'') [0..<n]"

definition validate_unique_identities :: "string list result list \<Rightarrow> string list option \<Rightarrow> unit result" where
  "validate_unique_identities identities sources =
     (case sources of
        None \<Rightarrow> check_positions identities (position_names (length identities)) []
      | Some names \<Rightarrow> check_positions identities names [])"

definition validate_unique_aggregate_rows :: "string \<Rightarrow> obj list \<Rightarrow> string list option \<Rightarrow> unit result" where
  "validate_unique_aggregate_rows suite rows sources =
     validate_unique_identities (map (aggregate_identity suite) rows) sources"

subsection \<open>Uniqueness\<close>

lemma check_positions_ok [ok]:
  "check_positions ms names seen = Inr u \<longleftrightarrow>
     length names = length ms \<and>
     (\<exists>ids. ms = map Inr ids \<and> distinct ids \<and> (\<forall>i \<in> set ids. map_of seen i = None))"
proof (induction ms names seen rule: check_positions.induct)
  case (4 m ms s ss seen)
  show ?case
  proof (cases m)
    case (Inr identity)
    show ?thesis
    proof (cases "map_of seen identity")
      case None
      show ?thesis
        using Inr None "4.IH" [OF Inr None] by (auto simp: Cons_eq_map_conv)
    qed (use Inr in auto)
  qed auto
qed (auto simp: ok)

lemma length_position_names [simp]: "length (position_names n) = n"
  by (simp add: position_names_def)

lemma mapE_ids: "map f rows = map Inr ids \<longleftrightarrow> mapE f rows = Inr ids"
  by (auto simp: mapE_ok list_all2_conv_all_nth list_eq_iff_nth_eq)

text \<open>A run over identities that are all distinct from what was seen only extends the dictionary.\<close>

lemma check_positions_append:
  assumes "distinct ids" "\<And>i. i \<in> set ids \<Longrightarrow> map_of seen i = None" "length names = length ids"
  shows "check_positions (map Inr ids @ ms) (names @ more_names) seen =
           check_positions ms more_names (foldl (\<lambda>d (i, s). AList.update i s d) seen (zip ids names))"
  using assms
proof (induction ids arbitrary: seen names)
  case (Cons i ids)
  then obtain s ss where names: "names = s # ss" by (cases names) auto
  have "map_of (AList.update i s seen) j = None" if "j \<in> set ids" for j
    using that Cons.prems by auto
  with Cons names show ?case by simp
qed simp

lemma map_of_fold_update:
  "distinct ids \<Longrightarrow> length names = length ids \<Longrightarrow> k < length ids \<Longrightarrow>
     map_of (foldl (\<lambda>d (i, s). AList.update i s d) seen (zip ids names)) (ids ! k) = Some (names ! k)"
proof (induction ids arbitrary: seen names k)
  case (Cons i ids)
  then obtain s ss where names: "names = s # ss" by (cases names) auto
  have keep: "map_of (foldl (\<lambda>d (i, s). AList.update i s d) d (zip is ns)) i = map_of d i"
    if "i \<notin> set is" for d "is" ns
    using that by (induction "is" arbitrary: d ns) (auto simp: zip_Cons1 split: list.splits)
  show ?case
  proof (cases k)
    case 0
    with Cons.prems names show ?thesis using keep [of ids "AList.update i s seen" ss] by simp
  next
    case (Suc j)
    with Cons names show ?thesis by simp
  qed
qed simp

lemma check_positions_duplicate:
  assumes "distinct (take j ids)" "i < j" "j < length ids" "ids ! i = ids ! j" "length names = length ids"
  shows "check_positions (map Inr ids) names [] = Inl (duplicate_error (ids ! j) (names ! i) (names ! j))"
proof -
  have split: "map Inr ids = map Inr (take j ids) @ Inr (ids ! j) # map Inr (drop (Suc j) ids)"
      "names = take j names @ names ! j # drop (Suc j) names"
    using assms by (metis id_take_nth_drop list.simps(9) map_append, metis id_take_nth_drop)
  have "map_of (foldl (\<lambda>d (i, s). AList.update i s d) [] (zip (take j ids) (take j names))) (ids ! j)
      = Some (names ! i)"
    using map_of_fold_update [of "take j ids" "take j names" i "[]"] assms by simp
  with split check_positions_append [of "take j ids" "[]" "take j names"] assms show ?thesis
    by (metis (no_types, lifting) bindE_simps(2) check_positions.simps(4) length_take map_of.simps(1)
        option.simps(5))
qed

lemma unique_rows_exact [ok]:
  "validate_unique_aggregate_rows suite rows None = Inr u \<longleftrightarrow>
     (\<exists>ids. mapE (aggregate_identity suite) rows = Inr ids \<and> distinct ids)"
  by (simp add: validate_unique_aggregate_rows_def validate_unique_identities_def ok mapE_ids
      del: mapE_ok)

subsection \<open>Properties\<close>

text \<open>
  The uniqueness check accepts a list of aggregate rows exactly when every row has an
  identity and no two rows have the same one.\<close>

theorem unique_rows_iff:
  "validate_unique_aggregate_rows suite rows None = Inr () \<longleftrightarrow>
     (\<exists>ids. mapE (aggregate_identity suite) rows = Inr ids \<and> distinct ids)"
  by (rule unique_rows_exact)

text \<open>
  C29: when two rows share an identity, the error names that identity and the positions of the
  first pair: the row it was first seen at and the first row that repeats one.\<close>

theorem duplicate_named:
  assumes "mapE (aggregate_identity suite) rows = Inr ids"
    and "i < j" "j < length ids" "ids ! i = ids ! j" "distinct (take j ids)"
  shows "validate_unique_aggregate_rows suite rows None =
           Inl (duplicate_error (ids ! j) (index_path ''aggregate'' i) (index_path ''aggregate'' j))"
proof -
  have "length ids = length rows" using assms(1) by (simp add: mapE_ok list_all2_lengthD)
  then show ?thesis
    using assms check_positions_duplicate [of j ids i "position_names (length ids)"]
    by (simp add: validate_unique_aggregate_rows_def validate_unique_identities_def position_names_def
        flip: mapE_ids)
qed

definition sample_row :: "string \<Rightarrow> obj" where
  "sample_row client =
     [(''mode'', JStr ''sync''), (''client'', JStr client), (''scenario'', JStr ''get''),
      (''concurrency'', JInt 4), (''request_limit'', JInt 10)]"

lemmas sample_simps =
  sample_row_def get_def get_default_def has_key_def IDENTITY_FIELDS_def

lemma sample_identity:
  "aggregate_identity ''requests'' (sample_row ''a'') = Inr [''sync'', ''a'', ''get'', ''4'', ''10'']"
  by code_simp

lemma duplicate_named_witness:
  "validate_unique_aggregate_rows ''requests'' [sample_row ''a'', sample_row ''a''] None =
     Inl (duplicate_error [''sync'', ''a'', ''get'', ''4'', ''10'']
       (index_path ''aggregate'' 0) (index_path ''aggregate'' 1))"
  using duplicate_named [of "''requests''" "[sample_row ''a'', sample_row ''a'']"
      "[[''sync'', ''a'', ''get'', ''4'', ''10''], [''sync'', ''a'', ''get'', ''4'', ''10'']]" 0 1]
  by (simp add: sample_identity)

text \<open>The keys an identity is read from.\<close>

definition identity_keys :: "string \<Rightarrow> string set" where
  "identity_keys suite =
     {''mode'', ''client''} \<union> set (case map_of IDENTITY_FIELDS suite of None \<Rightarrow> [] | Some ks \<Rightarrow> ks) \<union>
     (if suite = ''response-streaming''
      then {''profile'', ''configuration'', ''condition_fingerprint'', ''primary_metric'',
            ''throughput_scope'', ''timing_scope''}
      else {})"

lemma get_default_update [simp]:
  "get_default (AList.update k v d) j w = (if j = k then v else get_default d j w)"
  by (simp add: get_default_def)

lemma streaming_dimensions_update:
  assumes "k \<notin> {''profile'', ''configuration'', ''condition_fingerprint'', ''primary_metric'',
            ''throughput_scope'', ''timing_scope''}"
  shows "streaming_dimensions (AList.update k v row) = streaming_dimensions row"
proof -
  have same: "get (AList.update k v row) j = get row j"
      "get_default (AList.update k v row) j w = get_default row j w"
      "has_key (AList.update k v row) j = has_key row j"
    if "j \<in> {''profile'', ''configuration'', ''condition_fingerprint'', ''primary_metric'',
            ''throughput_scope'', ''timing_scope''}" for j w
    using assms that by auto
  show ?thesis
    unfolding streaming_dimensions_def profile_dimensions_def by (simp only: same insert_iff simp_thms)
qed

text \<open>
  An identity never includes a measurement: assigning any field outside the identity keys
  of the suite leaves the identity of the row, or the error, as it was.\<close>

theorem identity_ignores_measurements:
  assumes "k \<notin> identity_keys suite"
  shows "aggregate_identity suite (AList.update k v row) = aggregate_identity suite row"
proof (cases "map_of IDENTITY_FIELDS suite")
  case None
  then show ?thesis by (simp add: aggregate_identity_def)
next
  case (Some names)
  have "k \<noteq> ''mode''" "k \<noteq> ''client''" "k \<notin> set names"
    using assms Some by (simp_all add: identity_keys_def)
  then have same: "get (AList.update k v row) ''mode'' = get row ''mode''"
      "get (AList.update k v row) ''client'' = get row ''client''"
      "map (identity_value (AList.update k v row)) names = map (identity_value row) names"
    by (auto simp: identity_value_def)
  have streaming: "streaming_dimensions (AList.update k v row) = streaming_dimensions row"
    if "suite = ''response-streaming''"
    using streaming_dimensions_update [of k v row] assms that by (simp add: identity_keys_def)
  show ?thesis
    unfolding aggregate_identity_def Let_def Some option.case same
    by (rule bindE_cong [OF refl], rule bindE_cong [OF refl]) (simp add: streaming)
qed

lemma identity_ignores_measurements_witness:
  "aggregate_identity ''requests'' (AList.update ''ok_req_s_median'' (JInt 7) (sample_row ''a'')) =
     aggregate_identity ''requests'' (sample_row ''a'')"
  by (rule identity_ignores_measurements) (simp add: identity_keys_def IDENTITY_FIELDS_def)

lemma aggregate_identity_shape:
  "aggregate_identity suite row = Inr a \<Longrightarrow>
     \<exists>mode client ds. a = mode # client # ds \<and> get row ''mode'' = JStr mode \<and>
       get row ''client'' = JStr client \<and> strip client \<noteq> []"
  by (auto simp: aggregate_identity_def ok Let_def split: option.splits if_splits)

text \<open>
  The comparison group drops the client and nothing else: two identified rows of one group
  that name the same client have the same identity, so within a report a group holds at most one
  row per client.\<close>

theorem group_and_client_identify:
  assumes "aggregate_identity suite row = Inr a" "aggregate_identity suite other = Inr b"
    and "comparison_group a = comparison_group b" "get row ''client'' = get other ''client''"
  shows "a = b"
  using aggregate_identity_shape [OF assms(1)] aggregate_identity_shape [OF assms(2)] assms(3,4)
  by (auto simp: comparison_group_def)

lemma group_and_client_identify_witness:
  "[''sync'', ''a'', ''get'', ''4'', ''10''] = [''sync'', ''a'', ''get'', ''4'', ''10'']"
  by (rule group_and_client_identify [of "''requests''" "sample_row ''a''" _ "sample_row ''a''"])
    (simp_all add: sample_identity)

end
