(* ===== verification/Report_Ordinary.thy ===== *)
theory Report_Ordinary
  imports Report_Identity
begin

text \<open>
  report_schema/ordinary.py: the admission of aggregate and run rows of the eight ordinary
  suites. The tables and checks follow the module in its order; the declarative predicates
  \<open>ordinary_aggregate\<close> and \<open>ordinary_run\<close> say what a row the checks accept looks like, and
  \<open>validate_aggregate_iff\<close> and \<open>validate_run_iff\<close> that they accept exactly those.
\<close>

subsection \<open>Tables\<close>

definition ORDINARY_IDENTITY_FIELDS :: "(string \<times> string list) list" where
  "ORDINARY_IDENTITY_FIELDS =
    [(''requests'', [''scenario'']), (''compressed-response'', [''scenario'']),
     (''client-creation'', [''scenario'']), (''resource-backpressure'', [''scenario'']),
     (''one-upstream'', [''case'', ''group'', ''profile'']),
     (''request-builder'', [''case'', ''group'', ''kind'', ''profile'']),
     (''response-streaming'', [''case'', ''read'', ''consume'']),
     (''proxy-connect'', [''case'', ''group'', ''target_scheme'', ''config'', ''lifecycle''])]"

definition AGGREGATE_PRIMARY_FIELDS :: "(string \<times> string) list" where
  "AGGREGATE_PRIMARY_FIELDS =
    [(''requests'', ''ok_req_s_median''), (''compressed-response'', ''ok_req_s_median''),
     (''client-creation'', ''ops_s_median''),
     (''resource-backpressure'', ''ok_requests_total''),
     (''one-upstream'', ''ok_req_s_median''), (''request-builder'', ''ops_s_median''),
     (''response-streaming'', ''ok_streams_s_median''), (''proxy-connect'', ''ok_req_s_median'')]"

definition RUN_PRIMARY_FIELDS :: "(string \<times> string) list" where
  "RUN_PRIMARY_FIELDS =
    [(''requests'', ''ok_requests_per_second''),
     (''compressed-response'', ''ok_requests_per_second''),
     (''client-creation'', ''operations_per_second''),
     (''resource-backpressure'', ''ok_requests''),
     (''one-upstream'', ''ok_requests_per_second''),
     (''request-builder'', ''operations_per_second''),
     (''response-streaming'', ''ok_streams_per_second''),
     (''proxy-connect'', ''ok_requests_per_second'')]"

definition OPERATION_SUITES :: "string list" where
  "OPERATION_SUITES =
    [''client-creation'', ''request-builder'']"

definition IDENTITY_CHOICES :: "(string \<times> string list) list" where
  "IDENTITY_CHOICES =
    [(''mode'', [''async'', ''sync'']), (''read'', [''bytes'', ''lines'', ''text'']),
     (''consume'', [''all'', ''first-chunk'', ''first-line'']),
     (''kind'', [''build'', ''send-prepared'']), (''target_scheme'', [''http'', ''https'']),
     (''config'', [''direct'', ''explicit'', ''trust-env'']),
     (''lifecycle'', [''cold-client'', ''reused-client''])]"

definition MAX_ERROR_RATE_PERCENT :: int where
  "MAX_ERROR_RATE_PERCENT = 100"

definition SUCCESS_COUNTS :: "(string \<times> string) list" where
  "SUCCESS_COUNTS =
    [(''resource-backpressure'', ''ok_requests_total''),
     (''one-upstream'', ''ok_requests_total''), (''proxy-connect'', ''ok_requests_total''),
     (''response-streaming'', ''ok_streams_total'')]"

definition NUMERIC_FIELDS :: "string list" where
  "NUMERIC_FIELDS =
    [''req_s_median'', ''req_s_cv_percent'', ''ops_s_cv_percent'', ''streams_s_median'',
     ''streams_s_cv_percent'', ''duration_ms_median'', ''duration_s_median'',
     ''duration_s_cv_percent'', ''mb_s_median'', ''lines_s_median'', ''p50_ms_median'',
     ''p95_ms_median'', ''p99_ms_median'', ''duration_s'', ''requests_per_second'',
     ''streams_per_second'', ''mb_per_second'', ''lines_per_second'', ''p50_ms'', ''p90_ms'',
     ''p95_ms'', ''p99_ms'', ''min_ms'', ''max_ms'', ''process_cpu_s'', ''pool_timeout_s'']"

definition NULLABLE_NUMERIC_FIELDS :: "string list" where
  "NULLABLE_NUMERIC_FIELDS =
    [''first_chunk_p50_ms_median'', ''first_chunk_p95_ms_median'', ''first_chunk_p50_ms'',
     ''first_chunk_p95_ms'', ''close_p50_ms_median'', ''close_p95_ms_median'',
     ''close_p50_ms'', ''close_p95_ms'', ''baseline_ratio'', ''direct_ratio'', ''rss_mb_max'',
     ''peak_rss_mb'']"

definition COUNT_FIELDS :: "string list" where
  "COUNT_FIELDS =
    [''ok_requests_total'', ''ok_streams_total'', ''ok_requests'', ''ok_streams'',
     ''bytes_read_total'', ''chunks_read_total'', ''text_chars_read_total'',
     ''lines_read_total'', ''verified_eof_bytes_total'', ''verified_eof_chunks_total'',
     ''recovery_failures'', ''measured_proxy_http_requests_max'',
     ''measured_proxy_connect_requests_max'', ''total_proxy_http_requests_max'',
     ''total_proxy_connect_requests_max'', ''proxy_authorization_headers_max'', ''warmup'']"

definition NULLABLE_COUNT_FIELDS :: "string list" where
  "NULLABLE_COUNT_FIELDS =
    [''threads_max'', ''fds_max'', ''peak_threads'', ''peak_fds'',
     ''max_buffered_response_bytes'', ''max_response_body_size'', ''peak_active_requests_max'',
     ''peak_pending_requests_max'', ''peak_buffered_response_bytes_max'',
     ''peak_active_requests'', ''peak_pending_requests'', ''peak_buffered_response_bytes'',
     ''final_failed_requests_max'', ''final_pool_timeouts_max'',
     ''final_buffered_response_bytes_max'', ''final_buffered_response_budget_rejections_max'',
     ''final_active_requests_max'', ''final_response_body_closed_max'',
     ''final_response_body_reuse_eligible_max'', ''final_response_body_aborted_max'',
     ''final_connections_opened_max'', ''final_connections_reused_max'',
     ''final_connections_closed_max'', ''final_connections_aborted_max'',
     ''final_idle_connections_max'']"

definition SIGNED_NUMERIC_FIELDS :: "string list" where
  "SIGNED_NUMERIC_FIELDS =
    [''peak_rss_delta_mb_max'', ''end_rss_delta_mb_max'', ''peak_rss_delta_mb'',
     ''end_rss_delta_mb'']"

definition SIGNED_COUNT_FIELDS :: "string list" where
  "SIGNED_COUNT_FIELDS =
    [''peak_threads_delta_max'', ''end_threads_delta_max'', ''peak_fds_delta_max'',
     ''end_fds_delta_max'', ''peak_threads_delta'', ''end_threads_delta'', ''peak_fds_delta'',
     ''end_fds_delta'']"

subsection \<open>Checks\<close>

definition validate_error_bound :: "int \<Rightarrow> int \<Rightarrow> string \<Rightarrow> unit result" where
  "validate_error_bound errors limit path =
     raise_if (limit < errors)
       (ValueError (path @ '' must not exceed allowed error count ('' @ int_str limit @ '')''))"

definition validate_identity_field :: "obj \<Rightarrow> string \<Rightarrow> string \<Rightarrow> unit result" where
  "validate_identity_field row path f =
     bindE (require_string (get row f) (field_path path f)) (\<lambda>value.
       case map_of IDENTITY_CHOICES f of
         None \<Rightarrow> Inr ()
       | Some choices \<Rightarrow>
           raise_if (value \<notin> set choices)
             (ValueError (field_path path f @ '' must be one of '' @ join '', '' choices)))"

definition validate_nullable_limit :: "obj \<Rightarrow> string \<Rightarrow> string \<Rightarrow> unit result" where
  "validate_nullable_limit row path f =
     (if \<not> has_key row f then Inl (ValueError (field_path path f @ '' is required (integer or null)''))
      else if get row f = JNull then Inr ()
      else check (require_integer (get row f) (field_path path f) 0))"

definition validate_identity :: "string \<Rightarrow> obj \<Rightarrow> string \<Rightarrow> unit result" where
  "validate_identity suite row path =
     bindE (dict_item ORDINARY_IDENTITY_FIELDS suite) (\<lambda>names.
     all_ok
       [forE (validate_identity_field row path) (''mode'' # ''client'' # names),
        (if suite \<in> set OPERATION_SUITES then
           all_ok
             [check (require_integer (get row ''iterations'') (field_path path ''iterations'') 1),
              (if suite = ''client-creation''
               then check (require_integer (get row ''client_count'') (field_path path ''client_count'') 1)
               else Inr ())]
         else
           all_ok
             [check (require_integer (get row ''concurrency'') (field_path path ''concurrency'') 1),
              check (require_integer (get row ''request_limit'') (field_path path ''request_limit'') 0)]),
        (if suite = ''resource-backpressure'' then
           all_ok
             [check (require_integer (get row ''max_pending_requests'')
                (field_path path ''max_pending_requests'') 0),
              forE (validate_nullable_limit row path)
                [''per_origin_request_limit'', ''max_buffered_response_bytes'']]
         else Inr ())])"

definition operation_error_limit :: "string \<Rightarrow> obj \<Rightarrow> string \<Rightarrow> int result" where
  "operation_error_limit suite row path =
     bindE (require_integer (get row ''iterations'') (field_path path ''iterations'') 1) (\<lambda>iterations.
       if suite = ''client-creation'' then
         bindE (dict_item row ''scenario'') (\<lambda>scenario.
           if scenario = JStr CREATE_FIRST_REQUEST_SCENARIO then Inr (iterations * 3)
           else if scenario = JStr REUSED_REQUEST_SCENARIO then Inr (iterations + 2)
           else if scenario = JStr MANY_CLIENTS_SCENARIO then
             bindE (require_integer (get row ''client_count'') (field_path path ''client_count'') 1) (\<lambda>clients.
               if iterations \<noteq> clients
               then Inl (ValueError (path @ ''.iterations must equal client_count for '' @ MANY_CLIENTS_SCENARIO))
               else Inr (clients + 1))
           else Inr iterations)
       else Inr iterations)"

definition error_map_step :: "string \<Rightarrow> string \<Rightarrow> int \<Rightarrow> string \<times> json \<Rightarrow> int result" where
  "error_map_step path f count kv =
     bindE (require_string (JStr (fst kv)) (field_path path f @ '' key'')) (\<lambda>_.
     bindE (require_integer (snd kv) (field_path (field_path path f) (fst kv)) 0) (\<lambda>n.
     Inr (count + n)))"

definition validate_error_map :: "obj \<Rightarrow> string \<Rightarrow> string \<Rightarrow> string \<Rightarrow> unit result" where
  "validate_error_map row f total_field path =
     (if \<not> has_key row f then Inr ()
      else
        bindE (require_object (get row f) (field_path path f)) (\<lambda>errors.
        bindE (require_integer (get row total_field) (field_path path total_field) 0) (\<lambda>total.
        bindE (foldE (error_map_step path f) 0 errors) (\<lambda>count.
        raise_if (count \<noteq> total)
          (ValueError (field_path path f @ '' counts must sum to '' @ total_field))))))"

definition validate_primary :: "string \<Rightarrow> (string \<times> string) list \<Rightarrow> obj \<Rightarrow> string \<Rightarrow> unit result" where
  "validate_primary suite primaries row path =
     bindE (dict_item primaries suite) (\<lambda>primary.
       if suite = ''resource-backpressure''
       then check (require_integer (get row primary) (field_path path primary) 0)
       else check (require_number (get row primary) (field_path path primary) zero_minimum))"

definition validate_aggregate :: "string \<Rightarrow> obj \<Rightarrow> string \<Rightarrow> unit result" where
  "validate_aggregate suite row path =
     bindE (require_integer (get row ''repeats'') (field_path path ''repeats'') 1) (\<lambda>repeats.
     bindE (require_integer (get row ''errors_total'') (field_path path ''errors_total'') 0) (\<lambda>errors.
     all_ok
       [validate_primary suite AGGREGATE_PRIMARY_FIELDS row path,
        (if suite \<in> set OPERATION_SUITES then
           bindE (operation_error_limit suite row path) (\<lambda>limit.
             validate_error_bound errors (limit * repeats) (field_path path ''errors_total''))
         else
           bindE (require_integer (get row ''requests'') (field_path path ''requests'') 1) (\<lambda>requests.
           all_ok
             [check (require_integer (get row ''warmup_errors_total'')
                (field_path path ''warmup_errors_total'') 0),
              validate_error_bound errors (requests * repeats) (field_path path ''errors_total''),
              (case map_of SUCCESS_COUNTS suite of
                 None \<Rightarrow> Inr ()
               | Some success_field \<Rightarrow>
                   bindE (require_integer (get row success_field) (field_path path success_field) 0) (\<lambda>successes.
                     raise_if (successes + errors \<noteq> requests * repeats)
                       (ValueError (field_path path success_field @
                          '' + errors_total must equal requests * repeats''))))])),
        validate_error_map row ''error_types'' ''errors_total'' path,
        validate_error_map row ''warmup_error_types'' ''warmup_errors_total'' path]))"

definition validate_run :: "string \<Rightarrow> obj \<Rightarrow> string \<Rightarrow> unit result" where
  "validate_run suite row path =
     bindE (require_integer (get row ''repeat'') (field_path path ''repeat'') 0) (\<lambda>_.
     bindE (require_number (get row ''duration_s'') (field_path path ''duration_s'') zero_minimum) (\<lambda>_.
     bindE (require_integer (get row ''errors'') (field_path path ''errors'') 0) (\<lambda>errors.
     bindE (validate_primary suite RUN_PRIMARY_FIELDS row path) (\<lambda>_.
     bindE
       (if suite \<in> set OPERATION_SUITES then operation_error_limit suite row path
        else
          bindE (require_integer (get row ''requests'') (field_path path ''requests'') 1) (\<lambda>limit.
          bindE (require_integer (get row ''warmup_errors'') (field_path path ''warmup_errors'') 0) (\<lambda>_.
            let success_field = (if suite = ''response-streaming'' then ''ok_streams'' else ''ok_requests'')
            in bindE (require_integer (get row success_field) (field_path path success_field) 0) (\<lambda>successes.
                 if successes + errors \<noteq> limit
                 then Inl (ValueError (field_path path success_field @ '' + errors must equal requests''))
                 else Inr limit))))
       (\<lambda>limit.
     all_ok
       [validate_error_bound errors limit (field_path path ''errors''),
        validate_error_map row ''error_types'' ''errors'' path,
        validate_error_map row ''warmup_error_types'' ''warmup_errors'' path])))))"

definition when_present :: "obj \<Rightarrow> (string \<Rightarrow> unit result) \<Rightarrow> string \<Rightarrow> unit result" where
  "when_present row f k = (if has_key row k then f k else Inr ())"

definition when_not_null :: "obj \<Rightarrow> (string \<Rightarrow> unit result) \<Rightarrow> string \<Rightarrow> unit result" where
  "when_not_null row f k = (if has_key row k \<and> get row k \<noteq> JNull then f k else Inr ())"

definition validate_optional_numbers :: "obj \<Rightarrow> string \<Rightarrow> unit result" where
  "validate_optional_numbers row path =
     (let number = (\<lambda>m f. check (require_number (get row f) (field_path path f) m))
      in all_ok
           [forE (when_present row (number zero_minimum)) NUMERIC_FIELDS,
            forE (when_not_null row (number zero_minimum)) NULLABLE_NUMERIC_FIELDS,
            forE (when_not_null row (number None)) SIGNED_NUMERIC_FIELDS])"

definition validate_optional_counts :: "obj \<Rightarrow> string \<Rightarrow> unit result" where
  "validate_optional_counts row path =
     (let count = (\<lambda>f. check (require_integer (get row f) (field_path path f) 0))
      in all_ok
           [forE (when_present row count) COUNT_FIELDS,
            forE (when_not_null row count) NULLABLE_COUNT_FIELDS,
            forE (when_not_null row (\<lambda>f.
              raise_if (\<not> type_is_int (get row f))
                (ValueError (field_path path f @ '' must be an integer or null'')))) SIGNED_COUNT_FIELDS])"

definition validate_nested_counts :: "obj \<Rightarrow> string \<Rightarrow> unit result" where
  "validate_nested_counts row path =
     forE (when_not_null row (\<lambda>f.
       bindE (require_object (get row f) (field_path path f)) (\<lambda>counts.
         forE (\<lambda>kv. check (require_integer (snd kv) (field_path (field_path path f) (fst kv)) 0)) counts)))
       [''client_stats'', ''measured_proxy'', ''total_proxy'']"

definition validate_optional_fields :: "obj \<Rightarrow> string \<Rightarrow> unit result" where
  "validate_optional_fields row path =
     all_ok
       [validate_optional_numbers row path,
        validate_optional_counts row path,
        (if has_key row ''error_rate_percent'' then
           bindE (require_number (get row ''error_rate_percent'')
               (field_path path ''error_rate_percent'') zero_minimum) (\<lambda>error_rate.
             raise_if (flt (Fin (of_int MAX_ERROR_RATE_PERCENT)) error_rate)
               (ValueError (field_path path ''error_rate_percent'' @ '' must be <= '' @
                  int_str MAX_ERROR_RATE_PERCENT)))
         else Inr ()),
        validate_nested_counts row path]"

definition validate_ordinary_rows :: "string \<Rightarrow> obj list \<Rightarrow> obj list \<Rightarrow> unit result" where
  "validate_ordinary_rows suite aggregates runs =
     (if map_of ORDINARY_IDENTITY_FIELDS suite = None
      then Inl (ValueError (''Unsupported ordinary report suite: '' @ str_repr suite))
      else
        all_ok
          [foriE (\<lambda>i row.
             all_ok
               [validate_identity suite row (index_path ''aggregate'' i),
                validate_aggregate suite row (index_path ''aggregate'' i),
                validate_optional_fields row (index_path ''aggregate'' i)]) 0 aggregates,
           foriE (\<lambda>i row.
             all_ok
               [validate_identity suite row (index_path ''runs'' i),
                validate_run suite row (index_path ''runs'' i),
                validate_optional_fields row (index_path ''runs'' i)]) 0 runs])"

subsection \<open>What an accepted row is\<close>

fun identity_choice :: "string \<Rightarrow> json \<Rightarrow> bool" where
  "identity_choice f (JStr s) =
     (strip s \<noteq> [] \<and> (case map_of IDENTITY_CHOICES f of None \<Rightarrow> True | Some cs \<Rightarrow> s \<in> set cs))"
| "identity_choice f v = False"

definition nullable :: "(json \<Rightarrow> bool) \<Rightarrow> json \<Rightarrow> bool" where
  "nullable P v = (v = JNull \<or> P v)"

definition ordinary_identity :: "string \<Rightarrow> obj \<Rightarrow> bool" where
  "ordinary_identity suite row =
     ((case map_of ORDINARY_IDENTITY_FIELDS suite of
         None \<Rightarrow> False
       | Some names \<Rightarrow> list_all (\<lambda>f. identity_choice f (get row f)) (''mode'' # ''client'' # names)) \<and>
      (if suite \<in> set OPERATION_SUITES
       then integer_ge 1 (get row ''iterations'') \<and>
         (suite = ''client-creation'' \<longrightarrow> integer_ge 1 (get row ''client_count''))
       else integer_ge 1 (get row ''concurrency'') \<and> integer_ge 0 (get row ''request_limit'')) \<and>
      (suite = ''resource-backpressure'' \<longrightarrow>
         integer_ge 0 (get row ''max_pending_requests'') \<and>
         list_all (\<lambda>f. has_key row f \<and> nullable (integer_ge 0) (get row f))
           [''per_origin_request_limit'', ''max_buffered_response_bytes'']))"

text \<open>The most error events one run of an operation suite can record.\<close>

definition error_limit :: "string \<Rightarrow> obj \<Rightarrow> int option" where
  "error_limit suite row =
     (case get row ''iterations'' of
        JInt n \<Rightarrow>
          (if n < 1 then None
           else if suite \<noteq> ''client-creation'' then Some n
           else if get row ''scenario'' = JStr CREATE_FIRST_REQUEST_SCENARIO then Some (n * 3)
           else if get row ''scenario'' = JStr REUSED_REQUEST_SCENARIO then Some (n + 2)
           else if get row ''scenario'' = JStr MANY_CLIENTS_SCENARIO then
             (if get row ''client_count'' = JInt n then Some (n + 1) else None)
           else if has_key row ''scenario'' then Some n
           else None)
      | _ \<Rightarrow> None)"

fun integer_value :: "json \<Rightarrow> int" where
  "integer_value (JInt i) = i"
| "integer_value v = 0"

definition error_map_sums :: "obj \<Rightarrow> string \<Rightarrow> string \<Rightarrow> bool" where
  "error_map_sums row f total_field =
     (has_key row f \<longrightarrow>
        (case get row f of
           JObj errors \<Rightarrow>
             integer_ge 0 (get row total_field) \<and>
             list_all (\<lambda>kv. strip (fst kv) \<noteq> [] \<and> integer_ge 0 (snd kv)) errors \<and>
             sum_list (map (\<lambda>kv. integer_value (snd kv)) errors) = integer_value (get row total_field)
         | _ \<Rightarrow> False))"

definition primary_value :: "string \<Rightarrow> (string \<times> string) list \<Rightarrow> obj \<Rightarrow> bool" where
  "primary_value suite primaries row =
     (case map_of primaries suite of
        None \<Rightarrow> False
      | Some primary \<Rightarrow>
          if suite = ''resource-backpressure'' then integer_ge 0 (get row primary)
          else number_ge_zero (get row primary))"

definition aggregate_counts :: "string \<Rightarrow> obj \<Rightarrow> bool" where
  "aggregate_counts suite row =
     (integer_ge 1 (get row ''repeats'') \<and> integer_ge 0 (get row ''errors_total'') \<and>
      (let repeats = integer_value (get row ''repeats''); errors = integer_value (get row ''errors_total'')
       in if suite \<in> set OPERATION_SUITES
          then (case error_limit suite row of None \<Rightarrow> False | Some limit \<Rightarrow> errors \<le> limit * repeats)
          else integer_ge 1 (get row ''requests'') \<and> integer_ge 0 (get row ''warmup_errors_total'') \<and>
            errors \<le> integer_value (get row ''requests'') * repeats \<and>
            (case map_of SUCCESS_COUNTS suite of
               None \<Rightarrow> True
             | Some f \<Rightarrow> integer_ge 0 (get row f) \<and>
                 integer_value (get row f) + errors = integer_value (get row ''requests'') * repeats)))"

definition run_counts :: "string \<Rightarrow> obj \<Rightarrow> bool" where
  "run_counts suite row =
     (integer_ge 0 (get row ''repeat'') \<and> number_ge_zero (get row ''duration_s'') \<and>
      integer_ge 0 (get row ''errors'') \<and>
      (let errors = integer_value (get row ''errors'');
           success_field = (if suite = ''response-streaming'' then ''ok_streams'' else ''ok_requests'')
       in if suite \<in> set OPERATION_SUITES
          then (case error_limit suite row of None \<Rightarrow> False | Some limit \<Rightarrow> errors \<le> limit)
          else integer_ge 1 (get row ''requests'') \<and> integer_ge 0 (get row ''warmup_errors'') \<and>
            integer_ge 0 (get row success_field) \<and>
            integer_value (get row success_field) + errors = integer_value (get row ''requests'')))"

definition optional_fields :: "obj \<Rightarrow> bool" where
  "optional_fields row =
     (list_all (\<lambda>f. has_key row f \<longrightarrow> number_ge_zero (get row f)) NUMERIC_FIELDS \<and>
      list_all (\<lambda>f. nullable number_ge_zero (get row f)) NULLABLE_NUMERIC_FIELDS \<and>
      list_all (\<lambda>f. nullable (\<lambda>v. json_number v \<noteq> None) (get row f)) SIGNED_NUMERIC_FIELDS \<and>
      list_all (\<lambda>f. has_key row f \<longrightarrow> integer_ge 0 (get row f)) COUNT_FIELDS \<and>
      list_all (\<lambda>f. nullable (integer_ge 0) (get row f)) NULLABLE_COUNT_FIELDS \<and>
      list_all (\<lambda>f. nullable type_is_int (get row f)) SIGNED_COUNT_FIELDS \<and>
      (has_key row ''error_rate_percent'' \<longrightarrow>
         (\<exists>r. 0 \<le> r \<and> r \<le> 100 \<and> json_number (get row ''error_rate_percent'') = Some (Fin r))) \<and>
      list_all (\<lambda>f. nullable (\<lambda>v. case v of
          JObj counts \<Rightarrow> list_all (\<lambda>kv. integer_ge 0 (snd kv)) counts | _ \<Rightarrow> False) (get row f))
        [''client_stats'', ''measured_proxy'', ''total_proxy''])"

definition ordinary_aggregate :: "string \<Rightarrow> obj \<Rightarrow> bool" where
  "ordinary_aggregate suite row =
     (ordinary_identity suite row \<and> primary_value suite AGGREGATE_PRIMARY_FIELDS row \<and>
      aggregate_counts suite row \<and> error_map_sums row ''error_types'' ''errors_total'' \<and>
      error_map_sums row ''warmup_error_types'' ''warmup_errors_total'' \<and> optional_fields row)"

definition ordinary_run :: "string \<Rightarrow> obj \<Rightarrow> bool" where
  "ordinary_run suite row =
     (ordinary_identity suite row \<and> primary_value suite RUN_PRIMARY_FIELDS row \<and>
      run_counts suite row \<and> error_map_sums row ''error_types'' ''errors'' \<and>
      error_map_sums row ''warmup_error_types'' ''warmup_errors'' \<and> optional_fields row)"

subsection \<open>The checks accept exactly those rows\<close>

lemma validate_identity_field_ok [ok]:
  "validate_identity_field row path f = Inr u \<longleftrightarrow> identity_choice f (get row f)"
  by (cases "get row f") (auto simp: validate_identity_field_def ok split: option.splits)

lemma validate_nullable_limit_ok [ok]:
  "validate_nullable_limit row path f = Inr u \<longleftrightarrow> has_key row f \<and> nullable (integer_ge 0) (get row f)"
  by (auto simp: validate_nullable_limit_def nullable_def ok)

lemma validate_identity_iff [ok]:
  "validate_identity suite row path = Inr u \<longleftrightarrow> ordinary_identity suite row"
  unfolding validate_identity_def ordinary_identity_def
  by (cases "map_of ORDINARY_IDENTITY_FIELDS suite"; cases "suite \<in> set OPERATION_SUITES";
      cases "suite = ''client-creation''"; cases "suite = ''resource-backpressure''")
    (simp_all add: ok list_all_iff)

lemma operation_error_limit_ok [ok]:
  "operation_error_limit suite row path = Inr n \<longleftrightarrow> error_limit suite row = Some n"
proof (cases "get row ''iterations''")
  case (JInt i)
  have many: "bindE (require_integer v p 1) (\<lambda>c. if i \<noteq> c then Inl e else Inr (c + 1)) = Inr n \<longleftrightarrow>
      v = JInt i \<and> 1 \<le> i \<and> n = i + 1" for v p and e :: py_error
    by (cases v) (auto simp: require_integer_def)
  show ?thesis
    unfolding operation_error_limit_def error_limit_def JInt
    using many [of "get row ''client_count''"] get_not_null_has [of row "''scenario''"]
    by (cases "i < 1"; cases "has_key row ''scenario''"; cases "suite = ''client-creation''")
      (auto simp: require_integer_JInt dict_item_get)
qed (auto simp: operation_error_limit_def error_limit_def ok)

lemma error_map_fold:
  "foldE (error_map_step path f) c errors = Inr n \<longleftrightarrow>
     list_all (\<lambda>kv. strip (fst kv) \<noteq> [] \<and> integer_ge 0 (snd kv)) errors \<and>
     n = c + sum_list (map (\<lambda>kv. integer_value (snd kv)) errors)"
  by (induction errors arbitrary: c) (auto simp: error_map_step_def ok integer_ge_iff)

lemma validate_error_map_ok [ok]:
  "validate_error_map row f total_field path = Inr u \<longleftrightarrow> error_map_sums row f total_field"
  by (cases "get row f")
    (auto simp: validate_error_map_def error_map_sums_def ok error_map_fold integer_ge_iff)

lemma validate_primary_ok [ok]:
  "validate_primary suite primaries row path = Inr u \<longleftrightarrow> primary_value suite primaries row"
  by (auto simp: validate_primary_def primary_value_def ok split: option.splits)

lemma validate_error_bound_ok [ok]: "validate_error_bound e l path = Inr u \<longleftrightarrow> e \<le> l"
  by (auto simp: validate_error_bound_def ok)

lemma validate_aggregate_iff [ok]:
  "validate_aggregate suite row path = Inr u \<longleftrightarrow>
     aggregate_counts suite row \<and> primary_value suite AGGREGATE_PRIMARY_FIELDS row \<and>
     error_map_sums row ''error_types'' ''errors_total'' \<and>
     error_map_sums row ''warmup_error_types'' ''warmup_errors_total''"
  by (auto simp: validate_aggregate_def aggregate_counts_def Let_def ok integer_ge_iff
      split: option.splits)

lemma validate_run_iff [ok]:
  "validate_run suite row path = Inr u \<longleftrightarrow>
     run_counts suite row \<and> primary_value suite RUN_PRIMARY_FIELDS row \<and>
     error_map_sums row ''error_types'' ''errors'' \<and>
     error_map_sums row ''warmup_error_types'' ''warmup_errors''"
proof -
  have limit: "bindE (require_integer (get row ''requests'') p 1) (\<lambda>l.
      bindE (require_integer (get row ''warmup_errors'') q 0) (\<lambda>_.
      bindE (require_integer (get row k) r 0) (\<lambda>s. if s + e \<noteq> l then Inl x else Inr l))) = Inr n \<longleftrightarrow>
      get row ''requests'' = JInt n \<and> 1 \<le> n \<and> integer_ge 0 (get row ''warmup_errors'') \<and>
      integer_ge 0 (get row k) \<and> integer_value (get row k) + e = n"
    for p q k r e n and x :: py_error
    by (auto simp: ok integer_ge_iff)
  show ?thesis
  proof (cases "suite \<in> set OPERATION_SUITES")
    case True
    then show ?thesis
      by (auto simp: validate_run_def run_counts_def ok integer_ge_iff number_ge_zero_def
          split: option.splits)
  next
    case False
    then show ?thesis
      unfolding validate_run_def run_counts_def Let_def
      by (simp only: if_False limit bindE_ok) (auto simp: ok integer_ge_iff number_ge_zero_def)
  qed
qed

lemma when_present_ok [ok]: "when_present row f k = Inr () \<longleftrightarrow> (has_key row k \<longrightarrow> f k = Inr ())"
  by (simp add: when_present_def)

lemma when_not_null_ok [ok]:
  "when_not_null row f k = Inr () \<longleftrightarrow> (get row k = JNull \<or> f k = Inr ())"
  using get_not_null_has by (auto simp: when_not_null_def)

lemma nested_counts_ok [ok]:
  "bindE (require_object v path) (\<lambda>counts. forE (\<lambda>kv. check (require_integer (snd kv) (p kv) 0)) counts)
     = Inr u \<longleftrightarrow> (case v of JObj counts \<Rightarrow> list_all (\<lambda>kv. integer_ge 0 (snd kv)) counts | _ \<Rightarrow> False)"
  by (cases v) (auto simp: ok list_all_iff)

lemma validate_optional_fields_ok [ok]:
  "validate_optional_fields row path = Inr u \<longleftrightarrow> optional_fields row"
proof -
  have rate: "bindE (require_number v p zero_minimum) (\<lambda>x. raise_if (flt (Fin 100) x) e) = Inr w \<longleftrightarrow>
      (\<exists>r. 0 \<le> r \<and> r \<le> 100 \<and> json_number v = Some (Fin r))" for v p e w
    by (auto simp: ok not_less)
  have numbers: "validate_optional_numbers row path = Inr () \<longleftrightarrow>
      list_all (\<lambda>f. has_key row f \<longrightarrow> number_ge_zero (get row f)) NUMERIC_FIELDS \<and>
      list_all (\<lambda>f. nullable number_ge_zero (get row f)) NULLABLE_NUMERIC_FIELDS \<and>
      list_all (\<lambda>f. nullable (\<lambda>v. json_number v \<noteq> None) (get row f)) SIGNED_NUMERIC_FIELDS"
    by (simp add: validate_optional_numbers_def Let_def ok list_all_iff nullable_def)
  have counts: "validate_optional_counts row path = Inr () \<longleftrightarrow>
      list_all (\<lambda>f. has_key row f \<longrightarrow> integer_ge 0 (get row f)) COUNT_FIELDS \<and>
      list_all (\<lambda>f. nullable (integer_ge 0) (get row f)) NULLABLE_COUNT_FIELDS \<and>
      list_all (\<lambda>f. nullable type_is_int (get row f)) SIGNED_COUNT_FIELDS"
    by (simp add: validate_optional_counts_def Let_def ok list_all_iff nullable_def)
  have nested: "validate_nested_counts row path = Inr () \<longleftrightarrow>
      list_all (\<lambda>f. nullable (\<lambda>v. case v of
          JObj counts \<Rightarrow> list_all (\<lambda>kv. integer_ge 0 (snd kv)) counts | _ \<Rightarrow> False) (get row f))
        [''client_stats'', ''measured_proxy'', ''total_proxy'']"
    unfolding validate_nested_counts_def forE_ok when_not_null_ok nested_counts_ok list_all_iff
      nullable_def by simp
  show ?thesis
    unfolding validate_optional_fields_def optional_fields_def
    by (simp add: bindE_unit_ok numbers counts nested rate MAX_ERROR_RATE_PERCENT_def del: list.pred_inject)
qed

lemma ordinary_rows_exact [ok]:
  "validate_ordinary_rows suite aggregates runs = Inr u \<longleftrightarrow>
     suite \<in> dom (map_of ORDINARY_IDENTITY_FIELDS) \<and>
     list_all (ordinary_aggregate suite) aggregates \<and> list_all (ordinary_run suite) runs"
  by (auto simp: validate_ordinary_rows_def ok ordinary_aggregate_def ordinary_run_def
      list_all_length)

text \<open>
  C8: the ordinary admission is exact: for a suite the reader knows, it accepts a report's rows if
  and only if every aggregate and every run row satisfies the declarative description, and it
  accepts nothing for another suite.\<close>

theorem validate_ordinary_rows_iff:
  "validate_ordinary_rows suite aggregates runs = Inr () \<longleftrightarrow>
     suite \<in> dom (map_of ORDINARY_IDENTITY_FIELDS) \<and>
     list_all (ordinary_aggregate suite) aggregates \<and> list_all (ordinary_run suite) runs"
  by (rule ordinary_rows_exact)

end
