(* ===== verification/Statistics.thy ===== *)
theory Statistics
  imports Report_Fields
begin

text \<open>
  statistics.py and resource_metrics.py: the percentile of sorted samples, counters merged
  per error type, the optional maximum of nullable resource observations and its coverage
  record.
\<close>

subsection \<open>Counters: dictionaries from names to counts\<close>

text \<open>
  \<^verbatim>\<open>values[key] = values.get(key, 0) + count\<close>, the step every counter of the program is
  built from (\<^verbatim>\<open>increment\<close> is the step by one).
\<close>

definition counter_get :: "('k \<times> int) list \<Rightarrow> 'k \<Rightarrow> int" where
  "counter_get d k = (case map_of d k of None \<Rightarrow> 0 | Some n \<Rightarrow> n)"

definition counter_add :: "('k \<times> int) list \<Rightarrow> 'k \<Rightarrow> int \<Rightarrow> ('k \<times> int) list" where
  "counter_add d k n = AList.update k (counter_get d k + n) d"

definition counter_total :: "('k \<times> int) list \<Rightarrow> int" where
  "counter_total d = sum_list (map snd d)"

definition merge_counts :: "('k \<times> int) list \<Rightarrow> ('k \<times> int) list \<Rightarrow> ('k \<times> int) list" where
  "merge_counts d e = foldl (\<lambda>acc kv. counter_add acc (fst kv) (snd kv)) d e"

definition merge_error_types :: "(string \<times> int) list list \<Rightarrow> (string \<times> int) list" where
  "merge_error_types ds = foldl merge_counts [] ds"

subsection \<open>Percentile\<close>

text \<open>
  The samples are already sorted; the position \<^verbatim>\<open>(pct / 100) * (len(values) - 1)\<close> is
  computed in floating point and rounded half to even. (The product cannot overflow, so the
  last case of the model is never taken.)
\<close>

definition percentile_index :: "nat \<Rightarrow> rat \<Rightarrow> int" where
  "percentile_index n pct =
     (case fdiv (Fin pct) (Fin 100) of
        Inl _ \<Rightarrow> 0
      | Inr q \<Rightarrow>
          (case fmul q (Fin (of_nat (n - 1))) of
             Fin x \<Rightarrow> min (int n - 1) (max 0 (round_half_even x))
           | _ \<Rightarrow> 0))"

definition percentile :: "pyfloat list \<Rightarrow> rat \<Rightarrow> pyfloat" where
  "percentile values pct =
     (if values = [] then Fin 0 else values ! nat (percentile_index (length values) pct))"

subsection \<open>Coefficient of variation\<close>

text \<open>\<^verbatim>\<open>math.isqrt\<close>, two bits at a time.\<close>

function isqrt :: "int \<Rightarrow> int" where
  "isqrt n =
     (if n \<le> 0 then 0
      else let r = 2 * isqrt (n div 4) in if (r + 1) * (r + 1) \<le> n then r + 1 else r)"
  by pat_completeness auto
termination
  by (relation "measure nat") auto

declare isqrt.simps [simp del]

text \<open>
  The square root of a fraction as the standard library computes it: an integer square root with
  more than 53 bits, made odd when it is inexact, and one correctly rounded division.
\<close>

definition integer_sqrt_of_frac_rto :: "int \<Rightarrow> int \<Rightarrow> int" where
  "integer_sqrt_of_frac_rto n m =
     (let a = isqrt (n div m) in if a * a * m \<noteq> n \<and> even a then a + 1 else a)"

definition float_sqrt_of_frac :: "int \<Rightarrow> int \<Rightarrow> pyfloat" where
  "float_sqrt_of_frac n m =
     (let q = (int (bit_length n) - int (bit_length m) - 109) div 2
      in if 0 \<le> q then round64 (of_int (integer_sqrt_of_frac_rto n (m * 2 ^ nat (2 * q)) * 2 ^ nat q))
         else round64 (of_int (integer_sqrt_of_frac_rto (n * 2 ^ nat (- 2 * q)) m) / 2 ^ nat (- q)))"

definition exact_mean :: "rat list \<Rightarrow> rat" where
  "exact_mean xs = sum_list xs / of_nat (length xs)"

definition stdev :: "rat list \<Rightarrow> pyfloat" where
  "stdev xs =
     (let n = length xs; sx = sum_list xs; sxx = sum_list (map (\<lambda>x. x * x) xs);
          mss = (of_nat n * sxx - sx * sx) / of_nat n / of_nat (n - 1)
      in case quotient_of mss of (numerator, denominator) \<Rightarrow> float_sqrt_of_frac numerator denominator)"

text \<open>
  With an infinite sample the mean is not zero and the standard deviation raises, because the sum of
  squares is then a float without a numerator.
\<close>

primrec finite_value :: "pyfloat \<Rightarrow> rat option" where
  "finite_value (Fin r) = Some r"
| "finite_value PInf = None"
| "finite_value NInf = None"
| "finite_value NaN = None"

definition coefficient_of_variation :: "pyfloat list \<Rightarrow> pyfloat result" where
  "coefficient_of_variation values =
     (if length values < MIN_VARIATION_SAMPLES then Inr (Fin 0)
      else if list_ex (\<lambda>v. \<not> is_finite v) values
      then Inl (AttributeError ([CHR 0x27] @ ''float'' @ [CHR 0x27] @ '' object has no attribute '' @ [CHR 0x27] @ ''numerator'' @ [CHR 0x27]))
      else
        (let xs = List.map_filter finite_value values; mean = round64 (exact_mean xs)
         in if mean = Fin 0 then Inr (Fin 0)
            else bindE (fdiv (stdev xs) mean) (\<lambda>x. Inr (fmul x (Fin 100)))))"

subsection \<open>Nullable resource observations\<close>

record resource_metric_coverage =
  rmc_available :: int
  rmc_expected :: int
  rmc_unavailable_reasons :: "string list"

type_synonym resource_coverage = "(string \<times> resource_metric_coverage) list"

text \<open>\<^verbatim>\<open>resource_values\<close>: the numeric observations, with \<^verbatim>\<open>None\<close> left out.\<close>

fun resource_values :: "json list \<Rightarrow> json list result" where
  "resource_values [] = Inr []"
| "resource_values (v # vs) =
     (case v of
        JNull \<Rightarrow> resource_values vs
      | JInt i \<Rightarrow> bindE (resource_values vs) (\<lambda>ps. Inr (JInt i # ps))
      | JFloat x \<Rightarrow>
          (if \<not> is_finite x then Inl (ValueError ''Resource measurements must be finite or null'')
           else bindE (resource_values vs) (\<lambda>ps. Inr (JFloat x # ps)))
      | _ \<Rightarrow> Inl (TypeError
          ''Resource measurements must be numeric or null; bool is not a measurement''))"

text \<open>\<^verbatim>\<open>max\<close> of Python keeps the first of equal maxima and compares without rounding.\<close>

definition num_less :: "json \<Rightarrow> json \<Rightarrow> bool" where
  "num_less v w = (case (as_float v, as_float w) of (Some x, Some y) \<Rightarrow> flt x y | _ \<Rightarrow> False)"

fun py_max :: "json \<Rightarrow> json list \<Rightarrow> json" where
  "py_max m [] = m"
| "py_max m (v # vs) = py_max (if num_less m v then v else m) vs"

definition optional_resource_max :: "json list \<Rightarrow> json result" where
  "optional_resource_max values =
     bindE (resource_values values)
       (\<lambda>present. case present of [] \<Rightarrow> Inr JNull | v # vs \<Rightarrow> Inr (py_max v vs))"

definition resource_coverage :: "(string \<times> json list) list \<Rightarrow> resource_coverage result" where
  "resource_coverage metrics =
     mapE (\<lambda>(name, values).
       bindE (resource_values values)
         (\<lambda>present.
            let available = int (length present)
            in Inr (name,
                 \<lparr>rmc_available = available, rmc_expected = int (length values),
                  rmc_unavailable_reasons =
                    (if available < int (length values) then [''reason-not-recorded''] else [])\<rparr>)))
       metrics"

subsection \<open>The counter interface\<close>

text \<open>
  What a counter store promises: adding to a name changes that name's count only, and the
  total by the same amount. The counting loops of load.py, statistics.py, the validity
  classification and the report merger rely on nothing else.
\<close>

locale counter_store =
  fixes count :: "'d \<Rightarrow> 'k \<Rightarrow> int"
    and total :: "'d \<Rightarrow> int"
    and add :: "'d \<Rightarrow> 'k \<Rightarrow> int \<Rightarrow> 'd"
  assumes count_add: "count (add d k n) j = (if j = k then count d k + n else count d j)"
    and total_add: "total (add d k n) = total d + n"
begin

lemma count_adds:
  "count (foldl (\<lambda>acc kv. add acc (fst kv) (snd kv)) d kvs) j =
     count d j + (\<Sum>kv\<leftarrow>kvs. if fst kv = j then snd kv else 0)"
  by (induction kvs arbitrary: d) (auto simp: count_add)

lemma total_adds:
  "total (foldl (\<lambda>acc kv. add acc (fst kv) (snd kv)) d kvs) = total d + (\<Sum>kv\<leftarrow>kvs. snd kv)"
  by (induction kvs arbitrary: d) (auto simp: total_add)

lemma count_bumps: "count (foldl (\<lambda>acc k. add acc k 1) d ks) j = count d j + int (count_list ks j)"
  by (induction ks arbitrary: d) (auto simp: count_add)

lemma total_bumps: "total (foldl (\<lambda>acc k. add acc k 1) d ks) = total d + int (length ks)"
  by (induction ks arbitrary: d) (auto simp: total_add)

lemma total_merges:
  "total (foldl (\<lambda>acc e. foldl (\<lambda>acc kv. add acc (fst kv) (snd kv)) acc e) d es) =
     total d + (\<Sum>e\<leftarrow>es. \<Sum>kv\<leftarrow>e. snd kv)"
  by (induction es arbitrary: d) (auto simp: total_adds)

lemma count_merges:
  "count (foldl (\<lambda>acc e. foldl (\<lambda>acc kv. add acc (fst kv) (snd kv)) acc e) d es) j =
     count d j + (\<Sum>e\<leftarrow>es. \<Sum>kv\<leftarrow>e. if fst kv = j then snd kv else 0)"
  by (induction es arbitrary: d) (auto simp: count_adds)

end

lemma total_update:
  "counter_total (AList.update k n d) = counter_total d - counter_get d k + n"
  by (induction d) (auto simp: counter_total_def counter_get_def)

interpretation py_counter: counter_store counter_get counter_total counter_add
  by unfold_locales (auto simp: counter_add_def total_update counter_get_def)

lemma counter_get_Nil [simp]: "counter_get [] k = 0"
  by (simp add: counter_get_def)

lemma counter_total_Nil [simp]: "counter_total [] = 0"
  by (simp add: counter_total_def)

lemma counter_sum_get:
  "wf_obj d \<Longrightarrow> (\<Sum>kv\<leftarrow>d. if fst kv = j then snd kv else 0) = counter_get d j"
proof (induction d)
  case Nil
  then show ?case by simp
next
  case (Cons kv d)
  show ?case
  proof (cases "fst kv = j")
    case True
    with Cons.prems have "map_of d j = None" by (auto simp: wf_obj_def map_of_eq_None_iff)
    with True Cons show ?thesis by (auto simp: counter_get_def wf_obj_def split: prod.splits)
  next
    case False
    with Cons show ?thesis by (auto simp: counter_get_def wf_obj_def split: prod.splits)
  qed
qed

lemma wf_counter_add [simp]: "wf_obj d \<Longrightarrow> wf_obj (counter_add d k n)"
  by (simp add: counter_add_def)

lemma wf_merge_counts [simp]: "wf_obj d \<Longrightarrow> wf_obj (merge_counts d e)"
  by (induction e arbitrary: d) (simp_all add: merge_counts_def)

lemma merge_error_types_total:
  "counter_total (merge_error_types ds) = (\<Sum>d\<leftarrow>ds. counter_total d)"
  unfolding merge_error_types_def merge_counts_def [abs_def] py_counter.total_merges
  by (simp add: counter_total_def)

lemma merge_error_types_get:
  assumes "\<And>d. d \<in> set ds \<Longrightarrow> wf_obj d"
  shows "counter_get (merge_error_types ds) j = (\<Sum>d\<leftarrow>ds. counter_get d j)"
proof -
  have "(\<Sum>d\<leftarrow>ds. \<Sum>kv\<leftarrow>d. if fst kv = j then snd kv else 0) = (\<Sum>d\<leftarrow>ds. counter_get d j)"
    using assms by (simp add: counter_sum_get cong: map_cong)
  then show ?thesis
    unfolding merge_error_types_def merge_counts_def [abs_def] py_counter.count_merges
    by simp
qed

lemma merge_error_types_wf: "wf_obj (merge_error_types ds)"
proof -
  have "wf_obj d \<Longrightarrow> wf_obj (foldl merge_counts d es)" for d es
    by (induction es arbitrary: d) simp_all
  then show ?thesis by (simp add: merge_error_types_def wf_obj_def)
qed

subsection \<open>Signs\<close>

lemma Fin_le_special: "Fin a \<le> PInf" "\<not> Fin a \<le> NInf" "Fin a \<le> NaN"
  by (simp_all add: less_eq_pyfloat_def)

lemma fdiv_nonneg: "fdiv x (Fin b) = Inr y \<Longrightarrow> Fin 0 \<le> x \<Longrightarrow> x \<noteq> NaN \<Longrightarrow> 0 < b \<Longrightarrow> Fin 0 \<le> y \<and> y \<noteq> NaN"
  by (cases x) (auto simp: signed_inf_def Fin_le_special round64_ge_0 split: if_splits)

lemma fmul_nonneg: "Fin 0 \<le> x \<Longrightarrow> 0 < b \<Longrightarrow> is_finite (fmul x (Fin b)) \<Longrightarrow> Fin 0 \<le> fmul x (Fin b)"
  by (cases x) (auto simp: round64_ge_0 signed_inf_def Fin_le_special split: if_splits)

lemma isqrt_nonneg: "0 \<le> isqrt n"
proof (induction n rule: isqrt.induct)
  case (1 n)
  then show ?case by (subst isqrt.simps) (simp add: Let_def)
qed

lemma stdev_nonneg: "Fin 0 \<le> stdev xs"
proof -
  have "0 \<le> integer_sqrt_of_frac_rto n m" for n m
    using isqrt_nonneg [of "n div m"] by (simp add: integer_sqrt_of_frac_rto_def Let_def)
  then show ?thesis
    unfolding stdev_def float_sqrt_of_frac_def Let_def
    by (auto intro!: round64_ge_0 simp: of_int_mult [symmetric] simp del: of_int_mult split: prod.splits)
qed

lemma stdev_not_NaN: "stdev xs \<noteq> NaN"
  by (simp add: stdev_def float_sqrt_of_frac_def Let_def split: prod.splits)

lemma variation_nonneg:
  assumes "coefficient_of_variation values = Inr v" "\<And>x. x \<in> set values \<Longrightarrow> Fin 0 \<le> x" "is_finite v"
  shows "Fin 0 \<le> v"
proof -
  let ?xs = "List.map_filter finite_value values"
  have nonneg: "0 \<le> x" if "x \<in> set ?xs" for x
  proof -
    from that obtain y where "y \<in> set values" "finite_value y = Some x" by (auto simp: List.map_filter_def)
    then show ?thesis using assms(2) [of y] by (cases rule: pyfloat.exhaust [of y]) simp_all
  qed
  then have "0 \<le> exact_mean ?xs" by (auto simp: exact_mean_def intro!: divide_nonneg_nonneg sum_list_nonneg)
  then have mean: "Fin 0 \<le> round64 (exact_mean ?xs)" by (rule round64_ge_0)
  show ?thesis
  proof (cases "length values < MIN_VARIATION_SAMPLES \<or> round64 (exact_mean ?xs) = Fin 0")
    case True
    with assms(1) show ?thesis by (auto simp: coefficient_of_variation_def Let_def split: if_splits)
  next
    case False
    with assms(1) obtain x where x: "fdiv (stdev ?xs) (round64 (exact_mean ?xs)) = Inr x" "v = fmul x (Fin 100)"
      by (auto simp: coefficient_of_variation_def Let_def bindE_ok split: if_splits)
    have "Fin 0 \<le> x"
    proof (cases "round64 (exact_mean ?xs)")
      case (Fin b)
      with mean False have "0 < b" by auto
      with x(1) Fin stdev_nonneg [of ?xs] stdev_not_NaN show ?thesis using fdiv_nonneg by metis
    next
      case PInf
      with x(1) show ?thesis by (cases "stdev ?xs") (auto simp: less_eq_pyfloat_def)
    qed (use mean in \<open>auto simp: less_eq_pyfloat_def\<close>)
    with x(2) assms(3) show ?thesis by (simp add: fmul_nonneg)
  qed
qed

subsection \<open>Members\<close>

lemma resource_values_members: "resource_values vs = Inr ps \<Longrightarrow> set ps \<subseteq> set vs - {JNull}"
proof (induction vs arbitrary: ps)
  case (Cons v vs)
  then show ?case by (cases v) (auto simp: bindE_ok split: if_splits)
qed simp

lemma py_max_member: "py_max m vs \<in> insert m (set vs)"
  by (induction m vs rule: py_max.induct) (auto split: if_splits)

lemma resource_max_member: "optional_resource_max vs = Inr v \<Longrightarrow> v = JNull \<or> v \<in> set vs"
proof -
  assume "optional_resource_max vs = Inr v"
  then obtain ps where "resource_values vs = Inr ps"
      "(case ps of [] \<Rightarrow> Inr JNull | p # qs \<Rightarrow> Inr (py_max p qs)) = (Inr v :: json result)"
    unfolding optional_resource_max_def bindE_ok by blast
  then show ?thesis
    using resource_values_members [of vs ps] py_max_member [of "hd ps" "tl ps"] by (cases ps) auto
qed

lemma merge_error_types_keys: "fst ` set (merge_error_types ds) \<subseteq> (\<Union>d \<in> set ds. fst ` set d)"
proof -
  have counts: "fst ` set (merge_counts d e) \<subseteq> fst ` set d \<union> fst ` set e" for d e :: "(string \<times> int) list"
    unfolding merge_counts_def
  proof (induction e arbitrary: d)
    case (Cons kv e)
    from Cons.IH [of "counter_add d (fst kv) (snd kv)"] show ?case by (auto simp: counter_add_def dom_update)
  qed simp
  show ?thesis
    unfolding merge_error_types_def
  proof (induction ds rule: rev_induct)
    case (snoc d ds)
    have "fst ` set (foldl merge_counts [] (ds @ [d])) \<subseteq> fst ` set (foldl merge_counts [] ds) \<union> fst ` set d"
      using counts by simp
    also have "\<dots> \<subseteq> (\<Union>d \<in> set ds. fst ` set d) \<union> fst ` set d"
      using snoc by (rule Un_mono) simp
    finally show ?case by (simp add: Un_commute)
  qed simp
qed

end
