(* ===== verification/Report_Resources.thy ===== *)
theory Report_Resources
  imports Report_Identity Statistics
begin

text \<open>
  report_schema/resources.py: how many of the runs behind an aggregate row recorded each resource
  metric, and the check of that coverage against the row and its runs.
\<close>

definition RAW_RESOURCE_FIELDS :: "(string \<times> string) list" where
  "RAW_RESOURCE_FIELDS =
     [(''rss_mb_max'', ''peak_rss_mb''), (''threads_max'', ''peak_threads''), (''fds_max'', ''peak_fds''),
      (''peak_active_requests_max'', ''peak_active_requests''),
      (''peak_pending_requests_max'', ''peak_pending_requests''),
      (''peak_buffered_response_bytes_max'', ''peak_buffered_response_bytes'')] @
     concat (map (\<lambda>phase.
       map (\<lambda>(metric, unit_name).
           (phase @ ''_'' @ metric @ ''_delta'' @ unit_name @ ''_max'',
            phase @ ''_'' @ metric @ ''_delta'' @ unit_name))
         [(''rss'', ''_mb''), (''threads'', ''''), (''fds'', '''')])
       [''peak'', ''end''])"

definition CLIENT_STAT_FIELDS :: "(string \<times> string) list" where
  "CLIENT_STAT_FIELDS =
     map (\<lambda>key. (''final_'' @ key @ ''_max'', key))
       [''failed_requests'', ''buffered_response_bytes'', ''buffered_response_budget_rejections'',
        ''active_requests'', ''response_body_closed'', ''response_body_reuse_eligible'',
        ''response_body_aborted'', ''connections_opened'', ''connections_reused'',
        ''connections_closed'', ''connections_aborted'', ''idle_connections''] @
     [(''final_pool_timeouts_max'', ''pool_acquire_timeouts'')]"

definition coverage_record :: "string \<Rightarrow> string \<times> json \<Rightarrow> (string \<times> resource_metric_coverage) result" where
  "coverage_record path kv =
     (let metric = fst kv; metric_path = field_path (path @ ''.resource_coverage'') metric
      in bindE (require_string (JStr metric) (path @ ''.resource_coverage metric'')) (\<lambda>_.
         bindE (require_object (snd kv) metric_path) (\<lambda>record.
         bindE (require_integer (get record ''available'') (field_path metric_path ''available'') 0) (\<lambda>available.
         bindE (require_integer (get record ''expected'') (field_path metric_path ''expected'') 0) (\<lambda>expected.
         bindE (raise_if (expected < available)
             (ValueError (metric_path @ '' requires 0 <= available <= expected''))) (\<lambda>_.
           let err = Inl (ValueError (field_path metric_path ''unavailable_reasons'' @
                 '' must be a list of strings''))
           in case get record ''unavailable_reasons'' of
                JList reasons \<Rightarrow>
                  (if list_all is_str reasons
                   then Inr (metric, \<lparr>rmc_available = available, rmc_expected = expected,
                               rmc_unavailable_reasons = map py_str reasons\<rparr>)
                   else err)
              | _ \<Rightarrow> err))))))"

definition resource_coverage_field :: "obj \<Rightarrow> string \<Rightarrow> resource_coverage result" where
  "resource_coverage_field row path =
     (if \<not> has_key row ''resource_coverage'' then Inr []
      else
        bindE (require_object (get row ''resource_coverage'') (path @ ''.resource_coverage'')) (\<lambda>value.
          mapE (coverage_record path) value))"

definition check_coverage :: "obj \<Rightarrow> string \<Rightarrow> string \<times> resource_metric_coverage \<Rightarrow> unit result" where
  "check_coverage row path mo =
     (if \<not> has_key row (fst mo) then
        Inl (ValueError (field_path path (fst mo) @ '' is required by its resource_coverage observation''))
      else
        raise_if ((get row (fst mo) = JNull) \<noteq> (rmc_available (snd mo) = 0))
          (ValueError (field_path path (fst mo) @ '' disagrees with resource_coverage.available'')))"

definition validate_resource_coverage :: "obj \<Rightarrow> string \<Rightarrow> bool \<Rightarrow> resource_coverage result" where
  "validate_resource_coverage row path current =
     (if current \<and> \<not> has_key row ''resource_coverage'' then
        Inl (ValueError (path @ ''.resource_coverage is required by resource_metric_schema_version=2''))
      else
        bindE (resource_coverage_field row path) (\<lambda>coverage.
        bindE (forE (check_coverage row path) coverage) (\<lambda>_. Inr coverage)))"

definition raw_observed :: "string \<Rightarrow> obj \<Rightarrow> bool" where
  "raw_observed f run = (get run f \<noteq> JNull)"

definition stat_observed :: "string \<Rightarrow> obj \<Rightarrow> bool result" where
  "stat_observed key run =
     (if get run ''client_stats'' = JNull then Inr False
      else
        bindE (require_object (get run ''client_stats'') ''run.client_stats'') (\<lambda>stats.
          Inr (get stats key \<noteq> JNull)))"

definition check_observation ::
  "obj list \<Rightarrow> string \<Rightarrow> string \<times> resource_metric_coverage \<Rightarrow> unit result"
where
  "check_observation runs path mo =
     (let compare = (\<lambda>available :: nat.
            raise_if (rmc_available (snd mo) \<noteq> int available)
              (ValueError (path @ ''.resource_coverage.'' @ fst mo @
                 ''.available must match recorded observations ('' @ int_str (int available) @ '')'')))
      in case map_of RAW_RESOURCE_FIELDS (fst mo) of
           Some f \<Rightarrow> compare (length (filter (raw_observed f) runs))
         | None \<Rightarrow>
             (case map_of CLIENT_STAT_FIELDS (fst mo) of
                Some key \<Rightarrow>
                  bindE (mapE (stat_observed key) runs) (\<lambda>flags. compare (length (filter id flags)))
              | None \<Rightarrow> Inr ()))"

definition validate_resource_observations ::
  "resource_coverage \<Rightarrow> obj list \<Rightarrow> string \<Rightarrow> unit result"
where
  "validate_resource_observations coverage runs path = forE (check_observation runs path) coverage"

text \<open>\<^verbatim>\<open>run_groups.setdefault(identity, []).append(run)\<close>\<close>

definition add_run ::
  "string \<Rightarrow> (string list \<times> obj list) list \<Rightarrow> obj \<Rightarrow> (string list \<times> obj list) list result"
where
  "add_run suite groups run =
     bindE (aggregate_identity suite run) (\<lambda>identity.
       Inr (AList.update identity
         ((case map_of groups identity of None \<Rightarrow> [] | Some rs \<Rightarrow> rs) @ [run]) groups))"

definition check_aggregate_coverage ::
  "string \<Rightarrow> (string list \<times> obj list) list \<Rightarrow> bool \<Rightarrow> bool \<Rightarrow> nat \<Rightarrow> obj \<Rightarrow> unit result"
where
  "check_aggregate_coverage suite run_groups has_runs current index row =
     (let path = index_path ''aggregate'' index
      in bindE (validate_resource_coverage row path current) (\<lambda>coverage.
         if coverage = [] then Inr ()
         else
           bindE (require_integer (get row ''repeats'') (field_path path ''repeats'') 1) (\<lambda>repeats.
           bindE (forE (\<lambda>mo. raise_if (rmc_expected (snd mo) \<noteq> repeats)
               (ValueError (path @ ''.resource_coverage.'' @ fst mo @ ''.expected must match repeats ('' @
                  int_str repeats @ '')''))) coverage) (\<lambda>_.
           if \<not> has_runs then Inr ()
           else
             bindE (aggregate_identity suite row) (\<lambda>identity.
               let observations = (case map_of run_groups identity of None \<Rightarrow> [] | Some rs \<Rightarrow> rs)
               in bindE (raise_if (int (length observations) \<noteq> repeats)
                    (ValueError (path @ ''.resource_coverage requires '' @ int_str repeats @
                       '' matching run records, got '' @ int_str (int (length observations))))) (\<lambda>_.
                  validate_resource_observations coverage observations path))))))"

definition validate_ordinary_resource_coverage ::
  "string \<Rightarrow> obj list \<Rightarrow> obj list \<Rightarrow> bool \<Rightarrow> unit result"
where
  "validate_ordinary_resource_coverage suite aggregates runs current =
     bindE (foldE (add_run suite) [] runs) (\<lambda>run_groups.
       foriE (check_aggregate_coverage suite run_groups (runs \<noteq> []) current) 0 aggregates)"

subsection \<open>Properties\<close>

lemma add_runs_group:
  assumes "foldE (add_run suite) groups runs = Inr groups'"
  shows "(case map_of groups' identity of None \<Rightarrow> [] | Some rs \<Rightarrow> rs) =
    (case map_of groups identity of None \<Rightarrow> [] | Some rs \<Rightarrow> rs) @
    filter (\<lambda>run. aggregate_identity suite run = Inr identity) runs"
  using assms
proof (induction runs arbitrary: groups)
  case (Cons run runs)
  then obtain g where g: "add_run suite groups run = Inr g" "foldE (add_run suite) g runs = Inr groups'"
    by (auto simp: bindE_ok)
  from g(1) obtain i where "aggregate_identity suite run = Inr i"
    by (auto simp: add_run_def bindE_ok)
  with g(1) Cons.IH [OF g(2)] show ?case by (auto simp: add_run_def)
qed simp

text \<open>
  C23: an accepted resource maximum speaks for its runs: for a raw metric that an accepted aggregate row
  lists in its coverage, the coverage expects as many observations as the row has repeats, and the
  maximum is null exactly when none is available. When the report lists runs (without any there is
  nothing to compare the coverage with, and nothing more is checked), the
  row has as many runs of its identity as repeats, the coverage counts exactly those that recorded the
  metric, and so the maximum is null exactly when none of them did.\<close>

theorem coverage_matches_runs:
  assumes "validate_ordinary_resource_coverage suite aggregates runs current = Inr ()"
    and "k < length aggregates"
    and "resource_coverage_field (aggregates ! k) (index_path ''aggregate'' k) = Inr coverage"
    and "(metric, observation) \<in> set coverage" "map_of RAW_RESOURCE_FIELDS metric = Some f"
  shows "get (aggregates ! k) ''repeats'' = JInt (rmc_expected observation) \<and>
    (get (aggregates ! k) metric = JNull) = (rmc_available observation = 0) \<and>
    (runs = [] \<or> (\<exists>identity observations.
      aggregate_identity suite (aggregates ! k) = Inr identity \<and>
      observations = filter (\<lambda>run. aggregate_identity suite run = Inr identity) runs \<and>
      get (aggregates ! k) ''repeats'' = JInt (int (length observations)) \<and>
      rmc_expected observation = int (length observations) \<and>
      rmc_available observation = int (length (filter (raw_observed f) observations)) \<and>
      (get (aggregates ! k) metric = JNull) = list_all (\<lambda>run. get run f = JNull) observations))"
proof -
  from assms(1) obtain groups where groups: "foldE (add_run suite) [] runs = Inr groups"
      and each: "foriE (check_aggregate_coverage suite groups (runs \<noteq> []) current) 0 aggregates = Inr ()"
    by (auto simp: validate_ordinary_resource_coverage_def bindE_ok)
  from each assms(2) have one: "check_aggregate_coverage suite groups (runs \<noteq> []) current k (aggregates ! k) = Inr ()"
    by (simp add: foriE_ok)
  from one assms(3,4) obtain repeats where
      covered: "forE (check_coverage (aggregates ! k) (index_path ''aggregate'' k)) coverage = Inr ()"
      and repeats: "get (aggregates ! k) ''repeats'' = JInt repeats"
      and expected: "\<forall>mo \<in> set coverage. rmc_expected (snd mo) = repeats"
    by (auto simp: check_aggregate_coverage_def validate_resource_coverage_def Let_def ok split: if_splits)
  have null: "(get (aggregates ! k) metric = JNull) = (rmc_available observation = 0)"
    using covered assms(4) by (auto simp: ok check_coverage_def split: if_splits)
  have own: "get (aggregates ! k) ''repeats'' = JInt (rmc_expected observation)"
    using repeats expected assms(4) by auto
  show ?thesis
  proof (cases "runs = []")
    case False
    with one assms(3,4) obtain identity where
        identity: "aggregate_identity suite (aggregates ! k) = Inr identity"
        and count: "get (aggregates ! k) ''repeats'' =
          JInt (int (length (case map_of groups identity of None \<Rightarrow> [] | Some rs \<Rightarrow> rs)))"
        and observed: "validate_resource_observations coverage
          (case map_of groups identity of None \<Rightarrow> [] | Some rs \<Rightarrow> rs) (index_path ''aggregate'' k) = Inr ()"
      by (auto simp: check_aggregate_coverage_def validate_resource_coverage_def Let_def ok split: if_splits)
    let ?observations = "filter (\<lambda>run. aggregate_identity suite run = Inr identity) runs"
    have group: "(case map_of groups identity of None \<Rightarrow> [] | Some rs \<Rightarrow> rs) = ?observations"
      using add_runs_group [OF groups] by simp
    have available: "rmc_available observation = int (length (filter (raw_observed f) ?observations))"
      using observed assms(4,5) unfolding group
      by (auto simp: validate_resource_observations_def ok check_observation_def Let_def)
    with null have "(get (aggregates ! k) metric = JNull) = list_all (\<lambda>run. get run f = JNull) ?observations"
      by (auto simp: filter_empty_conv list_all_iff raw_observed_def)
    with available identity count own null group show ?thesis by auto
  qed (use own null in simp)
qed

definition covered_row :: obj where
  "covered_row =
     sample_row ''a'' @
     [(''repeats'', JInt 1), (''rss_mb_max'', JNull),
      (''resource_coverage'', JObj [(''rss_mb_max'',
         JObj [(''available'', JInt 0), (''expected'', JInt 1), (''unavailable_reasons'', JList [])])])]"

lemma covered_row_accepted:
  "validate_ordinary_resource_coverage ''requests'' [covered_row] [sample_row ''a''] True = Inr ()"
  by code_simp

lemma coverage_matches_runs_witness:
  "\<exists>identity. aggregate_identity ''requests'' covered_row = Inr identity \<and>
     get covered_row ''repeats'' =
       JInt (int (length (filter (\<lambda>run. aggregate_identity ''requests'' run = Inr identity) [sample_row ''a''])))"
proof -
  have "resource_coverage_field ([covered_row] ! 0) (index_path ''aggregate'' 0) =
      Inr [(''rss_mb_max'', \<lparr>rmc_available = 0, rmc_expected = 1, rmc_unavailable_reasons = []\<rparr>)]"
    "map_of RAW_RESOURCE_FIELDS ''rss_mb_max'' = Some ''peak_rss_mb''"
    by code_simp+
  from coverage_matches_runs [OF covered_row_accepted _ this(1) _ this(2)] show ?thesis by (auto simp del: filter.simps)
qed

end
