(* ===== verification/Validity_Core.thy ===== *)
theory Validity_Core
  imports Statistics "HOL-Library.Multiset"
begin

text \<open>
  validity/models.py and validity/helpers.py: the four statuses with their severity order, a
  reason and a summary, the lenient field readers of the classifiers (which can still raise,
  for a non-finite float) and the combination of statuses. The locale \<open>severity_order\<close> is what
  the rest of the validity package relies on: the combined status is the most severe one.
\<close>

subsection \<open>Statuses, reasons and summaries\<close>

datatype validity_status = Valid | Warning | NeedsRerun | Invalid

primrec severity :: "validity_status \<Rightarrow> nat" where
  "severity Valid = 0"
| "severity Warning = 1"
| "severity NeedsRerun = 2"
| "severity Invalid = 3"

primrec status_name :: "validity_status \<Rightarrow> string" where
  "status_name Valid = ''valid''"
| "status_name Warning = ''warning''"
| "status_name NeedsRerun = ''needs-rerun''"
| "status_name Invalid = ''invalid''"

definition VALIDITY_STATUSES :: "validity_status list" where
  "VALIDITY_STATUSES = [Valid, Warning, NeedsRerun, Invalid]"

instantiation validity_status :: linorder
begin

definition less_eq_validity_status :: "validity_status \<Rightarrow> validity_status \<Rightarrow> bool" where
  "s \<le> t \<longleftrightarrow> severity s \<le> severity t"

definition less_validity_status :: "validity_status \<Rightarrow> validity_status \<Rightarrow> bool" where
  "s < t \<longleftrightarrow> severity s < severity t"

instance
proof
  fix s t :: validity_status
  show "s \<le> t \<Longrightarrow> t \<le> s \<Longrightarrow> s = t"
    by (cases s; cases t) (simp_all add: less_eq_validity_status_def)
qed (auto simp: less_eq_validity_status_def less_validity_status_def)

end

record validity_reason =
  vr_status :: validity_status
  vr_code :: string
  vr_message :: string
  vr_row_label :: string
  vr_row :: obj

record validity_summary =
  vs_status :: validity_status
  vs_is_valid :: bool
  vs_can_compare :: bool
  vs_reason_count :: int
  vs_reason_counts :: "(string \<times> int) list"
  vs_reasons :: "validity_reason list"

subsection \<open>Tables\<close>

definition HIGH_CV_WARNING_PERCENT :: pyfloat where "HIGH_CV_WARNING_PERCENT = Fin 50"

definition ROW_REFERENCE_FIELDS :: "string list" where
  "ROW_REFERENCE_FIELDS =
     [''mode'', ''client'', ''scenario'', ''case'', ''group'', ''target_scheme'', ''config'',
      ''lifecycle'', ''kind'', ''profile'', ''read'', ''consume'', ''concurrency'',
      ''request_limit'', ''client_count'', ''iterations'']"

definition PRIMARY_METRIC_FIELDS :: "string list" where
  "PRIMARY_METRIC_FIELDS =
     [''ok_req_s_median'', ''ok_streams_s_median'', ''ops_s_median'', ''ok_requests_total'']"

definition CV_FIELDS :: "string list" where
  "CV_FIELDS =
     [''req_s_cv_percent'', ''streams_s_cv_percent'', ''ops_s_cv_percent'', ''duration_s_cv_percent'']"

subsection \<open>Statuses and reasons\<close>

definition combined_status :: "validity_status list \<Rightarrow> validity_status" where
  "combined_status statuses =
     foldl (\<lambda>status item. if severity item > severity status then item else status) Valid statuses"

definition reasons_allow_comparison :: "validity_reason list \<Rightarrow> bool" where
  "reasons_allow_comparison reasons =
     list_all (\<lambda>r. (vr_status r = Valid \<or> vr_status r = Warning) \<and>
                   vr_code r \<noteq> ''expected_compatibility_failure'') reasons"

definition count_reasons :: "validity_reason list \<Rightarrow> (string \<times> int) list" where
  "count_reasons reasons = foldl (\<lambda>counts r. counter_add counts (status_name (vr_status r)) 1) [] reasons"

definition row_reference :: "obj \<Rightarrow> obj" where
  "row_reference row = map (\<lambda>f. (f, get row f)) (filter (has_key row) ROW_REFERENCE_FIELDS)"

definition row_label :: "obj \<Rightarrow> string" where
  "row_label row =
     (let parts = map (\<lambda>f. py_str (get row f))
            (filter (\<lambda>f. has_key row f \<and> get row f \<noteq> JStr []) ROW_REFERENCE_FIELDS);
          parts = (if parts = [] \<and> has_key row ''sequence''
                   then [''child='' @ py_str (get row ''sequence''),
                         py_str (get_default row ''client'' (JStr [])),
                         py_str (get_default row ''scenario'' (JStr []))]
                   else parts)
      in if parts = [] then ''-'' else join '' / '' parts)"

definition make_reason :: "validity_status \<Rightarrow> string \<Rightarrow> string \<Rightarrow> obj \<Rightarrow> validity_reason" where
  "make_reason status code message row =
     \<lparr>vr_status = status, vr_code = code, vr_message = message, vr_row_label = row_label row,
      vr_row = row\<rparr>"

subsection \<open>Lenient field readers\<close>

text \<open>
  \<^verbatim>\<open>int(value)\<close> of a float truncates and raises for NaN and the infinities; \<^verbatim>\<open>int(text)\<close> and
  \<^verbatim>\<open>float(text)\<close> fall back when the text does not parse; \<^verbatim>\<open>float(value)\<close> of an integer can
  overflow.
\<close>

fun int_value :: "json \<Rightarrow> int \<Rightarrow> int result" where
  "int_value (JBool b) d = Inr (if b then 1 else 0)"
| "int_value (JInt i) d = Inr i"
| "int_value (JFloat x) d = int_of_float x"
| "int_value (JStr s) d = Inr (case parse_int s of None \<Rightarrow> d | Some i \<Rightarrow> i)"
| "int_value v d = Inr d"

definition int_field :: "obj \<Rightarrow> string \<Rightarrow> int result" where
  "int_field row key = int_value (get_default row key (JInt 0)) 0"

definition str_field :: "obj \<Rightarrow> string \<Rightarrow> string" where
  "str_field row key = py_str (get_default row key (JStr []))"

definition dict_field :: "obj \<Rightarrow> string \<Rightarrow> (string \<times> int) list result" where
  "dict_field row key =
     (case get row key of
        JObj items \<Rightarrow> mapE (\<lambda>kv. bindE (int_value (snd kv) 0) (\<lambda>n. Inr (fst kv, n))) items
      | _ \<Rightarrow> Inr [])"

definition optional_float_field :: "obj \<Rightarrow> string \<Rightarrow> pyfloat option result" where
  "optional_float_field row key =
     (case get row key of
        JBool b \<Rightarrow> Inr (Some (Fin (if b then 1 else 0)))
      | JInt i \<Rightarrow> bindE (float_of_int i) (\<lambda>x. Inr (Some x))
      | JFloat x \<Rightarrow> Inr (Some x)
      | JStr s \<Rightarrow> Inr (parse_float s)
      | _ \<Rightarrow> Inr None)"

fun first_value :: "obj \<Rightarrow> string list \<Rightarrow> pyfloat option result" where
  "first_value row [] = Inr None"
| "first_value row (f # fs) =
     bindE (optional_float_field row f) (\<lambda>v. case v of Some x \<Rightarrow> Inr (Some x) | None \<Rightarrow> first_value row fs)"

definition first_primary_value :: "obj \<Rightarrow> pyfloat option result" where
  "first_primary_value row = first_value row PRIMARY_METRIC_FIELDS"

definition ok_total_value :: "obj \<Rightarrow> int option result" where
  "ok_total_value row =
     (if get row ''ok_requests_total'' \<noteq> JNull
      then bindE (int_field row ''ok_requests_total'') (\<lambda>n. Inr (Some n))
      else if get row ''ok_streams_total'' \<noteq> JNull
      then bindE (int_field row ''ok_streams_total'') (\<lambda>n. Inr (Some n))
      else Inr None)"

subsection \<open>The severity order\<close>

locale severity_order =
  fixes rank :: "'s \<Rightarrow> nat" and least :: 's and combine :: "'s list \<Rightarrow> 's"
  assumes rank_inj: "rank s = rank t \<Longrightarrow> s = t"
    and least_rank: "rank least = 0"
    and combine_in: "combine ss \<in> insert least (set ss)"
    and combine_upper: "s \<in> set ss \<Longrightarrow> rank s \<le> rank (combine ss)"
begin

lemma combine_least_upper: "(\<And>s. s \<in> set ss \<Longrightarrow> rank s \<le> rank t) \<Longrightarrow> rank (combine ss) \<le> rank t"
  using combine_in [of ss] least_rank by auto

lemma combine_eqI:
  assumes "\<And>s. s \<in> set ss \<Longrightarrow> rank s \<le> rank (combine ts)"
    and "\<And>t. t \<in> set ts \<Longrightarrow> rank t \<le> rank (combine ss)"
  shows "combine ss = combine ts"
  using combine_least_upper [of ss "combine ts"] combine_least_upper [of ts "combine ss"] assms
  by (intro rank_inj antisym) auto

lemma combine_set: "set ss = set ts \<Longrightarrow> combine ss = combine ts"
  by (rule combine_eqI) (auto intro: combine_upper)

lemma combine_mono: "set ss \<subseteq> set ts \<Longrightarrow> rank (combine ss) \<le> rank (combine ts)"
  by (rule combine_least_upper) (auto intro: combine_upper)

lemma combine_nest: "combine (combine ss # ts) = combine (ss @ ts)"
proof (rule combine_eqI)
  fix s assume "s \<in> set (combine ss # ts)"
  then show "rank s \<le> rank (combine (ss @ ts))"
    using combine_mono [of ss "ss @ ts"] by (auto intro: combine_upper)
next
  fix t assume "t \<in> set (ss @ ts)"
  then show "rank t \<le> rank (combine (combine ss # ts))"
    using combine_upper [of t ss] combine_upper [of "combine ss" "combine ss # ts"]
    by (auto intro: combine_upper)
qed

lemma combine_least_iff: "combine ss = least \<longleftrightarrow> (\<forall>s \<in> set ss. s = least)"
proof
  assume "combine ss = least"
  then show "\<forall>s \<in> set ss. s = least"
    using combine_upper [of _ ss] least_rank by (metis le_zero_eq rank_inj)
next
  assume "\<forall>s \<in> set ss. s = least"
  then show "combine ss = least" using combine_in [of ss] by auto
qed

lemma combine_absorb: "s \<in> set ss \<Longrightarrow> combine (s # ss) = combine ss"
  by (rule combine_set) auto

lemma combine_le_iff: "rank (combine ss) \<le> rank t \<longleftrightarrow> (\<forall>s \<in> set ss. rank s \<le> rank t)"
  using combine_least_upper combine_upper by (meson order_trans)

end

lemma severity_inj: "severity s = severity t \<Longrightarrow> s = t"
  by (cases s; cases t) simp_all

lemma combined_status_fold:
  "foldl (\<lambda>status item. if severity item > severity status then item else status) s ss =
     foldl max s ss"
  by (rule foldl_cong) (auto simp: max_def less_eq_validity_status_def intro: severity_inj)

lemma foldl_max_in: "foldl max s ss \<in> insert s (set ss)"
  for s :: validity_status
proof (induction ss arbitrary: s)
  case (Cons t ss)
  show ?case using Cons.IH [of "max s t"] by (auto simp: max_def)
qed simp

lemma foldl_max_upper: "t \<in> insert s (set ss) \<Longrightarrow> t \<le> foldl max s ss"
  for s :: validity_status
proof (induction ss arbitrary: s t)
  case (Cons u ss)
  have "max s u \<le> foldl max (max s u) ss" by (rule Cons.IH) simp
  then show ?case using Cons by (auto intro: order_trans)
qed simp

interpretation status_order: severity_order severity Valid combined_status
proof unfold_locales
  show "severity s = severity t \<Longrightarrow> s = t" for s t by (rule severity_inj)
  show "severity Valid = 0" by simp
  show "combined_status ss \<in> insert Valid (set ss)" for ss
    unfolding combined_status_def combined_status_fold by (rule foldl_max_in)
  show "s \<in> set ss \<Longrightarrow> severity s \<le> severity (combined_status ss)" for s ss
    unfolding combined_status_def combined_status_fold less_eq_validity_status_def [symmetric]
    by (rule foldl_max_upper) simp
qed

lemma combined_status_Nil [simp]: "combined_status [] = Valid"
  by (simp add: combined_status_def)

lemma severity_le_1: "severity s \<le> 1 \<longleftrightarrow> s = Valid \<or> s = Warning"
  by (cases s) auto

lemma combined_allows:
  "combined_status ss \<in> {Valid, Warning} \<longleftrightarrow> (\<forall>s \<in> set ss. s \<in> {Valid, Warning})"
  using status_order.combine_le_iff [of ss Warning]
  by (simp only: severity_le_1 severity.simps(2) insert_iff empty_iff simp_thms)

lemma reasons_allow_status:
  "reasons_allow_comparison reasons \<Longrightarrow> combined_status (map vr_status reasons) \<in> {Valid, Warning}"
  unfolding combined_allows by (auto simp: reasons_allow_comparison_def list_all_iff)

lemma reasons_allow_append [simp]:
  "reasons_allow_comparison (rs @ qs) \<longleftrightarrow> reasons_allow_comparison rs \<and> reasons_allow_comparison qs"
  by (simp add: reasons_allow_comparison_def)

subsection \<open>Counting reasons\<close>

lemma count_reasons_bumps:
  "count_reasons reasons = foldl (\<lambda>d k. counter_add d k 1) [] (map (\<lambda>r. status_name (vr_status r)) reasons)"
  by (simp add: count_reasons_def foldl_map)

lemma count_reasons_total: "counter_total (count_reasons reasons) = int (length reasons)"
  by (simp add: count_reasons_bumps py_counter.total_bumps)

lemma count_reasons_get:
  "counter_get (count_reasons reasons) k =
     int (count_list (map (\<lambda>r. status_name (vr_status r)) reasons) k)"
  by (simp add: count_reasons_bumps py_counter.count_bumps)

lemma wf_count_reasons [simp]: "wf_obj (count_reasons reasons)"
proof -
  have "wf_obj d \<Longrightarrow> wf_obj (foldl (\<lambda>d k. counter_add d k 1) d ks)" for d :: "(string \<times> int) list" and ks
    by (induction ks arbitrary: d) simp_all
  then show ?thesis by (simp add: count_reasons_bumps wf_obj_def)
qed

lemma vr_make_reason [simp]:
  "vr_status (make_reason s c m row) = s" "vr_code (make_reason s c m row) = c"
  "vr_row (make_reason s c m row) = row"
  by (simp_all add: make_reason_def)

lemma status_name_inj [simp]: "status_name s = status_name t \<longleftrightarrow> s = t"
  by (cases s; cases t) simp_all

lemma wf_row_reference [simp]: "wf_obj (row_reference row)"
proof -
  have "distinct ROW_REFERENCE_FIELDS" by code_simp
  then show ?thesis by (simp add: row_reference_def wf_obj_def comp_def)
qed

end
