(* ===== verification/Streaming_Profiles.thy ===== *)
theory Streaming_Profiles
  imports Validity_Core
begin

text \<open>
  validity/streaming_profiles.py: which research profile a streaming report uses (declared in the
  metadata, in a row, or shown by the envelope of the research runs), and the reason given when
  the declarations disagree.
\<close>

definition RESEARCH_PROFILES :: "string list" where
  "RESEARCH_PROFILES = [''lifecycle'', ''async-bytes'']"

definition ORDINARY_PROFILES :: "json list" where
  "ORDINARY_PROFILES = [JNull, JStr ''default'']"

definition attribution_configuration :: "json \<Rightarrow> bool" where
  "attribution_configuration v = (case v of JObj d \<Rightarrow> get d ''attribution'' \<noteq> JNull | _ \<Rightarrow> False)"

definition async_bytes_envelope :: "obj \<Rightarrow> bool" where
  "async_bytes_envelope value =
     ((case get value ''policy_version'' of JStr s \<Rightarrow> starts_with s ''async-bytes-'' | _ \<Rightarrow> False) \<or>
      has_key value ''raw_evidence'' \<or> has_key value ''raw_evidence_validation'' \<or>
      get value ''primary_metric'' = JStr ''verified_bytes_s_median'' \<or>
      has_key value ''verified_bytes_s_median'' \<or>
      list_ex attribution_configuration
        [get value ''config'', get value ''configuration'',
         (case get value ''conditions'' of JObj c \<Rightarrow> get c ''configuration'' | _ \<Rightarrow> JNull)])"

definition lifecycle_resources :: "obj \<Rightarrow> bool" where
  "lifecycle_resources row =
     (case get row ''resources'' of
        JObj r \<Rightarrow> is_dict (get r ''client'') \<and> is_dict (get r ''server'')
      | _ \<Rightarrow> False)"

definition research_envelope_profile :: "obj \<Rightarrow> obj list \<Rightarrow> string option" where
  "research_envelope_profile metadata rows =
     (if list_ex async_bytes_envelope (metadata # rows) then Some ''async-bytes''
      else if has_key metadata ''lifecycle'' \<or>
        (case get metadata ''isolation'' of
           JObj isolation \<Rightarrow> get isolation ''mode'' = JStr ''per-lifecycle-case''
         | _ \<Rightarrow> False) then Some ''lifecycle''
      else if list_ex lifecycle_resources rows then Some ''lifecycle''
      else None)"

definition uses_streaming_profile :: "obj \<Rightarrow> obj list \<Rightarrow> string \<Rightarrow> bool" where
  "uses_streaming_profile metadata rows profile =
     (get metadata ''profile'' = JStr profile \<or>
      list_ex (\<lambda>row. get row ''profile'' = JStr profile) rows \<or>
      research_envelope_profile metadata rows = Some profile)"

definition mismatch_reason :: "string \<Rightarrow> obj \<Rightarrow> validity_reason" where
  "mismatch_reason message row = make_reason Invalid ''streaming_profile_mismatch'' message row"

definition profile_matches :: "json \<Rightarrow> obj \<Rightarrow> bool" where
  "profile_matches profile row =
     (if profile \<in> JStr ` set RESEARCH_PROFILES then get row ''profile'' = profile
      else get row ''profile'' \<in> set ORDINARY_PROFILES)"

definition streaming_profile_reasons :: "string \<Rightarrow> obj \<Rightarrow> obj list \<Rightarrow> validity_reason list" where
  "streaming_profile_reasons suite metadata rows =
     (if suite \<noteq> RESPONSE_STREAMING_SUITE then []
      else
        let profile = get metadata ''profile''
        in if profile \<notin> set ORDINARY_PROFILES \<and> profile \<notin> JStr ` set RESEARCH_PROFILES then
             [mismatch_reason ''Response-streaming metadata declares an unknown profile.'' []]
           else if (case research_envelope_profile metadata rows of
               None \<Rightarrow> False | Some envelope \<Rightarrow> profile \<noteq> JStr envelope) then
             [mismatch_reason ''A research streaming envelope requires its explicit matching metadata profile.'' []]
           else
             (case find (\<lambda>row. \<not> profile_matches profile row) rows of
                None \<Rightarrow> []
              | Some row \<Rightarrow>
                  [mismatch_reason
                     (''Response-streaming metadata and every aggregate row must declare the same research profile; '' @
                      ''ordinary legacy rows may omit it.'') (row_reference row)]))"

subsection \<open>Properties\<close>

text \<open>
  C24: a streaming report without a profile reason has one profile: whichever way a research
  profile is detected (metadata, a row or the envelope), it is the one the metadata declares.\<close>

theorem profile_detection_agrees:
  assumes "streaming_profile_reasons RESPONSE_STREAMING_SUITE metadata rows = []"
    and "profile = ''lifecycle'' \<or> profile = ''async-bytes''"
  shows "uses_streaming_profile metadata rows profile \<longleftrightarrow> get metadata ''profile'' = JStr profile"
proof
  assume uses: "uses_streaming_profile metadata rows profile"
  have envelope: "research_envelope_profile metadata rows = Some profile \<Longrightarrow> get metadata ''profile'' = JStr profile"
    using assms(1) by (auto simp: streaming_profile_reasons_def Let_def split: if_splits)
  have row: "get metadata ''profile'' = JStr profile" if "row \<in> set rows" "get row ''profile'' = JStr profile" for row
  proof -
    have "find (\<lambda>row. \<not> profile_matches (get metadata ''profile'') row) rows = None"
      using assms(1) by (simp add: streaming_profile_reasons_def Let_def split: if_splits option.splits)
    then have "profile_matches (get metadata ''profile'') row"
      using that(1) by (auto simp: find_None_iff)
    then show ?thesis
      using that(2) assms(2) by (auto simp: profile_matches_def ORDINARY_PROFILES_def split: if_splits)
  qed
  show "get metadata ''profile'' = JStr profile"
    using uses envelope row by (auto simp: uses_streaming_profile_def list_ex_iff)
qed (simp add: uses_streaming_profile_def)

lemma profile_detection_agrees_witness:
  "uses_streaming_profile [(''profile'', JStr ''lifecycle'')] [[(''profile'', JStr ''lifecycle'')]] ''lifecycle''
     \<longleftrightarrow> get [(''profile'', JStr ''lifecycle'')] ''profile'' = JStr ''lifecycle''"
  by (rule profile_detection_agrees) code_simp+

end
