(* ===== verification/Measurement_Timing.thy ===== *)
theory Measurement_Timing
  imports Streaming_Profiles
begin

text \<open>
  measurement_timing.py: the timing scope a report declares (what its durations include), the
  scopes a suite and profile support, and the check that two reports were timed alike. The string
  enumeration is a datatype with the text of each member.
\<close>

datatype timing_scope =
    REQUESTS | ONE_UPSTREAM | PROXY_CONNECT | RESOURCE_BACKPRESSURE | CLIENT_CREATION
  | REQUEST_BUILDER | STREAMING | LIFECYCLE | ASYNC_BYTES | LEGACY_REQUESTS | LEGACY_ONE_UPSTREAM
  | LEGACY_PROXY_CONNECT | LEGACY_RESOURCE_BACKPRESSURE | LEGACY_STREAMING

primrec scope_value :: "timing_scope \<Rightarrow> string" where
  "scope_value REQUESTS = ''requests-load-only-v2''"
| "scope_value ONE_UPSTREAM = ''one-upstream-load-only-v2''"
| "scope_value PROXY_CONNECT = ''proxy-connect-load-only-v2''"
| "scope_value RESOURCE_BACKPRESSURE = ''resource-backpressure-load-only-v2''"
| "scope_value CLIENT_CREATION = ''client-creation-operation-v1''"
| "scope_value REQUEST_BUILDER = ''request-builder-load-only-v1''"
| "scope_value STREAMING = ''load-only-v2''"
| "scope_value LIFECYCLE = ''lifecycle-round-load-v1''"
| "scope_value ASYNC_BYTES = ''load-only-incremental-sha256-v1''"
| "scope_value LEGACY_REQUESTS = ''requests-sampler-inclusive-v1''"
| "scope_value LEGACY_ONE_UPSTREAM = ''one-upstream-sampler-inclusive-v1''"
| "scope_value LEGACY_PROXY_CONNECT = ''proxy-connect-sampler-inclusive-v1''"
| "scope_value LEGACY_RESOURCE_BACKPRESSURE = ''resource-backpressure-sampler-inclusive-v1''"
| "scope_value LEGACY_STREAMING = ''legacy-sampler-v1''"

definition ALL_SCOPES :: "timing_scope list" where
  "ALL_SCOPES =
     [REQUESTS, ONE_UPSTREAM, PROXY_CONNECT, RESOURCE_BACKPRESSURE, CLIENT_CREATION, REQUEST_BUILDER,
      STREAMING, LIFECYCLE, ASYNC_BYTES, LEGACY_REQUESTS, LEGACY_ONE_UPSTREAM, LEGACY_PROXY_CONNECT,
      LEGACY_RESOURCE_BACKPRESSURE, LEGACY_STREAMING]"

text \<open>\<^verbatim>\<open>TimingScope(declared)\<close>, with \<open>None\<close> for the \<^verbatim>\<open>ValueError\<close> the caller catches.\<close>

definition scope_of_value :: "string \<Rightarrow> timing_scope option" where
  "scope_of_value s = find (\<lambda>t. scope_value t = s) ALL_SCOPES"

definition CURRENT_SCOPES :: "(string \<times> timing_scope) list" where
  "CURRENT_SCOPES =
     [(''requests'', REQUESTS), (''compressed-response'', REQUESTS), (''one-upstream'', ONE_UPSTREAM),
      (''proxy-connect'', PROXY_CONNECT), (''resource-backpressure'', RESOURCE_BACKPRESSURE),
      (''client-creation'', CLIENT_CREATION), (''request-builder'', REQUEST_BUILDER),
      (RESPONSE_STREAMING_SUITE, STREAMING)]"

definition LEGACY_SCOPES :: "(string \<times> timing_scope) list" where
  "LEGACY_SCOPES =
     [(''requests'', LEGACY_REQUESTS), (''compressed-response'', LEGACY_REQUESTS),
      (''one-upstream'', LEGACY_ONE_UPSTREAM), (''proxy-connect'', LEGACY_PROXY_CONNECT),
      (''resource-backpressure'', LEGACY_RESOURCE_BACKPRESSURE),
      (RESPONSE_STREAMING_SUITE, LEGACY_STREAMING)]"

definition STREAMING_PROFILES :: "(string \<times> timing_scope) list" where
  "STREAMING_PROFILES = [(''lifecycle'', LIFECYCLE), (''async-bytes'', ASYNC_BYTES)]"

definition current_timing_scope :: "string \<Rightarrow> string \<Rightarrow> timing_scope result" where
  "current_timing_scope suite profile =
     (case (if suite = RESPONSE_STREAMING_SUITE \<and> profile \<noteq> ''default''
            then map_of STREAMING_PROFILES profile else map_of CURRENT_SCOPES suite) of
        None \<Rightarrow> Inl (ValueError (''Unknown timing scope for suite='' @ str_repr suite @
                  '', profile='' @ str_repr profile))
      | Some scope \<Rightarrow> Inr scope)"

definition report_profile :: "string \<Rightarrow> obj \<Rightarrow> obj list \<Rightarrow> string" where
  "report_profile suite metadata rows =
     (if suite = RESPONSE_STREAMING_SUITE then
        (if uses_streaming_profile metadata rows ''async-bytes'' then ''async-bytes''
         else if uses_streaming_profile metadata rows ''lifecycle'' then ''lifecycle''
         else ''default'')
      else ''default'')"

definition validate_row_scopes :: "string \<Rightarrow> obj list \<Rightarrow> unit result" where
  "validate_row_scopes scope rows =
     (let declared_rows = filter (\<lambda>row. has_key row ''timing_scope'') rows
      in raise_if (declared_rows \<noteq> [] \<and>
             (length declared_rows \<noteq> length rows \<or>
              list_ex (\<lambda>row. get row ''timing_scope'' \<noteq> JStr scope) declared_rows))
           (ValueError ''Report rows disagree on timing scope''))"

definition declared_scope :: "string \<Rightarrow> obj \<Rightarrow> obj list \<Rightarrow> json" where
  "declared_scope suite metadata rows =
     (let declared = get metadata ''timing_scope''
      in if declared = JNull \<and> suite = RESPONSE_STREAMING_SUITE \<and>
            report_profile suite metadata rows = ''default'' \<and> rows \<noteq> []
         then (if list_ex (\<lambda>row. \<not> has_key row ''timing_scope'') rows then JNull
               else get (hd rows) ''timing_scope'')
         else declared)"

definition supported_scopes :: "string \<Rightarrow> string \<Rightarrow> timing_scope \<Rightarrow> timing_scope list" where
  "supported_scopes suite profile current =
     current # (if profile = ''default''
                then (case map_of LEGACY_SCOPES suite of None \<Rightarrow> [] | Some t \<Rightarrow> [t]) else [])"

definition report_timing_scope ::
  "string \<Rightarrow> obj \<Rightarrow> obj list \<Rightarrow> obj list option \<Rightarrow> timing_scope result"
where
  "report_timing_scope suite metadata rows runs =
     (let profile = report_profile suite metadata rows
      in bindE (current_timing_scope suite profile) (\<lambda>current.
           let declared = declared_scope suite metadata rows;
               err = Inl (ValueError (''Unknown or unsupported timing scope for suite='' @
                 str_repr suite @ '': '' @ py_repr declared))
           in case (case declared of JStr s \<Rightarrow> scope_of_value s | _ \<Rightarrow> None) of
                None \<Rightarrow> err
              | Some scope \<Rightarrow>
                  (if scope \<notin> set (supported_scopes suite profile current) then err
                   else
                     bindE (validate_row_scopes (scope_value scope) rows) (\<lambda>_.
                     bindE (case runs of None \<Rightarrow> Inr () | Some rs \<Rightarrow> validate_row_scopes (scope_value scope) rs) (\<lambda>_.
                     bindE (raise_if
                         (suite = RESPONSE_STREAMING_SUITE \<and> has_key metadata ''timing_scopes'' \<and>
                          get metadata ''timing_scopes'' \<noteq> JList [JStr (scope_value scope)] \<and>
                          \<not> (rows = [] \<and> get metadata ''timing_scopes'' = JList []))
                         (ValueError ''Report timing scopes disagree with its declared timing scope'')) (\<lambda>_.
                     Inr scope))))))"

definition validate_timing_compatibility ::
  "string \<Rightarrow> obj \<Rightarrow> obj list \<Rightarrow> obj \<Rightarrow> obj list \<Rightarrow> obj list option \<Rightarrow> obj list option \<Rightarrow> unit result"
where
  "validate_timing_compatibility suite old_metadata old_rows new_metadata new_rows old_runs new_runs =
     bindE (report_timing_scope suite old_metadata old_rows old_runs) (\<lambda>old_scope.
     bindE (report_timing_scope suite new_metadata new_rows new_runs) (\<lambda>new_scope.
       raise_if (old_scope \<noteq> new_scope)
         (ValueError (''Report timing scopes differ: old='' @ scope_value old_scope @
            '', new='' @ scope_value new_scope))))"

subsection \<open>Properties\<close>

lemma validate_row_scopes_ok [ok]:
  "validate_row_scopes scope rows = Inr u \<longleftrightarrow>
     list_all (\<lambda>row. \<not> has_key row ''timing_scope'') rows \<or>
     list_all (\<lambda>row. get row ''timing_scope'' = JStr scope) rows"
proof -
  have filter_all: "length (filter P rows) = length rows \<longleftrightarrow> list_all P rows" for P :: "obj \<Rightarrow> bool"
    using length_filter_less [of _ rows P] by (force simp: list_all_iff)
  have key: "get row ''timing_scope'' = JStr scope \<Longrightarrow> has_key row ''timing_scope''" for row
    using get_not_has by fastforce
  show ?thesis
    unfolding validate_row_scopes_def Let_def raise_if_ok filter_all
    using key by (auto simp: filter_empty_conv list_all_iff list_ex_iff)
qed

lemma scope_of_value_inverse: "scope_of_value (scope_value t) = Some t"
  by (cases t) (simp_all add: scope_of_value_def ALL_SCOPES_def)

lemma report_timing_scope_rows:
  "report_timing_scope suite metadata rows runs = Inr scope \<Longrightarrow>
     validate_row_scopes (scope_value scope) rows = Inr ()"
  by (auto simp: report_timing_scope_def Let_def bindE_ok split: option.splits if_splits)

text \<open>
  C27: timing compatibility is symmetric and transitive, so the reports that can be compared fall
  into classes, and rows of two compatible reports that declare a timing scope declare the same one.\<close>

theorem timing_compatibility_partial_equivalence:
  assumes "validate_timing_compatibility suite m1 r1 m2 r2 s1 s2 = Inr ()"
    and "validate_timing_compatibility suite m2 r2 m3 r3 s2 s3 = Inr ()"
  shows "validate_timing_compatibility suite m2 r2 m1 r1 s2 s1 = Inr () \<and>
    validate_timing_compatibility suite m1 r1 m3 r3 s1 s3 = Inr () \<and>
    (\<exists>scope. list_all (\<lambda>row. get row ''timing_scope'' \<in> {JNull, JStr (scope_value scope)}) (r1 @ r2 @ r3))"
proof -
  from assms obtain scope where scopes: "report_timing_scope suite m1 r1 s1 = Inr scope"
      "report_timing_scope suite m2 r2 s2 = Inr scope" "report_timing_scope suite m3 r3 s3 = Inr scope"
    by (auto simp: validate_timing_compatibility_def ok)
  have "list_all (\<lambda>row. get row ''timing_scope'' \<in> {JNull, JStr (scope_value scope)}) rows"
    if "validate_row_scopes (scope_value scope) rows = Inr ()" for rows
    using that get_not_has by (auto simp: ok list_all_iff)
  then have "list_all (\<lambda>row. get row ''timing_scope'' \<in> {JNull, JStr (scope_value scope)}) (r1 @ r2 @ r3)"
    using scopes [THEN report_timing_scope_rows] by simp
  with scopes show ?thesis by (auto simp: validate_timing_compatibility_def)
qed

definition timed :: obj where
  "timed = [(''timing_scope'', JStr ''requests-load-only-v2'')]"

lemma timing_compatibility_witness:
  "validate_timing_compatibility ''requests'' timed [timed] [(''timing_scope'', JStr ''requests-load-only-v2'')] [] None None
     = Inr ()"
proof -
  have "validate_timing_compatibility ''requests'' timed [] timed [timed] None None = Inr ()"
    "validate_timing_compatibility ''requests'' timed [timed] timed [] None None = Inr ()"
    by code_simp+
  from timing_compatibility_partial_equivalence [OF this] show ?thesis
    using \<open>validate_timing_compatibility ''requests'' timed [timed] timed [] None None = Inr ()\<close>
    by (simp add: timed_def)
qed

end
