(* ===== verification/Validity_Rules.thy ===== *)
theory Validity_Rules
  imports Validity_Core
begin

text \<open>
  The row classifiers of the validity package: validity/compatibility.py (known failures of a
  client that make a row diagnostic only), validity/proxy.py, validity/resource.py and
  validity/generic.py, and validity/streaming_profiles.py, the profile a streaming report
  declares or shows. A frozenset is a list; the sorted unions of the source are sorted here.
\<close>

subsection \<open>Known compatibility failures\<close>

record compatibility_failure =
  cf_suite :: string
  cf_client :: string
  cf_cases :: "string list"
  cf_error_types :: "string list"
  cf_message :: string
  cf_modes :: "string list option"
  cf_case_field :: string
  cf_error_fields :: "string list"

text \<open>The constructor with the defaults of the dataclass.\<close>

definition known_failure ::
  "string \<Rightarrow> string \<Rightarrow> string list \<Rightarrow> string list \<Rightarrow> string \<Rightarrow> compatibility_failure"
where
  "known_failure suite client cases types message =
     \<lparr>cf_suite = suite, cf_client = client, cf_cases = cases, cf_error_types = types,
      cf_message = message, cf_modes = None, cf_case_field = ''scenario'',
      cf_error_fields = [''error_types'', ''warmup_error_types'']\<rparr>"

definition EXPECTED_COMPATIBILITY_FAILURES :: "compatibility_failure list" where
  "EXPECTED_COMPATIBILITY_FAILURES =
     [known_failure COMPRESSED_RESPONSE_SUITE ''aiohttp'' [''multi-gzip-deflate-64k''] [''check_failed'']
        ''aiohttp decodes the multi-encoding response differently from this suite contract.'',
      known_failure COMPRESSED_RESPONSE_SUITE ''zapros'' [''br-64k''] [''ConnectionError'', ''ImportError'']
        ''zapros std handler has known brotli compatibility failures in this benchmark case.'',
      known_failure COMPRESSED_RESPONSE_SUITE ''zapros'' [''multi-gzip-deflate-64k'']
        [''ConnectionError'', ''DecodingError'']
        ''zapros std handler has known multi-encoding compatibility failures in this benchmark case.'',
      known_failure COMPRESSED_RESPONSE_SUITE ''zapros-pyreqwest'' [''br-64k''] [''ImportError'']
        ''zapros[pyreqwest] has known brotli compatibility failures in this benchmark case.'',
      known_failure COMPRESSED_RESPONSE_SUITE ''zapros-pyreqwest'' [''multi-gzip-deflate-64k''] [''DecodingError'']
        ''zapros[pyreqwest] has known multi-encoding compatibility failures in this benchmark case.'',
      (known_failure COMPRESSED_RESPONSE_SUITE ''zapros-pyreqwest''
        [''gzip-json-small'', ''gzip-64k'', ''deflate-64k'', ''gzip-high-ratio-1m''] [''RuntimeError'']
        ''zapros[pyreqwest] sync warmup intermittently reports RuntimeError in compressed cases.'')
        \<lparr>cf_modes := Some [''sync''], cf_error_fields := [''warmup_error_types'']\<rparr>,
      (known_failure RESPONSE_STREAMING_SUITE ''aiohttp'' [''long-line-1m''] [''LineTooLong'']
        ''aiohttp line reader rejects this intentionally long-line streaming case.'')
        \<lparr>cf_modes := Some [''async''], cf_case_field := ''case''\<rparr>,
      (known_failure REQUESTS_SUITE ''zapros-pyreqwest''
        [''json-small'', ''json-decode-small'', ''bytes-64k'', ''post-json-echo'', ''post-echo-64k'',
         ''redirect-get-302'', ''redirect-head-302'', ''redirect-post-303'', ''redirect-post-307'',
         ''delay-20ms'', ''pool-contention-20ms''] [''RuntimeError'']
        ''zapros[pyreqwest] sync warmup intermittently reports RuntimeError in request cases.'')
        \<lparr>cf_modes := Some [''sync''], cf_error_fields := [''warmup_error_types'']\<rparr>]"

definition failure_matches :: "compatibility_failure \<Rightarrow> string \<Rightarrow> obj \<Rightarrow> string \<Rightarrow> bool" where
  "failure_matches failure suite row error_field =
     (if cf_suite failure \<noteq> suite \<or> error_field \<notin> set (cf_error_fields failure) then False
      else if str_field row ''client'' \<noteq> cf_client failure then False
      else if (case cf_modes failure of None \<Rightarrow> False | Some modes \<Rightarrow> str_field row ''mode'' \<notin> set modes)
      then False
      else str_field row (cf_case_field failure) \<in> set (cf_cases failure))"

definition compatibility_error_types :: "string \<Rightarrow> obj \<Rightarrow> string \<Rightarrow> string list" where
  "compatibility_error_types suite row error_field =
     remdups (concat (map cf_error_types
       (filter (\<lambda>failure. failure_matches failure suite row error_field) EXPECTED_COMPATIBILITY_FAILURES)))"

definition counts_disagree :: "(string \<times> int) list \<Rightarrow> int \<Rightarrow> bool" where
  "counts_disagree error_types errors_total =
     (list_ex (\<lambda>kv. snd kv < 0) error_types \<or> counter_total error_types \<noteq> errors_total)"

definition compatibility_expected_error_count :: "string \<Rightarrow> obj \<Rightarrow> string \<Rightarrow> int result" where
  "compatibility_expected_error_count suite row error_field =
     bindE (dict_field row error_field) (\<lambda>error_types.
     bindE (int_field row (if error_field = ''error_types'' then ''errors_total'' else ''warmup_errors_total''))
       (\<lambda>total.
         if counts_disagree error_types total then Inr 0
         else Inr (counter_total (filter
           (\<lambda>kv. fst kv \<in> set (compatibility_error_types suite row error_field)) error_types))))"

definition failure_message :: "string \<Rightarrow> obj \<Rightarrow> compatibility_failure \<times> string \<Rightarrow> string list result" where
  "failure_message suite row =
     (\<lambda>(failure, error_field).
        if failure_matches failure suite row error_field then
          bindE (dict_field row error_field) (\<lambda>error_types.
            Inr (if list_ex (\<lambda>kv. 0 < snd kv \<and> fst kv \<in> set (cf_error_types failure)) error_types
                 then [cf_message failure] else []))
        else Inr [])"

definition failure_fields :: "(compatibility_failure \<times> string) list" where
  "failure_fields =
     concat (map (\<lambda>failure. map (Pair failure) (cf_error_fields failure)) EXPECTED_COMPATIBILITY_FAILURES)"

definition compatibility_failure_reasons :: "string \<Rightarrow> obj \<Rightarrow> validity_reason list result" where
  "compatibility_failure_reasons suite row =
     bindE (mapE (failure_message suite row) failure_fields) (\<lambda>found.
       let messages = remdups (concat found)
       in Inr (if messages = [] then []
               else [make_reason Warning ''expected_compatibility_failure''
                       (join '' '' (sort messages) @
                        '' Affected rows are diagnostic only; performance comparison is blocked.'')
                       (row_reference row)]))"

subsection \<open>Resource pressure\<close>

definition EXPECTED_RESOURCE_ERRORS :: "(string \<times> string list) list" where
  "EXPECTED_RESOURCE_ERRORS =
     [(''aggregate-buffered-budget'', [''ResponseBodyBudgetExceededError'']),
      (''pending-queue-full'', [''PoolTimeout'']),
      (''pool-timeout-recovery'', [''PoolTimeout'']),
      (''response-body-limit'', [''ResponseBodyTooLargeError''])]"

definition expected_resource_types :: "obj \<Rightarrow> string list" where
  "expected_resource_types row =
     (case map_of EXPECTED_RESOURCE_ERRORS (str_field row ''scenario'') of None \<Rightarrow> [] | Some ts \<Rightarrow> ts)"

definition unexpected_error_count :: "string \<Rightarrow> obj \<Rightarrow> int \<Rightarrow> string \<Rightarrow> int result" where
  "unexpected_error_count suite row errors_total error_field =
     (if errors_total \<le> 0 then Inr 0
      else if suite \<noteq> RESOURCE_BACKPRESSURE_SUITE then Inr errors_total
      else
        bindE (dict_field row error_field) (\<lambda>error_types.
          Inr (if counts_disagree error_types errors_total then errors_total
               else max 0 (errors_total -
                 counter_total (filter (\<lambda>kv. fst kv \<in> set (expected_resource_types row)) error_types)))))"

definition resource_expected_pressure_row :: "string \<Rightarrow> obj \<Rightarrow> bool" where
  "resource_expected_pressure_row suite row =
     (suite = RESOURCE_BACKPRESSURE_SUITE \<and>
      map_of EXPECTED_RESOURCE_ERRORS (str_field row ''scenario'') \<noteq> None)"

definition resource_recovery_reasons :: "string \<Rightarrow> obj \<Rightarrow> validity_reason list result" where
  "resource_recovery_reasons suite row =
     (if suite \<noteq> RESOURCE_BACKPRESSURE_SUITE then Inr []
      else
        bindE (int_field row ''recovery_failures'') (\<lambda>failures.
          Inr (if failures \<le> 0 then []
               else [make_reason NeedsRerun ''resource_recovery_failed''
                       (''Resource recovery health check failed in '' @ int_str failures @ '' repeats.'')
                       (row_reference row)])))"

subsection \<open>Proxy counters\<close>

text \<open>The two names in sorted order.\<close>

definition PROXY_BYPASS_ERROR_TYPES :: "string list" where
  "PROXY_BYPASS_ERROR_TYPES = [''proxy_connect_bypass'', ''proxy_http_bypass'']"

definition bypass_errors :: "(string \<times> int) list \<Rightarrow> string list" where
  "bypass_errors error_types = filter (\<lambda>t. t \<in> fst ` set error_types) PROXY_BYPASS_ERROR_TYPES"

definition has_proxy_bypass_errors :: "obj \<Rightarrow> bool result" where
  "has_proxy_bypass_errors row =
     bindE (dict_field row ''error_types'') (\<lambda>error_types. Inr (bypass_errors error_types \<noteq> []))"

definition connect_counter_value :: "obj \<Rightarrow> int \<Rightarrow> int \<Rightarrow> int" where
  "connect_counter_value row measured_connect total_connect =
     (if str_field row ''lifecycle'' = ''cold-client'' then measured_connect else total_connect)"

definition missing_proxy_counter_reasons ::
  "obj \<Rightarrow> string \<Rightarrow> int \<Rightarrow> int \<Rightarrow> int \<Rightarrow> validity_reason list"
where
  "missing_proxy_counter_reasons row target_scheme measured_http measured_connect total_connect =
     (if target_scheme = ''http'' \<and> measured_http \<le> 0 then
        [make_reason Invalid ''missing_proxy_http_counter''
           ''HTTP proxy scenario completed successful requests without measured proxy HTTP counters.''
           (row_reference row)]
      else if target_scheme = ''https'' \<and> connect_counter_value row measured_connect total_connect \<le> 0 then
        [make_reason Invalid ''missing_proxy_connect_counter''
           ''HTTPS proxy scenario completed successful requests without measured CONNECT counters.''
           (row_reference row)]
      else [])"

definition proxy_counter_reasons :: "obj \<Rightarrow> int \<Rightarrow> int \<Rightarrow> int \<Rightarrow> int \<Rightarrow> int \<Rightarrow> validity_reason list" where
  "proxy_counter_reasons row ok_requests measured_http measured_connect total_http total_connect =
     (let config = str_field row ''config'' in
       (if config = ''direct'' \<and> list_ex (\<lambda>v. 0 < v) [measured_http, measured_connect, total_http, total_connect]
        then [make_reason Invalid ''direct_proxy_counter_leak''
                ''Direct proxy baseline recorded proxy counters.'' (row_reference row)]
        else []) @
       (if (config = ''explicit'' \<or> config = ''trust-env'') \<and> 0 < ok_requests
        then missing_proxy_counter_reasons row (str_field row ''target_scheme'') measured_http
               measured_connect total_connect
        else []))"

definition proxy_specific_reasons :: "string \<Rightarrow> obj \<Rightarrow> validity_reason list result" where
  "proxy_specific_reasons suite row =
     (if suite \<noteq> PROXY_CONNECT_SUITE then Inr []
      else
        bindE (dict_field row ''error_types'') (\<lambda>error_types.
        bindE (int_field row ''ok_requests_total'') (\<lambda>ok_requests.
        bindE (int_field row ''measured_proxy_http_requests_max'') (\<lambda>measured_http.
        bindE (int_field row ''measured_proxy_connect_requests_max'') (\<lambda>measured_connect.
        bindE (int_field row ''total_proxy_http_requests_max'') (\<lambda>total_http.
        bindE (int_field row ''total_proxy_connect_requests_max'') (\<lambda>total_connect.
          Inr ((if bypass_errors error_types \<noteq> [] then
                  [make_reason Invalid ''proxy_usage_guard_failed''
                     (''Proxy usage guard errors were recorded: '' @
                      join '', '' (bypass_errors error_types) @ ''.'')
                     (row_reference row)]
                else []) @
               proxy_counter_reasons row ok_requests measured_http measured_connect total_http total_connect))))))))"

subsection \<open>Generic row checks\<close>

text \<open>The errors of a field that neither the resource scenario nor a known failure explains.\<close>

definition unexplained_errors :: "string \<Rightarrow> obj \<Rightarrow> int \<Rightarrow> string \<Rightarrow> int result" where
  "unexplained_errors suite row errors error_field =
     bindE (unexpected_error_count suite row errors error_field) (\<lambda>unexpected.
       if 0 < unexpected
       then bindE (compatibility_expected_error_count suite row error_field)
              (\<lambda>expected. Inr (max 0 (unexpected - expected)))
       else Inr unexpected)"

definition error_reasons :: "string \<Rightarrow> obj \<Rightarrow> validity_reason list result" where
  "error_reasons suite row =
     bindE (int_field row ''errors_total'') (\<lambda>errors_total.
     bindE (int_field row ''warmup_errors_total'') (\<lambda>warmup_errors_total.
     bindE (unexplained_errors suite row errors_total ''error_types'') (\<lambda>unexpected.
     bindE (if 0 < unexpected then has_proxy_bypass_errors row else Inr True) (\<lambda>bypass.
     bindE (unexplained_errors suite row warmup_errors_total ''warmup_error_types'') (\<lambda>unexpected_warmup.
     bindE (compatibility_failure_reasons suite row) (\<lambda>compatibility.
       Inr ((if 0 < unexpected \<and> \<not> bypass then
               [make_reason NeedsRerun ''unexpected_measured_errors''
                  (''Measured run recorded '' @ int_str unexpected @ '' unexpected errors.'')
                  (row_reference row)]
             else []) @
            (if 0 < unexpected_warmup then
               [make_reason NeedsRerun ''unexpected_warmup_errors''
                  (''Warmup recorded '' @ int_str unexpected_warmup @ '' unexpected errors.'')
                  (row_reference row)]
             else []) @
            compatibility)))))))"

definition zero_primary_metric_reasons :: "string \<Rightarrow> obj \<Rightarrow> validity_reason list result" where
  "zero_primary_metric_reasons suite row =
     (if resource_expected_pressure_row suite row then Inr []
      else
        bindE (first_primary_value row) (\<lambda>primary_value.
          if (case primary_value of None \<Rightarrow> True | Some x \<Rightarrow> flt (Fin 0) x) then Inr []
          else
            bindE (int_field row ''errors_total'') (\<lambda>errors_total.
            bindE (ok_total_value row) (\<lambda>ok_total.
              Inr (if errors_total \<le> 0 \<and> ok_total = None then []
                   else [make_reason NeedsRerun ''zero_success_throughput''
                           ''Primary success throughput is zero for a measured row.''
                           (row_reference row)])))))"

definition variation_reason :: "obj \<Rightarrow> string \<Rightarrow> validity_reason list result" where
  "variation_reason row f =
     bindE (optional_float_field row f) (\<lambda>value.
       Inr (case value of
              None \<Rightarrow> []
            | Some x \<Rightarrow>
                (if fle x HIGH_CV_WARNING_PERCENT then []
                 else [make_reason Warning ''high_variation''
                         (f @ '' is '' @ fixed_str 1 x @ ''%, above '' @
                          fixed_str 1 HIGH_CV_WARNING_PERCENT @ ''%.'')
                         (row_reference row)])))"

definition variation_reasons :: "obj \<Rightarrow> validity_reason list result" where
  "variation_reasons row =
     bindE (mapE (variation_reason row) CV_FIELDS) (\<lambda>reasons. Inr (concat reasons))"

definition row_reasons :: "string \<Rightarrow> obj \<Rightarrow> validity_reason list result" where
  "row_reasons suite row =
     bindE (proxy_specific_reasons suite row) (\<lambda>proxy.
     bindE (error_reasons suite row) (\<lambda>errors.
     bindE (zero_primary_metric_reasons suite row) (\<lambda>zero.
     bindE (variation_reasons row) (\<lambda>variation.
     bindE (resource_recovery_reasons suite row) (\<lambda>recovery.
       Inr (proxy @ errors @ zero @ variation @ recovery))))))"

subsection \<open>Lemmas\<close>

lemma counter_total_filter:
  "counter_total ts = counter_total (filter P ts) + counter_total (filter (\<lambda>kv. \<not> P kv) ts)"
  by (induction ts) (auto simp: counter_total_def)

lemma counter_total_nonneg: "list_all (\<lambda>kv. 0 \<le> snd kv) ts \<Longrightarrow> 0 \<le> counter_total ts"
  by (induction ts) (auto simp: counter_total_def)

lemma counts_agree_filter:
  assumes "\<not> counts_disagree ts n"
  shows "0 \<le> counter_total (filter P ts)" "counter_total (filter P ts) \<le> n"
proof -
  have nonneg: "list_all (\<lambda>kv. 0 \<le> snd kv) (filter Q ts)" for Q
    using assms by (auto simp: counts_disagree_def list_all_iff list_ex_iff not_less)
  show "0 \<le> counter_total (filter P ts)" by (rule counter_total_nonneg [OF nonneg])
  have "0 \<le> counter_total (filter (\<lambda>kv. \<not> P kv) ts)" by (rule counter_total_nonneg [OF nonneg])
  moreover have "counter_total ts = n" using assms by (simp add: counts_disagree_def)
  ultimately show "counter_total (filter P ts) \<le> n"
    using counter_total_filter [of ts P] by simp
qed

lemma counter_total_positive_member: "0 < counter_total ts \<Longrightarrow> \<exists>kv \<in> set ts. 0 < snd kv"
  by (induction ts) (force simp: counter_total_def)+

text \<open>An expected compatibility error is announced by a reason of the row.\<close>

lemma expected_error_announced:
  assumes "compatibility_expected_error_count suite row error_field = Inr n" "0 < n"
    and "compatibility_failure_reasons suite row = Inr reasons"
    and "error_field = ''error_types'' \<or> error_field = ''warmup_error_types''"
  shows "reasons \<noteq> []"
proof -
  from assms(1,2) obtain ts where ts: "dict_field row error_field = Inr ts"
      and count: "0 < counter_total (filter (\<lambda>kv. fst kv \<in>
        set (compatibility_error_types suite row error_field)) ts)"
    by (auto simp: compatibility_expected_error_count_def ok split: if_splits)
  from counter_total_positive_member [OF count] obtain kv where kv: "kv \<in> set ts" "0 < snd kv"
      "fst kv \<in> set (compatibility_error_types suite row error_field)"
    by auto
  from kv(3) obtain failure where failure: "failure \<in> set EXPECTED_COMPATIBILITY_FAILURES"
      "failure_matches failure suite row error_field" "fst kv \<in> set (cf_error_types failure)"
    by (auto simp: compatibility_error_types_def)
  have pair: "(failure, error_field) \<in> set failure_fields"
    using failure(1,2) by (auto simp: failure_fields_def failure_matches_def split: if_splits)
  from assms(3) obtain found where found: "mapE (failure_message suite row) failure_fields = Inr found"
      and reasons: "reasons = [] \<longleftrightarrow> remdups (concat found) = []"
    by (auto simp: compatibility_failure_reasons_def bindE_ok Let_def split: if_splits)
  from found pair obtain ms where ms: "ms \<in> set found" "failure_message suite row (failure, error_field) = Inr ms"
    using mapE_member [OF found pair] by auto
  have "ms = [cf_message failure]"
    using ms(2) ts failure(2,3) kv by (auto simp: failure_message_def list_ex_iff)
  with ms(1) reasons show ?thesis by auto
qed

lemma unexplained_ge: "unexplained_errors suite row n f = Inr u \<Longrightarrow> 0 \<le> u"
  by (auto simp: unexplained_errors_def unexpected_error_count_def ok split: if_splits)

lemma unexplained_zero:
  assumes "unexplained_errors suite row n f = Inr u" "u \<le> 0" "suite \<noteq> RESOURCE_BACKPRESSURE_SUITE"
  shows "n \<le> 0 \<or> (\<exists>c. compatibility_expected_error_count suite row f = Inr c \<and> 0 < c)"
  using assms by (auto simp: unexplained_errors_def unexpected_error_count_def ok split: if_splits)

subsection \<open>Properties\<close>

text \<open>
  C21: the errors a compatibility exemption explains are a part of the recorded errors: the count
  is never negative, and either it is zero or it is at most the row's own total for that field.\<close>

theorem expected_errors_bounded:
  assumes "compatibility_expected_error_count suite row error_field = Inr n"
    and "int_field row (if error_field = ''error_types'' then ''errors_total'' else ''warmup_errors_total'') = Inr t"
  shows "0 \<le> n \<and> (n = 0 \<or> n \<le> t)"
  using assms counts_agree_filter
  by (auto simp: compatibility_expected_error_count_def ok split: if_splits)

definition long_line_row :: obj where
  "long_line_row =
     [(''client'', JStr ''aiohttp''), (''mode'', JStr ''async''), (''case'', JStr ''long-line-1m''),
      (''errors_total'', JInt 5), (''error_types'', JObj [(''LineTooLong'', JInt 5)])]"

lemma expected_errors_bounded_witness:
  "(0::int) \<le> 5 \<and> ((5::int) = 0 \<or> (5::int) \<le> 5)"
proof (rule expected_errors_bounded [of RESPONSE_STREAMING_SUITE long_line_row "''error_types''"])
  show "compatibility_expected_error_count RESPONSE_STREAMING_SUITE long_line_row ''error_types'' = Inr 5"
    by code_simp
  show "int_field long_line_row
      (if ''error_types'' = ''error_types'' then ''errors_total'' else ''warmup_errors_total'') = Inr 5"
    by code_simp
qed

lemma bypass_reported:
  assumes "has_proxy_bypass_errors row = Inr True"
  shows "suite \<noteq> PROXY_CONNECT_SUITE \<or> proxy_specific_reasons suite row \<noteq> Inr []"
proof -
  from assms obtain error_types where "dict_field row ''error_types'' = Inr error_types"
      "bypass_errors error_types \<noteq> []"
    by (auto simp: has_proxy_bypass_errors_def bindE_ok)
  then show ?thesis by (auto simp: proxy_specific_reasons_def bindE_ok)
qed

text \<open>
  C22: outside the resource suite, a row that the error classifier gives no reason has no warmup error,
  and no measured error either, unless its error types name a proxy bypass. In the proxy suite such a
  row does not pass unnoticed: the proxy classifier does not come out without a reason. (Nothing is
  said of such a row in the other suites: the error classifier itself leaves it without a reason.)\<close>

theorem no_reason_no_errors:
  assumes "error_reasons suite row = Inr []" "suite \<noteq> RESOURCE_BACKPRESSURE_SUITE"
  shows "(\<exists>e. int_field row ''errors_total'' = Inr e \<and>
           (e \<le> 0 \<or> has_proxy_bypass_errors row = Inr True \<and>
              (suite \<noteq> PROXY_CONNECT_SUITE \<or> proxy_specific_reasons suite row \<noteq> Inr []))) \<and>
         (\<exists>w. int_field row ''warmup_errors_total'' = Inr w \<and> w \<le> 0)"
proof -
  from assms(1) obtain e w u b v where e: "int_field row ''errors_total'' = Inr e"
      and w: "int_field row ''warmup_errors_total'' = Inr w"
      and u: "unexplained_errors suite row e ''error_types'' = Inr u"
      and b: "(if 0 < u then has_proxy_bypass_errors row else Inr True) = Inr b"
      and v: "unexplained_errors suite row w ''warmup_error_types'' = Inr v"
      and c: "compatibility_failure_reasons suite row = Inr []"
      and ub: "\<not> (0 < u \<and> \<not> b)" and v0: "\<not> 0 < v"
    by (auto simp: error_reasons_def bindE_ok split: if_splits)
  have none: "\<not> (\<exists>n. compatibility_expected_error_count suite row f = Inr n \<and> 0 < n)"
    if "f = ''error_types'' \<or> f = ''warmup_error_types''" for f
    using expected_error_announced [OF _ _ c that] by blast
  have "e \<le> 0 \<or> has_proxy_bypass_errors row = Inr True"
    using unexplained_zero [OF u _ assms(2)] none [of "''error_types''"] b ub
    by (cases "0 < u") auto
  moreover have "w \<le> 0"
    using unexplained_zero [OF v _ assms(2)] none [of "''warmup_error_types''"] v0 by auto
  ultimately show ?thesis using e w bypass_reported by blast
qed

definition clean_row :: obj where
  "clean_row = [(''client'', JStr ''foghttp''), (''scenario'', JStr ''json-small''), (''errors_total'', JInt 0)]"

definition bypass_row :: obj where
  "bypass_row =
     [(''client'', JStr ''foghttp''), (''scenario'', JStr ''get''), (''errors_total'', JInt 2),
      (''error_types'', JObj [(''proxy_http_bypass'', JInt 2)])]"

lemma clean_row_no_error_reasons: "error_reasons REQUESTS_SUITE clean_row = Inr []"
  by code_simp

lemma bypass_row_no_error_reasons: "error_reasons PROXY_CONNECT_SUITE bypass_row = Inr []"
  by code_simp

lemma no_reason_no_errors_witness:
  "(\<exists>e. int_field clean_row ''errors_total'' = Inr e \<and> e \<le> 0) \<and>
   (\<exists>w. int_field clean_row ''warmup_errors_total'' = Inr w \<and> w \<le> 0) \<and>
   proxy_specific_reasons PROXY_CONNECT_SUITE bypass_row \<noteq> Inr []"
proof -
  have "has_proxy_bypass_errors clean_row = Inr False" "int_field bypass_row ''errors_total'' = Inr 2" by code_simp+
  with no_reason_no_errors [OF clean_row_no_error_reasons] no_reason_no_errors [OF bypass_row_no_error_reasons]
  show ?thesis by (auto simp: suite_names)
qed

end
