(* ===== verification/Validity_Lifecycle.thy ===== *)
theory Validity_Lifecycle
  imports Streaming_Profiles
begin

text \<open>
  validity/children.py and validity/lifecycle.py: the reasons taken from the child processes of an
  isolated run and from the process diagnostics of the lifecycle profile.
\<close>

subsection \<open>Child processes\<close>

definition child_reference :: "obj \<Rightarrow> obj result" where
  "child_reference child =
     bindE (int_field child ''sequence'') (\<lambda>sequence.
     bindE (int_field child ''returncode'') (\<lambda>returncode.
       Inr [(''sequence'', JInt sequence), (''client'', JStr (str_field child ''client'')),
            (''scenario'', JStr (py_str (get_default child ''scenario'' (JStr ''-'')))),
            (''returncode'', JInt returncode)]))"

definition child_provenance_reasons :: "obj \<Rightarrow> obj \<Rightarrow> validity_reason list result" where
  "child_provenance_reasons metadata child =
     (if \<not> has_key metadata ''research_provenance'' then Inr []
      else if \<not> is_dict (get child ''research_provenance'') then
        bindE (child_reference child) (\<lambda>reference.
          Inr [make_reason Invalid ''isolated_child_provenance_missing''
                 ''Isolated child report does not contain verified research provenance.'' reference])
      else if \<not> py_eq (get child ''research_provenance'') (get metadata ''research_provenance'') \<or>
        \<not> py_eq (get child ''package_sources'') (get metadata ''package_sources'') then
        bindE (child_reference child) (\<lambda>reference.
          Inr [make_reason Invalid ''isolated_child_provenance_mismatch''
                 ''Isolated child research provenance differs from the parent report.'' reference])
      else Inr [])"

definition child_reasons :: "obj \<Rightarrow> json \<Rightarrow> validity_reason list result" where
  "child_reasons metadata item =
     (case item of
        JObj child \<Rightarrow>
          bindE (int_field child ''returncode'') (\<lambda>returncode.
            if returncode = 0 \<and> is_str (get child ''report_path'') \<and> truthy (get child ''report_path'')
            then child_provenance_reasons metadata child
            else
              bindE (child_reference child) (\<lambda>reference.
                Inr [make_reason Invalid ''isolated_child_failed''
                       ''Isolated child process failed or did not write a report.'' reference]))
      | _ \<Rightarrow> Inr [])"

definition child_process_reasons :: "obj \<Rightarrow> validity_reason list result" where
  "child_process_reasons metadata =
     (case get metadata ''isolation'' of
        JObj isolation \<Rightarrow>
          (case get isolation ''children'' of
             JList children \<Rightarrow>
               bindE (mapE (child_reasons metadata) children) (\<lambda>reasons. Inr (concat reasons))
           | _ \<Rightarrow> Inr [])
      | _ \<Rightarrow> Inr [])"

subsection \<open>Lifecycle diagnostics\<close>

definition LIFECYCLE_VARIATION_LIMIT_PERCENT :: pyfloat where
  "LIFECYCLE_VARIATION_LIMIT_PERCENT = Fin 10"

definition LIFECYCLE_MIN_VARIATION_REPETITIONS :: int where
  "LIFECYCLE_MIN_VARIATION_REPETITIONS = 3"

definition invalid :: "string \<Rightarrow> string \<Rightarrow> obj \<Rightarrow> validity_reason" where
  "invalid code message row = make_reason Invalid code message row"

text \<open>\<^verbatim>\<open>isinstance(pid, int)\<close> accepts a boolean, which is the integer 0 or 1.\<close>

fun pid_value :: "json \<Rightarrow> int option" where
  "pid_value (JInt i) = Some i"
| "pid_value (JBool b) = Some (if b then 1 else 0)"
| "pid_value v = None"

fun pid_reuse_steps :: "int list \<Rightarrow> (obj \<times> string) list \<Rightarrow> validity_reason list" where
  "pid_reuse_steps seen [] = []"
| "pid_reuse_steps seen ((case_row, role) # rest) =
     (case pid_value (get case_row (role @ ''_pid'')) of
        None \<Rightarrow> pid_reuse_steps seen rest
      | Some pid \<Rightarrow>
          (if pid \<in> set seen
           then [invalid ''lifecycle_pid_reused''
                   ''A client/server PID appears in multiple fresh cases; ownership is ambiguous.''
                   (row_reference case_row)]
           else []) @ pid_reuse_steps (List.insert pid seen) rest)"

definition pid_reuse_reasons :: "obj list \<Rightarrow> validity_reason list" where
  "pid_reuse_reasons cases =
     pid_reuse_steps [] (concat (map (\<lambda>c. [(c, ''client''), (c, ''server'')]) cases))"

definition CONTROL_NAMES :: "string list" where
  "CONTROL_NAMES = [''held_tail'', ''recovery'', ''body_wait_cancel'', ''slow_consumer_cancel'']"

definition unsupported_sync :: "obj \<Rightarrow> string \<Rightarrow> json \<Rightarrow> bool" where
  "unsupported_sync case_row name control =
     (case control of
        JObj c \<Rightarrow>
          get case_row ''mode'' = JStr ''sync'' \<and> ends_with name ''_cancel'' \<and>
          get c ''status'' = JStr ''unsupported'' \<and> truthy (get c ''reason'')
      | _ \<Rightarrow> False)"

definition control_reasons :: "obj \<Rightarrow> obj \<Rightarrow> string \<Rightarrow> validity_reason list result" where
  "control_reasons case_row controls name =
     (let reference = row_reference case_row; control = get controls name;
          status = get (object_value control) ''status'';
          failed = (if status \<noteq> JStr ''ok'' \<and> \<not> unsupported_sync case_row name control
                    then [invalid ''lifecycle_control_failed''
                            (''Required lifecycle control '' @ str_repr name @ '' did not succeed.'') reference]
                    else [])
      in case control of
           JObj c \<Rightarrow>
             (if name = ''held_tail'' then
                bindE (int_field c ''expected_aborts'') (\<lambda>aborts.
                  Inr (failed @
                    (if aborts \<le> 0
                     then [invalid ''lifecycle_abort_unverified''
                             ''Held-tail control did not verify any unread-body abort.'' reference]
                     else [])))
              else Inr failed)
         | _ \<Rightarrow> Inr failed)"

definition case_reasons :: "obj \<Rightarrow> validity_reason list result" where
  "case_reasons case_row =
     (let reference = row_reference case_row;
          failed =
            (if truthy (get case_row ''failure'') \<or> truthy (get case_row ''failures'') \<or>
                get case_row ''worker_status'' \<noteq> JStr ''ok'' \<or> truthy (get case_row ''errors'')
             then [invalid ''lifecycle_case_failed''
                     ''Lifecycle child, server, resource guard or owned control failed; raw output is retained.''
                     reference]
             else []);
          identity =
            (if get case_row ''pid_identity_valid'' \<noteq> JBool True
             then [invalid ''lifecycle_pid_identity_invalid''
                     ''Parent/client/server PIDs or per-PID samples do not match the declared ownership.''
                     reference]
             else []);
          samples =
            (if get case_row ''resources_truncated'' \<noteq> JBool False \<or>
                get case_row ''resource_samples_present'' \<noteq> JBool True
             then [invalid ''lifecycle_resource_samples_incomplete''
                     ''Resource samples are missing or exceeded their bounded recording cap.'' reference]
             else [])
      in case get case_row ''controls'' of
           JObj controls \<Rightarrow>
             bindE (mapE (control_reasons case_row controls) CONTROL_NAMES)
               (\<lambda>found. Inr (failed @ identity @ samples @ concat found))
         | _ \<Rightarrow>
             Inr (failed @ identity @ samples @
               [invalid ''lifecycle_controls_missing'' ''Lifecycle control outcomes are missing.'' reference]))"

definition plan_case_reasons :: "obj \<Rightarrow> validity_reason list result" where
  "plan_case_reasons lifecycle =
     (let cases = get lifecycle ''cases'';
          items = (case cases of JList xs \<Rightarrow> xs | _ \<Rightarrow> []);
          plan =
            (if \<not> is_list cases \<or>
                \<not> py_eq (JInt (int (length items))) (get lifecycle ''expected_cases'') \<or>
                \<not> truthy (get lifecycle ''plan_matches'')
             then [invalid ''lifecycle_plan_incomplete''
                     ''Lifecycle reports do not match the declared case plan.'' []]
             else [])
      in bindE (mapE (\<lambda>item. case item of
             JObj c \<Rightarrow> case_reasons c
           | _ \<Rightarrow> Inr [invalid ''lifecycle_case_invalid''
                    ''Lifecycle process diagnostics are malformed.'' []]) items) (\<lambda>found.
           Inr (plan @ concat found @
             pid_reuse_reasons (map object_value (filter is_dict items)))))"

definition lifecycle_variation_reasons :: "obj \<Rightarrow> string \<Rightarrow> validity_reason list result" where
  "lifecycle_variation_reasons row f =
     bindE (optional_float_field row f) (\<lambda>variation.
       Inr (case variation of
              None \<Rightarrow> []
            | Some x \<Rightarrow>
                (if flt LIFECYCLE_VARIATION_LIMIT_PERCENT x
                 then [make_reason Warning ''lifecycle_high_variation''
                         (f @ '' is '' @ fixed_str 1 x @ ''%, above the predeclared 10% criterion '' @
                          ''across fresh repetitions.'') (row_reference row)]
                 else [])))"

definition aggregate_row_reasons :: "obj \<Rightarrow> validity_reason list result" where
  "aggregate_row_reasons row =
     (let mismatch =
        (if get row ''configurations_match'' \<noteq> JBool True
         then [invalid ''lifecycle_configuration_mismatch''
                 ''Fresh repetitions used different or missing lifecycle configurations.''
                 (row_reference row)]
         else [])
      in bindE (int_field row ''variation_sample_count'') (\<lambda>samples.
           if samples < LIFECYCLE_MIN_VARIATION_REPETITIONS then Inr mismatch
           else
             bindE (mapE (lifecycle_variation_reasons row) [''streams_s_cv_percent'', ''duration_s_cv_percent''])
               (\<lambda>found. Inr (mismatch @ concat found))))"

definition aggregate_reasons :: "obj list \<Rightarrow> validity_reason list result" where
  "aggregate_reasons rows =
     bindE (mapE aggregate_row_reasons rows) (\<lambda>found. Inr (concat found))"

definition lifecycle_report_reasons :: "obj \<Rightarrow> obj list \<Rightarrow> validity_reason list result" where
  "lifecycle_report_reasons metadata rows =
     (if \<not> uses_streaming_profile metadata rows ''lifecycle'' then Inr []
      else case get metadata ''lifecycle'' of
        JObj lifecycle \<Rightarrow>
          bindE (plan_case_reasons lifecycle) (\<lambda>plan.
          bindE (aggregate_reasons rows) (\<lambda>aggregate. Inr (plan @ aggregate)))
      | _ \<Rightarrow> Inr [invalid ''lifecycle_cases_missing'' ''Lifecycle process diagnostics are missing.'' []])"

subsection \<open>Properties\<close>

text \<open>The process identifiers the cases claim, in order.\<close>

definition owned_pids :: "obj list \<Rightarrow> int list" where
  "owned_pids cases =
     List.map_filter pid_value (concat (map (\<lambda>c. [get c ''client_pid'', get c ''server_pid'']) cases))"

lemma pid_reuse_steps_Nil:
  "pid_reuse_steps seen steps = [] \<longleftrightarrow>
     distinct (List.map_filter (\<lambda>(c, role). pid_value (get c (role @ ''_pid''))) steps) \<and>
     set (List.map_filter (\<lambda>(c, role). pid_value (get c (role @ ''_pid''))) steps) \<inter> set seen = {}"
  by (induction seen steps rule: pid_reuse_steps.induct)
    (auto simp: map_filter_simps split: option.splits)

lemma pid_reuse_none: "pid_reuse_reasons cases = [] \<longleftrightarrow> distinct (owned_pids cases)"
proof -
  have "List.map_filter (\<lambda>(c, role). pid_value (get c (role @ ''_pid'')))
      (concat (map (\<lambda>c. [(c, ''client''), (c, ''server'')]) cases)) = owned_pids cases"
    by (induction cases) (simp_all add: owned_pids_def map_filter_simps split: option.splits)
  then show ?thesis by (simp add: pid_reuse_reasons_def pid_reuse_steps_Nil)
qed

lemma pid_reuse_invalid: "r \<in> set (pid_reuse_steps seen steps) \<Longrightarrow> vr_status r = Invalid"
  by (induction seen steps rule: pid_reuse_steps.induct)
    (auto simp: invalid_def make_reason_def split: option.splits if_splits)

lemma pid_reuse_visible:
  assumes "Invalid \<notin> vr_status ` set (pid_reuse_reasons cases)"
  shows "distinct (owned_pids cases)"
proof (cases "pid_reuse_reasons cases")
  case Nil
  then show ?thesis by (simp add: pid_reuse_none)
next
  case (Cons r rs)
  then have "r \<in> set (pid_reuse_reasons cases)" by simp
  then have "vr_status r = Invalid" unfolding pid_reuse_reasons_def by (rule pid_reuse_invalid)
  with Cons assms show ?thesis by (simp add: image_iff)
qed

text \<open>
  Process ownership is unambiguous exactly when no reuse is reported: the client and server
  processes of all cases have pairwise distinct identifiers.\<close>

theorem pid_reuse_iff:
  "pid_reuse_reasons cases = [] \<longleftrightarrow> distinct (owned_pids cases)"
  by (rule pid_reuse_none)

end
