(* ===== verification/Validity_Attribution.thy ===== *)
theory Validity_Attribution
  imports Validity_Lifecycle
begin

text \<open>
  validity/attribution.py with the fingerprints of attribution_evidence.py: the reasons of a
  research report of the async-bytes profile. SHA-256 is the standard library's; the definitions
  take it as the parameter \<open>sha256\<close>, from the ASCII text to the hexadecimal digest.
\<close>

subsection \<open>Fingerprints\<close>

definition ATTRIBUTION_SCHEMA_VERSION :: int where "ATTRIBUTION_SCHEMA_VERSION = 3"

definition ATTRIBUTION_POLICY_VERSION :: string where "ATTRIBUTION_POLICY_VERSION = ''async-bytes-v2''"

definition GIT_SHA_LENGTH :: nat where "GIT_SHA_LENGTH = 40"

definition SHA256_HEX_LENGTH :: nat where "SHA256_HEX_LENGTH = 64"

text \<open>\<^verbatim>\<open>json.dumps(..., allow_nan=False)\<close> raises when a number is not finite.\<close>

fun json_finite :: "json \<Rightarrow> bool" where
  "json_finite (JFloat x) = is_finite x"
| "json_finite (JList xs) = list_all json_finite xs"
| "json_finite (JObj d) = list_all (\<lambda>kv. json_finite (snd kv)) d"
| "json_finite v = True"

definition condition_fingerprint :: "(string \<Rightarrow> string) \<Rightarrow> obj \<Rightarrow> string result" where
  "condition_fingerprint sha256 conditions =
     (if json_finite (JObj conditions) then Inr (sha256 (dumps '','' '':'' (JObj conditions)))
      else Inl (ValueError ''Out of range float values are not JSON compliant''))"

definition hex_digest :: "json \<Rightarrow> nat \<Rightarrow> bool" where
  "hex_digest value n =
     (case value of
        JStr s \<Rightarrow> length s = n \<and> list_all (\<lambda>c. c \<in> set ''0123456789abcdef'') s
      | _ \<Rightarrow> False)"

definition harness_fingerprint :: "(string \<Rightarrow> string) \<Rightarrow> obj \<Rightarrow> string option result" where
  "harness_fingerprint sha256 metadata =
     (let manifest = get (object_value (get metadata ''research_provenance'')) ''manifest''
      in case get (object_value manifest) ''harness'' of
           JObj harness \<Rightarrow>
             (let sha = get harness ''sha''; diff = get harness ''diff_sha256'';
                  files = get harness ''files_sha256''
              in if \<not> hex_digest sha GIT_SHA_LENGTH \<or> \<not> hex_digest diff SHA256_HEX_LENGTH \<or>
                    \<not> is_dict files \<or> \<not> truthy files \<or>
                    \<not> list_all (\<lambda>kv. fst kv \<noteq> [] \<and> hex_digest (snd kv) SHA256_HEX_LENGTH) (object_value files)
                 then Inr None
                 else
                   bindE (condition_fingerprint sha256 (object_value files)) (\<lambda>inner.
                   bindE (condition_fingerprint sha256
                       [(''sha'', sha), (''diff_sha256'', diff), (''files_sha256_sha256'', JStr inner)])
                     (\<lambda>fp. Inr (Some fp))))
         | _ \<Rightarrow> Inr None)"

subsection \<open>Value tests\<close>

definition reason :: "validity_status \<Rightarrow> string \<Rightarrow> string \<Rightarrow> obj \<Rightarrow> validity_reason" where
  "reason status code message row = make_reason status code message (row_reference row)"

text \<open>\<^verbatim>\<open>math.isfinite\<close> of an integer beyond the float range raises \<^verbatim>\<open>OverflowError\<close>.\<close>

fun positive_number :: "json \<Rightarrow> bool \<Rightarrow> pyfloat option result" where
  "positive_number (JInt i) allow_zero =
     bindE (float_of_int i) (\<lambda>x. Inr (if 0 \<le> i \<and> (allow_zero \<or> 0 < i) then Some x else None))"
| "positive_number (JFloat x) allow_zero =
     Inr (if is_finite x \<and> fle (Fin 0) x \<and> (allow_zero \<or> flt (Fin 0) x) then Some x else None)"
| "positive_number v allow_zero = Inr None"

definition integer_at_least :: "json \<Rightarrow> int \<Rightarrow> bool" where
  "integer_at_least value minimum = (case value of JInt i \<Rightarrow> minimum \<le> i | _ \<Rightarrow> False)"

definition digest :: "json \<Rightarrow> bool" where
  "digest value = hex_digest value SHA256_HEX_LENGTH"

definition git_sha :: "json \<Rightarrow> bool" where
  "git_sha value = hex_digest value GIT_SHA_LENGTH"

definition FOGHTTP_BASELINE_ref :: string where
  "FOGHTTP_BASELINE_ref = ''refs/heads/release/0.4.2''"

definition not_true :: "obj \<Rightarrow> string \<Rightarrow> bool" where
  "not_true row k = (get row k \<noteq> JBool True)"

subsection \<open>Reasons\<close>

definition fingerprint_reasons :: "(string \<Rightarrow> string) \<Rightarrow> obj \<Rightarrow> validity_reason list" where
  "fingerprint_reasons sha256 value =
     (let valid =
        (case get value ''conditions'' of
           JObj conditions \<Rightarrow>
             (case condition_fingerprint sha256 conditions of
                Inl _ \<Rightarrow> False
              | Inr fp \<Rightarrow> get value ''condition_fingerprint'' = JStr fp)
         | _ \<Rightarrow> False)
      in if valid then []
         else [reason Invalid ''attribution_conditions_invalid''
                 ''Measurement conditions or their canonical fingerprint are missing or inconsistent.'' value])"

definition missing_number :: "obj \<Rightarrow> string \<Rightarrow> bool result" where
  "missing_number d k = bindE (positive_number (get d k) True) (\<lambda>v. Inr (v = None))"

definition cpu_reasons :: "obj \<Rightarrow> string \<Rightarrow> validity_reason list result" where
  "cpu_reasons row role =
     (let cpu = object_value (get (object_value (get row ''cpu'')) role)
      in bindE (orE (not_true cpu ''complete'')
           (anyE (missing_number cpu)
             [''user_s_median'', ''system_s_median'', ''total_s_median'',
              ''cpu_seconds_per_verified_byte_median'', ''cpu_seconds_per_wall_second_median'']))
         (\<lambda>incomplete.
           Inr (if incomplete
                then [reason NeedsRerun ''attribution_cpu_incomplete''
                        (''Separate '' @ role @
                         '' load CPU evidence is unavailable; retained reasons do not replace measurement.'') row]
                else [])))"

definition resource_evidence_reasons :: "obj \<Rightarrow> validity_reason list result" where
  "resource_evidence_reasons row =
     bindE (mapE (cpu_reasons row) [''client'', ''server'']) (\<lambda>cpu.
       let overhead = object_value (get row ''overhead'')
       in bindE (orE (not_true overhead ''complete'' \<or> not_true overhead ''distribution_complete'')
            (anyE (missing_number overhead)
              [''scalar_only_s_median'', ''sha256_only_s_median'', ''combined_s_median'']))
          (\<lambda>incomplete.
            Inr (concat cpu @
              (if incomplete
               then [reason NeedsRerun ''attribution_overhead_incomplete''
                       ''Bounded replay did not qualify hashing/scalar overhead on the complete observed distribution.''
                       row]
               else []))))"

definition workload_incomplete :: "obj \<Rightarrow> obj \<Rightarrow> bool" where
  "workload_incomplete row configuration =
     (case (get row ''expected_streams_total'', get configuration ''body_bytes'', get row ''verified_bytes_total'') of
        (JInt expected, JInt payload, JInt verified) \<Rightarrow>
          expected \<le> 0 \<or> payload \<le> 0 \<or> verified \<noteq> expected * payload \<or>
          \<not> py_eq (get row ''complete_streams_total'') (JInt expected) \<or>
          \<not> py_eq (get row ''stream_samples_total'') (JInt expected) \<or>
          \<not> py_eq (get row ''integrity_failures_total'') (JInt 0) \<or>
          \<not> py_eq (get row ''successful_repeats'') (get row ''repeats'') \<or>
          not_true row ''stream_measurement_evidence_complete'' \<or>
          not_true row ''declared_workload_complete'' \<or>
          not_true row ''gc_configuration_matches'' \<or>
          \<not> py_eq (JObj configuration)
            (JObj (object_value (get (object_value (get row ''conditions'')) ''configuration'')))
      | _ \<Rightarrow> True)"

definition attribution_row_reasons :: "(string \<Rightarrow> string) \<Rightarrow> obj \<Rightarrow> validity_reason list result" where
  "attribution_row_reasons sha256 row =
     (let configuration = object_value (get row ''configuration'');
          attribution = object_value (get configuration ''attribution'');
          when = (\<lambda>b s c m. if b then [reason s c m row] else [])
      in bindE (positive_number (get row ''verified_bytes_s_median'') False) (\<lambda>primary.
         bindE (positive_number (get row ''verified_bytes_s_cv_percent'') True) (\<lambda>variation.
         bindE (resource_evidence_reasons row) (\<lambda>evidence.
           Inr (fingerprint_reasons sha256 row @
             when (truthy (get attribution ''minimum_duration_s'') \<and> not_true row ''duration_window_complete'')
               NeedsRerun ''attribution_duration_short''
               ''A duration window reached its hard stream cap before the declared minimum load time.'' @
             when (workload_incomplete row configuration)
               Invalid ''attribution_integrity_incomplete''
               (''Every expected stream must have complete EOF, framing, byte count and digest evidence '' @
                ''before contributing verified bytes.'') @
             when (primary = None) Invalid ''attribution_primary_missing''
               ''Verified byte throughput is missing or nonpositive.'' @
             when (get row ''instrumentation'' \<noteq> JStr ''control'' \<or> get row ''profiler_label'' \<noteq> JNull)
               NeedsRerun ''attribution_diagnostic_only''
               ''Diagnostic tracing/profiler runs cannot serve as control measurements.'' @
             when (get attribution ''profiler'' = JStr ''cprofile'' \<and>
                 not_true row ''python_profile_thread_scope_qualified'')
               NeedsRerun ''attribution_python_profile_unqualified''
               ''Interpreter monitoring cannot provide thread-scoped timing or caller attribution.'' @
             when (not_true row ''server_health_complete'')
               Invalid ''attribution_server_health_incomplete'' ''Server health/EOF evidence is missing or failed.'' @
             when (not_true row ''cpu_pid_identity_valid'')
               Invalid ''attribution_cpu_pid_mismatch''
               ''CPU observations do not match the owned client and server PIDs.'' @
             when (\<not> integer_at_least (get row ''variation_sample_count'') LIFECYCLE_MIN_VARIATION_REPETITIONS)
               NeedsRerun ''attribution_repetitions_insufficient''
               ''At least three fresh complete repetitions are required to assess variation.'' @
             when (case variation of None \<Rightarrow> True | Some x \<Rightarrow> flt LIFECYCLE_VARIATION_LIMIT_PERCENT x)
               NeedsRerun ''attribution_variation_unqualified''
               ''Verified byte throughput variation is missing or exceeds the predeclared 10% criterion.'' @
             evidence)))))"

definition provenance_unverified :: "obj \<Rightarrow> bool" where
  "provenance_unverified metadata =
     (let provenance = object_value (get metadata ''research_provenance'');
          manifest = object_value (get provenance ''manifest'');
          source = object_value (get manifest ''source'');
          installation = object_value (get provenance ''installation'')
      in \<not> digest (get provenance ''manifest_sha256'') \<or>
         \<not> digest (get installation ''native_sha256'') \<or>
         \<not> git_sha (get source ''sha'') \<or>
         get source ''ref'' \<noteq> JStr FOGHTTP_BASELINE_ref \<or>
         get (object_value (get manifest ''build'')) ''profile'' \<noteq> JStr ''release'')"

definition attribution_report_reasons ::
  "(string \<Rightarrow> string) \<Rightarrow> obj \<Rightarrow> obj list \<Rightarrow> validity_reason list result"
where
  "attribution_report_reasons sha256 metadata rows =
     (if \<not> uses_streaming_profile metadata rows ''async-bytes'' then Inr []
      else
        let lifecycle = object_value (get metadata ''lifecycle'');
            evidence = object_value (get metadata ''raw_evidence_validation'');
            when = (\<lambda>b s c m. if b then [reason s c m []] else [])
        in bindE (plan_case_reasons lifecycle) (\<lambda>plan.
           bindE (aggregate_reasons rows) (\<lambda>aggregate.
           bindE (harness_fingerprint sha256 metadata) (\<lambda>harness.
           bindE (mapE (attribution_row_reasons sha256) rows) (\<lambda>row_found.
             Inr (when (\<not> py_eq (get metadata ''schema_version'') (JInt ATTRIBUTION_SCHEMA_VERSION) \<or>
                    get metadata ''policy_version'' \<noteq> JStr ATTRIBUTION_POLICY_VERSION)
                  Invalid ''attribution_schema_missing'' ''Attribution schema/policy evidence is missing.'' @
                fingerprint_reasons sha256 metadata @ plan @ aggregate @
                when (get evidence ''status'' \<noteq> JStr ''ok'' \<or>
                    \<not> py_eq (get evidence ''checked'') (get lifecycle ''expected_cases'') \<or>
                    not_true evidence ''aggregates_match'')
                  Invalid ''attribution_raw_evidence_invalid''
                  ''Raw sidecars are missing, changed or not verified from disk.'' @
                when (provenance_unverified metadata)
                  NeedsRerun ''attribution_provenance_missing''
                  ''A verified release-wheel research manifest is mandatory for a performance conclusion.'' @
                when (rows = []) Invalid ''attribution_rows_missing'' ''No measured attribution cells are present.'' @
                when (harness = None) NeedsRerun ''attribution_harness_provenance_missing''
                  (''Harness commit, tracked diff and complete file fingerprints '' @
                   ''are required for a performance conclusion.'') @
                concat row_found))))))"

subsection \<open>Properties\<close>

lemma harness_fingerprint_total: "\<exists>fp. harness_fingerprint sha256 metadata = Inr fp"
proof -
  have hex: "hex_digest v n \<Longrightarrow> json_finite v" for v n
    by (cases v) (simp_all add: hex_digest_def)
  have finite: "list_all (\<lambda>kv. json_finite (snd kv)) d"
    if "list_all (\<lambda>kv. fst kv \<noteq> [] \<and> hex_digest (snd kv) n) d" for d :: obj and n
    by (rule list.pred_mono_strong [OF that]) (auto intro: hex)
  show ?thesis
    using finite hex
    by (auto simp: harness_fingerprint_def Let_def condition_fingerprint_def split: json.splits)
qed

text \<open>
  C26: a research row that draws no reason verified every byte it reports: with \<open>e\<close> expected
  streams of \<open>p\<close> payload bytes, exactly \<open>e * p\<close> bytes were verified, all streams are complete, no
  integrity failure was counted, and the recorded fingerprint is the digest of its conditions.\<close>

theorem attribution_row_verified:
  assumes "attribution_row_reasons sha256 row = Inr []"
  shows "\<exists>e p conditions.
    get row ''expected_streams_total'' = JInt e \<and> 0 < e \<and>
    get (object_value (get row ''configuration'')) ''body_bytes'' = JInt p \<and> 0 < p \<and>
    get row ''verified_bytes_total'' = JInt (e * p) \<and>
    py_eq (get row ''complete_streams_total'') (JInt e) \<and>
    py_eq (get row ''integrity_failures_total'') (JInt 0) \<and>
    get row ''conditions'' = JObj conditions \<and> json_finite (JObj conditions) \<and>
    get row ''condition_fingerprint'' = JStr (sha256 (dumps '','' '':'' (JObj conditions)))"
proof -
  let ?configuration = "object_value (get row ''configuration'')"
  from assms have fp: "fingerprint_reasons sha256 row = []"
      and complete: "\<not> workload_incomplete row ?configuration"
    by (auto simp: attribution_row_reasons_def Let_def bindE_ok split: if_splits)
  from fp obtain conditions where conditions: "get row ''conditions'' = JObj conditions"
      "json_finite (JObj conditions)"
      "get row ''condition_fingerprint'' = JStr (sha256 (dumps '','' '':'' (JObj conditions)))"
    by (auto simp: fingerprint_reasons_def condition_fingerprint_def Let_def
        split: json.splits if_splits sum.splits)
  from complete obtain e p where "get row ''expected_streams_total'' = JInt e" "0 < e"
      "get ?configuration ''body_bytes'' = JInt p" "0 < p"
      "get row ''verified_bytes_total'' = JInt (e * p)"
      "py_eq (get row ''complete_streams_total'') (JInt e)"
      "py_eq (get row ''integrity_failures_total'') (JInt 0)"
    by (auto simp: workload_incomplete_def split: json.splits)
  with conditions show ?thesis by blast
qed

definition verified_row :: obj where
  "verified_row =
     (let configuration = JObj [(''body_bytes'', JInt 1024), (''attribution'', JObj [])];
          numbers = (\<lambda>ks. map (\<lambda>k. (k, JFloat (Fin 1))) ks);
          cpu = JObj ((''complete'', JBool True) #
            numbers [''user_s_median'', ''system_s_median'', ''total_s_median'',
              ''cpu_seconds_per_verified_byte_median'', ''cpu_seconds_per_wall_second_median''])
      in [(''expected_streams_total'', JInt 3), (''verified_bytes_total'', JInt 3072),
          (''complete_streams_total'', JInt 3), (''stream_samples_total'', JInt 3),
          (''integrity_failures_total'', JInt 0), (''repeats'', JInt 3), (''successful_repeats'', JInt 3),
          (''stream_measurement_evidence_complete'', JBool True),
          (''declared_workload_complete'', JBool True), (''gc_configuration_matches'', JBool True),
          (''configuration'', configuration), (''conditions'', JObj [(''configuration'', configuration)]),
          (''condition_fingerprint'', JStr ''d''), (''verified_bytes_s_median'', JFloat (Fin 7)),
          (''verified_bytes_s_cv_percent'', JFloat (Fin 2)), (''variation_sample_count'', JInt 3),
          (''instrumentation'', JStr ''control''), (''server_health_complete'', JBool True),
          (''cpu_pid_identity_valid'', JBool True),
          (''cpu'', JObj [(''client'', cpu), (''server'', cpu)]),
          (''overhead'', JObj ([(''complete'', JBool True), (''distribution_complete'', JBool True)] @
             numbers [''scalar_only_s_median'', ''sha256_only_s_median'', ''combined_s_median'']))])"

lemma verified_row_reasons: "attribution_row_reasons (\<lambda>_. ''d'') verified_row = Inr []"
  by code_simp

lemma attribution_row_verified_witness:
  "\<exists>e p conditions.
    get verified_row ''expected_streams_total'' = JInt e \<and> 0 < e \<and>
    get (object_value (get verified_row ''configuration'')) ''body_bytes'' = JInt p \<and> 0 < p \<and>
    get verified_row ''verified_bytes_total'' = JInt (e * p) \<and>
    py_eq (get verified_row ''complete_streams_total'') (JInt e) \<and>
    py_eq (get verified_row ''integrity_failures_total'') (JInt 0) \<and>
    get verified_row ''conditions'' = JObj conditions \<and> json_finite (JObj conditions) \<and>
    get verified_row ''condition_fingerprint'' = JStr ''d''"
  using attribution_row_verified [OF verified_row_reasons] by blast

end
