(* ===== verification/Validity_Summary.thy ===== *)
theory Validity_Summary
  imports Validity_Rules Validity_Attribution
begin

text \<open>
  validity/serialization.py, validity/classification.py and validity/reports.py: the summary of a
  report's reasons, its JSON form, its reading back with all consistency checks, and the
  combination of current, recorded and child summaries.
\<close>

subsection \<open>Writing\<close>

definition reason_payload :: "validity_reason \<Rightarrow> obj" where
  "reason_payload r =
     [(''status'', JStr (status_name (vr_status r))), (''code'', JStr (vr_code r)),
      (''message'', JStr (vr_message r)), (''row_label'', JStr (vr_row_label r)),
      (''row'', JObj (vr_row r))]"

definition validity_payload :: "validity_summary \<Rightarrow> obj" where
  "validity_payload s =
     [(''status'', JStr (status_name (vs_status s))), (''is_valid'', JBool (vs_is_valid s)),
      (''can_compare'', JBool (vs_can_compare s)), (''reason_count'', JInt (vs_reason_count s)),
      (''reason_counts'', JObj (map (\<lambda>kv. (fst kv, JInt (snd kv))) (vs_reason_counts s))),
      (''reasons'', JList (map (\<lambda>r. JObj (reason_payload r)) (vs_reasons s)))]"

subsection \<open>Reading\<close>

definition status_value :: "json \<Rightarrow> string \<Rightarrow> validity_status result" where
  "status_value value path =
     (let err = Inl (ValueError (path @ '' must be one of '' @ join '', '' (map status_name VALIDITY_STATUSES)))
      in case value of
           JStr s \<Rightarrow> (case find (\<lambda>t. status_name t = s) VALIDITY_STATUSES of None \<Rightarrow> err | Some t \<Rightarrow> Inr t)
         | _ \<Rightarrow> err)"

definition string_field :: "obj \<Rightarrow> string \<Rightarrow> string \<Rightarrow> json \<Rightarrow> string result" where
  "string_field payload key path default_value =
     (case get_default payload key default_value of
        JStr s \<Rightarrow> Inr s
      | _ \<Rightarrow> Inl (TypeError (path @ ''.'' @ key @ '' must be a string'')))"

definition bool_field :: "obj \<Rightarrow> string \<Rightarrow> bool \<Rightarrow> bool result" where
  "bool_field payload key default_value =
     (if \<not> has_key payload key then Inr default_value
      else case get payload key of
        JBool b \<Rightarrow> Inr b
      | _ \<Rightarrow> Inl (TypeError (''metadata.validity.'' @ key @ '' must be a boolean'')))"

definition reason_from_payload :: "nat \<Rightarrow> json \<Rightarrow> validity_reason result" where
  "reason_from_payload index value =
     (let path = index_path ''metadata.validity.reasons'' index
      in case value of
           JObj payload \<Rightarrow>
             bindE (status_value (get payload ''status'') (path @ ''.status'')) (\<lambda>status.
             bindE (string_field payload ''code'' path JNull) (\<lambda>code.
             if code = [] then Inl (ValueError (path @ ''.code must be nonempty''))
             else
               case get_default payload ''row'' (JObj []) of
                 JObj row \<Rightarrow>
                   bindE (string_field payload ''message'' path (JStr [])) (\<lambda>message.
                   bindE (string_field payload ''row_label'' path (JStr ''-'')) (\<lambda>label.
                     Inr \<lparr>vr_status = status, vr_code = code, vr_message = message,
                          vr_row_label = label, vr_row = row\<rparr>))
               | _ \<Rightarrow> Inl (ValueError (path @ ''.row must be an object with string keys''))))
         | _ \<Rightarrow> Inl (TypeError (path @ '' must be an object'')))"

definition check_reason_count :: "string \<times> json \<Rightarrow> (string \<times> int) result" where
  "check_reason_count kv =
     bindE (status_value (JStr (fst kv)) ''metadata.validity.reason_counts key'') (\<lambda>_.
       let err = Inl (ValueError
             (''metadata.validity.reason_counts.'' @ fst kv @ '' must be a nonnegative integer''))
       in case snd kv of JInt n \<Rightarrow> (if n < 0 then err else Inr (fst kv, n)) | _ \<Rightarrow> err)"

text \<open>Equality of two dictionaries with distinct keys.\<close>

definition dict_eq :: "(string \<times> int) list \<Rightarrow> (string \<times> int) list \<Rightarrow> bool" where
  "dict_eq d e = (length d = length e \<and> list_all (\<lambda>kv. map_of e (fst kv) = Some (snd kv)) d)"

definition validate_reason_counts ::
  "obj \<Rightarrow> validity_reason list \<Rightarrow> (string \<times> int) list \<Rightarrow> unit result"
where
  "validate_reason_counts payload reasons expected =
     bindE (raise_if (has_key payload ''reason_count'' \<and> get payload ''reason_count'' \<noteq> JInt (int (length reasons)))
       (ValueError ''metadata.validity.reason_count must be an integer matching the number of reasons'')) (\<lambda>_.
       if \<not> has_key payload ''reason_counts'' then Inr ()
       else case get payload ''reason_counts'' of
         JObj counts \<Rightarrow>
           bindE (mapE check_reason_count counts) (\<lambda>checked.
             raise_if (\<not> dict_eq (filter (\<lambda>kv. snd kv \<noteq> 0) checked) expected)
               (ValueError ''metadata.validity.reason_counts must match the reason statuses''))
       | _ \<Rightarrow> Inl (TypeError ''metadata.validity.reason_counts must be an object''))"

definition validity_summary_from_payload :: "obj \<Rightarrow> validity_summary result" where
  "validity_summary_from_payload payload =
     bindE (status_value (get payload ''status'') ''metadata.validity.status'') (\<lambda>declared.
     case get payload ''reasons'' of
       JList raw \<Rightarrow>
         bindE (mapiE reason_from_payload 0 raw) (\<lambda>reasons.
           let status = combined_status (declared # map vr_status reasons);
               reason_counts = count_reasons reasons;
               status_is_valid = (status = Valid);
               status_can_compare = ((status = Valid \<or> status = Warning) \<and> reasons_allow_comparison reasons)
           in bindE (validate_reason_counts payload reasons reason_counts) (\<lambda>_.
              bindE (bool_field payload ''is_valid'' status_is_valid) (\<lambda>is_valid.
              bindE (bool_field payload ''can_compare'' status_can_compare) (\<lambda>can_compare.
                Inr \<lparr>vs_status = status, vs_is_valid = is_valid \<and> status_is_valid,
                     vs_can_compare = can_compare \<and> status_can_compare,
                     vs_reason_count = int (length reasons), vs_reason_counts = reason_counts,
                     vs_reasons = reasons\<rparr>))))
     | _ \<Rightarrow> Inl (TypeError ''metadata.validity.reasons must be a list''))"

subsection \<open>Classification\<close>

definition classify_report_validity ::
  "(string \<Rightarrow> string) \<Rightarrow> string \<Rightarrow> obj list \<Rightarrow> obj \<Rightarrow> validity_summary result"
where
  "classify_report_validity sha256 suite aggregate_rows metadata =
     bindE (child_process_reasons metadata) (\<lambda>children.
     bindE (attribution_report_reasons sha256 metadata aggregate_rows) (\<lambda>attribution.
     bindE (lifecycle_report_reasons metadata aggregate_rows) (\<lambda>lifecycle.
     bindE (mapE (row_reasons suite) aggregate_rows) (\<lambda>row_found.
       let reasons = children @ streaming_profile_reasons suite metadata aggregate_rows @
             attribution @ lifecycle @ concat row_found;
           status = combined_status (map vr_status reasons)
       in Inr \<lparr>vs_status = status, vs_is_valid = (status = Valid),
              vs_can_compare = reasons_allow_comparison reasons,
              vs_reason_count = int (length reasons), vs_reason_counts = count_reasons reasons,
              vs_reasons = reasons\<rparr>))))"

text \<open>
  \<^verbatim>\<open>reason not in reasons\<close> compares the dataclasses field by field, the rows as dictionaries; the
  list grows while it is tested, so a reason repeated within one summary is kept once.
\<close>

definition reason_eq :: "validity_reason \<Rightarrow> validity_reason \<Rightarrow> bool" where
  "reason_eq r s =
     (vr_status r = vr_status s \<and> vr_code r = vr_code s \<and> vr_message r = vr_message s \<and>
      vr_row_label r = vr_row_label s \<and> py_eq (JObj (vr_row r)) (JObj (vr_row s)))"

definition add_reason :: "validity_reason list \<Rightarrow> validity_reason \<Rightarrow> validity_reason list" where
  "add_reason reasons r = (if list_ex (reason_eq r) reasons then reasons else reasons @ [r])"

definition combine_validity_summaries :: "validity_summary list \<Rightarrow> validity_summary" where
  "combine_validity_summaries items =
     (let reasons = foldl (\<lambda>acc s. foldl add_reason acc (vs_reasons s)) [] items;
          status = combined_status (map vs_status items @ map vr_status reasons)
      in \<lparr>vs_status = status,
          vs_is_valid = (status = Valid \<and> list_all vs_is_valid items),
          vs_can_compare = ((status = Valid \<or> status = Warning) \<and> list_all vs_can_compare items \<and>
            reasons_allow_comparison reasons),
          vs_reason_count = int (length reasons), vs_reason_counts = count_reasons reasons,
          vs_reasons = reasons\<rparr>)"

definition recorded_validity :: "json \<Rightarrow> string \<Rightarrow> validity_summary result" where
  "recorded_validity value path =
     (case value of
        JObj payload \<Rightarrow>
          (case validity_summary_from_payload payload of
             Inr s \<Rightarrow> Inr s
           | Inl exc \<Rightarrow>
               (if path = ''metadata'' \<or> \<not> type_or_value_error exc then Inl exc
                else Inl (ValueError (path @ ''.validity: '' @ error_message exc))))
      | _ \<Rightarrow> Inl (TypeError (path @ ''.validity must be an object'')))"

definition child_records :: "obj \<Rightarrow> (string \<times> obj) list" where
  "child_records metadata =
     (case get (object_value (get metadata ''isolation'')) ''children'' of
        JList children \<Rightarrow>
          concat (map (\<lambda>(index, child). case child of
              JObj c \<Rightarrow> [(index_path ''metadata.isolation.children'' index, c)] | _ \<Rightarrow> [])
            (enumerate 0 children))
      | _ \<Rightarrow> [])"

definition validity_summary_from_metadata ::
  "(string \<Rightarrow> string) \<Rightarrow> obj \<Rightarrow> string \<Rightarrow> obj list \<Rightarrow> validity_summary result"
where
  "validity_summary_from_metadata sha256 metadata suite aggregate_rows =
     bindE (classify_report_validity sha256 suite aggregate_rows metadata) (\<lambda>current.
     bindE (mapE (\<lambda>(path, record). recorded_validity (get record ''validity'') path)
         (filter (\<lambda>(path, record). has_key record ''validity'')
           ((''metadata'', metadata) # child_records metadata))) (\<lambda>recorded.
       Inr (if recorded = [] then current else combine_validity_summaries (current # recorded))))"

text \<open>
  \<^verbatim>\<open>metadata_with_validity\<close>; the parameter \<open>provenance\<close> is what the environment of the process
  gives: the research provenance and the package sources, or nothing.
\<close>

definition metadata_with_validity ::
  "(string \<Rightarrow> string) \<Rightarrow> (json \<times> json) option \<Rightarrow> obj \<Rightarrow> obj list \<Rightarrow> obj result"
where
  "metadata_with_validity sha256 provenance metadata aggregate_rows =
     (let versioned = AList.update ''report_schema_version'' (JInt REPORT_SCHEMA_VERSION) metadata;
          extended = (case provenance of
              None \<Rightarrow> versioned
            | Some (research, sources) \<Rightarrow>
                AList.update ''package_sources'' sources
                  (AList.update ''research_provenance'' research versioned));
          suite = py_str (get_default extended ''suite'' (JStr ''unknown''))
      in bindE (classify_report_validity sha256 suite aggregate_rows extended) (\<lambda>s.
           Inr (AList.update ''validity'' (JObj (validity_payload s)) extended)))"

subsection \<open>Consistent summaries\<close>

definition consistent_summary :: "validity_summary \<Rightarrow> bool" where
  "consistent_summary s =
     (combined_status (vs_status s # map vr_status (vs_reasons s)) = vs_status s \<and>
      (vs_is_valid s \<longrightarrow> vs_status s = Valid) \<and>
      (vs_can_compare s \<longrightarrow> vs_status s \<in> {Valid, Warning} \<and> reasons_allow_comparison (vs_reasons s)) \<and>
      vs_reason_count s = int (length (vs_reasons s)) \<and>
      vs_reason_counts s = count_reasons (vs_reasons s) \<and>
      list_all (\<lambda>r. vr_code r \<noteq> []) (vs_reasons s))"

lemma get_payload [simp]:
  "get (validity_payload s) ''status'' = JStr (status_name (vs_status s))"
  "get (validity_payload s) ''reasons'' = JList (map (\<lambda>r. JObj (reason_payload r)) (vs_reasons s))"
  "get (validity_payload s) ''is_valid'' = JBool (vs_is_valid s)"
  "get (validity_payload s) ''can_compare'' = JBool (vs_can_compare s)"
  "get (validity_payload s) ''reason_count'' = JInt (vs_reason_count s)"
  "get (validity_payload s) ''reason_counts'' =
     JObj (map (\<lambda>kv. (fst kv, JInt (snd kv))) (vs_reason_counts s))"
  "has_key (validity_payload s) ''is_valid''" "has_key (validity_payload s) ''can_compare''"
  "has_key (validity_payload s) ''reason_count''" "has_key (validity_payload s) ''reason_counts''"
  by (simp_all add: validity_payload_def get_def has_key_def)

lemma status_value_name [simp]: "status_value (JStr (status_name t)) path = Inr t"
  by (cases t) (simp_all add: status_value_def VALIDITY_STATUSES_def)

lemma reason_from_payload_inverse:
  "vr_code r \<noteq> [] \<Longrightarrow> reason_from_payload i (JObj (reason_payload r)) = Inr r"
  by (cases r) (simp add: reason_from_payload_def reason_payload_def Let_def string_field_def get_def
      get_default_def)

lemma reasons_from_payload_inverse:
  "list_all (\<lambda>r. vr_code r \<noteq> []) rs \<Longrightarrow>
     mapiE reason_from_payload i (map (\<lambda>r. JObj (reason_payload r)) rs) = Inr rs"
  by (induction rs arbitrary: i) (simp_all add: reason_from_payload_inverse)

lemma dict_eq_refl: "wf_obj d \<Longrightarrow> dict_eq d d"
  by (auto simp: dict_eq_def list_all_iff wf_obj_def)

lemma count_reasons_keys: "kv \<in> set (count_reasons reasons) \<Longrightarrow>
    0 < snd kv \<and> (\<exists>t. fst kv = status_name t)"
proof -
  have step: "\<forall>kv \<in> set (foldl (\<lambda>d r. counter_add d (status_name (vr_status r)) 1) d rs).
      0 < snd kv \<and> (\<exists>t. fst kv = status_name t)"
    if "\<forall>kv \<in> set d. 0 < snd kv \<and> (\<exists>t. fst kv = status_name t)" for d and rs :: "validity_reason list"
    using that
  proof (induction rs arbitrary: d)
    case (Cons r rs)
    have "0 \<le> counter_get d k" for k
      using Cons.prems by (auto simp: counter_get_def split: option.splits dest!: map_of_SomeD)
    then have pos: "0 < counter_get d k + 1" for k by (simp add: add_nonneg_pos)
    have sub: "set (counter_add d k n) \<subseteq> insert (k, counter_get d k + n) (set d)" for k n
      unfolding counter_add_def by (rule set_update_subset)
    have "0 < snd kv \<and> (\<exists>t. fst kv = status_name t)"
      if "kv \<in> set (counter_add d (status_name (vr_status r)) 1)" for kv
    proof -
      from that sub have "kv = (status_name (vr_status r), counter_get d (status_name (vr_status r)) + 1)
          \<or> kv \<in> set d"
        by blast
      then show ?thesis using pos Cons.prems by (elim disjE) auto
    qed
    then show ?case unfolding foldl.simps by (intro Cons.IH) blast
  qed simp
  show "kv \<in> set (count_reasons reasons) \<Longrightarrow> ?thesis"
    using step [of "[]" reasons] unfolding count_reasons_def by simp
qed

lemma check_reason_count_inverse:
  "kv \<in> set (count_reasons reasons) \<Longrightarrow> check_reason_count (fst kv, JInt (snd kv)) = Inr kv"
  using count_reasons_keys [of kv reasons] by (auto simp: check_reason_count_def)

lemma validate_own_counts:
  assumes "vs_reason_count s = int (length (vs_reasons s))" "vs_reason_counts s = count_reasons (vs_reasons s)"
  shows "validate_reason_counts (validity_payload s) (vs_reasons s) (count_reasons (vs_reasons s)) = Inr ()"
proof -
  let ?counts = "count_reasons (vs_reasons s)"
  have "mapE check_reason_count (map (\<lambda>kv. (fst kv, JInt (snd kv))) ?counts) = Inr (map id ?counts)"
    unfolding mapE_map by (rule mapE_Inr) (simp add: check_reason_count_inverse)
  moreover have "filter (\<lambda>kv. snd kv \<noteq> 0) ?counts = ?counts"
    using count_reasons_keys by (force intro: filter_True)
  ultimately show ?thesis
    using assms by (simp add: validate_reason_counts_def dict_eq_refl)
qed

lemma consistent_round_trip:
  assumes "consistent_summary s"
  shows "validity_summary_from_payload (validity_payload s) = Inr s"
  using assms validate_own_counts [of s]
  by (cases s) (auto simp: consistent_summary_def validity_summary_from_payload_def Let_def
      reasons_from_payload_inverse bool_field_def)

subsection \<open>Every summary the package builds is consistent\<close>

definition coded :: "validity_reason list \<Rightarrow> bool" where
  "coded reasons = list_all (\<lambda>r. vr_code r \<noteq> []) reasons"

lemma coded_simps [simp]:
  "coded []" "coded (rs @ qs) \<longleftrightarrow> coded rs \<and> coded qs" "coded (r # rs) \<longleftrightarrow> vr_code r \<noteq> [] \<and> coded rs"
  by (simp_all add: coded_def)

lemma coded_concat:
  "mapE f xs = Inr found \<Longrightarrow> (\<And>x rs. f x = Inr rs \<Longrightarrow> coded rs) \<Longrightarrow> coded (concat found)"
  by (induction xs arbitrary: found) (auto simp: bindE_ok)

lemma coded_if [simp]: "coded (if b then rs else qs) \<longleftrightarrow> (if b then coded rs else coded qs)"
  by simp

lemma vr_code_invalid [simp]: "vr_code (invalid c m row) = c"
  by (simp add: invalid_def)

lemma coded_row_reasons: "row_reasons suite row = Inr rs \<Longrightarrow> coded rs"
proof -
  have missing: "coded (missing_proxy_counter_reasons row scheme a b c)" for scheme a b c
    by (simp add: missing_proxy_counter_reasons_def)
  have counters: "coded (proxy_counter_reasons row n a b c d)" for n a b c d
    unfolding proxy_counter_reasons_def Let_def by (simp add: missing)
  have proxy: "proxy_specific_reasons suite row = Inr rs \<Longrightarrow> coded rs" for rs
    by (cases "suite = PROXY_CONNECT_SUITE") (auto simp: proxy_specific_reasons_def bindE_ok counters)
  have compatibility: "compatibility_failure_reasons suite row = Inr rs \<Longrightarrow> coded rs" for rs
    unfolding compatibility_failure_reasons_def Let_def by (auto simp: bindE_ok)
  have errors: "error_reasons suite row = Inr rs \<Longrightarrow> coded rs" for rs
    unfolding error_reasons_def by (auto simp: bindE_ok dest: compatibility)
  have zero: "zero_primary_metric_reasons suite row = Inr rs \<Longrightarrow> coded rs" for rs
    unfolding zero_primary_metric_reasons_def by (auto simp: bindE_ok split: if_splits)
  have one: "variation_reason row f = Inr rs \<Longrightarrow> coded rs" for f rs
    unfolding variation_reason_def by (auto simp: bindE_ok split: option.splits)
  have variation: "variation_reasons row = Inr rs \<Longrightarrow> coded rs" for rs
    unfolding variation_reasons_def by (auto simp: bindE_ok dest: coded_concat [OF _ one])
  have recovery: "resource_recovery_reasons suite row = Inr rs \<Longrightarrow> coded rs" for rs
    by (cases "suite = RESOURCE_BACKPRESSURE_SUITE") (auto simp: resource_recovery_reasons_def bindE_ok)
  show "row_reasons suite row = Inr rs \<Longrightarrow> coded rs"
    by (auto simp: row_reasons_def bindE_ok dest: proxy errors zero variation recovery)
qed

lemma coded_child_reasons: "child_process_reasons metadata = Inr rs \<Longrightarrow> coded rs"
proof -
  have provenance: "child_provenance_reasons metadata child = Inr rs \<Longrightarrow> coded rs" for child rs
    by (auto simp: child_provenance_reasons_def bindE_ok split: if_splits)
  have "child_reasons metadata item = Inr rs \<Longrightarrow> coded rs" for item rs
    by (auto simp: child_reasons_def bindE_ok dest: provenance split: json.splits if_splits)
  then show "child_process_reasons metadata = Inr rs \<Longrightarrow> coded rs"
    by (auto simp: child_process_reasons_def bindE_ok elim!: coded_concat split: json.splits)
qed

lemma coded_pid_reuse: "coded (pid_reuse_reasons cases)"
proof -
  have "coded (pid_reuse_steps seen steps)" for seen steps
    by (induction seen steps rule: pid_reuse_steps.induct) (auto simp: invalid_def split: option.splits)
  then show ?thesis by (simp add: pid_reuse_reasons_def)
qed

lemma coded_case_reasons: "case_reasons c = Inr rs \<Longrightarrow> coded rs"
proof -
  have control: "control_reasons c controls name = Inr rs \<Longrightarrow> coded rs" for controls name rs
    unfolding control_reasons_def Let_def
    by (cases "get controls name"; cases "name = ''held_tail''") (auto simp: bindE_ok)
  show "case_reasons c = Inr rs \<Longrightarrow> coded rs"
    unfolding case_reasons_def Let_def
    by (cases "get c ''controls''") (auto simp: bindE_ok dest: coded_concat [OF _ control])
qed

lemma coded_plan_reasons: "plan_case_reasons lifecycle = Inr rs \<Longrightarrow> coded rs"
proof -
  have item: "(case item of JObj c \<Rightarrow> case_reasons c
      | _ \<Rightarrow> Inr [invalid ''lifecycle_case_invalid'' ''Lifecycle process diagnostics are malformed.'' []]) = Inr rs
      \<Longrightarrow> coded rs" for item rs
    by (cases item) (auto dest: coded_case_reasons)
  show "plan_case_reasons lifecycle = Inr rs \<Longrightarrow> coded rs"
    unfolding plan_case_reasons_def Let_def
    by (auto simp: bindE_ok coded_pid_reuse dest: coded_concat [OF _ item])
qed

lemma coded_aggregate_reasons: "aggregate_reasons rows = Inr rs \<Longrightarrow> coded rs"
proof -
  have variation: "lifecycle_variation_reasons row f = Inr rs \<Longrightarrow> coded rs" for row f rs
    by (auto simp: lifecycle_variation_reasons_def bindE_ok split: option.splits if_splits)
  have "aggregate_row_reasons row = Inr rs \<Longrightarrow> coded rs" for row rs
    unfolding aggregate_row_reasons_def Let_def
    by (auto simp: bindE_ok dest: variation coded_concat [OF _ variation] split: if_splits)
  then show "aggregate_reasons rows = Inr rs \<Longrightarrow> coded rs"
    by (auto simp: aggregate_reasons_def bindE_ok elim!: coded_concat)
qed

lemma coded_lifecycle_reasons: "lifecycle_report_reasons metadata rows = Inr rs \<Longrightarrow> coded rs"
  by (auto simp: lifecycle_report_reasons_def bindE_ok invalid_def split: if_splits json.splits
      dest!: coded_plan_reasons coded_aggregate_reasons)

lemma vr_code_reason [simp]: "vr_code (reason s c m row) = c"
  by (simp add: reason_def)

lemma coded_bind:
  "bindE m f = Inr rs \<Longrightarrow> (\<And>x. m = Inr x \<Longrightarrow> f x = Inr rs \<Longrightarrow> coded rs) \<Longrightarrow> coded rs"
  by (auto simp: bindE_ok)

lemma coded_Inr: "Inr xs = (Inr rs :: validity_reason list result) \<Longrightarrow> coded xs \<Longrightarrow> coded rs"
  by simp

lemmas coded_facts = coded_simps coded_if vr_code_reason list.distinct if_cancel simp_thms

lemma coded_attribution_reasons: "attribution_report_reasons sha256 metadata rows = Inr rs \<Longrightarrow> coded rs"
proof -
  have fingerprint: "coded (fingerprint_reasons sha256 v)" for v
    by (simp add: fingerprint_reasons_def Let_def)
  have cpu: "cpu_reasons row role = Inr rs \<Longrightarrow> coded rs" for row role rs
    by (auto simp: cpu_reasons_def Let_def bindE_ok)
  have evidence: "resource_evidence_reasons row = Inr rs \<Longrightarrow> coded rs" for row rs
    unfolding resource_evidence_reasons_def Let_def
    by (auto simp: bindE_ok dest: cpu)
  have row: "attribution_row_reasons sha256 row = Inr rs \<Longrightarrow> coded rs" for row rs
    unfolding attribution_row_reasons_def Let_def
    by (elim coded_bind, drule evidence, erule coded_Inr) (simp only: coded_facts fingerprint)
  show "attribution_report_reasons sha256 metadata rows = Inr rs \<Longrightarrow> coded rs"
    unfolding attribution_report_reasons_def Let_def
    by (cases "uses_streaming_profile metadata rows ''async-bytes''"; simp only: if_False if_True not_True_eq_False not_False_eq_True)
      (elim coded_bind, drule coded_plan_reasons, drule coded_aggregate_reasons,
       drule coded_concat [OF _ row], assumption, erule coded_Inr, simp only: coded_facts fingerprint,
       erule coded_Inr, simp only: coded_facts)
qed

lemma combined_status_self:
  "combined_status (combined_status (ss @ ts) # ts) = combined_status (ss @ ts)"
  unfolding status_order.combine_nest by (rule status_order.combine_set) auto

lemma combined_status_same: "combined_status (combined_status ss # ss) = combined_status ss"
  using combined_status_self [of "[]" ss] by simp

lemma classify_consistent:
  assumes "classify_report_validity sha256 suite rows metadata = Inr s"
  shows "consistent_summary s"
proof -
  from assms obtain children attribution lifecycle found where
      parts: "child_process_reasons metadata = Inr children"
        "attribution_report_reasons sha256 metadata rows = Inr attribution"
        "lifecycle_report_reasons metadata rows = Inr lifecycle"
        "mapE (row_reasons suite) rows = Inr found"
      and s: "vs_reasons s = children @ streaming_profile_reasons suite metadata rows @
          attribution @ lifecycle @ concat found"
        "vs_status s = combined_status (map vr_status (vs_reasons s))"
        "vs_is_valid s = (vs_status s = Valid)"
        "vs_can_compare s = reasons_allow_comparison (vs_reasons s)"
        "vs_reason_count s = int (length (vs_reasons s))"
        "vs_reason_counts s = count_reasons (vs_reasons s)"
    by (auto simp: classify_report_validity_def bindE_ok Let_def)
  have "coded (streaming_profile_reasons suite metadata rows)"
    by (auto simp: streaming_profile_reasons_def Let_def mismatch_reason_def split: option.splits)
  then have "coded (vs_reasons s)"
    unfolding s(1) using parts coded_child_reasons coded_attribution_reasons coded_lifecycle_reasons
      coded_concat [OF _ coded_row_reasons] by auto
  then show ?thesis
    using s(2-6) reasons_allow_status [of "vs_reasons s"] combined_status_same [of "map vr_status (vs_reasons s)"]
    unfolding consistent_summary_def coded_def by auto
qed

lemma foldl_add_reason_all:
  "list_all P acc \<Longrightarrow> list_all P rs \<Longrightarrow> list_all P (foldl add_reason acc rs)"
  by (induction rs arbitrary: acc) (auto simp: add_reason_def)

lemma foldl_add_reasons_all:
  "list_all P acc \<Longrightarrow> list_all (\<lambda>s. list_all P (vs_reasons s)) items \<Longrightarrow>
     list_all P (foldl (\<lambda>acc s. foldl add_reason acc (vs_reasons s)) acc items)"
  by (induction items arbitrary: acc) (auto simp: foldl_add_reason_all)

lemma combine_consistent:
  assumes "list_all consistent_summary items"
  shows "consistent_summary (combine_validity_summaries items)"
proof -
  let ?reasons = "foldl (\<lambda>acc s. foldl add_reason acc (vs_reasons s)) [] items"
  have "list_all (\<lambda>s. list_all (\<lambda>r. vr_code r \<noteq> []) (vs_reasons s)) items"
    using assms by (auto simp: list_all_iff consistent_summary_def)
  then have "list_all (\<lambda>r. vr_code r \<noteq> []) ?reasons" by (intro foldl_add_reasons_all) simp_all
  then show ?thesis
    by (auto simp: combine_validity_summaries_def consistent_summary_def Let_def combined_status_self)
qed

lemma from_payload_consistent:
  assumes "validity_summary_from_payload payload = Inr s"
  shows "consistent_summary s"
proof -
  have code: "reason_from_payload i v = Inr r \<Longrightarrow> vr_code r \<noteq> []" for i v r
  proof (cases v)
    case (JObj d)
    then show "reason_from_payload i v = Inr r \<Longrightarrow> vr_code r \<noteq> []"
      by (cases "get_default d ''row'' (JObj [])")
        (auto simp: reason_from_payload_def Let_def bindE_ok split: if_splits)
  qed (simp_all add: reason_from_payload_def)
  from assms obtain raw reasons declared b c where
      reasons: "mapiE reason_from_payload 0 raw = Inr reasons"
      and s: "vs_reasons s = reasons" "vs_status s = combined_status (declared # map vr_status reasons)"
        "vs_is_valid s \<longrightarrow> vs_status s = Valid"
        "vs_can_compare s \<longrightarrow> vs_status s \<in> {Valid, Warning} \<and> reasons_allow_comparison reasons"
        "vs_reason_count s = int (length reasons)" "vs_reason_counts s = count_reasons reasons"
    by (cases "get payload ''reasons''")
      (auto simp: validity_summary_from_payload_def bindE_ok Let_def)
  have "list_all (\<lambda>r. vr_code r \<noteq> []) reasons"
    using reasons code by (fastforce simp: mapiE_ok list_all_length)
  then show ?thesis
    using s combined_status_self [of "[declared]"] by (simp add: consistent_summary_def)
qed

subsection \<open>Properties\<close>

lemma recorded_consistent: "recorded_validity v path = Inr r \<Longrightarrow> consistent_summary r"
  by (cases v) (auto simp: recorded_validity_def dest: from_payload_consistent split: sum.splits if_splits)

lemma metadata_consistent:
  assumes "validity_summary_from_metadata sha256 metadata suite rows = Inr s"
  shows "consistent_summary s"
proof -
  from assms obtain current found where
      current: "classify_report_validity sha256 suite rows metadata = Inr current"
      and found: "mapE (\<lambda>(path, record). recorded_validity (get record ''validity'') path)
         (filter (\<lambda>(path, record). has_key record ''validity'')
           ((''metadata'', metadata) # child_records metadata)) = Inr found"
      and s: "s = (if found = [] then current else combine_validity_summaries (current # found))"
    unfolding validity_summary_from_metadata_def by (auto simp only: bindE_ok sum.inject)
  have "list_all consistent_summary found"
    using mapE_image [OF found] recorded_consistent by (fastforce simp: list_all_iff)
  with s current show "consistent_summary s"
    using classify_consistent combine_consistent [of "current # found"] by (auto split: if_splits)
qed

text \<open>
  C12: the validity a report is given survives publication: whatever summary the package settles
  on for a report (classified now, or combined with the recorded summaries of the report and its
  children), writing it as JSON and reading it back gives the same summary, field for field.\<close>

theorem validity_round_trip:
  assumes "validity_summary_from_metadata sha256 metadata suite rows = Inr s"
  shows "validity_summary_from_payload (validity_payload s) = Inr s"
  by (intro consistent_round_trip metadata_consistent [OF assms])

definition failed_child_metadata :: obj where
  "failed_child_metadata =
     [(''isolation'', JObj [(''children'', JList [JObj [(''sequence'', JInt 1), (''returncode'', JInt 2)]])])]"

lemma validity_round_trip_witness:
  "\<exists>s. validity_summary_from_metadata id failed_child_metadata REQUESTS_SUITE [] = Inr s \<and>
     vs_status s = Invalid \<and> validity_summary_from_payload (validity_payload s) = Inr s"
proof -
  have "case validity_summary_from_metadata id failed_child_metadata REQUESTS_SUITE [] of
      Inl _ \<Rightarrow> False | Inr s \<Rightarrow> vs_status s = Invalid"
    by code_simp
  then obtain s where s: "validity_summary_from_metadata id failed_child_metadata REQUESTS_SUITE [] = Inr s"
      "vs_status s = Invalid"
    by (auto split: sum.splits)
  then show ?thesis using validity_round_trip [OF s(1)] by blast
qed

text \<open>A reason is kept by a list when it, or one equal to it, is in the list.\<close>

definition kept :: "validity_reason \<Rightarrow> validity_reason list \<Rightarrow> bool" where
  "kept r rs \<longleftrightarrow> r \<in> set rs \<or> list_ex (reason_eq r) rs"

definition collect_reasons :: "validity_reason list \<Rightarrow> validity_summary list \<Rightarrow> validity_reason list" where
  "collect_reasons acc items = foldl (\<lambda>acc s. foldl add_reason acc (vs_reasons s)) acc items"

lemma collect_Nil [simp]: "collect_reasons acc [] = acc"
  by (simp add: collect_reasons_def)

lemma collect_Cons [simp]:
  "collect_reasons acc (s # items) = collect_reasons (foldl add_reason acc (vs_reasons s)) items"
  by (simp add: collect_reasons_def)

lemma kept_add: "kept r acc \<or> r = q \<Longrightarrow> kept r (add_reason acc q)"
  by (auto simp: kept_def add_reason_def)

lemma kept_adds: "kept r acc \<or> r \<in> set rs \<Longrightarrow> kept r (foldl add_reason acc rs)"
proof (induction rs arbitrary: acc)
  case (Cons q rs)
  then have "kept r (add_reason acc q) \<or> r \<in> set rs" using kept_add by auto
  then show ?case unfolding foldl.simps by (rule Cons.IH)
qed simp

lemma kept_collect:
  "kept r acc \<or> (\<exists>s \<in> set items. r \<in> set (vs_reasons s)) \<Longrightarrow> kept r (collect_reasons acc items)"
proof (induction items arbitrary: acc)
  case (Cons t items)
  then have "kept r (foldl add_reason acc (vs_reasons t)) \<or> (\<exists>s \<in> set items. r \<in> set (vs_reasons s))"
    using kept_adds [of r acc "vs_reasons t"] by auto
  then show ?case unfolding collect_Cons by (rule Cons.IH)
qed simp

lemma collect_subset:
  "set (collect_reasons acc items) \<subseteq> set acc \<union> (\<Union>s \<in> set items. set (vs_reasons s))"
proof (induction items arbitrary: acc)
  case (Cons t items)
  have one: "set (add_reason acc q) \<subseteq> insert q (set acc)" for acc q by (auto simp: add_reason_def)
  have "set (foldl add_reason acc rs) \<subseteq> set acc \<union> set rs" for acc rs
  proof (induction rs arbitrary: acc)
    case (Cons q rs)
    show ?case using Cons.IH [of "add_reason acc q"] one [of acc q] by auto
  qed simp
  then show ?case using Cons.IH [of "foldl add_reason acc (vs_reasons t)"] by force
qed simp

lemma combine_reasons: "vs_reasons (combine_validity_summaries items) = collect_reasons [] items"
  by (simp add: combine_validity_summaries_def Let_def collect_reasons_def)

text \<open>A property of status and code holds of the kept reasons as of the originals.\<close>

lemma kept_transfer:
  assumes "\<And>r q. vr_status r = vr_status q \<Longrightarrow> vr_code r = vr_code q \<Longrightarrow> P r = P q"
  shows "list_all P (collect_reasons [] items) \<longleftrightarrow> list_all (\<lambda>s. list_all P (vs_reasons s)) items"
proof
  assume all: "list_all P (collect_reasons [] items)"
  have "P r" if "s \<in> set items" "r \<in> set (vs_reasons s)" for s r
  proof -
    have "kept r (collect_reasons [] items)" using that by (auto intro: kept_collect)
    then obtain q where q: "q \<in> set (collect_reasons [] items)" "vr_status r = vr_status q" "vr_code r = vr_code q"
      unfolding kept_def list_ex_iff reason_eq_def by blast
    then have "P q" using all by (simp add: list_all_iff)
    with assms [OF q(2,3)] show ?thesis by simp
  qed
  then show "list_all (\<lambda>s. list_all P (vs_reasons s)) items" by (simp add: list_all_iff)
next
  assume "list_all (\<lambda>s. list_all P (vs_reasons s)) items"
  then show "list_all P (collect_reasons [] items)"
    using collect_subset [of "[]" items] by (auto simp: list_all_iff)
qed

lemma combine_bounds:
  assumes "s \<in> set items"
  shows "vs_status s \<le> vs_status (combine_validity_summaries items) \<and>
    (vs_is_valid s \<or> \<not> vs_is_valid (combine_validity_summaries items)) \<and>
    (vs_can_compare s \<or> \<not> vs_can_compare (combine_validity_summaries items))"
proof -
  have "severity (vs_status s) \<le> severity (combined_status (map vs_status items @ ss))" for ss
    by (rule status_order.combine_upper) (simp add: assms)
  then show ?thesis
    using assms by (auto simp: less_eq_validity_status_def combine_validity_summaries_def Let_def list_all_iff)
qed

text \<open>
  C9: combining summaries retains every restriction: the combined status is at least as severe as
  that of each summary, the combination is valid or comparable only if each summary is, and each
  reason of each summary is kept, itself or as an equal reason.\<close>

theorem combine_conservative:
  assumes "s \<in> set items"
  shows "vs_status s \<le> vs_status (combine_validity_summaries items) \<and>
    (vs_is_valid s \<or> \<not> vs_is_valid (combine_validity_summaries items)) \<and>
    (vs_can_compare s \<or> \<not> vs_can_compare (combine_validity_summaries items)) \<and>
    list_all (\<lambda>r. r \<in> set (vs_reasons (combine_validity_summaries items)) \<or>
      list_ex (reason_eq r) (vs_reasons (combine_validity_summaries items))) (vs_reasons s)"
proof -
  have "kept r (collect_reasons [] items)" if "r \<in> set (vs_reasons s)" for r
    using that assms by (auto intro: kept_collect)
  then show ?thesis using combine_bounds [OF assms] unfolding combine_reasons kept_def by (simp add: list_all_iff)
qed

definition plain_summary :: "validity_status \<Rightarrow> validity_summary" where
  "plain_summary t =
     \<lparr>vs_status = t, vs_is_valid = (t = Valid), vs_can_compare = (t = Valid), vs_reason_count = 0,
      vs_reason_counts = [], vs_reasons = []\<rparr>"

lemma combine_conservative_witness:
  "vs_status (plain_summary Invalid) \<le>
     vs_status (combine_validity_summaries [plain_summary Valid, plain_summary Invalid])"
  using combine_conservative [of "plain_summary Invalid" "[plain_summary Valid, plain_summary Invalid]"]
  by simp

lemma combine_status:
  assumes "list_all consistent_summary items"
  shows "vs_status (combine_validity_summaries items) = combined_status (map vs_status items)"
proof -
  let ?top = "combined_status (map vs_status items)"
  have "severity (vr_status r) \<le> severity ?top" if "s \<in> set items" "r \<in> set (vs_reasons s)" for s r
  proof -
    have "combined_status (vs_status s # map vr_status (vs_reasons s)) = vs_status s"
      using assms that by (auto simp: list_all_iff consistent_summary_def)
    then have "severity (vr_status r) \<le> severity (vs_status s)"
      using status_order.combine_upper [of "vr_status r" "vs_status s # map vr_status (vs_reasons s)"] that
      by simp
    also have "\<dots> \<le> severity ?top" by (rule status_order.combine_upper) (simp add: that)
    finally show ?thesis .
  qed
  then have "severity t \<le> severity ?top" if "t \<in> set (map vs_status items @ map vr_status (collect_reasons [] items))" for t
    using that collect_subset [of "[]" items] status_order.combine_upper [of t "map vs_status items"] by auto
  then have "combined_status (map vs_status items @ map vr_status (collect_reasons [] items)) = ?top"
    by (intro status_order.combine_eqI) (auto intro: status_order.combine_upper)
  then show ?thesis
    by (simp add: combine_validity_summaries_def Let_def collect_reasons_def)
qed

lemma verdict_of_parts:
  assumes "list_all consistent_summary items"
  shows "vs_status (combine_validity_summaries items) = combined_status (map vs_status items) \<and>
    vs_is_valid (combine_validity_summaries items) = list_all vs_is_valid items \<and>
    vs_can_compare (combine_validity_summaries items) = list_all vs_can_compare items"
proof -
  note status = combine_status [OF assms]
  have valid: "vs_status (combine_validity_summaries items) = Valid" if "list_all vs_is_valid items"
    unfolding status status_order.combine_least_iff using that assms
    by (auto simp: list_all_iff consistent_summary_def)
  have compare: "vs_status (combine_validity_summaries items) \<in> {Valid, Warning}"
    if "list_all vs_can_compare items"
    unfolding status combined_allows using that assms by (auto simp: list_all_iff consistent_summary_def)
  have "reasons_allow_comparison (collect_reasons [] items)" if "list_all vs_can_compare items"
    unfolding reasons_allow_comparison_def using that assms
    by (subst kept_transfer) (auto simp: list_all_iff consistent_summary_def reasons_allow_comparison_def)
  with status valid compare show ?thesis
    by (auto simp: combine_validity_summaries_def Let_def collect_reasons_def)
qed

text \<open>
  C10: on summaries as the package builds them, combination is exactly the conjunction of the
  verdicts: the status is the most severe of the given statuses, and the combination is valid, or
  comparable, if and only if every given summary is; so order and repetition do not matter.\<close>

theorem combine_verdict:
  assumes "list_all consistent_summary items"
  shows "vs_status (combine_validity_summaries items) = combined_status (map vs_status items) \<and>
    vs_is_valid (combine_validity_summaries items) = list_all vs_is_valid items \<and>
    vs_can_compare (combine_validity_summaries items) = list_all vs_can_compare items"
  by (rule verdict_of_parts [OF assms])

lemma combine_verdict_witness:
  "vs_status (combine_validity_summaries [plain_summary Valid, plain_summary Invalid]) =
     combined_status [Valid, Invalid]"
proof -
  have "list_all consistent_summary [plain_summary Valid, plain_summary Invalid]" by code_simp
  from combine_verdict [OF this] show ?thesis by (simp add: plain_summary_def)
qed

text \<open>The classifiers never read the recorded validity of the metadata.\<close>

lemma envelope_ignores_validity:
  "research_envelope_profile (AList.update ''validity'' v metadata) rows = research_envelope_profile metadata rows"
  by (simp add: research_envelope_profile_def async_bytes_envelope_def)

lemma profile_ignores_validity:
  "uses_streaming_profile (AList.update ''validity'' v metadata) rows p = uses_streaming_profile metadata rows p"
  by (simp add: uses_streaming_profile_def envelope_ignores_validity)

lemmas weak_congs = if_weak_cong json.case_cong_weak option.case_cong_weak

lemma row_reference_update:
  assumes "k \<notin> set ROW_REFERENCE_FIELDS"
  shows "row_reference (AList.update k v row) = row_reference row"
  unfolding row_reference_def using assms by (intro map_cong filter_cong) auto

lemma classify_ignores_validity:
  "classify_report_validity sha256 suite rows (AList.update ''validity'' v metadata) =
     classify_report_validity sha256 suite rows metadata"
proof -
  have "child_provenance_reasons (AList.update ''validity'' v metadata) = child_provenance_reasons metadata"
    by (simp add: fun_eq_iff child_provenance_reasons_def)
  then have "child_reasons (AList.update ''validity'' v metadata) item = child_reasons metadata item" for item
    by (cases item) (simp_all add: child_reasons_def cong del: weak_congs)
  then have "child_reasons (AList.update ''validity'' v metadata) = child_reasons metadata"
    by (rule ext)
  then have children: "child_process_reasons (AList.update ''validity'' v metadata) = child_process_reasons metadata"
    by (simp add: child_process_reasons_def cong del: weak_congs)
  have profile: "streaming_profile_reasons suite (AList.update ''validity'' v metadata) rows =
      streaming_profile_reasons suite metadata rows"
    by (simp add: streaming_profile_reasons_def envelope_ignores_validity Let_def cong del: weak_congs)
  have lifecycle: "lifecycle_report_reasons (AList.update ''validity'' v metadata) rows =
      lifecycle_report_reasons metadata rows"
    by (simp add: lifecycle_report_reasons_def profile_ignores_validity cong del: weak_congs)
  have gets: "get (AList.update ''validity'' v metadata) ''lifecycle'' = get metadata ''lifecycle''"
      "get (AList.update ''validity'' v metadata) ''raw_evidence_validation'' = get metadata ''raw_evidence_validation''"
      "get (AList.update ''validity'' v metadata) ''schema_version'' = get metadata ''schema_version''"
      "get (AList.update ''validity'' v metadata) ''policy_version'' = get metadata ''policy_version''"
      "get (AList.update ''validity'' v metadata) ''research_provenance'' = get metadata ''research_provenance''"
      "get (AList.update ''validity'' v metadata) ''conditions'' = get metadata ''conditions''"
      "get (AList.update ''validity'' v metadata) ''condition_fingerprint'' = get metadata ''condition_fingerprint''"
    by simp_all
  have harness: "harness_fingerprint sha256 (AList.update ''validity'' v metadata) = harness_fingerprint sha256 metadata"
    unfolding harness_fingerprint_def gets ..
  have provenance: "provenance_unverified (AList.update ''validity'' v metadata) = provenance_unverified metadata"
    unfolding provenance_unverified_def gets ..
  have "''validity'' \<notin> set ROW_REFERENCE_FIELDS" by code_simp
  then have fingerprint: "fingerprint_reasons sha256 (AList.update ''validity'' v metadata) = fingerprint_reasons sha256 metadata"
    unfolding fingerprint_reasons_def reason_def gets by (simp add: row_reference_update)
  have "attribution_report_reasons sha256 (AList.update ''validity'' v metadata) rows =
      attribution_report_reasons sha256 metadata rows"
    unfolding attribution_report_reasons_def gets harness provenance fingerprint profile_ignores_validity ..
  then show ?thesis
    unfolding classify_report_validity_def children profile lifecycle by simp
qed

subsection \<open>The reader's verdict\<close>

text \<open>The recorded validities of the children of a report, as the reader reads them.\<close>

definition recorded_children :: "obj \<Rightarrow> validity_summary list result" where
  "recorded_children metadata =
     mapE (\<lambda>(path, record). recorded_validity (get record ''validity'') path)
       (filter (\<lambda>(path, record). has_key record ''validity'') (child_records metadata))"

lemma recorded_children_consistent:
  assumes "recorded_children metadata = Inr children"
  shows "list_all consistent_summary children"
  using mapE_image [OF assms [unfolded recorded_children_def]] recorded_consistent by (fastforce simp: list_all_iff)

lemma reader_verdict:
  assumes "classify_report_validity sha256 suite rows metadata = Inr s"
    and "get metadata ''validity'' = JObj (validity_payload t)" "consistent_summary t"
    and "recorded_children metadata = Inr children"
  shows "\<exists>c. validity_summary_from_metadata sha256 metadata suite rows = Inr c \<and>
    vs_status c = combined_status (map vs_status (s # t # children)) \<and>
    vs_is_valid c = list_all vs_is_valid (s # t # children) \<and>
    vs_can_compare c = list_all vs_can_compare (s # t # children)"
proof -
  have "has_key metadata ''validity''" using assms(2) get_not_null_has [of metadata "''validity''"] by simp
  moreover have "recorded_validity (get metadata ''validity'') ''metadata'' = Inr t"
    using consistent_round_trip [OF assms(3)] by (simp add: assms(2) recorded_validity_def)
  ultimately have "validity_summary_from_metadata sha256 metadata suite rows =
      Inr (combine_validity_summaries (s # t # children))"
    using assms(1,4) by (simp add: validity_summary_from_metadata_def recorded_children_def)
  then show ?thesis
    using verdict_of_parts [of "s # t # children"] classify_consistent [OF assms(1)] assms(3)
      recorded_children_consistent [OF assms(4)]
    by simp
qed

lemma combined_status_one: "combined_status [t] = t"
  using status_order.combine_in [of "[t]"] status_order.combine_upper [of t "[t]"] by (auto intro: severity_inj)

text \<open>
  C11: publishing and loading agree: the metadata a writer publishes carries the summary that the
  reader computes again for the same rows, and the reader's verdict is that summary together with what
  the children named in the metadata have recorded of themselves, and nothing else: the worst of the
  statuses, valid or comparable exactly when the summary and every recorded child are. For a report
  without recorded children it is the published verdict itself. (A recorded child that does not read
  back makes the reader fail; the hypothesis excludes that.)\<close>

theorem published_validity_stable:
  assumes "metadata_with_validity sha256 provenance metadata rows = Inr published"
    and "get published ''suite'' = JStr suite"
    and "recorded_children published = Inr children"
  shows "\<exists>s c. classify_report_validity sha256 suite rows published = Inr s \<and>
    get published ''validity'' = JObj (validity_payload s) \<and>
    validity_summary_from_metadata sha256 published suite rows = Inr c \<and>
    vs_status c = combined_status (vs_status s # map vs_status children) \<and>
    vs_is_valid c = (vs_is_valid s \<and> list_all vs_is_valid children) \<and>
    vs_can_compare c = (vs_can_compare s \<and> list_all vs_can_compare children) \<and>
    (if children = [] then vs_status c = vs_status s else True)"
proof -
  from assms(1) obtain extended s where
      s: "classify_report_validity sha256 (py_str (get_default extended ''suite'' (JStr ''unknown''))) rows extended = Inr s"
      and published: "published = AList.update ''validity'' (JObj (validity_payload s)) extended"
    by (auto simp: metadata_with_validity_def Let_def bindE_ok)
  have "get_default extended ''suite'' (JStr ''unknown'') = JStr suite"
    using assms(2) published by (auto simp: get_def get_default_def split: option.splits)
  with s published have classified: "classify_report_validity sha256 suite rows published = Inr s"
    by (simp add: classify_ignores_validity)
  have own: "get published ''validity'' = JObj (validity_payload s)" by (simp add: published)
  have "combined_status (map vs_status (s # s # children)) = combined_status (vs_status s # map vs_status children)"
    by (rule status_order.combine_set) simp
  then show ?thesis
    using combined_status_one [of "vs_status s"] reader_verdict [OF classified own classify_consistent [OF classified] assms(3)] classified own by auto
qed

text \<open>A published report with one recorded child, whose process failed: the reader's verdict is the child's.\<close>

definition recording_metadata :: obj where
  "recording_metadata =
     [(''suite'', JStr REQUESTS_SUITE),
      (''isolation'', JObj [(''children'', JList [JObj [(''sequence'', JInt 1), (''returncode'', JInt 0),
         (''report_path'', JStr ''a.json''), (''validity'', JObj (validity_payload (plain_summary Invalid)))]])])]"

lemma published_validity_stable_witness:
  "\<exists>published s c. metadata_with_validity id None recording_metadata [clean_row] = Inr published \<and>
     get published ''validity'' = JObj (validity_payload s) \<and>
     validity_summary_from_metadata id published REQUESTS_SUITE [clean_row] = Inr c \<and> vs_status c = Invalid"
proof -
  have "case metadata_with_validity id None recording_metadata [clean_row] of
      Inl _ \<Rightarrow> False
    | Inr m \<Rightarrow> get m ''suite'' = JStr REQUESTS_SUITE \<and> recorded_children m = Inr [plain_summary Invalid]"
    by code_simp
  then obtain published where m: "metadata_with_validity id None recording_metadata [clean_row] = Inr published"
      "get published ''suite'' = JStr REQUESTS_SUITE" "recorded_children published = Inr [plain_summary Invalid]"
    by (auto split: sum.splits)
  have "combined_status [t, Invalid] = Invalid" for t by (cases t) (simp_all add: combined_status_def)
  with published_validity_stable [OF m] m(1) show ?thesis by (auto simp: plain_summary_def)
qed

end
