(* ===== verification/Report_Decoding.thy ===== *)
theory Report_Decoding
  imports Report_Ordinary Report_Resources Measurement_Timing Validity_Summary
begin

text \<open>
  report_schema/decoding.py: the reader of a JSON report. It rejects non-finite numbers, settles
  the suite (declared, or inferred from the layout of legacy rows), migrates legacy rows, checks
  metadata, rows, resource coverage and recorded validity, and requires unique identities. The
  record \<open>decoded_report\<close> is \<^verbatim>\<open>DecodedReport\<close> of report_schema/models.py.
\<close>

record decoded_report =
  dr_suite :: string
  dr_metadata :: obj
  dr_aggregate_rows :: "obj list"
  dr_run_rows :: "obj list"

definition RESOURCE_METRIC_SCHEMA_VERSION :: int where "RESOURCE_METRIC_SCHEMA_VERSION = 2"

lemma foriE_cong [fundef_cong]:
  "xs = ys \<Longrightarrow> i = j \<Longrightarrow> (\<And>k x. x \<in> set ys \<Longrightarrow> f k x = g k x) \<Longrightarrow> foriE f i xs = foriE g j ys"
  by (induction xs arbitrary: i j ys) auto

subsection \<open>Finite numbers\<close>

fun validate_finite_json :: "json \<Rightarrow> string \<Rightarrow> unit result" where
  "validate_finite_json (JFloat x) path =
     raise_if (\<not> is_finite x) (ValueError (path @ '' must not contain a non-finite JSON number''))"
| "validate_finite_json (JObj d) path = forE (\<lambda>kv. validate_finite_json (snd kv) (field_path path (fst kv))) d"
| "validate_finite_json (JList xs) path = foriE (\<lambda>i x. validate_finite_json x (index_path path i)) 0 xs"
| "validate_finite_json v path = Inr ()"

subsection \<open>Suite and layout\<close>

definition row_layouts :: "obj \<Rightarrow> bool \<Rightarrow> string list" where
  "row_layouts row run =
     (let operations = (if run then ''operations_per_second'' else ''ops_s_median'');
          requests = (if run then ''ok_requests_per_second'' else ''ok_req_s_median'');
          streams = (if run then ''ok_streams_per_second'' else ''ok_streams_s_median'');
          signatures =
            [(''requests'', has_key row ''scenario'' \<and> has_key row requests),
             (''client-creation'', has_key row ''client_count'' \<and> has_key row operations),
             (''resource-backpressure'', has_key row ''max_pending_requests''),
             (''one-upstream'', has_key row ''profile'' \<and> has_key row ''case'' \<and> has_key row requests),
             (''request-builder'', has_key row ''kind'' \<and> has_key row operations),
             (''response-streaming'', has_key row streams \<or> has_key row ''verified_bytes_s_median''),
             (''proxy-connect'', has_key row ''target_scheme'' \<and> has_key row ''config'')]
      in map fst (filter snd signatures))"

definition legacy_row_suite :: "obj \<Rightarrow> string result" where
  "legacy_row_suite row =
     (case row_layouts row False of
        [suite] \<Rightarrow> Inr suite
      | _ \<Rightarrow> Inl (ValueError ''metadata.suite cannot be inferred from an unknown or ambiguous legacy row''))"

definition report_suite :: "obj \<Rightarrow> obj list \<Rightarrow> string result" where
  "report_suite metadata rows =
     (if has_key metadata ''suite'' then
        bindE (require_string (get metadata ''suite'') ''metadata.suite'') (\<lambda>suite.
          if suite \<notin> set REPORT_SUITES
          then Inl (ValueError (''metadata.suite is unsupported: '' @ str_repr suite))
          else Inr suite)
      else
        bindE (mapE legacy_row_suite rows) (\<lambda>inferred.
          case remdups inferred of
            [suite] \<Rightarrow> Inr suite
          | _ \<Rightarrow> Inl (ValueError
              ''metadata.suite is required for empty, mixed or ambiguous legacy layouts'')))"

definition validate_layout_row :: "string \<Rightarrow> string \<Rightarrow> nat \<Rightarrow> obj \<Rightarrow> unit result" where
  "validate_layout_row suite path index row =
     (let layout = (if suite = ''compressed-response'' then ''requests'' else suite)
      in if has_key row ''schema_version'' then
           Inl (ValueError (index_path path index @ ''.schema_version is reserved for async-bytes rows''))
         else
           let markers = row_layouts row False @ (if path = ''runs'' then row_layouts row True else []);
               foreign = sort (remdups (filter (\<lambda>candidate. candidate \<noteq> layout) markers))
           in raise_if (foreign \<noteq> [])
                (ValueError (index_path path index @ '' contains incompatible layout markers for '' @
                   suite @ '': '' @ join '', '' foreign)))"

definition validate_layout_markers :: "string \<Rightarrow> obj list \<Rightarrow> string \<Rightarrow> unit result" where
  "validate_layout_markers suite rows path = foriE (validate_layout_row suite path) 0 rows"

text \<open>A list or dictionary cannot be tested for membership in a set: \<^verbatim>\<open>TypeError\<close>.\<close>

definition migrate_connections :: "string \<Rightarrow> nat \<Rightarrow> obj \<Rightarrow> obj result" where
  "migrate_connections path index row =
     (if has_key row ''max_connections'' then
        bindE (require_integer (get row ''max_connections'') (index_path path index @ ''.max_connections'') 0) (\<lambda>old.
          if has_key row ''request_limit'' \<and> \<not> py_eq (get row ''request_limit'') (JInt old)
          then Inl (ValueError (index_path path index @ ''.request_limit disagrees with max_connections''))
          else Inr (setdefault ''request_limit'' (JInt old) row))
      else Inr row)"

definition migrate_legacy_row :: "string \<Rightarrow> string \<Rightarrow> nat \<Rightarrow> obj \<Rightarrow> obj result" where
  "migrate_legacy_row suite path index row =
     bindE (migrate_connections path index row) (\<lambda>row.
       if suite \<noteq> ''response-streaming'' then Inr row
       else if is_list (get row ''profile'') \<or> is_dict (get row ''profile'')
       then Inl (TypeError ''unhashable type'')
       else Inr (if get row ''profile'' \<notin> {JStr ''lifecycle'', JStr ''async-bytes''}
                 then setdefault ''read'' (JStr ''bytes'') row else row))"

definition migrate_legacy_rows :: "string \<Rightarrow> obj list \<Rightarrow> string \<Rightarrow> obj list result" where
  "migrate_legacy_rows suite rows path = mapiE (migrate_legacy_row suite path) 0 rows"

subsection \<open>Metadata\<close>

definition validate_metric_version :: "obj \<Rightarrow> string \<Rightarrow> string \<times> int \<Rightarrow> unit result" where
  "validate_metric_version metadata suite ks =
     (if has_key metadata (fst ks) then
        bindE (require_integer (get metadata (fst ks)) (field_path ''metadata'' (fst ks)) 1) (\<lambda>version.
          raise_if (version \<noteq> snd ks \<or>
              (fst ks = ''streaming_metric_schema_version'' \<and> suite \<noteq> ''response-streaming''))
            (ValueError (''metadata.'' @ fst ks @ '' is unsupported for '' @ suite @ '': '' @ int_str version)))
      else Inr ())"

definition validate_versions :: "obj \<Rightarrow> string \<Rightarrow> unit result" where
  "validate_versions metadata suite =
     all_ok
       [(if has_key metadata ''report_schema_version'' then
           bindE (require_integer (get metadata ''report_schema_version'') ''metadata.report_schema_version'' 1)
             (\<lambda>version. raise_if (version \<noteq> REPORT_SCHEMA_VERSION)
                (ValueError (''metadata.report_schema_version is unsupported: '' @ int_str version)))
         else Inr ()),
        forE (validate_metric_version metadata suite)
          [(''resource_metric_schema_version'', RESOURCE_METRIC_SCHEMA_VERSION),
           (''streaming_metric_schema_version'', 2)],
        raise_if (has_key metadata ''schema_version'' \<and>
            (suite \<noteq> ''response-streaming'' \<or> \<not> uses_streaming_profile metadata [] ''async-bytes''))
          (ValueError ''metadata.schema_version is reserved for async-bytes reports'')]"

definition validate_metadata_objects :: "obj \<Rightarrow> unit result" where
  "validate_metadata_objects metadata =
     all_ok
       [forE (when_present metadata (\<lambda>key. check (require_string (get metadata key) (field_path ''metadata'' key))))
          [''timestamp'', ''python'', ''platform''],
        forE (when_present metadata (\<lambda>key.
            bindE (require_object (get metadata key) (field_path ''metadata'' key)) (\<lambda>record.
              if key = ''package_versions''
              then forE (\<lambda>kv. check (require_string (snd kv)
                     (field_path ''metadata.package_versions'' (fst kv)))) record
              else Inr ())))
          [''args'', ''package_versions'', ''package_sources'', ''skipped'']]"

definition validate_metadata :: "obj \<Rightarrow> string \<Rightarrow> unit result" where
  "validate_metadata metadata suite =
     all_ok
       [validate_versions metadata suite,
        validate_metadata_objects metadata,
        bindE (require_object (get_default metadata ''args'' (JObj [])) ''metadata.args'') (\<lambda>args.
          raise_if (has_key args ''suite'' \<and> get args ''suite'' \<noteq> JStr suite)
            (ValueError ''metadata.args.suite disagrees with metadata.suite'')),
        raise_if (suite \<noteq> ''response-streaming'' \<and> has_key metadata ''profile'')
          (ValueError ''metadata.profile is reserved for response-streaming reports'')]"

definition validate_child_diagnostic :: "bool \<Rightarrow> string \<Rightarrow> obj \<Rightarrow> unit result" where
  "validate_child_diagnostic research path child =
     all_ok
       [forE (\<lambda>f.
          if f = ''server_returncode'' \<and> \<not> has_key child f then Inr ()
          else if research \<and> get child f = JNull then Inr ()
          else raise_if (\<not> type_is_int (get child f))
            (TypeError (field_path path f @ '' must be an integer'' @
               (if research then '' or null for a research failure'' else []))))
          [''returncode'', ''server_returncode''],
        (if get child ''report_path'' \<noteq> JNull
         then check (require_string (get child ''report_path'') (field_path path ''report_path'')) else Inr ()),
        (if has_key child ''sequence''
         then check (require_integer (get child ''sequence'') (field_path path ''sequence'') 1) else Inr ()),
        (if has_key child ''duration_s''
         then check (require_number (get child ''duration_s'') (field_path path ''duration_s'') zero_minimum)
         else Inr ()),
        (if has_key child ''validity''
         then bindE (require_object (get child ''validity'') (field_path path ''validity''))
                (\<lambda>v. check (validity_summary_from_payload v))
         else Inr ())]"

definition validate_isolation_metadata :: "obj \<Rightarrow> unit result" where
  "validate_isolation_metadata metadata =
     (if \<not> has_key metadata ''isolation'' then Inr ()
      else
        bindE (require_object (get metadata ''isolation'') ''metadata.isolation'') (\<lambda>isolation.
          if \<not> has_key isolation ''children'' then Inr ()
          else
            bindE (require_rows (get isolation ''children'') ''metadata.isolation.children'') (\<lambda>children.
            all_ok
              [(if has_key isolation ''child_count'' then
                  bindE (require_integer (get isolation ''child_count'') ''metadata.isolation.child_count'' 0)
                    (\<lambda>count. raise_if (count \<noteq> int (length children))
                       (ValueError ''metadata.isolation.child_count must match children''))
                else Inr ()),
               foriE (\<lambda>index child.
                   validate_child_diagnostic (get isolation ''mode'' = JStr ''per-lifecycle-case'')
                     (index_path ''metadata.isolation.children'' index) child) 0 children])))"

subsection \<open>Research rows\<close>

definition validate_research_row :: "nat \<Rightarrow> obj \<Rightarrow> unit result" where
  "validate_research_row index row =
     (let path = index_path ''aggregate'' index
      in all_ok
        [forE (\<lambda>key. check (require_string (get row key) (field_path path key)))
           [''mode'', ''client'', ''case'', ''read'', ''consume''],
         forE (\<lambda>key. check (require_integer (get row key) (field_path path key) 1))
           [''concurrency'', ''request_limit''],
         forE (\<lambda>key. check (require_integer (get row key) (field_path path key) 0))
           [''errors_total'', ''warmup_errors_total''],
         forE (\<lambda>key. if get row key \<noteq> JNull
             then check (require_number (get row key) (field_path path key) zero_minimum) else Inr ())
           [''verified_bytes_s_median'', ''ok_streams_s_median'', ''p95_ms_median'', ''p99_ms_median''],
         bindE (require_object (get_default row ''resources'' (JObj [])) (field_path path ''resources'')) (\<lambda>resources.
           forE (when_present resources (\<lambda>role.
             bindE (require_object (get resources role) (path @ ''.resources.'' @ role)) (\<lambda>observation.
               check (validate_resource_coverage observation (path @ ''.resources.'' @ role) False))))
             [''client'', ''server''])])"

definition validate_research_rows :: "obj list \<Rightarrow> unit result" where
  "validate_research_rows rows = foriE validate_research_row 0 rows"

subsection \<open>The reader\<close>

definition is_research :: "string \<Rightarrow> obj \<Rightarrow> obj list \<Rightarrow> bool" where
  "is_research suite metadata aggregate =
     (suite = ''response-streaming'' \<and>
      list_ex (uses_streaming_profile metadata aggregate) [''lifecycle'', ''async-bytes''])"

definition validate_rows :: "string \<Rightarrow> obj \<Rightarrow> obj list \<Rightarrow> obj list \<Rightarrow> unit result" where
  "validate_rows suite metadata aggregate runs =
     (if is_research suite metadata aggregate then validate_research_rows aggregate
      else
        all_ok
          [validate_layout_markers suite aggregate ''aggregate'',
           validate_layout_markers suite runs ''runs'',
           validate_ordinary_rows suite aggregate runs,
           (case get metadata ''timing_scope'' of
              JStr declared \<Rightarrow> all_ok [validate_row_scopes declared aggregate, validate_row_scopes declared runs]
            | _ \<Rightarrow> Inr ()),
           validate_ordinary_resource_coverage suite aggregate runs
             (py_eq (get metadata ''resource_metric_schema_version'') (JInt RESOURCE_METRIC_SCHEMA_VERSION))])"

definition validate_recorded :: "obj \<Rightarrow> unit result" where
  "validate_recorded metadata =
     (if has_key metadata ''validity'' then
        bindE (require_object (get metadata ''validity'') ''metadata.validity'')
          (\<lambda>v. check (validity_summary_from_payload v))
      else Inr ())"

definition migrate_report :: "string \<Rightarrow> obj \<Rightarrow> obj list \<Rightarrow> obj list \<Rightarrow> (obj list \<times> obj list) result" where
  "migrate_report suite metadata aggregate runs =
     (if has_key metadata ''report_schema_version'' then Inr (aggregate, runs)
      else
        bindE (migrate_legacy_rows suite aggregate ''aggregate'') (\<lambda>aggregate.
        bindE (migrate_legacy_rows suite runs ''runs'') (\<lambda>runs. Inr (aggregate, runs))))"

definition decode_report_payload :: "json \<Rightarrow> string option \<Rightarrow> decoded_report result" where
  "decode_report_payload v expected_suite =
     bindE (require_object v ''report'') (\<lambda>payload.
     bindE (validate_finite_json (JObj payload) ''report'') (\<lambda>_.
     bindE (require_object (get payload ''metadata'') ''metadata'') (\<lambda>metadata.
     bindE (require_rows (get payload ''aggregate'') ''aggregate'') (\<lambda>aggregate.
     bindE (require_rows (get payload ''runs'') ''runs'') (\<lambda>runs.
     bindE (raise_if (has_key metadata ''report_schema_version'' \<and> \<not> has_key metadata ''suite'')
         (ValueError ''metadata.suite is required by report_schema_version'')) (\<lambda>_.
     bindE (report_suite metadata aggregate) (\<lambda>suite.
     bindE (case expected_suite of
         None \<Rightarrow> Inr ()
       | Some expected \<Rightarrow> raise_if (suite \<noteq> expected)
           (ValueError (''metadata.suite '' @ str_repr suite @ '' does not match parent suite '' @
              str_repr expected))) (\<lambda>_.
       let metadata = AList.update ''suite'' (JStr suite) metadata
       in bindE (validate_metadata metadata suite) (\<lambda>_.
          bindE (validate_isolation_metadata metadata) (\<lambda>_.
          bindE (migrate_report suite metadata aggregate runs) (\<lambda>(aggregate, runs).
          bindE (validate_rows suite metadata aggregate runs) (\<lambda>_.
          bindE (validate_recorded metadata) (\<lambda>_.
          bindE (validate_unique_aggregate_rows suite aggregate None) (\<lambda>_.
            Inr \<lparr>dr_suite = suite, dr_metadata = metadata, dr_aggregate_rows = aggregate,
                 dr_run_rows = runs\<rparr>))))))))))))))"

subsection \<open>Lemmas\<close>

lemma validate_finite_json_ok [ok]: "validate_finite_json v path = Inr u \<longleftrightarrow> json_finite v"
proof (induction v path rule: validate_finite_json.induct)
  case (3 xs path)
  then show ?case by (auto simp: ok list_all_length)
qed (auto simp: ok list_all_iff)

lemma json_finite_get: "json_finite (JObj d) \<Longrightarrow> json_finite (get d k)"
  by (auto simp: get_def list_all_iff split: option.splits dest!: map_of_SomeD)

lemma json_finite_update:
  "json_finite (JObj d) \<Longrightarrow> json_finite v \<Longrightarrow> json_finite (JObj (AList.update k v d))"
  using set_update_subset [of k v d] by (auto simp: list_all_iff)

lemma json_finite_setdefault:
  "json_finite (JObj d) \<Longrightarrow> json_finite v \<Longrightarrow> json_finite (JObj (setdefault k v d))"
  using json_finite_update [of d v k] by (simp add: setdefault_def)

lemma row_layouts_in: "suite \<in> set (row_layouts row run) \<Longrightarrow> suite \<in> set REPORT_SUITES"
proof -
  have subset: "x \<in> set (map fst (filter snd xs)) \<Longrightarrow> x \<in> set (map fst xs)" for x :: string and xs
    by auto
  assume "suite \<in> set (row_layouts row run)"
  from subset [OF this [unfolded row_layouts_def Let_def]] show ?thesis
    by (auto simp: REPORT_SUITES_def)
qed

lemma single_case: "(case xs of [x] \<Rightarrow> Inr x | _ \<Rightarrow> Inl e) = Inr y \<longleftrightarrow> xs = [y]"
  by (auto split: list.splits)

lemma REPORT_SUITES_nonempty: "suite \<in> set REPORT_SUITES \<Longrightarrow> strip suite \<noteq> []"
proof -
  have "list_all (\<lambda>s. strip s \<noteq> []) REPORT_SUITES" by code_simp
  then show "suite \<in> set REPORT_SUITES \<Longrightarrow> strip suite \<noteq> []" by (simp add: list_all_iff)
qed

lemma legacy_row_suite_in: "legacy_row_suite row = Inr suite \<Longrightarrow> suite \<in> set REPORT_SUITES"
  using row_layouts_in [of suite row False] by (simp add: legacy_row_suite_def single_case)

lemma report_suite_in: "report_suite metadata rows = Inr suite \<Longrightarrow> suite \<in> set REPORT_SUITES"
proof (cases "has_key metadata ''suite''")
  case False
  assume "report_suite metadata rows = Inr suite"
  with False obtain inferred where inferred: "mapE legacy_row_suite rows = Inr inferred"
      "remdups inferred = [suite]"
    by (auto simp: report_suite_def bindE_ok single_case)
  from inferred(2) have "set inferred = {suite}" by (metis list.set(1,2) set_remdups)
  then have "suite \<in> set inferred" by simp
  with mapE_image [OF inferred(1)] show ?thesis using legacy_row_suite_in by blast
qed (auto simp: report_suite_def bindE_ok split: if_splits)

lemma report_suite_declared:
  "suite \<in> set REPORT_SUITES \<Longrightarrow> get metadata ''suite'' = JStr suite \<Longrightarrow> has_key metadata ''suite'' \<Longrightarrow>
     report_suite metadata rows = Inr suite"
  using REPORT_SUITES_nonempty [of suite] by (simp add: report_suite_def require_string_def)

lemma migrate_connections_shape:
  assumes "migrate_connections path i row = Inr row'"
  shows "row' = row \<and> \<not> has_key row ''max_connections'' \<or>
    (\<exists>old. get row ''max_connections'' = JInt old \<and> 0 \<le> old \<and> has_key row ''max_connections'' \<and>
       row' = setdefault ''request_limit'' (JInt old) row \<and> has_key row' ''request_limit'' \<and>
       py_eq (get row' ''request_limit'') (JInt old))"
  using assms
  by (auto simp: migrate_connections_def ok setdefault_def has_key_def get_def feq_refl
      split: if_splits option.splits)

lemma get_setdefault: "get (setdefault k v d) j = (if j = k \<and> \<not> has_key d k then v else get d j)"
  by (simp add: setdefault_def has_key_def)

lemma has_key_setdefault [simp]: "has_key (setdefault k v d) j \<longleftrightarrow> j = k \<or> has_key d j"
  by (simp add: setdefault_def has_key_def)

lemma setdefault_present: "has_key d k \<Longrightarrow> setdefault k v d = d"
  by (auto simp: setdefault_def has_key_def)

lemma migrate_connections_again:
  assumes "migrate_connections path i row = Inr row'" "k \<noteq> ''request_limit''" "k \<noteq> ''max_connections''"
  shows "migrate_connections path j (setdefault k v row') = Inr (setdefault k v row')"
    and "migrate_connections path j row' = Inr row'"
  using migrate_connections_shape [OF assms(1)] assms(2,3)
  by (auto simp: migrate_connections_def require_integer_JInt get_setdefault setdefault_present)

lemma migrate_legacy_row_again:
  assumes "migrate_legacy_row suite path i row = Inr row'"
  shows "migrate_legacy_row suite path j row' = Inr row'"
proof -
  from assms obtain mid where mid: "migrate_connections path i row = Inr mid"
      and row': "row' = mid \<and> (suite \<noteq> ''response-streaming'' \<or>
            get mid ''profile'' \<in> {JStr ''lifecycle'', JStr ''async-bytes''}) \<or>
          row' = setdefault ''read'' (JStr ''bytes'') mid \<and> suite = ''response-streaming'' \<and>
            \<not> is_list (get mid ''profile'') \<and> \<not> is_dict (get mid ''profile'') \<and>
            get mid ''profile'' \<notin> {JStr ''lifecycle'', JStr ''async-bytes''}"
    by (auto simp: migrate_legacy_row_def bindE_ok split: if_splits)
  note again = migrate_connections_again [OF mid, of "''read''"]
  from row' show ?thesis
    by (elim disjE conjE) (auto simp: migrate_legacy_row_def again get_setdefault)
qed

lemma migrate_legacy_rows_again:
  assumes "migrate_legacy_rows suite rows path = Inr rows'"
  shows "migrate_legacy_rows suite rows' path = Inr rows'"
  using assms migrate_legacy_row_again
  unfolding migrate_legacy_rows_def mapiE_ok by metis

lemma migrate_report_again:
  "migrate_report suite metadata aggregate runs = Inr (aggregate', runs') \<Longrightarrow>
     migrate_report suite metadata aggregate' runs' = Inr (aggregate', runs')"
  using migrate_legacy_rows_again by (auto simp: migrate_report_def bindE_ok split: if_splits)

lemma migrate_legacy_row_finite:
  assumes "migrate_legacy_row suite path i row = Inr row'" "json_finite (JObj row)"
  shows "json_finite (JObj row')"
proof -
  from assms(1) obtain mid where mid: "migrate_connections path i row = Inr mid"
      and row': "row' = mid \<or> row' = setdefault ''read'' (JStr ''bytes'') mid"
    by (auto simp: migrate_legacy_row_def bindE_ok split: if_splits)
  have "json_finite (JObj mid)"
    using migrate_connections_shape [OF mid] assms(2) json_finite_setdefault [of row "JInt _"] by auto
  with row' show ?thesis using json_finite_setdefault [of mid "JStr ''bytes''"] by auto
qed

lemma migrate_report_finite:
  assumes "migrate_report suite metadata aggregate runs = Inr (aggregate', runs')"
    and "list_all (\<lambda>row. json_finite (JObj row)) (aggregate @ runs)"
  shows "list_all (\<lambda>row. json_finite (JObj row)) (aggregate' @ runs')"
proof -
  have one: "list_all (\<lambda>row. json_finite (JObj row)) rows'"
    if "migrate_legacy_rows suite rows path = Inr rows'" "list_all (\<lambda>row. json_finite (JObj row)) rows"
    for rows rows' path
    using that migrate_legacy_row_finite unfolding migrate_legacy_rows_def mapiE_ok list_all_length by metis
  show ?thesis
    using assms one [of aggregate _ aggregate'] one [of runs _ runs']
    by (auto simp: migrate_report_def bindE_ok simp del: json_finite.simps split: if_splits)
qed

text \<open>A decoded report as a document again.\<close>

definition report_document :: "decoded_report \<Rightarrow> json" where
  "report_document r =
     JObj [(''metadata'', JObj (dr_metadata r)), (''aggregate'', JList (map JObj (dr_aggregate_rows r))),
       (''runs'', JList (map JObj (dr_run_rows r)))]"

lemma decode_steps:
  assumes "decode_report_payload v expected = Inr r"
  obtains payload metadata aggregate runs where
    "v = JObj payload" "json_finite (JObj payload)" "get payload ''metadata'' = JObj metadata"
    "get payload ''aggregate'' = JList (map JObj aggregate)" "get payload ''runs'' = JList (map JObj runs)"
    "report_suite metadata aggregate = Inr (dr_suite r)"
    "dr_metadata r = AList.update ''suite'' (JStr (dr_suite r)) metadata"
    "expected = None \<or> expected = Some (dr_suite r)"
    "validate_metadata (dr_metadata r) (dr_suite r) = Inr ()"
    "validate_isolation_metadata (dr_metadata r) = Inr ()"
    "migrate_report (dr_suite r) (dr_metadata r) aggregate runs = Inr (dr_aggregate_rows r, dr_run_rows r)"
    "validate_rows (dr_suite r) (dr_metadata r) (dr_aggregate_rows r) (dr_run_rows r) = Inr ()"
    "validate_recorded (dr_metadata r) = Inr ()"
    "validate_unique_aggregate_rows (dr_suite r) (dr_aggregate_rows r) None = Inr ()"
proof -
  from assms obtain payload metadata aggregate runs suite aggregate' runs' where
    "v = JObj payload" "validate_finite_json (JObj payload) ''report'' = Inr ()"
    "get payload ''metadata'' = JObj metadata"
    "get payload ''aggregate'' = JList (map JObj aggregate)" "get payload ''runs'' = JList (map JObj runs)"
    "report_suite metadata aggregate = Inr suite"
    "(case expected of None \<Rightarrow> Inr () | Some e \<Rightarrow> raise_if (suite \<noteq> e)
         (ValueError (''metadata.suite '' @ str_repr suite @ '' does not match parent suite '' @ str_repr e)))
       = Inr ()"
    "validate_metadata (AList.update ''suite'' (JStr suite) metadata) suite = Inr ()"
    "validate_isolation_metadata (AList.update ''suite'' (JStr suite) metadata) = Inr ()"
    "migrate_report suite (AList.update ''suite'' (JStr suite) metadata) aggregate runs = Inr (aggregate', runs')"
    "validate_rows suite (AList.update ''suite'' (JStr suite) metadata) aggregate' runs' = Inr ()"
    "validate_recorded (AList.update ''suite'' (JStr suite) metadata) = Inr ()"
    "validate_unique_aggregate_rows suite aggregate' None = Inr ()"
    "r = \<lparr>dr_suite = suite, dr_metadata = AList.update ''suite'' (JStr suite) metadata,
       dr_aggregate_rows = aggregate', dr_run_rows = runs'\<rparr>"
    unfolding decode_report_payload_def Let_def bindE_ok require_object_ok require_rows_ok
    by (auto simp: bindE_ok simp del: validate_finite_json.simps validate_finite_json_ok)
  then show thesis
    by (intro that [of payload metadata aggregate runs])
      (auto simp: ok list_all_iff split: option.splits)
qed

subsection \<open>Properties\<close>

text \<open>
  The finiteness check is exact and reads the whole document: it accepts a value if and only
  if no float at any depth is infinite or not a number.\<close>

theorem finite_check_iff: "validate_finite_json v path = Inr () \<longleftrightarrow> json_finite v"
  by (rule validate_finite_json_ok)

lemma decoded_document_finite:
  assumes "decode_report_payload v expected = Inr r"
  shows "json_finite (report_document r)"
proof -
  from assms obtain payload metadata aggregate runs where
    p: "json_finite (JObj payload)" "get payload ''metadata'' = JObj metadata"
      "get payload ''aggregate'' = JList (map JObj aggregate)" "get payload ''runs'' = JList (map JObj runs)"
      "dr_metadata r = AList.update ''suite'' (JStr (dr_suite r)) metadata"
      "migrate_report (dr_suite r) (dr_metadata r) aggregate runs = Inr (dr_aggregate_rows r, dr_run_rows r)"
    by (rule decode_steps)
  have rows: "list_all (\<lambda>row. json_finite (JObj row)) (aggregate @ runs)"
    using json_finite_get [OF p(1), of "''aggregate''"] json_finite_get [OF p(1), of "''runs''"]
    unfolding p(3,4) by (auto simp: list_all_iff)
  have "json_finite (JObj (dr_metadata r))"
    unfolding p(5) using json_finite_get [OF p(1), of "''metadata''"]
    by (intro json_finite_update) (simp_all only: p(2) json_finite.simps)
  moreover have "list_all (\<lambda>row. json_finite (JObj row)) (dr_aggregate_rows r @ dr_run_rows r)"
    by (rule migrate_report_finite [OF p(6) rows])
  ultimately show ?thesis by (auto simp: report_document_def list_all_iff)
qed

text \<open>
  C6: decoding is idempotent: a decoded report, written as a document again, is accepted and
  decodes to itself. In particular the migration of legacy rows is done once and for all.\<close>

theorem decode_idempotent:
  assumes "decode_report_payload v expected = Inr r"
  shows "decode_report_payload (report_document r) (Some (dr_suite r)) = Inr r"
proof -
  from assms obtain metadata aggregate runs where
    p: "report_suite metadata aggregate = Inr (dr_suite r)"
      "dr_metadata r = AList.update ''suite'' (JStr (dr_suite r)) metadata"
      "validate_metadata (dr_metadata r) (dr_suite r) = Inr ()"
      "validate_isolation_metadata (dr_metadata r) = Inr ()"
      "migrate_report (dr_suite r) (dr_metadata r) aggregate runs = Inr (dr_aggregate_rows r, dr_run_rows r)"
      "validate_rows (dr_suite r) (dr_metadata r) (dr_aggregate_rows r) (dr_run_rows r) = Inr ()"
      "validate_recorded (dr_metadata r) = Inr ()"
      "validate_unique_aggregate_rows (dr_suite r) (dr_aggregate_rows r) None = Inr ()"
    by (rule decode_steps)
  have same: "AList.update ''suite'' (JStr (dr_suite r)) (dr_metadata r) = dr_metadata r"
      "get (dr_metadata r) ''suite'' = JStr (dr_suite r)" "has_key (dr_metadata r) ''suite''"
    by (simp_all add: p(2))
  have suite: "report_suite (dr_metadata r) rows = Inr (dr_suite r)" for rows
    by (rule report_suite_declared [OF report_suite_in [OF p(1)] same(2,3)])
  have gets: "get [(''metadata'', a), (''aggregate'', b), (''runs'', c)] ''metadata'' = a"
      "get [(''metadata'', a), (''aggregate'', b), (''runs'', c)] ''aggregate'' = b"
      "get [(''metadata'', a), (''aggregate'', b), (''runs'', c)] ''runs'' = c" for a b c
    by (simp_all add: get_def)
  have rows: "require_rows (JList (map JObj xs)) path = Inr xs" for xs path
    by (simp only: require_rows_ok)
  have finite: "validate_finite_json (report_document r) path = Inr ()" for path
    by (simp only: validate_finite_json_ok decoded_document_finite [OF assms])
  show ?thesis
    using finite unfolding decode_report_payload_def report_document_def require_object.simps bindE_simps Let_def gets rows
    by (simp add: suite same p(3,4,6-8) migrate_report_again [OF p(5)] del: validate_finite_json.simps)
qed

definition legacy_document :: json where
  "legacy_document =
     JObj [(''metadata'', JObj [(''args'', JObj [])]),
       (''aggregate'', JList [JObj (sample_row ''a'' @
         [(''max_connections'', JInt 10), (''repeats'', JInt 1), (''requests'', JInt 4),
          (''errors_total'', JInt 0), (''warmup_errors_total'', JInt 0),
          (''ok_req_s_median'', JFloat (Fin 12))])]),
       (''runs'', JList [])]"

lemma decode_idempotent_witness:
  "\<exists>r. decode_report_payload legacy_document None = Inr r \<and> dr_suite r = ''requests'' \<and>
     decode_report_payload (report_document r) (Some ''requests'') = Inr r"
proof -
  have "case decode_report_payload legacy_document None of Inl _ \<Rightarrow> False | Inr r \<Rightarrow> dr_suite r = ''requests''"
    by code_simp
  then obtain r where r: "decode_report_payload legacy_document None = Inr r" "dr_suite r = ''requests''"
    by (auto split: sum.splits)
  from decode_idempotent [OF r(1)] r show ?thesis by auto
qed

text \<open>
  C5: what a consumer may rely on in a decoded report: its suite is one of the eight and is
  recorded in the metadata, no two aggregate rows share an identity, a recorded validity reads
  back as a consistent summary, and outside the research profiles every aggregate and run row
  satisfies the declarative row description.\<close>

theorem decoded_report_sound:
  assumes "decode_report_payload v expected = Inr r"
  shows "dr_suite r \<in> set REPORT_SUITES \<and> get (dr_metadata r) ''suite'' = JStr (dr_suite r) \<and>
    (\<exists>ids. mapE (aggregate_identity (dr_suite r)) (dr_aggregate_rows r) = Inr ids \<and> distinct ids) \<and>
    (has_key (dr_metadata r) ''validity'' \<longrightarrow>
      (\<exists>p s. get (dr_metadata r) ''validity'' = JObj p \<and> validity_summary_from_payload p = Inr s \<and>
         consistent_summary s)) \<and>
    (is_research (dr_suite r) (dr_metadata r) (dr_aggregate_rows r) \<or>
      list_all (ordinary_aggregate (dr_suite r)) (dr_aggregate_rows r) \<and>
      list_all (ordinary_run (dr_suite r)) (dr_run_rows r))"
proof -
  from assms obtain metadata aggregate where
    p: "report_suite metadata aggregate = Inr (dr_suite r)"
      "dr_metadata r = AList.update ''suite'' (JStr (dr_suite r)) metadata"
      "validate_rows (dr_suite r) (dr_metadata r) (dr_aggregate_rows r) (dr_run_rows r) = Inr ()"
      "validate_recorded (dr_metadata r) = Inr ()"
      "validate_unique_aggregate_rows (dr_suite r) (dr_aggregate_rows r) None = Inr ()"
    by (rule decode_steps)
  have rows: "is_research (dr_suite r) (dr_metadata r) (dr_aggregate_rows r) \<or>
      list_all (ordinary_aggregate (dr_suite r)) (dr_aggregate_rows r) \<and>
      list_all (ordinary_run (dr_suite r)) (dr_run_rows r)"
    using p(3) unfolding validate_rows_def
    by (auto simp: bindE_unit_ok ordinary_rows_exact split: if_splits)
  have "has_key (dr_metadata r) ''validity'' \<longrightarrow>
      (\<exists>p s. get (dr_metadata r) ''validity'' = JObj p \<and> validity_summary_from_payload p = Inr s \<and>
         consistent_summary s)"
    using p(4) from_payload_consistent unfolding validate_recorded_def
    by (auto simp: bindE_ok require_object_ok check_ok)
  moreover have "\<exists>ids. mapE (aggregate_identity (dr_suite r)) (dr_aggregate_rows r) = Inr ids \<and> distinct ids"
    using p(5) unfolding unique_rows_exact .
  ultimately show ?thesis using rows report_suite_in [OF p(1)] p(2) by simp
qed

lemma decoded_report_sound_witness:
  "\<exists>r. decode_report_payload legacy_document None = Inr r \<and> dr_suite r \<in> set REPORT_SUITES"
proof -
  have "case decode_report_payload legacy_document None of Inl _ \<Rightarrow> False | Inr _ \<Rightarrow> True"
    by code_simp
  then obtain r where "decode_report_payload legacy_document None = Inr r"
    by (auto split: sum.splits)
  with decoded_report_sound [OF this] show ?thesis by blast
qed

end
