(* ===== verification/Compare_Loading.thy ===== *)
theory Compare_Loading
  imports Report_Decoding
begin

text \<open>
  compare/models.py and compare/loading.py: the row a comparison works on and its construction
  from a decoded aggregate row, one builder per suite. The strict field readers of loading.py
  carry the prefix \<open>cmp_\<close>. The locale \<open>row_reader\<close> is the interface between admission and
  comparison: a reader that succeeds on every admitted row loads every admitted report.
\<close>

subsection \<open>Rows and reports\<close>

record BenchmarkRow =
  br_suite :: string
  br_identity :: "string list"
  br_group :: "string list"
  br_label :: string
  br_mode :: string
  br_client :: string
  br_scenario :: string
  br_primary_value :: "pyfloat option"
  br_p95_ms :: "pyfloat option"
  br_p99_ms :: "pyfloat option"
  br_errors_total :: int
  br_warmup_errors_total :: int
  br_error_rate_percent :: "pyfloat option"
  br_rss_mb :: "pyfloat option"
  br_threads :: "int option"
  br_fds :: "int option"
  br_resource_coverage :: resource_coverage
  br_resource_unavailable_reasons :: "(string \<times> string list) list"

record BenchmarkReport =
  bp_path :: string
  bp_suite :: string
  bp_timestamp :: string
  bp_package_versions :: "(string \<times> string) list"
  bp_rows :: "BenchmarkRow list"
  bp_aggregate_rows :: "obj list"
  bp_metadata :: obj
  bp_validity :: validity_summary
  bp_run_rows :: "obj list"

subsection \<open>Strict field readers\<close>

definition object_field :: "obj \<Rightarrow> string \<Rightarrow> obj" where
  "object_field v key = (case get v key of JObj f \<Rightarrow> f | _ \<Rightarrow> [])"

definition package_versions :: "obj \<Rightarrow> (string \<times> string) list" where
  "package_versions metadata =
     (case get metadata ''package_versions'' of
        JObj versions \<Rightarrow> map (\<lambda>kv. (fst kv, py_str (snd kv))) versions
      | _ \<Rightarrow> [])"

definition cmp_str_field :: "obj \<Rightarrow> string \<Rightarrow> string option \<Rightarrow> string result" where
  "cmp_str_field row key default_value =
     (case default_value of
        Some s \<Rightarrow> if \<not> has_key row key then Inr s else require_string (get row key) key
      | None \<Rightarrow> require_string (get row key) key)"

definition cmp_int_field :: "obj \<Rightarrow> string \<Rightarrow> int result" where
  "cmp_int_field row key = require_integer (get row key) key 0"

definition cmp_optional_int_field :: "obj \<Rightarrow> string \<Rightarrow> int option result" where
  "cmp_optional_int_field row key =
     (if get row key = JNull then Inr None else bindE (cmp_int_field row key) (\<lambda>i. Inr (Some i)))"

definition cmp_float_field :: "obj \<Rightarrow> string \<Rightarrow> pyfloat result" where
  "cmp_float_field row key = require_number (get row key) key zero_minimum"

definition cmp_optional_float_field :: "obj \<Rightarrow> string \<Rightarrow> pyfloat option result" where
  "cmp_optional_float_field row key =
     (if get row key = JNull then Inr None else bindE (cmp_float_field row key) (\<lambda>x. Inr (Some x)))"

definition resource_float_field :: "obj \<Rightarrow> string \<Rightarrow> pyfloat option result" where
  "resource_float_field row key =
     (if get row key = JNull then Inr None
      else bindE (require_number (get row key) key None) (\<lambda>x. Inr (Some x)))"

definition resource_int_field :: "obj \<Rightarrow> string \<Rightarrow> int option result" where
  "resource_int_field row key =
     (case get row key of
        JNull \<Rightarrow> Inr None
      | JInt i \<Rightarrow> Inr (Some i)
      | v \<Rightarrow>
          bindE (require_number v key None) (\<lambda>number.
            if is_integer number then bindE (int_of_float number) (\<lambda>i. Inr (Some i))
            else Inl (ValueError (key @ '' must be an integer or null''))))"

text \<open>\<^verbatim>\<open>row.get("profile") in {"lifecycle", "async-bytes"}\<close>\<close>

definition research_profile :: "obj \<Rightarrow> bool result" where
  "research_profile row =
     (if is_list (get row ''profile'') \<or> is_dict (get row ''profile'')
      then Inl (TypeError ''unhashable type'')
      else Inr (get row ''profile'' \<in> {JStr ''lifecycle'', JStr ''async-bytes''}))"

subsection \<open>Builders\<close>

text \<open>The measurements every builder ends with, read in the order of the constructor call.\<close>

definition build_row ::
  "string \<Rightarrow> obj \<Rightarrow> string list \<Rightarrow> string \<Rightarrow> string \<Rightarrow> string \<Rightarrow> string \<Rightarrow> pyfloat option result \<Rightarrow>
   int result \<Rightarrow> pyfloat option result \<Rightarrow> pyfloat option result \<Rightarrow> int option result \<Rightarrow>
   int option result \<Rightarrow> BenchmarkRow result"
where
  "build_row suite row identity label mode client scenario primary warmup rate rss threads fds =
     bindE primary (\<lambda>primary_value.
     bindE (cmp_optional_float_field row ''p95_ms_median'') (\<lambda>p95.
     bindE (cmp_optional_float_field row ''p99_ms_median'') (\<lambda>p99.
     bindE (cmp_int_field row ''errors_total'') (\<lambda>errors.
     bindE warmup (\<lambda>warmup_errors.
     bindE rate (\<lambda>error_rate.
     bindE rss (\<lambda>rss_mb.
     bindE threads (\<lambda>thread_count.
     bindE fds (\<lambda>fd_count.
       Inr \<lparr>br_suite = suite, br_identity = identity, br_group = comparison_group identity,
            br_label = label, br_mode = mode, br_client = client, br_scenario = scenario,
            br_primary_value = primary_value, br_p95_ms = p95, br_p99_ms = p99,
            br_errors_total = errors, br_warmup_errors_total = warmup_errors,
            br_error_rate_percent = error_rate, br_rss_mb = rss_mb, br_threads = thread_count,
            br_fds = fd_count, br_resource_coverage = [], br_resource_unavailable_reasons = []\<rparr>)))))))))"

definition some_float :: "obj \<Rightarrow> string \<Rightarrow> pyfloat option result" where
  "some_float row key = bindE (cmp_float_field row key) (\<lambda>x. Inr (Some x))"

definition request_row :: "obj \<Rightarrow> string \<Rightarrow> BenchmarkRow result" where
  "request_row row suite =
     bindE (aggregate_identity suite row) (\<lambda>identity.
     bindE (cmp_str_field row ''mode'' None) (\<lambda>mode.
     bindE (cmp_str_field row ''client'' None) (\<lambda>client.
     bindE (cmp_str_field row ''scenario'' None) (\<lambda>scenario.
     bindE (cmp_int_field row ''concurrency'') (\<lambda>concurrency.
     bindE (cmp_int_field row ''request_limit'') (\<lambda>request_limit.
       build_row suite row identity
         (join '' / '' [mode, client, scenario, ''conc='' @ int_str concurrency, ''limit='' @ int_str request_limit])
         mode client scenario
         (some_float row ''ok_req_s_median'') (cmp_int_field row ''warmup_errors_total'')
         (cmp_optional_float_field row ''error_rate_percent'')
         (resource_float_field row ''rss_mb_max'') (resource_int_field row ''threads_max'')
         (resource_int_field row ''fds_max'')))))))"

definition client_creation_row :: "obj \<Rightarrow> BenchmarkRow result" where
  "client_creation_row row =
     bindE (aggregate_identity ''client-creation'' row) (\<lambda>identity.
     bindE (cmp_str_field row ''mode'' None) (\<lambda>mode.
     bindE (cmp_str_field row ''client'' None) (\<lambda>client.
     bindE (cmp_str_field row ''scenario'' None) (\<lambda>scenario.
     bindE (cmp_int_field row ''client_count'') (\<lambda>client_count.
     bindE (cmp_int_field row ''iterations'') (\<lambda>iterations.
       build_row ''client-creation'' row identity
         (join '' / '' [mode, client, scenario, ''clients='' @ int_str client_count, ''iters='' @ int_str iterations])
         mode client scenario
         (some_float row ''ops_s_median'') (Inr 0) (Inr None)
         (resource_float_field row ''peak_rss_delta_mb_max'') (resource_int_field row ''peak_threads_delta_max'')
         (resource_int_field row ''peak_fds_delta_max'')))))))"

definition resource_row :: "obj \<Rightarrow> BenchmarkRow result" where
  "resource_row row =
     bindE (aggregate_identity ''resource-backpressure'' row) (\<lambda>identity.
     bindE (cmp_str_field row ''mode'' None) (\<lambda>mode.
     bindE (cmp_str_field row ''client'' (Some ''foghttp'')) (\<lambda>client.
     bindE (cmp_str_field row ''scenario'' None) (\<lambda>scenario.
     bindE (cmp_int_field row ''concurrency'') (\<lambda>concurrency.
     bindE (cmp_int_field row ''request_limit'') (\<lambda>request_limit.
     bindE (cmp_optional_int_field row ''per_origin_request_limit'') (\<lambda>origin_limit.
     bindE (cmp_int_field row ''max_pending_requests'') (\<lambda>pending_limit.
       build_row ''resource-backpressure'' row identity
         (join '' / '' [mode, client, scenario, ''conc='' @ int_str concurrency,
            ''active='' @ int_str request_limit,
            ''origin='' @ (case origin_limit of None \<Rightarrow> ''-'' | Some n \<Rightarrow> int_str n),
            ''pending='' @ int_str pending_limit])
         mode client scenario
         (some_float row ''ok_requests_total'') (cmp_int_field row ''warmup_errors_total'')
         (cmp_optional_float_field row ''error_rate_percent'')
         (resource_float_field row ''rss_mb_max'') (resource_int_field row ''threads_max'')
         (resource_int_field row ''fds_max'')))))))))"

definition one_upstream_row :: "obj \<Rightarrow> BenchmarkRow result" where
  "one_upstream_row row =
     bindE (aggregate_identity ''one-upstream'' row) (\<lambda>identity.
     bindE (cmp_str_field row ''mode'' None) (\<lambda>mode.
     bindE (cmp_str_field row ''client'' None) (\<lambda>client.
     bindE (cmp_str_field row ''case'' None) (\<lambda>case_name.
     bindE (cmp_str_field row ''group'' None) (\<lambda>group.
     bindE (cmp_str_field row ''profile'' None) (\<lambda>profile.
     bindE (cmp_int_field row ''concurrency'') (\<lambda>concurrency.
       build_row ''one-upstream'' row identity
         (join '' / '' [mode, client, group, case_name, profile, ''conc='' @ int_str concurrency])
         mode client case_name
         (some_float row ''ok_req_s_median'') (cmp_int_field row ''warmup_errors_total'')
         (cmp_optional_float_field row ''error_rate_percent'')
         (resource_float_field row ''rss_mb_max'') (resource_int_field row ''threads_max'')
         (resource_int_field row ''fds_max''))))))))"

definition request_builder_row :: "obj \<Rightarrow> BenchmarkRow result" where
  "request_builder_row row =
     bindE (aggregate_identity ''request-builder'' row) (\<lambda>identity.
     bindE (cmp_str_field row ''mode'' None) (\<lambda>mode.
     bindE (cmp_str_field row ''client'' None) (\<lambda>client.
     bindE (cmp_str_field row ''case'' None) (\<lambda>case_name.
     bindE (cmp_str_field row ''group'' None) (\<lambda>group.
     bindE (cmp_str_field row ''kind'' None) (\<lambda>kind.
     bindE (cmp_str_field row ''profile'' None) (\<lambda>profile.
       build_row ''request-builder'' row identity
         (join '' / '' [mode, client, kind, group, case_name, profile])
         mode client case_name
         (some_float row ''ops_s_median'') (Inr 0) (Inr None)
         (resource_float_field row ''rss_mb_max'') (resource_int_field row ''threads_max'')
         (resource_int_field row ''fds_max''))))))))"

definition mebibytes :: "pyfloat option \<Rightarrow> pyfloat option result" where
  "mebibytes rss =
     (case rss of
        None \<Rightarrow> Inr None
      | Some x \<Rightarrow> bindE (fdiv x (Fin 1024)) (\<lambda>y. bindE (fdiv y (Fin 1024)) (\<lambda>z. Inr (Some z))))"

definition response_streaming_row :: "obj \<Rightarrow> BenchmarkRow result" where
  "response_streaming_row row =
     bindE (aggregate_identity ''response-streaming'' row) (\<lambda>identity.
     bindE (cmp_str_field row ''mode'' None) (\<lambda>mode.
     bindE (cmp_str_field row ''client'' None) (\<lambda>client.
     bindE (cmp_str_field row ''case'' None) (\<lambda>case_name.
     bindE (cmp_str_field row ''read'' (Some ''bytes'')) (\<lambda>read.
     bindE (cmp_str_field row ''consume'' None) (\<lambda>consume.
     bindE (cmp_int_field row ''concurrency'') (\<lambda>concurrency.
     bindE (cmp_int_field row ''request_limit'') (\<lambda>request_limit.
     let resources = object_field (object_field row ''resources'') ''client''
     in bindE (research_profile row) (\<lambda>is_lifecycle.
        bindE (if is_lifecycle then resource_float_field resources ''sampled_peak_rss_bytes_max'' else Inr None)
          (\<lambda>lifecycle_rss.
          build_row ''response-streaming'' row identity
            (join '' / '' [mode, client, case_name, read, consume, ''conc='' @ int_str concurrency,
               ''limit='' @ int_str request_limit])
            mode client case_name
            (if get row ''profile'' = JStr ''async-bytes''
             then cmp_optional_float_field row ''verified_bytes_s_median''
             else if get row ''profile'' = JStr ''lifecycle''
             then cmp_optional_float_field row ''ok_streams_s_median''
             else some_float row ''ok_streams_s_median'')
            (cmp_int_field row ''warmup_errors_total'')
            (cmp_optional_float_field row ''error_rate_percent'')
            (if is_lifecycle then mebibytes lifecycle_rss else resource_float_field row ''rss_mb_max'')
            (if is_lifecycle then resource_int_field resources ''sampled_peak_threads_max''
             else resource_int_field row ''threads_max'')
            (if is_lifecycle then resource_int_field resources ''sampled_peak_fds_max''
             else resource_int_field row ''fds_max'')))))))))))"

definition proxy_connect_row :: "obj \<Rightarrow> BenchmarkRow result" where
  "proxy_connect_row row =
     bindE (aggregate_identity ''proxy-connect'' row) (\<lambda>identity.
     bindE (cmp_str_field row ''mode'' None) (\<lambda>mode.
     bindE (cmp_str_field row ''client'' None) (\<lambda>client.
     bindE (cmp_str_field row ''case'' None) (\<lambda>case_name.
     bindE (cmp_str_field row ''target_scheme'' None) (\<lambda>target_scheme.
     bindE (cmp_str_field row ''config'' None) (\<lambda>config.
     bindE (cmp_str_field row ''lifecycle'' None) (\<lambda>lifecycle.
     bindE (cmp_int_field row ''concurrency'') (\<lambda>concurrency.
     bindE (cmp_int_field row ''request_limit'') (\<lambda>request_limit.
       build_row ''proxy-connect'' row identity
         (join '' / '' [mode, client, case_name, target_scheme, config, lifecycle,
            ''conc='' @ int_str concurrency, ''limit='' @ int_str request_limit])
         mode client case_name
         (some_float row ''ok_req_s_median'') (cmp_int_field row ''warmup_errors_total'')
         (cmp_optional_float_field row ''error_rate_percent'')
         (resource_float_field row ''rss_mb_max'') (resource_int_field row ''threads_max'')
         (resource_int_field row ''fds_max''))))))))))"

definition suite_row :: "string \<Rightarrow> obj \<Rightarrow> BenchmarkRow result" where
  "suite_row suite row =
     (if suite = ''client-creation'' then client_creation_row row
      else if suite = ''resource-backpressure'' then resource_row row
      else if suite = ''one-upstream'' then one_upstream_row row
      else if suite = ''request-builder'' then request_builder_row row
      else if suite = ''response-streaming'' then response_streaming_row row
      else if suite = ''proxy-connect'' then proxy_connect_row row
      else request_row row suite)"

definition lifecycle_unavailable :: "obj \<Rightarrow> (string \<times> string list) list \<Rightarrow> string \<times> string \<Rightarrow> (string \<times> string list) list" where
  "lifecycle_unavailable resources unavailable metric_output =
     (case get (object_field resources ''unavailable'') (fst metric_output) of
        JList reasons \<Rightarrow>
          (if list_all is_str reasons
           then AList.update (snd metric_output) (map py_str reasons) unavailable else unavailable)
      | _ \<Rightarrow> unavailable)"

definition benchmark_row :: "string \<Rightarrow> obj \<Rightarrow> BenchmarkRow result" where
  "benchmark_row suite row =
     bindE (suite_row suite row) (\<lambda>benchmark.
     bindE (if suite = ''response-streaming'' then research_profile row else Inr False) (\<lambda>research.
       let resources = (if research then object_field (object_field row ''resources'') ''client'' else row)
       in bindE (resource_coverage_field resources ''row'') (\<lambda>coverage.
            let unavailable = map (\<lambda>(name, observation). (name, rmc_unavailable_reasons observation)) coverage;
                unavailable = (if research
                  then foldl (lifecycle_unavailable resources) unavailable
                    [(''rss_bytes'', ''sampled_peak_rss_bytes_max''),
                     (''threads'', ''sampled_peak_threads_max''), (''fds'', ''sampled_peak_fds_max'')]
                  else unavailable)
            in Inr (benchmark\<lparr>br_resource_coverage := coverage,
                      br_resource_unavailable_reasons := unavailable\<rparr>))))"

text \<open>
  \<^verbatim>\<open>load_benchmark_report\<close> from the decoded report on; reading the file is not part of the model.
\<close>

definition load_benchmark_report ::
  "(string \<Rightarrow> string) \<Rightarrow> string \<Rightarrow> decoded_report \<Rightarrow> BenchmarkReport result"
where
  "load_benchmark_report sha256 path report =
     (let metadata = dr_metadata report; aggregate_rows = dr_aggregate_rows report; suite = dr_suite report
      in bindE (mapE (benchmark_row suite) aggregate_rows) (\<lambda>rows.
         bindE (validity_summary_from_metadata sha256 metadata suite aggregate_rows) (\<lambda>validity.
         bindE (cmp_str_field metadata ''timestamp'' (Some ''-'')) (\<lambda>timestamp.
           Inr \<lparr>bp_path = path, bp_suite = suite, bp_timestamp = timestamp,
                bp_package_versions = package_versions metadata, bp_rows = rows,
                bp_aggregate_rows = aggregate_rows, bp_metadata = metadata, bp_validity = validity,
                bp_run_rows = dr_run_rows report\<rparr>))))"

subsection \<open>The interface between admission and comparison\<close>

locale row_reader =
  fixes admitted :: "obj \<Rightarrow> bool"
    and read_row :: "obj \<Rightarrow> 'b result"
    and key :: "obj \<Rightarrow> 'k result"
    and key_of :: "'b \<Rightarrow> 'k"
  assumes reads: "admitted row \<Longrightarrow> \<exists>b. read_row row = Inr b"
    and keeps_key: "read_row row = Inr b \<Longrightarrow> key row = Inr (key_of b)"
begin

lemma read_all: "list_all admitted rows \<Longrightarrow> \<exists>bs. mapE read_row rows = Inr bs"
proof (induction rows)
  case (Cons row rows)
  with reads [of row] show ?case by auto
qed simp

lemma read_keys: "mapE read_row rows = Inr bs \<Longrightarrow> mapE key rows = Inr (map key_of bs)"
  by (induction rows arbitrary: bs) (auto simp: bindE_ok dest: keeps_key)

lemma read_distinct:
  "list_all admitted rows \<Longrightarrow> mapE key rows = Inr ks \<Longrightarrow> distinct ks \<Longrightarrow>
     \<exists>bs. mapE read_row rows = Inr bs \<and> map key_of bs = ks \<and> distinct (map key_of bs)"
  using read_all [of rows] read_keys [of rows] by auto

end

subsection \<open>Admitted rows can be read\<close>

definition ordinary_profile :: "string \<Rightarrow> obj \<Rightarrow> bool" where
  "ordinary_profile suite row =
     (suite \<noteq> ''response-streaming'' \<or>
      \<not> is_list (get row ''profile'') \<and> \<not> is_dict (get row ''profile'') \<and>
      get row ''profile'' \<notin> {JStr ''lifecycle'', JStr ''async-bytes''})"

text \<open>
  A row the comparison can load: admitted, identified, with a well-formed coverage record. A
  success count of the resource suite is also read as a float, so it must fit one.
\<close>

definition loadable :: "string \<Rightarrow> obj \<Rightarrow> bool" where
  "loadable suite row =
     (suite \<in> dom (map_of ORDINARY_IDENTITY_FIELDS) \<and> ordinary_aggregate suite row \<and>
      aggregate_identity suite row \<in> range Inr \<and> resource_coverage_field row ''row'' \<in> range Inr \<and>
      ordinary_profile suite row \<and>
      (suite = ''resource-backpressure'' \<longrightarrow> number_ge_zero (get row ''ok_requests_total'')))"

lemma cmp_str_reads: "identity_choice k (get row k) \<Longrightarrow> \<exists>s. cmp_str_field row k d = Inr s"
  by (cases "get row k") (auto simp: cmp_str_field_def require_string_def split: option.splits)

lemma cmp_int_reads: "integer_ge 0 (get row k) \<or> integer_ge 1 (get row k) \<Longrightarrow> \<exists>i. cmp_int_field row k = Inr i"
  by (cases "get row k") (auto simp: cmp_int_field_def require_integer_JInt)

lemma some_float_reads: "number_ge_zero (get row k) \<Longrightarrow> \<exists>x. some_float row k = Inr x"
  using require_number_ex [of "get row k" k] by (auto simp: some_float_def cmp_float_field_def)

lemma optional_float_reads:
  "(has_key row k \<longrightarrow> number_ge_zero (get row k)) \<Longrightarrow> \<exists>x. cmp_optional_float_field row k = Inr x"
  using some_float_reads [of row k] get_not_null_has [of row k]
  by (auto simp: cmp_optional_float_field_def some_float_def)

lemma resource_float_reads:
  "nullable (\<lambda>v. json_number v \<noteq> None) (get row k) \<Longrightarrow> \<exists>x. resource_float_field row k = Inr x"
  using require_any_number_ex [of "get row k" k] by (auto simp: resource_float_field_def nullable_def)

lemma resource_int_reads: "nullable type_is_int (get row k) \<Longrightarrow> \<exists>x. resource_int_field row k = Inr x"
  by (cases "get row k") (auto simp: resource_int_field_def nullable_def)

lemma integer_ge_type: "integer_ge m v \<Longrightarrow> type_is_int v"
  by (cases v) auto

lemma number_ge_zero_json: "number_ge_zero v \<Longrightarrow> json_number v \<noteq> None"
  by (auto simp: number_ge_zero_def)

text \<open>What the optional fields of an admitted row give the builders.\<close>

lemma optional_fields_read:
  assumes "optional_fields row"
  shows "\<exists>x. cmp_optional_float_field row ''p95_ms_median'' = Inr x"
    and "\<exists>x. cmp_optional_float_field row ''p99_ms_median'' = Inr x"
    and "\<exists>x. cmp_optional_float_field row ''error_rate_percent'' = Inr x"
    and "\<exists>x. resource_float_field row ''rss_mb_max'' = Inr x"
    and "\<exists>x. resource_float_field row ''peak_rss_delta_mb_max'' = Inr x"
    and "\<exists>x. resource_int_field row ''threads_max'' = Inr x"
    and "\<exists>x. resource_int_field row ''fds_max'' = Inr x"
    and "\<exists>x. resource_int_field row ''peak_threads_delta_max'' = Inr x"
    and "\<exists>x. resource_int_field row ''peak_fds_delta_max'' = Inr x"
proof -
  have numeric: "k \<in> set NUMERIC_FIELDS \<Longrightarrow> \<exists>x. cmp_optional_float_field row k = Inr x" for k
    using assms by (intro optional_float_reads) (auto simp: optional_fields_def list_all_iff)
  have nullable_numeric: "k \<in> set NULLABLE_NUMERIC_FIELDS \<Longrightarrow> \<exists>x. resource_float_field row k = Inr x" for k
    using assms number_ge_zero_json
    by (intro resource_float_reads) (auto simp: optional_fields_def list_all_iff nullable_def)
  have signed_numeric: "k \<in> set SIGNED_NUMERIC_FIELDS \<Longrightarrow> \<exists>x. resource_float_field row k = Inr x" for k
    using assms by (intro resource_float_reads) (auto simp: optional_fields_def list_all_iff)
  have nullable_count: "k \<in> set NULLABLE_COUNT_FIELDS \<Longrightarrow> \<exists>x. resource_int_field row k = Inr x" for k
    using assms integer_ge_type
    by (intro resource_int_reads) (auto simp: optional_fields_def list_all_iff nullable_def)
  have signed_count: "k \<in> set SIGNED_COUNT_FIELDS \<Longrightarrow> \<exists>x. resource_int_field row k = Inr x" for k
    using assms by (intro resource_int_reads) (auto simp: optional_fields_def list_all_iff)
  have members: "''p95_ms_median'' \<in> set NUMERIC_FIELDS" "''p99_ms_median'' \<in> set NUMERIC_FIELDS"
      "''rss_mb_max'' \<in> set NULLABLE_NUMERIC_FIELDS" "''peak_rss_delta_mb_max'' \<in> set SIGNED_NUMERIC_FIELDS"
      "''threads_max'' \<in> set NULLABLE_COUNT_FIELDS" "''fds_max'' \<in> set NULLABLE_COUNT_FIELDS"
      "''peak_threads_delta_max'' \<in> set SIGNED_COUNT_FIELDS" "''peak_fds_delta_max'' \<in> set SIGNED_COUNT_FIELDS"
    by code_simp+
  show "\<exists>x. cmp_optional_float_field row ''error_rate_percent'' = Inr x"
    using assms by (intro optional_float_reads) (auto simp: optional_fields_def number_ge_zero_def)
  show "\<exists>x. cmp_optional_float_field row ''p95_ms_median'' = Inr x"
    "\<exists>x. cmp_optional_float_field row ''p99_ms_median'' = Inr x"
    "\<exists>x. resource_float_field row ''rss_mb_max'' = Inr x"
    "\<exists>x. resource_float_field row ''peak_rss_delta_mb_max'' = Inr x"
    "\<exists>x. resource_int_field row ''threads_max'' = Inr x"
    "\<exists>x. resource_int_field row ''fds_max'' = Inr x"
    "\<exists>x. resource_int_field row ''peak_threads_delta_max'' = Inr x"
    "\<exists>x. resource_int_field row ''peak_fds_delta_max'' = Inr x"
    using members by (blast intro: numeric nullable_numeric signed_numeric nullable_count signed_count)+
qed

lemma build_row_reads:
  assumes "optional_fields row" "integer_ge 0 (get row ''errors_total'')"
    and "\<exists>x. primary = Inr x" "\<exists>x. warmup = Inr x" "\<exists>x. rate = Inr x" "\<exists>x. rss = Inr x"
    and "\<exists>x. threads = Inr x" "\<exists>x. fds = Inr x"
  shows "\<exists>b. build_row suite row identity label mode client scenario primary warmup rate rss threads fds = Inr b"
  using assms(3-) optional_fields_read(1,2) [OF assms(1)] cmp_int_reads [of row "''errors_total''"] assms(2)
  by (auto simp: build_row_def)

lemma ordinary_strings:
  assumes "ordinary_aggregate suite row" "map_of ORDINARY_IDENTITY_FIELDS suite = Some names"
    and "f \<in> set (''mode'' # ''client'' # names)"
  shows "\<exists>s. cmp_str_field row f d = Inr s"
  using assms by (intro cmp_str_reads) (auto simp: ordinary_aggregate_def ordinary_identity_def list_all_iff)

lemma ordinary_errors:
  assumes "ordinary_aggregate suite row"
  shows "optional_fields row" "integer_ge 0 (get row ''errors_total'')"
  using assms by (auto simp: ordinary_aggregate_def aggregate_counts_def)

lemma ordinary_requests:
  assumes "ordinary_aggregate suite row" "suite \<notin> set OPERATION_SUITES"
  shows "\<exists>i. cmp_int_field row ''warmup_errors_total'' = Inr i"
    "\<exists>i. cmp_int_field row ''concurrency'' = Inr i" "\<exists>i. cmp_int_field row ''request_limit'' = Inr i"
  using assms
  by (auto intro!: cmp_int_reads simp: ordinary_aggregate_def aggregate_counts_def ordinary_identity_def Let_def)

lemma ordinary_primary:
  assumes "ordinary_aggregate suite row" "suite \<noteq> ''resource-backpressure''"
    and "map_of AGGREGATE_PRIMARY_FIELDS suite = Some k"
  shows "\<exists>x. some_float row k = Inr x"
  using assms by (intro some_float_reads) (auto simp: ordinary_aggregate_def primary_value_def)

lemmas ordinary_tables = ORDINARY_IDENTITY_FIELDS_def AGGREGATE_PRIMARY_FIELDS_def OPERATION_SUITES_def

text \<open>The tail of a request-like row.\<close>

lemma request_tail_reads:
  assumes "ordinary_aggregate suite row" "suite \<notin> set OPERATION_SUITES" "\<exists>x. some_float row k = Inr x"
  shows "\<exists>b. build_row s row identity label mode client scenario (some_float row k)
    (cmp_int_field row ''warmup_errors_total'') (cmp_optional_float_field row ''error_rate_percent'')
    (resource_float_field row ''rss_mb_max'') (resource_int_field row ''threads_max'')
    (resource_int_field row ''fds_max'') = Inr b"
  using ordinary_errors [OF assms(1)] ordinary_requests [OF assms(1,2)] assms(3)
  by (intro build_row_reads optional_fields_read) auto

lemma operation_tail_reads:
  assumes "ordinary_aggregate suite row" "\<exists>x. some_float row k = Inr x"
    and "\<exists>x. rss = Inr x" "\<exists>x. threads = Inr x" "\<exists>x. fds = Inr x"
  shows "\<exists>b. build_row s row identity label mode client scenario (some_float row k) (Inr 0) (Inr None)
    rss threads fds = Inr b"
  using ordinary_errors [OF assms(1)] assms(2-) by (intro build_row_reads) auto

lemma bindE_reads: "\<exists>x. m = Inr x \<Longrightarrow> (\<And>x. \<exists>y. f x = Inr y) \<Longrightarrow> \<exists>y. bindE m f = Inr y"
  by auto

lemma suite_row_reads:
  assumes "loadable suite row"
  shows "\<exists>b. suite_row suite row = Inr b"
proof -
  have a: "ordinary_aggregate suite row" and i: "\<exists>i. aggregate_identity suite row = Inr i"
    and profile: "ordinary_profile suite row"
    and count: "suite = ''resource-backpressure'' \<Longrightarrow> \<exists>x. some_float row ''ok_requests_total'' = Inr x"
    using assms by (auto simp: loadable_def intro: some_float_reads)
  from assms obtain names where names: "map_of ORDINARY_IDENTITY_FIELDS suite = Some names"
    by (auto simp: loadable_def)
  note strings = ordinary_strings [OF a names]
  consider "suite = ''requests'' \<or> suite = ''compressed-response''" | "suite = ''client-creation''"
    | "suite = ''resource-backpressure''" | "suite = ''one-upstream''" | "suite = ''request-builder''"
    | "suite = ''response-streaming''" | "suite = ''proxy-connect''"
    using names by (auto simp: ORDINARY_IDENTITY_FIELDS_def split: if_splits)
  then show ?thesis
  proof cases
    case 1
    have "\<exists>x. some_float row ''ok_req_s_median'' = Inr x"
      using ordinary_primary [OF a, of "''ok_req_s_median''"] 1 by (auto simp: ordinary_tables)
    moreover have "suite \<notin> set OPERATION_SUITES" using 1 by (auto simp: ordinary_tables)
    moreover have "''scenario'' \<in> set names" using names 1 by (auto simp: ordinary_tables)
    ultimately have "\<exists>b. request_row row suite = Inr b"
      unfolding request_row_def
      by (intro bindE_reads i strings ordinary_requests [OF a] request_tail_reads [OF a]) auto
    with 1 show ?thesis by (auto simp: suite_row_def)
  next
    case 2
    have "\<exists>x. some_float row ''ops_s_median'' = Inr x"
      using ordinary_primary [OF a, of "''ops_s_median''"] 2 by (auto simp: ordinary_tables)
    moreover have "''scenario'' \<in> set names" using names 2 by (auto simp: ordinary_tables)
    moreover have "\<exists>n. cmp_int_field row ''client_count'' = Inr n" "\<exists>n. cmp_int_field row ''iterations'' = Inr n"
      using a 2 by (auto intro!: cmp_int_reads simp: ordinary_aggregate_def ordinary_identity_def ordinary_tables)
    ultimately have "\<exists>b. client_creation_row row = Inr b"
      unfolding client_creation_row_def
      using i 2 by (intro bindE_reads strings operation_tail_reads [OF a]
          optional_fields_read ordinary_errors [OF a]) auto
    with 2 show ?thesis by (auto simp: suite_row_def)
  next
    case 3
    have "suite \<notin> set OPERATION_SUITES" using 3 by (auto simp: ordinary_tables)
    moreover have "''scenario'' \<in> set names" using names 3 by (auto simp: ordinary_tables)
    moreover have "\<exists>n. cmp_int_field row ''max_pending_requests'' = Inr n"
      using a 3 by (auto intro!: cmp_int_reads simp: ordinary_aggregate_def ordinary_identity_def)
    moreover have "\<exists>n. cmp_optional_int_field row ''per_origin_request_limit'' = Inr n"
      using a 3 cmp_int_reads [of row "''per_origin_request_limit''"]
      by (auto simp: cmp_optional_int_field_def ordinary_aggregate_def ordinary_identity_def nullable_def)
    ultimately have "\<exists>b. resource_row row = Inr b"
      unfolding resource_row_def
      using i 3 by (intro bindE_reads strings ordinary_requests [OF a] request_tail_reads [OF a] count) auto
    with 3 show ?thesis by (auto simp: suite_row_def)
  next
    case 4
    have "\<exists>x. some_float row ''ok_req_s_median'' = Inr x"
      using ordinary_primary [OF a, of "''ok_req_s_median''"] 4 by (auto simp: ordinary_tables)
    moreover have "suite \<notin> set OPERATION_SUITES" using 4 by (auto simp: ordinary_tables)
    moreover have "set names = {''case'', ''group'', ''profile''}" using names 4 by (auto simp: ordinary_tables)
    ultimately have "\<exists>b. one_upstream_row row = Inr b"
      unfolding one_upstream_row_def
      using i 4 by (intro bindE_reads strings ordinary_requests [OF a] request_tail_reads [OF a]) auto
    with 4 show ?thesis by (auto simp: suite_row_def)
  next
    case 5
    have "\<exists>x. some_float row ''ops_s_median'' = Inr x"
      using ordinary_primary [OF a, of "''ops_s_median''"] 5 by (auto simp: ordinary_tables)
    moreover have "set names = {''case'', ''group'', ''kind'', ''profile''}"
      using names 5 by (auto simp: ordinary_tables)
    ultimately have "\<exists>b. request_builder_row row = Inr b"
      unfolding request_builder_row_def
      using i 5 by (intro bindE_reads strings operation_tail_reads [OF a]
          optional_fields_read ordinary_errors [OF a]) auto
    with 5 show ?thesis by (auto simp: suite_row_def)
  next
    case 6
    have "\<exists>x. some_float row ''ok_streams_s_median'' = Inr x"
      using ordinary_primary [OF a, of "''ok_streams_s_median''"] 6 by (auto simp: ordinary_tables)
    moreover have "suite \<notin> set OPERATION_SUITES" using 6 by (auto simp: ordinary_tables)
    moreover have "set names = {''case'', ''read'', ''consume''}" using names 6 by (auto simp: ordinary_tables)
    moreover have plain: "research_profile row = Inr False"
        "(get row ''profile'' = JStr ''async-bytes'') = False"
        "(get row ''profile'' = JStr ''lifecycle'') = False"
      using profile 6 by (auto simp: ordinary_profile_def research_profile_def)
    ultimately have "\<exists>b. response_streaming_row row = Inr b"
      unfolding response_streaming_row_def Let_def plain bindE_simps if_False
      using i 6 by (intro bindE_reads strings ordinary_requests [OF a] request_tail_reads [OF a]) auto
    with 6 show ?thesis by (auto simp: suite_row_def)
  next
    case 7
    have "\<exists>x. some_float row ''ok_req_s_median'' = Inr x"
      using ordinary_primary [OF a, of "''ok_req_s_median''"] 7 by (auto simp: ordinary_tables)
    moreover have "suite \<notin> set OPERATION_SUITES" using 7 by (auto simp: ordinary_tables)
    moreover have "set names = {''case'', ''group'', ''target_scheme'', ''config'', ''lifecycle''}"
      using names 7 by (auto simp: ordinary_tables)
    ultimately have "\<exists>b. proxy_connect_row row = Inr b"
      unfolding proxy_connect_row_def
      using i 7 by (intro bindE_reads strings ordinary_requests [OF a] request_tail_reads [OF a]) auto
    with 7 show ?thesis by (auto simp: suite_row_def)
  qed
qed

lemma build_row_identity: 
  "build_row suite row identity label mode client scenario primary warmup rate rss threads fds = Inr b \<Longrightarrow>
     br_identity b = identity \<and> br_group b = comparison_group identity \<and> br_client b = client \<and>
     br_suite b = suite"
  by (auto simp: build_row_def bindE_ok)

lemma bindE_elim: "bindE m f = Inr y \<Longrightarrow> (\<And>x. m = Inr x \<Longrightarrow> f x = Inr y \<Longrightarrow> P) \<Longrightarrow> P"
  by (auto simp: bindE_ok)

lemma suite_row_identity:
  assumes "suite_row suite row = Inr b"
  shows "aggregate_identity suite row = Inr (br_identity b) \<and> br_group b = comparison_group (br_identity b)"
proof -
  have request: "request_row row suite = Inr b \<Longrightarrow> aggregate_identity suite row = Inr (br_identity b) \<and>
      br_group b = comparison_group (br_identity b)"
    unfolding request_row_def Let_def by (elim bindE_elim) (drule build_row_identity, simp)
  have client_creation: "client_creation_row row = Inr b \<Longrightarrow> aggregate_identity ''client-creation'' row = Inr (br_identity b) \<and>
      br_group b = comparison_group (br_identity b)"
    unfolding client_creation_row_def Let_def by (elim bindE_elim) (drule build_row_identity, simp)
  have resource: "resource_row row = Inr b \<Longrightarrow> aggregate_identity ''resource-backpressure'' row = Inr (br_identity b) \<and>
      br_group b = comparison_group (br_identity b)"
    unfolding resource_row_def Let_def by (elim bindE_elim) (drule build_row_identity, simp)
  have one_upstream: "one_upstream_row row = Inr b \<Longrightarrow> aggregate_identity ''one-upstream'' row = Inr (br_identity b) \<and>
      br_group b = comparison_group (br_identity b)"
    unfolding one_upstream_row_def Let_def by (elim bindE_elim) (drule build_row_identity, simp)
  have request_builder: "request_builder_row row = Inr b \<Longrightarrow> aggregate_identity ''request-builder'' row = Inr (br_identity b) \<and>
      br_group b = comparison_group (br_identity b)"
    unfolding request_builder_row_def Let_def by (elim bindE_elim) (drule build_row_identity, simp)
  have response_streaming: "response_streaming_row row = Inr b \<Longrightarrow> aggregate_identity ''response-streaming'' row = Inr (br_identity b) \<and>
      br_group b = comparison_group (br_identity b)"
    unfolding response_streaming_row_def Let_def by (elim bindE_elim) (drule build_row_identity, simp)
  have proxy_connect: "proxy_connect_row row = Inr b \<Longrightarrow> aggregate_identity ''proxy-connect'' row = Inr (br_identity b) \<and>
      br_group b = comparison_group (br_identity b)"
    unfolding proxy_connect_row_def Let_def by (elim bindE_elim) (drule build_row_identity, simp)
  from assms show ?thesis
    unfolding suite_row_def
    by (auto split: if_splits dest: request client_creation resource one_upstream request_builder
        response_streaming proxy_connect)
qed

lemma benchmark_row_steps:
  assumes "benchmark_row suite row = Inr b"
  obtains c where "suite_row suite row = Inr c" "br_identity b = br_identity c" "br_group b = br_group c"
proof -
  show thesis
    using assms unfolding benchmark_row_def Let_def
    by (elim bindE_elim) (rule that, assumption, auto)
qed

lemma benchmark_row_reads:
  assumes "loadable suite row"
  shows "\<exists>b. benchmark_row suite row = Inr b"
proof -
  have "(if suite = ''response-streaming'' then research_profile row else Inr False) = Inr False"
    using assms by (auto simp: loadable_def ordinary_profile_def research_profile_def)
  with assms suite_row_reads [OF assms] show ?thesis
    by (auto simp: benchmark_row_def loadable_def)
qed

interpretation comparison_reader: row_reader "loadable suite" "benchmark_row suite"
    "aggregate_identity suite" br_identity for suite
proof unfold_locales
  show "\<exists>b. benchmark_row suite row = Inr b" if "loadable suite row" for row
    using that by (rule benchmark_row_reads)
  show "aggregate_identity suite row = Inr (br_identity b)" if "benchmark_row suite row = Inr b" for row b
    using that suite_row_identity by (metis benchmark_row_steps)
qed

text \<open>The coverage record of a row reads the same whatever path its errors would name.\<close>

lemma coverage_path: "resource_coverage_field row p = Inr c \<Longrightarrow> resource_coverage_field row q = Inr c"
proof -
  have one: "coverage_record p kv = Inr mo \<Longrightarrow> coverage_record q kv = Inr mo" for kv mo p q
    unfolding coverage_record_def Let_def
    by (cases "get (object_value (snd kv)) ''unavailable_reasons''")
      (auto simp: ok split: if_splits)
  have "mapE (coverage_record p) xs = Inr c \<Longrightarrow> mapE (coverage_record q) xs = Inr c" for xs c
    by (induction xs arbitrary: c) (auto simp: bindE_ok dest: one)
  then show "resource_coverage_field row p = Inr c \<Longrightarrow> resource_coverage_field row q = Inr c"
    by (auto simp: resource_coverage_field_def ok simp del: mapE_ok split: if_splits)
qed

lemma coverage_admitted:
  assumes "validate_ordinary_resource_coverage suite aggregates runs current = Inr ()" "row \<in> set aggregates"
  shows "resource_coverage_field row ''row'' \<in> range Inr"
proof -
  from assms(1) obtain groups where
      "foriE (check_aggregate_coverage suite groups (runs \<noteq> []) current) 0 aggregates = Inr ()"
    by (auto simp: validate_ordinary_resource_coverage_def bindE_ok)
  from foriE_Inr_imp [OF this assms(2)] obtain k where
      "check_aggregate_coverage suite groups (runs \<noteq> []) current k row = Inr ()"
    by blast
  then obtain c where "resource_coverage_field row (index_path ''aggregate'' k) = Inr c"
    by (auto simp: check_aggregate_coverage_def validate_resource_coverage_def Let_def bindE_ok split: if_splits)
  then show ?thesis using coverage_path by blast
qed

subsection \<open>Properties\<close>

text \<open>
  C7: what the reader admits, the comparison can load: every aggregate row of a decoded ordinary
  report converts to a comparison row, and the comparison rows have pairwise distinct identities.
  (A streaming row must not have a list or an object as its profile, and a resource row's success
  count must fit a float: the reader checks neither.)\<close>

theorem decoded_rows_load:
  assumes "decode_report_payload v expected = Inr r"
    and "\<not> is_research (dr_suite r) (dr_metadata r) (dr_aggregate_rows r)"
    and "list_all (\<lambda>row. \<not> is_list (get row ''profile'') \<and> \<not> is_dict (get row ''profile''))
      (dr_aggregate_rows r)"
    and "dr_suite r = ''resource-backpressure'' \<longrightarrow>
      list_all (\<lambda>row. number_ge_zero (get row ''ok_requests_total'')) (dr_aggregate_rows r)"
  shows "\<exists>rows. mapE (benchmark_row (dr_suite r)) (dr_aggregate_rows r) = Inr rows \<and>
    distinct (map br_identity rows)"
proof -
  from assms(1) obtain
    valid: "validate_rows (dr_suite r) (dr_metadata r) (dr_aggregate_rows r) (dr_run_rows r) = Inr ()"
    and unique: "validate_unique_aggregate_rows (dr_suite r) (dr_aggregate_rows r) None = Inr ()"
    by (rule decode_steps)
  from valid assms(2) have rows: "validate_ordinary_rows (dr_suite r) (dr_aggregate_rows r) (dr_run_rows r) = Inr ()"
      and coverage: "validate_ordinary_resource_coverage (dr_suite r) (dr_aggregate_rows r) (dr_run_rows r)
        (py_eq (get (dr_metadata r) ''resource_metric_schema_version'') (JInt RESOURCE_METRIC_SCHEMA_VERSION)) = Inr ()"
    unfolding validate_rows_def by (auto simp: bindE_unit_ok)
  from unique obtain ids where ids: "mapE (aggregate_identity (dr_suite r)) (dr_aggregate_rows r) = Inr ids"
      "distinct ids"
    by (auto simp: unique_rows_exact)
  have "loadable (dr_suite r) row" if row: "row \<in> set (dr_aggregate_rows r)" for row
  proof -
    have "ordinary_profile (dr_suite r) row"
      using assms(2,3) row
      by (auto simp: ordinary_profile_def is_research_def uses_streaming_profile_def list_all_iff list_ex_iff)
    moreover have "aggregate_identity (dr_suite r) row \<in> range Inr"
      using mapE_member [OF ids(1) row] by auto
    ultimately show ?thesis
      using rows coverage_admitted [OF coverage row] row assms(4)
      by (auto simp: loadable_def ordinary_rows_exact list_all_iff)
  qed
  then have "list_all (loadable (dr_suite r)) (dr_aggregate_rows r)" by (simp add: list_all_iff)
  from comparison_reader.read_distinct [OF this ids] show ?thesis by blast
qed

lemma decoded_rows_load_witness:
  "\<exists>r rows. decode_report_payload legacy_document None = Inr r \<and>
     mapE (benchmark_row (dr_suite r)) (dr_aggregate_rows r) = Inr rows \<and> distinct (map br_identity rows)"
proof -
  have "case decode_report_payload legacy_document None of Inl _ \<Rightarrow> False
    | Inr r \<Rightarrow> \<not> is_research (dr_suite r) (dr_metadata r) (dr_aggregate_rows r) \<and>
        list_all (\<lambda>row. \<not> is_list (get row ''profile'') \<and> \<not> is_dict (get row ''profile''))
          (dr_aggregate_rows r) \<and> dr_suite r \<noteq> ''resource-backpressure''"
    by code_simp
  then obtain r where "decode_report_payload legacy_document None = Inr r"
      "\<not> is_research (dr_suite r) (dr_metadata r) (dr_aggregate_rows r)"
      "list_all (\<lambda>row. \<not> is_list (get row ''profile'') \<and> \<not> is_dict (get row ''profile''))
          (dr_aggregate_rows r)" "dr_suite r \<noteq> ''resource-backpressure''"
    by (auto split: sum.splits)
  with decoded_rows_load [of legacy_document None r] show ?thesis by blast
qed

end
