(* ===== verification/Compare_Analysis.thy ===== *)
theory Compare_Analysis
  imports Compare_Loading "HOL-Library.Product_Lexorder"
begin

text \<open>
  compare/analysis.py with the result records of compare/models.py: the comparison of two loaded
  reports. The logarithm, the exponential and the summation of floats are the platform's; the
  record \<open>float_library\<close> names the three functions the geometric mean uses, and every definition
  that needs them takes it as a parameter.
\<close>

subsection \<open>Result records\<close>

record ComparisonMetadata =
  cm_old_path :: string
  cm_new_path :: string
  cm_suite :: string
  cm_focus_client :: string
  cm_old_timestamp :: string
  cm_new_timestamp :: string
  cm_old_focus_version :: string
  cm_new_focus_version :: string
  cm_comparison_axis :: "string option"

record ComparisonValidity =
  cv_old_status :: validity_status
  cv_new_status :: validity_status
  cv_blocks_strong_conclusions :: bool
  cv_old_reason_count :: int
  cv_new_reason_count :: int
  cv_old_reasons :: "string list"
  cv_new_reasons :: "string list"

record SegmentSummary =
  ss_name :: string
  ss_rows :: int
  ss_primary_geomean_ratio :: "pyfloat option"
  ss_primary_median_ratio :: "pyfloat option"
  ss_p95_geomean_ratio :: "pyfloat option"
  ss_p99_geomean_ratio :: "pyfloat option"

record RowComparison =
  rc_row :: BenchmarkRow
  rc_old_primary :: pyfloat
  rc_new_primary :: pyfloat
  rc_primary_ratio :: pyfloat
  rc_old_p95_ms :: "pyfloat option"
  rc_new_p95_ms :: "pyfloat option"
  rc_p95_ratio :: "pyfloat option"
  rc_old_p99_ms :: "pyfloat option"
  rc_new_p99_ms :: "pyfloat option"
  rc_p99_ratio :: "pyfloat option"
  rc_old_errors_total :: int
  rc_new_errors_total :: int
  rc_old_error_rate_percent :: "pyfloat option"
  rc_new_error_rate_percent :: "pyfloat option"

record ErrorRow =
  er_label :: string
  er_mode :: string
  er_client :: string
  er_scenario :: string
  er_errors_total :: int
  er_warmup_errors_total :: int
  er_error_rate_percent :: "pyfloat option"

record WinsSnapshot =
  ws_wins :: int
  ws_groups :: int
  ws_ratios_to_winner :: "pyfloat list"
  ws_ranks :: "pyfloat list"

record WinsComparison =
  wc_old_wins :: int
  wc_new_wins :: int
  wc_comparable_groups :: int
  wc_old_geomean_to_winner :: "pyfloat option"
  wc_new_geomean_to_winner :: "pyfloat option"
  wc_old_average_rank :: "pyfloat option"
  wc_new_average_rank :: "pyfloat option"

record ResourceSummary =
  rs_old_rss_mb_max :: "pyfloat option"
  rs_new_rss_mb_max :: "pyfloat option"
  rs_old_threads_max :: "int option"
  rs_new_threads_max :: "int option"
  rs_old_fds_max :: "int option"
  rs_new_fds_max :: "int option"
  rs_old_errors_total :: int
  rs_new_errors_total :: int
  rs_comparable :: bool
  rs_old_measurement_scope :: string
  rs_new_measurement_scope :: string
  rs_incomparable_reason :: "string option"

record ResourceCoverageComparison =
  rcc_label :: string
  rcc_old :: resource_coverage
  rcc_new :: resource_coverage
  rcc_old_unavailable_reasons :: "(string \<times> string list) list"
  rcc_new_unavailable_reasons :: "(string \<times> string list) list"

record ComparisonResult =
  cr_metadata :: ComparisonMetadata
  cr_validity :: ComparisonValidity
  cr_overall :: SegmentSummary
  cr_by_mode :: "SegmentSummary list"
  cr_by_scenario :: "SegmentSummary list"
  cr_wins :: "WinsComparison option"
  cr_top_improvements :: "RowComparison list"
  cr_top_regressions :: "RowComparison list"
  cr_new_error_rows :: "ErrorRow list"
  cr_resource_summary :: ResourceSummary
  cr_unmatched_old_rows :: int
  cr_unmatched_new_rows :: int
  cr_resource_coverage :: "ResourceCoverageComparison list"

record float_library =
  fl_log :: "pyfloat \<Rightarrow> pyfloat"
  fl_sum :: "pyfloat list \<Rightarrow> pyfloat"
  fl_exp :: "pyfloat \<Rightarrow> pyfloat result"

subsection \<open>Numbers\<close>

text \<open>The divisor of the last case is positive, so the division does not raise.\<close>

definition safe_ratio :: "pyfloat \<Rightarrow> pyfloat \<Rightarrow> pyfloat" where
  "safe_ratio new_value old_value =
     (if fle old_value (Fin 0) then (if flt (Fin 0) new_value then PInf else Fin 1)
      else case fdiv new_value old_value of Inl _ \<Rightarrow> NaN | Inr q \<Rightarrow> q)"

definition optional_ratio :: "pyfloat option \<Rightarrow> pyfloat option \<Rightarrow> pyfloat option" where
  "optional_ratio new_value old_value =
     (case (new_value, old_value) of (Some x, Some y) \<Rightarrow> Some (safe_ratio x y) | _ \<Rightarrow> None)"

definition geomean :: "float_library \<Rightarrow> pyfloat list \<Rightarrow> pyfloat option result" where
  "geomean lib values =
     (let present = filter (\<lambda>v. flt (Fin 0) v \<and> is_finite v) values
      in if present = [] then Inr None
         else
           bindE (fdiv (fl_sum lib (map (fl_log lib) present)) (Fin (of_nat (length present)))) (\<lambda>m.
           bindE (fl_exp lib m) (\<lambda>x. Inr (Some x))))"

definition median :: "pyfloat list \<Rightarrow> pyfloat option" where
  "median values =
     (let present = sort (filter is_finite values); n = length present
      in if present = [] then None
         else if odd n then Some (present ! (n div 2))
         else
           (case fdiv (fadd (present ! (n div 2 - 1)) (present ! (n div 2))) (Fin 2) of
              Inl _ \<Rightarrow> None | Inr q \<Rightarrow> Some q))"

text \<open>\<^verbatim>\<open>statistics.mean\<close> adds exactly and rounds once; its arguments here are finite ranks.\<close>

fun exact_value :: "pyfloat \<Rightarrow> rat" where
  "exact_value (Fin r) = r"
| "exact_value x = 0"

definition mean :: "pyfloat list \<Rightarrow> pyfloat option" where
  "mean values =
     (if values = [] then None
      else Some (round64 (sum_list (map exact_value values) / of_nat (length values))))"

definition present_values :: "'a option list \<Rightarrow> 'a list" where
  "present_values values = List.map_filter id values"

definition max_optional :: "pyfloat option list \<Rightarrow> pyfloat option" where
  "max_optional values =
     (case present_values values of [] \<Rightarrow> None | x # xs \<Rightarrow> Some (foldl (\<lambda>m v. if flt m v then v else m) x xs))"

definition max_optional_int :: "int option list \<Rightarrow> int option" where
  "max_optional_int values =
     (case present_values values of [] \<Rightarrow> None | x # xs \<Rightarrow> Some (foldl max x xs))"

text \<open>\<^verbatim>\<open>sorted(..., reverse=True)\<close> is stable, and a slice \<^verbatim>\<open>[:n]\<close> counts from the end for \<open>n < 0\<close>.\<close>

definition sort_descending :: "('a \<Rightarrow> 'b :: linorder) \<Rightarrow> 'a list \<Rightarrow> 'a list" where
  "sort_descending f xs = rev (sort_key f (rev xs))"

definition slice_to :: "int \<Rightarrow> 'a list \<Rightarrow> 'a list" where
  "slice_to n xs = (if 0 \<le> n then take (nat n) xs else take (length xs - nat (- n)) xs)"

subsection \<open>Rows\<close>

definition canonical_rows :: "BenchmarkReport \<Rightarrow> BenchmarkRow list result" where
  "canonical_rows report =
     bindE (validate_unique_identities (map (\<lambda>row. Inr (br_identity row)) (bp_rows report))
         (Some (map (\<lambda>i. bp_path report @ '':'' @ index_path ''aggregate'' i) [0..<length (bp_rows report)]))) (\<lambda>_.
       Inr (sort_key br_identity (bp_rows report)))"

definition focus_rows_by_identity :: "BenchmarkReport \<Rightarrow> string \<Rightarrow> (string list \<times> BenchmarkRow) list result" where
  "focus_rows_by_identity report focus_client =
     bindE (canonical_rows report) (\<lambda>rows.
       Inr (map (\<lambda>row. (br_identity row, row))
         (filter (\<lambda>row. br_client row = focus_client \<and> br_primary_value row \<noteq> None) rows)))"

definition compare_row :: "BenchmarkRow \<Rightarrow> BenchmarkRow \<Rightarrow> RowComparison result" where
  "compare_row old_row new_row =
     (case (br_primary_value old_row, br_primary_value new_row) of
        (Some old_primary, Some new_primary) \<Rightarrow>
          Inr \<lparr>rc_row = new_row, rc_old_primary = old_primary, rc_new_primary = new_primary,
               rc_primary_ratio = safe_ratio new_primary old_primary,
               rc_old_p95_ms = br_p95_ms old_row, rc_new_p95_ms = br_p95_ms new_row,
               rc_p95_ratio = optional_ratio (br_p95_ms new_row) (br_p95_ms old_row),
               rc_old_p99_ms = br_p99_ms old_row, rc_new_p99_ms = br_p99_ms new_row,
               rc_p99_ratio = optional_ratio (br_p99_ms new_row) (br_p99_ms old_row),
               rc_old_errors_total = br_errors_total old_row,
               rc_new_errors_total = br_errors_total new_row,
               rc_old_error_rate_percent = br_error_rate_percent old_row,
               rc_new_error_rate_percent = br_error_rate_percent new_row\<rparr>
      | _ \<Rightarrow> Inl (ValueError ''Missing primary measurements cannot be compared''))"

subsection \<open>Segments\<close>

definition summarize_segment :: "float_library \<Rightarrow> string \<Rightarrow> RowComparison list \<Rightarrow> SegmentSummary result" where
  "summarize_segment lib name comparisons =
     (let primary_ratios = map rc_primary_ratio comparisons
      in bindE (geomean lib primary_ratios) (\<lambda>primary.
         bindE (geomean lib (present_values (map rc_p95_ratio comparisons))) (\<lambda>p95.
         bindE (geomean lib (present_values (map rc_p99_ratio comparisons))) (\<lambda>p99.
           Inr \<lparr>ss_name = name, ss_rows = int (length comparisons), ss_primary_geomean_ratio = primary,
                ss_primary_median_ratio = median primary_ratios, ss_p95_geomean_ratio = p95,
                ss_p99_geomean_ratio = p99\<rparr>))))"

definition summarize_by ::
  "float_library \<Rightarrow> (RowComparison \<Rightarrow> string) \<Rightarrow> RowComparison list \<Rightarrow> SegmentSummary list result"
where
  "summarize_by lib segment_name comparisons =
     mapE (\<lambda>(name, items). summarize_segment lib name items)
       (sort_key fst (group_by segment_name comparisons))"

subsection \<open>Wins\<close>

definition wins_step :: "string \<Rightarrow> WinsSnapshot \<Rightarrow> BenchmarkRow list \<Rightarrow> WinsSnapshot" where
  "wins_step focus_client acc rows =
     (case find (\<lambda>row. br_client row = focus_client) rows of
        None \<Rightarrow> acc
      | Some focus_row \<Rightarrow>
          (let ranked = sort_descending (\<lambda>row. case br_primary_value row of None \<Rightarrow> Fin 0 | Some x \<Rightarrow> x)
                 (filter (\<lambda>row. br_primary_value row \<noteq> None) rows)
           in case (ranked, br_primary_value focus_row) of
                (winner # _, Some focus_value) \<Rightarrow>
                  (let acc = acc\<lparr>ws_groups := ws_groups acc + 1,
                         ws_wins := (if br_client winner = focus_client then ws_wins acc + 1 else ws_wins acc)\<rparr>
                   in case br_primary_value winner of
                        None \<Rightarrow> acc
                      | Some best \<Rightarrow>
                          acc\<lparr>ws_ratios_to_winner := ws_ratios_to_winner acc @ [safe_ratio focus_value best],
                              ws_ranks := ws_ranks acc @
                                [Fin (of_nat (1 + length (takeWhile (\<lambda>row. br_client row \<noteq> focus_client) ranked)))]\<rparr>)
              | _ \<Rightarrow> acc))"

definition wins_for_report :: "BenchmarkReport \<Rightarrow> string \<Rightarrow> WinsSnapshot option result" where
  "wins_for_report report focus_client =
     bindE (canonical_rows report) (\<lambda>ordered_rows.
       Inr (if bp_suite report = ''resource-backpressure'' \<or>
               uses_streaming_profile (bp_metadata report) (bp_aggregate_rows report) ''lifecycle'' \<or>
               uses_streaming_profile (bp_metadata report) (bp_aggregate_rows report) ''async-bytes''
            then None
            else Some (foldl (wins_step focus_client)
              \<lparr>ws_wins = 0, ws_groups = 0, ws_ratios_to_winner = [], ws_ranks = []\<rparr>
              (map snd (group_by br_group ordered_rows)))))"

definition compare_wins ::
  "float_library \<Rightarrow> BenchmarkReport \<Rightarrow> BenchmarkReport \<Rightarrow> string \<Rightarrow> WinsComparison option result"
where
  "compare_wins lib old_report new_report focus_client =
     bindE (wins_for_report old_report focus_client) (\<lambda>old.
     bindE (wins_for_report new_report focus_client) (\<lambda>new.
       case (old, new) of
         (Some o_wins, Some n_wins) \<Rightarrow>
           bindE (geomean lib (ws_ratios_to_winner o_wins)) (\<lambda>old_geomean.
           bindE (geomean lib (ws_ratios_to_winner n_wins)) (\<lambda>new_geomean.
             Inr (Some \<lparr>wc_old_wins = ws_wins o_wins, wc_new_wins = ws_wins n_wins,
                  wc_comparable_groups = min (ws_groups o_wins) (ws_groups n_wins),
                  wc_old_geomean_to_winner = old_geomean, wc_new_geomean_to_winner = new_geomean,
                  wc_old_average_rank = mean (ws_ranks o_wins),
                  wc_new_average_rank = mean (ws_ranks n_wins)\<rparr>)))
       | _ \<Rightarrow> Inr None))"

subsection \<open>Validity, errors, resources\<close>

definition foghttp_source :: "BenchmarkReport \<Rightarrow> json" where
  "foghttp_source report =
     (let manifest = get (object_value (get (bp_metadata report) ''research_provenance'')) ''manifest'';
          source = get (object_value manifest) ''source''
      in get (object_value source) ''sha'')"

definition validate_comparable_reports ::
  "(string \<Rightarrow> string) \<Rightarrow> BenchmarkReport \<Rightarrow> BenchmarkReport \<Rightarrow> string option \<Rightarrow> unit result"
where
  "validate_comparable_reports sha256 old_report new_report comparison_axis =
     all_ok
       [raise_if (bp_suite old_report = ''unknown'' \<or> bp_suite new_report = ''unknown'')
          (ValueError ''Benchmark suite could not be inferred for one of the reports''),
        raise_if (bp_suite old_report \<noteq> bp_suite new_report)
          (ValueError (''Reports must use the same benchmark suite: old='' @ bp_suite old_report @
             '', new='' @ bp_suite new_report)),
        raise_if (comparison_axis \<noteq> None \<and> comparison_axis \<noteq> Some ''foghttp-source'')
          (ValueError ''The supported explicit comparison axis is foghttp-source''),
        (if list_ex (\<lambda>r. uses_streaming_profile (bp_metadata r) (bp_aggregate_rows r) ''async-bytes'')
              [old_report, new_report] then
           bindE (harness_fingerprint sha256 (bp_metadata old_report)) (\<lambda>old_harness.
           bindE (harness_fingerprint sha256 (bp_metadata new_report)) (\<lambda>new_harness.
           all_ok
             [raise_if (old_harness \<noteq> new_harness)
                (ValueError ''Benchmark harness identities differ; this comparison requires the same measured harness''),
              raise_if (\<not> py_eq (foghttp_source old_report) (foghttp_source new_report) \<and>
                  comparison_axis \<noteq> Some ''foghttp-source'')
                (ValueError (''FogHTTP source revisions differ; explicitly select comparison_axis='' @
                   [CHR 0x27] @ ''foghttp-source'' @ [CHR 0x27]))]))
         else Inr ()),
        validate_timing_compatibility (bp_suite old_report) (bp_metadata old_report)
          (bp_aggregate_rows old_report) (bp_metadata new_report) (bp_aggregate_rows new_report)
          (Some (bp_run_rows old_report)) (Some (bp_run_rows new_report))]"

definition blocks_strong_conclusions :: "BenchmarkReport \<Rightarrow> BenchmarkReport \<Rightarrow> bool" where
  "blocks_strong_conclusions old_report new_report =
     (\<not> vs_can_compare (bp_validity old_report) \<or> \<not> vs_can_compare (bp_validity new_report))"

definition reason_summary :: "validity_reason \<Rightarrow> string" where
  "reason_summary r = status_name (vr_status r) @ '':'' @ vr_code r @ '':'' @ vr_row_label r"

definition comparison_validity :: "BenchmarkReport \<Rightarrow> BenchmarkReport \<Rightarrow> ComparisonValidity" where
  "comparison_validity old_report new_report =
     \<lparr>cv_old_status = vs_status (bp_validity old_report), cv_new_status = vs_status (bp_validity new_report),
      cv_blocks_strong_conclusions = blocks_strong_conclusions old_report new_report,
      cv_old_reason_count = vs_reason_count (bp_validity old_report),
      cv_new_reason_count = vs_reason_count (bp_validity new_report),
      cv_old_reasons = map reason_summary (vs_reasons (bp_validity old_report)),
      cv_new_reasons = map reason_summary (vs_reasons (bp_validity new_report))\<rparr>"

definition error_rows :: "BenchmarkReport \<Rightarrow> ErrorRow list result" where
  "error_rows report =
     bindE (canonical_rows report) (\<lambda>rows.
       Inr (sort_key (\<lambda>r. (er_mode r, er_client r, er_scenario r, er_label r))
         (map (\<lambda>row. \<lparr>er_label = br_label row, er_mode = br_mode row, er_client = br_client row,
              er_scenario = br_scenario row, er_errors_total = br_errors_total row,
              er_warmup_errors_total = br_warmup_errors_total row,
              er_error_rate_percent = br_error_rate_percent row\<rparr>)
           (filter (\<lambda>row. \<not> (br_errors_total row = 0 \<and> br_warmup_errors_total row = 0)) rows))))"

definition resource_summary ::
  "BenchmarkRow list \<Rightarrow> BenchmarkRow list \<Rightarrow> BenchmarkReport \<Rightarrow> BenchmarkReport \<Rightarrow> ResourceSummary"
where
  "resource_summary old_list new_list old_report new_report =
     (let scope = (\<lambda>r. py_str (get_default (bp_metadata r) ''measurement_scope'' (JStr ''legacy-unspecified'')));
          comparable = (scope old_report = scope new_report)
      in \<lparr>rs_old_rss_mb_max = (if comparable then max_optional (map br_rss_mb old_list) else None),
          rs_new_rss_mb_max = (if comparable then max_optional (map br_rss_mb new_list) else None),
          rs_old_threads_max = (if comparable then max_optional_int (map br_threads old_list) else None),
          rs_new_threads_max = (if comparable then max_optional_int (map br_threads new_list) else None),
          rs_old_fds_max = (if comparable then max_optional_int (map br_fds old_list) else None),
          rs_new_fds_max = (if comparable then max_optional_int (map br_fds new_list) else None),
          rs_old_errors_total = sum_list (map br_errors_total old_list),
          rs_new_errors_total = sum_list (map br_errors_total new_list),
          rs_comparable = comparable,
          rs_old_measurement_scope = scope old_report,
          rs_new_measurement_scope = scope new_report,
          rs_incomparable_reason =
            (if comparable then None
             else Some ''Process resource measurement scopes differ; RSS, fd and thread values are incomparable.'')\<rparr>)"

definition coverage_comparison :: "BenchmarkRow \<Rightarrow> BenchmarkRow \<Rightarrow> ResourceCoverageComparison" where
  "coverage_comparison old_row new_row =
     \<lparr>rcc_label = br_label new_row, rcc_old = br_resource_coverage old_row,
      rcc_new = br_resource_coverage new_row,
      rcc_old_unavailable_reasons = br_resource_unavailable_reasons old_row,
      rcc_new_unavailable_reasons = br_resource_unavailable_reasons new_row\<rparr>"

subsection \<open>The comparison\<close>

definition shared_pairs ::
  "(string list \<times> BenchmarkRow) list \<Rightarrow> (string list \<times> BenchmarkRow) list \<Rightarrow>
   (BenchmarkRow \<times> BenchmarkRow) list"
where
  "shared_pairs old_rows new_rows =
     map (\<lambda>k. (the (map_of old_rows k), the (map_of new_rows k)))
       (sort (filter (\<lambda>k. k \<in> set (map fst new_rows)) (map fst old_rows)))"

definition focus_version :: "BenchmarkReport \<Rightarrow> string \<Rightarrow> string" where
  "focus_version report focus_client =
     (case map_of (bp_package_versions report) focus_client of None \<Rightarrow> ''-'' | Some v \<Rightarrow> v)"

definition compare_reports ::
  "float_library \<Rightarrow> (string \<Rightarrow> string) \<Rightarrow> BenchmarkReport \<Rightarrow> BenchmarkReport \<Rightarrow> string \<Rightarrow> int \<Rightarrow>
   string option \<Rightarrow> ComparisonResult result"
where
  "compare_reports lib sha256 old_report new_report focus_client top_n comparison_axis =
     bindE (validate_comparable_reports sha256 old_report new_report comparison_axis) (\<lambda>_.
     bindE (focus_rows_by_identity old_report focus_client) (\<lambda>old_rows.
     bindE (focus_rows_by_identity new_report focus_client) (\<lambda>new_rows.
     let pairs = shared_pairs old_rows new_rows
     in if pairs = [] then
          Inl (ValueError (''No comparable rows found for focus client '' @ str_repr focus_client))
        else
          bindE (mapE (\<lambda>(old_row, new_row). compare_row old_row new_row) pairs) (\<lambda>comparisons.
          bindE (summarize_segment lib ''overall'' comparisons) (\<lambda>overall.
          bindE (summarize_by lib (\<lambda>item. br_mode (rc_row item)) comparisons) (\<lambda>by_mode.
          bindE (summarize_by lib (\<lambda>item. br_scenario (rc_row item)) comparisons) (\<lambda>by_scenario.
          bindE (if blocks_strong_conclusions old_report new_report then Inr None
                 else compare_wins lib old_report new_report focus_client) (\<lambda>wins.
          bindE (error_rows new_report) (\<lambda>errors.
            Inr \<lparr>cr_metadata =
                   \<lparr>cm_old_path = bp_path old_report, cm_new_path = bp_path new_report,
                    cm_suite = bp_suite new_report, cm_focus_client = focus_client,
                    cm_old_timestamp = bp_timestamp old_report, cm_new_timestamp = bp_timestamp new_report,
                    cm_old_focus_version = focus_version old_report focus_client,
                    cm_new_focus_version = focus_version new_report focus_client,
                    cm_comparison_axis = comparison_axis\<rparr>,
                 cr_validity = comparison_validity old_report new_report,
                 cr_overall = overall, cr_by_mode = by_mode, cr_by_scenario = by_scenario, cr_wins = wins,
                 cr_top_improvements = slice_to top_n (sort_descending rc_primary_ratio comparisons),
                 cr_top_regressions = slice_to top_n (sort_key rc_primary_ratio comparisons),
                 cr_new_error_rows = errors,
                 cr_resource_summary =
                   resource_summary (map snd old_rows) (map snd new_rows) old_report new_report,
                 cr_unmatched_old_rows =
                   int (length (filter (\<lambda>k. k \<notin> set (map fst new_rows)) (map fst old_rows))),
                 cr_unmatched_new_rows =
                   int (length (filter (\<lambda>k. k \<notin> set (map fst old_rows)) (map fst new_rows))),
                 cr_resource_coverage =
                   map (\<lambda>(old_row, new_row). coverage_comparison old_row new_row) pairs\<rparr>)))))))))"

subsection \<open>Lemmas\<close>

lemma canonical_ok:
  "canonical_rows report = Inr rows \<longleftrightarrow>
     distinct (map br_identity (bp_rows report)) \<and> rows = sort_key br_identity (bp_rows report)"
proof -
  have "map (\<lambda>row. Inr (br_identity row)) (bp_rows report) = map Inr (map br_identity (bp_rows report))"
    by simp
  then have shape: "map (\<lambda>row. Inr (br_identity row)) (bp_rows report) = map Inr ids \<longleftrightarrow>
      ids = map br_identity (bp_rows report)" for ids :: "string list list"
    by (metis inj_map_eq_map inj_Inr)
  have "validate_unique_identities (map (\<lambda>row. Inr (br_identity row)) (bp_rows report)) (Some names) = Inr ()
      \<longleftrightarrow> length names = length (bp_rows report) \<and> distinct (map br_identity (bp_rows report))" for names
    unfolding validate_unique_identities_def option.case check_positions_ok by (simp only: shape) auto
  then show ?thesis by (auto simp: canonical_rows_def bindE_unit_ok)
qed

lemma canonical_permute:
  assumes "mset rows' = mset (bp_rows report)" "distinct (map br_identity (bp_rows report))"
  shows "canonical_rows (report\<lparr>bp_rows := rows'\<rparr>) = canonical_rows report"
proof -
  have rows: "canonical_rows report = Inr (sort_key br_identity (bp_rows report))"
    using assms(2) by (simp add: canonical_ok)
  have "distinct (map br_identity rows')"
    using assms(2) mset_eq_imp_distinct_iff [of "map br_identity rows'" "map br_identity (bp_rows report)"]
      assms(1) by simp
  moreover have "inj_on br_identity (set (bp_rows report))"
    using assms(2) by (simp add: distinct_map)
  then have "sort_key br_identity rows' = sort_key br_identity (bp_rows report)"
    using assms(1) by (intro sort_key_inj_key_eq) (simp_all add: mset_eq_setD [OF assms(1)])
  ultimately have "canonical_rows (report\<lparr>bp_rows := rows'\<rparr>) = Inr (sort_key br_identity (bp_rows report))"
    by (simp add: canonical_ok)
  with rows show ?thesis by simp
qed

text \<open>A report with its rows and runs listed in another order, and the validity found for that order.\<close>

definition reordered ::
  "BenchmarkReport \<Rightarrow> BenchmarkRow list \<Rightarrow> obj list \<Rightarrow> obj list \<Rightarrow> validity_summary \<Rightarrow> BenchmarkReport"
where
  "reordered report rows aggregate runs validity =
     report\<lparr>bp_rows := rows, bp_aggregate_rows := aggregate, bp_run_rows := runs, bp_validity := validity\<rparr>"

lemma reordered_reads [simp]:
  "bp_path (reordered r xs as rs v) = bp_path r" "bp_suite (reordered r xs as rs v) = bp_suite r"
  "bp_timestamp (reordered r xs as rs v) = bp_timestamp r"
  "bp_package_versions (reordered r xs as rs v) = bp_package_versions r"
  "bp_metadata (reordered r xs as rs v) = bp_metadata r" "bp_validity (reordered r xs as rs v) = v"
  "bp_rows (reordered r xs as rs v) = xs" "bp_aggregate_rows (reordered r xs as rs v) = as"
  "bp_run_rows (reordered r xs as rs v) = rs"
  by (simp_all add: reordered_def)

lemma list_ex_mset:
  assumes "mset xs' = mset xs"
  shows "list_ex P xs' = list_ex P xs"
  unfolding list_ex_iff mset_eq_setD [OF assms] by (rule refl)

lemma envelope_mset:
  assumes "mset rows' = mset rows"
  shows "research_envelope_profile metadata rows' = research_envelope_profile metadata rows"
proof -
  have "list_ex async_bytes_envelope (metadata # rows') = list_ex async_bytes_envelope (metadata # rows)"
    using assms by (intro list_ex_mset) simp
  then show ?thesis unfolding research_envelope_profile_def list_ex_mset [OF assms] by (simp only:)
qed

lemma profile_mset:
  assumes "mset rows' = mset rows"
  shows "uses_streaming_profile metadata rows' profile = uses_streaming_profile metadata rows profile"
  unfolding uses_streaming_profile_def envelope_mset [OF assms] list_ex_mset [OF assms] by (rule refl)

lemma row_scopes_mset:
  assumes "mset rows' = mset rows"
  shows "validate_row_scopes scope rows' = validate_row_scopes scope rows"
proof -
  let ?declared = "\<lambda>row. has_key row ''timing_scope''"
  have filtered: "mset (filter ?declared rows') = mset (filter ?declared rows)" using assms by simp
  then have "filter ?declared rows' = [] \<longleftrightarrow> filter ?declared rows = []" by (metis mset_zero_iff)
  then show ?thesis
    unfolding validate_row_scopes_def Let_def list_ex_mset [OF filtered] mset_eq_length [OF filtered] mset_eq_length [OF assms]
    by (simp only:)
qed

lemma scope_of_value_ok: "scope_of_value s = Some scope \<Longrightarrow> scope_value scope = s"
  by (auto simp: scope_of_value_def find_Some_iff)

lemma report_timing_scope_accepted:
  "report_timing_scope suite metadata rows (Some runs) = Inr scope \<longleftrightarrow>
     (\<exists>current. current_timing_scope suite (report_profile suite metadata rows) = Inr current \<and>
        scope \<in> set (supported_scopes suite (report_profile suite metadata rows) current)) \<and>
     scope_of_value (scope_value scope) = Some scope \<and> declared_scope suite metadata rows = JStr (scope_value scope) \<and>
     validate_row_scopes (scope_value scope) rows = Inr () \<and> validate_row_scopes (scope_value scope) runs = Inr () \<and>
     \<not> (suite = RESPONSE_STREAMING_SUITE \<and> has_key metadata ''timing_scopes'' \<and>
        get metadata ''timing_scopes'' \<noteq> JList [JStr (scope_value scope)] \<and>
        \<not> (rows = [] \<and> get metadata ''timing_scopes'' = JList []))"
  (is "?lhs \<longleftrightarrow> ?rhs")
proof
  assume ?lhs
  then show ?rhs
    unfolding report_timing_scope_def Let_def
    by (auto simp: bindE_ok bindE_unit_ok raise_if_ok split: json.splits option.splits if_splits dest: scope_of_value_ok)
next
  assume ?rhs
  then show ?lhs
    unfolding report_timing_scope_def Let_def by (auto simp: bindE_ok bindE_unit_ok raise_if_ok)
qed

text \<open>The scope a streaming report takes from its first row is that of every row, when it is accepted.\<close>

lemma timing_scope_mset:
  assumes "report_timing_scope suite metadata rows (Some runs) = Inr scope"
    and "mset rows' = mset rows" "mset runs' = mset runs"
  shows "report_timing_scope suite metadata rows' (Some runs') = Inr scope"
proof -
  have profile: "report_profile suite metadata rows' = report_profile suite metadata rows"
    by (simp add: report_profile_def profile_mset [OF assms(2)])
  have empty: "rows' = [] \<longleftrightarrow> rows = []" using assms(2) by auto
  note accepted = assms(1) [unfolded report_timing_scope_accepted]
  have declared: "declared_scope suite metadata rows = JStr (scope_value scope)"
      and rows: "validate_row_scopes (scope_value scope) rows = Inr ()"
    using accepted by blast+
  have "get row ''timing_scope'' = JStr (scope_value scope)"
    if "row \<in> set rows" "has_key row ''timing_scope''" for row
    using rows that by (auto simp: validate_row_scopes_def raise_if_def list_ex_iff filter_empty_conv split: if_splits)
  moreover have "hd rows' \<in> set rows" if "rows \<noteq> []"
    using that empty mset_eq_setD [OF assms(2)] hd_in_set [of rows'] by auto
  ultimately have "declared_scope suite metadata rows' = JStr (scope_value scope)"
    using declared list_ex_mset [OF assms(2), of "\<lambda>row. \<not> has_key row ''timing_scope''"]
    by (auto simp: declared_scope_def profile empty Let_def list_ex_iff split: if_splits)
  with accepted show ?thesis
    unfolding report_timing_scope_accepted profile empty row_scopes_mset [OF assms(2)] row_scopes_mset [OF assms(3)]
    by blast
qed

text \<open>Every stage of a comparison sees only what the order leaves alone.\<close>

lemma comparable_parts:
  "validate_comparable_reports sha256 old new axis = Inr () \<longleftrightarrow>
     \<not> (bp_suite old = ''unknown'' \<or> bp_suite new = ''unknown'') \<and> \<not> bp_suite old \<noteq> bp_suite new \<and>
     axis \<in> {None, Some ''foghttp-source''} \<and>
     (uses_streaming_profile (bp_metadata old) (bp_aggregate_rows old) ''async-bytes'' \<or>
      uses_streaming_profile (bp_metadata new) (bp_aggregate_rows new) ''async-bytes'' \<longrightarrow>
        (\<exists>harness. harness_fingerprint sha256 (bp_metadata old) = Inr harness \<and>
           harness_fingerprint sha256 (bp_metadata new) = Inr harness) \<and>
        \<not> (\<not> py_eq (foghttp_source old) (foghttp_source new) \<and> axis \<noteq> Some ''foghttp-source'')) \<and>
     validate_timing_compatibility (bp_suite old) (bp_metadata old) (bp_aggregate_rows old) (bp_metadata new)
       (bp_aggregate_rows new) (Some (bp_run_rows old)) (Some (bp_run_rows new)) = Inr ()"
proof -
  have either: "list_ex P [a, b] = (P a \<or> P b)" for P and a b :: BenchmarkReport by simp
  have both: "bindE m (\<lambda>x. bindE n (\<lambda>y. all_ok [raise_if (x \<noteq> y) e, k])) = Inr () \<longleftrightarrow>
      (\<exists>x. m = Inr x \<and> n = Inr x) \<and> k = Inr ()" for m n :: "'a result" and e k
    by (auto simp: bindE_ok raise_if_ok)
  have all: "all_ok [a, b, c, (if u then d else Inr ()), t] = Inr () \<longleftrightarrow>
      a = Inr () \<and> b = Inr () \<and> c = Inr () \<and> (u \<longrightarrow> d = Inr ()) \<and> t = Inr ()" for a b c d t u
    by (auto simp: bindE_unit_ok)
  have axes: "\<not> (axis \<noteq> None \<and> axis \<noteq> Some ''foghttp-source'') \<longleftrightarrow> axis \<in> {None, Some ''foghttp-source''}" by blast
  show ?thesis
    unfolding validate_comparable_reports_def all either both raise_if_ok axes by (rule refl)
qed

lemma timing_parts:
  "validate_timing_compatibility suite old_metadata old_rows new_metadata new_rows old_runs new_runs = Inr () \<longleftrightarrow>
     (\<exists>scope. report_timing_scope suite old_metadata old_rows old_runs = Inr scope \<and>
        report_timing_scope suite new_metadata new_rows new_runs = Inr scope)"
  by (auto simp: validate_timing_compatibility_def bindE_ok raise_if_ok)

lemma comparable_reordered:
  assumes "validate_comparable_reports sha256 old new axis = Inr ()"
    and "mset as = mset (bp_aggregate_rows old)" "mset rs = mset (bp_run_rows old)"
    and "mset bs = mset (bp_aggregate_rows new)" "mset ss = mset (bp_run_rows new)"
  shows "validate_comparable_reports sha256 (reordered old xs as rs v) (reordered new ys bs ss w) axis = Inr ()"
proof -
  have source: "foghttp_source (reordered r zs ds ts u) = foghttp_source r" for r zs ds ts u
    by (simp add: foghttp_source_def)
  note parts = assms(1) [unfolded comparable_parts timing_parts]
  then obtain scope where "report_timing_scope (bp_suite old) (bp_metadata old) (bp_aggregate_rows old) (Some (bp_run_rows old)) = Inr scope"
      "report_timing_scope (bp_suite old) (bp_metadata new) (bp_aggregate_rows new) (Some (bp_run_rows new)) = Inr scope"
    by blast
  then have "\<exists>scope. report_timing_scope (bp_suite old) (bp_metadata old) as (Some rs) = Inr scope \<and>
      report_timing_scope (bp_suite old) (bp_metadata new) bs (Some ss) = Inr scope"
    by (intro exI [of _ scope] conjI timing_scope_mset [OF _ assms(2,3)] timing_scope_mset [OF _ assms(4,5)])
  with parts show ?thesis
    unfolding comparable_parts timing_parts reordered_reads source profile_mset [OF assms(2)] profile_mset [OF assms(4)]
    by (elim conjE) (intro conjI)
qed

lemma canonical_reordered:
  assumes "mset xs = mset (bp_rows r)" "distinct (map br_identity (bp_rows r))"
  shows "canonical_rows (reordered r xs as rs v) = canonical_rows r"
  using canonical_permute [OF assms] by (simp add: canonical_rows_def)

lemma compare_reordered:
  assumes compared: "compare_reports lib sha256 old new f n axis = Inr c"
    and old: "mset xs = mset (bp_rows old)" "mset as = mset (bp_aggregate_rows old)" "mset rs = mset (bp_run_rows old)"
      "vs_can_compare v = vs_can_compare (bp_validity old)"
    and new: "mset ys = mset (bp_rows new)" "mset bs = mset (bp_aggregate_rows new)" "mset ss = mset (bp_run_rows new)"
      "vs_can_compare w = vs_can_compare (bp_validity new)"
  shows "compare_reports lib sha256 (reordered old xs as rs v) (reordered new ys bs ss w) f n axis =
    Inr (c\<lparr>cr_validity := comparison_validity (reordered old xs as rs v) (reordered new ys bs ss w)\<rparr>)"
proof -
  let ?old = "reordered old xs as rs v" and ?new = "reordered new ys bs ss w"
  from compared have valid: "validate_comparable_reports sha256 old new axis = Inr ()"
      and distinct: "distinct (map br_identity (bp_rows old))" "distinct (map br_identity (bp_rows new))"
    unfolding compare_reports_def bindE_unit_ok by (auto simp: bindE_ok focus_rows_by_identity_def canonical_ok)
  note canonical = canonical_reordered [OF old(1) distinct(1), of as rs v]
    canonical_reordered [OF new(1) distinct(2), of bs ss w]
  have focus: "focus_rows_by_identity ?old f = focus_rows_by_identity old f"
      "focus_rows_by_identity ?new f = focus_rows_by_identity new f"
    by (simp_all add: focus_rows_by_identity_def canonical)
  have wins: "compare_wins lib ?old ?new f = compare_wins lib old new f"
    by (simp add: compare_wins_def wins_for_report_def canonical profile_mset [OF old(2)] profile_mset [OF new(2)])
  have errors: "error_rows ?new = error_rows new" by (simp add: error_rows_def canonical)
  have strong: "blocks_strong_conclusions ?old ?new = blocks_strong_conclusions old new"
    by (simp add: blocks_strong_conclusions_def old(4) new(4))
  have resources: "resource_summary os ns ?old ?new = resource_summary os ns old new" for os ns
    by (simp add: resource_summary_def)
  have version: "focus_version ?old f = focus_version old f" "focus_version ?new f = focus_version new f"
    by (simp_all add: focus_version_def)
  note comparable = comparable_reordered [OF valid old(2,3) new(2,3), of xs v ys w]
  show ?thesis
    using compared
    unfolding compare_reports_def comparable valid focus wins errors strong resources version reordered_reads
      bindE_simps Let_def
    by (elim bindE_elim) (auto simp: bindE_ok split: if_splits elim!: bindE_elim)
qed

lemma segment_rows: "summarize_segment lib name items = Inr s \<Longrightarrow> ss_rows s = int (length items) \<and> ss_name s = name"
  by (auto simp: summarize_segment_def Let_def bindE_ok)

lemma segments_total:
  "mapE (\<lambda>(name, items). summarize_segment lib name items) groups = Inr ss \<Longrightarrow>
     sum_list (map ss_rows ss) = int (sum_list (map (length \<circ> snd) groups))"
  by (induction groups arbitrary: ss) (auto simp: bindE_ok dest: segment_rows)

lemma summarize_by_total: "summarize_by lib f items = Inr ss \<Longrightarrow> sum_list (map ss_rows ss) = int (length items)"
proof -
  assume "summarize_by lib f items = Inr ss"
  then have "sum_list (map ss_rows ss) = int (sum_list (map (length \<circ> snd) (sort_key fst (group_by f items))))"
    unfolding summarize_by_def by (rule segments_total)
  moreover have "sum_list (map (length \<circ> snd) (sort_key fst (group_by f items))) = length items"
    unfolding group_by_total [of f items, symmetric]
    by (metis mset_map mset_sort sum_mset_sum_list)
  ultimately show ?thesis by simp
qed

lemma length_filter_split: "length xs = length (filter P xs) + length (filter (\<lambda>x. \<not> P x) xs)"
  by (induction xs) auto

lemma shared_symmetric:
  "distinct xs \<Longrightarrow> distinct ys \<Longrightarrow> length (filter (\<lambda>k. k \<in> set ys) xs) = length (filter (\<lambda>k. k \<in> set xs) ys)"
  by (simp add: distinct_length_filter Int_commute)

lemma focus_rows_shape:
  assumes "focus_rows_by_identity report f = Inr rows"
  shows "distinct (map fst rows) \<and>
    (\<forall>kv \<in> set rows. fst kv = br_identity (snd kv) \<and> br_client (snd kv) = f \<and> snd kv \<in> set (bp_rows report) \<and>
       br_primary_value (snd kv) \<noteq> None)"
proof -
  from assms have "distinct (map br_identity (bp_rows report))"
      and rows: "rows = map (\<lambda>row. (br_identity row, row))
        (filter (\<lambda>row. br_client row = f \<and> br_primary_value row \<noteq> None) (sort_key br_identity (bp_rows report)))"
    by (auto simp: focus_rows_by_identity_def bindE_ok canonical_ok)
  then have "distinct (map br_identity (sort_key br_identity (bp_rows report)))"
    by (simp add: distinct_map)
  then have "distinct (map br_identity (filter P (sort_key br_identity (bp_rows report))))" for P
    by (simp add: distinct_map_filter)
  with rows show ?thesis by (auto simp: comp_def)
qed

text \<open>What one group of rows adds to the snapshot, and the invariant the fold keeps.\<close>

definition snapshot_ok :: "WinsSnapshot \<Rightarrow> bool" where
  "snapshot_ok w \<longleftrightarrow>
     ws_groups w = int (length (ws_ranks w)) \<and> length (ws_ratios_to_winner w) = length (ws_ranks w) \<and>
     ws_wins w = int (length (filter (\<lambda>r. r = Fin 1) (ws_ranks w))) \<and>
     list_all (\<lambda>r. fle (Fin 1) r) (ws_ranks w)"

lemma snapshot_step: "snapshot_ok w \<Longrightarrow> snapshot_ok (wins_step focus_client w rows)"
proof -
  assume ok: "snapshot_ok w"
  show ?thesis
  proof (cases "find (\<lambda>row. br_client row = focus_client) rows")
    case (Some focus_row)
    let ?ranked = "sort_descending (\<lambda>row. case br_primary_value row of None \<Rightarrow> Fin 0 | Some x \<Rightarrow> x)
      (filter (\<lambda>row. br_primary_value row \<noteq> None) rows)"
    have valued: "br_primary_value row \<noteq> None" if "row \<in> set ?ranked" for row
      using that by (simp add: sort_descending_def)
    show ?thesis
    proof (cases ?ranked)
      case (Cons winner others)
      then obtain best where best: "br_primary_value winner = Some best"
        using valued [of winner] by auto
      show ?thesis
      proof (cases "br_primary_value focus_row")
        case (Some v)
        with \<open>find _ rows = Some focus_row\<close> Cons best ok show ?thesis
          by (simp add: wins_step_def snapshot_ok_def Let_def fle_def)
      qed (use Some Cons ok in \<open>simp add: wins_step_def Let_def\<close>)
    qed (use Some ok in \<open>simp add: wins_step_def Let_def\<close>)
  qed (use ok in \<open>simp add: wins_step_def\<close>)
qed

lemma snapshot_fold: "snapshot_ok w \<Longrightarrow> snapshot_ok (foldl (wins_step focus_client) w groups)"
  by (induction groups arbitrary: w) (simp_all add: snapshot_step)

subsection \<open>Loading reordered rows\<close>

lemma mapE_mset:
  assumes "mapE f xs = Inr ys" "mset xs' = mset xs"
  obtains ys' where "mapE f xs' = Inr ys'" "mset ys' = mset ys"
proof -
  have each: "f x = Inr (projr (f x))" if "x \<in> set xs" for x
    using mapE_member [OF assms(1) that] by auto
  then have "mapE f xs = Inr (map (projr \<circ> f) xs)" by (intro mapE_Inr) simp
  moreover have "mapE f xs' = Inr (map (projr \<circ> f) xs')"
    using each mset_eq_setD [OF assms(2)] by (intro mapE_Inr) simp
  ultimately show thesis using that assms by (metis mset_map sum.inject(2))
qed

lemma mset_concat_set:
  assumes "mset xs' = mset xs"
  shows "set (concat xs') = set (concat xs)"
  unfolding set_concat mset_eq_setD [OF assms] by (rule refl)

lemma aggregate_reasons_mset:
  assumes "aggregate_reasons rows = Inr rs" "mset rows' = mset rows"
  obtains rs' where "aggregate_reasons rows' = Inr rs'" "set rs' = set rs"
proof -
  from assms(1) obtain found where found: "mapE aggregate_row_reasons rows = Inr found" "rs = concat found"
    by (auto simp: aggregate_reasons_def bindE_ok)
  from found(1) assms(2) obtain found' where "mapE aggregate_row_reasons rows' = Inr found'" "mset found' = mset found"
    by (rule mapE_mset)
  then show thesis
    using that [of "concat found'"] mset_concat_set [of found' found] found(2) by (simp add: aggregate_reasons_def)
qed

lemma lifecycle_reasons_mset:
  assumes "lifecycle_report_reasons metadata rows = Inr rs" "mset rows' = mset rows"
  obtains rs' where "lifecycle_report_reasons metadata rows' = Inr rs'" "set rs' = set rs"
proof (cases "uses_streaming_profile metadata rows ''lifecycle'' \<and> is_dict (get metadata ''lifecycle'')")
  case True
  then obtain lifecycle where l: "get metadata ''lifecycle'' = JObj lifecycle"
    by (cases "get metadata ''lifecycle''") simp_all
  with assms(1) True obtain plan aggregate where r: "plan_case_reasons lifecycle = Inr plan"
      "aggregate_reasons rows = Inr aggregate" "rs = plan @ aggregate"
    by (auto simp: lifecycle_report_reasons_def bindE_ok)
  from r(2) assms(2) obtain aggregate' where "aggregate_reasons rows' = Inr aggregate'" "set aggregate' = set aggregate"
    by (rule aggregate_reasons_mset)
  then show thesis
    using that [of "plan @ aggregate'"] True r l by (simp add: lifecycle_report_reasons_def profile_mset [OF assms(2)])
next
  case False
  with assms(1) have "lifecycle_report_reasons metadata rows' = Inr rs"
    by (cases "get metadata ''lifecycle''") (auto simp: lifecycle_report_reasons_def profile_mset [OF assms(2)])
  then show thesis by (rule that) simp
qed

lemma attribution_reasons_mset:
  assumes "attribution_report_reasons sha256 metadata rows = Inr rs" "mset rows' = mset rows"
  obtains rs' where "attribution_report_reasons sha256 metadata rows' = Inr rs'" "set rs' = set rs"
proof (cases "uses_streaming_profile metadata rows ''async-bytes''")
  case True
  have empty: "rows' = [] \<longleftrightarrow> rows = []" using assms(2) by auto
  from assms(1) True obtain plan aggregate harness found where r:
      "plan_case_reasons (object_value (get metadata ''lifecycle'')) = Inr plan" "aggregate_reasons rows = Inr aggregate"
      "harness_fingerprint sha256 metadata = Inr harness" "mapE (attribution_row_reasons sha256) rows = Inr found"
    unfolding attribution_report_reasons_def Let_def by (auto simp: bindE_ok)
  obtain aggregate' where a: "aggregate_reasons rows' = Inr aggregate'" "set aggregate' = set aggregate"
    by (rule aggregate_reasons_mset [OF r(2) assms(2)])
  obtain found' where f: "mapE (attribution_row_reasons sha256) rows' = Inr found'" "mset found' = mset found"
    by (rule mapE_mset [OF r(4) assms(2)])
  note unfolded = attribution_report_reasons_def Let_def r a(1) f(1) bindE_simps profile_mset [OF assms(2)]
    eqTrueI [OF True] not_True_eq_False if_False empty
  have "\<exists>rs'. attribution_report_reasons sha256 metadata rows' = Inr rs'" unfolding unfolded by (rule exI) (rule refl)
  then obtain rs' where rs': "attribution_report_reasons sha256 metadata rows' = Inr rs'" ..
  have "set rs' = set rs"
    using rs' assms(1) unfolding unfolded sum.inject
    by (elim subst) (simp only: set_append a(2) mset_concat_set [OF f(2)])
  with rs' show thesis by (rule that)
next
  case False
  with assms(1) have "attribution_report_reasons sha256 metadata rows' = Inr rs"
    by (simp add: attribution_report_reasons_def profile_mset [OF assms(2)])
  then show thesis by (rule that) simp
qed

text \<open>What the verdict reads of a reason.\<close>

definition verdict_of :: "validity_reason \<Rightarrow> validity_status \<times> string" where
  "verdict_of r = (vr_status r, vr_code r)"

lemma streaming_reasons_mset:
  assumes "mset rows' = mset rows"
  shows "verdict_of ` set (streaming_profile_reasons suite metadata rows') =
    verdict_of ` set (streaming_profile_reasons suite metadata rows)"
proof -
  let ?P = "\<lambda>row. \<not> profile_matches (get metadata ''profile'') row"
  have verdict: "verdict_of (mismatch_reason message row) = (Invalid, ''streaming_profile_mismatch'')" for message row
    by (simp add: mismatch_reason_def make_reason_def verdict_of_def)
  have "verdict_of ` set (case find ?P rs of None \<Rightarrow> [] | Some row \<Rightarrow> [mismatch_reason message (row_reference row)]) =
      (if find ?P rs = None then {} else {(Invalid, ''streaming_profile_mismatch'')})" for rs message
    by (cases "find ?P rs") (simp_all add: verdict)
  moreover have "find ?P rows' = None \<longleftrightarrow> find ?P rows = None"
    by (simp add: find_None_iff mset_eq_setD [OF assms])
  ultimately show ?thesis
    unfolding streaming_profile_reasons_def envelope_mset [OF assms] Let_def by (simp only: split: if_split) blast
qed

lemma classify_mset:
  assumes "classify_report_validity sha256 suite rows metadata = Inr s" "mset rows' = mset rows"
  obtains s' where "classify_report_validity sha256 suite rows' metadata = Inr s'"
    "vs_status s' = vs_status s" "vs_is_valid s' = vs_is_valid s" "vs_can_compare s' = vs_can_compare s"
    "suite = RESPONSE_STREAMING_SUITE \<or> set (vs_reasons s') = set (vs_reasons s)"
proof -
  from assms(1) obtain children attribution lifecycle found where
      r: "child_process_reasons metadata = Inr children"
        "attribution_report_reasons sha256 metadata rows = Inr attribution"
        "lifecycle_report_reasons metadata rows = Inr lifecycle"
        "mapE (row_reasons suite) rows = Inr found"
      and s: "vs_reasons s = children @ streaming_profile_reasons suite metadata rows @
          attribution @ lifecycle @ concat found"
        "vs_status s = combined_status (map vr_status (vs_reasons s))"
        "vs_is_valid s = (vs_status s = Valid)"
        "vs_can_compare s = reasons_allow_comparison (vs_reasons s)"
    by (auto simp: classify_report_validity_def bindE_ok Let_def)
  obtain attribution' where a: "attribution_report_reasons sha256 metadata rows' = Inr attribution'"
      "set attribution' = set attribution"
    by (rule attribution_reasons_mset [OF r(2) assms(2)])
  obtain lifecycle' where l: "lifecycle_report_reasons metadata rows' = Inr lifecycle'" "set lifecycle' = set lifecycle"
    by (rule lifecycle_reasons_mset [OF r(3) assms(2)])
  obtain found' where f: "mapE (row_reasons suite) rows' = Inr found'" "mset found' = mset found"
    by (rule mapE_mset [OF r(4) assms(2)])
  let ?reasons = "children @ streaming_profile_reasons suite metadata rows' @ attribution' @ lifecycle' @ concat found'"
  have verdicts: "verdict_of ` set ?reasons = verdict_of ` set (vs_reasons s)"
    using streaming_reasons_mset [OF assms(2), of suite metadata] a(2) l(2) mset_concat_set [OF f(2)]
    by (simp only: s(1) set_append image_Un)
  then have "fst ` verdict_of ` set ?reasons = fst ` verdict_of ` set (vs_reasons s)" by (rule arg_cong)
  then have "combined_status (map vr_status ?reasons) = combined_status (map vr_status (vs_reasons s))"
    by (intro status_order.combine_set) (simp only: set_map image_image verdict_of_def fst_conv)
  moreover have "reasons_allow_comparison rs \<longleftrightarrow> (\<forall>(t, k) \<in> verdict_of ` set rs.
      (t = Valid \<or> t = Warning) \<and> k \<noteq> ''expected_compatibility_failure'')" for rs
    by (auto simp: reasons_allow_comparison_def list_all_iff verdict_of_def)
  then have "reasons_allow_comparison ?reasons = reasons_allow_comparison (vs_reasons s)" by (simp only: verdicts)
  moreover have "suite = RESPONSE_STREAMING_SUITE \<or> set ?reasons = set (vs_reasons s)"
    using a(2) l(2) mset_concat_set [OF f(2)] by (auto simp: s(1) streaming_profile_reasons_def)
  ultimately show thesis
    using s by (intro that [of "\<lparr>vs_status = combined_status (map vr_status ?reasons),
        vs_is_valid = (combined_status (map vr_status ?reasons) = Valid),
        vs_can_compare = reasons_allow_comparison ?reasons, vs_reason_count = int (length ?reasons),
        vs_reason_counts = count_reasons ?reasons, vs_reasons = ?reasons\<rparr>"])
      (simp_all add: classify_report_validity_def r(1) a(1) l(1) f(1) Let_def)
qed

lemma collected_summaries:
  "reason_summary ` set (collect_reasons [] items) = (\<Union>s \<in> set items. reason_summary ` set (vs_reasons s))"
proof
  show "reason_summary ` set (collect_reasons [] items) \<subseteq> (\<Union>s \<in> set items. reason_summary ` set (vs_reasons s))"
    using collect_subset [of "[]" items] by (auto dest!: subsetD)
  show "(\<Union>s \<in> set items. reason_summary ` set (vs_reasons s)) \<subseteq> reason_summary ` set (collect_reasons [] items)"
  proof clarify
    fix s r assume "s \<in> set items" "r \<in> set (vs_reasons s)"
    then have "kept r (collect_reasons [] items)" by (auto intro: kept_collect)
    then obtain q where "q \<in> set (collect_reasons [] items)" "reason_summary r = reason_summary q"
      by (auto simp: kept_def list_ex_iff reason_eq_def reason_summary_def)
    then show "reason_summary r \<in> reason_summary ` set (collect_reasons [] items)" by simp
  qed
qed

lemma validity_mset:
  assumes "validity_summary_from_metadata sha256 metadata suite rows = Inr s" "mset rows' = mset rows"
  obtains s' where "validity_summary_from_metadata sha256 metadata suite rows' = Inr s'"
    "vs_status s' = vs_status s" "vs_can_compare s' = vs_can_compare s"
    "suite = RESPONSE_STREAMING_SUITE \<or> reason_summary ` set (vs_reasons s') = reason_summary ` set (vs_reasons s)"
proof -
  from assms(1) obtain current found where
      current: "classify_report_validity sha256 suite rows metadata = Inr current"
      and found: "mapE (\<lambda>(path, record). recorded_validity (get record ''validity'') path)
         (filter (\<lambda>(path, record). has_key record ''validity'')
           ((''metadata'', metadata) # child_records metadata)) = Inr found"
      and s: "s = (if found = [] then current else combine_validity_summaries (current # found))"
    unfolding validity_summary_from_metadata_def by (auto simp only: bindE_ok sum.inject)
  obtain current' where c: "classify_report_validity sha256 suite rows' metadata = Inr current'"
      "vs_status current' = vs_status current" "vs_is_valid current' = vs_is_valid current"
      "vs_can_compare current' = vs_can_compare current"
      "suite = RESPONSE_STREAMING_SUITE \<or> set (vs_reasons current') = set (vs_reasons current)"
    by (rule classify_mset [OF current assms(2)])
  have consistent: "list_all consistent_summary (x # found)" if "consistent_summary x" for x
    using mapE_image [OF found] recorded_consistent that by (fastforce simp: list_all_iff)
  note verdict = verdict_of_parts [OF consistent [OF classify_consistent [OF current]]]
    verdict_of_parts [OF consistent [OF classify_consistent [OF c(1)]]]
  have "reason_summary ` set (vs_reasons (combine_validity_summaries (x # found))) =
      reason_summary ` set (vs_reasons x) \<union> (\<Union>s \<in> set found. reason_summary ` set (vs_reasons s))" for x
    unfolding combine_reasons collected_summaries by simp
  with c verdict show thesis
    by (intro that [of "if found = [] then current' else combine_validity_summaries (current' # found)"])
      (auto simp: validity_summary_from_metadata_def found s simp del: filter.simps)
qed

lemma load_reordered:
  assumes "load_benchmark_report sha256 path report = Inr r"
    and "mset rows = mset (dr_aggregate_rows report)"
  obtains xs v where "load_benchmark_report sha256 path (report\<lparr>dr_aggregate_rows := rows, dr_run_rows := runs\<rparr>) =
      Inr (reordered r xs rows runs v)" "mset xs = mset (bp_rows r)"
    "vs_status v = vs_status (bp_validity r)" "vs_can_compare v = vs_can_compare (bp_validity r)"
    "dr_suite report = RESPONSE_STREAMING_SUITE \<or>
       reason_summary ` set (vs_reasons v) = reason_summary ` set (vs_reasons (bp_validity r))"
proof -
  from assms(1) have parts: "mapE (benchmark_row (dr_suite report)) (dr_aggregate_rows report) = Inr (bp_rows r)"
      "validity_summary_from_metadata sha256 (dr_metadata report) (dr_suite report) (dr_aggregate_rows report) =
        Inr (bp_validity r)"
    by (auto simp: load_benchmark_report_def Let_def bindE_ok)
  obtain xs where xs: "mapE (benchmark_row (dr_suite report)) rows = Inr xs" "mset xs = mset (bp_rows r)"
    by (rule mapE_mset [OF parts(1) assms(2)])
  obtain v where v: "validity_summary_from_metadata sha256 (dr_metadata report) (dr_suite report) rows = Inr v"
      "vs_status v = vs_status (bp_validity r)" "vs_can_compare v = vs_can_compare (bp_validity r)"
      "dr_suite report = RESPONSE_STREAMING_SUITE \<or>
         reason_summary ` set (vs_reasons v) = reason_summary ` set (vs_reasons (bp_validity r))"
    by (rule validity_mset [OF parts(2) assms(2)])
  from assms(1) xs v show thesis
    by (intro that [of xs v]) (auto simp: load_benchmark_report_def Let_def bindE_ok reordered_def)
qed

lemma compare_result:
  assumes "compare_reports lib sha256 old new f n axis = Inr c"
  shows "cr_validity c = comparison_validity old new" "bp_suite old = bp_suite new"
    "cm_suite (cr_metadata c) = bp_suite new"
proof -
  from assms show "cr_validity c = comparison_validity old new" "cm_suite (cr_metadata c) = bp_suite new"
    unfolding compare_reports_def Let_def by (auto elim!: bindE_elim split: if_splits)
  from assms have "validate_comparable_reports sha256 old new axis = Inr ()"
    unfolding compare_reports_def bindE_unit_ok by blast
  then show "bp_suite old = bp_suite new" unfolding comparable_parts by simp
qed

subsection \<open>Properties\<close>

text \<open>
  C13: the comparison does not depend on the order in which the reports list their rows: load two
  reports whose aggregate rows and runs are listed in any other order, and the reordered reports load
  too and compare to the same result, field for field (pairs, ratios, segments, wins, rankings, errors,
  resources, coverage and unmatched rows), apart from the listing of the validity reasons, which
  follows the rows: there the two statuses and the block on strong conclusions are the same, and
  outside the streaming suite so is the set of the reasons listed. (A streaming report names the
  first row that contradicts its profile.)\<close>

theorem compare_ignores_row_order:
  assumes "load_benchmark_report sha256 old_path old = Inr old_report"
    and "load_benchmark_report sha256 new_path new = Inr new_report"
    and "compare_reports lib sha256 old_report new_report f n axis = Inr c"
    and "mset old_rows = mset (dr_aggregate_rows old)" "mset old_runs = mset (dr_run_rows old)"
    and "mset new_rows = mset (dr_aggregate_rows new)" "mset new_runs = mset (dr_run_rows new)"
  shows "\<exists>old_report' new_report' c'.
    load_benchmark_report sha256 old_path (old\<lparr>dr_aggregate_rows := old_rows, dr_run_rows := old_runs\<rparr>) =
      Inr old_report' \<and>
    load_benchmark_report sha256 new_path (new\<lparr>dr_aggregate_rows := new_rows, dr_run_rows := new_runs\<rparr>) =
      Inr new_report' \<and>
    compare_reports lib sha256 old_report' new_report' f n axis = Inr c' \<and>
    c'\<lparr>cr_validity := cr_validity c\<rparr> = c \<and>
    cv_old_status (cr_validity c') = cv_old_status (cr_validity c) \<and>
    cv_new_status (cr_validity c') = cv_new_status (cr_validity c) \<and>
    cv_blocks_strong_conclusions (cr_validity c') = cv_blocks_strong_conclusions (cr_validity c) \<and>
    (cm_suite (cr_metadata c) = RESPONSE_STREAMING_SUITE \<or>
       set (cv_old_reasons (cr_validity c')) = set (cv_old_reasons (cr_validity c)) \<and>
       set (cv_new_reasons (cr_validity c')) = set (cv_new_reasons (cr_validity c)))"
proof -
  have suites: "bp_suite old_report = dr_suite old" "bp_suite new_report = dr_suite new"
      "bp_run_rows old_report = dr_run_rows old" "bp_aggregate_rows old_report = dr_aggregate_rows old"
      "bp_run_rows new_report = dr_run_rows new" "bp_aggregate_rows new_report = dr_aggregate_rows new"
    using assms(1,2) by (auto simp: load_benchmark_report_def Let_def bindE_ok)
  obtain xs v where old: "load_benchmark_report sha256 old_path
        (old\<lparr>dr_aggregate_rows := old_rows, dr_run_rows := old_runs\<rparr>) = Inr (reordered old_report xs old_rows old_runs v)"
      "mset xs = mset (bp_rows old_report)" "vs_status v = vs_status (bp_validity old_report)"
      "vs_can_compare v = vs_can_compare (bp_validity old_report)"
      "dr_suite old = RESPONSE_STREAMING_SUITE \<or>
        reason_summary ` set (vs_reasons v) = reason_summary ` set (vs_reasons (bp_validity old_report))"
    by (rule load_reordered [OF assms(1,4)])
  obtain ys w where new: "load_benchmark_report sha256 new_path
        (new\<lparr>dr_aggregate_rows := new_rows, dr_run_rows := new_runs\<rparr>) = Inr (reordered new_report ys new_rows new_runs w)"
      "mset ys = mset (bp_rows new_report)" "vs_status w = vs_status (bp_validity new_report)"
      "vs_can_compare w = vs_can_compare (bp_validity new_report)"
      "dr_suite new = RESPONSE_STREAMING_SUITE \<or>
        reason_summary ` set (vs_reasons w) = reason_summary ` set (vs_reasons (bp_validity new_report))"
    by (rule load_reordered [OF assms(2,6)])
  let ?old = "reordered old_report xs old_rows old_runs v" and ?new = "reordered new_report ys new_rows new_runs w"
  have compared: "compare_reports lib sha256 ?old ?new f n axis = Inr (c\<lparr>cr_validity := comparison_validity ?old ?new\<rparr>)"
    using compare_reordered [OF assms(3) old(2) _ _ old(4) new(2) _ _ new(4)] assms(4-7) by (simp add: suites)
  have c: "cr_validity c = comparison_validity old_report new_report" "dr_suite old = dr_suite new"
      "cm_suite (cr_metadata c) = dr_suite new"
    using compare_result [OF assms(3)] by (simp_all add: suites)
  show ?thesis
    using old new compared c
    by (intro exI [of _ ?old] exI [of _ ?new] exI [of _ "c\<lparr>cr_validity := comparison_validity ?old ?new\<rparr>"])
      (auto simp: comparison_validity_def blocks_strong_conclusions_def)
qed

definition plain_row :: "string \<Rightarrow> rat \<Rightarrow> BenchmarkRow" where
  "plain_row client v =
     \<lparr>br_suite = ''requests'', br_identity = [''sync'', client, ''get''], br_group = [''sync'', ''get''],
      br_label = client, br_mode = ''sync'', br_client = client, br_scenario = ''get'',
      br_primary_value = Some (Fin v), br_p95_ms = None, br_p99_ms = None, br_errors_total = 0,
      br_warmup_errors_total = 0, br_error_rate_percent = None, br_rss_mb = None, br_threads = None,
      br_fds = None, br_resource_coverage = [], br_resource_unavailable_reasons = []\<rparr>"

definition plain_report :: "BenchmarkRow list \<Rightarrow> BenchmarkReport" where
  "plain_report rows =
     \<lparr>bp_path = ''r.json'', bp_suite = ''requests'', bp_timestamp = ''-'', bp_package_versions = [],
      bp_rows = rows, bp_aggregate_rows = [],
      bp_metadata = [(''timing_scope'', JStr ''requests-load-only-v2'')],
      bp_validity = plain_summary Valid, bp_run_rows = []\<rparr>"

definition unit_library :: float_library where
  "unit_library = \<lparr>fl_log = (\<lambda>_. Fin 0), fl_sum = (\<lambda>_. Fin 0), fl_exp = (\<lambda>_. Inr (Fin 1))\<rparr>"

text \<open>Two rows with an error each: the reasons that are listed name them in the order of the rows.\<close>

definition measured_row :: "string \<Rightarrow> rat \<Rightarrow> obj" where
  "measured_row client rate =
     [(''mode'', JStr ''sync''), (''client'', JStr client), (''scenario'', JStr ''get''), (''concurrency'', JInt 1),
      (''request_limit'', JInt 1), (''repeats'', JInt 1), (''requests'', JInt 4), (''errors_total'', JInt 1), (''warmup_errors_total'', JInt 0),
      (''ok_req_s_median'', JFloat (Fin rate))]"

definition measured_report :: "obj list \<Rightarrow> decoded_report" where
  "measured_report rows =
     \<lparr>dr_suite = ''requests'', dr_metadata = [(''suite'', JStr ''requests''),
        (''report_schema_version'', JInt REPORT_SCHEMA_VERSION), (''timing_scope'', JStr (scope_value REQUESTS))],
      dr_aggregate_rows = rows, dr_run_rows = []\<rparr>"

lemma measured_compared:
  "case load_benchmark_report id ''r.json'' (measured_report [measured_row ''a'' 1, measured_row ''b'' 2]) of
     Inl _ \<Rightarrow> False
   | Inr r \<Rightarrow> (case compare_reports unit_library id r r ''a'' 3 None of Inl _ \<Rightarrow> False | Inr c \<Rightarrow> True)"
  by code_simp

lemma compare_ignores_row_order_witness:
  "\<exists>r r' c c'. load_benchmark_report id ''r.json'' (measured_report [measured_row ''a'' 1, measured_row ''b'' 2]) = Inr r \<and>
     load_benchmark_report id ''r.json'' (measured_report [measured_row ''b'' 2, measured_row ''a'' 1]) = Inr r' \<and>
     compare_reports unit_library id r r ''a'' 3 None = Inr c \<and>
     compare_reports unit_library id r' r ''a'' 3 None = Inr c' \<and> cr_overall c' = cr_overall c"
proof -
  from measured_compared obtain r c where loaded:
      "load_benchmark_report id ''r.json'' (measured_report [measured_row ''a'' 1, measured_row ''b'' 2]) = Inr r"
      "compare_reports unit_library id r r ''a'' 3 None = Inr c"
    by (auto split: sum.splits)
  have "measured_report rows\<lparr>dr_aggregate_rows := rows', dr_run_rows := []\<rparr> = measured_report rows'" for rows rows'
    by (simp add: measured_report_def)
  moreover have "dr_aggregate_rows (measured_report rows) = rows" "dr_run_rows (measured_report rows) = []" for rows
    by (simp_all add: measured_report_def)
  ultimately obtain r' c' where
      "load_benchmark_report id ''r.json'' (measured_report [measured_row ''b'' 2, measured_row ''a'' 1]) = Inr r'"
      "compare_reports unit_library id r' r ''a'' 3 None = Inr c'" "c'\<lparr>cr_validity := cr_validity c\<rparr> = c"
    using compare_ignores_row_order [OF loaded(1) loaded(1) loaded(2), of "[measured_row ''b'' 2, measured_row ''a'' 1]" "[]"
        "[measured_row ''a'' 1, measured_row ''b'' 2]" "[]"] loaded(1)
    by auto
  moreover from this(3) have "cr_overall c' = cr_overall c" by (metis ComparisonResult.select_convs(3) ComparisonResult.surjective ComparisonResult.update_convs(2))
  ultimately show ?thesis using loaded by blast
qed

text \<open>
  C14: the comparison accounts for every focus row: each row of the focus client with a primary
  value is either compared or counted as unmatched, one coverage entry is kept per compared pair,
  and the segments by mode and by scenario each partition the compared rows.\<close>

theorem compare_accounts_rows:
  assumes "compare_reports lib sha256 old_report new_report f n axis = Inr c"
  shows "\<exists>old_rows new_rows. focus_rows_by_identity old_report f = Inr old_rows \<and>
    focus_rows_by_identity new_report f = Inr new_rows \<and>
    int (length old_rows) = ss_rows (cr_overall c) + cr_unmatched_old_rows c \<and>
    int (length new_rows) = ss_rows (cr_overall c) + cr_unmatched_new_rows c \<and>
    0 < ss_rows (cr_overall c) \<and> int (length (cr_resource_coverage c)) = ss_rows (cr_overall c) \<and>
    sum_list (map ss_rows (cr_by_mode c)) = ss_rows (cr_overall c) \<and>
    sum_list (map ss_rows (cr_by_scenario c)) = ss_rows (cr_overall c)"
proof -
  from assms obtain old_rows new_rows comparisons where
      rows: "focus_rows_by_identity old_report f = Inr old_rows" "focus_rows_by_identity new_report f = Inr new_rows"
      and pairs: "shared_pairs old_rows new_rows \<noteq> []"
      and comparisons: "mapE (\<lambda>(old_row, new_row). compare_row old_row new_row)
        (shared_pairs old_rows new_rows) = Inr comparisons"
      and overall: "summarize_segment lib ''overall'' comparisons = Inr (cr_overall c)"
      and segments: "summarize_by lib (\<lambda>item. br_mode (rc_row item)) comparisons = Inr (cr_by_mode c)"
        "summarize_by lib (\<lambda>item. br_scenario (rc_row item)) comparisons = Inr (cr_by_scenario c)"
      and counts: "cr_unmatched_old_rows c = int (length (filter (\<lambda>k. k \<notin> set (map fst new_rows)) (map fst old_rows)))"
        "cr_unmatched_new_rows c = int (length (filter (\<lambda>k. k \<notin> set (map fst old_rows)) (map fst new_rows)))"
        "cr_resource_coverage c = map (\<lambda>(old_row, new_row). coverage_comparison old_row new_row)
          (shared_pairs old_rows new_rows)"
    unfolding compare_reports_def Let_def
    by (elim bindE_elim) (auto simp: bindE_ok simp del: mapE_ok split: if_splits)
  have compared: "length comparisons = length (shared_pairs old_rows new_rows)"
    by (rule mapE_length [OF comparisons])
  have shared: "length (shared_pairs old_rows new_rows) =
      length (filter (\<lambda>k. k \<in> set (map fst new_rows)) (map fst old_rows))"
    by (simp add: shared_pairs_def)
  have "length (filter (\<lambda>k. k \<in> set (map fst new_rows)) (map fst old_rows)) =
      length (filter (\<lambda>k. k \<in> set (map fst old_rows)) (map fst new_rows))"
    using rows [THEN focus_rows_shape] by (intro shared_symmetric) auto
  moreover have "length old_rows = length (filter (\<lambda>k. k \<in> set (map fst new_rows)) (map fst old_rows)) +
      length (filter (\<lambda>k. k \<notin> set (map fst new_rows)) (map fst old_rows))"
    using length_filter_split [of "map fst old_rows" "\<lambda>k. k \<in> set (map fst new_rows)"]
    unfolding length_map .
  moreover have "length new_rows = length (filter (\<lambda>k. k \<in> set (map fst old_rows)) (map fst new_rows)) +
      length (filter (\<lambda>k. k \<notin> set (map fst old_rows)) (map fst new_rows))"
    using length_filter_split [of "map fst new_rows" "\<lambda>k. k \<in> set (map fst old_rows)"]
    unfolding length_map .
  moreover have "ss_rows (cr_overall c) = int (length comparisons)"
    using segment_rows [OF overall] by simp
  moreover have "0 < int (length comparisons)"
    using pairs compared by simp
  ultimately show ?thesis
    using rows compared shared counts segments [THEN summarize_by_total] by simp
qed

lemma compare_accounts_rows_witness:
  "\<exists>c old_rows.
    compare_reports unit_library id
      (plain_report [plain_row ''b'' 2, plain_row ''a'' 0]\<lparr>bp_validity := plain_summary Invalid\<rparr>)
      (plain_report [plain_row ''a'' 3]) ''a'' 3 None = Inr c \<and>
    focus_rows_by_identity
      (plain_report [plain_row ''b'' 2, plain_row ''a'' 0]\<lparr>bp_validity := plain_summary Invalid\<rparr>) ''a'' =
      Inr old_rows \<and>
    int (length old_rows) = ss_rows (cr_overall c) + cr_unmatched_old_rows c"
proof -
  have "case compare_reports unit_library id
      (plain_report [plain_row ''b'' 2, plain_row ''a'' 0]\<lparr>bp_validity := plain_summary Invalid\<rparr>)
      (plain_report [plain_row ''a'' 3]) ''a'' 3 None of Inl _ \<Rightarrow> False | Inr c \<Rightarrow> True"
    by code_simp
  then obtain c where "compare_reports unit_library id
      (plain_report [plain_row ''b'' 2, plain_row ''a'' 0]\<lparr>bp_validity := plain_summary Invalid\<rparr>)
      (plain_report [plain_row ''a'' 3]) ''a'' 3 None = Inr c"
    by (auto split: sum.splits)
  with compare_accounts_rows [OF this] show ?thesis by blast
qed

text \<open>
  C15: the wins of a client are counted consistently: at most one win per group, one ratio and one
  rank per group, every rank at least 1, and the wins are the groups in which the rank is 1.\<close>

theorem wins_consistent:
  assumes "wins_for_report report f = Inr (Some w)"
  shows "0 \<le> ws_wins w \<and> ws_wins w \<le> ws_groups w \<and>
    ws_groups w = int (length (ws_ranks w)) \<and> length (ws_ratios_to_winner w) = length (ws_ranks w) \<and>
    ws_wins w = int (length (filter (\<lambda>r. r = Fin 1) (ws_ranks w))) \<and>
    list_all (\<lambda>r. fle (Fin 1) r) (ws_ranks w)"
proof -
  have "snapshot_ok \<lparr>ws_wins = 0, ws_groups = 0, ws_ratios_to_winner = [], ws_ranks = []\<rparr>"
    by (simp add: snapshot_ok_def)
  from snapshot_fold [OF this] assms have "snapshot_ok w"
    by (auto simp: wins_for_report_def bindE_ok split: if_splits)
  then show ?thesis
    unfolding snapshot_ok_def using length_filter_le [of "\<lambda>r. r = Fin 1" "ws_ranks w"] by simp
qed

lemma wins_consistent_witness:
  "\<exists>w. wins_for_report (plain_report [plain_row ''b'' 2, plain_row ''a'' 0]) ''a'' = Inr (Some w) \<and>
     0 \<le> ws_wins w \<and> ws_wins w \<le> ws_groups w"
proof -
  have "case wins_for_report (plain_report [plain_row ''b'' 2, plain_row ''a'' 0]) ''a'' of
      Inr (Some w) \<Rightarrow> True | _ \<Rightarrow> False"
    by code_simp
  then obtain w where "wins_for_report (plain_report [plain_row ''b'' 2, plain_row ''a'' 0]) ''a'' = Inr (Some w)"
    by (auto split: sum.splits option.splits)
  with wins_consistent [OF this] show ?thesis by blast
qed

text \<open>
  A ratio points in the right direction: for a positive old value, a new value that is at least
  as large gives a ratio of at least 1, and one that is at most as large gives a ratio of at most 1,
  in the rounded arithmetic of the code.\<close>

theorem ratio_direction:
  assumes "0 < old"
  shows "(if old \<le> new then fle (Fin 1) (safe_ratio (Fin new) (Fin old))
          else fle (safe_ratio (Fin new) (Fin old)) (Fin 1))"
proof -
  have "Fin 1 \<le> x \<Longrightarrow> x \<noteq> NaN \<Longrightarrow> fle (Fin 1) x" "x \<le> Fin 1 \<Longrightarrow> fle x (Fin 1)" for x
    by (cases x; auto simp: fle_def less_eq_pyfloat_def)+
  moreover have "round64 (new / old) \<noteq> NaN"
    by (auto simp: round64_def Let_def)
  moreover have "safe_ratio (Fin new) (Fin old) = round64 (new / old)"
    using assms by (simp add: safe_ratio_def fle_def)
  ultimately show ?thesis
    using assms round64_mono [of 1 "new / old"] round64_mono [of "new / old" 1] round64_of_int [of 1] by simp
qed

lemma ratio_direction_witness: "fle (Fin 1) (safe_ratio (Fin 3) (Fin 2))"
  using ratio_direction [of 2 3] by simp

end
