(* ===== verification/Load_Workers.thy ===== *)
theory Load_Workers
  imports Statistics
begin

text \<open>
  load.py with its records of models.py: the pool of workers that drains the queue of requests.
  The client under test answers as it likes, so a run is a sequence of events in any interleaving:
  a worker takes a request, its request is answered (or raises), a worker finds the queue empty and
  returns. Asynchronous and synchronous pools have the same steps; they differ in how the pool is
  started and awaited. Exceptions outside \<^verbatim>\<open>Exception\<close> (cancellation) are not modelled.
\<close>

subsection \<open>Data\<close>

record Scenario =
  sc_name :: string
  sc_method :: string
  sc_path :: string
  sc_body :: "string option"
  sc_json_body :: "obj option"
  sc_expected_status :: int
  sc_expected_json_keys :: "string list"
  sc_expected_content_length :: "int option"
  sc_expected_redirects :: "int option"
  sc_expected_final_path :: "string option"
  sc_follow_redirects :: bool
  sc_request_limit :: "int option"
  sc_description :: string

record ResponseOutcome =
  ro_status_code :: int
  ro_json_ok :: bool
  ro_content_length :: "int option"
  ro_history_count :: "int option"
  ro_final_url :: "string option"

record LoadResult =
  lr_latencies_ms :: "pyfloat list"
  lr_errors :: int
  lr_error_types :: "(string \<times> int) list"

text \<open>What \<^verbatim>\<open>client.request\<close> does: return an outcome, or raise an exception of the given type name.\<close>

datatype request_outcome = Answered ResponseOutcome | Raised string

datatype client_mode = AsyncMode | SyncMode

subsection \<open>Checking an outcome\<close>

definition outcome_matches :: "Scenario \<Rightarrow> ResponseOutcome \<Rightarrow> bool" where
  "outcome_matches scenario outcome =
     (if ro_status_code outcome \<noteq> sc_expected_status scenario then False
      else if \<not> ro_json_ok outcome then False
      else if sc_expected_content_length scenario \<noteq> None \<and>
        ro_content_length outcome \<noteq> sc_expected_content_length scenario then False
      else if sc_expected_redirects scenario \<noteq> None \<and> ro_history_count outcome \<noteq> None \<and>
        ro_history_count outcome \<noteq> sc_expected_redirects scenario then False
      else
        (case (sc_expected_final_path scenario, ro_final_url outcome) of
           (Some path, Some url) \<Rightarrow> ends_with url path
         | _ \<Rightarrow> True))"

definition increment :: "(string \<times> int) list \<Rightarrow> string \<Rightarrow> (string \<times> int) list" where
  "increment counts key = counter_add counts key 1"

text \<open>The name an outcome is counted under, if it is an error.\<close>

definition error_of :: "Scenario \<Rightarrow> request_outcome \<Rightarrow> string option" where
  "error_of scenario answer =
     (case answer of
        Answered outcome \<Rightarrow> if outcome_matches scenario outcome then None else Some ''check_failed''
      | Raised name \<Rightarrow> Some name)"

subsection \<open>Workers\<close>

datatype worker_phase = Ready | Requesting | Returned

record worker =
  wk_phase :: worker_phase
  wk_latencies :: "pyfloat list"
  wk_error_types :: "(string \<times> int) list"

definition new_worker :: worker where
  "new_worker = \<lparr>wk_phase = Ready, wk_latencies = [], wk_error_types = []\<rparr>"

definition worker_result :: "worker \<Rightarrow> LoadResult" where
  "worker_result w =
     \<lparr>lr_latencies_ms = wk_latencies w, lr_errors = counter_total (wk_error_types w),
      lr_error_types = wk_error_types w\<rparr>"

text \<open>
  The body of the loop after the request: the error is counted, the latency (elapsed nanoseconds
  over a million) is kept when the run collects.
\<close>

definition finish_request :: "Scenario \<Rightarrow> bool \<Rightarrow> request_outcome \<Rightarrow> int \<Rightarrow> worker \<Rightarrow> worker" where
  "finish_request scenario collect answer elapsed_ns w =
     w\<lparr>wk_phase := Ready,
       wk_latencies :=
         (if collect then wk_latencies w @ [round64 (of_int elapsed_ns / 1000000)] else wk_latencies w),
       wk_error_types :=
         (case error_of scenario answer of
            None \<Rightarrow> wk_error_types w
          | Some name \<Rightarrow> increment (wk_error_types w) name)\<rparr>"

definition merge_load_results :: "LoadResult list \<Rightarrow> LoadResult" where
  "merge_load_results results =
     (let error_types = merge_error_types (map lr_error_types results)
      in \<lparr>lr_latencies_ms = concat (map lr_latencies_ms results), lr_errors = counter_total error_types,
          lr_error_types = error_types\<rparr>)"

subsection \<open>The pool\<close>

text \<open>
  \<open>ls_unfinished\<close> is what \<^verbatim>\<open>queue.join()\<close> waits for; \<open>ls_advances\<close> counts the calls of
  \<^verbatim>\<open>progress.advance()\<close>.
\<close>

record load_state =
  ls_queue :: "int list"
  ls_workers :: "worker list"
  ls_unfinished :: int
  ls_advances :: int

datatype load_event = Take nat | Answer nat request_outcome int | Leave nat

definition load_start :: "int \<Rightarrow> int \<Rightarrow> load_state" where
  "load_start concurrency requests =
     \<lparr>ls_queue = map int [0..<nat requests],
      ls_workers = replicate (nat (min concurrency requests)) new_worker,
      ls_unfinished = int (nat requests), ls_advances = 0\<rparr>"

inductive load_step :: "Scenario \<Rightarrow> bool \<Rightarrow> bool \<Rightarrow> load_state \<Rightarrow> load_event \<Rightarrow> load_state \<Rightarrow> bool"
  for scenario :: Scenario and collect :: bool and progress :: bool
where
  take: "w < length (ls_workers s) \<Longrightarrow> wk_phase (ls_workers s ! w) = Ready \<Longrightarrow> ls_queue s = i # rest \<Longrightarrow>
    load_step scenario collect progress s (Take w)
      (s\<lparr>ls_queue := rest, ls_workers := (ls_workers s)[w := (ls_workers s ! w)\<lparr>wk_phase := Requesting\<rparr>]\<rparr>)"
| answer: "w < length (ls_workers s) \<Longrightarrow> wk_phase (ls_workers s ! w) = Requesting \<Longrightarrow>
    load_step scenario collect progress s (Answer w outcome elapsed_ns)
      (s\<lparr>ls_workers := (ls_workers s)[w := finish_request scenario collect outcome elapsed_ns (ls_workers s ! w)],
         ls_unfinished := ls_unfinished s - 1,
         ls_advances := (if progress then ls_advances s + 1 else ls_advances s)\<rparr>)"
| leave: "w < length (ls_workers s) \<Longrightarrow> wk_phase (ls_workers s ! w) = Ready \<Longrightarrow> ls_queue s = [] \<Longrightarrow>
    load_step scenario collect progress s (Leave w)
      (s\<lparr>ls_workers := (ls_workers s)[w := (ls_workers s ! w)\<lparr>wk_phase := Returned\<rparr>]\<rparr>)"

inductive load_trace ::
  "Scenario \<Rightarrow> bool \<Rightarrow> bool \<Rightarrow> load_state \<Rightarrow> load_event list \<Rightarrow> load_state \<Rightarrow> bool"
  for scenario :: Scenario and collect :: bool and progress :: bool and start :: load_state
where
  begin_trace: "load_trace scenario collect progress start [] start"
| extend: "load_trace scenario collect progress start es s \<Longrightarrow> load_step scenario collect progress s e s' \<Longrightarrow>
    load_trace scenario collect progress start (es @ [e]) s'"

text \<open>The same steps as a function, which runs a list of events if each is enabled in turn.\<close>

fun load_next :: "Scenario \<Rightarrow> bool \<Rightarrow> bool \<Rightarrow> load_state \<Rightarrow> load_event \<Rightarrow> load_state option" where
  "load_next scenario collect progress s (Take w) =
     (case ls_queue s of
        i # rest \<Rightarrow>
          (if w < length (ls_workers s) \<and> wk_phase (ls_workers s ! w) = Ready
           then Some (s\<lparr>ls_queue := rest,
                  ls_workers := (ls_workers s)[w := (ls_workers s ! w)\<lparr>wk_phase := Requesting\<rparr>]\<rparr>)
           else None)
      | [] \<Rightarrow> None)"
| "load_next scenario collect progress s (Answer w outcome elapsed_ns) =
     (if w < length (ls_workers s) \<and> wk_phase (ls_workers s ! w) = Requesting
      then Some (s\<lparr>ls_workers :=
               (ls_workers s)[w := finish_request scenario collect outcome elapsed_ns (ls_workers s ! w)],
             ls_unfinished := ls_unfinished s - 1,
             ls_advances := (if progress then ls_advances s + 1 else ls_advances s)\<rparr>)
      else None)"
| "load_next scenario collect progress s (Leave w) =
     (if w < length (ls_workers s) \<and> wk_phase (ls_workers s ! w) = Ready \<and> ls_queue s = []
      then Some (s\<lparr>ls_workers := (ls_workers s)[w := (ls_workers s ! w)\<lparr>wk_phase := Returned\<rparr>]\<rparr>)
      else None)"

fun load_exec :: "Scenario \<Rightarrow> bool \<Rightarrow> bool \<Rightarrow> load_event list \<Rightarrow> load_state \<Rightarrow> load_state option" where
  "load_exec scenario collect progress [] s = Some s"
| "load_exec scenario collect progress (e # es) s =
     (case load_next scenario collect progress s e of
        None \<Rightarrow> None
      | Some t \<Rightarrow> load_exec scenario collect progress es t)"

text \<open>The queue is joined and every worker has returned.\<close>

definition load_done :: "load_state \<Rightarrow> bool" where
  "load_done s = (ls_unfinished s = 0 \<and> list_all (\<lambda>w. wk_phase w = Returned) (ls_workers s))"

text \<open>
  A complete call of \<^verbatim>\<open>run_load\<close>: its events, its result and the number of progress advances. A thread
  pool cannot be built with fewer than one thread.
\<close>

inductive run_load ::
  "client_mode \<Rightarrow> Scenario \<Rightarrow> int \<Rightarrow> int \<Rightarrow> bool \<Rightarrow> bool \<Rightarrow> load_event list \<Rightarrow> LoadResult result \<Rightarrow> int \<Rightarrow> bool"
  for mode :: client_mode and scenario :: Scenario and concurrency :: int and requests :: int
    and collect :: bool and progress :: bool
where
  nothing: "requests = 0 \<Longrightarrow>
    run_load mode scenario concurrency requests collect progress []
      (Inr \<lparr>lr_latencies_ms = [], lr_errors = 0, lr_error_types = []\<rparr>) 0"
| no_threads: "requests \<noteq> 0 \<Longrightarrow> mode = SyncMode \<Longrightarrow> min concurrency requests \<le> 0 \<Longrightarrow>
    run_load mode scenario concurrency requests collect progress []
      (Inl (ValueError ''max_workers must be greater than 0'')) 0"
| drained: "requests \<noteq> 0 \<Longrightarrow> mode = AsyncMode \<or> 0 < min concurrency requests \<Longrightarrow>
    load_trace scenario collect progress (load_start concurrency requests) es s \<Longrightarrow> load_done s \<Longrightarrow>
    run_load mode scenario concurrency requests collect progress es
      (Inr (merge_load_results (map worker_result (ls_workers s)))) (ls_advances s)"

inductive_cases run_loadE: "run_load mode scenario concurrency requests collect progress es r advances"

subsection \<open>What the events say\<close>

definition taken :: "load_event list \<Rightarrow> nat" where
  "taken es = length (filter (\<lambda>e. case e of Take w \<Rightarrow> True | _ \<Rightarrow> False) es)"

definition answered :: "load_event list \<Rightarrow> nat" where
  "answered es = length (filter (\<lambda>e. case e of Answer w outcome t \<Rightarrow> True | _ \<Rightarrow> False) es)"

definition failures :: "Scenario \<Rightarrow> load_event list \<Rightarrow> string list" where
  "failures scenario es =
     List.map_filter (\<lambda>e. case e of Answer w outcome t \<Rightarrow> error_of scenario outcome | _ \<Rightarrow> None) es"

definition sum_workers :: "(worker \<Rightarrow> int) \<Rightarrow> load_state \<Rightarrow> int" where
  "sum_workers f s = sum_list (map f (ls_workers s))"

definition pool_inv :: "Scenario \<Rightarrow> bool \<Rightarrow> bool \<Rightarrow> nat \<Rightarrow> nat \<Rightarrow> load_event list \<Rightarrow> load_state \<Rightarrow> bool" where
  "pool_inv scenario collect progress m n es s \<longleftrightarrow>
     length (ls_workers s) = m \<and> taken es + length (ls_queue s) = n \<and>
     sum_workers (\<lambda>w. of_bool (wk_phase w = Requesting)) s + int (answered es) = int (taken es) \<and>
     ls_unfinished s = int n - int (answered es) \<and>
     ls_advances s = (if progress then int (answered es) else 0) \<and>
     (\<forall>k. sum_workers (\<lambda>w. counter_get (wk_error_types w) k) s = int (count_list (failures scenario es) k)) \<and>
     sum_workers (\<lambda>w. counter_total (wk_error_types w)) s = int (length (failures scenario es)) \<and>
     sum_workers (\<lambda>w. int (length (wk_latencies w))) s = (if collect then int (answered es) else 0) \<and>
     (\<forall>w \<in> set (ls_workers s). wf_obj (wk_error_types w)) \<and>
     (ls_queue s = [] \<or> sum_workers (\<lambda>w. of_bool (wk_phase w \<noteq> Returned)) s = int m) \<and>
     int (length es) + 2 * int (length (ls_queue s)) + sum_workers (\<lambda>w. of_bool (wk_phase w = Requesting)) s +
       sum_workers (\<lambda>w. of_bool (wk_phase w \<noteq> Returned)) s = 2 * int n + int m"

lemma sum_replace:
  "w < length (ls_workers s) \<Longrightarrow> ls_workers t = (ls_workers s)[w := v] \<Longrightarrow>
     sum_workers f t = sum_workers f s - f (ls_workers s ! w) + f v"
  by (simp add: sum_workers_def sum_list_replace)

lemma events_simps [simp]:
  "taken [] = 0" "answered [] = 0" "failures scenario [] = []"
  "taken (es @ [Take w]) = Suc (taken es)" "taken (es @ [Answer w a t]) = taken es"
  "taken (es @ [Leave w]) = taken es"
  "answered (es @ [Take w]) = answered es" "answered (es @ [Answer w a t]) = Suc (answered es)"
  "answered (es @ [Leave w]) = answered es"
  "failures scenario (es @ [Take w]) = failures scenario es"
  "failures scenario (es @ [Leave w]) = failures scenario es"
  "failures scenario (es @ [Answer w a t]) =
     failures scenario es @ (case error_of scenario a of None \<Rightarrow> [] | Some name \<Rightarrow> [name])"
  by (simp_all add: taken_def answered_def failures_def List.map_filter_def split: option.splits)

lemma finish_simps [simp]:
  "wk_phase (finish_request scenario collect a t w) = Ready"
  "length (wk_latencies (finish_request scenario collect a t w)) =
     length (wk_latencies w) + of_bool collect"
  by (simp_all add: finish_request_def)

lemma finish_counts:
  "counter_get (wk_error_types (finish_request scenario collect a t w)) k =
     counter_get (wk_error_types w) k + of_bool (error_of scenario a = Some k)"
  "counter_total (wk_error_types (finish_request scenario collect a t w)) =
     counter_total (wk_error_types w) + of_bool (error_of scenario a \<noteq> None)"
  "wf_obj (wk_error_types w) \<Longrightarrow> wf_obj (wk_error_types (finish_request scenario collect a t w))"
  by (auto simp: finish_request_def increment_def py_counter.count_add py_counter.total_add split: option.splits)

lemma wf_replace:
  "\<forall>w \<in> set ws. wf_obj (wk_error_types w) \<Longrightarrow> i < length ws \<Longrightarrow>
     (wf_obj (wk_error_types (ws ! i)) \<Longrightarrow> wf_obj (wk_error_types v)) \<Longrightarrow>
     \<forall>w \<in> set (ws[i := v]). wf_obj (wk_error_types w)"
  using set_update_subset_insert [of ws i v] nth_mem [of i ws] by blast

lemma pool_inv_step:
  assumes "load_step scenario collect progress s e s'" and inv: "pool_inv scenario collect progress m n es s"
  shows "pool_inv scenario collect progress m n (es @ [e]) s'"
  using assms(1)
proof cases
  case (take w i rest)
  let ?v = "(ls_workers s ! w)\<lparr>wk_phase := Requesting\<rparr>"
  have sums: "sum_workers f s' = sum_workers f s - f (ls_workers s ! w) + f ?v" for f
    using take by (intro sum_replace) simp_all
  have "\<forall>w \<in> set (ls_workers s'). wf_obj (wk_error_types w)"
    unfolding take(2) using inv take(3) by (simp add: pool_inv_def, intro wf_replace) simp_all
  with inv take(3-) show ?thesis
    unfolding pool_inv_def sums by (simp add: take(1,2))
next
  case (answer w a t)
  let ?v = "finish_request scenario collect a t (ls_workers s ! w)"
  have sums: "sum_workers f s' = sum_workers f s - f (ls_workers s ! w) + f ?v" for f
    using answer by (intro sum_replace) simp_all
  have "\<forall>w \<in> set (ls_workers s'). wf_obj (wk_error_types w)"
    unfolding answer(2) using inv answer(3) by (simp add: pool_inv_def, intro wf_replace) (simp_all add: finish_counts)
  with inv answer(3-) show ?thesis
    unfolding pool_inv_def sums finish_counts
    by (simp add: answer(1,2) split: option.splits)
next
  case (leave w)
  let ?v = "(ls_workers s ! w)\<lparr>wk_phase := Returned\<rparr>"
  have sums: "sum_workers f s' = sum_workers f s - f (ls_workers s ! w) + f ?v" for f
    using leave by (intro sum_replace) simp_all
  have "\<forall>w \<in> set (ls_workers s'). wf_obj (wk_error_types w)"
    unfolding leave(2) using inv leave(3) by (simp add: pool_inv_def, intro wf_replace) simp_all
  with inv leave(3-) show ?thesis
    unfolding pool_inv_def sums by (simp add: leave(1,2))
qed

lemma pool_inv_start:
  "pool_inv scenario collect progress (nat (min concurrency requests)) (nat requests) []
     (load_start concurrency requests)"
  by (simp add: pool_inv_def load_start_def sum_workers_def new_worker_def sum_list_replicate wf_obj_def)

lemma pool_inv_trace:
  "load_trace scenario collect progress (load_start concurrency requests) es s \<Longrightarrow>
     pool_inv scenario collect progress (nat (min concurrency requests)) (nat requests) es s"
  by (induction rule: load_trace.induct) (auto intro: pool_inv_start pool_inv_step)

lemma sum_workers_zero:
  "(\<And>w. 0 \<le> f w) \<Longrightarrow> sum_workers f s = 0 \<longleftrightarrow> (\<forall>w \<in> set (ls_workers s). f w = 0)"
  unfolding sum_workers_def by (subst sum_list_nonneg_eq_0_iff) auto

lemma sum_workers_nonneg: "(\<And>w. 0 \<le> f w) \<Longrightarrow> 0 \<le> sum_workers f s"
  unfolding sum_workers_def by (intro sum_list_nonneg) auto

lemma merged_result:
  assumes "\<forall>w \<in> set (ls_workers s). wf_obj (wk_error_types w)"
  defines "r \<equiv> merge_load_results (map worker_result (ls_workers s))"
  shows "int (length (lr_latencies_ms r)) = sum_workers (\<lambda>w. int (length (wk_latencies w))) s"
    and "lr_errors r = sum_workers (\<lambda>w. counter_total (wk_error_types w)) s"
    and "lr_errors r = counter_total (lr_error_types r)"
    and "counter_get (lr_error_types r) k = sum_workers (\<lambda>w. counter_get (wk_error_types w) k) s"
proof -
  have types: "map lr_error_types (map worker_result ws) = map wk_error_types ws" for ws
    by (simp add: worker_result_def)
  show "int (length (lr_latencies_ms r)) = sum_workers (\<lambda>w. int (length (wk_latencies w))) s"
    unfolding r_def merge_load_results_def Let_def sum_workers_def
    by (simp add: length_concat comp_def worker_result_def sum_list_of_nat [symmetric])
  show "lr_errors r = sum_workers (\<lambda>w. counter_total (wk_error_types w)) s"
    by (simp add: r_def merge_load_results_def types merge_error_types_total sum_workers_def del: map_map)
      (simp add: comp_def)
  show "lr_errors r = counter_total (lr_error_types r)"
    by (simp add: r_def merge_load_results_def Let_def)
  show "counter_get (lr_error_types r) k = sum_workers (\<lambda>w. counter_get (wk_error_types w) k) s"
  proof -
    have "counter_get (merge_error_types (map wk_error_types (ls_workers s))) k =
        (\<Sum>d\<leftarrow>map wk_error_types (ls_workers s). counter_get d k)"
      using assms(1) by (intro merge_error_types_get) auto
    then show ?thesis
      by (simp add: r_def merge_load_results_def types sum_workers_def Let_def del: map_map) (simp add: comp_def)
  qed
qed

lemma done_iff_exhausted:
  assumes "pool_inv scenario collect progress m n es s"
  shows "load_done s \<longleftrightarrow> length es = 2 * n + m"
proof -
  let ?busy = "\<lambda>w. of_bool (wk_phase w = Requesting) :: int"
  let ?open = "\<lambda>w. of_bool (wk_phase w \<noteq> Returned) :: int"
  have inv: "int (length es) + 2 * int (length (ls_queue s)) + sum_workers ?busy s + sum_workers ?open s =
      2 * int n + int m"
      "sum_workers ?busy s + int (answered es) = int (taken es)"
      "taken es + length (ls_queue s) = n" "ls_unfinished s = int n - int (answered es)"
    using assms by (simp_all add: pool_inv_def)
  have "0 \<le> sum_workers ?busy s" "0 \<le> sum_workers ?open s"
    by (simp_all add: sum_workers_nonneg)
  with inv have "ls_unfinished s = 0 \<and> sum_workers ?open s = 0 \<longleftrightarrow> length es = 2 * n + m"
    by auto
  moreover have "sum_workers ?open s = 0 \<longleftrightarrow> list_all (\<lambda>w. wk_phase w = Returned) (ls_workers s)"
    by (subst sum_workers_zero) (auto simp: list_all_iff)
  ultimately show ?thesis by (auto simp: load_done_def)
qed

lemma steps_bounded:
  assumes "pool_inv scenario collect progress m n es s"
  shows "length es \<le> 2 * n + m"
proof -
  have "0 \<le> sum_workers (\<lambda>w. of_bool (wk_phase w = Requesting)) s"
      "0 \<le> sum_workers (\<lambda>w. of_bool (wk_phase w \<noteq> Returned)) s"
    by (simp_all add: sum_workers_nonneg)
  then show ?thesis using assms by (simp add: pool_inv_def)
qed

lemma step_enabled:
  assumes "pool_inv scenario collect progress m n es s" "0 < m" "length es \<noteq> 2 * n + m"
  shows "\<exists>e s'. load_step scenario collect progress s e s'"
proof -
  let ?busy = "\<lambda>w. of_bool (wk_phase w = Requesting) :: int"
  let ?open = "\<lambda>w. of_bool (wk_phase w \<noteq> Returned) :: int"
  have "\<not> load_done s" using assms by (simp add: done_iff_exhausted)
  have "\<exists>w < length (ls_workers s). wk_phase (ls_workers s ! w) \<noteq> Returned"
  proof (rule ccontr)
    assume none: "\<not> ?thesis"
    then have all: "\<forall>w \<in> set (ls_workers s). wk_phase w = Returned" by (auto simp: in_set_conv_nth)
    then have "sum_workers ?busy s = 0" "sum_workers ?open s = 0" by (subst sum_workers_zero; auto)+
    with assms(1,2) have "ls_unfinished s = 0" by (auto simp: pool_inv_def)
    with all \<open>\<not> load_done s\<close> show False by (simp add: load_done_def list_all_iff)
  qed
  then obtain w where w: "w < length (ls_workers s)" "wk_phase (ls_workers s ! w) \<noteq> Returned" by blast
  show ?thesis
  proof (cases "wk_phase (ls_workers s ! w)")
    case Ready
    with w show ?thesis by (cases "ls_queue s") (blast intro: load_step.intros)+
  qed (use w in \<open>blast intro: load_step.intros\<close>)+
qed

lemma next_step: "load_next scenario collect progress s e = Some t \<Longrightarrow> load_step scenario collect progress s e t"
  using load_step.take load_step.leave load_step.answer [of _ s scenario collect progress]
  by (cases e) (auto split: list.splits if_split_asm)

lemma exec_trace:
  assumes "load_exec scenario collect progress es s = Some t"
    and "load_trace scenario collect progress start fs s"
  shows "load_trace scenario collect progress start (fs @ es) t"
  using assms
proof (induction es arbitrary: fs s)
  case (Cons e es)
  then obtain u where "load_next scenario collect progress s e = Some u"
      and u: "load_exec scenario collect progress es u = Some t"
    by (auto split: option.splits)
  with Cons.prems(2) have "load_trace scenario collect progress start (fs @ [e]) u"
    by (blast intro: load_trace.extend next_step)
  from Cons.IH [OF u this] show ?case by simp
qed simp

lemma exec_run:
  assumes "load_exec scenario collect progress es (load_start concurrency requests) = Some s" "load_done s"
    and "requests \<noteq> 0" "mode = AsyncMode \<or> 0 < min concurrency requests"
  shows "run_load mode scenario concurrency requests collect progress es
    (Inr (merge_load_results (map worker_result (ls_workers s)))) (ls_advances s)"
  using exec_trace [OF assms(1) load_trace.begin_trace] assms(2-) by (simp add: run_load.drained)

lemma failures_le: "length (failures scenario es) \<le> answered es"
  by (induction es) (auto simp: failures_def answered_def List.map_filter_def split: load_event.splits)

lemma run_can_complete:
  assumes "load_trace scenario collect progress (load_start concurrency requests) es s"
    and "0 < concurrency" "0 < requests"
  shows "\<exists>es' s'. load_trace scenario collect progress (load_start concurrency requests) (es @ es') s' \<and> load_done s'"
  using assms(1)
proof (induction "2 * nat requests + nat (min concurrency requests) - length es" arbitrary: es s rule: less_induct)
  case less
  note inv = pool_inv_trace [OF less.prems]
  show ?case
  proof (cases "length es = 2 * nat requests + nat (min concurrency requests)")
    case True
    with inv less.prems have "load_trace scenario collect progress (load_start concurrency requests) (es @ []) s \<and> load_done s"
      by (simp add: done_iff_exhausted)
    then show ?thesis by blast
  next
    case False
    with step_enabled [OF inv] assms(2,3) obtain e s' where "load_step scenario collect progress s e s'"
      by auto
    then have "load_trace scenario collect progress (load_start concurrency requests) (es @ [e]) s'"
      by (rule load_trace.extend [OF less.prems])
    moreover have "2 * nat requests + nat (min concurrency requests) - length (es @ [e]) <
        2 * nat requests + nat (min concurrency requests) - length es"
      using le_neq_trans [OF steps_bounded [OF inv] False] by (simp add: diff_less_mono2)
    ultimately show ?thesis using less.hyps [of "es @ [e]" s'] by auto
  qed
qed

lemma drained_counts:
  assumes "pool_inv scenario collect progress m n es s" "load_done s"
  shows "taken es = n" "answered es = n"
proof -
  have "0 \<le> sum_workers (\<lambda>w. of_bool (wk_phase w = Requesting)) s" by (simp add: sum_workers_nonneg)
  with assms show "taken es = n" "answered es = n" by (auto simp: pool_inv_def load_done_def)
qed

definition plain_scenario :: Scenario where
  "plain_scenario =
     \<lparr>sc_name = ''get'', sc_method = ''GET'', sc_path = ''/'', sc_body = None, sc_json_body = None,
      sc_expected_status = 200, sc_expected_json_keys = [], sc_expected_content_length = None,
      sc_expected_redirects = None, sc_expected_final_path = None, sc_follow_redirects = False,
      sc_request_limit = None, sc_description = []\<rparr>"

text \<open>Two workers and two requests: one is answered with the wrong status, the other raises.\<close>

definition sample_events :: "load_event list" where
  "sample_events =
     [Take 1, Take 0, Answer 0 (Raised ''PoolTimeout'') 7,
      Answer 1 (Answered \<lparr>ro_status_code = 500, ro_json_ok = True, ro_content_length = None,
        ro_history_count = None, ro_final_url = None\<rparr>) 9,
      Leave 0, Leave 1]"

lemma sample_run:
  "\<exists>r advances. run_load SyncMode plain_scenario 2 2 False True sample_events (Inr r) advances"
proof -
  have "case load_exec plain_scenario False True sample_events (load_start 2 2) of
      None \<Rightarrow> False | Some s \<Rightarrow> load_done s"
    by code_simp
  then obtain s where "load_exec plain_scenario False True sample_events (load_start 2 2) = Some s" "load_done s"
    by (auto split: option.splits)
  from exec_run [OF this] show ?thesis by auto
qed

subsection \<open>Properties\<close>

text \<open>
  C3: a load run accounts for every request, in whatever order the workers are scheduled: each of
  the requests is taken and answered once, the result has one latency per request when latencies are
  collected, its error count and its count per error type are those of the answers that failed, and
  the progress display advanced once per request.\<close>

theorem load_accounts:
  assumes "run_load mode scenario concurrency requests collect progress es (Inr r) advances" "0 \<le> requests"
  shows "int (taken es) = requests \<and> int (answered es) = requests \<and>
    int (length (lr_latencies_ms r)) = (if collect then requests else 0) \<and>
    lr_errors r = int (length (failures scenario es)) \<and> lr_errors r = counter_total (lr_error_types r) \<and>
    lr_errors r \<le> requests \<and>
    (\<forall>k. counter_get (lr_error_types r) k = int (count_list (failures scenario es) k)) \<and>
    advances = (if progress then requests else 0)"
  using assms(1)
proof cases
  case nothing
  then show ?thesis by simp
next
  case (drained s)
  note inv = pool_inv_trace [OF drained(5)]
  have wf: "\<forall>w \<in> set (ls_workers s). wf_obj (wk_error_types w)"
    using inv by (simp add: pool_inv_def)
  have counts: "int (taken es) = requests" "int (answered es) = requests"
    using drained_counts [OF inv drained(6)] assms(2) by simp_all
  have sums: "sum_workers (\<lambda>w. counter_get (wk_error_types w) k) s = int (count_list (failures scenario es) k)"
      "sum_workers (\<lambda>w. counter_total (wk_error_types w)) s = int (length (failures scenario es))"
      "sum_workers (\<lambda>w. int (length (wk_latencies w))) s = (if collect then requests else 0)"
      "ls_advances s = (if progress then requests else 0)" for k
    using inv counts by (simp_all add: pool_inv_def)
  show ?thesis
    unfolding drained(1,2) merged_result(1,4) [OF wf] sums counts
    using merged_result(2,3) [OF wf] sums(2) failures_le [of scenario es] counts by simp
qed

lemma load_accounts_witness:
  "\<exists>r. run_load SyncMode plain_scenario 2 2 False True sample_events (Inr r) 2 \<and> lr_errors r = 2 \<and>
     counter_get (lr_error_types r) ''check_failed'' = 1"
proof -
  obtain r advances where run: "run_load SyncMode plain_scenario 2 2 False True sample_events (Inr r) advances"
    using sample_run by blast
  moreover have "failures plain_scenario sample_events = [''PoolTimeout'', ''check_failed'']"
    by code_simp
  ultimately show ?thesis using load_accounts [OF run] by auto
qed

text \<open>
  C16: the pool cannot run for ever or get stuck: with at least one worker, a run of \<open>n\<close> requests by
  \<open>m\<close> workers takes at most \<open>2n + m\<close> steps, it is complete exactly after that many, and until then some
  worker can make a step.\<close>

theorem load_terminates:
  assumes "load_trace scenario collect progress (load_start concurrency requests) es s"
    and "0 < concurrency" "0 < requests"
  defines "bound \<equiv> 2 * nat requests + nat (min concurrency requests)"
  shows "length es \<le> bound \<and> (load_done s \<longleftrightarrow> length es = bound) \<and>
    (if load_done s then True else \<exists>e s'. load_step scenario collect progress s e s')"
proof -
  note inv = pool_inv_trace [OF assms(1)]
  from steps_bounded [OF inv] have "length es \<le> bound" by (simp add: bound_def)
  with done_iff_exhausted [OF inv] step_enabled [OF inv] assms(2,3) show ?thesis
    by (simp add: bound_def)
qed

lemma load_terminates_witness:
  "\<exists>e s'. load_step plain_scenario False True (load_start 2 2) e s'"
  using load_terminates [OF load_trace.begin_trace, of 2 2 plain_scenario False True] by (simp split: if_splits)

text \<open>
  C18: the guard on the concurrency matters: with none, a synchronous run raises, and an asynchronous
  run of at least one request never returns, because nothing empties the queue it joins.\<close>

theorem no_workers_never_returns:
  assumes "concurrency \<le> 0" "0 < requests"
  shows "run_load mode scenario concurrency requests collect progress es r advances \<longleftrightarrow>
    mode = SyncMode \<and> es = [] \<and> advances = 0 \<and> r = Inl (ValueError ''max_workers must be greater than 0'')"
proof
  assume "run_load mode scenario concurrency requests collect progress es r advances"
  then show "mode = SyncMode \<and> es = [] \<and> advances = 0 \<and>
      r = Inl (ValueError ''max_workers must be greater than 0'')"
  proof cases
    case (drained s)
    note inv = pool_inv_trace [OF drained(5)]
    have "sum_workers (\<lambda>w. of_bool (wk_phase w = Requesting)) s = 0"
      using inv assms by (simp add: pool_inv_def sum_workers_def)
    with inv drained_counts [OF inv drained(6)] have "length es = 2 * nat requests"
      using assms done_iff_exhausted [OF inv] drained(6) by simp
    moreover have "es = []"
      using drained(5) by cases (use inv assms in \<open>auto elim!: load_step.cases simp: pool_inv_def\<close>)
    ultimately show ?thesis using assms by simp
  qed (use assms in simp_all)
next
  assume "mode = SyncMode \<and> es = [] \<and> advances = 0 \<and>
      r = Inl (ValueError ''max_workers must be greater than 0'')"
  then show "run_load mode scenario concurrency requests collect progress es r advances"
    using assms by (simp add: run_load.no_threads)
qed

lemma no_workers_never_returns_witness:
  "\<nexists>es r advances. run_load AsyncMode plain_scenario 0 5 True True es r advances"
  using no_workers_never_returns [of 0 5] by simp

end
