(* ===== verification/Run_Settling.thy ===== *)
theory Run_Settling
  imports PyJson
begin

text \<open>
  run_settling.py: the pause after a run that churned through TCP connections. The environment is a
  dictionary, the numbers in it are read by \<open>parse_float\<close> and \<open>parse_int\<close>, and what the pause
  does is the list of its effects.
\<close>

subsection \<open>Configuration\<close>

definition RUN_COOLDOWN_ENV :: string where
  "RUN_COOLDOWN_ENV = ''FOGHTTP_BENCHMARK_RUN_COOLDOWN_S''"

definition RUN_COOLDOWN_OPENED_THRESHOLD_ENV :: string where
  "RUN_COOLDOWN_OPENED_THRESHOLD_ENV = ''FOGHTTP_BENCHMARK_RUN_COOLDOWN_OPENED_THRESHOLD''"

definition DEFAULT_RUN_COOLDOWN_S :: pyfloat where
  "DEFAULT_RUN_COOLDOWN_S = Fin 3"

definition DEFAULT_RUN_COOLDOWN_OPENED_THRESHOLD :: int where
  "DEFAULT_RUN_COOLDOWN_OPENED_THRESHOLD = 256"

record RunSettlingConfig =
  rs_cooldown_s :: pyfloat
  rs_opened_connection_threshold :: int

definition positive_float :: "(string \<times> string) list \<Rightarrow> string \<Rightarrow> pyfloat \<Rightarrow> pyfloat result" where
  "positive_float env name default_value =
     (case map_of env name of
        None \<Rightarrow> Inr default_value
      | Some raw_value \<Rightarrow>
          (case parse_float raw_value of
             None \<Rightarrow> Inl (ValueError (name @ '' must be a positive float''))
           | Some v \<Rightarrow>
               if fle v (Fin 0) then Inl (ValueError (name @ '' must be a positive float'')) else Inr v))"

definition positive_int :: "(string \<times> string) list \<Rightarrow> string \<Rightarrow> int \<Rightarrow> int result" where
  "positive_int env name default_value =
     (case map_of env name of
        None \<Rightarrow> Inr default_value
      | Some raw_value \<Rightarrow>
          (case parse_int raw_value of
             None \<Rightarrow> Inl (ValueError (name @ '' must be a positive integer''))
           | Some v \<Rightarrow>
               if v \<le> 0 then Inl (ValueError (name @ '' must be a positive integer'')) else Inr v))"

definition run_settling_config :: "(string \<times> string) list \<Rightarrow> RunSettlingConfig result" where
  "run_settling_config env =
     bindE (positive_float env RUN_COOLDOWN_ENV DEFAULT_RUN_COOLDOWN_S) (\<lambda>cooldown_s.
     bindE (positive_int env RUN_COOLDOWN_OPENED_THRESHOLD_ENV DEFAULT_RUN_COOLDOWN_OPENED_THRESHOLD)
       (\<lambda>opened_connection_threshold.
       Inr \<lparr>rs_cooldown_s = cooldown_s, rs_opened_connection_threshold = opened_connection_threshold\<rparr>))"

subsection \<open>The pause\<close>

text \<open>\<^verbatim>\<open>isinstance(value, int)\<close> holds of booleans too.\<close>

definition int_stat :: "obj option \<Rightarrow> string \<Rightarrow> int" where
  "int_stat stats key =
     (case stats of
        None \<Rightarrow> 0
      | Some d \<Rightarrow>
          (case get d key of JInt i \<Rightarrow> i | JBool b \<Rightarrow> (if b then 1 else 0) | _ \<Rightarrow> 0))"

definition should_settle_after_run :: "obj option \<Rightarrow> RunSettlingConfig \<Rightarrow> bool" where
  "should_settle_after_run stats config =
     (let opened_connections = int_stat stats ''connections_opened'';
          failed_connections = int_stat stats ''connections_open_failed''
      in 0 < failed_connections \<or> rs_opened_connection_threshold config \<le> opened_connections)"

datatype settle_effect = Status string | Sleep pyfloat

definition settle_after_run :: "obj option \<Rightarrow> RunSettlingConfig \<Rightarrow> bool \<Rightarrow> settle_effect list" where
  "settle_after_run stats config progress =
     (if \<not> should_settle_after_run stats config then []
      else
        (let opened_connections = int_stat stats ''connections_opened'';
             failed_connections = int_stat stats ''connections_open_failed''
         in (if progress then
               [Status (''Waiting '' @ fixed_str 1 (rs_cooldown_s config) @ ''s after TCP churn (opened='' @
                  int_str opened_connections @ '', open_failed='' @ int_str failed_connections @ '')'')]
             else []) @
            [Sleep (rs_cooldown_s config)]))"

subsection \<open>Properties\<close>

text \<open>
  The settling configuration is exactly what the environment says: an absent variable gives its
  default, a present one the number it spells provided it is not at most zero, and anything else is
  refused.\<close>

theorem settling_config_iff:
  "run_settling_config env = Inr config \<longleftrightarrow>
     (case map_of env RUN_COOLDOWN_ENV of
        None \<Rightarrow> rs_cooldown_s config = Fin 3
      | Some raw \<Rightarrow> parse_float raw = Some (rs_cooldown_s config) \<and> \<not> fle (rs_cooldown_s config) (Fin 0)) \<and>
     (case map_of env RUN_COOLDOWN_OPENED_THRESHOLD_ENV of
        None \<Rightarrow> rs_opened_connection_threshold config = 256
      | Some raw \<Rightarrow> parse_int raw = Some (rs_opened_connection_threshold config) \<and>
          0 < rs_opened_connection_threshold config)"
proof -
  have "positive_float env name d = Inr x \<longleftrightarrow>
      (case map_of env name of None \<Rightarrow> x = d | Some raw \<Rightarrow> parse_float raw = Some x \<and> \<not> fle x (Fin 0))"
    for name d x
    by (auto simp: positive_float_def split: option.splits)
  moreover have "positive_int env name d = Inr i \<longleftrightarrow>
      (case map_of env name of None \<Rightarrow> i = d | Some raw \<Rightarrow> parse_int raw = Some i \<and> 0 < i)"
    for name d i
    by (auto simp: positive_int_def split: option.splits)
  moreover have "run_settling_config env = Inr config \<longleftrightarrow>
      positive_float env RUN_COOLDOWN_ENV DEFAULT_RUN_COOLDOWN_S = Inr (rs_cooldown_s config) \<and>
      positive_int env RUN_COOLDOWN_OPENED_THRESHOLD_ENV DEFAULT_RUN_COOLDOWN_OPENED_THRESHOLD =
        Inr (rs_opened_connection_threshold config)"
    by (cases config) (auto simp: run_settling_config_def bindE_ok)
  ultimately show ?thesis
    by (simp add: DEFAULT_RUN_COOLDOWN_S_def DEFAULT_RUN_COOLDOWN_OPENED_THRESHOLD_def)
qed

text \<open>A cooldown that is not a number passes the check, which only refuses values at most zero.\<close>

lemma nan_cooldown_accepted:
  "run_settling_config [(RUN_COOLDOWN_ENV, ''nan'')] =
     Inr \<lparr>rs_cooldown_s = NaN, rs_opened_connection_threshold = 256\<rparr>"
  by code_simp

text \<open>Without statistics, or with none of the two counters, an accepted configuration never pauses.\<close>

lemma no_stats_no_pause:
  "0 < rs_opened_connection_threshold config \<Longrightarrow> settle_after_run None config progress = []"
  by (simp add: settle_after_run_def should_settle_after_run_def int_stat_def)

end
