(* ===== verification/Progress.thy ===== *)
theory Progress
  imports Prelude PyText "HOL-Library.Sublist"
begin

text \<open>
  progress.py: the progress display of a stage, either drawn by the rich library (whose calls are
  recorded as events) or written as plain lines at milestones or heartbeats. The monotonic clock is
  read by the caller of an operation and passed in; the lock makes each operation atomic.
\<close>

subsection \<open>State\<close>

definition MILESTONE_PERCENT :: int where "MILESTONE_PERCENT = 10"
definition INNER_MILESTONE_PERCENT :: int where "INNER_MILESTONE_PERCENT = 25"
definition PLAIN_HEARTBEAT_AFTER_S :: pyfloat where "PLAIN_HEARTBEAT_AFTER_S = Fin 5"
definition PLAIN_HEARTBEAT_INTERVAL_S :: pyfloat where "PLAIN_HEARTBEAT_INTERVAL_S = Fin 15"

datatype plain_output = Milestone | Heartbeat

text \<open>\<open>pr_rich\<close>: the rich display has been started, so \<^verbatim>\<open>rich_progress\<close> is not \<^verbatim>\<open>None\<close>.\<close>

record BenchmarkProgress =
  pr_enabled :: bool
  pr_milestone_percent :: int
  pr_plain_heartbeat_after_s :: pyfloat
  pr_plain_heartbeat_interval_s :: pyfloat
  pr_rich :: bool

record StageProgress =
  sp_name :: string
  sp_total :: int
  sp_milestone_percent :: int
  sp_plain_output :: plain_output
  sp_has_task :: bool
  sp_started_at :: pyfloat
  sp_completed :: int
  sp_label :: string
  sp_last_plain_update_at :: "pyfloat option"
  sp_plain_updates_emitted :: int

datatype progress_event = Line string | TaskAdded string int | Described string | Completed int

definition new_progress :: "bool \<Rightarrow> bool \<Rightarrow> BenchmarkProgress" where
  "new_progress enabled is_terminal =
     \<lparr>pr_enabled = enabled, pr_milestone_percent = MILESTONE_PERCENT,
      pr_plain_heartbeat_after_s = PLAIN_HEARTBEAT_AFTER_S,
      pr_plain_heartbeat_interval_s = PLAIN_HEARTBEAT_INTERVAL_S, pr_rich = (enabled \<and> is_terminal)\<rparr>"

subsection \<open>Plain output\<close>

definition plain_percent :: "int \<Rightarrow> int \<Rightarrow> int" where
  "plain_percent completed total_steps =
     (if total_steps \<le> 0 then 100 else min 100 ((completed * 100) div total_steps))"

definition print_plain_progress :: "StageProgress \<Rightarrow> progress_event list" where
  "print_plain_progress stage =
     (let percent = plain_percent (sp_completed stage) (sp_total stage);
          suffix = (if sp_label stage = [] then [] else '' '' @ sp_label stage)
      in [Line (''[dim]'' @ sp_name stage @ '': '' @ int_str (sp_completed stage) @ ''/'' @
            int_str (sp_total stage) @ '' ('' @ int_str percent @ ''%)'' @ suffix @ ''[/]'')])"

definition print_plain_stage_start :: "BenchmarkProgress \<Rightarrow> StageProgress \<Rightarrow> progress_event list" where
  "print_plain_stage_start r stage =
     (if \<not> pr_rich r \<and> sp_plain_output stage = Milestone
      then [Line (''[bold]'' @ sp_name stage @ '':[/] starting ('' @ int_str (sp_total stage) @ '' steps)'')]
      else [])"

text \<open>The floor division by a milestone of zero raises.\<close>

definition should_print_plain_milestone :: "StageProgress \<Rightarrow> bool result" where
  "should_print_plain_milestone stage =
     (if sp_completed stage \<le> 0 then Inr False
      else if sp_completed stage = 1 \<or> sp_total stage \<le> sp_completed stage then Inr True
      else
        (let current = (sp_completed stage * 100) div sp_total stage;
             previous = ((sp_completed stage - 1) * 100) div sp_total stage
         in if sp_milestone_percent stage = 0
            then Inl (ZeroDivisionError ''integer division or modulo by zero'')
            else Inr (previous div sp_milestone_percent stage < current div sp_milestone_percent stage)))"

definition should_print_plain_heartbeat :: "BenchmarkProgress \<Rightarrow> StageProgress \<Rightarrow> pyfloat \<Rightarrow> bool" where
  "should_print_plain_heartbeat r stage now =
     (if sp_completed stage \<le> 0 \<or> sp_total stage \<le> sp_completed stage then False
      else if flt (fsub now (sp_started_at stage)) (pr_plain_heartbeat_after_s r) then False
      else
        (case sp_last_plain_update_at stage of
           None \<Rightarrow> True
         | Some last_update \<Rightarrow> fle (pr_plain_heartbeat_interval_s r) (fsub now last_update)))"

definition print_plain_heartbeat ::
  "BenchmarkProgress \<Rightarrow> StageProgress \<Rightarrow> pyfloat \<Rightarrow> StageProgress \<times> progress_event list"
where
  "print_plain_heartbeat r stage now =
     (if \<not> should_print_plain_heartbeat r stage now then (stage, [])
      else
        (stage\<lparr>sp_last_plain_update_at := Some now,
               sp_plain_updates_emitted := sp_plain_updates_emitted stage + 1\<rparr>,
         print_plain_progress stage))"

definition should_finish_plain_heartbeat :: "BenchmarkProgress \<Rightarrow> StageProgress \<Rightarrow> pyfloat \<Rightarrow> bool" where
  "should_finish_plain_heartbeat r stage now =
     (if 0 < sp_plain_updates_emitted stage then True
      else fle (pr_plain_heartbeat_after_s r) (fsub now (sp_started_at stage)))"

subsection \<open>Stages\<close>

definition update_stage :: "BenchmarkProgress \<Rightarrow> StageProgress \<Rightarrow> progress_event list" where
  "update_stage r stage =
     (if \<not> pr_rich r \<or> \<not> sp_has_task stage then []
      else [Described (if sp_label stage = [] then sp_name stage else sp_name stage @ '': '' @ sp_label stage)])"

definition advance_stage ::
  "BenchmarkProgress \<Rightarrow> StageProgress \<Rightarrow> pyfloat \<Rightarrow> (StageProgress \<times> progress_event list) result"
where
  "advance_stage r stage now =
     (if pr_rich r \<and> sp_has_task stage then
        Inr (stage, update_stage r stage @ [Completed (sp_completed stage)])
      else if sp_plain_output stage = Heartbeat then Inr (print_plain_heartbeat r stage now)
      else
        bindE (should_print_plain_milestone stage) (\<lambda>due.
          Inr (stage, if due then print_plain_progress stage else [])))"

definition stage_update :: "BenchmarkProgress \<Rightarrow> StageProgress \<Rightarrow> string \<Rightarrow> StageProgress \<times> progress_event list" where
  "stage_update r stage label =
     (let stage = stage\<lparr>sp_label := label\<rparr> in (stage, update_stage r stage))"

definition stage_advance ::
  "BenchmarkProgress \<Rightarrow> StageProgress \<Rightarrow> string \<Rightarrow> pyfloat \<Rightarrow> (StageProgress \<times> progress_event list) result"
where
  "stage_advance r stage label now =
     (let stage = (if label \<noteq> [] then stage\<lparr>sp_label := label\<rparr> else stage);
          stage = stage\<lparr>sp_completed := sp_completed stage + 1\<rparr>
      in advance_stage r stage now)"

definition finish_stage ::
  "BenchmarkProgress \<Rightarrow> StageProgress \<Rightarrow> bool \<Rightarrow> pyfloat \<Rightarrow> progress_event list"
where
  "finish_stage r stage success now =
     (if pr_rich r \<and> sp_has_task stage then (if success then [Completed (sp_total stage)] else [])
      else if sp_plain_output stage = Heartbeat \<and> success \<and> \<not> should_finish_plain_heartbeat r stage now then []
      else
        [Line (''[bold]'' @ sp_name stage @ '':[/] '' @ (if success then ''done'' else ''failed'') @
           '' ('' @ int_str (sp_completed stage) @ ''/'' @ int_str (sp_total stage) @ '')'')])"

definition start_stage ::
  "BenchmarkProgress \<Rightarrow> string \<Rightarrow> int \<Rightarrow> int option \<Rightarrow> plain_output \<Rightarrow> pyfloat \<Rightarrow>
   StageProgress \<times> progress_event list"
where
  "start_stage r name total_steps milestone_percent plain now =
     (let effective = (case milestone_percent of
            None \<Rightarrow> pr_milestone_percent r
          | Some p \<Rightarrow> if p = 0 then pr_milestone_percent r else p);
          stage = \<lparr>sp_name = name, sp_total = total_steps, sp_milestone_percent = effective,
                   sp_plain_output = plain, sp_has_task = pr_rich r, sp_started_at = now, sp_completed = 0,
                   sp_label = [], sp_last_plain_update_at = None, sp_plain_updates_emitted = 0\<rparr>
      in (stage, (if pr_rich r then [TaskAdded name total_steps] else []) @ print_plain_stage_start r stage))"

text \<open>The advances of a stage, each with its label and the clock at the time.\<close>

fun advance_all ::
  "BenchmarkProgress \<Rightarrow> StageProgress \<Rightarrow> (string \<times> pyfloat) list \<Rightarrow>
   (StageProgress \<times> progress_event list) result"
where
  "advance_all r stage [] = Inr (stage, [])"
| "advance_all r stage ((label, now) # rest) =
     bindE (stage_advance r stage label now) (\<lambda>(stage, events).
     bindE (advance_all r stage rest) (\<lambda>(stage, more_events).
       Inr (stage, events @ more_events)))"

text \<open>A whole stage of an enabled display: the body's advances between the start and the finish.\<close>

definition run_stage ::
  "BenchmarkProgress \<Rightarrow> string \<Rightarrow> int \<Rightarrow> int option \<Rightarrow> plain_output \<Rightarrow> pyfloat \<Rightarrow>
   (string \<times> pyfloat) list \<Rightarrow> bool \<Rightarrow> pyfloat \<Rightarrow> progress_event list result"
where
  "run_stage r name total_steps milestone_percent plain started advances success finished =
     (if \<not> pr_enabled r then Inr []
      else
        (let (stage, start_events) = start_stage r name total_steps milestone_percent plain started
         in bindE (advance_all r stage advances) (\<lambda>(stage, events).
              Inr (start_events @ events @ finish_stage r stage success finished))))"

text \<open>The reporter is optional; a message is printed when there is an enabled one.\<close>

definition progress_status :: "BenchmarkProgress option \<Rightarrow> string \<Rightarrow> progress_event list" where
  "progress_status progress message =
     (case progress of
        None \<Rightarrow> []
      | Some r \<Rightarrow> if pr_enabled r then [Line (''[bold]Stage:[/] '' @ message)] else [])"

definition is_progress_enabled :: "BenchmarkProgress option \<Rightarrow> bool" where
  "is_progress_enabled progress = (case progress of None \<Rightarrow> False | Some r \<Rightarrow> pr_enabled r)"

subsection \<open>Milestones\<close>

text \<open>The milestone a stage has passed: the count that grows when a milestone line is due.\<close>

definition milestones_passed :: "int \<Rightarrow> int \<Rightarrow> int \<Rightarrow> int" where
  "milestones_passed m n c = ((c * 100) div n) div m"

lemma milestones_mono: "0 < n \<Longrightarrow> 0 < m \<Longrightarrow> c \<le> d \<Longrightarrow> milestones_passed m n c \<le> milestones_passed m n d"
  by (simp add: milestones_passed_def zdiv_mono1)

lemma milestones_all: "0 < n \<Longrightarrow> milestones_passed m n n = 100 div m"
  by (simp add: milestones_passed_def)

lemma advance_milestone:
  assumes "\<not> pr_rich r" "sp_plain_output stage = Milestone" "0 < sp_milestone_percent stage"
    and "0 \<le> sp_completed stage" "sp_completed stage < sp_total stage"
  defines "g \<equiv> milestones_passed (sp_milestone_percent stage) (sp_total stage)"
  shows "\<exists>stage' events. stage_advance r stage label now = Inr (stage', events) \<and>
    sp_plain_output stage' = Milestone \<and> sp_milestone_percent stage' = sp_milestone_percent stage \<and>
    sp_total stage' = sp_total stage \<and> sp_completed stage' = sp_completed stage + 1 \<and>
    int (length events) \<le> g (sp_completed stage + 1) - g (sp_completed stage) +
      of_bool (sp_completed stage = 0) + of_bool (sp_completed stage + 1 = sp_total stage)"
proof -
  have mono: "g (sp_completed stage) \<le> g (sp_completed stage + 1)"
    using assms by (simp add: g_def milestones_mono)
  let ?stage = "(if label \<noteq> [] then stage\<lparr>sp_label := label\<rparr> else stage)\<lparr>sp_completed := sp_completed stage + 1\<rparr>"
  have "should_print_plain_milestone ?stage = Inr
      (sp_completed stage = 0 \<or> sp_completed stage + 1 = sp_total stage \<or>
       g (sp_completed stage) < g (sp_completed stage + 1))"
    using assms(3-5) by (auto simp: should_print_plain_milestone_def g_def milestones_passed_def Let_def)
  moreover have "length (print_plain_progress s) = 1" for s
    by (simp add: print_plain_progress_def Let_def)
  ultimately show ?thesis
    using assms(1,2) mono by (auto simp: stage_advance_def advance_stage_def Let_def)
qed

lemma advances_milestone:
  assumes "\<not> pr_rich r" "sp_plain_output stage = Milestone" "0 < sp_milestone_percent stage"
    and "0 \<le> sp_completed stage" "sp_completed stage + int (length ops) \<le> sp_total stage"
  defines "g \<equiv> milestones_passed (sp_milestone_percent stage) (sp_total stage)"
  shows "\<exists>stage' events. advance_all r stage ops = Inr (stage', events) \<and>
    int (length events) \<le> g (sp_completed stage + int (length ops)) - g (sp_completed stage) +
      of_bool (sp_completed stage = 0) + of_bool (sp_completed stage < sp_total stage)"
  using assms(1-5) unfolding g_def
proof (induction ops arbitrary: stage)
  case (Cons op ops)
  obtain label now where op: "op = (label, now)" by force
  from Cons.prems have "sp_completed stage < sp_total stage" by simp
  from advance_milestone [OF Cons.prems(1-4) this, of label now] obtain stage' events where
    step: "stage_advance r stage label now = Inr (stage', events)"
      "sp_plain_output stage' = Milestone" "sp_milestone_percent stage' = sp_milestone_percent stage"
      "sp_total stage' = sp_total stage" "sp_completed stage' = sp_completed stage + 1"
      "int (length events) \<le> milestones_passed (sp_milestone_percent stage) (sp_total stage) (sp_completed stage + 1) -
        milestones_passed (sp_milestone_percent stage) (sp_total stage) (sp_completed stage) +
        of_bool (sp_completed stage = 0) + of_bool (sp_completed stage + 1 = sp_total stage)"
    by blast
  have "0 < sp_milestone_percent stage'" "0 \<le> sp_completed stage'"
      "sp_completed stage' + int (length ops) \<le> sp_total stage'"
    using step Cons.prems by simp_all
  from Cons.IH [OF Cons.prems(1) step(2) this] obtain stage'' rest where
    rest: "advance_all r stage' ops = Inr (stage'', rest)"
      "int (length rest) \<le> milestones_passed (sp_milestone_percent stage) (sp_total stage)
         (sp_completed stage + 1 + int (length ops)) -
       milestones_passed (sp_milestone_percent stage) (sp_total stage) (sp_completed stage + 1) +
       of_bool (sp_completed stage + 1 = 0) + of_bool (sp_completed stage + 1 < sp_total stage)"
    by (auto simp: step(3-5))
  have "sp_completed stage + int (length (op # ops)) = sp_completed stage + 1 + int (length ops)" by simp
  moreover have "of_bool (sp_completed stage + 1 = sp_total stage) + of_bool (sp_completed stage + 1 < sp_total stage) \<le> (1 :: int)"
    by simp
  moreover have "of_bool (sp_completed stage < sp_total stage) = (1 :: int)" "of_bool (sp_completed stage + 1 = 0) = (0 :: int)"
    using Cons.prems(4) \<open>sp_completed stage < sp_total stage\<close> by simp_all
  moreover have "int (length (events @ rest)) = int (length events) + int (length rest)" by simp
  ultimately have "int (length (events @ rest)) \<le>
      milestones_passed (sp_milestone_percent stage) (sp_total stage) (sp_completed stage + int (length (op # ops))) -
      milestones_passed (sp_milestone_percent stage) (sp_total stage) (sp_completed stage) +
      of_bool (sp_completed stage = 0) + of_bool (sp_completed stage < sp_total stage)"
    using step(6) rest(2) by presburger
  moreover have "advance_all r stage (op # ops) = Inr (stage'', events @ rest)"
    by (simp add: op step(1) rest(1))
  ultimately show ?case by blast
qed simp

subsection \<open>Heartbeats\<close>

text \<open>
  The advances by their position: when the \<open>i\<close>-th took place and the line a heartbeat prints there,
  with the count reached and the last label given by then.\<close>

definition time_of :: "(string \<times> pyfloat) list \<Rightarrow> nat \<Rightarrow> pyfloat" where
  "time_of advances i = snd (advances ! i)"

definition label_after :: "(string \<times> pyfloat) list \<Rightarrow> string" where
  "label_after advances = foldl (\<lambda>shown a. if fst a \<noteq> [] then fst a else shown) [] advances"

definition heartbeat_line :: "string \<Rightarrow> int \<Rightarrow> (string \<times> pyfloat) list \<Rightarrow> nat \<Rightarrow> progress_event" where
  "heartbeat_line name total_steps advances i =
     (let count = int i + 1; label = label_after (take (Suc i) advances)
      in Line (''[dim]'' @ name @ '': '' @ int_str count @ ''/'' @ int_str total_steps @ '' ('' @
           int_str (plain_percent count total_steps) @ ''%)'' @ (if label = [] then [] else '' '' @ label) @ ''[/]''))"

text \<open>Whether the \<open>i\<close>-th advance is early: the last one of the stage, or before the initial delay.\<close>

definition no_beat_at :: "BenchmarkProgress \<Rightarrow> int \<Rightarrow> pyfloat \<Rightarrow> (string \<times> pyfloat) list \<Rightarrow> nat \<Rightarrow> bool" where
  "no_beat_at r total_steps started advances i \<longleftrightarrow>
     total_steps \<le> int i + 1 \<or> flt (fsub (time_of advances i) started) (pr_plain_heartbeat_after_s r)"

lemma time_of_append [simp]:
  "i < length advances \<Longrightarrow> time_of (advances @ others) i = time_of advances i"
  "time_of (advances @ [(label, now)]) (length advances) = now"
  by (simp_all add: time_of_def nth_append)

lemma no_beat_append [simp]:
  "i < length advances \<Longrightarrow> no_beat_at r n started (advances @ others) i = no_beat_at r n started advances i"
  by (simp add: no_beat_at_def)

lemma heartbeat_line_append [simp]:
  "i < length advances \<Longrightarrow> heartbeat_line name n (advances @ others) i = heartbeat_line name n advances i"
  by (simp add: heartbeat_line_def)

lemma advance_all_snoc:
  "advance_all r stage (ops @ [(label, now)]) =
     bindE (advance_all r stage ops) (\<lambda>(stage', events).
     bindE (stage_advance r stage' label now) (\<lambda>(stage'', more_events). Inr (stage'', events @ more_events)))"
proof (induction ops arbitrary: stage)
  case Nil
  show ?case by (cases "stage_advance r stage label now") auto
next
  case (Cons op ops)
  obtain l t where op: "op = (l, t)" by force
  show ?case
  proof (cases "stage_advance r stage l t")
    case (Inr p)
    obtain stage' events where p: "p = (stage', events)" by force
    show ?thesis
    proof (cases "advance_all r stage' ops")
      case all: (Inr q)
      then show ?thesis
        using Cons.IH [of stage'] Inr
        by (cases q; cases "stage_advance r (fst q) label now") (auto simp: op p)
    qed (use Cons.IH [of stage'] Inr in \<open>simp add: op p\<close>)
  qed (simp add: op)
qed

text \<open>One advance of a heartbeat stage: it prints the line of its position or keeps silent for a reason.\<close>

lemma advance_heartbeat:
  fixes advances :: "(string \<times> pyfloat) list" and label :: string and now :: pyfloat
  assumes "\<not> pr_rich r" "sp_plain_output stage = Heartbeat" "sp_name stage = name" "sp_total stage = n"
    and "sp_started_at stage = started" "sp_completed stage = int (length advances)"
    and "sp_label stage = label_after advances"
  defines "advances' \<equiv> advances @ [(label, now)]"
  obtains stage' events where "stage_advance r stage label now = Inr (stage', events)"
    "sp_plain_output stage' = Heartbeat" "sp_name stage' = name" "sp_total stage' = n" "sp_started_at stage' = started"
    "sp_completed stage' = int (length advances')" "sp_label stage' = label_after advances'"
    "(if no_beat_at r n started advances' (length advances) \<or>
        (\<exists>t. sp_last_plain_update_at stage = Some t \<and> \<not> fle (pr_plain_heartbeat_interval_s r) (fsub now t))
      then sp_last_plain_update_at stage' = sp_last_plain_update_at stage \<and> events = []
      else sp_last_plain_update_at stage' = Some now \<and>
        events = [heartbeat_line name n advances' (length advances)])"
proof -
  obtain st where st: "st = (if label \<noteq> [] then stage\<lparr>sp_label := label\<rparr> else stage)\<lparr>sp_completed := sp_completed stage + 1\<rparr>"
    by blast
  have fields: "sp_name st = name" "sp_total st = n" "sp_started_at st = started" "sp_plain_output st = Heartbeat"
      "sp_completed st = int (length advances) + 1" "sp_label st = label_after advances'"
      "sp_last_plain_update_at st = sp_last_plain_update_at stage"
    using assms(2-7) by (simp_all add: st label_after_def advances'_def)
  have line: "print_plain_progress st = [heartbeat_line name n advances' (length advances)]"
    using fields by (simp add: print_plain_progress_def heartbeat_line_def Let_def advances'_def)
  have due: "should_print_plain_heartbeat r st now \<longleftrightarrow>
      \<not> (no_beat_at r n started advances' (length advances) \<or>
        (\<exists>t. sp_last_plain_update_at stage = Some t \<and> \<not> fle (pr_plain_heartbeat_interval_s r) (fsub now t)))"
    using fields
    by (auto simp: should_print_plain_heartbeat_def no_beat_at_def advances'_def split: option.splits)
  have step: "stage_advance r stage label now = Inr (print_plain_heartbeat r st now)"
    using assms(1,2) by (cases "label = []") (simp_all add: stage_advance_def advance_stage_def Let_def st)
  show thesis
  proof (cases "should_print_plain_heartbeat r st now")
    case True
    then have run: "stage_advance r stage label now = Inr (st\<lparr>sp_last_plain_update_at := Some now,
        sp_plain_updates_emitted := sp_plain_updates_emitted st + 1\<rparr>, [heartbeat_line name n advances' (length advances)])"
      by (simp add: step print_plain_heartbeat_def line)
    show thesis by (rule that [OF run]) (use fields True due in \<open>auto simp: advances'_def\<close>)
  next
    case False
    then have run: "stage_advance r stage label now = Inr (st, [])" by (simp add: step print_plain_heartbeat_def)
    show thesis by (rule that [OF run]) (use fields False due in \<open>auto simp: advances'_def\<close>)
  qed
qed

lemma advances_heartbeat:
  assumes "\<not> pr_rich r" "sp_plain_output stage = Heartbeat" "sp_name stage = name" "sp_total stage = n"
    and "sp_started_at stage = started" "sp_completed stage = 0" "sp_label stage = []"
    and "sp_last_plain_update_at stage = None"
  shows "\<exists>stage' beats. advance_all r stage advances = Inr (stage', map (heartbeat_line name n advances) beats) \<and>
    sp_plain_output stage' = Heartbeat \<and> sp_name stage' = name \<and> sp_total stage' = n \<and>
    sp_started_at stage' = started \<and> sp_completed stage' = int (length advances) \<and>
    sp_label stage' = label_after advances \<and>
    sp_last_plain_update_at stage' = (if beats = [] then None else Some (time_of advances (last beats))) \<and>
    sorted_wrt (<) beats \<and> (\<forall>i \<in> set beats. i < length advances \<and> \<not> no_beat_at r n started advances i) \<and>
    successively (\<lambda>i j. fle (pr_plain_heartbeat_interval_s r) (fsub (time_of advances j) (time_of advances i))) beats \<and>
    (\<forall>i < length advances. i \<in> set beats \<or> no_beat_at r n started advances i \<or>
       (\<exists>j \<in> set beats. j < i \<and>
          \<not> fle (pr_plain_heartbeat_interval_s r) (fsub (time_of advances i) (time_of advances j))))"
proof (induction advances rule: rev_induct)
  case Nil
  show ?case using assms by (intro exI [of _ stage] exI [of _ "[]"]) (simp add: label_after_def)
next
  case (snoc op advances)
  obtain label now where op: "op = (label, now)" by force
  from snoc.IH obtain stage' beats where
    run: "advance_all r stage advances = Inr (stage', map (heartbeat_line name n advances) beats)"
    and stage': "sp_plain_output stage' = Heartbeat" "sp_name stage' = name" "sp_total stage' = n"
      "sp_started_at stage' = started" "sp_completed stage' = int (length advances)" "sp_label stage' = label_after advances"
    and latest: "sp_last_plain_update_at stage' = (if beats = [] then None else Some (time_of advances (last beats)))"
    and beats: "sorted_wrt (<) beats" "\<forall>i \<in> set beats. i < length advances \<and> \<not> no_beat_at r n started advances i"
      "successively (\<lambda>i j. fle (pr_plain_heartbeat_interval_s r) (fsub (time_of advances j) (time_of advances i))) beats"
    and complete: "\<forall>i < length advances. i \<in> set beats \<or> no_beat_at r n started advances i \<or>
       (\<exists>j \<in> set beats. j < i \<and>
          \<not> fle (pr_plain_heartbeat_interval_s r) (fsub (time_of advances i) (time_of advances j)))"
    by blast
  let ?advances = "advances @ [(label, now)]"
  obtain stage'' events where step: "stage_advance r stage' label now = Inr (stage'', events)"
    and stage'': "sp_plain_output stage'' = Heartbeat" "sp_name stage'' = name" "sp_total stage'' = n"
      "sp_started_at stage'' = started" "sp_completed stage'' = int (length ?advances)"
      "sp_label stage'' = label_after ?advances"
    and beat: "if no_beat_at r n started ?advances (length advances) \<or>
        (\<exists>t. sp_last_plain_update_at stage' = Some t \<and> \<not> fle (pr_plain_heartbeat_interval_s r) (fsub now t))
      then sp_last_plain_update_at stage'' = sp_last_plain_update_at stage' \<and> events = []
      else sp_last_plain_update_at stage'' = Some now \<and> events = [heartbeat_line name n ?advances (length advances)]"
    by (rule advance_heartbeat [OF assms(1) stage'])
  have lines: "map (heartbeat_line name n ?advances) beats = map (heartbeat_line name n advances) beats"
    using beats(2) by simp
  have spaced: "successively (\<lambda>i j. fle (pr_plain_heartbeat_interval_s r)
      (fsub (time_of ?advances j) (time_of ?advances i))) beats"
    using beats(2,3) by (rule_tac successively_cong [THEN iffD1, rotated 2]) auto
  have all: "advance_all r stage ?advances = Inr (stage'', map (heartbeat_line name n advances) beats @ events)"
    by (simp add: advance_all_snoc run step)
  have old: "\<forall>i < length advances. i \<in> set beats \<or> no_beat_at r n started ?advances i \<or>
       (\<exists>j \<in> set beats. j < i \<and>
          \<not> fle (pr_plain_heartbeat_interval_s r) (fsub (time_of ?advances i) (time_of ?advances j)))"
    using complete by (metis no_beat_append order.strict_trans time_of_append(1))
  have latest': "beats \<noteq> [] \<Longrightarrow> last beats < length advances" using beats(2) by simp
  show ?case
  proof (cases "no_beat_at r n started ?advances (length advances) \<or>
      (\<exists>t. sp_last_plain_update_at stage' = Some t \<and> \<not> fle (pr_plain_heartbeat_interval_s r) (fsub now t))")
    case True
    with latest latest' have "no_beat_at r n started ?advances (length advances) \<or> (\<exists>j \<in> set beats. j < length advances \<and>
        \<not> fle (pr_plain_heartbeat_interval_s r) (fsub now (time_of ?advances j)))"
      by (metis last_in_set option.distinct(1) option.sel time_of_append(1))
    with old have "\<forall>i < length ?advances. i \<in> set beats \<or> no_beat_at r n started ?advances i \<or>
        (\<exists>j \<in> set beats. j < i \<and>
          \<not> fle (pr_plain_heartbeat_interval_s r) (fsub (time_of ?advances i) (time_of ?advances j)))"
      by (auto simp: less_Suc_eq)
    moreover from True beat have "sp_last_plain_update_at stage'' = sp_last_plain_update_at stage'" "events = []" by auto
    ultimately show ?thesis
      using all stage'' latest latest' beats(1,2) spaced lines unfolding op
      by (intro exI [of _ stage''] exI [of _ beats]) (auto simp: less_SucI)
  next
    case False
    with beat have "sp_last_plain_update_at stage'' = Some now"
        "events = [heartbeat_line name n ?advances (length advances)]"
      by auto
    moreover have "successively (\<lambda>i j. fle (pr_plain_heartbeat_interval_s r)
        (fsub (time_of ?advances j) (time_of ?advances i))) (beats @ [length advances])"
      using spaced False latest latest' by (cases "beats = []") (auto simp: successively_append_iff)
    moreover have "\<forall>i < length ?advances. i \<in> set (beats @ [length advances]) \<or> no_beat_at r n started ?advances i \<or>
        (\<exists>j \<in> set (beats @ [length advances]). j < i \<and>
          \<not> fle (pr_plain_heartbeat_interval_s r) (fsub (time_of ?advances i) (time_of ?advances j)))"
      using old by (auto simp: less_Suc_eq)
    ultimately show ?thesis
      using all stage'' beats(1,2) lines False unfolding op
      by (intro exI [of _ stage''] exI [of _ "beats @ [length advances]"]) (auto simp: sorted_wrt_append less_SucI)
  qed
qed

subsection \<open>Properties\<close>

lemma plain_percent_bounds: "0 \<le> completed \<Longrightarrow> 0 \<le> plain_percent completed n \<and> plain_percent completed n \<le> 100"
  by (simp add: plain_percent_def pos_imp_zdiv_nonneg_iff)

text \<open>
  C31: plain output stays short however long a stage is: with a milestone of at least one percent, a
  stage that advances no more often than its total never raises and prints at most four lines besides
  one per milestone, \<open>100 div m + 4\<close> in all.\<close>

theorem milestone_output_bounded:
  assumes "\<not> pr_rich r" "1 \<le> m" "int (length advances) \<le> total_steps"
  shows "\<exists>events. run_stage r name total_steps (Some m) Milestone started advances success finished = Inr events \<and>
    int (length events) \<le> 100 div m + 4"
proof (cases "pr_enabled r")
  case True
  let ?stage = "fst (start_stage r name total_steps (Some m) Milestone started)"
  have stage: "sp_plain_output ?stage = Milestone" "sp_milestone_percent ?stage = m" "sp_completed ?stage = 0"
      "sp_total ?stage = total_steps"
    using assms(2) by (simp_all add: start_stage_def Let_def)
  obtain stage' events where run: "advance_all r ?stage advances = Inr (stage', events)"
      and len: "int (length events) \<le> milestones_passed m total_steps (int (length advances)) -
        milestones_passed m total_steps 0 + 1 + of_bool (0 < total_steps)"
    using advances_milestone [OF assms(1) stage(1), of advances] assms(2,3) unfolding stage(2-4) by auto
  have "int (length events) \<le> 100 div m + 2"
  proof (cases "0 < total_steps")
    case positive: True
    have "milestones_passed m total_steps (int (length advances)) \<le> 100 div m"
      using milestones_mono [OF positive _ assms(3), of m] milestones_all [OF positive] assms(2) by simp
    with len positive show ?thesis by (simp add: milestones_passed_def)
  next
    case False
    with assms(3) have "int (length advances) \<le> 0" by linarith
    then have "advances = []" by simp
    with run assms(2) show ?thesis by (simp add: pos_imp_zdiv_nonneg_iff)
  qed
  moreover have "length (snd (start_stage r name total_steps (Some m) Milestone started)) = 1"
    using assms(1) by (simp add: start_stage_def print_plain_stage_start_def Let_def)
  moreover have "length (finish_stage r stage' success finished) \<le> 1"
    by (simp add: finish_stage_def)
  ultimately show ?thesis
    using True run by (auto simp: run_stage_def split: prod.splits)
qed (use assms(2) in \<open>simp add: run_stage_def pos_imp_zdiv_nonneg_iff\<close>)

lemma milestone_output_bounded_witness:
  "\<exists>events. run_stage (new_progress True False) ''load'' 3 (Some 25) Milestone (Fin 0)
     [([], Fin 1), ([], Fin 2), ([], Fin 3)] True (Fin 4) = Inr events \<and> int (length events) \<le> 8"
  using milestone_output_bounded [of "new_progress True False" 25 "[([], Fin 1), ([], Fin 2), ([], Fin 3)]" 3]
  by (simp add: new_progress_def)



end
