(* ===== verification/Suite_Selection.thy ===== *)
theory Suite_Selection
  imports Report_Fields
begin

text \<open>
  suite_selection.py and the client registry it asks (clients/registry.py): the comma separated
  lists of the command line, and the clients that can run. Whether a client's package can be
  imported is not the program's to say: the parameter \<open>import_failure\<close> gives, for a client name,
  the text \<^verbatim>\<open>ExceptionType: message\<close> of a failed import.
\<close>

subsection \<open>Comma separated lists\<close>

definition parse_csv :: "string \<Rightarrow> string list" where
  "parse_csv s = map strip (filter (\<lambda>item. strip item \<noteq> []) (split_on CHR '','' s))"

definition parse_int_csv :: "string \<Rightarrow> int list result" where
  "parse_int_csv s =
     (let items = map parse_int (parse_csv s)
      in if list_ex (\<lambda>i. i = None) items then Inl (ValueError (''invalid integer list: '' @ s))
         else Inr (map the items))"

subsection \<open>The registry of clients\<close>

record ClientSpec =
  cs_name :: string
  cs_mode :: string

definition ZAPROS_PYREQWEST_CLIENT :: string where "ZAPROS_PYREQWEST_CLIENT = ''zapros-pyreqwest''"

definition client_specs :: "ClientSpec list" where
  "client_specs =
     map (\<lambda>name. \<lparr>cs_name = name, cs_mode = ASYNC_MODE\<rparr>)
       [''foghttp'', ''httpx'', ''httpxyz'', ''aiohttp'', ''zapros'', ZAPROS_PYREQWEST_CLIENT] @
     map (\<lambda>name. \<lparr>cs_name = name, cs_mode = SYNC_MODE\<rparr>)
       [''foghttp'', ''httpx'', ''httpxyz'', ''zapros'', ZAPROS_PYREQWEST_CLIENT]"

definition spec_for :: "string \<Rightarrow> string \<Rightarrow> ClientSpec option" where
  "spec_for mode name = find (\<lambda>spec. cs_mode spec = mode \<and> cs_name spec = name) client_specs"

definition select_client ::
  "(string \<Rightarrow> string option) \<Rightarrow> string \<Rightarrow> ClientSpec list \<times> (string \<times> string) list \<Rightarrow> string \<Rightarrow>
   ClientSpec list \<times> (string \<times> string) list"
where
  "select_client import_failure mode acc name =
     (let (clients, skipped) = acc; key = mode @ '':'' @ name
      in case spec_for mode name of
           None \<Rightarrow> (clients, AList.update key ''unknown client'' skipped)
         | Some spec \<Rightarrow>
             (case import_failure name of
                Some failure \<Rightarrow> (clients, AList.update key failure skipped)
              | None \<Rightarrow> (clients @ [spec], skipped)))"

definition select_mode ::
  "(string \<Rightarrow> string option) \<Rightarrow> string list \<Rightarrow> ClientSpec list \<times> (string \<times> string) list \<Rightarrow> string \<Rightarrow>
   ClientSpec list \<times> (string \<times> string) list"
where
  "select_mode import_failure requested_clients acc mode =
     (if mode \<noteq> ASYNC_MODE \<and> mode \<noteq> SYNC_MODE then
        (fst acc, AList.update (mode @ '':*'') ''unknown mode'' (snd acc))
      else foldl (select_client import_failure mode) acc requested_clients)"

definition available_clients ::
  "(string \<Rightarrow> string option) \<Rightarrow> string list \<Rightarrow> string list \<Rightarrow> ClientSpec list \<times> (string \<times> string) list"
where
  "available_clients import_failure requested_clients requested_modes =
     foldl (select_mode import_failure requested_clients) ([], []) requested_modes"

definition client_module_name :: "string \<Rightarrow> string" where
  "client_module_name name =
     (if name = ZAPROS_PYREQWEST_CLIENT then ''zapros'' else if name = ''foghttp'' then ''foghttp'' else name)"

subsection \<open>Selection for a suite\<close>

text \<open>The message shows the skipped clients as \<^verbatim>\<open>str\<close> of a dictionary.\<close>

definition available_clients_for_suite ::
  "(string \<Rightarrow> string option) \<Rightarrow> string \<Rightarrow> string \<Rightarrow> (ClientSpec list \<times> (string \<times> string) list) result"
where
  "available_clients_for_suite import_failure clients_arg modes_arg =
     (let (clients, skipped) = available_clients import_failure (parse_csv clients_arg) (parse_csv modes_arg)
      in if clients = [] then
           Inl (ValueError (''No requested clients are available: '' @
             py_str (JObj (map (\<lambda>(k, v). (k, JStr v)) skipped))))
         else Inr (clients, skipped))"

record ClientIsolationSelection =
  sel_clients :: "string list"
  sel_skipped :: "(string \<times> string) list"

definition isolation_selection ::
  "string \<Rightarrow> ClientSpec list \<Rightarrow> (string \<times> string) list \<Rightarrow> ClientIsolationSelection"
where
  "isolation_selection clients_arg clients skipped =
     \<lparr>sel_clients = filter (\<lambda>name. name \<in> set (map cs_name clients)) (parse_csv clients_arg),
      sel_skipped = skipped\<rparr>"

definition select_default_clients ::
  "(string \<Rightarrow> string option) \<Rightarrow> string \<Rightarrow> string \<Rightarrow> ClientIsolationSelection"
where
  "select_default_clients import_failure clients_arg modes_arg =
     (let (clients, skipped) = available_clients import_failure (parse_csv clients_arg) (parse_csv modes_arg)
      in isolation_selection clients_arg clients skipped)"

subsection \<open>Lemmas\<close>

definition clean_item :: "string \<Rightarrow> bool" where
  "clean_item x \<longleftrightarrow> x \<noteq> [] \<and> strip x = x \<and> CHR '','' \<notin> set x"

lemma split_on_not_Nil [simp]: "split_on c s \<noteq> []"
  by (induction s) (auto split: list.splits)

lemma split_on_member: "p \<in> set (split_on c s) \<Longrightarrow> c \<notin> set p"
proof (induction s arbitrary: p)
  case (Cons x xs)
  then show ?case by (cases "split_on c xs") (auto split: if_splits)
qed simp

lemma split_on_plain: "c \<notin> set s \<Longrightarrow> split_on c s = [s]"
  by (induction s) auto

lemma split_on_append: "c \<notin> set x \<Longrightarrow> split_on c (x @ c # s) = x # split_on c s"
  by (induction x) auto

lemma split_join: "items \<noteq> [] \<Longrightarrow> \<forall>x \<in> set items. c \<notin> set x \<Longrightarrow> split_on c (join [c] items) = items"
  by (induction items) (auto simp: join_Cons split_on_append split_on_plain)

lemma set_strip: "set (strip s) \<subseteq> set s"
  unfolding strip_def by (auto dest!: set_dropWhileD)

lemma dropWhile_idem [simp]: "dropWhile P (dropWhile P xs) = dropWhile P xs"
  by (induction xs) auto

lemma dropWhile_rev_keeps: "dropWhile P xs = xs \<Longrightarrow> dropWhile P (rev (dropWhile P (rev xs))) = rev (dropWhile P (rev xs))"
proof (cases xs)
  case (Cons y ys)
  assume "dropWhile P xs = xs"
  then have "\<not> P y" using Cons dropWhile_eq_self_iff [of P xs] by simp
  with Cons have "rev (dropWhile P (rev xs)) = y # rev (dropWhile P (rev ys))"
    by (simp add: dropWhile_append)
  with \<open>\<not> P y\<close> show ?thesis by simp
qed simp

lemma strip_idem [simp]: "strip (strip s) = strip s"
  unfolding strip_def using dropWhile_rev_keeps [of is_space "dropWhile is_space s"] by simp

lemma parse_csv_clean: "list_all clean_item (parse_csv s)"
  using split_on_member [of _ "CHR '',''" s] set_strip
  by (auto simp: parse_csv_def list_all_iff clean_item_def)

lemma parse_csv_join: "list_all clean_item items \<Longrightarrow> parse_csv (join '','' items) = items"
proof (cases items)
  case (Cons x xs)
  assume clean: "list_all clean_item items"
  with Cons have "split_on CHR '','' (join '','' items) = items"
    by (intro split_join) (auto simp: list_all_iff clean_item_def)
  moreover have "filter (\<lambda>item. strip item \<noteq> []) items = items"
    using clean by (auto simp: list_all_iff clean_item_def intro!: filter_True)
  moreover have "map strip items = items"
    using clean by (auto simp: list_all_iff clean_item_def intro!: map_idI)
  ultimately show ?thesis by (simp add: parse_csv_def)
qed (simp add: parse_csv_def)

lemma select_client_clients:
  "fst (select_client import_failure mode acc name) =
     fst acc @ (case spec_for mode name of
       None \<Rightarrow> [] | Some spec \<Rightarrow> if import_failure name = None then [spec] else [])"
  by (auto simp: select_client_def Let_def split: prod.splits option.splits)

lemma select_clients:
  "fst (foldl (select_client import_failure mode) acc names) =
     fst acc @ concat (map (\<lambda>name. case spec_for mode name of
       None \<Rightarrow> [] | Some spec \<Rightarrow> if import_failure name = None then [spec] else []) names)"
  by (induction names arbitrary: acc) (simp_all add: select_client_clients)

lemma spec_for_Some: "spec_for mode name = Some spec \<longleftrightarrow> spec \<in> set client_specs \<and> cs_mode spec = mode \<and> cs_name spec = name"
proof -
  have "list_all (\<lambda>spec. spec_for (cs_mode spec) (cs_name spec) = Some spec) client_specs"
    by code_simp
  then show ?thesis
    by (auto simp: list_all_iff spec_for_def find_Some_iff)
qed

lemma spec_modes: "spec \<in> set client_specs \<Longrightarrow> cs_mode spec = ASYNC_MODE \<or> cs_mode spec = SYNC_MODE"
  by (auto simp: client_specs_def)

lemma select_mode_clients:
  "set (fst (select_mode import_failure names acc mode)) =
     set (fst acc) \<union> {spec \<in> set client_specs. cs_mode spec = mode \<and> cs_name spec \<in> set names \<and>
       import_failure (cs_name spec) = None}"
proof (cases "mode \<noteq> ASYNC_MODE \<and> mode \<noteq> SYNC_MODE")
  case True
  then show ?thesis using spec_modes by (auto simp: select_mode_def)
next
  case False
  then show ?thesis
    by (auto simp: select_mode_def select_clients spec_for_Some split: option.splits if_splits)
      (metis option.distinct(1) spec_for_Some)+
qed

lemma available_clients_set:
  "set (fst (foldl (select_mode import_failure names) acc modes)) =
     set (fst acc) \<union> {spec \<in> set client_specs. cs_mode spec \<in> set modes \<and> cs_name spec \<in> set names \<and>
       import_failure (cs_name spec) = None}"
  by (induction modes arbitrary: acc) (auto simp: select_mode_clients)

subsection \<open>Properties\<close>

text \<open>
  The lists of the command line survive their text: joining items with commas and parsing the
  result gives the items back exactly when each is nonempty, free of commas and free of surrounding
  space, and every parsed list is of that kind (so parsing is idempotent).\<close>

theorem csv_round_trip:
  "(parse_csv (join '','' items) = items \<longleftrightarrow> list_all clean_item items) \<and>
   parse_csv (join '','' (parse_csv s)) = parse_csv s"
  using parse_csv_join [of items] parse_csv_clean [of "join '','' items"] parse_csv_join [OF parse_csv_clean [of s]]
  by auto

text \<open>
  Exactly the right clients run: a registered client is selected if and only if its mode and its
  name were requested and its package can be imported, and nothing else is ever selected.\<close>

theorem available_clients_iff:
  "spec \<in> set (fst (available_clients import_failure requested_clients requested_modes)) \<longleftrightarrow>
     spec \<in> set client_specs \<and> cs_mode spec \<in> set requested_modes \<and> cs_name spec \<in> set requested_clients \<and>
     import_failure (cs_name spec) = None"
  by (simp add: available_clients_def available_clients_set)

end
