(* ===== verification/Argument_Validation.thy ===== *)
theory Argument_Validation
  imports Prelude PyText
begin

text \<open>
  validation.py and the argument record of models.py: every suite checks its arguments and reports
  all that is wrong with them in one error. The case tables are dictionaries keyed by name; only
  their names matter here.
\<close>

record BenchmarkArgs =
  ba_suite :: string
  ba_clients :: string
  ba_modes :: string
  ba_concurrency :: string
  ba_requests :: int
  ba_warmup :: int
  ba_repeats :: int
  ba_max_redirects :: int
  ba_seed :: int
  ba_no_shuffle :: bool
  ba_output_dir :: string
  ba_scenarios :: string
  ba_iterations :: int
  ba_client_counts :: string
  ba_isolation :: string
  ba_streaming_profile :: string
  ba_streaming_payload_bytes :: int
  ba_streaming_server_write_bytes :: int
  ba_streaming_server_delay_s :: pyfloat
  ba_streaming_read_bytes :: "int option"
  ba_streaming_consumer_delay_s :: pyfloat
  ba_streaming_instrumentation :: string
  ba_streaming_profiler_label :: "string option"
  ba_streaming_profiler :: string
  ba_streaming_perf_sample_frequency_hz :: int
  ba_streaming_chunk_sample_cap :: int
  ba_streaming_minimum_duration_s :: pyfloat
  ba_streaming_max_window_streams :: int
  ba_streaming_server_observations :: bool

text \<open>\<^verbatim>\<open>if condition: errors.append(message)\<close>, and the error raised when the list is not empty.\<close>

definition problem :: "bool \<Rightarrow> string \<Rightarrow> string list" where
  "problem condition message = (if condition then [message] else [])"

definition newline :: string where
  "newline = [CHR 0x0A]"

definition raise_problems :: "string \<Rightarrow> string list \<Rightarrow> unit result" where
  "raise_problems header errors =
     raise_if (errors \<noteq> []) (ValueError (header @ newline @ ''- '' @ join (newline @ ''- '') errors))"

definition unknown_names :: "string \<Rightarrow> string list \<Rightarrow> (string \<times> 'v) list \<Rightarrow> string list" where
  "unknown_names header requested known =
     (let unknown = filter (\<lambda>name. name \<notin> fst ` set known) requested
      in problem (unknown \<noteq> []) (header @ join '', '' unknown))"

subsection \<open>The suites\<close>

definition validate_request_benchmark_args ::
  "BenchmarkArgs \<Rightarrow> string list \<Rightarrow> (string \<times> 'v) list \<Rightarrow> int list \<Rightarrow> unit result"
where
  "validate_request_benchmark_args args requested_scenarios scenario_map concurrency_levels =
     raise_problems ''Invalid benchmark arguments:''
       (problem (ba_requests args < 1) ''--requests must be >= 1'' @
        problem (ba_warmup args < 0) ''--warmup must be >= 0'' @
        problem (ba_repeats args < 1) ''--repeats must be >= 1'' @
        problem (ba_max_redirects args < 1) ''--max-redirects must be >= 1'' @
        problem (concurrency_levels = []) ''--concurrency must contain at least one value'' @
        problem (list_ex (\<lambda>v. v < 1) concurrency_levels) ''--concurrency values must be >= 1'' @
        unknown_names ''unknown scenarios: '' requested_scenarios scenario_map)"

definition validate_client_creation_args ::
  "BenchmarkArgs \<Rightarrow> int list \<Rightarrow> unit result"
where
  "validate_client_creation_args args client_counts =
     raise_problems ''Invalid client creation benchmark arguments:''
       (problem (ba_iterations args < 1) ''--iterations must be >= 1'' @
        problem (ba_repeats args < 1) ''--repeats must be >= 1'' @
        problem (ba_max_redirects args < 1) ''--max-redirects must be >= 1'' @
        problem (client_counts = []) ''--client-counts must contain at least one value'' @
        problem (list_ex (\<lambda>v. v < 1) client_counts) ''--client-counts values must be >= 1'')"

definition validate_resource_backpressure_args ::
  "BenchmarkArgs \<Rightarrow> string list \<Rightarrow> (string \<times> 'v) list \<Rightarrow> int list \<Rightarrow> unit result"
where
  "validate_resource_backpressure_args args requested_cases case_map concurrency_levels =
     raise_problems ''Invalid resource/backpressure benchmark arguments:''
       (problem (ba_requests args < 1) ''--requests must be >= 1'' @
        problem (ba_warmup args < 0) ''--warmup must be >= 0'' @
        problem (ba_repeats args < 1) ''--repeats must be >= 1'' @
        problem (concurrency_levels = []) ''--concurrency must contain at least one value'' @
        problem (list_ex (\<lambda>v. v < 1) concurrency_levels) ''--concurrency values must be >= 1'' @
        unknown_names ''unknown resource cases: '' requested_cases case_map)"

definition validate_one_upstream_args ::
  "BenchmarkArgs \<Rightarrow> string list \<Rightarrow> (string \<times> 'v) list \<Rightarrow> int list \<Rightarrow> unit result"
where
  "validate_one_upstream_args args requested_cases case_map concurrency_levels =
     raise_problems ''Invalid one-upstream benchmark arguments:''
       (problem (ba_requests args < 1) ''--requests must be >= 1'' @
        problem (ba_warmup args < 0) ''--warmup must be >= 0'' @
        problem (ba_repeats args < 1) ''--repeats must be >= 1'' @
        problem (concurrency_levels = []) ''--concurrency must contain at least one value'' @
        problem (list_ex (\<lambda>v. v < 1) concurrency_levels) ''--concurrency values must be >= 1'' @
        unknown_names ''unknown one-upstream cases: '' requested_cases case_map)"

definition validate_proxy_connect_args ::
  "BenchmarkArgs \<Rightarrow> string list \<Rightarrow> (string \<times> 'v) list \<Rightarrow> int list \<Rightarrow> unit result"
where
  "validate_proxy_connect_args args requested_cases case_map concurrency_levels =
     raise_problems ''Invalid proxy-connect benchmark arguments:''
       (problem (ba_requests args < 1) ''--requests must be >= 1'' @
        problem (ba_warmup args < 0) ''--warmup must be >= 0'' @
        problem (ba_repeats args < 1) ''--repeats must be >= 1'' @
        problem (concurrency_levels = []) ''--concurrency must contain at least one value'' @
        problem (list_ex (\<lambda>v. v < 1) concurrency_levels) ''--concurrency values must be >= 1'' @
        unknown_names ''unknown proxy-connect cases: '' requested_cases case_map)"

definition validate_request_builder_args ::
  "BenchmarkArgs \<Rightarrow> string list \<Rightarrow> (string \<times> 'v) list \<Rightarrow> unit result"
where
  "validate_request_builder_args args requested_cases case_map =
     raise_problems ''Invalid request-builder benchmark arguments:''
       (problem (ba_iterations args < 1) ''--iterations must be >= 1'' @
        problem (ba_warmup args < 0) ''--warmup must be >= 0'' @
        problem (ba_repeats args < 1) ''--repeats must be >= 1'' @
        unknown_names ''unknown request-builder cases: '' requested_cases case_map)"

definition validate_streaming_args ::
  "BenchmarkArgs \<Rightarrow> string list \<Rightarrow> (string \<times> 'v) list \<Rightarrow> int list \<Rightarrow> int \<Rightarrow> unit result"
where
  "validate_streaming_args args requested_cases case_map concurrency_levels requests =
     raise_problems ''Invalid response-streaming benchmark arguments:''
       (problem (requests < 1) ''--requests must be >= 1'' @
        problem (ba_warmup args < 0) ''--warmup must be >= 0'' @
        problem (ba_repeats args < 1) ''--repeats must be >= 1'' @
        problem (concurrency_levels = []) ''--concurrency must contain at least one value'' @
        problem (list_ex (\<lambda>v. v < 1) concurrency_levels) ''--concurrency values must be >= 1'' @
        unknown_names ''unknown response-streaming cases: '' requested_cases case_map)"

subsection \<open>What an accepted argument record satisfies\<close>

lemma problem_Nil [simp]: "problem c m = [] \<longleftrightarrow> \<not> c"
  by (simp add: problem_def)

lemma raise_problems_ok [ok]: "raise_problems header errors = Inr u \<longleftrightarrow> errors = []"
  by (simp add: raise_problems_def ok)

lemma unknown_names_Nil [simp]: "unknown_names header requested known = [] \<longleftrightarrow> set requested \<subseteq> fst ` set known"
  by (auto simp: unknown_names_def Let_def filter_empty_conv)

text \<open>The bounds every load suite puts on its run: something to do, somewhere to do it.\<close>

definition load_arguments :: "int \<Rightarrow> int \<Rightarrow> int \<Rightarrow> int list \<Rightarrow> bool" where
  "load_arguments requests warmup repeats concurrency_levels \<longleftrightarrow>
     1 \<le> requests \<and> 0 \<le> warmup \<and> 1 \<le> repeats \<and> concurrency_levels \<noteq> [] \<and> list_all (\<lambda>v. 1 \<le> v) concurrency_levels"

lemma load_problems:
  "problem (requests < 1) a @ problem (warmup < 0) b @ problem (repeats < 1) c @
     problem (levels = []) d @ problem (list_ex (\<lambda>v. v < 1) levels) e @ rest = [] \<longleftrightarrow>
     load_arguments requests warmup repeats levels \<and> rest = []"
  by (auto simp: load_arguments_def list_all_iff list_ex_iff not_less)

lemma request_arguments_ok [ok]:
  "validate_request_benchmark_args args requested_scenarios scenario_map levels = Inr u \<longleftrightarrow>
     load_arguments (ba_requests args) (ba_warmup args) (ba_repeats args) levels \<and> 1 \<le> ba_max_redirects args \<and>
     set requested_scenarios \<subseteq> fst ` set scenario_map"
  by (auto simp: validate_request_benchmark_args_def ok load_arguments_def list_all_iff list_ex_iff not_less)

text \<open>
  The arguments each suite accepts. The load suites require at least one request and one repeat, no
  negative warmup, at least one concurrency level, all of them positive, and known names only, the
  request suite a positive bound on redirects besides. Creating clients has neither warmup nor
  names: it requires iterations, repeats, redirects and positive client counts; building requests has
  no client counts.\<close>

lemma argument_validation_iff:
  "(validate_request_benchmark_args args names table levels = Inr () \<longleftrightarrow>
      load_arguments (ba_requests args) (ba_warmup args) (ba_repeats args) levels \<and>
      1 \<le> ba_max_redirects args \<and> set names \<subseteq> fst ` set table) \<and>
   (validate_resource_backpressure_args args names table levels = Inr () \<longleftrightarrow>
      load_arguments (ba_requests args) (ba_warmup args) (ba_repeats args) levels \<and> set names \<subseteq> fst ` set table) \<and>
   (validate_one_upstream_args args names table levels = Inr () \<longleftrightarrow>
      load_arguments (ba_requests args) (ba_warmup args) (ba_repeats args) levels \<and> set names \<subseteq> fst ` set table) \<and>
   (validate_proxy_connect_args args names table levels = Inr () \<longleftrightarrow>
      load_arguments (ba_requests args) (ba_warmup args) (ba_repeats args) levels \<and> set names \<subseteq> fst ` set table) \<and>
   (validate_streaming_args args names table levels requests = Inr () \<longleftrightarrow>
      load_arguments requests (ba_warmup args) (ba_repeats args) levels \<and> set names \<subseteq> fst ` set table) \<and>
   (validate_client_creation_args args levels = Inr () \<longleftrightarrow>
      1 \<le> ba_iterations args \<and> 1 \<le> ba_repeats args \<and> 1 \<le> ba_max_redirects args \<and>
      levels \<noteq> [] \<and> list_all (\<lambda>v. 1 \<le> v) levels) \<and>
   (validate_request_builder_args args names table = Inr () \<longleftrightarrow>
      1 \<le> ba_iterations args \<and> 0 \<le> ba_warmup args \<and> 1 \<le> ba_repeats args \<and> set names \<subseteq> fst ` set table)"
  unfolding validate_resource_backpressure_args_def validate_one_upstream_args_def
    validate_proxy_connect_args_def validate_streaming_args_def validate_client_creation_args_def
    validate_request_builder_args_def raise_problems_ok load_problems request_arguments_ok
  by (auto simp: list_all_iff list_ex_iff not_less)

definition plain_args :: BenchmarkArgs where
  "plain_args =
     \<lparr>ba_suite = ''requests'', ba_clients = ''foghttp'', ba_modes = ''async'', ba_concurrency = ''1'',
      ba_requests = 2, ba_warmup = 0, ba_repeats = 1, ba_max_redirects = 5, ba_seed = 1, ba_no_shuffle = False,
      ba_output_dir = ''out'', ba_scenarios = ''get'', ba_iterations = 1, ba_client_counts = ''1'',
      ba_isolation = ''per-client-scenario'', ba_streaming_profile = ''default'',
      ba_streaming_payload_bytes = 1048576, ba_streaming_server_write_bytes = 65536,
      ba_streaming_server_delay_s = Fin 0, ba_streaming_read_bytes = None, ba_streaming_consumer_delay_s = Fin 0,
      ba_streaming_instrumentation = ''control'', ba_streaming_profiler_label = None,
      ba_streaming_profiler = ''none'', ba_streaming_perf_sample_frequency_hz = 499,
      ba_streaming_chunk_sample_cap = 128, ba_streaming_minimum_duration_s = Fin 0,
      ba_streaming_max_window_streams = 2048, ba_streaming_server_observations = False\<rparr>"

end
