(* ===== verification/Request_Runs.thy ===== *)
theory Request_Runs
  imports Load_Workers Suite_Selection Argument_Validation "HOL-Library.Multiset"
begin

text \<open>
  runner.py with the run record of models.py, and the label of request_suite.py: the plan of a
  request benchmark, and the record a run leaves. The shuffle of the standard library's generator
  is a parameter, and so are the clock readings and the peaks of the resource sampler.
\<close>

subsection \<open>The plan\<close>

type_synonym planned_run = "Scenario \<times> int \<times> ClientSpec \<times> int"

definition plan_scenario ::
  "ClientSpec list \<Rightarrow> (string \<times> Scenario) list \<Rightarrow> int list \<Rightarrow> int \<Rightarrow> string \<Rightarrow> planned_run list"
where
  "plan_scenario clients scenario_map concurrency_levels repeats scenario_name =
     (case map_of scenario_map scenario_name of
        None \<Rightarrow> []
      | Some scenario \<Rightarrow>
          concat (map (\<lambda>concurrency.
            concat (map (\<lambda>spec. map (\<lambda>repeat. (scenario, concurrency, spec, repeat)) [1..repeats]) clients))
            concurrency_levels))"

definition build_plan ::
  "(int \<Rightarrow> planned_run list \<Rightarrow> planned_run list) \<Rightarrow> ClientSpec list \<Rightarrow> string list \<Rightarrow>
   (string \<times> Scenario) list \<Rightarrow> int list \<Rightarrow> int \<Rightarrow> bool \<Rightarrow> int \<Rightarrow> planned_run list"
where
  "build_plan rng_shuffle clients requested_scenarios scenario_map concurrency_levels repeats shuffle seed =
     (let plan = concat (map (plan_scenario clients scenario_map concurrency_levels repeats) requested_scenarios)
      in if shuffle then rng_shuffle seed plan else plan)"

definition request_progress_label :: "string \<Rightarrow> string \<Rightarrow> string \<Rightarrow> int \<Rightarrow> int \<Rightarrow> int \<Rightarrow> string" where
  "request_progress_label mode client scenario concurrency repeat repeats =
     mode @ ''/'' @ client @ '' '' @ scenario @ '' concurrency='' @ int_str concurrency @ '' repeat='' @
     int_str repeat @ ''/'' @ int_str repeats"

subsection \<open>A run\<close>

record ClientConfig =
  cc_concurrency :: int
  cc_request_limit :: int
  cc_follow_redirects :: bool
  cc_max_redirects :: int
  cc_per_origin_request_limit :: "int option"

record RunResult =
  rr_client :: string
  rr_mode :: string
  rr_scenario :: string
  rr_concurrency :: int
  rr_request_limit :: int
  rr_requests :: int
  rr_repeat :: int
  rr_duration_s :: pyfloat
  rr_requests_per_second :: pyfloat
  rr_ok_requests_per_second :: pyfloat
  rr_ok_requests :: int
  rr_p50_ms :: pyfloat
  rr_p90_ms :: pyfloat
  rr_p95_ms :: pyfloat
  rr_p99_ms :: pyfloat
  rr_min_ms :: pyfloat
  rr_max_ms :: pyfloat
  rr_errors :: int
  rr_warmup_errors :: int
  rr_error_types :: "(string \<times> int) list"
  rr_warmup_error_types :: "(string \<times> int) list"
  rr_process_cpu_s :: pyfloat
  rr_peak_rss_mb :: "pyfloat option"
  rr_peak_threads :: "int option"
  rr_peak_fds :: "int option"
  rr_client_stats :: "(string \<times> int) list option"

text \<open>What a run observes: the two load results, the clock differences, the peaks and the statistics.\<close>

record run_observation =
  ob_warmup :: LoadResult
  ob_load :: LoadResult
  ob_duration :: pyfloat
  ob_cpu :: pyfloat
  ob_peak_rss_mb :: "pyfloat option"
  ob_peak_threads :: "int option"
  ob_peak_fds :: "int option"
  ob_client_stats :: "(string \<times> int) list option"

definition request_limit_of :: "Scenario \<Rightarrow> int \<Rightarrow> int" where
  "request_limit_of scenario concurrency =
     (case sc_request_limit scenario of
        None \<Rightarrow> concurrency
      | Some limit \<Rightarrow> if limit = 0 then concurrency else limit)"

definition run_config :: "Scenario \<Rightarrow> int \<Rightarrow> int \<Rightarrow> ClientConfig" where
  "run_config scenario concurrency max_redirects =
     (let request_limit = request_limit_of scenario concurrency
      in \<lparr>cc_concurrency = concurrency, cc_request_limit = request_limit,
          cc_follow_redirects = sc_follow_redirects scenario, cc_max_redirects = max_redirects,
          cc_per_origin_request_limit = Some request_limit\<rparr>)"

text \<open>\<^verbatim>\<open>count / duration if duration > 0 else 0.0\<close>\<close>

definition per_second :: "int \<Rightarrow> pyfloat \<Rightarrow> pyfloat result" where
  "per_second n duration =
     (if flt (Fin 0) duration
      then bindE (float_of_int n) (\<lambda>x. fdiv x duration)
      else Inr (Fin 0))"

definition run_once ::
  "ClientSpec \<Rightarrow> Scenario \<Rightarrow> int \<Rightarrow> int \<Rightarrow> int \<Rightarrow> run_observation \<Rightarrow> RunResult result"
where
  "run_once spec scenario concurrency requests repeat ob =
     (let latencies = sort (lr_latencies_ms (ob_load ob));
          ok_requests = requests - lr_errors (ob_load ob)
      in bindE (per_second requests (ob_duration ob)) (\<lambda>requests_per_second.
         bindE (per_second ok_requests (ob_duration ob)) (\<lambda>ok_requests_per_second.
           Inr \<lparr>rr_client = cs_name spec, rr_mode = cs_mode spec, rr_scenario = sc_name scenario,
                rr_concurrency = concurrency, rr_request_limit = request_limit_of scenario concurrency,
                rr_requests = requests, rr_repeat = repeat, rr_duration_s = ob_duration ob,
                rr_requests_per_second = requests_per_second,
                rr_ok_requests_per_second = ok_requests_per_second, rr_ok_requests = ok_requests,
                rr_p50_ms = percentile latencies 50, rr_p90_ms = percentile latencies 90,
                rr_p95_ms = percentile latencies 95, rr_p99_ms = percentile latencies 99,
                rr_min_ms = (case latencies of [] \<Rightarrow> Fin 0 | x # _ \<Rightarrow> x),
                rr_max_ms = (if latencies = [] then Fin 0 else last latencies),
                rr_errors = lr_errors (ob_load ob), rr_warmup_errors = lr_errors (ob_warmup ob),
                rr_error_types = lr_error_types (ob_load ob),
                rr_warmup_error_types = lr_error_types (ob_warmup ob), rr_process_cpu_s = ob_cpu ob,
                rr_peak_rss_mb = ob_peak_rss_mb ob, rr_peak_threads = ob_peak_threads ob,
                rr_peak_fds = ob_peak_fds ob, rr_client_stats = ob_client_stats ob\<rparr>)))"

subsection \<open>Lemmas\<close>

lemma plan_scenario_set:
  "(scenario, concurrency, spec, repeat) \<in> set (plan_scenario clients scenario_map levels repeats name) \<longleftrightarrow>
     map_of scenario_map name = Some scenario \<and> concurrency \<in> set levels \<and> spec \<in> set clients \<and>
     1 \<le> repeat \<and> repeat \<le> repeats"
  by (fastforce simp: plan_scenario_def split: option.splits)

lemma length_concat_const: "(\<And>x. x \<in> set xs \<Longrightarrow> length (f x) = n) \<Longrightarrow> length (concat (map f xs)) = length xs * n"
  by (induction xs) auto

lemma plan_scenario_length:
  "length (plan_scenario clients scenario_map levels repeats name) =
     (if name \<in> dom (map_of scenario_map) then length levels * (length clients * nat repeats) else 0)"
  by (auto simp: plan_scenario_def length_concat_const split: option.splits)

lemma plan_length:
  "length (concat (map (plan_scenario clients scenario_map levels repeats) names)) =
     length (filter (\<lambda>name. name \<in> dom (map_of scenario_map)) names) * (length levels * (length clients * nat repeats))"
  by (induction names) (simp_all add: plan_scenario_length)

lemma fmul_le:
  assumes "a \<le> b" "0 \<le> c" "fmul a (Fin c) = Fin x" "fmul b (Fin c) = Fin y"
  shows "Fin x \<le> Fin y"
proof (cases a; cases b)
  fix r t assume "a = Fin r" "b = Fin t"
  with assms round64_mono [of "r * c" "t * c"] show ?thesis by (simp add: mult_right_mono)
qed (use assms in \<open>auto simp: signed_inf_def split: if_splits\<close>)

text \<open>The position of a percentile grows with the percentage, for any sample a float can count.\<close>

lemma percentile_index_value:
  assumes "0 < n" "n \<le> 2 ^ 53" "0 \<le> pct" "pct \<le> 100"
  obtains x where "fmul (round64 (pct / 100)) (Fin (of_nat (n - 1))) = Fin x" "0 \<le> x"
    "percentile_index n pct = min (int n - 1) (max 0 (round_half_even x))"
proof -
  have one: "round64 1 = Fin 1" using round64_of_int [of 1] by simp
  have le: "Fin 0 \<le> round64 (pct / 100)" "round64 (pct / 100) \<le> Fin 1"
    using assms(3,4) round64_ge_0 [of "pct / 100"] round64_mono [of "pct / 100" 1] one by simp_all
  then obtain q where q: "round64 (pct / 100) = Fin q" "0 \<le> q" "q \<le> 1"
    by (cases "round64 (pct / 100)") (auto simp: less_eq_pyfloat_def)
  have top: "round64 (of_nat (n - 1)) = Fin (of_nat (n - 1))"
    using round64_of_int [of "int (n - 1)"] assms(1,2) by simp
  have "q * of_nat (n - 1) \<le> of_nat (n - 1)"
    using q by (simp add: mult_left_le_one_le)
  then have "Fin 0 \<le> round64 (q * of_nat (n - 1))" "round64 (q * of_nat (n - 1)) \<le> Fin (of_nat (n - 1))"
    using q round64_ge_0 [of "q * of_nat (n - 1)"] round64_mono [of "q * of_nat (n - 1)" "of_nat (n - 1)"] top
    by simp_all
  then obtain x where "round64 (q * of_nat (n - 1)) = Fin x" "0 \<le> x"
    by (cases "round64 (q * of_nat (n - 1))") (auto simp: less_eq_pyfloat_def)
  with q that show thesis by (simp add: percentile_index_def)
qed

lemma percentile_index_mono:
  assumes "0 < n" "n \<le> 2 ^ 53" "0 \<le> p" "p \<le> q" "q \<le> 100"
  shows "0 \<le> percentile_index n p" "percentile_index n p \<le> percentile_index n q" "percentile_index n q < int n"
proof -
  obtain x where x: "fmul (round64 (p / 100)) (Fin (of_nat (n - 1))) = Fin x" "0 \<le> x"
      "percentile_index n p = min (int n - 1) (max 0 (round_half_even x))"
    using percentile_index_value [OF assms(1,2,3)] assms(4,5) by (metis order_trans)
  obtain y where y: "fmul (round64 (q / 100)) (Fin (of_nat (n - 1))) = Fin y" "0 \<le> y"
      "percentile_index n q = min (int n - 1) (max 0 (round_half_even y))"
    using percentile_index_value [OF assms(1,2), of q] assms(3-5) by (metis order_trans)
  have "round64 (p / 100) \<le> round64 (q / 100)" using assms(4) by (intro round64_mono) simp
  moreover have "round64 (p / 100) \<noteq> NaN" "round64 (q / 100) \<noteq> NaN" by simp_all
  ultimately have "Fin x \<le> Fin y"
    using x(1) y(1) fmul_le [of "round64 (p / 100)" "round64 (q / 100)" "of_nat (n - 1)" x y] by simp
  then have "round_half_even x \<le> round_half_even y" by (simp add: round_half_even_mono)
  then show "percentile_index n p \<le> percentile_index n q" unfolding x(3) y(3) by linarith
  show "0 \<le> percentile_index n p" "percentile_index n q < int n" using assms(1) unfolding x(3) y(3) by auto
qed

lemma percentile_nth:
  assumes "xs \<noteq> []" "length xs \<le> 2 ^ 53" "0 \<le> p" "p \<le> 100"
  obtains i where "percentile xs p = xs ! i" "i < length xs"
proof
  have n: "0 < length xs" using assms(1) by simp
  show "percentile xs p = xs ! nat (percentile_index (length xs) p)" using assms(1) by (simp add: percentile_def)
  show "nat (percentile_index (length xs) p) < length xs"
    using percentile_index_mono(1,3) [OF n assms(2) assms(3) order_refl assms(4)] by linarith
qed

lemma percentile_mono:
  assumes "sorted xs" "length xs \<le> 2 ^ 53" "0 \<le> p" "p \<le> q" "q \<le> 100"
  shows "percentile xs p \<le> percentile xs q"
proof (cases "xs = []")
  case False
  then have "0 < length xs" by simp
  note index = percentile_index_mono [OF this assms(2-5)]
  then have "nat (percentile_index (length xs) p) \<le> nat (percentile_index (length xs) q)"
      "nat (percentile_index (length xs) q) < length xs"
    by linarith+
  then show ?thesis using assms(1) False by (simp add: percentile_def sorted_nth_mono)
qed (simp add: percentile_def)

lemma percentile_ends:
  assumes "sorted xs" "xs \<noteq> []" "length xs \<le> 2 ^ 53" "0 \<le> p" "p \<le> 100"
  shows "hd xs \<le> percentile xs p" "percentile xs p \<le> last xs"
proof -
  obtain i where i: "percentile xs p = xs ! i" "i < length xs"
    using percentile_nth [OF assms(2-5)] .
  then show "hd xs \<le> percentile xs p" "percentile xs p \<le> last xs"
    using assms(1,2) by (simp_all add: hd_conv_nth last_conv_nth sorted_nth_mono)
qed

lemma run_once_ok:
  assumes "run_once spec scenario concurrency requests repeat ob = Inr r"
  defines "xs \<equiv> sort (lr_latencies_ms (ob_load ob))"
  shows "rr_min_ms r = (if xs = [] then Fin 0 else hd xs)" "rr_max_ms r = (if xs = [] then Fin 0 else last xs)"
    and "rr_p50_ms r = percentile xs 50" "rr_p90_ms r = percentile xs 90"
    and "rr_p95_ms r = percentile xs 95" "rr_p99_ms r = percentile xs 99"
  using assms(1) unfolding run_once_def Let_def xs_def [symmetric]
  by (auto simp: bindE_ok split: list.splits)

subsection \<open>Properties\<close>

text \<open>
  C17: the plan of a request benchmark is complete and every run in it returns: without shuffling it
  holds exactly the combinations of known requested scenarios, concurrency levels, clients and
  repeats, each once per request; a shuffle that permutes keeps them; and when the arguments were
  accepted, the measured load of a planned run can be completed from whatever state it has reached.\<close>

theorem planned_runs_return:
  fixes clients :: "ClientSpec list" and shuffle :: bool
  assumes "validate_request_benchmark_args args names scenario_map levels = Inr ()"
    and "\<And>plan. mset (rng_shuffle seed plan) = mset plan"
  defines "plan \<equiv> build_plan rng_shuffle clients names scenario_map levels (ba_repeats args) shuffle seed"
  shows "length plan = length names * (length levels * (length clients * nat (ba_repeats args))) \<and>
    ((scenario, concurrency, spec, repeat) \<in> set plan \<longleftrightarrow>
       Some scenario \<in> map_of scenario_map ` set names \<and> concurrency \<in> set levels \<and> spec \<in> set clients \<and>
       1 \<le> repeat \<and> repeat \<le> ba_repeats args) \<and>
    ((scenario, concurrency, spec, repeat) \<in> set plan \<longrightarrow>
       load_trace scenario collect progress (load_start concurrency (ba_requests args)) es s \<longrightarrow>
       (\<exists>es' s'. load_trace scenario collect progress (load_start concurrency (ba_requests args)) (es @ es') s' \<and>
          load_done s'))"
proof -
  let ?plain = "concat (map (plan_scenario clients scenario_map levels (ba_repeats args)) names)"
  have "mset plan = mset ?plain" using assms(2) by (simp add: plan_def build_plan_def Let_def)
  then have plan: "set plan = set ?plain" "length plan = length ?plain"
    by (rule mset_eq_setD, rule mset_eq_length)
  have ok: "load_arguments (ba_requests args) (ba_warmup args) (ba_repeats args) levels"
      "set names \<subseteq> dom (map_of scenario_map)"
    using assms(1) by (auto simp: request_arguments_ok dom_map_of_conv_image_fst)
  have member: "(scenario, concurrency, spec, repeat) \<in> set plan \<longleftrightarrow>
      Some scenario \<in> map_of scenario_map ` set names \<and> concurrency \<in> set levels \<and> spec \<in> set clients \<and>
      1 \<le> repeat \<and> repeat \<le> ba_repeats args"
    unfolding plan(1) by (auto simp: plan_scenario_set image_iff eq_commute)
  have "length plan = length names * (length levels * (length clients * nat (ba_repeats args)))"
    unfolding plan(2) plan_length using ok(2) by (simp add: subset_eq)
  moreover have "\<exists>es' s'. load_trace scenario collect progress (load_start concurrency (ba_requests args)) (es @ es') s' \<and>
      load_done s'"
    if "(scenario, concurrency, spec, repeat) \<in> set plan"
      and "load_trace scenario collect progress (load_start concurrency (ba_requests args)) es s"
  proof -
    have "0 < concurrency" "0 < ba_requests args"
      using that(1) ok(1) unfolding member by (auto simp: load_arguments_def list_all_iff)
    with that(2) show ?thesis by (rule run_can_complete)
  qed
  ultimately show ?thesis using member by blast
qed

lemma planned_runs_return_witness:
  "length (build_plan (\<lambda>_. rev) (take 2 client_specs) [''get''] [(''get'', plain_scenario)] [1, 4] 1 True 7) = 4"
proof -
  have "validate_request_benchmark_args plain_args [''get''] [(''get'', plain_scenario)] [1, 4] = Inr ()"
    by code_simp
  from planned_runs_return [OF this, where rng_shuffle = "\<lambda>_. rev" and seed = 7 and shuffle = True
      and clients = "take 2 client_specs"]
  show ?thesis by (simp add: plain_args_def client_specs_def)
qed

text \<open>
  The latency statistics of a run are ordered: the smallest sample, the 50th, 90th, 95th and 99th
  percentile and the largest sample never decrease, in the rounded arithmetic of the code, for any
  number of samples a float can count.\<close>

theorem percentiles_ordered:
  assumes "run_once spec scenario concurrency requests repeat ob = Inr r"
    and "length (lr_latencies_ms (ob_load ob)) \<le> 2 ^ 53"
  shows "rr_min_ms r \<le> rr_p50_ms r \<and> rr_p50_ms r \<le> rr_p90_ms r \<and> rr_p90_ms r \<le> rr_p95_ms r \<and>
    rr_p95_ms r \<le> rr_p99_ms r \<and> rr_p99_ms r \<le> rr_max_ms r"
proof (cases "lr_latencies_ms (ob_load ob) = []")
  case True
  then have "sort (lr_latencies_ms (ob_load ob)) = []" by simp
  then show ?thesis using run_once_ok [OF assms(1)] by (simp add: percentile_def)
next
  case False
  let ?xs = "sort (lr_latencies_ms (ob_load ob))"
  have xs: "sorted ?xs" "length ?xs \<le> 2 ^ 53" "?xs \<noteq> []"
    using assms(2) False by (simp, simp, metis length_0_conv length_sort)
  then show ?thesis
    using run_once_ok [OF assms(1)] percentile_ends [OF xs(1,3,2)] percentile_mono [OF xs(1,2)] by simp
qed

definition plain_observation :: run_observation where
  "plain_observation =
     \<lparr>ob_warmup = \<lparr>lr_latencies_ms = [], lr_errors = 0, lr_error_types = []\<rparr>,
      ob_load = \<lparr>lr_latencies_ms = [Fin 3, Fin 1, Fin 2], lr_errors = 0, lr_error_types = []\<rparr>,
      ob_duration = Fin 0, ob_cpu = Fin 0, ob_peak_rss_mb = None, ob_peak_threads = None, ob_peak_fds = None,
      ob_client_stats = None\<rparr>"

lemma percentiles_ordered_witness:
  "\<exists>r. run_once \<lparr>cs_name = ''foghttp'', cs_mode = ''async''\<rparr> plain_scenario 1 3 1 plain_observation = Inr r \<and>
     rr_p50_ms r \<le> rr_p99_ms r"
proof -
  have "\<exists>r. run_once \<lparr>cs_name = ''foghttp'', cs_mode = ''async''\<rparr> plain_scenario 1 3 1 plain_observation = Inr r"
    by (simp add: run_once_def plain_observation_def per_second_def Let_def)
  then obtain r where r: "run_once \<lparr>cs_name = ''foghttp'', cs_mode = ''async''\<rparr> plain_scenario 1 3 1
      plain_observation = Inr r" ..
  have "length (lr_latencies_ms (ob_load plain_observation)) \<le> 2 ^ 53" by (simp add: plain_observation_def)
  from percentiles_ordered [OF r this] r show ?thesis by (meson order_trans)
qed

end
