(* ===== verification/Aggregation.thy ===== *)
theory Aggregation
  imports Statistics "HOL-Library.Multiset" "HOL-Library.Product_Lexorder"
begin

text \<open>
  What the report modules of all suites share: runs grouped by a key, the groups sorted, and one row built
  of each group from medians, the coefficient of variation, optional maxima and coverage.
\<close>

subsection \<open>Measurements of a group\<close>

text \<open>\<^verbatim>\<open>statistics.median\<close>; its error class derives from \<^verbatim>\<open>ValueError\<close>.\<close>

definition stat_median :: "pyfloat list \<Rightarrow> pyfloat result" where
  "stat_median values =
     (let xs = sort values; n = length xs
      in if n = 0 then Inl (ValueError ''no median for empty data'')
         else if odd n then Inr (xs ! (n div 2))
         else fdiv (fadd (xs ! (n div 2 - 1)) (xs ! (n div 2))) (Fin 2))"

text \<open>\<^verbatim>\<open>optional_median\<close>: of the values that are present.\<close>

definition optional_median :: "pyfloat option list \<Rightarrow> pyfloat option result" where
  "optional_median values =
     (let present = List.map_filter id values
      in if present = [] then Inr None else bindE (stat_median present) (\<lambda>m. Inr (Some m)))"

definition optional_float :: "pyfloat option \<Rightarrow> json" where
  "optional_float x = (case x of None \<Rightarrow> JNull | Some v \<Rightarrow> JFloat v)"

definition optional_int :: "int option \<Rightarrow> json" where
  "optional_int x = (case x of None \<Rightarrow> JNull | Some v \<Rightarrow> JInt v)"

text \<open>\<^verbatim>\<open>(errors_total / requests_total) * 100 if requests_total else 0.0\<close>\<close>

definition error_rate :: "int \<Rightarrow> int \<Rightarrow> pyfloat" where
  "error_rate errors_total requests_total =
     (if requests_total \<noteq> 0 then fmul (round64 (of_int errors_total / of_int requests_total)) (Fin 100) else Fin 0)"

type_synonym client_stats = "(string \<times> int) list"

text \<open>\<^verbatim>\<open>item.client_stats.get(key) if item.client_stats is not None else None\<close>\<close>

definition client_stat :: "string \<Rightarrow> client_stats option \<Rightarrow> json" where
  "client_stat key stats = (case stats of None \<Rightarrow> JNull | Some s \<Rightarrow> optional_int (map_of s key))"

subsection \<open>Counters and coverage as JSON\<close>

definition counter_json :: "(string \<times> int) list \<Rightarrow> json" where
  "counter_json counts = JObj (map (\<lambda>(name, n). (name, JInt n)) counts)"

definition coverage_json :: "resource_coverage \<Rightarrow> json" where
  "coverage_json coverage =
     JObj (map (\<lambda>(name, c). (name, JObj
       [(''available'', JInt (rmc_available c)), (''expected'', JInt (rmc_expected c)),
        (''unavailable_reasons'', JList (map JStr (rmc_unavailable_reasons c)))])) coverage)"

subsection \<open>When the measurements exist\<close>

lemma mapE_total: "(\<And>x. x \<in> set xs \<Longrightarrow> \<exists>y. f x = Inr y) \<Longrightarrow> \<exists>ys. mapE f xs = Inr ys"
proof (induction xs)
  case (Cons x xs)
  then obtain y ys where "f x = Inr y" "mapE f xs = Inr ys" by fastforce
  then show ?case by simp
qed simp

lemma bindE_total: "\<exists>x. m = Inr x \<Longrightarrow> (\<And>x. m = Inr x \<Longrightarrow> \<exists>y. f x = Inr y) \<Longrightarrow> \<exists>y. bindE m f = Inr y"
  by auto

lemma fdiv_two: "\<exists>y. fdiv x (Fin 2) = Inr y"
  by (cases x) auto

lemma median_total: "xs \<noteq> [] \<Longrightarrow> \<exists>m. stat_median xs = Inr m"
proof -
  assume "xs \<noteq> []"
  then have "sort xs \<noteq> []" by (metis length_0_conv length_sort)
  with \<open>xs \<noteq> []\<close> show ?thesis using fdiv_two by (simp add: stat_median_def Let_def)
qed

lemma median_map_total: "items \<noteq> [] \<Longrightarrow> \<exists>m. stat_median (map f items) = Inr m"
  by (rule median_total) simp

lemma optional_median_total: "\<exists>m. optional_median values = Inr m"
  by (auto simp: optional_median_def Let_def dest: median_total intro!: bindE_total)

lemma variation_total: "list_all is_finite values \<Longrightarrow> \<exists>x. coefficient_of_variation values = Inr x"
proof -
  have division: "m \<noteq> Fin 0 \<Longrightarrow> \<exists>q. fdiv x m = Inr q" for x m by (cases x; cases m) auto
  assume "list_all is_finite values"
  then show ?thesis
    by (auto simp: coefficient_of_variation_def Let_def list_all_iff list_ex_iff intro!: bindE_total division)
qed

fun observation :: "json \<Rightarrow> bool" where
  "observation JNull = True"
| "observation (JInt n) = True"
| "observation (JFloat x) = is_finite x"
| "observation v = False"

lemma observation_optional:
  "observation (optional_int n)" "observation (client_stat key stats)"
  "observation (optional_float x) \<longleftrightarrow> pred_option is_finite x"
  by (auto simp: optional_int_def optional_float_def client_stat_def split: option.splits)

lemma resource_values_total: "list_all observation vs \<Longrightarrow> \<exists>ps. resource_values vs = Inr ps"
proof (induction vs)
  case (Cons v vs)
  then show ?case by (cases v) auto
qed simp

lemma resource_max_total:
  assumes "list_all (\<lambda>r. observation (f r)) items"
  shows "\<exists>v. optional_resource_max (map f items) = Inr v"
proof -
  obtain ps where "resource_values (map f items) = Inr ps"
    using resource_values_total [of "map f items"] assms by (auto simp: list_all_iff)
  then show ?thesis by (cases ps) (simp_all add: optional_resource_max_def)
qed

lemma coverage_total:
  assumes "list_all (\<lambda>(name, vs). list_all observation vs) metrics"
  shows "\<exists>c. resource_coverage metrics = Inr c"
  unfolding resource_coverage_def
proof (rule mapE_total)
  fix metric
  assume "metric \<in> set metrics"
  with assms have "list_all observation (snd metric)" by (cases metric) (auto simp: list_all_iff)
  then obtain ps where "resource_values (snd metric) = Inr ps" using resource_values_total by blast
  then show "\<exists>y. (case metric of (name, values) \<Rightarrow> bindE (resource_values values) (\<lambda>present.
      let available = int (length present)
      in Inr (name, \<lparr>rmc_available = available, rmc_expected = int (length values), rmc_unavailable_reasons =
           (if available < int (length values) then [''reason-not-recorded''] else [])\<rparr>))) = Inr y"
    by (cases metric) (simp add: Let_def)
qed

subsection \<open>Rows of groups\<close>

text \<open>
  What a report promises of its rows: one for each key of a run and each run in one of them, in the order
  of the keys.\<close>

definition accounted ::
  "('r \<Rightarrow> 'k) \<Rightarrow> ('k \<Rightarrow> 'o :: linorder) \<Rightarrow> ('row \<Rightarrow> 'k) \<Rightarrow> ('row \<Rightarrow> int) \<Rightarrow> 'r list \<Rightarrow> 'row list \<Rightarrow> bool"
where
  "accounted key order row_key repeats results rows \<longleftrightarrow>
     distinct (map row_key rows) \<and> set (map row_key rows) = key ` set results \<and>
     sorted (map (\<lambda>row. order (row_key row)) rows) \<and>
     list_all (\<lambda>row. repeats row = int (length (filter (\<lambda>r. key r = row_key row) results))) rows \<and>
     sum_list (map repeats rows) = int (length results)"

lemma accounted_keep:
  assumes "map row_key rows' = map row_key rows" "map repeats rows' = map repeats rows"
  shows "accounted key order row_key repeats results rows' = accounted key order row_key repeats results rows"
proof -
  have pairs: "accounted key order row_key repeats results rs \<longleftrightarrow>
      accounted key order fst snd results (zip (map row_key rs) (map repeats rs))" for rs
    by (simp add: accounted_def zip_map_map list_all_iff comp_def zip_same_conv_map)
  show ?thesis by (simp add: pairs assms)
qed

lemma list_all2_maps: "list_all2 P xs ys \<Longrightarrow> (\<And>x y. P x y \<Longrightarrow> f x = g y) \<Longrightarrow> map f xs = map g ys"
  by (induction rule: list_all2_induct) auto

lemma mapE_keep:
  assumes "mapE f xs = Inr ys" "\<And>x y. f x = Inr y \<Longrightarrow> g y = g x"
  shows "map g ys = map g xs"
  using assms by (intro sym [OF list_all2_maps [OF assms(1) [unfolded mapE_ok]]]) simp

locale aggregation =
  fixes key :: "'r \<Rightarrow> 'k" and order :: "'k \<Rightarrow> 'o :: linorder"
    and build :: "'k \<times> 'r list \<Rightarrow> 'row result"
    and row_key :: "'row \<Rightarrow> 'k" and repeats :: "'row \<Rightarrow> int"
  assumes build_key: "build (k, items) = Inr row \<Longrightarrow> row_key row = k"
    and build_repeats: "build (k, items) = Inr row \<Longrightarrow> repeats row = int (length items)"
begin

lemma row_of_group:
  assumes "mapE build (sort_key (\<lambda>g. order (fst g)) (group_by key results)) = Inr rows"
  shows "map row_key rows = map fst (sort_key (\<lambda>g. order (fst g)) (group_by key results))"
    and "map repeats rows = map (\<lambda>g. int (length (snd g))) (sort_key (\<lambda>g. order (fst g)) (group_by key results))"
proof -
  note groups = assms [unfolded mapE_ok]
  show "map row_key rows = map fst (sort_key (\<lambda>g. order (fst g)) (group_by key results))"
    using build_key by (intro sym [OF list_all2_maps [OF groups]]) (metis prod.collapse)
  show "map repeats rows = map (\<lambda>g. int (length (snd g))) (sort_key (\<lambda>g. order (fst g)) (group_by key results))"
    using build_repeats by (intro sym [OF list_all2_maps [OF groups]]) (metis prod.collapse)
qed

lemma sorted_rows:
  assumes "mapE build (sort_key (\<lambda>g. order (fst g)) (group_by key results)) = Inr rows"
  shows "sorted (map (\<lambda>row. order (row_key row)) rows)"
proof -
  have "map (\<lambda>row. order (row_key row)) rows = map order (map row_key rows)" by simp
  also have "\<dots> = map (\<lambda>g. order (fst g)) (sort_key (\<lambda>g. order (fst g)) (group_by key results))"
    unfolding row_of_group(1) [OF assms] by simp
  finally show ?thesis by simp
qed

lemma distinct_keys:
  assumes "mapE build (sort_key (\<lambda>g. order (fst g)) (group_by key results)) = Inr rows"
  shows "distinct (map row_key rows)"
proof -
  have "distinct (map fst (sort_key (\<lambda>g. order (fst g)) (group_by key results)))"
    using group_by_keys [of key results] by (simp add: distinct_map inj_on_def)
  then show ?thesis by (simp only: row_of_group(1) [OF assms])
qed

lemma total_repeats:
  assumes "mapE build (sort_key (\<lambda>g. order (fst g)) (group_by key results)) = Inr rows"
  shows "sum_list (map repeats rows) = int (length results)"
proof -
  have "sum_list (map repeats rows) = (\<Sum>g\<leftarrow>group_by key results. int (length (snd g)))"
    unfolding row_of_group(2) [OF assms] by (metis (no_types) mset_map mset_sort sum_mset_sum_list)
  also have "\<dots> = int (sum_list (map (length \<circ> snd) (group_by key results)))"
    by (simp add: sum_list_of_nat [symmetric] comp_def)
  finally show ?thesis by (simp add: group_by_total)
qed

lemma rows_accounted:
  assumes "mapE build (sort_key (\<lambda>g. order (fst g)) (group_by key results)) = Inr rows"
  shows "accounted key order row_key repeats results rows"
proof -
  have "set (map row_key rows) = key ` set results"
    using group_by_keys [of key results] unfolding row_of_group(1) [OF assms] by simp
  moreover have "repeats row = int (length (filter (\<lambda>r. key r = row_key row) results))" if row: "row \<in> set rows" for row
  proof -
    obtain g where g: "g \<in> set (group_by key results)" "build g = Inr row"
      using mapE_image [OF assms row] by auto
    obtain k items where k: "g = (k, items)" by (cases g)
    with g(2) show ?thesis
      using group_by_member(1) [OF g(1) [unfolded k]] build_key [of k items row] build_repeats [of k items row] by simp
  qed
  ultimately show ?thesis
    using distinct_keys [OF assms] total_repeats [OF assms] sorted_rows [OF assms] by (simp add: accounted_def list_all_iff)
qed

lemma rows_total:
  assumes "\<And>k items. items \<noteq> [] \<Longrightarrow> set items \<subseteq> set results \<Longrightarrow> \<exists>row. build (k, items) = Inr row"
  shows "\<exists>rows. mapE build (sort_key (\<lambda>g. order (fst g)) (group_by key results)) = Inr rows"
proof -
  have "\<exists>row. build g = Inr row" if g: "g \<in> set (sort_key (\<lambda>g. order (fst g)) (group_by key results))" for g
  proof -
    obtain k items where k: "g = (k, items)" by (cases g)
    with g have "(k, items) \<in> set (group_by key results)" by simp
    from assms [OF group_by_member(2) [OF this]] group_by_member(1) [OF this] show ?thesis by (auto simp: k)
  qed
  then show ?thesis by (rule mapE_total)
qed

end

end
