(* ===== verification/Request_Reports.thy ===== *)
theory Request_Reports
  imports Request_Runs Report_Ordinary Aggregation
begin

text \<open>
  reports.py: the aggregation of the runs of a request benchmark into rows, and the JSON objects the
  report holds of rows and runs (\<^verbatim>\<open>asdict\<close>). Rendering, package versions and file output are not
  modelled.
\<close>

subsection \<open>Aggregation\<close>

record RequestAggregateRow =
  ar_mode :: string
  ar_client :: string
  ar_scenario :: string
  ar_concurrency :: int
  ar_request_limit :: int
  ar_requests :: int
  ar_repeats :: int
  ar_req_s_median :: pyfloat
  ar_ok_req_s_median :: pyfloat
  ar_req_s_cv_percent :: pyfloat
  ar_p50_ms_median :: pyfloat
  ar_p95_ms_median :: pyfloat
  ar_p99_ms_median :: pyfloat
  ar_rss_mb_max :: json
  ar_threads_max :: json
  ar_fds_max :: json
  ar_errors_total :: int
  ar_warmup_errors_total :: int
  ar_error_types :: "(string \<times> int) list"
  ar_warmup_error_types :: "(string \<times> int) list"
  ar_error_rate_percent :: pyfloat
  ar_resource_coverage :: resource_coverage

type_synonym run_key = "string \<times> string \<times> string \<times> int \<times> int"

definition run_key :: "RunResult \<Rightarrow> run_key" where
  "run_key r = (rr_mode r, rr_client r, rr_scenario r, rr_concurrency r, rr_request_limit r)"

definition aggregate_group :: "run_key \<times> RunResult list \<Rightarrow> RequestAggregateRow result" where
  "aggregate_group grouped =
     (case grouped of ((mode, client, scenario, concurrency, request_limit), items) \<Rightarrow>
        let requests_total = sum_list (map rr_requests items);
            errors_total = sum_list (map rr_errors items)
        in bindE (stat_median (map rr_requests_per_second items)) (\<lambda>req_s_median.
           bindE (stat_median (map rr_ok_requests_per_second items)) (\<lambda>ok_req_s_median.
           bindE (coefficient_of_variation (map rr_requests_per_second items)) (\<lambda>req_s_cv_percent.
           bindE (stat_median (map rr_p50_ms items)) (\<lambda>p50_ms_median.
           bindE (stat_median (map rr_p95_ms items)) (\<lambda>p95_ms_median.
           bindE (stat_median (map rr_p99_ms items)) (\<lambda>p99_ms_median.
           bindE (optional_resource_max (map (\<lambda>r. optional_float (rr_peak_rss_mb r)) items)) (\<lambda>rss_mb_max.
           bindE (optional_resource_max (map (\<lambda>r. optional_int (rr_peak_threads r)) items)) (\<lambda>threads_max.
           bindE (optional_resource_max (map (\<lambda>r. optional_int (rr_peak_fds r)) items)) (\<lambda>fds_max.
           bindE (resource_coverage
               [(''rss_mb_max'', map (\<lambda>r. optional_float (rr_peak_rss_mb r)) items),
                (''threads_max'', map (\<lambda>r. optional_int (rr_peak_threads r)) items),
                (''fds_max'', map (\<lambda>r. optional_int (rr_peak_fds r)) items)]) (\<lambda>coverage.
             Inr \<lparr>ar_mode = mode, ar_client = client, ar_scenario = scenario, ar_concurrency = concurrency,
                  ar_request_limit = request_limit, ar_requests = rr_requests (hd items),
                  ar_repeats = int (length items), ar_req_s_median = req_s_median,
                  ar_ok_req_s_median = ok_req_s_median, ar_req_s_cv_percent = req_s_cv_percent,
                  ar_p50_ms_median = p50_ms_median, ar_p95_ms_median = p95_ms_median,
                  ar_p99_ms_median = p99_ms_median, ar_rss_mb_max = rss_mb_max,
                  ar_threads_max = threads_max, ar_fds_max = fds_max, ar_errors_total = errors_total,
                  ar_warmup_errors_total = sum_list (map rr_warmup_errors items),
                  ar_error_types = merge_error_types (map rr_error_types items),
                  ar_warmup_error_types = merge_error_types (map rr_warmup_error_types items),
                  ar_error_rate_percent = error_rate errors_total requests_total,
                  ar_resource_coverage = coverage\<rparr>)))))))))))"

text \<open>The groups are sorted by their keys, which are distinct.\<close>

definition aggregate_results :: "RunResult list \<Rightarrow> RequestAggregateRow list result" where
  "aggregate_results results = mapE aggregate_group (sort_key fst (group_by run_key results))"

subsection \<open>The rows of the report\<close>

definition aggregate_json :: "RequestAggregateRow \<Rightarrow> obj" where
  "aggregate_json r =
     [(''mode'', JStr (ar_mode r)), (''client'', JStr (ar_client r)), (''scenario'', JStr (ar_scenario r)),
      (''concurrency'', JInt (ar_concurrency r)), (''request_limit'', JInt (ar_request_limit r)),
      (''requests'', JInt (ar_requests r)), (''repeats'', JInt (ar_repeats r)),
      (''req_s_median'', JFloat (ar_req_s_median r)), (''ok_req_s_median'', JFloat (ar_ok_req_s_median r)),
      (''req_s_cv_percent'', JFloat (ar_req_s_cv_percent r)), (''p50_ms_median'', JFloat (ar_p50_ms_median r)),
      (''p95_ms_median'', JFloat (ar_p95_ms_median r)), (''p99_ms_median'', JFloat (ar_p99_ms_median r)),
      (''rss_mb_max'', ar_rss_mb_max r), (''threads_max'', ar_threads_max r), (''fds_max'', ar_fds_max r),
      (''errors_total'', JInt (ar_errors_total r)), (''warmup_errors_total'', JInt (ar_warmup_errors_total r)),
      (''error_types'', counter_json (ar_error_types r)),
      (''warmup_error_types'', counter_json (ar_warmup_error_types r)),
      (''error_rate_percent'', JFloat (ar_error_rate_percent r)),
      (''resource_coverage'', coverage_json (ar_resource_coverage r))]"

definition run_json :: "RunResult \<Rightarrow> obj" where
  "run_json r =
     [(''client'', JStr (rr_client r)), (''mode'', JStr (rr_mode r)), (''scenario'', JStr (rr_scenario r)),
      (''concurrency'', JInt (rr_concurrency r)), (''request_limit'', JInt (rr_request_limit r)),
      (''requests'', JInt (rr_requests r)), (''repeat'', JInt (rr_repeat r)),
      (''duration_s'', JFloat (rr_duration_s r)), (''requests_per_second'', JFloat (rr_requests_per_second r)),
      (''ok_requests_per_second'', JFloat (rr_ok_requests_per_second r)),
      (''ok_requests'', JInt (rr_ok_requests r)), (''p50_ms'', JFloat (rr_p50_ms r)),
      (''p90_ms'', JFloat (rr_p90_ms r)), (''p95_ms'', JFloat (rr_p95_ms r)), (''p99_ms'', JFloat (rr_p99_ms r)),
      (''min_ms'', JFloat (rr_min_ms r)), (''max_ms'', JFloat (rr_max_ms r)), (''errors'', JInt (rr_errors r)),
      (''warmup_errors'', JInt (rr_warmup_errors r)), (''error_types'', counter_json (rr_error_types r)),
      (''warmup_error_types'', counter_json (rr_warmup_error_types r)),
      (''process_cpu_s'', JFloat (rr_process_cpu_s r)), (''peak_rss_mb'', optional_float (rr_peak_rss_mb r)),
      (''peak_threads'', optional_int (rr_peak_threads r)), (''peak_fds'', optional_int (rr_peak_fds r)),
      (''client_stats'', case rr_client_stats r of None \<Rightarrow> JNull | Some stats \<Rightarrow> counter_json stats)]"

subsection \<open>Recorded runs\<close>

fun nonneg :: "pyfloat \<Rightarrow> bool" where
  "nonneg (Fin r) = (0 \<le> r)"
| "nonneg x = False"

definition error_counts :: "(string \<times> int) list \<Rightarrow> int \<Rightarrow> bool" where
  "error_counts types n \<longleftrightarrow>
     wf_obj types \<and> list_all (\<lambda>kv. strip (fst kv) \<noteq> [] \<and> 0 \<le> snd kv) types \<and> counter_total types = n"

text \<open>What a run record holds that a run left: counts that fit together, and finite measurements.\<close>

definition recorded_run :: "RunResult \<Rightarrow> bool" where
  "recorded_run r \<longleftrightarrow>
     rr_mode r \<in> {''async'', ''sync''} \<and> strip (rr_client r) \<noteq> [] \<and> strip (rr_scenario r) \<noteq> [] \<and>
     1 \<le> rr_concurrency r \<and> 0 \<le> rr_request_limit r \<and> 1 \<le> rr_requests r \<and> 0 \<le> rr_repeat r \<and>
     0 \<le> rr_ok_requests r \<and> rr_ok_requests r + rr_errors r = rr_requests r \<and> 0 \<le> rr_errors r \<and>
     0 \<le> rr_warmup_errors r \<and> error_counts (rr_error_types r) (rr_errors r) \<and>
     error_counts (rr_warmup_error_types r) (rr_warmup_errors r) \<and>
     list_all (\<lambda>f. nonneg (f r))
       [rr_duration_s, rr_requests_per_second, rr_ok_requests_per_second, rr_p50_ms, rr_p90_ms, rr_p95_ms,
        rr_p99_ms, rr_min_ms, rr_max_ms, rr_process_cpu_s] \<and>
     pred_option nonneg (rr_peak_rss_mb r) \<and> pred_option (\<lambda>n. 0 \<le> n) (rr_peak_threads r) \<and>
     pred_option (\<lambda>n. 0 \<le> n) (rr_peak_fds r) \<and>
     pred_option (list_all (\<lambda>kv. 0 \<le> snd kv)) (rr_client_stats r)"

definition finite_row :: "RequestAggregateRow \<Rightarrow> bool" where
  "finite_row r \<longleftrightarrow>
     list_all (\<lambda>f. is_finite (f r))
       [ar_req_s_median, ar_ok_req_s_median, ar_req_s_cv_percent, ar_p50_ms_median, ar_p95_ms_median,
        ar_p99_ms_median]"

subsection \<open>Which optional fields the rows have\<close>

lemma has_key_fst: "has_key d k \<longleftrightarrow> k \<in> fst ` set d"
  by (simp add: has_key_def map_of_eq_None_iff)

lemma fields_present:
  "list_all (\<lambda>f. has_key row f \<longrightarrow> P (get row f)) fs \<longleftrightarrow>
     list_all (\<lambda>f. P (get row f)) (filter (\<lambda>f. f \<in> set (map fst row)) fs)"
  by (auto simp: list_all_iff has_key_fst)

lemma fields_nullable:
  "list_all (\<lambda>f. nullable P (get row f)) fs \<longleftrightarrow>
     list_all (\<lambda>f. nullable P (get row f)) (filter (\<lambda>f. f \<in> set (map fst row)) fs)"
  using get_not_null_has [of row] by (auto simp: list_all_iff nullable_def has_key_fst)

definition run_fields :: "string list" where
  "run_fields =
     [''client'', ''mode'', ''scenario'', ''concurrency'', ''request_limit'', ''requests'', ''repeat'', ''duration_s'',
      ''requests_per_second'', ''ok_requests_per_second'', ''ok_requests'', ''p50_ms'', ''p90_ms'', ''p95_ms'',
      ''p99_ms'', ''min_ms'', ''max_ms'', ''errors'', ''warmup_errors'', ''error_types'', ''warmup_error_types'',
      ''process_cpu_s'', ''peak_rss_mb'', ''peak_threads'', ''peak_fds'', ''client_stats'']"

definition aggregate_fields :: "string list" where
  "aggregate_fields =
     [''mode'', ''client'', ''scenario'', ''concurrency'', ''request_limit'', ''requests'', ''repeats'',
      ''req_s_median'', ''ok_req_s_median'', ''req_s_cv_percent'', ''p50_ms_median'', ''p95_ms_median'',
      ''p99_ms_median'', ''rss_mb_max'', ''threads_max'', ''fds_max'', ''errors_total'', ''warmup_errors_total'',
      ''error_types'', ''warmup_error_types'', ''error_rate_percent'', ''resource_coverage'']"

lemma row_fields: "map fst (run_json r) = run_fields" "map fst (aggregate_json a) = aggregate_fields"
  by (simp_all add: run_json_def run_fields_def aggregate_json_def aggregate_fields_def)

lemma run_tables:
  "filter (\<lambda>f. f \<in> set run_fields) NUMERIC_FIELDS =
     [''duration_s'', ''requests_per_second'', ''p50_ms'', ''p90_ms'', ''p95_ms'', ''p99_ms'', ''min_ms'', ''max_ms'',
      ''process_cpu_s'']"
  "filter (\<lambda>f. f \<in> set run_fields) NULLABLE_NUMERIC_FIELDS = [''peak_rss_mb'']"
  "filter (\<lambda>f. f \<in> set run_fields) SIGNED_NUMERIC_FIELDS = []"
  "filter (\<lambda>f. f \<in> set run_fields) COUNT_FIELDS = [''ok_requests'']"
  "filter (\<lambda>f. f \<in> set run_fields) NULLABLE_COUNT_FIELDS = [''peak_threads'', ''peak_fds'']"
  "filter (\<lambda>f. f \<in> set run_fields) SIGNED_COUNT_FIELDS = []"
  "filter (\<lambda>f. f \<in> set run_fields) [''client_stats'', ''measured_proxy'', ''total_proxy''] = [''client_stats'']"
  by code_simp+

lemma aggregate_tables:
  "filter (\<lambda>f. f \<in> set aggregate_fields) NUMERIC_FIELDS =
     [''req_s_median'', ''req_s_cv_percent'', ''p50_ms_median'', ''p95_ms_median'', ''p99_ms_median'']"
  "filter (\<lambda>f. f \<in> set aggregate_fields) NULLABLE_NUMERIC_FIELDS = [''rss_mb_max'']"
  "filter (\<lambda>f. f \<in> set aggregate_fields) SIGNED_NUMERIC_FIELDS = []"
  "filter (\<lambda>f. f \<in> set aggregate_fields) COUNT_FIELDS = []"
  "filter (\<lambda>f. f \<in> set aggregate_fields) NULLABLE_COUNT_FIELDS = [''threads_max'', ''fds_max'']"
  "filter (\<lambda>f. f \<in> set aggregate_fields) SIGNED_COUNT_FIELDS = []"
  "filter (\<lambda>f. f \<in> set aggregate_fields) [''client_stats'', ''measured_proxy'', ''total_proxy''] = []"
  by code_simp+

subsection \<open>Runs are admitted\<close>

lemma nonneg_iff: "nonneg x \<longleftrightarrow> (\<exists>r. 0 \<le> r \<and> x = Fin r)"
  by (cases x) auto

lemma nonneg_json: "nonneg x \<Longrightarrow> number_ge_zero (JFloat x)"
  by (auto simp: nonneg_iff number_ge_zero_def)

lemma optional_float_json: "pred_option nonneg x \<Longrightarrow> nullable number_ge_zero (optional_float x)"
  by (cases x) (auto simp: nullable_def optional_float_def nonneg_json)

lemma optional_int_json: "pred_option (\<lambda>n. 0 \<le> n) x \<Longrightarrow> nullable (integer_ge 0) (optional_int x)"
  by (cases x) (auto simp: nullable_def optional_int_def)

lemma error_counts_json:
  assumes "error_counts types n" "get row f = counter_json types" "get row g = JInt n" "0 \<le> n"
  shows "error_map_sums row f g"
proof -
  have "map (\<lambda>kv. integer_value (snd kv)) (map (\<lambda>(name, n). (name, JInt n)) types) = map snd types"
    by auto
  then have "sum_list (map (\<lambda>kv. integer_value (snd kv)) (map (\<lambda>(name, n). (name, JInt n)) types)) =
      sum_list (map snd types)"
    by (rule arg_cong)
  then show ?thesis
    using assms unfolding error_map_sums_def counter_json_def error_counts_def counter_total_def
    by (simp add: list_all_iff case_prod_beta del: map_map)
qed

lemma run_json_get:
  "get (run_json r) ''mode'' = JStr (rr_mode r)" "get (run_json r) ''client'' = JStr (rr_client r)"
  "get (run_json r) ''scenario'' = JStr (rr_scenario r)" "get (run_json r) ''concurrency'' = JInt (rr_concurrency r)"
  "get (run_json r) ''request_limit'' = JInt (rr_request_limit r)" "get (run_json r) ''requests'' = JInt (rr_requests r)"
  "get (run_json r) ''repeat'' = JInt (rr_repeat r)" "get (run_json r) ''duration_s'' = JFloat (rr_duration_s r)"
  "get (run_json r) ''requests_per_second'' = JFloat (rr_requests_per_second r)"
  "get (run_json r) ''ok_requests_per_second'' = JFloat (rr_ok_requests_per_second r)"
  "get (run_json r) ''ok_requests'' = JInt (rr_ok_requests r)" "get (run_json r) ''p50_ms'' = JFloat (rr_p50_ms r)"
  "get (run_json r) ''p90_ms'' = JFloat (rr_p90_ms r)" "get (run_json r) ''p95_ms'' = JFloat (rr_p95_ms r)"
  "get (run_json r) ''p99_ms'' = JFloat (rr_p99_ms r)" "get (run_json r) ''min_ms'' = JFloat (rr_min_ms r)"
  "get (run_json r) ''max_ms'' = JFloat (rr_max_ms r)" "get (run_json r) ''errors'' = JInt (rr_errors r)"
  "get (run_json r) ''warmup_errors'' = JInt (rr_warmup_errors r)"
  "get (run_json r) ''error_types'' = counter_json (rr_error_types r)"
  "get (run_json r) ''warmup_error_types'' = counter_json (rr_warmup_error_types r)"
  "get (run_json r) ''process_cpu_s'' = JFloat (rr_process_cpu_s r)"
  "get (run_json r) ''peak_rss_mb'' = optional_float (rr_peak_rss_mb r)"
  "get (run_json r) ''peak_threads'' = optional_int (rr_peak_threads r)"
  "get (run_json r) ''peak_fds'' = optional_int (rr_peak_fds r)"
  "get (run_json r) ''client_stats'' = (case rr_client_stats r of None \<Rightarrow> JNull | Some stats \<Rightarrow> counter_json stats)"
  by (simp_all add: run_json_def get_def)

lemma request_tables:
  "map_of ORDINARY_IDENTITY_FIELDS ''requests'' = Some [''scenario'']"
  "map_of AGGREGATE_PRIMARY_FIELDS ''requests'' = Some ''ok_req_s_median''"
  "map_of RUN_PRIMARY_FIELDS ''requests'' = Some ''ok_requests_per_second''"
  "map_of SUCCESS_COUNTS ''requests'' = None" "''requests'' \<notin> set OPERATION_SUITES"
  "map_of IDENTITY_CHOICES ''mode'' = Some [''async'', ''sync'']" "map_of IDENTITY_CHOICES ''client'' = None"
  "map_of IDENTITY_CHOICES ''scenario'' = None"
  by code_simp+

lemma request_identity:
  assumes "get row ''mode'' = JStr m" "get row ''client'' = JStr c" "get row ''scenario'' = JStr s"
    and "get row ''concurrency'' = JInt n" "get row ''request_limit'' = JInt l"
    and "m \<in> {''async'', ''sync''}" "strip c \<noteq> []" "strip s \<noteq> []" "1 \<le> n" "0 \<le> l"
  shows "ordinary_identity ''requests'' row"
proof -
  have "strip ''async'' \<noteq> []" "strip ''sync'' \<noteq> []" by code_simp+
  with assms show ?thesis by (auto simp: ordinary_identity_def request_tables)
qed

lemma run_optional:
  assumes "recorded_run r"
  shows "optional_fields (run_json r)"
proof -
  have "\<not> has_key (run_json r) ''error_rate_percent''"
    by (simp add: has_key_def run_json_def)
  moreover have "nullable (\<lambda>v. case v of JObj counts \<Rightarrow> list_all (\<lambda>kv. integer_ge 0 (snd kv)) counts | _ \<Rightarrow> False)
      (get (run_json r) ''client_stats'')"
    using assms by (cases "rr_client_stats r")
      (auto simp: run_json_get nullable_def recorded_run_def counter_json_def list_all_iff)
  ultimately show ?thesis
    using assms nonneg_json optional_float_json optional_int_json
    unfolding optional_fields_def fields_present fields_nullable [where fs = NULLABLE_NUMERIC_FIELDS]
      fields_nullable [where fs = SIGNED_NUMERIC_FIELDS] fields_nullable [where fs = NULLABLE_COUNT_FIELDS]
      fields_nullable [where fs = SIGNED_COUNT_FIELDS]
      fields_nullable [where fs = "[''client_stats'', ''measured_proxy'', ''total_proxy'']"] row_fields run_tables
    by (simp add: run_json_get recorded_run_def)
qed

lemma run_admitted: "recorded_run r \<Longrightarrow> ordinary_run ''requests'' (run_json r)"
proof -
  assume run: "recorded_run r"
  then have "ordinary_identity ''requests'' (run_json r)"
    by (intro request_identity [OF run_json_get(1-5)]) (auto simp: recorded_run_def)
  moreover have "primary_value ''requests'' RUN_PRIMARY_FIELDS (run_json r)"
    using run by (simp add: primary_value_def request_tables run_json_get recorded_run_def nonneg_json)
  moreover have "run_counts ''requests'' (run_json r)"
    using run by (simp add: run_counts_def request_tables run_json_get recorded_run_def nonneg_json)
  moreover have "error_map_sums (run_json r) ''error_types'' ''errors''"
      "error_map_sums (run_json r) ''warmup_error_types'' ''warmup_errors''"
    using run error_counts_json [OF _ run_json_get(20,18)] error_counts_json [OF _ run_json_get(21,19)]
    by (simp_all add: recorded_run_def)
  ultimately show ?thesis using run_optional [OF run] by (simp add: ordinary_run_def)
qed

subsection \<open>Aggregates are admitted\<close>

lemma finite_nonneg: "Fin 0 \<le> x \<Longrightarrow> is_finite x \<Longrightarrow> nonneg x"
  by (cases x) (auto simp: Fin_le_special)

lemma nonneg_le: "nonneg x \<Longrightarrow> Fin 0 \<le> x \<and> x \<noteq> NaN"
  by (cases x) auto

lemma median_nonneg:
  assumes "stat_median xs = Inr m" "\<And>x. x \<in> set xs \<Longrightarrow> nonneg x"
  shows "Fin 0 \<le> m"
proof -
  let ?s = "sort xs" and ?h = "length xs div 2"
  have "length xs \<noteq> 0" using assms(1) by (auto simp: stat_median_def Let_def)
  then have "?h < length ?s" "?h - 1 < length ?s" unfolding length_sort by presburger+
  then have "?s ! ?h \<in> set ?s" "?s ! (?h - 1) \<in> set ?s" by (simp_all only: nth_mem)
  then obtain a b where ab: "?s ! (?h - 1) = Fin a" "?s ! ?h = Fin b" "0 \<le> a" "0 \<le> b"
    using assms(2) by (metis nonneg_iff set_sort)
  have nonempty: "?s \<noteq> []" using \<open>length xs \<noteq> 0\<close> by (metis length_sort list.size(3))
  show ?thesis
  proof (cases "odd (length xs)")
    case True
    with assms(1) nonempty have "?s ! ?h = m" by (simp add: stat_median_def Let_def)
    with ab show ?thesis by (metis Fin_le_Fin)
  next
    case False
    with assms(1) nonempty ab have "fdiv (round64 (a + b)) (Fin 2) = Inr m"
      by (simp add: stat_median_def Let_def)
    then show ?thesis using ab round64_ge_0 [of "a + b"] fdiv_nonneg by (metis add_nonneg_nonneg round64_not_NaN zero_less_numeral)
  qed
qed

lemma median_map_nonneg:
  "stat_median (map f items) = Inr m \<Longrightarrow> (\<And>r. r \<in> set items \<Longrightarrow> nonneg (f r)) \<Longrightarrow> Fin 0 \<le> m"
  by (erule median_nonneg) auto

lemma error_rate_bounds:
  assumes "0 \<le> e" "e \<le> n" "0 < n"
  shows "\<exists>r. 0 \<le> r \<and> r \<le> 100 \<and> error_rate e n = Fin r"
proof -
  have "round64 1 = Fin 1" "round64 100 = Fin 100" using round64_of_int [of 1] round64_of_int [of 100] by simp_all
  moreover have "0 \<le> (of_int e / of_int n :: rat)" "(of_int e / of_int n :: rat) \<le> 1"
    using assms by simp_all
  ultimately obtain q where q: "round64 (of_int e / of_int n) = Fin q" "0 \<le> q" "q \<le> 1"
    using round64_ge_0 [of "of_int e / of_int n"] round64_mono [of "of_int e / of_int n" 1]
    by (cases "round64 (of_int e / of_int n)") (auto simp: less_eq_pyfloat_def)
  have "Fin 0 \<le> round64 (q * 100)" "round64 (q * 100) \<le> Fin 100"
    using q round64_ge_0 [of "q * 100"] round64_mono [of "q * 100" 100] \<open>round64 100 = Fin 100\<close> by simp_all
  then obtain r where "round64 (q * 100) = Fin r" "0 \<le> r" "r \<le> 100"
    by (cases "round64 (q * 100)") (auto simp: less_eq_pyfloat_def)
  with q assms show ?thesis by (simp add: error_rate_def)
qed

lemma merged_counts:
  assumes "\<And>d n. (d, n) \<in> set ds \<Longrightarrow> error_counts d n"
  shows "error_counts (merge_error_types (map fst ds)) (sum_list (map snd ds))"
proof -
  let ?m = "merge_error_types (map fst ds)"
  have each: "wf_obj d" "list_all (\<lambda>kv. strip (fst kv) \<noteq> [] \<and> 0 \<le> snd kv) d" "counter_total d = n"
    if "(d, n) \<in> set ds" for d n
    using assms [OF that] by (simp_all add: error_counts_def)
  have wf: "wf_obj ?m" by (rule merge_error_types_wf)
  have get_nonneg: "0 \<le> counter_get d k" if "d \<in> set (map fst ds)" for d k
  proof -
    from that obtain n where "(d, n) \<in> set ds" by auto
    from each(2) [OF this] show ?thesis
      by (auto simp: counter_get_def list_all_iff dest!: map_of_SomeD split: option.splits)
  qed
  have "0 \<le> counter_get ?m k" for k
  proof -
    have "counter_get ?m k = (\<Sum>d\<leftarrow>map fst ds. counter_get d k)"
      using each(1) by (intro merge_error_types_get) auto
    also have "0 \<le> \<dots>" using get_nonneg by (intro sum_list_nonneg) auto
    finally show ?thesis .
  qed
  moreover have "counter_get ?m k = n" if "(k, n) \<in> set ?m" for k n
    using map_of_is_SomeI [OF _ that] wf by (simp add: counter_get_def wf_obj_def)
  ultimately have "0 \<le> n" if "(k, n) \<in> set ?m" for k n
    using that by metis
  moreover have "strip k \<noteq> []" if "(k, n) \<in> set ?m" for k n
  proof -
    have "k \<in> (\<Union>d \<in> set (map fst ds). fst ` set d)"
      using merge_error_types_keys [of "map fst ds"] that by force
    then show ?thesis using each(2) by (fastforce simp: list_all_iff)
  qed
  moreover have "counter_total ?m = sum_list (map snd ds)"
    unfolding merge_error_types_total map_map using each(3)
    by (intro arg_cong [where f = sum_list]) auto
  ultimately show ?thesis using wf by (auto simp: error_counts_def list_all_iff)
qed

lemma merged_run_counts:
  assumes "\<And>r. r \<in> set items \<Longrightarrow> error_counts (f r) (g r)"
  shows "error_counts (merge_error_types (map f items)) (sum_list (map g items))"
proof -
  have "error_counts (merge_error_types (map fst (map (\<lambda>r. (f r, g r)) items)))
      (sum_list (map snd (map (\<lambda>r. (f r, g r)) items)))"
    using assms by (intro merged_counts) auto
  then show ?thesis by (simp add: comp_def)
qed

lemma aggregate_json_get:
  "get (aggregate_json r) ''mode'' = JStr (ar_mode r)" "get (aggregate_json r) ''client'' = JStr (ar_client r)"
  "get (aggregate_json r) ''scenario'' = JStr (ar_scenario r)"
  "get (aggregate_json r) ''concurrency'' = JInt (ar_concurrency r)"
  "get (aggregate_json r) ''request_limit'' = JInt (ar_request_limit r)"
  "get (aggregate_json r) ''requests'' = JInt (ar_requests r)" "get (aggregate_json r) ''repeats'' = JInt (ar_repeats r)"
  "get (aggregate_json r) ''req_s_median'' = JFloat (ar_req_s_median r)"
  "get (aggregate_json r) ''ok_req_s_median'' = JFloat (ar_ok_req_s_median r)"
  "get (aggregate_json r) ''req_s_cv_percent'' = JFloat (ar_req_s_cv_percent r)"
  "get (aggregate_json r) ''p50_ms_median'' = JFloat (ar_p50_ms_median r)"
  "get (aggregate_json r) ''p95_ms_median'' = JFloat (ar_p95_ms_median r)"
  "get (aggregate_json r) ''p99_ms_median'' = JFloat (ar_p99_ms_median r)"
  "get (aggregate_json r) ''rss_mb_max'' = ar_rss_mb_max r" "get (aggregate_json r) ''threads_max'' = ar_threads_max r"
  "get (aggregate_json r) ''fds_max'' = ar_fds_max r" "get (aggregate_json r) ''errors_total'' = JInt (ar_errors_total r)"
  "get (aggregate_json r) ''warmup_errors_total'' = JInt (ar_warmup_errors_total r)"
  "get (aggregate_json r) ''error_types'' = counter_json (ar_error_types r)"
  "get (aggregate_json r) ''warmup_error_types'' = counter_json (ar_warmup_error_types r)"
  "get (aggregate_json r) ''error_rate_percent'' = JFloat (ar_error_rate_percent r)"
  by (simp_all add: aggregate_json_def get_def)

text \<open>What a row aggregated from recorded runs holds, whatever the path to it.\<close>

definition sound_row :: "RequestAggregateRow \<Rightarrow> bool" where
  "sound_row r \<longleftrightarrow>
     ar_mode r \<in> {''async'', ''sync''} \<and> strip (ar_client r) \<noteq> [] \<and> strip (ar_scenario r) \<noteq> [] \<and>
     1 \<le> ar_concurrency r \<and> 0 \<le> ar_request_limit r \<and> 1 \<le> ar_requests r \<and> 1 \<le> ar_repeats r \<and>
     0 \<le> ar_errors_total r \<and> ar_errors_total r \<le> ar_requests r * ar_repeats r \<and> 0 \<le> ar_warmup_errors_total r \<and>
     error_counts (ar_error_types r) (ar_errors_total r) \<and>
     error_counts (ar_warmup_error_types r) (ar_warmup_errors_total r) \<and>
     (\<exists>x. 0 \<le> x \<and> x \<le> 100 \<and> ar_error_rate_percent r = Fin x) \<and>
     list_all (\<lambda>f. Fin 0 \<le> f r)
       [ar_req_s_median, ar_ok_req_s_median, ar_req_s_cv_percent, ar_p50_ms_median, ar_p95_ms_median,
        ar_p99_ms_median] \<and>
     nullable number_ge_zero (ar_rss_mb_max r) \<and> nullable (integer_ge 0) (ar_threads_max r) \<and>
     nullable (integer_ge 0) (ar_fds_max r)"

lemma aggregate_optional:
  assumes "sound_row r" "finite_row r"
  shows "optional_fields (aggregate_json r)"
proof -
  have "nonneg (ar_req_s_median r)" "nonneg (ar_req_s_cv_percent r)" "nonneg (ar_p50_ms_median r)"
      "nonneg (ar_p95_ms_median r)" "nonneg (ar_p99_ms_median r)"
    using assms by (auto simp: sound_row_def finite_row_def intro: finite_nonneg)
  then show ?thesis
    using assms(1) nonneg_json
    unfolding optional_fields_def fields_present fields_nullable [where fs = NULLABLE_NUMERIC_FIELDS]
      fields_nullable [where fs = SIGNED_NUMERIC_FIELDS] fields_nullable [where fs = NULLABLE_COUNT_FIELDS]
      fields_nullable [where fs = SIGNED_COUNT_FIELDS]
      fields_nullable [where fs = "[''client_stats'', ''measured_proxy'', ''total_proxy'']"]
      row_fields aggregate_tables
    by (auto simp: aggregate_json_get sound_row_def)
qed

lemma aggregate_admitted:
  assumes "sound_row r" "finite_row r"
  shows "ordinary_aggregate ''requests'' (aggregate_json r)"
proof -
  have "ordinary_identity ''requests'' (aggregate_json r)"
    using assms by (intro request_identity [OF aggregate_json_get(1-5)]) (auto simp: sound_row_def)
  moreover have "nonneg (ar_ok_req_s_median r)"
    using assms by (auto simp: sound_row_def finite_row_def intro: finite_nonneg)
  then have "primary_value ''requests'' AGGREGATE_PRIMARY_FIELDS (aggregate_json r)"
    by (simp add: primary_value_def request_tables aggregate_json_get nonneg_json)
  moreover have "aggregate_counts ''requests'' (aggregate_json r)"
    using assms(1) by (simp add: aggregate_counts_def request_tables aggregate_json_get sound_row_def)
  moreover have "error_map_sums (aggregate_json r) ''error_types'' ''errors_total''"
      "error_map_sums (aggregate_json r) ''warmup_error_types'' ''warmup_errors_total''"
    using assms(1) error_counts_json [OF _ aggregate_json_get(19,17)] error_counts_json [OF _ aggregate_json_get(20,18)]
    by (simp_all add: sound_row_def)
  ultimately show ?thesis using aggregate_optional [OF assms] by (simp add: ordinary_aggregate_def)
qed

subsection \<open>Groups\<close>

lemma sum_le_length: "(\<And>x. x \<in> set xs \<Longrightarrow> f x \<le> (n :: int)) \<Longrightarrow> sum_list (map f xs) \<le> n * int (length xs)"
  by (induction xs) (auto simp: algebra_simps, smt (verit, ccfv_SIG))

lemma group_facts:
  assumes "aggregate_group ((mode, client, scenario, concurrency, request_limit), items) = Inr row"
  shows "ar_mode row = mode" "ar_client row = client" "ar_scenario row = scenario"
    and "ar_concurrency row = concurrency" "ar_request_limit row = request_limit"
    and "ar_requests row = rr_requests (hd items)" "ar_repeats row = int (length items)"
    and "ar_errors_total row = sum_list (map rr_errors items)"
    and "ar_warmup_errors_total row = sum_list (map rr_warmup_errors items)"
    and "ar_error_types row = merge_error_types (map rr_error_types items)"
    and "ar_warmup_error_types row = merge_error_types (map rr_warmup_error_types items)"
    and "ar_error_rate_percent row = error_rate (sum_list (map rr_errors items)) (sum_list (map rr_requests items))"
    and "stat_median (map rr_requests_per_second items) = Inr (ar_req_s_median row)"
    and "stat_median (map rr_ok_requests_per_second items) = Inr (ar_ok_req_s_median row)"
    and "coefficient_of_variation (map rr_requests_per_second items) = Inr (ar_req_s_cv_percent row)"
    and "stat_median (map rr_p50_ms items) = Inr (ar_p50_ms_median row)"
    and "stat_median (map rr_p95_ms items) = Inr (ar_p95_ms_median row)"
    and "stat_median (map rr_p99_ms items) = Inr (ar_p99_ms_median row)"
    and "optional_resource_max (map (\<lambda>r. optional_float (rr_peak_rss_mb r)) items) = Inr (ar_rss_mb_max row)"
    and "optional_resource_max (map (\<lambda>r. optional_int (rr_peak_threads r)) items) = Inr (ar_threads_max row)"
    and "optional_resource_max (map (\<lambda>r. optional_int (rr_peak_fds r)) items) = Inr (ar_fds_max row)"
  using assms unfolding aggregate_group_def Let_def prod.case bindE_ok by auto

lemma peak_admitted:
  assumes "optional_resource_max (map f items) = Inr v" "\<And>r. r \<in> set items \<Longrightarrow> nullable P (f r)"
  shows "nullable P v"
  using resource_max_member [OF assms(1)] assms(2) by (auto simp: nullable_def)

lemma group_sound:
  assumes "aggregate_group (key, items) = Inr row" "items \<noteq> []"
    and items: "\<And>r. r \<in> set items \<Longrightarrow> recorded_run r \<and> rr_requests r = n \<and> run_key r = key" 
    and "is_finite (ar_req_s_cv_percent row)"
  shows "sound_row row"
proof -
  obtain mode client scenario concurrency request_limit where
    key: "key = (mode, client, scenario, concurrency, request_limit)" by (cases key)
  note facts = group_facts [OF assms(1) [unfolded key]]
  have first: "recorded_run (hd items)" "rr_requests (hd items) = n" "run_key (hd items) = key"
    using items [OF hd_in_set [OF assms(2)]] by simp_all
  have requests: "sum_list (map rr_requests items) = n * int (length items)"
    using items by (simp add: sum_list_triv cong: map_cong)
  have "1 \<le> n" using first by (simp add: recorded_run_def)
  have run: "0 \<le> rr_errors r" "rr_errors r \<le> n" "0 \<le> rr_warmup_errors r"
      "error_counts (rr_error_types r) (rr_errors r)"
      "error_counts (rr_warmup_error_types r) (rr_warmup_errors r)"
      "nonneg (rr_requests_per_second r)" "nonneg (rr_ok_requests_per_second r)" "nonneg (rr_p50_ms r)"
      "nonneg (rr_p95_ms r)" "nonneg (rr_p99_ms r)" "pred_option nonneg (rr_peak_rss_mb r)"
      "pred_option (\<lambda>n. 0 \<le> n) (rr_peak_threads r)" "pred_option (\<lambda>n. 0 \<le> n) (rr_peak_fds r)"
    if "r \<in> set items" for r
    using items [OF that] by (auto simp: recorded_run_def)
  have errors: "0 \<le> sum_list (map rr_errors items)" "sum_list (map rr_errors items) \<le> n * int (length items)"
      "0 \<le> sum_list (map rr_warmup_errors items)"
    using run by (auto intro!: sum_list_nonneg sum_le_length)
  have types: "error_counts (merge_error_types (map rr_error_types items)) (sum_list (map rr_errors items))"
      "error_counts (merge_error_types (map rr_warmup_error_types items)) (sum_list (map rr_warmup_errors items))"
    using run by (auto intro: merged_run_counts)
  have "0 < n * int (length items)" using \<open>1 \<le> n\<close> assms(2) by simp
  then have rate: "\<exists>x. 0 \<le> x \<and> x \<le> 100 \<and> ar_error_rate_percent row = Fin x"
    using error_rate_bounds [OF errors(1,2)] by (simp add: facts requests)
  have rates_nonneg: "Fin 0 \<le> ar_req_s_cv_percent row"
    using run(6) nonneg_le by (intro variation_nonneg [OF facts(15) _ assms(4)]) auto
  have medians: "Fin 0 \<le> ar_req_s_median row" "Fin 0 \<le> ar_ok_req_s_median row" "Fin 0 \<le> ar_p50_ms_median row"
      "Fin 0 \<le> ar_p95_ms_median row" "Fin 0 \<le> ar_p99_ms_median row" "Fin 0 \<le> ar_req_s_cv_percent row"
    using median_map_nonneg [OF facts(13) run(6)] median_map_nonneg [OF facts(14) run(7)]
      median_map_nonneg [OF facts(16) run(8)] median_map_nonneg [OF facts(17) run(9)]
      median_map_nonneg [OF facts(18) run(10)] rates_nonneg by simp_all
  have peaks: "nullable number_ge_zero (ar_rss_mb_max row)" "nullable (integer_ge 0) (ar_threads_max row)"
      "nullable (integer_ge 0) (ar_fds_max row)"
    using peak_admitted [OF facts(19) optional_float_json [OF run(11)]]
      peak_admitted [OF facts(20) optional_int_json [OF run(12)]]
      peak_admitted [OF facts(21) optional_int_json [OF run(13)]] by simp_all
  show ?thesis
    unfolding sound_row_def facts first(2)
    using first(1,3) \<open>1 \<le> n\<close> errors types rate medians peaks assms(2)
    by (auto simp: recorded_run_def run_key_def key facts Suc_le_eq)
qed

subsection \<open>A report of recorded runs\<close>

definition key_identity :: "run_key \<Rightarrow> string list" where
  "key_identity k =
     (case k of (mode, client, scenario, concurrency, request_limit) \<Rightarrow>
        [mode, client, scenario, int_str concurrency, int_str request_limit])"

definition row_key :: "RequestAggregateRow \<Rightarrow> run_key" where
  "row_key r = (ar_mode r, ar_client r, ar_scenario r, ar_concurrency r, ar_request_limit r)"

lemma aggregate_row_identity:
  assumes "sound_row r"
  shows "aggregate_identity ''requests'' (aggregate_json r) = Inr (key_identity (row_key r))"
proof -
  have "map_of IDENTITY_FIELDS ''requests'' = Some [''scenario'', ''concurrency'', ''request_limit'']"
    by code_simp
  moreover have "strip ''async'' \<noteq> []" "strip ''sync'' \<noteq> []" by code_simp+
  ultimately show ?thesis
    using assms
    by (auto simp: aggregate_identity_def aggregate_json_get identity_value_def key_identity_def row_key_def
        require_string_def sound_row_def)
qed

lemma key_identity_inject:
  assumes "sound_row r" "sound_row s" "key_identity (row_key r) = key_identity (row_key s)"
  shows "row_key r = row_key s"
  using assms by (auto simp: key_identity_def row_key_def sound_row_def int_str_inject)

interpretation request_rows: aggregation run_key "\<lambda>k. k" aggregate_group row_key ar_repeats
proof
  fix k items row
  assume "aggregate_group (k, items) = Inr row"
  then show "row_key row = k" by (cases k) (auto dest: group_facts(1-5) simp: row_key_def)
next
  fix k items row
  assume "aggregate_group (k, items) = Inr row"
  then show "ar_repeats row = int (length items)" by (cases k) (auto dest: group_facts(7))
qed

text \<open>The floats of a run are numbers: what the load loop records when no duration overflows.\<close>

definition request_measured :: "RunResult \<Rightarrow> bool" where
  "request_measured r \<longleftrightarrow> is_finite (rr_requests_per_second r) \<and> pred_option is_finite (rr_peak_rss_mb r)"

lemma request_group_total:
  assumes "items \<noteq> []" "list_all request_measured items"
  shows "\<exists>row. aggregate_group (k, items) = Inr row"
proof (cases k)
  case (fields mode client scenario concurrency request_limit)
  show ?thesis
    using assms unfolding aggregate_group_def fields prod.case Let_def
    by (intro bindE_total median_map_total variation_total resource_max_total coverage_total)
      (simp_all add: list_all_iff request_measured_def observation_optional)
qed

lemma request_accounted:
  assumes "list_all request_measured results"
  shows "\<exists>rows. aggregate_results results = Inr rows \<and> accounted run_key (\<lambda>k. k) row_key ar_repeats results rows"
proof -
  have "\<exists>rows. mapE aggregate_group (sort_key (\<lambda>g. fst g) (group_by run_key results)) = Inr rows"
    using assms by (intro request_rows.rows_total request_group_total) (auto simp: list_all_iff)
  then show ?thesis using request_rows.rows_accounted unfolding aggregate_results_def by blast
qed

lemma aggregated_row_sound:
  assumes "aggregate_results results = Inr rows" "list_all recorded_run results"
    and "list_all (\<lambda>r. rr_requests r = n) results" "row \<in> set rows" "finite_row row"
  shows "sound_row row"
proof -
  obtain g where g: "g \<in> set (sort_key fst (group_by run_key results))" "aggregate_group g = Inr row"
    using assms(1,4) mapE_image unfolding aggregate_results_def by metis
  obtain k items where k: "g = (k, items)" by (cases g)
  with g(1) have "(k, items) \<in> set (group_by run_key results)" by simp
  note member = group_by_member [OF this]
  have "recorded_run r \<and> rr_requests r = n \<and> run_key r = k" if "r \<in> set items" for r
    using that assms(2,3) member(1) by (auto simp: list_all_iff)
  moreover have "is_finite (ar_req_s_cv_percent row)" using assms(5) by (simp add: finite_row_def)
  ultimately show ?thesis using group_sound [of k items row n] g(2) k member(2) by blast
qed


definition plain_run :: RunResult where
  "plain_run =
     \<lparr>rr_client = ''foghttp'', rr_mode = ''async'', rr_scenario = ''get'', rr_concurrency = 1,
      rr_request_limit = 1, rr_requests = 2, rr_repeat = 1, rr_duration_s = Fin 1,
      rr_requests_per_second = Fin 2, rr_ok_requests_per_second = Fin 2, rr_ok_requests = 2, rr_p50_ms = Fin 1,
      rr_p90_ms = Fin 1, rr_p95_ms = Fin 1, rr_p99_ms = Fin 1, rr_min_ms = Fin 1, rr_max_ms = Fin 1,
      rr_errors = 0, rr_warmup_errors = 1, rr_error_types = [],
      rr_warmup_error_types = [(''TimeoutError'', 1)], rr_process_cpu_s = Fin 1, rr_peak_rss_mb = None, rr_peak_threads = Some 3,
      rr_peak_fds = None, rr_client_stats = None\<rparr>"

definition plain_results :: "RunResult list" where
  "plain_results = [plain_run, plain_run\<lparr>rr_client := ''httpx''\<rparr>]"

definition plain_rows :: "RequestAggregateRow list" where
  "plain_rows = (case aggregate_results plain_results of Inl _ \<Rightarrow> [] | Inr rows \<Rightarrow> rows)"


end
