(* ===== verification/Report_Finalization.thy ===== *)
theory Report_Finalization
  imports Report_Identity
begin

text \<open>
  What a suite adds to the merged rows of its child processes: report_finalization.py,
  proxy_connect/finalization.py, streaming/finalization.py and the \<^verbatim>\<open>finalize_merged_report\<close> functions of
  the suites, with the contract \<^verbatim>\<open>finalize_merged_data\<close> of isolation/reports.py holds them to.
\<close>

record MergedSuiteReport =
  ms_aggregate_rows :: "obj list"
  ms_metadata :: obj

type_synonym finalizer = "obj list \<Rightarrow> obj list \<Rightarrow> MergedSuiteReport result"

definition preserve_merged_report :: finalizer where
  "preserve_merged_report rows children_metadata = Inr \<lparr>ms_aggregate_rows = rows, ms_metadata = []\<rparr>"

subsection \<open>Direct baselines of the proxy suite\<close>

text \<open>\<^verbatim>\<open>isinstance(value, int | float)\<close>, with \<^verbatim>\<open>float(value)\<close> when it holds.\<close>

fun numeric :: "json \<Rightarrow> bool" where
  "numeric (JBool b) = True"
| "numeric (JInt n) = True"
| "numeric (JFloat x) = True"
| "numeric v = False"

fun to_float :: "json \<Rightarrow> pyfloat result" where
  "to_float (JInt n) = float_of_int n"
| "to_float (JFloat x) = Inr x"
| "to_float v = Inr (if v = JBool True then Fin 1 else Fin 0)"

fun proxy_int_value :: "json \<Rightarrow> int result" where
  "proxy_int_value (JInt n) = Inr n"
| "proxy_int_value (JBool b) = Inr (if b then 1 else 0)"
| "proxy_int_value (JFloat x) = int_of_float x"
| "proxy_int_value v = Inr 0"

type_synonym baseline_key = "string \<times> string \<times> string \<times> int"

definition baseline_key :: "obj \<Rightarrow> baseline_key result" where
  "baseline_key row =
     bindE (proxy_int_value (get row ''concurrency'')) (\<lambda>concurrency.
       Inr (py_str (get_default row ''mode'' (JStr [])), py_str (get_default row ''client'' (JStr [])),
            py_str (get_default row ''target_scheme'' (JStr [])), concurrency))"

text \<open>The \<^verbatim>\<open>repr\<close> of a key; a concurrency that is a boolean stays one in it.\<close>

definition baseline_repr :: "obj \<Rightarrow> baseline_key \<Rightarrow> string" where
  "baseline_repr row key =
     (case key of (mode, client, scheme, concurrency) \<Rightarrow>
        ''('' @ join '', '' [str_repr mode, str_repr client, str_repr scheme,
          (case get row ''concurrency'' of JBool b \<Rightarrow> py_repr (JBool b) | _ \<Rightarrow> int_str concurrency)] @ '')'')"

definition direct_baseline :: "obj \<Rightarrow> bool" where
  "direct_baseline row = (get row ''config'' = JStr ''direct'' \<and> get row ''lifecycle'' = JStr ''reused-client'')"

definition baseline_value :: "obj \<Rightarrow> pyfloat option result" where
  "baseline_value row =
     (let v = get row ''ok_req_s_median''
      in if numeric v then bindE (to_float v) (\<lambda>x. Inr (Some x)) else Inr None)"

text \<open>The two dictionaries as one: a key with the row it came from and its value.\<close>

type_synonym baselines = "(baseline_key \<times> nat \<times> pyfloat option) list"

definition add_baseline :: "baselines \<Rightarrow> nat \<times> obj \<Rightarrow> baselines result" where
  "add_baseline baselines indexed =
     (case indexed of (index, row) \<Rightarrow>
        if \<not> direct_baseline row then Inr baselines
        else
          bindE (baseline_key row) (\<lambda>key.
            case map_of baselines key of
              Some (source, _) \<Rightarrow>
                Inl (AmbiguousDirectBaselineError (''Ambiguous direct baseline '' @ baseline_repr row key @ '' at '' @
                  index_path ''aggregate'' source @ '' and '' @ index_path ''aggregate'' index))
            | None \<Rightarrow> bindE (baseline_value row) (\<lambda>v. Inr (AList.update key (index, v) baselines))))"

definition direct_ratio :: "json \<Rightarrow> pyfloat option \<Rightarrow> json result" where
  "direct_ratio v baseline =
     (case baseline of
        None \<Rightarrow> Inr JNull
      | Some b \<Rightarrow>
          if \<not> numeric v \<or> fle b (Fin 0) then Inr JNull
          else bindE (to_float v) (\<lambda>x. bindE (fdiv x b) (\<lambda>q. Inr (JFloat q))))"

definition ratio_row :: "baselines \<Rightarrow> obj \<Rightarrow> obj result" where
  "ratio_row baselines row =
     bindE (baseline_key row) (\<lambda>key.
     bindE (direct_ratio (get row ''ok_req_s_median'')
         (case map_of baselines key of None \<Rightarrow> None | Some (_, v) \<Rightarrow> v)) (\<lambda>ratio.
       Inr (AList.update ''direct_ratio'' ratio row)))"

definition finalize_proxy_connect_rows :: "obj list \<Rightarrow> obj list result" where
  "finalize_proxy_connect_rows rows =
     bindE (validate_unique_aggregate_rows ''proxy-connect'' rows None) (\<lambda>_.
     bindE (foldE add_baseline [] (enumerate 0 rows)) (\<lambda>baselines.
       mapE (ratio_row baselines) rows))"

definition finalize_proxy_report :: finalizer where
  "finalize_proxy_report rows children_metadata =
     bindE (finalize_proxy_connect_rows rows) (\<lambda>rows. Inr \<lparr>ms_aggregate_rows = rows, ms_metadata = []\<rparr>)"

subsection \<open>Metadata of the streaming suite\<close>

definition merge_contract :: "obj list \<Rightarrow> obj \<Rightarrow> string \<Rightarrow> obj result" where
  "merge_contract children merged key =
     (let values = map (\<lambda>child. get child key) children
      in if \<not> list_ex (\<lambda>child. has_key child key) children then Inr merged
         else if list_ex (\<lambda>v. \<not> py_eq v (hd values)) values \<or> list_ex (\<lambda>child. \<not> has_key child key) children
         then Inl (StreamingMetadataMergeError (''Isolated streaming children disagree on '' @ key))
         else Inr (AList.update key (hd values) merged))"

definition child_scopes :: "string \<Rightarrow> obj \<Rightarrow> string list result" where
  "child_scopes key child =
     (let err = Inl (StreamingMetadataMergeError
          (''Isolated streaming child field '' @ key @ '' must be a list of strings''))
      in case get child key of
           JList scopes \<Rightarrow>
             (if list_ex (\<lambda>scope. \<not> is_str scope) scopes then err else Inr (map py_str scopes))
         | _ \<Rightarrow> err)"

definition merge_scopes :: "obj list \<Rightarrow> obj \<Rightarrow> string \<Rightarrow> obj result" where
  "merge_scopes children merged key =
     (if \<not> list_ex (\<lambda>child. has_key child key) children then Inr merged
      else
        bindE (mapE (child_scopes key) children) (\<lambda>scopes.
          Inr (AList.update key (JList (map JStr (sort (remdups (concat scopes))))) merged)))"

definition merged_streaming_metadata :: "obj list \<Rightarrow> obj result" where
  "merged_streaming_metadata children =
     bindE (foldE (merge_contract children) []
         [''measurement_scope'', ''streaming_metric_schema_version'', ''bytes_payload_policy'']) (\<lambda>merged.
       foldE (merge_scopes children) merged [''throughput_scopes'', ''timing_scopes''])"

definition finalize_streaming_report :: finalizer where
  "finalize_streaming_report rows children_metadata =
     bindE (merged_streaming_metadata children_metadata) (\<lambda>metadata.
       Inr \<lparr>ms_aggregate_rows = rows, ms_metadata = metadata\<rparr>)"

subsection \<open>The contract\<close>

definition suite_finalizer :: "string \<Rightarrow> finalizer" where
  "suite_finalizer suite =
     (if suite = ''response-streaming'' then finalize_streaming_report
      else if suite = ''proxy-connect'' then finalize_proxy_report else preserve_merged_report)"

definition COMMON_METADATA :: "string list" where
  "COMMON_METADATA =
     [''validity'', ''report_schema_version'', ''research_provenance'', ''package_sources'', ''timing_scope'',
      ''resource_metric_schema_version'', ''run_settling'']"

definition finalize_merged_data ::
  "string \<Rightarrow> obj \<Rightarrow> obj list \<Rightarrow> obj list \<Rightarrow> finalizer \<Rightarrow> MergedSuiteReport result"
where
  "finalize_merged_data suite metadata rows children_metadata finalizer =
     bindE (mapE (aggregate_identity suite) rows) (\<lambda>identities.
     bindE (finalizer rows children_metadata) (\<lambda>result.
     bindE (validate_unique_aggregate_rows suite (ms_aggregate_rows result) None) (\<lambda>_.
     bindE (mapE (aggregate_identity suite) (ms_aggregate_rows result)) (\<lambda>finalized.
     bindE (raise_if (finalized \<noteq> identities)
         (ReportFinalizationError ''Suite finalization must preserve aggregate identities and order'')) (\<lambda>_.
       let reserved = map fst metadata @ COMMON_METADATA;
           conflicts = sort (filter (\<lambda>key. key \<in> set reserved) (map fst (ms_metadata result)))
       in bindE (raise_if (conflicts \<noteq> [])
            (ReportFinalizationError (''Suite finalization cannot replace common metadata: '' @ join '', '' conflicts))) (\<lambda>_.
            Inr result))))))"

subsection \<open>One baseline for a key\<close>

definition baselines_for :: "baseline_key \<Rightarrow> obj list \<Rightarrow> obj list" where
  "baselines_for key rows = filter (\<lambda>d. direct_baseline d \<and> baseline_key d = Inr key) rows"

lemma add_baseline_ok:
  "add_baseline bs (i, row) = Inr bs' \<longleftrightarrow>
     (if direct_baseline row then
        (\<exists>key v. baseline_key row = Inr key \<and> map_of bs key = None \<and> baseline_value row = Inr v \<and>
           bs' = AList.update key (i, v) bs)
      else bs' = bs)"
  by (cases "baseline_key row"; cases "map_of bs (projr (baseline_key row))")
    (auto simp: add_baseline_def bindE_ok)

lemma baselines_found:
  assumes "foldE add_baseline bs xs = Inr bs'"
  shows "case baselines_for key (map snd xs) of
      [] \<Rightarrow> map_of bs' key = map_of bs key
    | [d] \<Rightarrow> map_of bs key = None \<and> (\<exists>i v. map_of bs' key = Some (i, v) \<and> baseline_value d = Inr v)
    | _ \<Rightarrow> False"
  using assms
proof (induction xs arbitrary: bs)
  case (Cons x xs)
  obtain i row where x: "x = (i, row)" by (cases x)
  from Cons.prems obtain mid where mid: "add_baseline bs (i, row) = Inr mid" "foldE add_baseline mid xs = Inr bs'"
    by (auto simp: x bindE_ok)
  have rest: "case baselines_for key (map snd xs) of
      [] \<Rightarrow> map_of bs' key = map_of mid key
    | [d] \<Rightarrow> map_of mid key = None \<and> (\<exists>i v. map_of bs' key = Some (i, v) \<and> baseline_value d = Inr v)
    | _ \<Rightarrow> False"
    by (rule Cons.IH [OF mid(2)])
  show ?case
  proof (cases "direct_baseline row \<and> baseline_key row = Inr key")
    case True
    with mid(1) obtain v where v: "map_of bs key = None" "baseline_value row = Inr v" "mid = AList.update key (i, v) bs"
      by (auto simp: add_baseline_ok)
    then have "map_of mid key = Some (i, v)" by (simp add: update_conv')
    with rest have "baselines_for key (map snd xs) = []" "map_of bs' key = Some (i, v)"
      by (auto split: list.splits)
    with True v show ?thesis by (simp add: x baselines_for_def)
  next
    case False
    with mid(1) have "map_of mid key = map_of bs key"
      by (auto simp: add_baseline_ok update_conv' split: if_splits)
    with rest False show ?thesis by (auto simp: x baselines_for_def split: list.splits)
  qed
qed (simp add: baselines_for_def)

lemma own_baseline:
  assumes "foldE add_baseline [] (enumerate 0 rows) = Inr bs" "row \<in> set rows" "direct_baseline row"
    and "baseline_key row = Inr key"
  shows "baselines_for key rows = [row]"
proof -
  have "case baselines_for key rows of [] \<Rightarrow> True | [d] \<Rightarrow> True | _ \<Rightarrow> False"
    using baselines_found [OF assms(1), of key] by (auto split: list.splits)
  moreover have "row \<in> set (baselines_for key rows)" using assms(2-4) by (simp add: baselines_for_def)
  ultimately show ?thesis by (auto split: list.splits)
qed

text \<open>The ratio of a row against its baseline, on every branch.\<close>

lemma direct_ratio_none: "direct_ratio v None = Inr ratio \<longleftrightarrow> ratio = JNull"
  by (auto simp: direct_ratio_def)

lemma direct_ratio_quotient:
  assumes "baseline_value d = Inr b" "direct_ratio v b = Inr ratio"
  shows "if numeric v \<and> numeric (get d ''ok_req_s_median'') then
      (\<exists>b. to_float (get d ''ok_req_s_median'') = Inr b \<and>
         (if fle b (Fin 0) then ratio = JNull
          else (\<exists>x q. to_float v = Inr x \<and> fdiv x b = Inr q \<and> ratio = JFloat q)))
    else ratio = JNull"
proof (cases "numeric v \<and> numeric (get d ''ok_req_s_median'')")
  case True
  with assms obtain y where y: "to_float (get d ''ok_req_s_median'') = Inr y" "b = Some y"
    by (auto simp: baseline_value_def Let_def bindE_ok)
  with assms(2) True have "if fle y (Fin 0) then ratio = JNull
      else (\<exists>x q. to_float v = Inr x \<and> fdiv x y = Inr q \<and> ratio = JFloat q)"
    by (auto simp: direct_ratio_def bindE_ok)
  with True y(1) show ?thesis by auto
next
  case False
  with assms have "ratio = JNull"
    by (auto simp: baseline_value_def direct_ratio_def Let_def bindE_ok split: if_splits)
  then show ?thesis by (simp only: False if_False)
qed

text \<open>
  C19: every row of a finalized proxy report is compared with the one direct row of its key (there is
  never more than one): nothing of a row changes but the ratio. The ratio is the row's throughput
  divided by that of the direct row, as floats; it is null when there is no such row, when either
  throughput is not a number and when the baseline is zero or negative. A direct row whose own
  throughput is positive and finite has the ratio 1.\<close>

theorem proxy_ratio_baseline:
  assumes "finalize_proxy_connect_rows rows = Inr finalized"
  shows "list_all2 (\<lambda>row row'. \<exists>key ratio.
      baseline_key row = Inr key \<and> row' = AList.update ''direct_ratio'' ratio row \<and>
      (case baselines_for key rows of
         [] \<Rightarrow> ratio = JNull
       | [d] \<Rightarrow>
           (if numeric (get row ''ok_req_s_median'') \<and> numeric (get d ''ok_req_s_median'') then
              (\<exists>b. to_float (get d ''ok_req_s_median'') = Inr b \<and>
                 (if fle b (Fin 0) then ratio = JNull
                  else (\<exists>x q. to_float (get row ''ok_req_s_median'') = Inr x \<and> fdiv x b = Inr q \<and> ratio = JFloat q)))
            else ratio = JNull)
       | _ \<Rightarrow> False) \<and>
      (if direct_baseline row \<and> (case get row ''ok_req_s_median'' of JFloat (Fin x) \<Rightarrow> 0 < x | _ \<Rightarrow> False)
       then ratio = JFloat (Fin 1) else True)) rows finalized"
    (is "list_all2 (\<lambda>row row'. \<exists>key ratio. ?key row key \<and> ?updated row row' ratio \<and> ?found row key ratio \<and>
      (if ?positive row then ?one ratio else True)) rows finalized")
proof -
  from assms obtain bs where bs: "foldE add_baseline [] (enumerate 0 rows) = Inr bs"
      and out: "mapE (ratio_row bs) rows = Inr finalized"
    by (auto simp: finalize_proxy_connect_rows_def bindE_ok)
  have "\<exists>key ratio. ?key row key \<and> ?updated row row' ratio \<and> ?found row key ratio \<and>
      (if ?positive row then ?one ratio else True)"
    if "ratio_row bs row = Inr row'" "row \<in> set rows" for row row'
  proof -
    from that(1) obtain key ratio where row: "?key row key" "?updated row row' ratio"
        "direct_ratio (get row ''ok_req_s_median'') (case map_of bs key of None \<Rightarrow> None | Some (_, v) \<Rightarrow> v) = Inr ratio"
      by (auto simp: ratio_row_def bindE_ok)
    have found: "?found row key ratio"
    proof (cases "baselines_for key rows")
      case Nil
      with baselines_found [OF bs, of key] row(3) show ?thesis by (simp add: direct_ratio_none)
    next
      case (Cons d others)
      with baselines_found [OF bs, of key] obtain i v where d: "others = []" "map_of bs key = Some (i, v)"
          "baseline_value d = Inr v"
        by (auto split: list.splits)
      with direct_ratio_quotient [OF d(3)] row(3) Cons show ?thesis by simp
    qed
    have own: "?one ratio" if "direct_baseline row" "get row ''ok_req_s_median'' = JFloat (Fin x)" "0 < x" for x
    proof -
      have "baselines_for key rows = [row]" by (rule own_baseline [OF bs \<open>row \<in> set rows\<close> that(1) row(1)])
      with found that show ?thesis using round64_of_int [of 1] by (auto simp: fle_def)
    qed
    then have "if ?positive row then ?one ratio else True"
      by (auto split: json.splits pyfloat.splits)
    with row(1,2) found show ?thesis by blast
  qed
  then show ?thesis using out unfolding mapE_ok by (elim list.rel_mono_strong) simp
qed

definition proxy_row :: "string \<Rightarrow> string \<Rightarrow> pyfloat \<Rightarrow> obj" where
  "proxy_row client config rate =
     [(''mode'', JStr ''async''), (''client'', JStr client), (''case'', JStr ''get''), (''group'', JStr ''plain''),
      (''target_scheme'', JStr ''http''), (''config'', JStr config), (''lifecycle'', JStr ''reused-client''),
      (''concurrency'', JInt 4), (''request_limit'', JInt 4), (''ok_req_s_median'', JFloat rate)]"

lemma get_proxy [simp]:
  "get (proxy_row client config rate) ''ok_req_s_median'' = JFloat rate"
  by (simp add: proxy_row_def get_def)

lemma proxy_ratio_baseline_witness:
  "\<exists>finalized. finalize_proxy_connect_rows
       [proxy_row ''foghttp'' ''proxy'' (Fin 3), proxy_row ''foghttp'' ''direct'' (Fin 2)] = Inr finalized \<and>
     map (\<lambda>row. get row ''direct_ratio'') finalized = [JFloat (Fin (3 / 2)), JFloat (Fin 1)]"
proof -
  let ?rows = "[proxy_row ''foghttp'' ''proxy'' (Fin 3), proxy_row ''foghttp'' ''direct'' (Fin 2)]"
  have "aggregate_identity ''proxy-connect'' (proxy_row c f x) =
      Inr [''async'', c, ''get'', ''plain'', ''http'', f, ''reused-client'', ''4'', ''4'']"
    if "strip c \<noteq> []" for c f x
  proof -
    have "strip ''async'' \<noteq> []" "py_str (JInt 4) = ''4''" by code_simp+
    with that show ?thesis
      by (simp add: aggregate_identity_def IDENTITY_FIELDS_def proxy_row_def require_string_def get_def
          identity_value_def)
  qed
  moreover have "strip ''foghttp'' \<noteq> []" by code_simp
  ultimately have "validate_unique_aggregate_rows ''proxy-connect'' ?rows None = Inr ()"
    by (simp add: unique_rows_exact)
  moreover have "py_str (JStr s) = s" for s by simp
  ultimately have "\<exists>finalized. finalize_proxy_connect_rows ?rows = Inr finalized"
    by (simp add: finalize_proxy_connect_rows_def add_baseline_def direct_baseline_def baseline_key_def
        baseline_value_def ratio_row_def direct_ratio_def proxy_row_def get_def get_default_def fle_def)
  then obtain finalized where finalized: "finalize_proxy_connect_rows ?rows = Inr finalized" ..
  have "baselines_for (''async'', ''foghttp'', ''http'', 4) ?rows = [?rows ! 1]"
    "\<forall>row \<in> set ?rows. baseline_key row = Inr (''async'', ''foghttp'', ''http'', 4)"
    by code_simp+
  moreover have "round64 (3 / 2) = Fin (3 / 2)" by code_simp
  ultimately show ?thesis
    using proxy_ratio_baseline [OF finalized] finalized round64_of_int [of 1]
    by (auto simp: list_all2_Cons1 direct_baseline_def fle_def)
qed

subsection \<open>The finalizers keep the contract\<close>

definition SUITE_METADATA :: "string list" where
  "SUITE_METADATA =
     [''measurement_scope'', ''streaming_metric_schema_version'', ''bytes_payload_policy'', ''throughput_scopes'',
      ''timing_scopes'']"

lemma sort_nothing: "xs = [] \<Longrightarrow> sort xs = []"
  by simp

locale merged_finalizer =
  fixes suite :: string and finalize :: finalizer
  assumes keeps_identities: "finalize rows children = Inr r \<Longrightarrow>
      map (aggregate_identity suite) (ms_aggregate_rows r) = map (aggregate_identity suite) rows"
    and own_metadata: "finalize rows children = Inr r \<Longrightarrow> fst ` set (ms_metadata r) \<subseteq> set SUITE_METADATA"
begin

lemma identities_kept: "finalize rows children = Inr r \<Longrightarrow>
    mapE (aggregate_identity suite) (ms_aggregate_rows r) = mapE (aggregate_identity suite) rows"
proof -
  have "mapE f xs = mapE id (map f xs)" for f :: "obj \<Rightarrow> string list result" and xs by (simp add: mapE_map)
  then show "finalize rows children = Inr r \<Longrightarrow> ?thesis" using keeps_identities by metis
qed

text \<open>The checks on what a finalizer returns never fire: merging fails only if the finalizer does.\<close>

lemma accepted:
  assumes "mapE (aggregate_identity suite) rows = Inr ids" "distinct ids"
    and "set (map fst metadata) \<inter> set SUITE_METADATA = {}"
  shows "finalize_merged_data suite metadata rows children finalize = finalize rows children"
proof (cases "finalize rows children")
  case (Inr r)
  have ids: "mapE (aggregate_identity suite) (ms_aggregate_rows r) = Inr ids"
    using identities_kept [OF Inr] assms(1) by simp
  then have unique: "validate_unique_aggregate_rows suite (ms_aggregate_rows r) None = Inr ()"
    using assms(2) by (auto simp: unique_rows_exact)
  have "set SUITE_METADATA \<inter> set COMMON_METADATA = {}"
    by (simp add: SUITE_METADATA_def COMMON_METADATA_def)
  then have "filter (\<lambda>key. key \<in> set (map fst metadata @ COMMON_METADATA)) (map fst (ms_metadata r)) = []"
    using own_metadata [OF Inr] assms(3) by (fastforce simp: filter_empty_conv)
  then have "sort (filter (\<lambda>key. key \<in> set (map fst metadata @ COMMON_METADATA)) (map fst (ms_metadata r))) = []"
    by (rule sort_nothing)
  with Inr ids unique assms(1) show ?thesis
    by (simp only: finalize_merged_data_def bindE_simps Let_def raise_if_def if_False simp_thms)
qed (simp add: finalize_merged_data_def assms(1))

end

lemma proxy_identity_kept:
  "aggregate_identity ''proxy-connect'' (AList.update ''direct_ratio'' v row) = aggregate_identity ''proxy-connect'' row"
  by (simp add: aggregate_identity_def IDENTITY_FIELDS_def identity_value_def)

lemma proxy_report_kept:
  assumes "finalize_proxy_report rows children = Inr r"
  shows "map (aggregate_identity ''proxy-connect'') (ms_aggregate_rows r) =
    map (aggregate_identity ''proxy-connect'') rows \<and> ms_metadata r = []"
proof -
  from assms obtain bs where "mapE (ratio_row bs) rows = Inr (ms_aggregate_rows r)" "ms_metadata r = []"
    by (auto simp: finalize_proxy_report_def finalize_proxy_connect_rows_def bindE_ok)
  moreover have "aggregate_identity ''proxy-connect'' row' = aggregate_identity ''proxy-connect'' row"
    if "ratio_row bs row = Inr row'" for row row'
    using that proxy_identity_kept by (auto simp: ratio_row_def bindE_ok)
  ultimately show ?thesis by (auto simp: mapE_ok list_all2_conv_all_nth intro!: nth_equalityI)
qed

lemma update_keys: "m' = m \<or> (\<exists>v. m' = AList.update key v m) \<Longrightarrow> fst ` set m' \<subseteq> insert key (fst ` set m)"
  using dom_update by (metis Un_insert_left insert_is_Un order_refl subset_insertI)

lemma merge_contract_keys: "merge_contract children m key = Inr m' \<Longrightarrow> fst ` set m' \<subseteq> insert key (fst ` set m)"
  by (rule update_keys) (auto simp: merge_contract_def Let_def split: if_splits)

lemma merge_scopes_keys: "merge_scopes children m key = Inr m' \<Longrightarrow> fst ` set m' \<subseteq> insert key (fst ` set m)"
  by (rule update_keys) (auto simp: merge_scopes_def bindE_ok split: if_splits)

lemma foldE_keys:
  assumes step: "\<And>m key m'. f m key = Inr m' \<Longrightarrow> fst ` set m' \<subseteq> insert key (fst ` set m)"
  shows "foldE f m keys = Inr m' \<Longrightarrow> fst ` set m' \<subseteq> set keys \<union> fst ` set m"
proof (induction keys arbitrary: m)
  case (Cons key keys)
  then obtain mid where "f m key = Inr mid" "foldE f mid keys = Inr m'" by (auto simp: bindE_ok)
  with Cons.IH [of mid] step [of m key mid] show ?case by auto
qed simp

lemma streaming_metadata_keys:
  assumes "merged_streaming_metadata children = Inr m"
  shows "fst ` set m \<subseteq> set SUITE_METADATA"
proof -
  from assms obtain mid where
    "foldE (merge_contract children) []
       [''measurement_scope'', ''streaming_metric_schema_version'', ''bytes_payload_policy''] = Inr mid"
    "foldE (merge_scopes children) mid [''throughput_scopes'', ''timing_scopes''] = Inr m"
    unfolding merged_streaming_metadata_def bindE_ok by blast
  from foldE_keys [of "merge_contract children", OF _ this(1)] foldE_keys [of "merge_scopes children", OF _ this(2)]
    merge_contract_keys merge_scopes_keys
  have "fst ` set mid \<subseteq> set [''measurement_scope'', ''streaming_metric_schema_version'', ''bytes_payload_policy'']"
      "fst ` set m \<subseteq> set [''throughput_scopes'', ''timing_scopes''] \<union> fst ` set mid"
    by (metis Un_empty_right image_empty list.set(1), metis)
  then have "fst ` set m \<subseteq> set [''throughput_scopes'', ''timing_scopes''] \<union>
      set [''measurement_scope'', ''streaming_metric_schema_version'', ''bytes_payload_policy'']" by blast
  also have "\<dots> = set SUITE_METADATA" by (auto simp: SUITE_METADATA_def)
  finally show ?thesis .
qed

lemma streaming_report_kept:
  "finalize_streaming_report rows children = Inr r \<Longrightarrow>
     ms_aggregate_rows r = rows \<and> fst ` set (ms_metadata r) \<subseteq> set SUITE_METADATA"
  unfolding finalize_streaming_report_def bindE_ok using streaming_metadata_keys by fastforce

interpretation suite_contract: merged_finalizer suite "suite_finalizer suite"
proof
  fix rows children r
  assume r: "suite_finalizer suite rows children = Inr r"
  have "map (aggregate_identity suite) (ms_aggregate_rows r) = map (aggregate_identity suite) rows \<and>
      fst ` set (ms_metadata r) \<subseteq> set SUITE_METADATA"
    using r proxy_report_kept [of rows children r] streaming_report_kept [of rows children r]
    by (auto simp: suite_finalizer_def preserve_merged_report_def simp del: image_subset_iff split: if_splits)
  then show "map (aggregate_identity suite) (ms_aggregate_rows r) = map (aggregate_identity suite) rows"
      "fst ` set (ms_metadata r) \<subseteq> set SUITE_METADATA" by simp_all
qed

end
