(* ===== verification/Isolation_Planning.thy ===== *)
theory Isolation_Planning
  imports Argument_Validation
begin

text \<open>
  isolation/planning.py with the plan items of isolation/models.py: one child process per client, or
  per client and scenario, each with a sequence number, an output directory of its own and the command
  that starts it. The resolved base directory and the interpreter are parameters.
\<close>

record ClientIsolationPlanItem =
  pi_sequence :: int
  pi_client :: string
  pi_scenario :: "string option"
  pi_output_dir :: string
  pi_command :: "string list"

subsection \<open>Directory names\<close>

definition safe_char :: "char \<Rightarrow> bool" where
  "safe_char c =
     (is_digit c \<or> 65 \<le> char_code c \<and> char_code c \<le> 90 \<or> 97 \<le> char_code c \<and> char_code c \<le> 122 \<or>
      c = CHR ''_'' \<or> c = CHR ''.'' \<or> c = CHR ''-'')"

text \<open>\<^verbatim>\<open>SAFE_DIR_CHARS.sub("-", text)\<close>: each maximal run of other characters becomes one dash.\<close>

fun replace_unsafe :: "bool \<Rightarrow> string \<Rightarrow> string" where
  "replace_unsafe in_run [] = []"
| "replace_unsafe in_run (c # cs) =
     (if safe_char c then c # replace_unsafe False cs
      else if in_run then replace_unsafe True cs
      else CHR ''-'' # replace_unsafe True cs)"

definition strip_dashes :: "string \<Rightarrow> string" where
  "strip_dashes s = rev (dropWhile (\<lambda>c. c = CHR ''-'') (rev (dropWhile (\<lambda>c. c = CHR ''-'') s)))"

definition safe_name :: "string \<Rightarrow> string \<Rightarrow> string" where
  "safe_name fallback text_value =
     (let name = strip_dashes (replace_unsafe False text_value) in if name = [] then fallback else name)"

definition child_output_dir :: "string \<Rightarrow> int \<Rightarrow> string \<Rightarrow> string option \<Rightarrow> string" where
  "child_output_dir base_dir sequence client scenario =
     (let safe_client = safe_name ''client'' client
      in case scenario of
           None \<Rightarrow> base_dir @ ''/'' @ zfill 3 (int_str sequence) @ ''-'' @ safe_client
         | Some s \<Rightarrow>
             base_dir @ ''/'' @ zfill 3 (int_str sequence) @ ''-'' @ safe_client @ ''-'' @ safe_name ''scenario'' s)"

subsection \<open>Commands\<close>

definition benchmark_child_command ::
  "string \<Rightarrow> BenchmarkArgs \<Rightarrow> string \<Rightarrow> string \<Rightarrow> string option \<Rightarrow> string list"
where
  "benchmark_child_command executable args client output_dir scenario =
     (let scenario_arg = (case scenario of None \<Rightarrow> ba_scenarios args | Some s \<Rightarrow> s);
          command =
            [executable, ''-m'', ''foghttp_benchmark._child'', ''--suite'', ba_suite args, ''--clients'', client,
             ''--modes'', ba_modes args, ''--concurrency'', ba_concurrency args,
             ''--requests'', int_str (ba_requests args), ''--warmup'', int_str (ba_warmup args),
             ''--repeats'', int_str (ba_repeats args), ''--max-redirects'', int_str (ba_max_redirects args),
             ''--seed'', int_str (ba_seed args), ''--output-dir'', output_dir, ''--scenarios'', scenario_arg,
             ''--iterations'', int_str (ba_iterations args), ''--client-counts'', ba_client_counts args,
             ''--no-progress'']
      in if ba_no_shuffle args then command @ [''--no-shuffle''] else command)"

definition plan_item ::
  "string \<Rightarrow> BenchmarkArgs \<Rightarrow> string \<Rightarrow> int \<Rightarrow> string \<Rightarrow> string option \<Rightarrow> ClientIsolationPlanItem"
where
  "plan_item executable args base_dir sequence client scenario =
     (let output_dir = child_output_dir base_dir sequence client scenario
      in \<lparr>pi_sequence = sequence, pi_client = client, pi_scenario = scenario, pi_output_dir = output_dir,
          pi_command = benchmark_child_command executable args client output_dir scenario\<rparr>)"

subsection \<open>Plans\<close>

definition build_client_isolation_plan ::
  "string \<Rightarrow> string \<Rightarrow> BenchmarkArgs \<Rightarrow> string list \<Rightarrow> ClientIsolationPlanItem list"
where
  "build_client_isolation_plan executable base_dir args clients =
     map (\<lambda>(index, client). plan_item executable args base_dir index client None)
       (zip (map int [1..<Suc (length clients)]) clients)"

text \<open>The nested loop: the sequence number is a counter carried through both.\<close>

definition add_plan_item ::
  "string \<Rightarrow> BenchmarkArgs \<Rightarrow> string \<Rightarrow> string \<Rightarrow> ClientIsolationPlanItem list \<times> int \<Rightarrow> string \<Rightarrow>
   ClientIsolationPlanItem list \<times> int"
where
  "add_plan_item executable args base_dir client acc scenario =
     (let (plan, sequence) = acc
      in (plan @ [plan_item executable args base_dir sequence client (Some scenario)], sequence + 1))"

definition build_client_scenario_isolation_plan ::
  "string \<Rightarrow> string \<Rightarrow> BenchmarkArgs \<Rightarrow> string list \<Rightarrow> string list \<Rightarrow> ClientIsolationPlanItem list"
where
  "build_client_scenario_isolation_plan executable base_dir args clients scenarios =
     fst (foldl (\<lambda>acc client. foldl (add_plan_item executable args base_dir client) acc scenarios)
       ([], 1) clients)"

subsection \<open>Sequence numbers in directory names\<close>

lemma digits_value_zfill: "digits_value (zfill w s) = digits_value s"
proof -
  have "foldl (\<lambda>n c. 10 * n + (int (char_code c) - 48)) 0 (replicate k CHR ''0'') = 0" for k
    by (induction k) (simp_all add: char_code_def)
  then show ?thesis by (simp add: digits_value_def zfill_def)
qed

lemma sequence_digits:
  assumes "0 \<le> i"
  shows "list_all is_digit (zfill 3 (int_str i))" "digits_value (zfill 3 (int_str i)) = i"
proof -
  have "is_digit CHR ''0''" by code_simp
  then show "list_all is_digit (zfill 3 (int_str i))"
    using assms nat_str_digits [of i] by (auto simp: int_str_def zfill_def list_all_iff)
  show "digits_value (zfill 3 (int_str i)) = i"
    using assms by (simp add: int_str_def digits_value_zfill digits_value_nat_str)
qed

lemma leading_digits: "list_all is_digit ds \<Longrightarrow> takeWhile is_digit (ds @ CHR ''-'' # rest) = ds"
proof -
  have "\<not> is_digit CHR ''-''" by code_simp
  then show "list_all is_digit ds \<Longrightarrow> takeWhile is_digit (ds @ CHR ''-'' # rest) = ds"
    by (simp add: list_all_iff takeWhile_tail)
qed

lemma output_dir_shape:
  "\<exists>name. child_output_dir base_dir i client scenario = base_dir @ ''/'' @ zfill 3 (int_str i) @ CHR ''-'' # name"
  by (simp add: child_output_dir_def Let_def split: option.splits)

lemma output_dir_sequence:
  assumes "0 \<le> i" "0 \<le> j" "child_output_dir base_dir i client scenario = child_output_dir base_dir j client' scenario'"
  shows "i = j"
proof -
  obtain a b where
    "zfill 3 (int_str i) @ CHR ''-'' # a = zfill 3 (int_str j) @ CHR ''-'' # b"
    using output_dir_shape [of base_dir i client scenario] output_dir_shape [of base_dir j client' scenario'] assms(3)
    by auto metis
  then have "zfill 3 (int_str i) = zfill 3 (int_str j)"
    using leading_digits [OF sequence_digits(1) [OF assms(1)], of a]
      leading_digits [OF sequence_digits(1) [OF assms(2)], of b] by simp
  then show ?thesis using sequence_digits(2) assms(1,2) by metis
qed

lemma replace_unsafe_safe: "list_all safe_char (replace_unsafe b s)"
proof -
  have "safe_char CHR ''-''" by code_simp
  then show ?thesis by (induction b s rule: replace_unsafe.induct) auto
qed

lemma safe_name_safe: "list_all safe_char fallback \<Longrightarrow> list_all safe_char (safe_name fallback s)"
  using replace_unsafe_safe [of False s]
  by (auto simp: safe_name_def strip_dashes_def Let_def list_all_iff dest!: set_dropWhileD)

lemma output_dir_safe:
  assumes "0 \<le> i"
  shows "\<exists>name. child_output_dir base_dir i client scenario = base_dir @ ''/'' @ name \<and> list_all safe_char name"
proof -
  have fixed: "list_all safe_char ''client''" "list_all safe_char ''scenario''" "safe_char CHR ''-''"
    by code_simp+
  have "list_all safe_char (zfill 3 (int_str i))"
    using sequence_digits(1) [OF assms] by (auto simp: list_all_iff safe_char_def)
  then show ?thesis
    using safe_name_safe [OF fixed(1), of client] safe_name_safe [OF fixed(2)] fixed(3)
    by (auto simp: child_output_dir_def Let_def split: option.splits)
qed

subsection \<open>What a plan holds\<close>

lemma item_simps [simp]:
  "pi_sequence (plan_item executable args base_dir i c s) = i"
  "pi_client (plan_item executable args base_dir i c s) = c"
  "pi_scenario (plan_item executable args base_dir i c s) = s"
  "pi_output_dir (plan_item executable args base_dir i c s) = child_output_dir base_dir i c s"
  by (simp_all add: plan_item_def Let_def)

definition numbered_plan ::
  "string \<Rightarrow> BenchmarkArgs \<Rightarrow> string \<Rightarrow> int \<Rightarrow> (string \<times> string option) list \<Rightarrow> ClientIsolationPlanItem list"
where
  "numbered_plan executable args base_dir first jobs =
     map (\<lambda>k. plan_item executable args base_dir (first + int k) (fst (jobs ! k)) (snd (jobs ! k))) [0..<length jobs]"

lemma numbered_plan_append:
  "numbered_plan executable args base_dir first (jobs @ more_jobs) =
     numbered_plan executable args base_dir first jobs @
     numbered_plan executable args base_dir (first + int (length jobs)) more_jobs"
  by (rule nth_equalityI) (auto simp: numbered_plan_def nth_append add.assoc)

lemma add_plan_items:
  "foldl (add_plan_item executable args base_dir client) (plan, i) scenarios =
     (plan @ numbered_plan executable args base_dir i (map (\<lambda>s. (client, Some s)) scenarios),
      i + int (length scenarios))"
proof (induction scenarios arbitrary: plan i)
  case (Cons s scenarios)
  have "numbered_plan executable args base_dir i ([(client, Some s)] @ map (\<lambda>s. (client, Some s)) scenarios) =
      plan_item executable args base_dir i client (Some s) #
      numbered_plan executable args base_dir (i + 1) (map (\<lambda>s. (client, Some s)) scenarios)"
    unfolding numbered_plan_append by (simp add: numbered_plan_def)
  with Cons show ?case by (simp add: add_plan_item_def)
qed (simp add: numbered_plan_def)

lemma scenario_plan:
  "build_client_scenario_isolation_plan executable base_dir args clients scenarios =
     numbered_plan executable args base_dir 1 (map (\<lambda>(c, s). (c, Some s)) (List.product clients scenarios))"
proof -
  have "foldl (\<lambda>acc client. foldl (add_plan_item executable args base_dir client) acc scenarios) (plan, i) clients =
      (plan @ numbered_plan executable args base_dir i (map (\<lambda>(c, s). (c, Some s)) (List.product clients scenarios)),
       i + int (length clients * length scenarios))" for plan i
  proof (induction clients arbitrary: plan i)
    case (Cons c clients)
    then show ?case by (simp add: add_plan_items numbered_plan_append comp_def case_prod_beta algebra_simps)
  qed (simp add: numbered_plan_def)
  then show ?thesis by (simp add: build_client_scenario_isolation_plan_def)
qed

lemma client_plan:
  "build_client_isolation_plan executable base_dir args clients =
     numbered_plan executable args base_dir 1 (map (\<lambda>c. (c, None)) clients)"
  by (rule nth_equalityI) (auto simp: build_client_isolation_plan_def numbered_plan_def simp del: upt_Suc)

lemma numbered_plan_facts:
  assumes "1 \<le> first"
  shows "map pi_sequence (numbered_plan executable args base_dir first jobs) =
      map (\<lambda>k. first + int k) [0..<length jobs]"
    and "map (\<lambda>p. (pi_client p, pi_scenario p)) (numbered_plan executable args base_dir first jobs) = jobs"
    and "distinct (map pi_output_dir (numbered_plan executable args base_dir first jobs))"
    and "list_all (\<lambda>p. \<exists>name. pi_output_dir p = base_dir @ ''/'' @ name \<and> list_all safe_char name)
      (numbered_plan executable args base_dir first jobs)"
proof -
  show "map pi_sequence (numbered_plan executable args base_dir first jobs) =
      map (\<lambda>k. first + int k) [0..<length jobs]"
    by (simp add: numbered_plan_def comp_def)
  show "map (\<lambda>p. (pi_client p, pi_scenario p)) (numbered_plan executable args base_dir first jobs) = jobs"
    by (simp add: numbered_plan_def comp_def map_nth)
  show "distinct (map pi_output_dir (numbered_plan executable args base_dir first jobs))"
    using assms by (auto simp: numbered_plan_def distinct_map comp_def inj_on_def dest: output_dir_sequence [rotated 2])
  show "list_all (\<lambda>p. \<exists>name. pi_output_dir p = base_dir @ ''/'' @ name \<and> list_all safe_char name)
      (numbered_plan executable args base_dir first jobs)"
    using assms output_dir_safe by (auto simp: numbered_plan_def list_all_iff)
qed

subsection \<open>Properties\<close>

text \<open>
  C20: an isolation plan runs every job exactly once and apart from the others: its items are the
  clients in order (or all pairs of client and scenario, scenarios innermost), numbered from one without
  gaps, and their output directories are pairwise different children of the base directory whose
  names consist of safe characters whatever the clients and scenarios are called.\<close>

theorem isolation_plan_sound:
  "(let plan = build_client_scenario_isolation_plan executable base_dir args clients scenarios
    in map (\<lambda>p. (pi_client p, pi_scenario p)) plan = map (\<lambda>(c, s). (c, Some s)) (List.product clients scenarios) \<and>
       map pi_sequence plan = map (\<lambda>k. 1 + int k) [0..<length clients * length scenarios] \<and>
       distinct (map pi_output_dir plan) \<and>
       list_all (\<lambda>p. \<exists>name. pi_output_dir p = base_dir @ ''/'' @ name \<and> list_all safe_char name) plan) \<and>
   (let plan = build_client_isolation_plan executable base_dir args clients
    in map (\<lambda>p. (pi_client p, pi_scenario p)) plan = map (\<lambda>c. (c, None)) clients \<and>
       map pi_sequence plan = map (\<lambda>k. 1 + int k) [0..<length clients] \<and>
       distinct (map pi_output_dir plan) \<and>
       list_all (\<lambda>p. \<exists>name. pi_output_dir p = base_dir @ ''/'' @ name \<and> list_all safe_char name) plan)"
  unfolding scenario_plan client_plan Let_def
  using numbered_plan_facts(4) [of 1] by (simp add: numbered_plan_facts(1-3))

end
