(* ===== verification/Isolation_Reports.thy ===== *)
theory Isolation_Reports
  imports Report_Decoding Report_Finalization Isolation_Planning
begin

text \<open>
  isolation/reports.py, with \<^verbatim>\<open>load_report\<close> of report_schema/decoding.py: the report of an isolated run,
  merged from the reports of its child processes. Reading a file and revalidating raw evidence are
  parameters, and so is what the process knows of its environment; the markdown and the files are not
  modelled, the value is the payload that is published.
\<close>

record ChildResourcePeaks =
  cp_rss_mb :: "pyfloat option"
  cp_threads :: "int option"
  cp_fds :: "int option"

record ChildProcessResult =
  cr_sequence :: int
  cr_client :: string
  cr_scenario :: "string option"
  cr_output_dir :: string
  cr_report_path :: "string option"
  cr_command :: "string list"
  cr_returncode :: int
  cr_duration_s :: pyfloat
  cr_peaks :: ChildResourcePeaks
  cr_stdout_tail :: string
  cr_stderr_tail :: string

record report_environment =
  re_timestamp :: string
  re_python :: string
  re_platform :: string
  re_package_versions :: obj
  re_provenance :: "(json \<times> json) option"

subsection \<open>Reading child reports\<close>

definition load_report ::
  "(string \<Rightarrow> json result) \<Rightarrow> (obj \<Rightarrow> obj list \<Rightarrow> string \<Rightarrow> json result) \<Rightarrow> string \<Rightarrow> string option \<Rightarrow>
   decoded_report result"
where
  "load_report read_json revalidate path expected_suite =
     (case bindE (read_json path) (\<lambda>document.
           bindE (decode_report_payload document expected_suite) (\<lambda>report.
             if uses_streaming_profile (dr_metadata report) (dr_aggregate_rows report) ''async-bytes''
             then bindE (revalidate (dr_metadata report) (dr_aggregate_rows report) path) (\<lambda>evidence.
                    Inr (report\<lparr>dr_metadata :=
                      AList.update ''raw_evidence_validation'' evidence (dr_metadata report)\<rparr>))
             else Inr report)) of
        Inl e \<Rightarrow> Inl (if type_or_value_error e then ValueError (path @ '': '' @ error_message e) else e)
      | Inr report \<Rightarrow> Inr report)"

definition succeeded :: "ChildProcessResult \<Rightarrow> bool" where
  "succeeded result = (cr_returncode result = 0 \<and> cr_report_path result \<noteq> None)"

definition report_path :: "ChildProcessResult \<Rightarrow> string" where
  "report_path result = (case cr_report_path result of None \<Rightarrow> [] | Some path \<Rightarrow> path)"

definition report_payload :: "decoded_report \<Rightarrow> obj" where
  "report_payload report =
     [(''metadata'', JObj (dr_metadata report)), (''aggregate'', JList (map JObj (dr_aggregate_rows report))),
      (''runs'', JList (map JObj (dr_run_rows report)))]"

definition row_sources :: "ChildProcessResult \<Rightarrow> decoded_report \<Rightarrow> string list" where
  "row_sources result report =
     map (\<lambda>index. report_path result @ '':'' @ index_path ''aggregate'' index) [0..<length (dr_aggregate_rows report)]"

definition load_successful_child_payloads ::
  "(string \<Rightarrow> string option \<Rightarrow> decoded_report result) \<Rightarrow> ChildProcessResult list \<Rightarrow> string \<Rightarrow> obj list result"
where
  "load_successful_child_payloads load child_results expected_suite =
     (let loaded = filter succeeded child_results
      in bindE (mapE (\<lambda>result. load (report_path result) (Some expected_suite)) loaded) (\<lambda>reports.
         bindE (validate_unique_aggregate_rows expected_suite (concat (map dr_aggregate_rows reports))
             (Some (concat (map2 row_sources loaded reports)))) (\<lambda>_.
           Inr (map report_payload reports))))"

subsection \<open>Merging\<close>

definition report_metadata :: "obj \<Rightarrow> obj" where
  "report_metadata payload = (case get payload ''metadata'' of JObj metadata \<Rightarrow> metadata | _ \<Rightarrow> [])"

definition payload_item :: "string \<Rightarrow> json \<Rightarrow> obj result" where
  "payload_item key item =
     (case item of
        JObj row \<Rightarrow> Inr row
      | _ \<Rightarrow> Inl (TypeError (''Child report JSON field '' @ str_repr key @ '' must contain objects'')))"

definition payload_list :: "string \<Rightarrow> obj \<Rightarrow> obj list result" where
  "payload_list key payload =
     (case get payload key of
        JList items \<Rightarrow> mapE (payload_item key) items
      | _ \<Rightarrow> Inl (TypeError (''Child report JSON field '' @ str_repr key @ '' must be a list'')))"

definition merge_payload_lists :: "obj list \<Rightarrow> string \<Rightarrow> obj list result" where
  "merge_payload_lists child_payloads key =
     bindE (mapE (payload_list key) child_payloads) (\<lambda>lists. Inr (concat lists))"

definition merge_skipped :: "(string \<times> string) list \<Rightarrow> obj list \<Rightarrow> (string \<times> string) list" where
  "merge_skipped parent_skipped child_payloads =
     foldl (\<lambda>merged payload.
       (case get (report_metadata payload) ''skipped'' of
          JObj skipped \<Rightarrow> foldl (\<lambda>merged kv. setdefault (fst kv) (py_str (snd kv)) merged) merged skipped
        | _ \<Rightarrow> merged)) parent_skipped child_payloads"

definition optional_json :: "('a \<Rightarrow> json) \<Rightarrow> 'a option \<Rightarrow> json" where
  "optional_json f x = (case x of None \<Rightarrow> JNull | Some v \<Rightarrow> f v)"

definition child_result_payload :: "ChildProcessResult \<Rightarrow> obj" where
  "child_result_payload r =
     [(''sequence'', JInt (cr_sequence r)), (''client'', JStr (cr_client r)),
      (''scenario'', optional_json JStr (cr_scenario r)), (''output_dir'', JStr (cr_output_dir r)),
      (''report_path'', optional_json JStr (cr_report_path r)), (''command'', JList (map JStr (cr_command r))),
      (''returncode'', JInt (cr_returncode r)), (''duration_s'', JFloat (cr_duration_s r)),
      (''peaks'', JObj [(''rss_mb'', optional_json JFloat (cp_rss_mb (cr_peaks r))),
         (''threads'', optional_json JInt (cp_threads (cr_peaks r))), (''fds'', optional_json JInt (cp_fds (cr_peaks r)))]),
      (''stdout_tail'', JStr (cr_stdout_tail r)), (''stderr_tail'', JStr (cr_stderr_tail r))]"

definition copy_keys :: "string list \<Rightarrow> obj \<Rightarrow> obj \<Rightarrow> obj" where
  "copy_keys keys source target =
     foldl (\<lambda>acc key. if has_key source key then AList.update key (get source key) acc else acc) target keys"

text \<open>
  The iterator over the successful payloads gives one to each successful child; the loader made as many
  as there are such children, so it never runs out.\<close>

fun child_diagnostics :: "ChildProcessResult list \<Rightarrow> obj list \<Rightarrow> obj list" where
  "child_diagnostics [] payloads = []"
| "child_diagnostics (r # rs) payloads =
     (if succeeded r then
        (case payloads of
           [] \<Rightarrow> []
         | p # ps \<Rightarrow>
             copy_keys [''package_sources'', ''research_provenance'', ''resource_metric_schema_version'', ''validity'']
               (report_metadata p) (child_result_payload r) # child_diagnostics rs ps)
      else child_result_payload r # child_diagnostics rs payloads)"

definition merged_timing_scope :: "string \<Rightarrow> obj list \<Rightarrow> string result" where
  "merged_timing_scope suite child_payloads =
     bindE (mapE (\<lambda>payload.
         bindE (merge_payload_lists [payload] ''aggregate'') (\<lambda>rows.
         bindE (merge_payload_lists [payload] ''runs'') (\<lambda>runs.
           report_timing_scope suite (report_metadata payload) rows (Some runs)))) child_payloads) (\<lambda>scopes.
       if list_ex (\<lambda>scope. scope \<noteq> hd scopes) scopes
       then Inl (ValueError ''Isolated children disagree on timing scope'')
       else Inr (scope_value (hd scopes)))"

definition isolation_unit :: "BenchmarkArgs \<Rightarrow> string" where
  "isolation_unit args =
     (if ba_isolation args = ''per-client-scenario'' then ''client-scenario'' else ''client'')"

text \<open>\<^verbatim>\<open>vars(args)\<close>\<close>

definition args_json :: "BenchmarkArgs \<Rightarrow> obj" where
  "args_json a =
     [(''suite'', JStr (ba_suite a)), (''clients'', JStr (ba_clients a)), (''modes'', JStr (ba_modes a)),
      (''concurrency'', JStr (ba_concurrency a)), (''requests'', JInt (ba_requests a)), (''warmup'', JInt (ba_warmup a)),
      (''repeats'', JInt (ba_repeats a)), (''max_redirects'', JInt (ba_max_redirects a)), (''seed'', JInt (ba_seed a)),
      (''no_shuffle'', JBool (ba_no_shuffle a)), (''output_dir'', JStr (ba_output_dir a)),
      (''scenarios'', JStr (ba_scenarios a)), (''iterations'', JInt (ba_iterations a)),
      (''client_counts'', JStr (ba_client_counts a)), (''isolation'', JStr (ba_isolation a)),
      (''streaming_profile'', JStr (ba_streaming_profile a)),
      (''streaming_payload_bytes'', JInt (ba_streaming_payload_bytes a)),
      (''streaming_server_write_bytes'', JInt (ba_streaming_server_write_bytes a)),
      (''streaming_server_delay_s'', JFloat (ba_streaming_server_delay_s a)),
      (''streaming_read_bytes'', optional_json JInt (ba_streaming_read_bytes a)),
      (''streaming_consumer_delay_s'', JFloat (ba_streaming_consumer_delay_s a)),
      (''streaming_instrumentation'', JStr (ba_streaming_instrumentation a)),
      (''streaming_profiler_label'', optional_json JStr (ba_streaming_profiler_label a)),
      (''streaming_profiler'', JStr (ba_streaming_profiler a)),
      (''streaming_perf_sample_frequency_hz'', JInt (ba_streaming_perf_sample_frequency_hz a)),
      (''streaming_chunk_sample_cap'', JInt (ba_streaming_chunk_sample_cap a)),
      (''streaming_minimum_duration_s'', JFloat (ba_streaming_minimum_duration_s a)),
      (''streaming_max_window_streams'', JInt (ba_streaming_max_window_streams a)),
      (''streaming_server_observations'', JBool (ba_streaming_server_observations a))]"

text \<open>The first child that records a key gives it to the merged metadata.\<close>

definition inherit_key :: "obj list \<Rightarrow> obj \<Rightarrow> string \<Rightarrow> obj" where
  "inherit_key child_payloads metadata key =
     (case find (\<lambda>payload. has_key (report_metadata payload) key) child_payloads of
        None \<Rightarrow> metadata
      | Some payload \<Rightarrow> AList.update key (get (report_metadata payload) key) metadata)"

definition first_metadata :: "obj list \<Rightarrow> obj" where
  "first_metadata child_payloads = (case child_payloads of [] \<Rightarrow> [] | p # ps \<Rightarrow> report_metadata p)"

definition isolation_record :: "BenchmarkArgs \<Rightarrow> ChildProcessResult list \<Rightarrow> obj list \<Rightarrow> pyfloat \<Rightarrow> obj" where
  "isolation_record args child_results child_payloads child_cooldown_s =
     [(''mode'', JStr (ba_isolation args)), (''backend'', JStr ''subprocess''), (''scheduler'', JStr ''sequential''),
      (''unit'', JStr (isolation_unit args)), (''child_cooldown_s'', JFloat child_cooldown_s),
      (''child_count'', JInt (int (length child_results))),
      (''children'', JList (map JObj (child_diagnostics child_results child_payloads)))]"

definition base_metadata ::
  "report_environment \<Rightarrow> BenchmarkArgs \<Rightarrow> ChildProcessResult list \<Rightarrow> obj list \<Rightarrow> (string \<times> string) list \<Rightarrow>
   pyfloat \<Rightarrow> obj"
where
  "base_metadata env args child_results child_payloads skipped child_cooldown_s =
     (let first = first_metadata child_payloads
      in [(''timestamp'', JStr (re_timestamp env)), (''python'', JStr (re_python env)),
          (''platform'', JStr (re_platform env)),
          (''server'', get_default first ''server'' (JStr ''isolated child benchmark processes'')),
          (''suite'', JStr (ba_suite args)), (''args'', JObj (args_json args)),
          (''package_versions'', (case get first ''package_versions'' of JObj v \<Rightarrow> JObj v | _ \<Rightarrow> JObj (re_package_versions env))),
          (''skipped'', JObj (map (\<lambda>(key, v). (key, JStr v)) skipped)),
          (''isolation'', JObj (isolation_record args child_results child_payloads child_cooldown_s))])"

definition build_metadata ::
  "report_environment \<Rightarrow> BenchmarkArgs \<Rightarrow> ChildProcessResult list \<Rightarrow> obj list \<Rightarrow> (string \<times> string) list \<Rightarrow>
   pyfloat \<Rightarrow> obj result"
where
  "build_metadata env args child_results child_payloads skipped child_cooldown_s =
     (let base = base_metadata env args child_results child_payloads skipped child_cooldown_s
      in bindE (if child_payloads = [] then Inr base
                else bindE (merged_timing_scope (ba_suite args) child_payloads) (\<lambda>scope.
                  let scoped = AList.update ''timing_scope'' (JStr scope) base
                  in Inr (if list_all (\<lambda>payload. py_eq (get (report_metadata payload) ''resource_metric_schema_version'')
                                (JInt RESOURCE_METRIC_SCHEMA_VERSION)) child_payloads
                          then AList.update ''resource_metric_schema_version'' (JInt RESOURCE_METRIC_SCHEMA_VERSION) scoped
                          else scoped))) (\<lambda>metadata.
           let inherited = foldl (inherit_key child_payloads) metadata [''package_sources'', ''research_provenance'']
           in Inr (case get (first_metadata child_payloads) ''run_settling'' of
                JObj settling \<Rightarrow> AList.update ''run_settling'' (JObj settling) inherited
              | _ \<Rightarrow> inherited)))"

subsection \<open>The merged report\<close>

definition child_validity :: "(string \<Rightarrow> string) \<Rightarrow> string \<Rightarrow> obj \<Rightarrow> validity_summary result" where
  "child_validity sha256 suite payload =
     bindE (merge_payload_lists [payload] ''aggregate'') (\<lambda>rows.
       validity_summary_from_metadata sha256 (report_metadata payload) suite rows)"

definition write_isolation_report ::
  "(string \<Rightarrow> string) \<Rightarrow> (string \<Rightarrow> string option \<Rightarrow> decoded_report result) \<Rightarrow> report_environment \<Rightarrow> BenchmarkArgs \<Rightarrow>
   ChildProcessResult list \<Rightarrow> (string \<times> string) list \<Rightarrow> pyfloat \<Rightarrow> finalizer \<Rightarrow> obj result"
where
  "write_isolation_report sha256 load env args child_results skipped child_cooldown_s finalizer =
     bindE (load_successful_child_payloads load child_results (ba_suite args)) (\<lambda>child_payloads.
     bindE (build_metadata env args child_results child_payloads (merge_skipped skipped child_payloads)
         child_cooldown_s) (\<lambda>metadata.
     bindE (merge_payload_lists child_payloads ''aggregate'') (\<lambda>aggregate_rows.
     bindE (merge_payload_lists child_payloads ''runs'') (\<lambda>run_rows.
     bindE (mapE (child_validity sha256 (ba_suite args)) child_payloads) (\<lambda>child_validities.
     bindE (finalize_merged_data (ba_suite args) metadata aggregate_rows (map report_metadata child_payloads)
         finalizer) (\<lambda>finalized.
       let aggregate_rows = ms_aggregate_rows finalized;
           metadata = dict_update metadata (ms_metadata finalized)
       in bindE (decode_report_payload
            (JObj [(''metadata'', JObj metadata), (''aggregate'', JList (map JObj aggregate_rows)),
               (''runs'', JList (map JObj run_rows))]) (Some (ba_suite args))) (\<lambda>_.
          bindE (metadata_with_validity sha256 (re_provenance env) metadata aggregate_rows) (\<lambda>metadata.
          bindE (validity_summary_from_payload (object_value (get metadata ''validity''))) (\<lambda>current.
            let metadata = AList.update ''validity''
                  (JObj (validity_payload (combine_validity_summaries (current # child_validities)))) metadata
            in Inr [(''metadata'', JObj metadata), (''aggregate'', JList (map JObj aggregate_rows)),
                 (''runs'', JList (map JObj run_rows))])))))))))"

subsection \<open>What is merged\<close>

lemma report_payload_reads [simp]:
  "report_metadata (report_payload r) = dr_metadata r"
  "payload_list ''aggregate'' (report_payload r) = Inr (dr_aggregate_rows r)"
  "payload_list ''runs'' (report_payload r) = Inr (dr_run_rows r)"
  by (simp_all add: report_metadata_def report_payload_def payload_list_def get_def mapE_map payload_item_def)
    (simp_all add: mapE_Inr [where g = id])

lemma merge_reports [simp]:
  "merge_payload_lists (map report_payload reports) ''aggregate'' = Inr (concat (map dr_aggregate_rows reports))"
  "merge_payload_lists (map report_payload reports) ''runs'' = Inr (concat (map dr_run_rows reports))"
  "merge_payload_lists [report_payload r] ''aggregate'' = Inr (dr_aggregate_rows r)"
  "merge_payload_lists [report_payload r] ''runs'' = Inr (dr_run_rows r)"
  by (simp_all add: merge_payload_lists_def mapE_map mapE_Inr [where g = dr_aggregate_rows]
      mapE_Inr [where g = dr_run_rows])

lemma child_validity_reports:
  "mapE (child_validity sha256 suite) (map report_payload reports) =
     mapE (\<lambda>r. validity_summary_from_metadata sha256 (dr_metadata r) suite (dr_aggregate_rows r)) reports"
  by (simp add: mapE_map child_validity_def)

lemma finalize_ok:
  assumes "finalize_merged_data suite metadata rows children finalizer = Inr finalized"
  obtains ids where "mapE (aggregate_identity suite) rows = Inr ids" "distinct ids"
    "mapE (aggregate_identity suite) (ms_aggregate_rows finalized) = Inr ids"
    "finalizer rows children = Inr finalized"
    "fst ` set (ms_metadata finalized) \<inter> (fst ` set metadata \<union> set COMMON_METADATA) = {}"
proof -
  from assms obtain ids where ids: "mapE (aggregate_identity suite) rows = Inr ids"
      "mapE (aggregate_identity suite) (ms_aggregate_rows finalized) = Inr ids"
      "finalizer rows children = Inr finalized"
      and unique: "validate_unique_aggregate_rows suite (ms_aggregate_rows finalized) None = Inr ()"
      and none: "sort (filter (\<lambda>key. key \<in> set (map fst metadata @ COMMON_METADATA))
        (map fst (ms_metadata finalized))) = []"
    by (auto simp: finalize_merged_data_def bindE_ok raise_if_def simp del: filter.simps split: if_splits)
  from none have "filter (\<lambda>key. key \<in> set (map fst metadata @ COMMON_METADATA)) (map fst (ms_metadata finalized)) = []"
    by (metis length_0_conv length_sort)
  then have "fst ` set (ms_metadata finalized) \<inter> (fst ` set metadata \<union> set COMMON_METADATA) = {}"
    by (auto simp: filter_empty_conv)
  with that ids unique show ?thesis by (auto simp: unique_rows_exact)
qed

lemma write_steps:
  assumes "write_isolation_report sha256 load env args child_results skipped cooldown finalizer = Inr payload"
  obtains reports metadata finalized published current children where
    "mapE (\<lambda>r. load (report_path r) (Some (ba_suite args))) (filter succeeded child_results) = Inr reports"
    "build_metadata env args child_results (map report_payload reports)
       (merge_skipped skipped (map report_payload reports)) cooldown = Inr metadata"
    "mapE (\<lambda>r. validity_summary_from_metadata sha256 (dr_metadata r) (ba_suite args) (dr_aggregate_rows r)) reports
       = Inr children"
    "finalize_merged_data (ba_suite args) metadata (concat (map dr_aggregate_rows reports)) (map dr_metadata reports)
       finalizer = Inr finalized"
    "\<exists>r. decode_report_payload (JObj [(''metadata'', JObj (dict_update metadata (ms_metadata finalized))),
       (''aggregate'', JList (map JObj (ms_aggregate_rows finalized))),
       (''runs'', JList (map JObj (concat (map dr_run_rows reports))))]) (Some (ba_suite args)) = Inr r"
    "metadata_with_validity sha256 (re_provenance env) (dict_update metadata (ms_metadata finalized))
       (ms_aggregate_rows finalized) = Inr published"
    "validity_summary_from_payload (object_value (get published ''validity'')) = Inr current"
    "payload = [(''metadata'', JObj (AList.update ''validity''
         (JObj (validity_payload (combine_validity_summaries (current # children)))) published)),
       (''aggregate'', JList (map JObj (ms_aggregate_rows finalized))),
       (''runs'', JList (map JObj (concat (map dr_run_rows reports))))]"
proof -
  from assms obtain payloads metadata rows runs children finalized published current where
    w: "load_successful_child_payloads load child_results (ba_suite args) = Inr payloads"
      "build_metadata env args child_results payloads (merge_skipped skipped payloads) cooldown = Inr metadata"
      "merge_payload_lists payloads ''aggregate'' = Inr rows" "merge_payload_lists payloads ''runs'' = Inr runs"
      "mapE (child_validity sha256 (ba_suite args)) payloads = Inr children"
      "finalize_merged_data (ba_suite args) metadata rows (map report_metadata payloads) finalizer = Inr finalized"
      "\<exists>r. decode_report_payload (JObj [(''metadata'', JObj (dict_update metadata (ms_metadata finalized))),
         (''aggregate'', JList (map JObj (ms_aggregate_rows finalized))), (''runs'', JList (map JObj runs))])
         (Some (ba_suite args)) = Inr r"
      "metadata_with_validity sha256 (re_provenance env) (dict_update metadata (ms_metadata finalized))
         (ms_aggregate_rows finalized) = Inr published"
      "validity_summary_from_payload (object_value (get published ''validity'')) = Inr current"
      "payload = [(''metadata'', JObj (AList.update ''validity''
           (JObj (validity_payload (combine_validity_summaries (current # children)))) published)),
         (''aggregate'', JList (map JObj (ms_aggregate_rows finalized))), (''runs'', JList (map JObj runs))]"
    unfolding write_isolation_report_def Let_def bindE_ok by blast
  from w(1) obtain reports where reports:
      "mapE (\<lambda>r. load (report_path r) (Some (ba_suite args))) (filter succeeded child_results) = Inr reports"
      "payloads = map report_payload reports"
    by (auto simp: load_successful_child_payloads_def Let_def bindE_ok)
  have lists: "rows = concat (map dr_aggregate_rows reports)" "runs = concat (map dr_run_rows reports)"
    using w(3,4) by (simp_all add: reports(2))
  have "map report_metadata payloads = map dr_metadata reports" by (simp add: reports(2) comp_def)
  with w reports show thesis
    by (intro that [of reports metadata children finalized published current])
      (simp_all only: lists child_validity_reports)
qed

subsection \<open>A failed child is never overlooked\<close>

lemma failed_child_listed:
  assumes "r \<in> set rs" "\<not> succeeded r" "length payloads = length (filter succeeded rs)"
  shows "child_result_payload r \<in> set (child_diagnostics rs payloads)"
  using assms
proof (induction rs payloads rule: child_diagnostics.induct)
  case (2 a rs payloads)
  then show ?case by (cases payloads) (auto split: if_splits)
qed simp

lemma combined_upper: "s \<in> set ss \<Longrightarrow> s \<le> combined_status ss"
  by (simp add: less_eq_validity_status_def status_order.combine_upper)

lemma invalid_child:
  assumes "child_process_reasons metadata = Inr reasons"
    and "get metadata ''isolation'' = JObj isolation" "get isolation ''children'' = JList (map JObj children)"
    and "child_result_payload r \<in> set children" "\<not> succeeded r"
  shows "Invalid \<in> vr_status ` set reasons"
proof -
  from assms(1-3) obtain found where found: "mapE (child_reasons metadata) (map JObj children) = Inr found"
      and reasons: "reasons = concat found"
    by (auto simp: child_process_reasons_def bindE_ok)
  from assms(4) obtain one where one: "one \<in> set found"
      "child_reasons metadata (JObj (child_result_payload r)) = Inr one"
    using mapE_member [OF found, of "JObj (child_result_payload r)"] by auto
  have "int_field (child_result_payload r) ''returncode'' = Inr (cr_returncode r)"
    by (simp add: int_field_def child_result_payload_def get_default_def)
  moreover have "cr_returncode r \<noteq> 0 \<or> get (child_result_payload r) ''report_path'' = JNull"
    using assms(5) by (simp add: succeeded_def child_result_payload_def get_def optional_json_def)
  ultimately obtain reference where "one = [make_reason Invalid ''isolated_child_failed''
      ''Isolated child process failed or did not write a report.'' reference]"
    using one(2) by (auto simp: child_reasons_def bindE_ok)
  with one(1) show ?thesis by (force simp: reasons make_reason_def)
qed

lemma inherit_other: "k \<noteq> key \<Longrightarrow> get (inherit_key payloads m key) k = get m k"
  by (simp add: inherit_key_def split: option.splits)

lemma build_metadata_other:
  assumes "build_metadata env args results payloads skipped cooldown = Inr metadata"
    and "k \<notin> set COMMON_METADATA"
  shows "get metadata k = get (base_metadata env args results payloads skipped cooldown) k"
proof -
  let ?base = "base_metadata env args results payloads skipped cooldown"
  from assms(1) obtain scoped where scoped: "payloads = [] \<and> scoped = ?base \<or>
      (\<exists>scope. scoped = AList.update ''timing_scope'' (JStr scope) ?base \<or>
        scoped = AList.update ''resource_metric_schema_version'' (JInt RESOURCE_METRIC_SCHEMA_VERSION)
          (AList.update ''timing_scope'' (JStr scope) ?base))"
    and metadata: "metadata = (case get (first_metadata payloads) ''run_settling'' of
        JObj settling \<Rightarrow> AList.update ''run_settling'' (JObj settling)
          (foldl (inherit_key payloads) scoped [''package_sources'', ''research_provenance''])
      | _ \<Rightarrow> foldl (inherit_key payloads) scoped [''package_sources'', ''research_provenance''])"
    unfolding build_metadata_def Let_def bindE_ok by (auto simp only: bindE_ok sum.inject split: if_splits)
  from scoped assms(2) have "get scoped k = get ?base k"
    by (elim disjE conjE exE) (simp_all add: COMMON_METADATA_def)
  with assms(2) show ?thesis
    by (simp add: metadata COMMON_METADATA_def inherit_other split: json.split)
qed

lemma base_isolation:
  assumes "build_metadata env args results payloads skipped cooldown = Inr metadata"
  shows "get metadata ''isolation'' = JObj (isolation_record args results payloads cooldown)"
  using build_metadata_other [OF assms, of "''isolation''"]
  by (simp add: COMMON_METADATA_def base_metadata_def get_def Let_def)

lemma get_dict_update_other: "k \<notin> fst ` set e \<Longrightarrow> get (dict_update d e) k = get d k"
  unfolding dict_update_def by (induction e arbitrary: d) auto

lemma classified_above:
  assumes "classify_report_validity sha256 suite rows metadata = Inr s" "child_process_reasons metadata = Inr reasons"
    and "t \<in> vr_status ` set reasons"
  shows "t \<le> vs_status s"
proof -
  from assms(1,2) obtain attribution lifecycle found where
    "vs_status s = combined_status (map vr_status (reasons @ streaming_profile_reasons suite metadata rows @
       attribution @ lifecycle @ concat found))"
    unfolding classify_report_validity_def bindE_ok Let_def sum.inject by (elim exE conjE) auto
  with assms(3) show ?thesis by (auto intro: combined_upper)
qed

lemma published_summary:
  assumes "metadata_with_validity sha256 provenance metadata rows = Inr published"
    and "validity_summary_from_payload (object_value (get published ''validity'')) = Inr current"
  obtains extended suite where "classify_report_validity sha256 suite rows extended = Inr current"
    "published = AList.update ''validity'' (JObj (validity_payload current)) extended"
    "\<And>key. key \<notin> set COMMON_METADATA \<Longrightarrow> get extended key = get metadata key"
proof -
  from assms(1) obtain extended suite s where s: "classify_report_validity sha256 suite rows extended = Inr s"
      and published: "published = AList.update ''validity'' (JObj (validity_payload s)) extended"
      and extended: "extended = (case provenance of
          None \<Rightarrow> AList.update ''report_schema_version'' (JInt REPORT_SCHEMA_VERSION) metadata
        | Some (research, sources) \<Rightarrow> AList.update ''package_sources'' sources (AList.update ''research_provenance'' research
            (AList.update ''report_schema_version'' (JInt REPORT_SCHEMA_VERSION) metadata)))"
    by (auto simp: metadata_with_validity_def Let_def bindE_ok)
  have "get extended key = get metadata key" if "key \<notin> set COMMON_METADATA" for key
    using that by (auto simp: extended COMMON_METADATA_def split: option.splits)
  moreover have "current = s"
    using assms(2) consistent_round_trip [OF classify_consistent [OF s]] by (simp add: published)
  ultimately show thesis using that s published by blast
qed

lemma failed_child_invalid:
  assumes "build_metadata env args child_results (map report_payload reports) skipped cooldown = Inr metadata"
    and "metadata_with_validity sha256 provenance (dict_update metadata suite_metadata) rows = Inr published"
    and "validity_summary_from_payload (object_value (get published ''validity'')) = Inr current"
    and "length reports = length (filter succeeded child_results)"
    and "fst ` set suite_metadata \<inter> (fst ` set metadata \<union> set COMMON_METADATA) = {}"
    and "\<not> list_all succeeded child_results"
  shows "Invalid \<le> vs_status current"
proof -
  from assms(6) obtain r where r: "r \<in> set child_results" "\<not> succeeded r" by (auto simp: list_all_iff)
  from assms(2,3) obtain extended suite where extended: "classify_report_validity sha256 suite rows extended = Inr current"
      "\<And>key. key \<notin> set COMMON_METADATA \<Longrightarrow> get extended key = get (dict_update metadata suite_metadata) key"
    by (rule published_summary) blast
  let ?isolation = "isolation_record args child_results (map report_payload reports) cooldown"
  have "has_key metadata ''isolation''"
    using base_isolation [OF assms(1)] get_not_null_has [of metadata "''isolation''"] by simp
  then have "''isolation'' \<notin> fst ` set suite_metadata"
    using assms(5) by (auto simp: has_key_def map_of_eq_None_iff)
  then have isolation: "get extended ''isolation'' = JObj ?isolation"
    using extended(2) [of "''isolation''"] base_isolation [OF assms(1)]
    by (simp add: get_dict_update_other COMMON_METADATA_def)
  from extended(1) obtain reasons where reasons: "child_process_reasons extended = Inr reasons"
    by (auto simp: classify_report_validity_def bindE_ok)
  have "child_result_payload r \<in> set (child_diagnostics child_results (map report_payload reports))"
    using r assms(4) by (intro failed_child_listed) simp_all
  then have "Invalid \<in> vr_status ` set reasons"
    by (intro invalid_child [OF reasons isolation _ _ r(2)]) (simp_all add: isolation_record_def get_def)
  then show ?thesis by (rule classified_above [OF extended(1) reasons])
qed

lemma combined_reads_back:
  assumes "mapE (\<lambda>r. validity_summary_from_metadata sha256 (f r) suite (g r)) reports = Inr children"
    and "validity_summary_from_payload p = Inr current"
  shows "validity_summary_from_payload (validity_payload (combine_validity_summaries (current # children))) =
    Inr (combine_validity_summaries (current # children))"
proof -
  have "list_all consistent_summary children"
    using mapE_image [OF assms(1)] metadata_consistent by (fastforce simp: list_all_iff)
  then show ?thesis
    using from_payload_consistent [OF assms(2)] by (intro consistent_round_trip combine_consistent) simp
qed

lemma merged_suite:
  assumes "build_metadata env args results payloads skipped cooldown = Inr metadata"
    and "fst ` set suite_metadata \<inter> (fst ` set metadata \<union> set COMMON_METADATA) = {}"
  shows "get (dict_update metadata suite_metadata) ''suite'' = JStr (ba_suite args)"
proof -
  have "get metadata ''suite'' = JStr (ba_suite args)"
    using build_metadata_other [OF assms(1), of "''suite''"]
    by (simp add: COMMON_METADATA_def base_metadata_def get_def Let_def)
  then show ?thesis
    using assms(2) get_not_null_has [of metadata "''suite''"]
    by (subst get_dict_update_other) (auto simp: has_key_def map_of_eq_None_iff)
qed

text \<open>
  C1: a merged report keeps what its children reported and overlooks no failure: its rows have the
  identities of the rows of the successful children, in their order and without a repetition, its runs are
  theirs; its validity reads back from the payload, is at least as severe as the validity of every child,
  valid or comparable only if every child is, and invalid as soon as one child failed.\<close>

theorem merged_report_sound:
  assumes "write_isolation_report sha256 load env args child_results skipped cooldown finalizer = Inr payload"
  shows "\<exists>reports children metadata rows ids validity s.
    mapE (\<lambda>r. load (report_path r) (Some (ba_suite args))) (filter succeeded child_results) = Inr reports \<and>
    mapE (\<lambda>r. validity_summary_from_metadata sha256 (dr_metadata r) (ba_suite args) (dr_aggregate_rows r)) reports
      = Inr children \<and>
    payload = [(''metadata'', JObj metadata), (''aggregate'', JList (map JObj rows)),
      (''runs'', JList (map JObj (concat (map dr_run_rows reports))))] \<and>
    mapE (aggregate_identity (ba_suite args)) (concat (map dr_aggregate_rows reports)) = Inr ids \<and>
    mapE (aggregate_identity (ba_suite args)) rows = Inr ids \<and> distinct ids \<and>
    get metadata ''validity'' = JObj validity \<and> validity_summary_from_payload validity = Inr s \<and>
    list_all (\<lambda>c. vs_status c \<le> vs_status s \<and> (vs_can_compare s \<longrightarrow> vs_can_compare c) \<and>
      (vs_is_valid s \<longrightarrow> vs_is_valid c)) children \<and>
    (list_all succeeded child_results \<or> vs_status s = Invalid)"
proof -
  from assms obtain reports metadata finalized published current children where
    w: "mapE (\<lambda>r. load (report_path r) (Some (ba_suite args))) (filter succeeded child_results) = Inr reports"
      "build_metadata env args child_results (map report_payload reports)
         (merge_skipped skipped (map report_payload reports)) cooldown = Inr metadata"
      "mapE (\<lambda>r. validity_summary_from_metadata sha256 (dr_metadata r) (ba_suite args) (dr_aggregate_rows r)) reports
         = Inr children"
      "finalize_merged_data (ba_suite args) metadata (concat (map dr_aggregate_rows reports)) (map dr_metadata reports)
         finalizer = Inr finalized"
      "metadata_with_validity sha256 (re_provenance env) (dict_update metadata (ms_metadata finalized))
         (ms_aggregate_rows finalized) = Inr published"
      "validity_summary_from_payload (object_value (get published ''validity'')) = Inr current"
    and payload: "payload = [(''metadata'', JObj (AList.update ''validity''
         (JObj (validity_payload (combine_validity_summaries (current # children)))) published)),
       (''aggregate'', JList (map JObj (ms_aggregate_rows finalized))),
       (''runs'', JList (map JObj (concat (map dr_run_rows reports))))]"
    by (rule write_steps)
  from w(4) obtain ids where ids: "mapE (aggregate_identity (ba_suite args)) (concat (map dr_aggregate_rows reports)) = Inr ids"
      "distinct ids" "mapE (aggregate_identity (ba_suite args)) (ms_aggregate_rows finalized) = Inr ids"
      and fresh: "fst ` set (ms_metadata finalized) \<inter> (fst ` set metadata \<union> set COMMON_METADATA) = {}"
    by (rule finalize_ok)
  let ?s = "combine_validity_summaries (current # children)"
  have above: "vs_status c \<le> vs_status ?s \<and> (vs_can_compare ?s \<longrightarrow> vs_can_compare c) \<and> (vs_is_valid ?s \<longrightarrow> vs_is_valid c)"
    if "c \<in> set (current # children)" for c
    using combine_bounds [OF that] by blast
  have "vs_status ?s = Invalid" if "\<not> list_all succeeded child_results"
  proof -
    have "Invalid \<le> vs_status current"
      by (rule failed_child_invalid [OF w(2,5,6) mapE_length [OF w(1)] fresh that])
    then have "Invalid \<le> vs_status ?s" using above [of current] by (meson list.set_intros(1) order_trans)
    then show ?thesis by (cases "vs_status ?s") (simp_all add: less_eq_validity_status_def)
  qed
  then show ?thesis
    using w(1,3) ids combined_reads_back [OF w(3,6)] above
    by (intro exI [of _ reports] exI [of _ children] exI [of _ ids] exI [of _ ?s]
        exI [of _ "validity_payload ?s"] exI [of _ "ms_aggregate_rows finalized"]
        exI [of _ "AList.update ''validity'' (JObj (validity_payload ?s)) published"])
      (auto simp: payload list_all_iff)
qed

definition plain_child :: "int \<Rightarrow> string option \<Rightarrow> int \<Rightarrow> ChildProcessResult" where
  "plain_child sequence path returncode =
     \<lparr>cr_sequence = sequence, cr_client = ''foghttp'', cr_scenario = Some ''get'', cr_output_dir = ''out'',
      cr_report_path = path, cr_command = [''python''], cr_returncode = returncode, cr_duration_s = Fin 1,
      cr_peaks = \<lparr>cp_rss_mb = None, cp_threads = Some 3, cp_fds = None\<rparr>, cr_stdout_tail = [], cr_stderr_tail = []\<rparr>"

definition plain_environment :: report_environment where
  "plain_environment =
     \<lparr>re_timestamp = ''20250101-000000'', re_python = ''3.13'', re_platform = ''linux'', re_package_versions = [],
      re_provenance = None\<rparr>"

definition child_row :: obj where
  "child_row = sample_row ''a'' @
     [(''repeats'', JInt 1), (''requests'', JInt 4), (''errors_total'', JInt 0), (''warmup_errors_total'', JInt 0),
      (''ok_req_s_median'', JFloat (Fin 12))]"

definition child_document :: json where
  "child_document =
     JObj [(''metadata'', JObj [(''suite'', JStr ''requests''),
         (''report_schema_version'', JInt REPORT_SCHEMA_VERSION), (''timing_scope'', JStr (scope_value REQUESTS))]),
       (''aggregate'', JList [JObj child_row]), (''runs'', JList [])]"

definition plain_merge :: "obj result" where
  "plain_merge =
     write_isolation_report id (load_report (\<lambda>_. Inr child_document) (\<lambda>_ _ _. Inr JNull)) plain_environment plain_args
       [plain_child 1 (Some ''a.json'') 0, plain_child 2 None 1] [] (Fin 3) preserve_merged_report"

lemma plain_merge_written:
  "case plain_merge of
     Inl _ \<Rightarrow> False
   | Inr payload \<Rightarrow> json_finite (JObj payload) \<and> get payload ''aggregate'' = JList [JObj child_row] \<and>
       get payload ''runs'' = JList []"
  by code_simp

lemma merged_report_sound_witness:
  "\<exists>payload metadata validity s. plain_merge = Inr payload \<and> get payload ''metadata'' = JObj metadata \<and>
     get metadata ''validity'' = JObj validity \<and> validity_summary_from_payload validity = Inr s \<and>
     vs_status s = Invalid"
proof -
  from plain_merge_written obtain payload where payload: "plain_merge = Inr payload"
    by (auto split: sum.splits)
  have "\<not> succeeded (plain_child 2 None 1)" by (simp add: succeeded_def plain_child_def)
  with merged_report_sound [OF payload [unfolded plain_merge_def]] payload show ?thesis by (force simp: get_def)
qed

subsection \<open>The merged report reads back\<close>

text \<open>Publishing adds these keys to the metadata and leaves the others as they were.\<close>

definition PUBLISHED_KEYS :: "string list" where
  "PUBLISHED_KEYS = [''validity'', ''report_schema_version'', ''research_provenance'', ''package_sources'']"

definition same_metadata :: "obj \<Rightarrow> obj \<Rightarrow> bool" where
  "same_metadata d e \<longleftrightarrow> (\<forall>key. key \<notin> set PUBLISHED_KEYS \<longrightarrow> map_of d key = map_of e key)"

lemma same_reads:
  assumes "same_metadata d e" "key \<notin> set PUBLISHED_KEYS"
  shows "get d key = get e key" "has_key d key = has_key e key" "get_default d key v = get_default e key v"
  using assms by (simp_all add: same_metadata_def get_def has_key_def get_default_def)

lemma same_envelope:
  assumes "same_metadata d e"
  shows "research_envelope_profile d rows = research_envelope_profile e rows"
    and "uses_streaming_profile d rows profile = uses_streaming_profile e rows profile"
    and "is_research suite d rows = is_research suite e rows"
proof -
  have "async_bytes_envelope d = async_bytes_envelope e"
    by (simp add: async_bytes_envelope_def same_reads [OF assms] PUBLISHED_KEYS_def)
  then show envelope: "research_envelope_profile d rows = research_envelope_profile e rows" for rows
    by (simp add: research_envelope_profile_def same_reads [OF assms] PUBLISHED_KEYS_def)
  then show uses: "uses_streaming_profile d rows profile = uses_streaming_profile e rows profile" for rows profile
    by (simp add: uses_streaming_profile_def same_reads [OF assms] PUBLISHED_KEYS_def)
  show "is_research suite d rows = is_research suite e rows"
    by (simp add: is_research_def uses)
qed

lemma same_validated:
  assumes same: "same_metadata d e" and "validate_metadata e suite = Inr ()"
    and version: "get d ''report_schema_version'' = JInt REPORT_SCHEMA_VERSION"
    and sources: "has_key d ''package_sources'' \<longrightarrow> is_dict (get d ''package_sources'') \<or>
      get d ''package_sources'' = get e ''package_sources'' \<and> has_key e ''package_sources''"
  shows "validate_metadata d suite = Inr ()"
proof -
  note reads = same_reads [OF same] same_envelope(2) [OF same]
  from assms(2) have e: "validate_versions e suite = Inr ()" "validate_metadata_objects e = Inr ()"
      "bindE (require_object (get_default e ''args'' (JObj [])) ''metadata.args'') (\<lambda>args.
        raise_if (has_key args ''suite'' \<and> get args ''suite'' \<noteq> JStr suite)
          (ValueError ''metadata.args.suite disagrees with metadata.suite'')) = Inr ()"
      "raise_if (suite \<noteq> ''response-streaming'' \<and> has_key e ''profile'')
        (ValueError ''metadata.profile is reserved for response-streaming reports'') = Inr ()"
    by (simp_all add: validate_metadata_def bindE_unit_ok)
  have metric: "validate_metric_version d suite ks = validate_metric_version e suite ks"
    if "fst ks \<notin> set PUBLISHED_KEYS" for ks
    using that by (simp add: validate_metric_version_def reads)
  have "validate_versions d suite = Inr ()"
    using e(1) version unfolding validate_versions_def
    by (simp add: bindE_unit_ok metric PUBLISHED_KEYS_def reads require_integer_JInt REPORT_SCHEMA_VERSION_def)
  moreover have "validate_metadata_objects d = Inr ()"
  proof -
    let ?text = "\<lambda>m key. check (require_string (get m key) (field_path ''metadata'' key))"
    let ?object = "\<lambda>m key. bindE (require_object (get m key) (field_path ''metadata'' key)) (\<lambda>entries.
        if key = ''package_versions''
        then forE (\<lambda>kv. check (require_string (snd kv) (field_path ''metadata.package_versions'' (fst kv)))) entries
        else Inr ())"
    have same: "when_present d (?text d) key = when_present e (?text e) key"
        "when_present d (?object d) key = when_present e (?object e) key" if "key \<notin> set PUBLISHED_KEYS" for key
      using that by (simp_all add: when_present_def reads)
    from e(2) have "when_present e (?object e) ''package_sources'' = Inr ()"
      by (simp add: validate_metadata_objects_def bindE_unit_ok)
    then have "when_present d (?object d) ''package_sources'' = Inr ()"
      using sources by (cases "get d ''package_sources''") (auto simp: when_present_def)
    then show ?thesis
      using e(2) unfolding validate_metadata_objects_def
      by (simp add: bindE_unit_ok same PUBLISHED_KEYS_def)
  qed
  ultimately show ?thesis
    using e(3,4) by (simp add: validate_metadata_def bindE_unit_ok reads PUBLISHED_KEYS_def)
qed

lemma same_rows:
  assumes "same_metadata d e"
  shows "validate_rows suite d rows runs = validate_rows suite e rows runs"
    "validate_isolation_metadata d = validate_isolation_metadata e"
  by (simp_all add: validate_rows_def validate_isolation_metadata_def same_reads [OF assms] same_envelope [OF assms]
      PUBLISHED_KEYS_def)

lemma published_metadata:
  assumes "metadata_with_validity sha256 provenance metadata rows = Inr published"
    and "pred_option (\<lambda>p. is_dict (snd p)) provenance"
  shows "same_metadata published metadata"
    and "get published ''report_schema_version'' = JInt REPORT_SCHEMA_VERSION"
    and "has_key published ''package_sources'' \<longrightarrow> is_dict (get published ''package_sources'') \<or>
      get published ''package_sources'' = get metadata ''package_sources'' \<and> has_key metadata ''package_sources''"
proof -
  from assms(1) obtain v where published: "published = AList.update ''validity'' v (case provenance of
          None \<Rightarrow> AList.update ''report_schema_version'' (JInt REPORT_SCHEMA_VERSION) metadata
        | Some (research, sources) \<Rightarrow> AList.update ''package_sources'' sources (AList.update ''research_provenance'' research
            (AList.update ''report_schema_version'' (JInt REPORT_SCHEMA_VERSION) metadata)))"
    by (auto simp: metadata_with_validity_def Let_def bindE_ok)
  show "same_metadata published metadata"
    by (cases provenance) (auto simp: published same_metadata_def PUBLISHED_KEYS_def update_conv')
  show "get published ''report_schema_version'' = JInt REPORT_SCHEMA_VERSION"
    by (cases provenance) (auto simp: published)
  show "has_key published ''package_sources'' \<longrightarrow> is_dict (get published ''package_sources'') \<or>
      get published ''package_sources'' = get metadata ''package_sources'' \<and> has_key metadata ''package_sources''"
    using assms(2) by (cases provenance) (auto simp: published has_key_def update_conv')
qed

lemma decode_published:
  assumes "decode_report_payload (JObj [(''metadata'', JObj metadata), (''aggregate'', JList (map JObj rows)),
      (''runs'', JList (map JObj runs))]) (Some suite) = Inr r"
    and current: "migrate_report suite [] rows runs = Inr (rows, runs)"
    and same: "same_metadata published metadata"
    and version: "get published ''report_schema_version'' = JInt REPORT_SCHEMA_VERSION"
    and sources: "has_key published ''package_sources'' \<longrightarrow> is_dict (get published ''package_sources'') \<or>
      get published ''package_sources'' = get metadata ''package_sources'' \<and> has_key metadata ''package_sources''"
    and suite: "get metadata ''suite'' = JStr suite"
    and validity: "validate_recorded published = Inr ()"
    and finite: "json_finite (JObj [(''metadata'', JObj published), (''aggregate'', JList (map JObj rows)),
      (''runs'', JList (map JObj runs))])"
  shows "decode_report_payload (JObj [(''metadata'', JObj published), (''aggregate'', JList (map JObj rows)),
      (''runs'', JList (map JObj runs))]) (Some suite) =
    Inr \<lparr>dr_suite = suite, dr_metadata = published, dr_aggregate_rows = rows, dr_run_rows = runs\<rparr>"
proof -
  have gets: "get [(''metadata'', a), (''aggregate'', b), (''runs'', c)] ''metadata'' = a"
      "get [(''metadata'', a), (''aggregate'', b), (''runs'', c)] ''aggregate'' = b"
      "get [(''metadata'', a), (''aggregate'', b), (''runs'', c)] ''runs'' = c" for a b c
    by (simp_all add: get_def)
  have inject: "map JObj xs = map JObj ys \<Longrightarrow> xs = ys" for xs ys by (simp add: inj_map_eq_map inj_def)
  have keep: "get d ''suite'' = JStr suite \<Longrightarrow> AList.update ''suite'' (JStr suite) d = d" for d
    by (rule update_triv) (simp add: get_def split: option.splits)
  from assms(1) obtain payload metadata0 rows0 runs0 where
    p: "JObj [(''metadata'', JObj metadata), (''aggregate'', JList (map JObj rows)), (''runs'', JList (map JObj runs))]
        = JObj payload" "get payload ''metadata'' = JObj metadata0"
      "get payload ''aggregate'' = JList (map JObj rows0)" "get payload ''runs'' = JList (map JObj runs0)"
    and d: "report_suite metadata0 rows0 = Inr (dr_suite r)"
      "dr_metadata r = AList.update ''suite'' (JStr (dr_suite r)) metadata0"
      "Some suite = None \<or> Some suite = Some (dr_suite r)"
      "validate_metadata (dr_metadata r) (dr_suite r) = Inr ()" "validate_isolation_metadata (dr_metadata r) = Inr ()"
      "migrate_report (dr_suite r) (dr_metadata r) rows0 runs0 = Inr (dr_aggregate_rows r, dr_run_rows r)"
      "validate_rows (dr_suite r) (dr_metadata r) (dr_aggregate_rows r) (dr_run_rows r) = Inr ()"
      "validate_unique_aggregate_rows (dr_suite r) (dr_aggregate_rows r) None = Inr ()"
    by (rule decode_steps)
  have parts: "metadata0 = metadata" "rows0 = rows" "runs0 = runs"
    using p(2-4) p(1) [symmetric] by (simp_all add: gets inject)
  have suite_r: "dr_suite r = suite" using d(3) by simp
  have "dr_metadata r = metadata" using d(2) keep [OF suite] by (simp only: parts suite_r)
  note d = d(1,4-8) [unfolded parts suite_r this]
  have migrated: "dr_aggregate_rows r = rows" "dr_run_rows r = runs"
    using d(4) current by (auto simp: migrate_report_def has_key_def split: if_splits)
  have own: "get published ''suite'' = JStr suite" "has_key published ''suite''" "has_key published ''report_schema_version''"
    using same_reads(1) [OF same, of "''suite''"] suite version get_not_null_has [of published]
    by (auto simp: PUBLISHED_KEYS_def)
  have "report_suite published rows = Inr suite"
    by (rule report_suite_declared [OF report_suite_in [OF d(1)] own(1,2)])
  moreover have "validate_metadata published suite = Inr ()" by (rule same_validated [OF same d(2) version sources])
  moreover have "validate_finite_json (JObj [(''metadata'', JObj published), (''aggregate'', JList (map JObj rows)),
      (''runs'', JList (map JObj runs))]) path = Inr ()" for path
    using finite by (simp only: validate_finite_json_ok)
  moreover have "require_rows (JList (map JObj xs)) path = Inr xs" for xs path by (simp only: require_rows_ok)
  ultimately show ?thesis
    using d(3,5,6) own unfolding decode_report_payload_def require_object.simps bindE_simps Let_def gets
    by (simp add: keep same_rows [OF same] migrated validity migrate_report_def del: validate_finite_json.simps)
qed

text \<open>
  C2: the published merge is a report again: when the rows are of the current layout, the provenance of
  the environment records its sources as an object and no reason carries a non-finite number, reading the
  payload back is accepted for the suite and gives the very metadata, rows and runs that were published.\<close>

theorem merged_report_readable:
  assumes "write_isolation_report sha256 load env args child_results skipped cooldown finalizer =
      Inr [(''metadata'', JObj metadata), (''aggregate'', JList (map JObj rows)), (''runs'', JList (map JObj runs))]"
    and "migrate_report (ba_suite args) [] rows runs = Inr (rows, runs)"
    and "pred_option (\<lambda>p. is_dict (snd p)) (re_provenance env)"
    and "json_finite (JObj [(''metadata'', JObj metadata), (''aggregate'', JList (map JObj rows)),
      (''runs'', JList (map JObj runs))])"
  shows "decode_report_payload (JObj [(''metadata'', JObj metadata), (''aggregate'', JList (map JObj rows)),
      (''runs'', JList (map JObj runs))]) (Some (ba_suite args)) =
    Inr \<lparr>dr_suite = ba_suite args, dr_metadata = metadata, dr_aggregate_rows = rows, dr_run_rows = runs\<rparr>"
proof -
  from assms(1) obtain reports built finalized published current children where
    w: "build_metadata env args child_results (map report_payload reports)
         (merge_skipped skipped (map report_payload reports)) cooldown = Inr built"
      "mapE (\<lambda>r. validity_summary_from_metadata sha256 (dr_metadata r) (ba_suite args) (dr_aggregate_rows r)) reports
         = Inr children"
      "finalize_merged_data (ba_suite args) built (concat (map dr_aggregate_rows reports)) (map dr_metadata reports)
         finalizer = Inr finalized"
      "\<exists>r. decode_report_payload (JObj [(''metadata'', JObj (dict_update built (ms_metadata finalized))),
         (''aggregate'', JList (map JObj (ms_aggregate_rows finalized))),
         (''runs'', JList (map JObj (concat (map dr_run_rows reports))))]) (Some (ba_suite args)) = Inr r"
      "metadata_with_validity sha256 (re_provenance env) (dict_update built (ms_metadata finalized))
         (ms_aggregate_rows finalized) = Inr published"
      "validity_summary_from_payload (object_value (get published ''validity'')) = Inr current"
    and payload: "[(''metadata'', JObj metadata), (''aggregate'', JList (map JObj rows)), (''runs'', JList (map JObj runs))]
      = [(''metadata'', JObj (AList.update ''validity''
           (JObj (validity_payload (combine_validity_summaries (current # children)))) published)),
         (''aggregate'', JList (map JObj (ms_aggregate_rows finalized))),
         (''runs'', JList (map JObj (concat (map dr_run_rows reports))))]"
    by (rule write_steps)
  let ?s = "combine_validity_summaries (current # children)"
  have inject: "map JObj xs = map JObj ys \<Longrightarrow> xs = ys" for xs ys by (simp add: inj_map_eq_map inj_def)
  have parts: "rows = ms_aggregate_rows finalized" "runs = concat (map dr_run_rows reports)"
      "metadata = AList.update ''validity'' (JObj (validity_payload ?s)) published"
    using payload by (simp_all add: inject)
  from w(3) obtain ids where "mapE (aggregate_identity (ba_suite args)) (concat (map dr_aggregate_rows reports)) = Inr ids"
      and fresh: "fst ` set (ms_metadata finalized) \<inter> (fst ` set built \<union> set COMMON_METADATA) = {}"
    by (rule finalize_ok)
  have recorded: "validate_recorded metadata = Inr ()"
    using combined_reads_back [OF w(2,6)] by (simp add: validate_recorded_def parts(3) check_def)
  note published = published_metadata [OF w(5) assms(3)]
  have same: "same_metadata metadata (dict_update built (ms_metadata finalized))"
    using published(1) by (simp add: parts(3) same_metadata_def PUBLISHED_KEYS_def update_conv')
  from w(4) obtain r where "decode_report_payload (JObj [(''metadata'', JObj (dict_update built (ms_metadata finalized))),
      (''aggregate'', JList (map JObj rows)), (''runs'', JList (map JObj runs))]) (Some (ba_suite args)) = Inr r"
    unfolding parts(1,2) by blast
  then show ?thesis
    using published(2,3) by (intro decode_published [OF _ assms(2) same _ _ merged_suite [OF w(1) fresh] recorded assms(4)])
      (simp_all add: parts(3))
qed

lemma merged_report_readable_witness:
  "\<exists>metadata. plain_merge = Inr [(''metadata'', JObj metadata), (''aggregate'', JList (map JObj [child_row])),
       (''runs'', JList (map JObj []))] \<and>
     decode_report_payload (JObj [(''metadata'', JObj metadata), (''aggregate'', JList (map JObj [child_row])),
       (''runs'', JList (map JObj []))]) (Some ''requests'') =
     Inr \<lparr>dr_suite = ''requests'', dr_metadata = metadata, dr_aggregate_rows = [child_row], dr_run_rows = []\<rparr>"
proof -
  from plain_merge_written obtain payload where written: "plain_merge = Inr payload" "json_finite (JObj payload)"
      "get payload ''aggregate'' = JList [JObj child_row]" "get payload ''runs'' = JList []"
    by (auto split: sum.splits)
  obtain metadata rows runs where "payload = [(''metadata'', JObj metadata), (''aggregate'', JList (map JObj rows)),
      (''runs'', JList (map JObj runs))]"
    using written(1) unfolding plain_merge_def by (elim write_steps)
  with written(3,4) have payload: "payload = [(''metadata'', JObj metadata), (''aggregate'', JList (map JObj [child_row])),
      (''runs'', JList (map JObj []))]"
    by (simp add: get_def)
  have "ba_suite plain_args = ''requests''" by (simp add: plain_args_def)
  moreover have "migrate_report ''requests'' [] [child_row] [] = Inr ([child_row], [])" by code_simp
  moreover have "pred_option (\<lambda>p. is_dict (snd p)) (re_provenance plain_environment)"
    by (simp add: plain_environment_def)
  ultimately show ?thesis
    using merged_report_readable [OF written(1) [unfolded payload plain_merge_def]] written(1,2)
    unfolding payload by (intro exI [of _ metadata]) simp
qed

subsection \<open>The reader of a merged report finds the published verdict\<close>

lemma published_classified:
  assumes "metadata_with_validity sha256 provenance metadata rows = Inr published"
    and "validity_summary_from_payload (object_value (get published ''validity'')) = Inr current"
    and "get metadata ''suite'' = JStr suite"
  shows "classify_report_validity sha256 suite rows published = Inr current"
proof -
  from assms(1) obtain extended s where
      s: "classify_report_validity sha256 (py_str (get_default extended ''suite'' (JStr ''unknown''))) rows extended = Inr s"
      and published: "published = AList.update ''validity'' (JObj (validity_payload s)) extended"
      and suite: "get_default extended ''suite'' (JStr ''unknown'') = get_default metadata ''suite'' (JStr ''unknown'')"
    by (auto simp: metadata_with_validity_def Let_def bindE_ok get_default_def update_conv' split: option.splits)
  have "get_default metadata ''suite'' (JStr ''unknown'') = JStr suite"
    using assms(3) by (auto simp: get_def get_default_def split: option.splits)
  with s suite have "classify_report_validity sha256 suite rows published = Inr s"
    by (simp add: published classify_ignores_validity)
  moreover have "current = s"
    using assms(2) consistent_round_trip [OF classify_consistent [OF s]] by (simp add: published)
  ultimately show ?thesis by simp
qed

lemma copied_validity:
  "has_key target ''validity'' = False \<Longrightarrow>
   (let d = copy_keys [''package_sources'', ''research_provenance'', ''resource_metric_schema_version'', ''validity'']
      source target
    in has_key d ''validity'' = has_key source ''validity'' \<and>
       (has_key source ''validity'' \<longrightarrow> get d ''validity'' = get source ''validity''))"
  by (auto simp: copy_keys_def Let_def has_key_def update_conv')

lemma diagnostics_validity:
  assumes "d \<in> set (child_diagnostics rs (map report_payload reports))" "has_key d ''validity''"
  shows "\<exists>r \<in> set reports. has_key (dr_metadata r) ''validity'' \<and> get d ''validity'' = get (dr_metadata r) ''validity''"
proof -
  have none: "has_key (child_result_payload r) ''validity'' = False" for r
    by (simp add: child_result_payload_def has_key_def)
  show ?thesis
    using assms
  proof (induction rs arbitrary: reports)
    case (Cons a rs)
    show ?case
    proof (cases "succeeded a")
      case True
      with Cons.prems obtain r rest where reports: "reports = r # rest" by (cases reports) auto
      show ?thesis
        using Cons.prems Cons.IH [of rest] True copied_validity [OF none [of a], of "dr_metadata r"]
        by (auto simp: reports Let_def)
    qed (use Cons none in auto)
  qed simp
qed

text \<open>What a child recorded of itself is part of what the merge asked of it.\<close>

lemma recorded_below:
  assumes "validity_summary_from_metadata sha256 metadata suite rows = Inr c" "has_key metadata ''validity''"
  obtains r where "\<And>path. recorded_validity (get metadata ''validity'') path = Inr r"
    "vs_status r \<le> vs_status c" "vs_is_valid c \<longrightarrow> vs_is_valid r" "vs_can_compare c \<longrightarrow> vs_can_compare r"
proof -
  from assms obtain s r others where r: "recorded_validity (get metadata ''validity'') ''metadata'' = Inr r"
      and c: "c = combine_validity_summaries (s # r # others)"
    by (auto simp: validity_summary_from_metadata_def bindE_ok split: if_splits)
  from r have "recorded_validity (get metadata ''validity'') path = Inr r" for path
    by (cases "get metadata ''validity''") (auto simp: recorded_validity_def split: sum.splits if_splits)
  then show thesis using that combine_bounds [of r "s # r # others"] c by auto
qed

lemma recorded_in_merge:
  assumes "get metadata ''isolation'' = JObj (isolation_record args rs (map report_payload reports) cooldown)"
    and "mapE (\<lambda>r. validity_summary_from_metadata sha256 (dr_metadata r) suite (dr_aggregate_rows r)) reports
      = Inr children"
  obtains recorded where "recorded_children metadata = Inr recorded"
    "\<And>r. r \<in> set recorded \<Longrightarrow> \<exists>c \<in> set children. vs_status r \<le> vs_status c \<and>
       (vs_is_valid c \<longrightarrow> vs_is_valid r) \<and> (vs_can_compare c \<longrightarrow> vs_can_compare r)"
proof -
  let ?read = "\<lambda>(path, record). recorded_validity (get record ''validity'') path"
  let ?below = "\<lambda>r. \<exists>c \<in> set children. vs_status r \<le> vs_status c \<and>
      (vs_is_valid c \<longrightarrow> vs_is_valid r) \<and> (vs_can_compare c \<longrightarrow> vs_can_compare r)"
  let ?records = "filter (\<lambda>(path, record). has_key record ''validity'') (child_records metadata)"
  have "\<exists>r. ?read x = Inr r \<and> ?below r" if x: "x \<in> set ?records" for x
  proof -
    obtain path d where xd: "x = (path, d)" by (cases x)
    have "get (isolation_record args rs (map report_payload reports) cooldown) ''children'' =
        JList (map JObj (child_diagnostics rs (map report_payload reports)))"
      by (simp add: isolation_record_def get_def)
    then have "child_records metadata = concat (map (\<lambda>(index, child). case child of
        JObj c \<Rightarrow> [(index_path ''metadata.isolation.children'' index, c)] | _ \<Rightarrow> [])
        (enumerate 0 (map JObj (child_diagnostics rs (map report_payload reports)))))"
      by (simp add: child_records_def assms(1))
    with x have d: "d \<in> set (child_diagnostics rs (map report_payload reports))" "has_key d ''validity''"
      by (auto simp: xd in_set_enumerate_eq)
    from diagnostics_validity [OF this] obtain q where q: "q \<in> set reports" "has_key (dr_metadata q) ''validity''"
        "get d ''validity'' = get (dr_metadata q) ''validity''"
      by blast
    from mapE_member [OF assms(2) q(1)] obtain c where c: "c \<in> set children"
        "validity_summary_from_metadata sha256 (dr_metadata q) suite (dr_aggregate_rows q) = Inr c"
      by blast
    from recorded_below [OF c(2) q(2)] c(1) show ?thesis by (metis xd q(3) case_prod_conv)
  qed
  then obtain f where f: "\<And>x. x \<in> set ?records \<Longrightarrow> ?read x = Inr (f x) \<and> ?below (f x)" by metis
  then have "recorded_children metadata = Inr (map f ?records)"
    unfolding recorded_children_def by (intro mapE_Inr) blast
  with f show thesis by (intro that) auto
qed

lemma merged_isolation:
  assumes "build_metadata env args results payloads skipped cooldown = Inr metadata"
    and "fst ` set suite_metadata \<inter> (fst ` set metadata \<union> set COMMON_METADATA) = {}"
    and "metadata_with_validity sha256 provenance (dict_update metadata suite_metadata) rows = Inr published"
  shows "get published ''isolation'' = JObj (isolation_record args results payloads cooldown)"
proof -
  from assms(3) have "get published ''isolation'' = get (dict_update metadata suite_metadata) ''isolation''"
    by (auto simp: metadata_with_validity_def Let_def bindE_ok split: option.splits)
  also have "\<dots> = get metadata ''isolation''"
    using assms(2) base_isolation [OF assms(1)] get_not_null_has [of metadata "''isolation''"]
    by (intro get_dict_update_other) (auto simp: has_key_def map_of_eq_None_iff)
  finally show ?thesis using base_isolation [OF assms(1)] by simp
qed

text \<open>A summary above the others is the verdict of all of them.\<close>

lemma verdict_of_worst:
  assumes "t \<in> set items" "\<And>s. s \<in> set items \<Longrightarrow> vs_status s \<le> vs_status t"
  shows "combined_status (map vs_status items) = vs_status t"
proof -
  have "combined_status (map vs_status items) = combined_status [vs_status t]"
    using assms unfolding less_eq_validity_status_def
    by (intro status_order.combine_eqI) (auto simp: combined_status_one intro: status_order.combine_upper)
  then show ?thesis by (simp add: combined_status_one)
qed

text \<open>
  C33: the reader of a merged report finds the verdict that was published: loading the published
  metadata with the published rows classifies them again, adds the recorded validity and what every
  successful child recorded of itself, and the status, the validity and the comparability that come
  out are exactly those of the recorded summary. No child, however its report was validated, changes
  the verdict after the merge.\<close>

theorem merged_validity_stable:
  assumes "write_isolation_report sha256 load env args child_results skipped cooldown finalizer =
      Inr [(''metadata'', JObj metadata), (''aggregate'', JList (map JObj rows)), (''runs'', JList (map JObj runs))]"
  shows "\<exists>s c. get metadata ''validity'' = JObj (validity_payload s) \<and>
    validity_summary_from_metadata sha256 metadata (ba_suite args) rows = Inr c \<and>
    vs_status c = vs_status s \<and> vs_is_valid c = vs_is_valid s \<and> vs_can_compare c = vs_can_compare s"
proof -
  from assms obtain reports built finalized published current children where
    w: "build_metadata env args child_results (map report_payload reports)
         (merge_skipped skipped (map report_payload reports)) cooldown = Inr built"
      "mapE (\<lambda>r. validity_summary_from_metadata sha256 (dr_metadata r) (ba_suite args) (dr_aggregate_rows r)) reports
         = Inr children"
      "finalize_merged_data (ba_suite args) built (concat (map dr_aggregate_rows reports)) (map dr_metadata reports)
         finalizer = Inr finalized"
      "metadata_with_validity sha256 (re_provenance env) (dict_update built (ms_metadata finalized))
         (ms_aggregate_rows finalized) = Inr published"
      "validity_summary_from_payload (object_value (get published ''validity'')) = Inr current"
    and payload: "[(''metadata'', JObj metadata), (''aggregate'', JList (map JObj rows)), (''runs'', JList (map JObj runs))]
      = [(''metadata'', JObj (AList.update ''validity''
           (JObj (validity_payload (combine_validity_summaries (current # children)))) published)),
         (''aggregate'', JList (map JObj (ms_aggregate_rows finalized))),
         (''runs'', JList (map JObj (concat (map dr_run_rows reports))))]"
    by (rule write_steps)
  let ?s = "combine_validity_summaries (current # children)"
  have parts: "rows = ms_aggregate_rows finalized"
      "metadata = AList.update ''validity'' (JObj (validity_payload ?s)) published"
    using payload by (simp_all add: inj_map_eq_map inj_def)
  from w(3) have fresh: "fst ` set (ms_metadata finalized) \<inter> (fst ` set built \<union> set COMMON_METADATA) = {}"
    by (rule finalize_ok)
  have classified: "classify_report_validity sha256 (ba_suite args) rows metadata = Inr current"
    using published_classified [OF w(4,5) merged_suite [OF w(1) fresh]] by (simp add: parts classify_ignores_validity)
  have "list_all consistent_summary children"
    using mapE_image [OF w(2)] metadata_consistent by (fastforce simp: list_all_iff)
  then have consistent: "consistent_summary ?s"
    using classify_consistent [OF classified] by (intro combine_consistent) simp
  have "get metadata ''isolation'' =
      JObj (isolation_record args child_results (map report_payload reports) cooldown)"
    using merged_isolation [OF w(1) fresh w(4)] by (simp add: parts(2))
  then obtain recorded where recorded: "recorded_children metadata = Inr recorded"
      "\<And>r. r \<in> set recorded \<Longrightarrow> \<exists>c \<in> set children. vs_status r \<le> vs_status c \<and>
         (vs_is_valid c \<longrightarrow> vs_is_valid r) \<and> (vs_can_compare c \<longrightarrow> vs_can_compare r)"
    by (rule recorded_in_merge [OF _ w(2)]) blast
  have below: "vs_status r \<le> vs_status ?s \<and> (vs_is_valid ?s \<longrightarrow> vs_is_valid r) \<and> (vs_can_compare ?s \<longrightarrow> vs_can_compare r)"
    if r: "r \<in> set (current # ?s # recorded)" for r
  proof (cases "r \<in> set recorded")
    case True
    with recorded(2) obtain c where "c \<in> set (current # children)" "vs_status r \<le> vs_status c"
        "vs_is_valid c \<longrightarrow> vs_is_valid r" "vs_can_compare c \<longrightarrow> vs_can_compare r"
      by (meson list.set_intros(2))
    with combine_bounds [of c "current # children"] show ?thesis by (meson order_trans)
  next
    case False
    with r combine_bounds [of current "current # children"] show ?thesis by auto
  qed
  have "combined_status (map vs_status (current # ?s # recorded)) = vs_status ?s"
    by (rule verdict_of_worst) (use below in auto)
  moreover have "list_all vs_is_valid (current # ?s # recorded) = vs_is_valid ?s"
    "list_all vs_can_compare (current # ?s # recorded) = vs_can_compare ?s"
    using below unfolding list_all_iff by (metis list.set_intros)+
  moreover have "get metadata ''validity'' = JObj (validity_payload ?s)" by (simp add: parts(2))
  ultimately show ?thesis using reader_verdict [OF classified _ consistent recorded(1)] by metis
qed

text \<open>A merge whose child recorded of itself that it must be run again.\<close>

definition recorded_document :: json where
  "recorded_document =
     JObj [(''metadata'', JObj [(''suite'', JStr ''requests''),
         (''report_schema_version'', JInt REPORT_SCHEMA_VERSION), (''timing_scope'', JStr (scope_value REQUESTS)),
         (''validity'', JObj (validity_payload (plain_summary NeedsRerun)))]),
       (''aggregate'', JList [JObj child_row]), (''runs'', JList [])]"

definition recorded_merge :: "obj result" where
  "recorded_merge =
     write_isolation_report id (load_report (\<lambda>_. Inr recorded_document) (\<lambda>_ _ _. Inr JNull)) plain_environment
       plain_args [plain_child 1 (Some ''a.json'') 0] [] (Fin 3) preserve_merged_report"

lemma recorded_merge_written:
  "case recorded_merge of
     Inl _ \<Rightarrow> False
   | Inr payload \<Rightarrow> get payload ''aggregate'' = JList [JObj child_row] \<and> get payload ''runs'' = JList [] \<and>
       (case get payload ''metadata'' of
          JObj m \<Rightarrow> (case get m ''validity'' of JObj v \<Rightarrow> get v ''status'' = JStr (status_name NeedsRerun) | _ \<Rightarrow> False)
        | _ \<Rightarrow> False)"
  by code_simp

lemma merged_validity_stable_witness:
  "\<exists>metadata c. recorded_merge = Inr [(''metadata'', JObj metadata), (''aggregate'', JList (map JObj [child_row])),
       (''runs'', JList (map JObj []))] \<and>
     validity_summary_from_metadata id metadata ''requests'' [child_row] = Inr c \<and> vs_status c = NeedsRerun"
proof -
  from recorded_merge_written obtain payload m where written: "recorded_merge = Inr payload"
      "get payload ''aggregate'' = JList [JObj child_row]" "get payload ''runs'' = JList []"
      "get payload ''metadata'' = JObj m" "\<exists>v. get m ''validity'' = JObj v \<and> get v ''status'' = JStr (status_name NeedsRerun)"
    by (auto split: sum.splits json.splits)
  obtain metadata rows runs where "payload = [(''metadata'', JObj metadata), (''aggregate'', JList (map JObj rows)),
      (''runs'', JList (map JObj runs))]"
    using written(1) unfolding recorded_merge_def by (elim write_steps)
  with written(2-4) have payload: "payload = [(''metadata'', JObj m), (''aggregate'', JList (map JObj [child_row])),
      (''runs'', JList (map JObj []))]"
    by (simp add: get_def)
  have "ba_suite plain_args = ''requests''" by (simp add: plain_args_def)
  with merged_validity_stable [OF written(1) [unfolded payload recorded_merge_def]] obtain s c where
      "get m ''validity'' = JObj (validity_payload s)" "vs_status c = vs_status s"
      "validity_summary_from_metadata id m ''requests'' [child_row] = Inr c"
    by auto
  moreover from this written(5) have "status_name (vs_status s) = status_name NeedsRerun" by auto
  then have "vs_status s = NeedsRerun" by (cases "vs_status s") simp_all
  ultimately show ?thesis
    using written(1) unfolding payload by (intro exI [of _ m] exI [of _ c]) simp
qed

end
