(* ===== verification/Operation_Reports.thy ===== *)
theory Operation_Reports
  imports Aggregation
begin

text \<open>
  The reports of the suites that time operations: creation_reports.py (client creation) and
  request_builder/reports.py, with their records in models.py and request_builder/models.py.
\<close>

subsection \<open>Client creation\<close>

record ClientCreationResult =
  ccr_client :: string
  ccr_mode :: string
  ccr_scenario :: string
  ccr_client_count :: int
  ccr_iterations :: int
  ccr_repeat :: int
  ccr_duration_s :: pyfloat
  ccr_operations_per_second :: pyfloat
  ccr_p50_ms :: pyfloat
  ccr_p90_ms :: pyfloat
  ccr_p95_ms :: pyfloat
  ccr_p99_ms :: pyfloat
  ccr_min_ms :: pyfloat
  ccr_max_ms :: pyfloat
  ccr_close_p50_ms :: "pyfloat option"
  ccr_close_p95_ms :: "pyfloat option"
  ccr_errors :: int
  ccr_error_types :: "(string \<times> int) list"
  ccr_peak_rss_delta_mb :: "pyfloat option"
  ccr_end_rss_delta_mb :: "pyfloat option"
  ccr_peak_threads_delta :: "int option"
  ccr_end_threads_delta :: "int option"
  ccr_peak_fds_delta :: "int option"
  ccr_end_fds_delta :: "int option"

record ClientCreationAggregateRow =
  cca_mode :: string
  cca_client :: string
  cca_scenario :: string
  cca_client_count :: int
  cca_iterations :: int
  cca_repeats :: int
  cca_duration_ms_median :: pyfloat
  cca_ops_s_median :: pyfloat
  cca_ops_s_cv_percent :: pyfloat
  cca_p50_ms_median :: pyfloat
  cca_p95_ms_median :: pyfloat
  cca_p99_ms_median :: pyfloat
  cca_close_p50_ms_median :: "pyfloat option"
  cca_close_p95_ms_median :: "pyfloat option"
  cca_peak_rss_delta_mb_max :: json
  cca_end_rss_delta_mb_max :: json
  cca_peak_threads_delta_max :: json
  cca_end_threads_delta_max :: json
  cca_peak_fds_delta_max :: json
  cca_end_fds_delta_max :: json
  cca_errors_total :: int
  cca_resource_coverage :: resource_coverage

type_synonym creation_key = "string \<times> string \<times> string \<times> int \<times> int"

definition creation_key :: "ClientCreationResult \<Rightarrow> creation_key" where
  "creation_key r = (ccr_mode r, ccr_client r, ccr_scenario r, ccr_client_count r, ccr_iterations r)"

definition creation_group :: "creation_key \<times> ClientCreationResult list \<Rightarrow> ClientCreationAggregateRow result" where
  "creation_group grouped =
     (case grouped of ((mode, client, scenario, client_count, iterations), items) \<Rightarrow>
        bindE (stat_median (map (\<lambda>r. fmul (ccr_duration_s r) (Fin 1000)) items)) (\<lambda>duration_ms_median.
        bindE (stat_median (map ccr_operations_per_second items)) (\<lambda>ops_s_median.
        bindE (coefficient_of_variation (map ccr_operations_per_second items)) (\<lambda>ops_s_cv_percent.
        bindE (stat_median (map ccr_p50_ms items)) (\<lambda>p50_ms_median.
        bindE (stat_median (map ccr_p95_ms items)) (\<lambda>p95_ms_median.
        bindE (stat_median (map ccr_p99_ms items)) (\<lambda>p99_ms_median.
        bindE (optional_median (map ccr_close_p50_ms items)) (\<lambda>close_p50_ms_median.
        bindE (optional_median (map ccr_close_p95_ms items)) (\<lambda>close_p95_ms_median.
        bindE (optional_resource_max (map (\<lambda>r. optional_float (ccr_peak_rss_delta_mb r)) items)) (\<lambda>peak_rss_delta_mb_max.
        bindE (optional_resource_max (map (\<lambda>r. optional_float (ccr_end_rss_delta_mb r)) items)) (\<lambda>end_rss_delta_mb_max.
        bindE (optional_resource_max (map (\<lambda>r. optional_int (ccr_peak_threads_delta r)) items)) (\<lambda>peak_threads_delta_max.
        bindE (optional_resource_max (map (\<lambda>r. optional_int (ccr_end_threads_delta r)) items)) (\<lambda>end_threads_delta_max.
        bindE (optional_resource_max (map (\<lambda>r. optional_int (ccr_peak_fds_delta r)) items)) (\<lambda>peak_fds_delta_max.
        bindE (optional_resource_max (map (\<lambda>r. optional_int (ccr_end_fds_delta r)) items)) (\<lambda>end_fds_delta_max.
        bindE (resource_coverage
            [(''peak_rss_delta_mb_max'', map (\<lambda>r. optional_float (ccr_peak_rss_delta_mb r)) items),
             (''end_rss_delta_mb_max'', map (\<lambda>r. optional_float (ccr_end_rss_delta_mb r)) items),
             (''peak_threads_delta_max'', map (\<lambda>r. optional_int (ccr_peak_threads_delta r)) items),
             (''end_threads_delta_max'', map (\<lambda>r. optional_int (ccr_end_threads_delta r)) items),
             (''peak_fds_delta_max'', map (\<lambda>r. optional_int (ccr_peak_fds_delta r)) items),
             (''end_fds_delta_max'', map (\<lambda>r. optional_int (ccr_end_fds_delta r)) items)]) (\<lambda>coverage.
          Inr \<lparr>cca_mode = mode, cca_client = client, cca_scenario = scenario, cca_client_count = client_count,
               cca_iterations = iterations, cca_repeats = int (length items),
               cca_duration_ms_median = duration_ms_median, cca_ops_s_median = ops_s_median,
               cca_ops_s_cv_percent = ops_s_cv_percent, cca_p50_ms_median = p50_ms_median,
               cca_p95_ms_median = p95_ms_median, cca_p99_ms_median = p99_ms_median,
               cca_close_p50_ms_median = close_p50_ms_median, cca_close_p95_ms_median = close_p95_ms_median,
               cca_peak_rss_delta_mb_max = peak_rss_delta_mb_max,
               cca_end_rss_delta_mb_max = end_rss_delta_mb_max,
               cca_peak_threads_delta_max = peak_threads_delta_max,
               cca_end_threads_delta_max = end_threads_delta_max, cca_peak_fds_delta_max = peak_fds_delta_max,
               cca_end_fds_delta_max = end_fds_delta_max, cca_errors_total = sum_list (map ccr_errors items),
               cca_resource_coverage = coverage\<rparr>))))))))))))))))"

definition aggregate_creation_results :: "ClientCreationResult list \<Rightarrow> ClientCreationAggregateRow list result" where
  "aggregate_creation_results results = mapE creation_group (sort_key fst (group_by creation_key results))"

definition creation_row_key :: "ClientCreationAggregateRow \<Rightarrow> creation_key" where
  "creation_row_key r = (cca_mode r, cca_client r, cca_scenario r, cca_client_count r, cca_iterations r)"

interpretation creation_rows: aggregation creation_key "\<lambda>k. k" creation_group creation_row_key cca_repeats
  by unfold_locales (auto simp: creation_group_def creation_row_key_def bindE_ok)

text \<open>The floats of a run are numbers: what \<^verbatim>\<open>run_client_creation\<close> records when no duration overflows.\<close>

definition creation_measured :: "ClientCreationResult \<Rightarrow> bool" where
  "creation_measured r \<longleftrightarrow>
     is_finite (ccr_operations_per_second r) \<and> pred_option is_finite (ccr_peak_rss_delta_mb r) \<and>
     pred_option is_finite (ccr_end_rss_delta_mb r)"

lemma creation_group_total:
  assumes "items \<noteq> []" "list_all creation_measured items"
  shows "\<exists>row. creation_group (k, items) = Inr row"
proof (cases k)
  case (fields mode client scenario client_count iterations)
  show ?thesis
    using assms unfolding creation_group_def fields prod.case
    by (intro bindE_total median_map_total optional_median_total variation_total resource_max_total coverage_total)
      (simp_all add: list_all_iff creation_measured_def observation_optional)
qed

lemma creation_accounted:
  assumes "list_all creation_measured results"
  shows "\<exists>rows. aggregate_creation_results results = Inr rows \<and>
    accounted creation_key (\<lambda>k. k) creation_row_key cca_repeats results rows"
proof -
  have "\<exists>rows. mapE creation_group (sort_key (\<lambda>g. fst g) (group_by creation_key results)) = Inr rows"
    using assms by (intro creation_rows.rows_total creation_group_total) (auto simp: list_all_iff)
  then show ?thesis using creation_rows.rows_accounted unfolding aggregate_creation_results_def by blast
qed

subsection \<open>Request builder\<close>

record RequestBuilderResult =
  rbr_client :: string
  rbr_mode :: string
  rbr_case :: string
  rbr_group :: string
  rbr_kind :: string
  rbr_profile :: string
  rbr_iterations :: int
  rbr_repeat :: int
  rbr_duration_s :: pyfloat
  rbr_operations_per_second :: pyfloat
  rbr_p50_ms :: pyfloat
  rbr_p95_ms :: pyfloat
  rbr_p99_ms :: pyfloat
  rbr_errors :: int
  rbr_error_types :: "(string \<times> int) list"
  rbr_peak_rss_mb :: "pyfloat option"
  rbr_peak_threads :: "int option"
  rbr_peak_fds :: "int option"

record RequestBuilderAggregateRow =
  rba_mode :: string
  rba_client :: string
  rba_case :: string
  rba_group :: string
  rba_kind :: string
  rba_profile :: string
  rba_iterations :: int
  rba_repeats :: int
  rba_duration_ms_median :: pyfloat
  rba_ops_s_median :: pyfloat
  rba_ops_s_cv_percent :: pyfloat
  rba_baseline_ratio :: "pyfloat option"
  rba_p50_ms_median :: pyfloat
  rba_p95_ms_median :: pyfloat
  rba_p99_ms_median :: pyfloat
  rba_rss_mb_max :: json
  rba_threads_max :: json
  rba_fds_max :: json
  rba_errors_total :: int
  rba_error_types :: "(string \<times> int) list"
  rba_resource_coverage :: resource_coverage

type_synonym builder_key = "string \<times> string \<times> string \<times> string \<times> string \<times> string \<times> int"

definition builder_key :: "RequestBuilderResult \<Rightarrow> builder_key" where
  "builder_key r =
     (rbr_mode r, rbr_client r, rbr_case r, rbr_group r, rbr_kind r, rbr_profile r, rbr_iterations r)"

definition kind_order :: "string \<Rightarrow> int" where
  "kind_order kind = (case map_of [(''build'', 0), (''send-prepared'', 1)] kind of None \<Rightarrow> 99 | Some n \<Rightarrow> n)"

definition builder_sort_key :: "builder_key \<Rightarrow> string \<times> string \<times> int \<times> string \<times> string \<times> int" where
  "builder_sort_key key =
     (case key of (mode, client, case_name, group_name, kind, profile, iterations) \<Rightarrow>
        (mode, client, kind_order kind, group_name, case_name, iterations))"

definition builder_group :: "builder_key \<times> RequestBuilderResult list \<Rightarrow> RequestBuilderAggregateRow result" where
  "builder_group grouped =
     (case grouped of ((mode, client, case_name, group_name, kind, profile, iterations), items) \<Rightarrow>
        bindE (stat_median (map (\<lambda>r. fmul (rbr_duration_s r) (Fin 1000)) items)) (\<lambda>duration_ms_median.
        bindE (stat_median (map rbr_operations_per_second items)) (\<lambda>ops_s_median.
        bindE (coefficient_of_variation (map rbr_operations_per_second items)) (\<lambda>ops_s_cv_percent.
        bindE (stat_median (map rbr_p50_ms items)) (\<lambda>p50_ms_median.
        bindE (stat_median (map rbr_p95_ms items)) (\<lambda>p95_ms_median.
        bindE (stat_median (map rbr_p99_ms items)) (\<lambda>p99_ms_median.
        bindE (optional_resource_max (map (\<lambda>r. optional_float (rbr_peak_rss_mb r)) items)) (\<lambda>rss_mb_max.
        bindE (optional_resource_max (map (\<lambda>r. optional_int (rbr_peak_threads r)) items)) (\<lambda>threads_max.
        bindE (optional_resource_max (map (\<lambda>r. optional_int (rbr_peak_fds r)) items)) (\<lambda>fds_max.
        bindE (resource_coverage
            [(''rss_mb_max'', map (\<lambda>r. optional_float (rbr_peak_rss_mb r)) items),
             (''threads_max'', map (\<lambda>r. optional_int (rbr_peak_threads r)) items),
             (''fds_max'', map (\<lambda>r. optional_int (rbr_peak_fds r)) items)]) (\<lambda>coverage.
          Inr \<lparr>rba_mode = mode, rba_client = client, rba_case = case_name, rba_group = group_name,
               rba_kind = kind, rba_profile = profile, rba_iterations = iterations,
               rba_repeats = int (length items), rba_duration_ms_median = duration_ms_median,
               rba_ops_s_median = ops_s_median, rba_ops_s_cv_percent = ops_s_cv_percent,
               rba_baseline_ratio = None, rba_p50_ms_median = p50_ms_median, rba_p95_ms_median = p95_ms_median,
               rba_p99_ms_median = p99_ms_median, rba_rss_mb_max = rss_mb_max, rba_threads_max = threads_max,
               rba_fds_max = fds_max, rba_errors_total = sum_list (map rbr_errors items),
               rba_error_types = merge_error_types (map rbr_error_types items),
               rba_resource_coverage = coverage\<rparr>)))))))))))"

text \<open>The dictionary of baselines keeps the last row of a key.\<close>

definition baseline_of :: "('k \<times> pyfloat) list \<Rightarrow> 'k \<Rightarrow> pyfloat option" where
  "baseline_of rows = map_of (rev rows)"

definition baseline_ratio :: "pyfloat \<Rightarrow> pyfloat option \<Rightarrow> pyfloat option result" where
  "baseline_ratio v baseline =
     (case baseline of
        None \<Rightarrow> Inr None
      | Some b \<Rightarrow> if fle b (Fin 0) then Inr None else bindE (fdiv v b) (\<lambda>q. Inr (Some q)))"

definition builder_ratio_rows :: "RequestBuilderAggregateRow list \<Rightarrow> RequestBuilderAggregateRow list result" where
  "builder_ratio_rows rows =
     (let baselines = baseline_of (map (\<lambda>row. ((rba_mode row, rba_client row), rba_ops_s_median row))
            (filter (\<lambda>row. rba_kind row = ''build'' \<and> rba_case row = ''absolute-url'') rows))
      in mapE (\<lambda>row.
           bindE (if rba_kind row = ''build''
                  then baseline_ratio (rba_ops_s_median row) (baselines (rba_mode row, rba_client row)) else Inr None)
             (\<lambda>ratio. Inr (row\<lparr>rba_baseline_ratio := ratio\<rparr>))) rows)"

definition aggregate_request_builder_results ::
  "RequestBuilderResult list \<Rightarrow> RequestBuilderAggregateRow list result"
where
  "aggregate_request_builder_results results =
     bindE (mapE builder_group (sort_key (\<lambda>g. builder_sort_key (fst g)) (group_by builder_key results))) builder_ratio_rows"

definition builder_row_key :: "RequestBuilderAggregateRow \<Rightarrow> builder_key" where
  "builder_row_key r =
     (rba_mode r, rba_client r, rba_case r, rba_group r, rba_kind r, rba_profile r, rba_iterations r)"

interpretation builder_rows: aggregation builder_key builder_sort_key builder_group builder_row_key rba_repeats
  by unfold_locales (auto simp: builder_group_def builder_row_key_def bindE_ok)

definition builder_measured :: "RequestBuilderResult \<Rightarrow> bool" where
  "builder_measured r \<longleftrightarrow> is_finite (rbr_operations_per_second r) \<and> pred_option is_finite (rbr_peak_rss_mb r)"

lemma builder_group_total:
  assumes "items \<noteq> []" "list_all builder_measured items"
  shows "\<exists>row. builder_group (k, items) = Inr row"
proof (cases k)
  case (fields mode client case_name group_name kind profile iterations)
  show ?thesis
    using assms unfolding builder_group_def fields prod.case
    by (intro bindE_total median_map_total variation_total resource_max_total coverage_total)
      (simp_all add: list_all_iff builder_measured_def observation_optional)
qed

lemma baseline_ratio_total: "\<exists>ratio. baseline_ratio v baseline = Inr ratio"
proof -
  have "\<not> fle b (Fin 0) \<Longrightarrow> \<exists>q. fdiv v b = Inr q" for b by (cases v; cases b) (auto simp: fle_def)
  then show ?thesis by (auto simp: baseline_ratio_def split: option.split intro!: bindE_total)
qed

lemma builder_ratio_total: "\<exists>rows'. builder_ratio_rows rows = Inr rows'"
  using baseline_ratio_total
  by (auto simp: builder_ratio_rows_def Let_def intro!: mapE_total bindE_total)

lemma builder_ratio_keep:
  assumes "builder_ratio_rows rows = Inr rows'"
  shows "map builder_row_key rows' = map builder_row_key rows" "map rba_repeats rows' = map rba_repeats rows"
  using assms unfolding builder_ratio_rows_def Let_def
  by (rule mapE_keep, force simp: bindE_ok builder_row_key_def)+

lemma builder_accounted:
  assumes "list_all builder_measured results"
  shows "\<exists>rows. aggregate_request_builder_results results = Inr rows \<and>
    accounted builder_key builder_sort_key builder_row_key rba_repeats results rows"
proof -
  obtain rows where rows:
    "mapE builder_group (sort_key (\<lambda>g. builder_sort_key (fst g)) (group_by builder_key results)) = Inr rows"
    using builder_rows.rows_total [OF builder_group_total] assms by (auto simp: list_all_iff subset_iff)
  obtain rows' where ratios: "builder_ratio_rows rows = Inr rows'" using builder_ratio_total by blast
  have "accounted builder_key builder_sort_key builder_row_key rba_repeats results rows'"
    using builder_rows.rows_accounted [OF rows] by (simp add: accounted_keep [OF builder_ratio_keep [OF ratios]])
  with rows ratios show ?thesis by (simp add: aggregate_request_builder_results_def)
qed

end
