(* ===== verification/Upstream_Reports.thy ===== *)
theory Upstream_Reports
  imports Operation_Reports Report_Finalization
begin

text \<open>
  The reports of the suites with a baseline among their cases: one_upstream/reports.py, whose rows are
  compared with the direct profile, and proxy_connect/reports.py, whose typed rows go through the
  finalization of the merged report; with the records of their models.py.
\<close>

subsection \<open>One upstream\<close>

record OneUpstreamResult =
  our_client :: string
  our_mode :: string
  our_case :: string
  our_group :: string
  our_profile :: string
  our_concurrency :: int
  our_request_limit :: int
  our_requests :: int
  our_repeat :: int
  our_duration_s :: pyfloat
  our_requests_per_second :: pyfloat
  our_ok_requests_per_second :: pyfloat
  our_ok_requests :: int
  our_p50_ms :: pyfloat
  our_p95_ms :: pyfloat
  our_p99_ms :: pyfloat
  our_errors :: int
  our_warmup_errors :: int
  our_error_types :: "(string \<times> int) list"
  our_warmup_error_types :: "(string \<times> int) list"
  our_peak_rss_mb :: "pyfloat option"
  our_peak_threads :: "int option"
  our_peak_fds :: "int option"
  our_client_stats :: "client_stats option"

record OneUpstreamAggregateRow =
  oua_mode :: string
  oua_client :: string
  oua_case :: string
  oua_group :: string
  oua_profile :: string
  oua_concurrency :: int
  oua_request_limit :: int
  oua_requests :: int
  oua_repeats :: int
  oua_ok_requests_total :: int
  oua_errors_total :: int
  oua_warmup_errors_total :: int
  oua_warmup_error_types :: "(string \<times> int) list"
  oua_error_rate_percent :: pyfloat
  oua_ok_req_s_median :: pyfloat
  oua_req_s_median :: pyfloat
  oua_req_s_cv_percent :: pyfloat
  oua_baseline_ratio :: "pyfloat option"
  oua_p50_ms_median :: pyfloat
  oua_p95_ms_median :: pyfloat
  oua_p99_ms_median :: pyfloat
  oua_rss_mb_max :: json
  oua_threads_max :: json
  oua_fds_max :: json
  oua_error_types :: "(string \<times> int) list"
  oua_resource_coverage :: resource_coverage

type_synonym upstream_key = "string \<times> string \<times> string \<times> string \<times> string \<times> int \<times> int"

definition upstream_key :: "OneUpstreamResult \<Rightarrow> upstream_key" where
  "upstream_key r =
     (our_mode r, our_client r, our_case r, our_group r, our_profile r, our_concurrency r, our_request_limit r)"

definition profile_order :: "string \<Rightarrow> int" where
  "profile_order profile =
     (case map_of [(''direct'', 0), (''base-url'', 1), (''defaults'', 2), (''prepared'', 3)] profile of
        None \<Rightarrow> 99 | Some n \<Rightarrow> n)"

definition upstream_sort_key :: "upstream_key \<Rightarrow> string \<times> string \<times> string \<times> int \<times> int \<times> string \<times> int" where
  "upstream_sort_key key =
     (case key of (mode, client, case_name, group_name, profile, concurrency, request_limit) \<Rightarrow>
        (mode, client, group_name, concurrency, profile_order profile, case_name, request_limit))"

definition upstream_group :: "upstream_key \<times> OneUpstreamResult list \<Rightarrow> OneUpstreamAggregateRow result" where
  "upstream_group grouped =
     (case grouped of ((mode, client, case_name, group_name, profile, concurrency, request_limit), items) \<Rightarrow>
        bindE (stat_median (map our_ok_requests_per_second items)) (\<lambda>ok_req_s_median.
        bindE (stat_median (map our_requests_per_second items)) (\<lambda>req_s_median.
        bindE (coefficient_of_variation (map our_requests_per_second items)) (\<lambda>req_s_cv_percent.
        bindE (stat_median (map our_p50_ms items)) (\<lambda>p50_ms_median.
        bindE (stat_median (map our_p95_ms items)) (\<lambda>p95_ms_median.
        bindE (stat_median (map our_p99_ms items)) (\<lambda>p99_ms_median.
        bindE (optional_resource_max (map (\<lambda>r. optional_float (our_peak_rss_mb r)) items)) (\<lambda>rss_mb_max.
        bindE (optional_resource_max (map (\<lambda>r. optional_int (our_peak_threads r)) items)) (\<lambda>threads_max.
        bindE (optional_resource_max (map (\<lambda>r. optional_int (our_peak_fds r)) items)) (\<lambda>fds_max.
        bindE (resource_coverage
            [(''rss_mb_max'', map (\<lambda>r. optional_float (our_peak_rss_mb r)) items),
             (''threads_max'', map (\<lambda>r. optional_int (our_peak_threads r)) items),
             (''fds_max'', map (\<lambda>r. optional_int (our_peak_fds r)) items)]) (\<lambda>coverage.
          Inr \<lparr>oua_mode = mode, oua_client = client, oua_case = case_name, oua_group = group_name,
               oua_profile = profile, oua_concurrency = concurrency, oua_request_limit = request_limit,
               oua_requests = our_requests (hd items), oua_repeats = int (length items),
               oua_ok_requests_total = sum_list (map our_ok_requests items),
               oua_errors_total = sum_list (map our_errors items),
               oua_warmup_errors_total = sum_list (map our_warmup_errors items),
               oua_warmup_error_types = merge_error_types (map our_warmup_error_types items),
               oua_error_rate_percent = error_rate (sum_list (map our_errors items)) (sum_list (map our_requests items)),
               oua_ok_req_s_median = ok_req_s_median, oua_req_s_median = req_s_median,
               oua_req_s_cv_percent = req_s_cv_percent, oua_baseline_ratio = None,
               oua_p50_ms_median = p50_ms_median, oua_p95_ms_median = p95_ms_median,
               oua_p99_ms_median = p99_ms_median, oua_rss_mb_max = rss_mb_max, oua_threads_max = threads_max,
               oua_fds_max = fds_max, oua_error_types = merge_error_types (map our_error_types items),
               oua_resource_coverage = coverage\<rparr>)))))))))))"

definition upstream_ratio_key :: "OneUpstreamAggregateRow \<Rightarrow> string \<times> string \<times> string \<times> int" where
  "upstream_ratio_key row = (oua_mode row, oua_client row, oua_group row, oua_concurrency row)"

definition upstream_ratio_rows :: "OneUpstreamAggregateRow list \<Rightarrow> OneUpstreamAggregateRow list result" where
  "upstream_ratio_rows rows =
     (let baselines = baseline_of (map (\<lambda>row. (upstream_ratio_key row, oua_ok_req_s_median row))
            (filter (\<lambda>row. oua_profile row = ''direct'') rows))
      in mapE (\<lambda>row.
           bindE (baseline_ratio (oua_ok_req_s_median row) (baselines (upstream_ratio_key row)))
             (\<lambda>ratio. Inr (row\<lparr>oua_baseline_ratio := ratio\<rparr>))) rows)"

definition aggregate_one_upstream_results :: "OneUpstreamResult list \<Rightarrow> OneUpstreamAggregateRow list result" where
  "aggregate_one_upstream_results results =
     bindE (mapE upstream_group (sort_key (\<lambda>g. upstream_sort_key (fst g)) (group_by upstream_key results)))
       upstream_ratio_rows"

definition upstream_row_key :: "OneUpstreamAggregateRow \<Rightarrow> upstream_key" where
  "upstream_row_key r =
     (oua_mode r, oua_client r, oua_case r, oua_group r, oua_profile r, oua_concurrency r, oua_request_limit r)"

interpretation upstream_rows: aggregation upstream_key upstream_sort_key upstream_group upstream_row_key oua_repeats
  by unfold_locales (auto simp: upstream_group_def upstream_row_key_def bindE_ok)

definition upstream_measured :: "OneUpstreamResult \<Rightarrow> bool" where
  "upstream_measured r \<longleftrightarrow> is_finite (our_requests_per_second r) \<and> pred_option is_finite (our_peak_rss_mb r)"

lemma upstream_group_total:
  assumes "items \<noteq> []" "list_all upstream_measured items"
  shows "\<exists>row. upstream_group (k, items) = Inr row"
proof (cases k)
  case (fields mode client case_name group_name profile concurrency request_limit)
  show ?thesis
    using assms unfolding upstream_group_def fields prod.case
    by (intro bindE_total median_map_total variation_total resource_max_total coverage_total)
      (simp_all add: list_all_iff upstream_measured_def observation_optional)
qed

lemma upstream_ratio_total: "\<exists>rows'. upstream_ratio_rows rows = Inr rows'"
  using baseline_ratio_total
  by (auto simp: upstream_ratio_rows_def Let_def intro!: mapE_total bindE_total)

lemma upstream_ratio_keep:
  assumes "upstream_ratio_rows rows = Inr rows'"
  shows "map upstream_row_key rows' = map upstream_row_key rows" "map oua_repeats rows' = map oua_repeats rows"
  using assms unfolding upstream_ratio_rows_def Let_def
  by (rule mapE_keep, force simp: bindE_ok upstream_row_key_def)+

lemma upstream_accounted:
  assumes "list_all upstream_measured results"
  shows "\<exists>rows. aggregate_one_upstream_results results = Inr rows \<and>
    accounted upstream_key upstream_sort_key upstream_row_key oua_repeats results rows"
proof -
  obtain rows where rows:
    "mapE upstream_group (sort_key (\<lambda>g. upstream_sort_key (fst g)) (group_by upstream_key results)) = Inr rows"
    using upstream_rows.rows_total [OF upstream_group_total] assms by (auto simp: list_all_iff subset_iff)
  obtain rows' where ratios: "upstream_ratio_rows rows = Inr rows'" using upstream_ratio_total by blast
  have "accounted upstream_key upstream_sort_key upstream_row_key oua_repeats results rows'"
    using upstream_rows.rows_accounted [OF rows] by (simp add: accounted_keep [OF upstream_ratio_keep [OF ratios]])
  with rows ratios show ?thesis by (simp add: aggregate_one_upstream_results_def)
qed

lemma baseline_of_last:
  "baseline_of ps k =
     (if filter (\<lambda>p. fst p = k) ps = [] then None else Some (snd (last (filter (\<lambda>p. fst p = k) ps))))"
  by (induction ps rule: rev_induct) (auto simp: baseline_of_def)

definition direct_rows :: "OneUpstreamAggregateRow \<Rightarrow> OneUpstreamAggregateRow list \<Rightarrow> OneUpstreamAggregateRow list" where
  "direct_rows row rows =
     filter (\<lambda>d. oua_profile d = ''direct'' \<and> upstream_ratio_key d = upstream_ratio_key row) rows"

lemma upstream_baseline:
  "baseline_of (map (\<lambda>row. (upstream_ratio_key row, oua_ok_req_s_median row))
       (filter (\<lambda>row. oua_profile row = ''direct'') rows)) (upstream_ratio_key row) =
     (if direct_rows row rows = [] then None else Some (oua_ok_req_s_median (last (direct_rows row rows))))"
  by (simp add: baseline_of_last filter_map comp_def direct_rows_def last_map conj_commute)

lemma ratio_of_itself: "0 < x \<Longrightarrow> baseline_ratio (Fin x) (Some (Fin x)) = Inr (Some (Fin 1))"
  using round64_of_int [of 1] by (simp add: baseline_ratio_def fle_def)

definition direct_values :: "OneUpstreamAggregateRow list \<Rightarrow> ((string \<times> string \<times> string \<times> int) \<times> pyfloat) list" where
  "direct_values rows =
     map (\<lambda>row. (upstream_ratio_key row, oua_ok_req_s_median row)) (filter (\<lambda>row. oua_profile row = ''direct'') rows)"

lemma direct_values_keep:
  assumes "upstream_ratio_rows rows = Inr rows'"
  shows "direct_values rows' = direct_values rows"
proof -
  let ?facts = "\<lambda>row. (oua_profile row, upstream_ratio_key row, oua_ok_req_s_median row)"
  have "map ?facts rows' = map ?facts rows"
    using assms unfolding upstream_ratio_rows_def Let_def
    by (rule mapE_keep) (force simp: bindE_ok upstream_ratio_key_def)
  moreover have "direct_values rs = map snd (filter (\<lambda>facts. fst facts = ''direct'') (map ?facts rs))" for rs
    by (simp add: direct_values_def filter_map comp_def)
  ultimately show ?thesis by simp
qed

text \<open>
  C40: the ratios of the one-upstream report are relative to the direct profile: a row without a direct row
  of its mode, client, group and concurrency, or with one that completed nothing, has none; every other
  row has the quotient of its throughput and that of the last direct row, which itself has the ratio 1.\<close>

theorem upstream_ratio_relative:
  assumes "aggregate_one_upstream_results results = Inr rows" "row \<in> set rows"
  shows "(let direct = direct_rows row rows; baseline = oua_ok_req_s_median (last direct)
     in if direct = [] \<or> fle baseline (Fin 0) then oua_baseline_ratio row = None
        else (\<exists>q. fdiv (oua_ok_req_s_median row) baseline = Inr q \<and> oua_baseline_ratio row = Some q)) \<and>
    (if direct_rows row rows = [row] \<and> (case oua_ok_req_s_median row of Fin x \<Rightarrow> 0 < x | _ \<Rightarrow> False)
     then oua_baseline_ratio row = Some (Fin 1) else True)"
proof -
  obtain plain where plain: "upstream_ratio_rows plain = Inr rows"
    using assms(1) by (auto simp: aggregate_one_upstream_results_def bindE_ok)
  have "\<exists>before. upstream_ratio_key before = upstream_ratio_key row \<and>
      oua_ok_req_s_median before = oua_ok_req_s_median row \<and>
      baseline_ratio (oua_ok_req_s_median before) (baseline_of (direct_values plain) (upstream_ratio_key before)) =
        Inr (oua_baseline_ratio row)"
    using mapE_image [OF plain [unfolded upstream_ratio_rows_def Let_def] assms(2)]
    by (force simp: bindE_ok direct_values_def upstream_ratio_key_def)
  then have "baseline_ratio (oua_ok_req_s_median row) (baseline_of (direct_values rows) (upstream_ratio_key row)) =
      Inr (oua_baseline_ratio row)"
    using direct_values_keep [OF plain] by auto
  then have ratio: "baseline_ratio (oua_ok_req_s_median row)
      (if direct_rows row rows = [] then None else Some (oua_ok_req_s_median (last (direct_rows row rows)))) =
      Inr (oua_baseline_ratio row)"
    by (simp only: direct_values_def upstream_baseline)
  have "oua_baseline_ratio row = Some (Fin 1)"
    if "direct_rows row rows = [row]" "oua_ok_req_s_median row = Fin x" "0 < x" for x
    using ratio that by (simp add: ratio_of_itself)
  with ratio show ?thesis
    by (auto simp: Let_def baseline_ratio_def bindE_ok split: pyfloat.splits if_splits)
qed

definition upstream_run :: "string \<Rightarrow> pyfloat \<Rightarrow> OneUpstreamResult" where
  "upstream_run profile rate =
     \<lparr>our_client = ''foghttp'', our_mode = ''async'', our_case = profile, our_group = ''get'',
      our_profile = profile, our_concurrency = 4, our_request_limit = 4, our_requests = 8, our_repeat = 1,
      our_duration_s = Fin 1, our_requests_per_second = rate, our_ok_requests_per_second = rate,
      our_ok_requests = 8, our_p50_ms = Fin 1, our_p95_ms = Fin 1, our_p99_ms = Fin 1, our_errors = 0,
      our_warmup_errors = 0, our_error_types = [], our_warmup_error_types = [], our_peak_rss_mb = Some (Fin 64),
      our_peak_threads = None, our_peak_fds = Some 9, our_client_stats = None\<rparr>"

lemma upstream_group_median:
  "upstream_group (k, items) = Inr row \<Longrightarrow> stat_median (map our_ok_requests_per_second items) = Inr (oua_ok_req_s_median row)"
  by (cases k) (auto simp: upstream_group_def bindE_ok)

lemma upstream_ratio_relative_witness:
  "\<exists>rows. aggregate_one_upstream_results [upstream_run ''direct'' (Fin 8)] = Inr rows \<and>
     map oua_baseline_ratio rows = [Some (Fin 1)]"
proof -
  let ?run = "upstream_run ''direct'' (Fin 8)"
  obtain rows where rows: "aggregate_one_upstream_results [?run] = Inr rows"
    using upstream_accounted [of "[?run]"] by (auto simp: upstream_run_def upstream_measured_def)
  then obtain plain where plain: "upstream_group (upstream_key ?run, [?run]) = Inr plain"
      "upstream_ratio_rows [plain] = Inr rows"
    by (auto simp: aggregate_one_upstream_results_def group_by_def bindE_ok list_all2_Cons1)
  from plain(2) obtain row where row: "rows = [row]" "\<exists>ratio. row = plain\<lparr>oua_baseline_ratio := ratio\<rparr>"
    by (auto simp: upstream_ratio_rows_def bindE_ok list_all2_Cons1)
  have "oua_profile plain = ''direct''"
    using upstream_rows.build_key [OF plain(1)] by (simp add: upstream_row_key_def upstream_key_def upstream_run_def)
  moreover have "oua_ok_req_s_median plain = Fin 8"
    using upstream_group_median [OF plain(1)] by (simp add: stat_median_def upstream_run_def)
  ultimately have "direct_rows row rows = [row]" "oua_ok_req_s_median row = Fin 8"
    using row by (auto simp: direct_rows_def)
  then show ?thesis using upstream_ratio_relative [OF rows, of row] rows row(1) by simp
qed

subsection \<open>Proxy connect\<close>

record ProxyStatsDelta =
  pd_http_requests :: int
  pd_connect_requests :: int
  pd_proxy_authorization_headers :: int
  pd_tunnel_client_bytes :: int
  pd_tunnel_upstream_bytes :: int

record ProxyConnectResult =
  pcr_client :: string
  pcr_mode :: string
  pcr_case :: string
  pcr_group :: string
  pcr_target_scheme :: string
  pcr_config :: string
  pcr_lifecycle :: string
  pcr_concurrency :: int
  pcr_request_limit :: int
  pcr_requests :: int
  pcr_repeat :: int
  pcr_duration_s :: pyfloat
  pcr_requests_per_second :: pyfloat
  pcr_ok_requests_per_second :: pyfloat
  pcr_ok_requests :: int
  pcr_p50_ms :: pyfloat
  pcr_p95_ms :: pyfloat
  pcr_p99_ms :: pyfloat
  pcr_errors :: int
  pcr_warmup_errors :: int
  pcr_error_types :: "(string \<times> int) list"
  pcr_warmup_error_types :: "(string \<times> int) list"
  pcr_measured_proxy :: ProxyStatsDelta
  pcr_total_proxy :: ProxyStatsDelta
  pcr_peak_rss_mb :: "pyfloat option"
  pcr_peak_threads :: "int option"
  pcr_peak_fds :: "int option"
  pcr_client_stats :: "client_stats option"

record ProxyConnectAggregateRow =
  pca_mode :: string
  pca_client :: string
  pca_case :: string
  pca_group :: string
  pca_target_scheme :: string
  pca_config :: string
  pca_lifecycle :: string
  pca_concurrency :: int
  pca_request_limit :: int
  pca_requests :: int
  pca_repeats :: int
  pca_ok_requests_total :: int
  pca_errors_total :: int
  pca_warmup_errors_total :: int
  pca_error_rate_percent :: pyfloat
  pca_ok_req_s_median :: pyfloat
  pca_req_s_median :: pyfloat
  pca_req_s_cv_percent :: pyfloat
  pca_direct_ratio :: "pyfloat option"
  pca_p50_ms_median :: pyfloat
  pca_p95_ms_median :: pyfloat
  pca_p99_ms_median :: pyfloat
  pca_rss_mb_max :: json
  pca_threads_max :: json
  pca_fds_max :: json
  pca_measured_proxy_http_requests_max :: int
  pca_measured_proxy_connect_requests_max :: int
  pca_total_proxy_http_requests_max :: int
  pca_total_proxy_connect_requests_max :: int
  pca_proxy_authorization_headers_max :: int
  pca_final_connections_opened_max :: json
  pca_final_connections_reused_max :: json
  pca_final_connections_closed_max :: json
  pca_final_connections_aborted_max :: json
  pca_error_types :: "(string \<times> int) list"
  pca_resource_coverage :: resource_coverage

type_synonym proxy_key = "string \<times> string \<times> string \<times> string \<times> string \<times> string \<times> string \<times> int \<times> int"

definition proxy_key :: "ProxyConnectResult \<Rightarrow> proxy_key" where
  "proxy_key r =
     (pcr_mode r, pcr_client r, pcr_case r, pcr_group r, pcr_target_scheme r, pcr_config r, pcr_lifecycle r,
      pcr_concurrency r, pcr_request_limit r)"

definition config_order :: "string \<Rightarrow> int" where
  "config_order config =
     (case map_of [(''direct'', 0), (''explicit'', 1), (''trust-env'', 2)] config of None \<Rightarrow> 99 | Some n \<Rightarrow> n)"

definition proxy_sort_key :: "proxy_key \<Rightarrow> string \<times> string \<times> string \<times> int \<times> int \<times> int \<times> string \<times> string" where
  "proxy_sort_key key =
     (case key of (mode, client, case_name, group_name, target_scheme, config, lifecycle, concurrency, request_limit) \<Rightarrow>
        (mode, client, group_name, concurrency, request_limit, config_order config, lifecycle, case_name))"

text \<open>\<^verbatim>\<open>max\<close> of integers.\<close>

definition int_max :: "int list \<Rightarrow> int result" where
  "int_max values =
     (case values of
        [] \<Rightarrow> Inl (ValueError ''max() iterable argument is empty'')
      | n # ns \<Rightarrow> Inr (foldl max n ns))"

definition proxy_group :: "proxy_key \<times> ProxyConnectResult list \<Rightarrow> ProxyConnectAggregateRow result" where
  "proxy_group grouped =
     (case grouped of ((mode, client, case_name, group_name, target_scheme, config, lifecycle, concurrency, request_limit), items) \<Rightarrow>
        bindE (stat_median (map pcr_ok_requests_per_second items)) (\<lambda>ok_req_s_median.
        bindE (stat_median (map pcr_requests_per_second items)) (\<lambda>req_s_median.
        bindE (coefficient_of_variation (map pcr_requests_per_second items)) (\<lambda>req_s_cv_percent.
        bindE (stat_median (map pcr_p50_ms items)) (\<lambda>p50_ms_median.
        bindE (stat_median (map pcr_p95_ms items)) (\<lambda>p95_ms_median.
        bindE (stat_median (map pcr_p99_ms items)) (\<lambda>p99_ms_median.
        bindE (optional_resource_max (map (\<lambda>r. optional_float (pcr_peak_rss_mb r)) items)) (\<lambda>rss_mb_max.
        bindE (optional_resource_max (map (\<lambda>r. optional_int (pcr_peak_threads r)) items)) (\<lambda>threads_max.
        bindE (optional_resource_max (map (\<lambda>r. optional_int (pcr_peak_fds r)) items)) (\<lambda>fds_max.
        bindE (int_max (map (\<lambda>r. pd_http_requests (pcr_measured_proxy r)) items)) (\<lambda>measured_proxy_http_requests_max.
        bindE (int_max (map (\<lambda>r. pd_connect_requests (pcr_measured_proxy r)) items)) (\<lambda>measured_proxy_connect_requests_max.
        bindE (int_max (map (\<lambda>r. pd_http_requests (pcr_total_proxy r)) items)) (\<lambda>total_proxy_http_requests_max.
        bindE (int_max (map (\<lambda>r. pd_connect_requests (pcr_total_proxy r)) items)) (\<lambda>total_proxy_connect_requests_max.
        bindE (int_max (map (\<lambda>r. pd_proxy_authorization_headers (pcr_total_proxy r)) items)) (\<lambda>proxy_authorization_headers_max.
        bindE (optional_resource_max (map (\<lambda>r. client_stat ''connections_opened'' (pcr_client_stats r)) items)) (\<lambda>final_connections_opened_max.
        bindE (optional_resource_max (map (\<lambda>r. client_stat ''connections_reused'' (pcr_client_stats r)) items)) (\<lambda>final_connections_reused_max.
        bindE (optional_resource_max (map (\<lambda>r. client_stat ''connections_closed'' (pcr_client_stats r)) items)) (\<lambda>final_connections_closed_max.
        bindE (optional_resource_max (map (\<lambda>r. client_stat ''connections_aborted'' (pcr_client_stats r)) items)) (\<lambda>final_connections_aborted_max.
        bindE (resource_coverage
            [(''rss_mb_max'', map (\<lambda>r. optional_float (pcr_peak_rss_mb r)) items),
             (''threads_max'', map (\<lambda>r. optional_int (pcr_peak_threads r)) items),
             (''fds_max'', map (\<lambda>r. optional_int (pcr_peak_fds r)) items),
             (''final_connections_opened_max'', map (\<lambda>r. client_stat ''connections_opened'' (pcr_client_stats r)) items),
             (''final_connections_reused_max'', map (\<lambda>r. client_stat ''connections_reused'' (pcr_client_stats r)) items),
             (''final_connections_closed_max'', map (\<lambda>r. client_stat ''connections_closed'' (pcr_client_stats r)) items),
             (''final_connections_aborted_max'', map (\<lambda>r. client_stat ''connections_aborted'' (pcr_client_stats r)) items)]) (\<lambda>coverage.
          Inr \<lparr>pca_mode = mode, pca_client = client, pca_case = case_name, pca_group = group_name,
               pca_target_scheme = target_scheme, pca_config = config, pca_lifecycle = lifecycle,
               pca_concurrency = concurrency, pca_request_limit = request_limit,
               pca_requests = pcr_requests (hd items), pca_repeats = int (length items),
               pca_ok_requests_total = sum_list (map pcr_ok_requests items),
               pca_errors_total = sum_list (map pcr_errors items),
               pca_warmup_errors_total = sum_list (map pcr_warmup_errors items),
               pca_error_rate_percent = error_rate (sum_list (map pcr_errors items)) (sum_list (map pcr_requests items)),
               pca_ok_req_s_median = ok_req_s_median, pca_req_s_median = req_s_median,
               pca_req_s_cv_percent = req_s_cv_percent, pca_direct_ratio = None,
               pca_p50_ms_median = p50_ms_median, pca_p95_ms_median = p95_ms_median,
               pca_p99_ms_median = p99_ms_median, pca_rss_mb_max = rss_mb_max, pca_threads_max = threads_max,
               pca_fds_max = fds_max, pca_measured_proxy_http_requests_max = measured_proxy_http_requests_max,
               pca_measured_proxy_connect_requests_max = measured_proxy_connect_requests_max,
               pca_total_proxy_http_requests_max = total_proxy_http_requests_max,
               pca_total_proxy_connect_requests_max = total_proxy_connect_requests_max,
               pca_proxy_authorization_headers_max = proxy_authorization_headers_max,
               pca_final_connections_opened_max = final_connections_opened_max,
               pca_final_connections_reused_max = final_connections_reused_max,
               pca_final_connections_closed_max = final_connections_closed_max,
               pca_final_connections_aborted_max = final_connections_aborted_max,
               pca_error_types = merge_error_types (map pcr_error_types items),
               pca_resource_coverage = coverage\<rparr>))))))))))))))))))))"

definition proxy_row_json :: "ProxyConnectAggregateRow \<Rightarrow> obj" where
  "proxy_row_json r =
     [(''mode'', JStr (pca_mode r)), (''client'', JStr (pca_client r)), (''case'', JStr (pca_case r)),
      (''group'', JStr (pca_group r)), (''target_scheme'', JStr (pca_target_scheme r)),
      (''config'', JStr (pca_config r)), (''lifecycle'', JStr (pca_lifecycle r)),
      (''concurrency'', JInt (pca_concurrency r)), (''request_limit'', JInt (pca_request_limit r)),
      (''requests'', JInt (pca_requests r)), (''repeats'', JInt (pca_repeats r)),
      (''ok_requests_total'', JInt (pca_ok_requests_total r)), (''errors_total'', JInt (pca_errors_total r)),
      (''warmup_errors_total'', JInt (pca_warmup_errors_total r)),
      (''error_rate_percent'', JFloat (pca_error_rate_percent r)),
      (''ok_req_s_median'', JFloat (pca_ok_req_s_median r)), (''req_s_median'', JFloat (pca_req_s_median r)),
      (''req_s_cv_percent'', JFloat (pca_req_s_cv_percent r)),
      (''direct_ratio'', optional_float (pca_direct_ratio r)),
      (''p50_ms_median'', JFloat (pca_p50_ms_median r)), (''p95_ms_median'', JFloat (pca_p95_ms_median r)),
      (''p99_ms_median'', JFloat (pca_p99_ms_median r)), (''rss_mb_max'', pca_rss_mb_max r),
      (''threads_max'', pca_threads_max r), (''fds_max'', pca_fds_max r),
      (''measured_proxy_http_requests_max'', JInt (pca_measured_proxy_http_requests_max r)),
      (''measured_proxy_connect_requests_max'', JInt (pca_measured_proxy_connect_requests_max r)),
      (''total_proxy_http_requests_max'', JInt (pca_total_proxy_http_requests_max r)),
      (''total_proxy_connect_requests_max'', JInt (pca_total_proxy_connect_requests_max r)),
      (''proxy_authorization_headers_max'', JInt (pca_proxy_authorization_headers_max r)),
      (''final_connections_opened_max'', pca_final_connections_opened_max r),
      (''final_connections_reused_max'', pca_final_connections_reused_max r),
      (''final_connections_closed_max'', pca_final_connections_closed_max r),
      (''final_connections_aborted_max'', pca_final_connections_aborted_max r),
      (''error_types'', counter_json (pca_error_types r)),
      (''resource_coverage'', coverage_json (pca_resource_coverage r))]"

text \<open>The cast of the finalized ratio: the finalization gives a float or null.\<close>

definition ratio_value :: "json \<Rightarrow> pyfloat option" where
  "ratio_value v = (case v of JFloat x \<Rightarrow> Some x | _ \<Rightarrow> None)"

definition rows_with_direct_ratios :: "ProxyConnectAggregateRow list \<Rightarrow> ProxyConnectAggregateRow list result" where
  "rows_with_direct_ratios rows =
     bindE (finalize_proxy_connect_rows (map proxy_row_json rows)) (\<lambda>finalized.
       Inr (map2 (\<lambda>row normalized. row\<lparr>pca_direct_ratio := ratio_value (get normalized ''direct_ratio'')\<rparr>)
         rows finalized))"

definition aggregate_proxy_connect_results :: "ProxyConnectResult list \<Rightarrow> ProxyConnectAggregateRow list result" where
  "aggregate_proxy_connect_results results =
     bindE (mapE proxy_group (sort_key (\<lambda>g. proxy_sort_key (fst g)) (group_by proxy_key results)))
       rows_with_direct_ratios"

definition proxy_row_key :: "ProxyConnectAggregateRow \<Rightarrow> proxy_key" where
  "proxy_row_key r =
     (pca_mode r, pca_client r, pca_case r, pca_group r, pca_target_scheme r, pca_config r, pca_lifecycle r,
      pca_concurrency r, pca_request_limit r)"

interpretation proxy_rows: aggregation proxy_key proxy_sort_key proxy_group proxy_row_key pca_repeats
  by unfold_locales (auto simp: proxy_group_def proxy_row_key_def bindE_ok)

text \<open>The ratios of the typed rows are those of their JSON form.\<close>

lemma map_zip_keep: "length ys = length xs \<Longrightarrow> (\<And>x y. h (f x y) = h x) \<Longrightarrow> map h (map2 f xs ys) = map h xs"
  by (induction ys xs rule: list_induct2) auto

lemma direct_ratios_keep:
  assumes "rows_with_direct_ratios rows = Inr rows'"
  shows "map proxy_row_key rows' = map proxy_row_key rows" "map pca_repeats rows' = map pca_repeats rows"
proof -
  obtain finalized where finalized: "length finalized = length rows"
      "rows' = map2 (\<lambda>row normalized. row\<lparr>pca_direct_ratio := ratio_value (get normalized ''direct_ratio'')\<rparr>)
         rows finalized"
    using assms by (auto simp: rows_with_direct_ratios_def finalize_proxy_connect_rows_def bindE_ok dest!: mapE_length)
  show "map proxy_row_key rows' = map proxy_row_key rows"
    unfolding finalized(2) by (rule map_zip_keep [OF finalized(1)]) (simp add: proxy_row_key_def)
  show "map pca_repeats rows' = map pca_repeats rows"
    unfolding finalized(2) by (rule map_zip_keep [OF finalized(1)]) simp
qed

lemma proxy_accounted:
  assumes "aggregate_proxy_connect_results results = Inr rows"
  shows "accounted proxy_key proxy_sort_key proxy_row_key pca_repeats results rows"
proof -
  obtain plain where plain:
      "mapE proxy_group (sort_key (\<lambda>g. proxy_sort_key (fst g)) (group_by proxy_key results)) = Inr plain"
      "rows_with_direct_ratios plain = Inr rows"
    using assms unfolding aggregate_proxy_connect_results_def bindE_ok by blast
  from proxy_rows.rows_accounted [OF plain(1)] show ?thesis
    by (simp add: accounted_keep [OF direct_ratios_keep [OF plain(2)]])
qed

end
