(* ===== verification/Resource_Reports.thy ===== *)
theory Resource_Reports
  imports Aggregation
begin

text \<open>
  resource/reporting/aggregation.py, metrics.py and models.py, with the record of models.py: the rows of
  the resource backpressure suite. A key is the tuple of \<^verbatim>\<open>ResourceAggregateKey\<close>.
\<close>

record ResourceBackpressureResult =
  bpr_client :: string
  bpr_mode :: string
  bpr_scenario :: string
  bpr_concurrency :: int
  bpr_request_limit :: int
  bpr_per_origin_request_limit :: "int option"
  bpr_max_pending_requests :: int
  bpr_max_response_body_size :: "int option"
  bpr_max_buffered_response_bytes :: "int option"
  bpr_pool_timeout_s :: pyfloat
  bpr_requests :: int
  bpr_warmup :: int
  bpr_repeat :: int
  bpr_duration_s :: pyfloat
  bpr_ok_requests :: int
  bpr_errors :: int
  bpr_warmup_errors :: int
  bpr_error_types :: "(string \<times> int) list"
  bpr_warmup_error_types :: "(string \<times> int) list"
  bpr_p50_ms :: pyfloat
  bpr_p95_ms :: pyfloat
  bpr_p99_ms :: pyfloat
  bpr_peak_rss_mb :: "pyfloat option"
  bpr_peak_threads :: "int option"
  bpr_peak_fds :: "int option"
  bpr_peak_active_requests :: "int option"
  bpr_peak_pending_requests :: "int option"
  bpr_peak_buffered_response_bytes :: "int option"
  bpr_client_stats :: "client_stats option"
  bpr_recovery_ok :: "bool option"
  bpr_recovery_error :: "string option"

record ResourceAggregateRow =
  bpa_mode :: string
  bpa_client :: string
  bpa_scenario :: string
  bpa_concurrency :: int
  bpa_request_limit :: int
  bpa_per_origin_request_limit :: "int option"
  bpa_max_pending_requests :: int
  bpa_max_buffered_response_bytes :: "int option"
  bpa_requests :: int
  bpa_repeats :: int
  bpa_ok_requests_total :: int
  bpa_errors_total :: int
  bpa_warmup_errors_total :: int
  bpa_error_rate_percent :: pyfloat
  bpa_p50_ms_median :: pyfloat
  bpa_p95_ms_median :: pyfloat
  bpa_p99_ms_median :: pyfloat
  bpa_duration_s_median :: pyfloat
  bpa_duration_s_cv_percent :: pyfloat
  bpa_rss_mb_max :: json
  bpa_threads_max :: json
  bpa_fds_max :: json
  bpa_peak_active_requests_max :: json
  bpa_peak_pending_requests_max :: json
  bpa_peak_buffered_response_bytes_max :: json
  bpa_final_failed_requests_max :: json
  bpa_final_pool_timeouts_max :: json
  bpa_final_buffered_response_bytes_max :: json
  bpa_final_buffered_response_budget_rejections_max :: json
  bpa_recovery_failures :: int
  bpa_error_types :: "(string \<times> int) list"
  bpa_warmup_error_types :: "(string \<times> int) list"
  bpa_resource_coverage :: resource_coverage

record ResourceAggregateKey =
  rk_mode :: string
  rk_client :: string
  rk_scenario :: string
  rk_concurrency :: int
  rk_request_limit :: int
  rk_per_origin_request_limit :: "int option"
  rk_max_pending_requests :: int
  rk_max_buffered_response_bytes :: "int option"

definition from_result :: "ResourceBackpressureResult \<Rightarrow> ResourceAggregateKey" where
  "from_result r =
     \<lparr>rk_mode = bpr_mode r, rk_client = bpr_client r, rk_scenario = bpr_scenario r,
      rk_concurrency = bpr_concurrency r, rk_request_limit = bpr_request_limit r,
      rk_per_origin_request_limit = bpr_per_origin_request_limit r,
      rk_max_pending_requests = bpr_max_pending_requests r,
      rk_max_buffered_response_bytes = bpr_max_buffered_response_bytes r\<rparr>"

definition limit_order :: "int option \<Rightarrow> int" where
  "limit_order limit = (case limit of None \<Rightarrow> -1 | Some n \<Rightarrow> n)"

definition resource_sort_key ::
  "ResourceAggregateKey \<Rightarrow> string \<times> string \<times> string \<times> int \<times> int \<times> int \<times> int \<times> int"
where
  "resource_sort_key k =
     (rk_mode k, rk_client k, rk_scenario k, rk_concurrency k, rk_request_limit k,
      limit_order (rk_per_origin_request_limit k), rk_max_pending_requests k,
      limit_order (rk_max_buffered_response_bytes k))"

definition resource_group :: "ResourceAggregateKey \<times> ResourceBackpressureResult list \<Rightarrow> ResourceAggregateRow result" where
  "resource_group grouped =
     (case grouped of (key, items) \<Rightarrow>
        bindE (stat_median (map bpr_p50_ms items)) (\<lambda>p50_ms_median.
        bindE (stat_median (map bpr_p95_ms items)) (\<lambda>p95_ms_median.
        bindE (stat_median (map bpr_p99_ms items)) (\<lambda>p99_ms_median.
        bindE (stat_median (map bpr_duration_s items)) (\<lambda>duration_s_median.
        bindE (coefficient_of_variation (map bpr_duration_s items)) (\<lambda>duration_s_cv_percent.
        bindE (optional_resource_max (map (\<lambda>r. optional_float (bpr_peak_rss_mb r)) items)) (\<lambda>rss_mb_max.
        bindE (optional_resource_max (map (\<lambda>r. optional_int (bpr_peak_threads r)) items)) (\<lambda>threads_max.
        bindE (optional_resource_max (map (\<lambda>r. optional_int (bpr_peak_fds r)) items)) (\<lambda>fds_max.
        bindE (optional_resource_max (map (\<lambda>r. optional_int (bpr_peak_active_requests r)) items)) (\<lambda>peak_active_requests_max.
        bindE (optional_resource_max (map (\<lambda>r. optional_int (bpr_peak_pending_requests r)) items)) (\<lambda>peak_pending_requests_max.
        bindE (optional_resource_max (map (\<lambda>r. optional_int (bpr_peak_buffered_response_bytes r)) items)) (\<lambda>peak_buffered_response_bytes_max.
        bindE (optional_resource_max (map (\<lambda>r. client_stat ''failed_requests'' (bpr_client_stats r)) items)) (\<lambda>final_failed_requests_max.
        bindE (optional_resource_max (map (\<lambda>r. client_stat ''pool_acquire_timeouts'' (bpr_client_stats r)) items)) (\<lambda>final_pool_timeouts_max.
        bindE (optional_resource_max (map (\<lambda>r. client_stat ''buffered_response_bytes'' (bpr_client_stats r)) items)) (\<lambda>final_buffered_response_bytes_max.
        bindE (optional_resource_max (map (\<lambda>r. client_stat ''buffered_response_budget_rejections'' (bpr_client_stats r)) items)) (\<lambda>final_buffered_response_budget_rejections_max.
        bindE (resource_coverage
            [(''rss_mb_max'', map (\<lambda>r. optional_float (bpr_peak_rss_mb r)) items),
             (''threads_max'', map (\<lambda>r. optional_int (bpr_peak_threads r)) items),
             (''fds_max'', map (\<lambda>r. optional_int (bpr_peak_fds r)) items),
             (''peak_active_requests_max'', map (\<lambda>r. optional_int (bpr_peak_active_requests r)) items),
             (''peak_pending_requests_max'', map (\<lambda>r. optional_int (bpr_peak_pending_requests r)) items),
             (''peak_buffered_response_bytes_max'', map (\<lambda>r. optional_int (bpr_peak_buffered_response_bytes r)) items),
             (''final_failed_requests_max'', map (\<lambda>r. client_stat ''failed_requests'' (bpr_client_stats r)) items),
             (''final_pool_timeouts_max'', map (\<lambda>r. client_stat ''pool_acquire_timeouts'' (bpr_client_stats r)) items),
             (''final_buffered_response_bytes_max'', map (\<lambda>r. client_stat ''buffered_response_bytes'' (bpr_client_stats r)) items),
             (''final_buffered_response_budget_rejections_max'', map (\<lambda>r. client_stat ''buffered_response_budget_rejections'' (bpr_client_stats r)) items)]) (\<lambda>coverage.
          Inr \<lparr>bpa_mode = rk_mode key, bpa_client = rk_client key, bpa_scenario = rk_scenario key,
               bpa_concurrency = rk_concurrency key, bpa_request_limit = rk_request_limit key,
               bpa_per_origin_request_limit = rk_per_origin_request_limit key,
               bpa_max_pending_requests = rk_max_pending_requests key,
               bpa_max_buffered_response_bytes = rk_max_buffered_response_bytes key,
               bpa_requests = bpr_requests (hd items), bpa_repeats = int (length items),
               bpa_ok_requests_total = sum_list (map bpr_ok_requests items),
               bpa_errors_total = sum_list (map bpr_errors items),
               bpa_warmup_errors_total = sum_list (map bpr_warmup_errors items),
               bpa_error_rate_percent = error_rate (sum_list (map bpr_errors items)) (sum_list (map bpr_requests items)),
               bpa_p50_ms_median = p50_ms_median, bpa_p95_ms_median = p95_ms_median,
               bpa_p99_ms_median = p99_ms_median, bpa_duration_s_median = duration_s_median,
               bpa_duration_s_cv_percent = duration_s_cv_percent, bpa_rss_mb_max = rss_mb_max,
               bpa_threads_max = threads_max, bpa_fds_max = fds_max,
               bpa_peak_active_requests_max = peak_active_requests_max,
               bpa_peak_pending_requests_max = peak_pending_requests_max,
               bpa_peak_buffered_response_bytes_max = peak_buffered_response_bytes_max,
               bpa_final_failed_requests_max = final_failed_requests_max,
               bpa_final_pool_timeouts_max = final_pool_timeouts_max,
               bpa_final_buffered_response_bytes_max = final_buffered_response_bytes_max,
               bpa_final_buffered_response_budget_rejections_max = final_buffered_response_budget_rejections_max,
               bpa_recovery_failures = int (length (filter (\<lambda>r. bpr_recovery_ok r = Some False) items)),
               bpa_error_types = merge_error_types (map bpr_error_types items),
               bpa_warmup_error_types = merge_error_types (map bpr_warmup_error_types items),
               bpa_resource_coverage = coverage\<rparr>)))))))))))))))))"

definition aggregate_resource_results :: "ResourceBackpressureResult list \<Rightarrow> ResourceAggregateRow list result" where
  "aggregate_resource_results results =
     mapE resource_group (sort_key (\<lambda>g. resource_sort_key (fst g)) (group_by from_result results))"

definition resource_row_key :: "ResourceAggregateRow \<Rightarrow> ResourceAggregateKey" where
  "resource_row_key r =
     \<lparr>rk_mode = bpa_mode r, rk_client = bpa_client r, rk_scenario = bpa_scenario r,
      rk_concurrency = bpa_concurrency r, rk_request_limit = bpa_request_limit r,
      rk_per_origin_request_limit = bpa_per_origin_request_limit r,
      rk_max_pending_requests = bpa_max_pending_requests r,
      rk_max_buffered_response_bytes = bpa_max_buffered_response_bytes r\<rparr>"

interpretation resource_rows: aggregation from_result resource_sort_key resource_group resource_row_key bpa_repeats
  by unfold_locales (auto simp: resource_group_def resource_row_key_def bindE_ok)

definition resource_measured :: "ResourceBackpressureResult \<Rightarrow> bool" where
  "resource_measured r \<longleftrightarrow> is_finite (bpr_duration_s r) \<and> pred_option is_finite (bpr_peak_rss_mb r)"

lemma resource_group_total:
  assumes "items \<noteq> []" "list_all resource_measured items"
  shows "\<exists>row. resource_group (k, items) = Inr row"
  using assms unfolding resource_group_def prod.case
  by (intro bindE_total median_map_total variation_total resource_max_total coverage_total)
    (simp_all add: list_all_iff resource_measured_def observation_optional)

lemma resource_accounted:
  assumes "list_all resource_measured results"
  shows "\<exists>rows. aggregate_resource_results results = Inr rows \<and>
    accounted from_result resource_sort_key resource_row_key bpa_repeats results rows"
proof -
  have "\<exists>rows. mapE resource_group (sort_key (\<lambda>g. resource_sort_key (fst g)) (group_by from_result results)) = Inr rows"
    using assms by (intro resource_rows.rows_total resource_group_total) (auto simp: list_all_iff)
  then show ?thesis using resource_rows.rows_accounted unfolding aggregate_resource_results_def by blast
qed

text \<open>Two limits of which one is absent and the other -1 are sorted alike but stay apart as keys.\<close>

lemma sort_key_groups: "resource_sort_key k = resource_sort_key l \<Longrightarrow>
  rk_per_origin_request_limit k \<noteq> Some (-1) \<Longrightarrow> rk_per_origin_request_limit l \<noteq> Some (-1) \<Longrightarrow>
  rk_max_buffered_response_bytes k \<noteq> Some (-1) \<Longrightarrow> rk_max_buffered_response_bytes l \<noteq> Some (-1) \<Longrightarrow> k = l"
  by (cases k; cases l) (auto simp: resource_sort_key_def limit_order_def split: option.splits)

end
