(* ===== verification/Streaming_Reports.thy ===== *)
theory Streaming_Reports
  imports Aggregation
begin

text \<open>
  streaming/reports.py with the records of streaming/models.py: the rows of the response streaming suite
  outside its research profiles.
\<close>

record StreamingResult =
  smr_client :: string
  smr_mode :: string
  smr_case :: string
  smr_read :: string
  smr_consume :: string
  smr_concurrency :: int
  smr_request_limit :: int
  smr_requests :: int
  smr_repeat :: int
  smr_duration_s :: pyfloat
  smr_streams_per_second :: pyfloat
  smr_ok_streams_per_second :: pyfloat
  smr_ok_streams :: int
  smr_bytes_read_total :: int
  smr_mb_per_second :: pyfloat
  smr_chunks_read_total :: int
  smr_text_chars_read_total :: int
  smr_lines_read_total :: int
  smr_lines_per_second :: pyfloat
  smr_p50_ms :: pyfloat
  smr_p95_ms :: pyfloat
  smr_p99_ms :: pyfloat
  smr_first_chunk_p50_ms :: "pyfloat option"
  smr_first_chunk_p95_ms :: "pyfloat option"
  smr_errors :: int
  smr_warmup_errors :: int
  smr_error_types :: "(string \<times> int) list"
  smr_warmup_error_types :: "(string \<times> int) list"
  smr_peak_rss_mb :: "pyfloat option"
  smr_peak_threads :: "int option"
  smr_peak_fds :: "int option"
  smr_client_stats :: "client_stats option"
  smr_verified_eof_bytes_total :: int
  smr_verified_eof_chunks_total :: int
  smr_throughput_scope :: string
  smr_timing_scope :: string

record StreamingAggregateRow =
  sma_mode :: string
  sma_client :: string
  sma_case :: string
  sma_read :: string
  sma_consume :: string
  sma_concurrency :: int
  sma_request_limit :: int
  sma_requests :: int
  sma_repeats :: int
  sma_ok_streams_total :: int
  sma_errors_total :: int
  sma_warmup_errors_total :: int
  sma_warmup_error_types :: "(string \<times> int) list"
  sma_error_rate_percent :: pyfloat
  sma_ok_streams_s_median :: pyfloat
  sma_streams_s_median :: pyfloat
  sma_streams_s_cv_percent :: pyfloat
  sma_mb_s_median :: pyfloat
  sma_lines_s_median :: pyfloat
  sma_text_chars_read_total :: int
  sma_lines_read_total :: int
  sma_p50_ms_median :: pyfloat
  sma_p95_ms_median :: pyfloat
  sma_p99_ms_median :: pyfloat
  sma_first_chunk_p50_ms_median :: "pyfloat option"
  sma_first_chunk_p95_ms_median :: "pyfloat option"
  sma_rss_mb_max :: json
  sma_threads_max :: json
  sma_fds_max :: json
  sma_final_active_requests_max :: json
  sma_final_response_body_closed_max :: json
  sma_final_response_body_reuse_eligible_max :: json
  sma_final_response_body_aborted_max :: json
  sma_final_connections_opened_max :: json
  sma_final_connections_reused_max :: json
  sma_final_connections_closed_max :: json
  sma_final_connections_aborted_max :: json
  sma_final_idle_connections_max :: json
  sma_error_types :: "(string \<times> int) list"
  sma_bytes_read_total :: int
  sma_chunks_read_total :: int
  sma_verified_eof_bytes_total :: int
  sma_verified_eof_chunks_total :: int
  sma_throughput_scope :: string
  sma_timing_scope :: string
  sma_resource_coverage :: resource_coverage

type_synonym streaming_key = "string \<times> string \<times> string \<times> string \<times> string \<times> int \<times> int \<times> string \<times> string"

definition streaming_key :: "StreamingResult \<Rightarrow> streaming_key" where
  "streaming_key r =
     (smr_mode r, smr_client r, smr_case r, smr_read r, smr_consume r, smr_concurrency r, smr_request_limit r,
      smr_throughput_scope r, smr_timing_scope r)"

definition streaming_group :: "streaming_key \<times> StreamingResult list \<Rightarrow> StreamingAggregateRow result" where
  "streaming_group grouped =
     (case grouped of ((mode, client, case_name, read, consume, concurrency, request_limit, throughput_scope, timing_scope_name), items) \<Rightarrow>
        bindE (stat_median (map smr_ok_streams_per_second items)) (\<lambda>ok_streams_s_median.
        bindE (stat_median (map smr_streams_per_second items)) (\<lambda>streams_s_median.
        bindE (coefficient_of_variation (map smr_streams_per_second items)) (\<lambda>streams_s_cv_percent.
        bindE (stat_median (map smr_mb_per_second items)) (\<lambda>mb_s_median.
        bindE (stat_median (map smr_lines_per_second items)) (\<lambda>lines_s_median.
        bindE (stat_median (map smr_p50_ms items)) (\<lambda>p50_ms_median.
        bindE (stat_median (map smr_p95_ms items)) (\<lambda>p95_ms_median.
        bindE (stat_median (map smr_p99_ms items)) (\<lambda>p99_ms_median.
        bindE (optional_median (map smr_first_chunk_p50_ms items)) (\<lambda>first_chunk_p50_ms_median.
        bindE (optional_median (map smr_first_chunk_p95_ms items)) (\<lambda>first_chunk_p95_ms_median.
        bindE (optional_resource_max (map (\<lambda>r. optional_float (smr_peak_rss_mb r)) items)) (\<lambda>rss_mb_max.
        bindE (optional_resource_max (map (\<lambda>r. optional_int (smr_peak_threads r)) items)) (\<lambda>threads_max.
        bindE (optional_resource_max (map (\<lambda>r. optional_int (smr_peak_fds r)) items)) (\<lambda>fds_max.
        bindE (optional_resource_max (map (\<lambda>r. client_stat ''active_requests'' (smr_client_stats r)) items)) (\<lambda>final_active_requests_max.
        bindE (optional_resource_max (map (\<lambda>r. client_stat ''response_body_closed'' (smr_client_stats r)) items)) (\<lambda>final_response_body_closed_max.
        bindE (optional_resource_max (map (\<lambda>r. client_stat ''response_body_reuse_eligible'' (smr_client_stats r)) items)) (\<lambda>final_response_body_reuse_eligible_max.
        bindE (optional_resource_max (map (\<lambda>r. client_stat ''response_body_aborted'' (smr_client_stats r)) items)) (\<lambda>final_response_body_aborted_max.
        bindE (optional_resource_max (map (\<lambda>r. client_stat ''connections_opened'' (smr_client_stats r)) items)) (\<lambda>final_connections_opened_max.
        bindE (optional_resource_max (map (\<lambda>r. client_stat ''connections_reused'' (smr_client_stats r)) items)) (\<lambda>final_connections_reused_max.
        bindE (optional_resource_max (map (\<lambda>r. client_stat ''connections_closed'' (smr_client_stats r)) items)) (\<lambda>final_connections_closed_max.
        bindE (optional_resource_max (map (\<lambda>r. client_stat ''connections_aborted'' (smr_client_stats r)) items)) (\<lambda>final_connections_aborted_max.
        bindE (optional_resource_max (map (\<lambda>r. client_stat ''idle_connections'' (smr_client_stats r)) items)) (\<lambda>final_idle_connections_max.
        bindE (resource_coverage
            [(''rss_mb_max'', map (\<lambda>r. optional_float (smr_peak_rss_mb r)) items),
             (''threads_max'', map (\<lambda>r. optional_int (smr_peak_threads r)) items),
             (''fds_max'', map (\<lambda>r. optional_int (smr_peak_fds r)) items),
             (''final_active_requests_max'', map (\<lambda>r. client_stat ''active_requests'' (smr_client_stats r)) items),
             (''final_response_body_closed_max'', map (\<lambda>r. client_stat ''response_body_closed'' (smr_client_stats r)) items),
             (''final_response_body_reuse_eligible_max'', map (\<lambda>r. client_stat ''response_body_reuse_eligible'' (smr_client_stats r)) items),
             (''final_response_body_aborted_max'', map (\<lambda>r. client_stat ''response_body_aborted'' (smr_client_stats r)) items),
             (''final_connections_opened_max'', map (\<lambda>r. client_stat ''connections_opened'' (smr_client_stats r)) items),
             (''final_connections_reused_max'', map (\<lambda>r. client_stat ''connections_reused'' (smr_client_stats r)) items),
             (''final_connections_closed_max'', map (\<lambda>r. client_stat ''connections_closed'' (smr_client_stats r)) items),
             (''final_connections_aborted_max'', map (\<lambda>r. client_stat ''connections_aborted'' (smr_client_stats r)) items),
             (''final_idle_connections_max'', map (\<lambda>r. client_stat ''idle_connections'' (smr_client_stats r)) items)]) (\<lambda>coverage.
          Inr \<lparr>sma_mode = mode, sma_client = client, sma_case = case_name, sma_read = read,
               sma_consume = consume, sma_concurrency = concurrency, sma_request_limit = request_limit,
               sma_requests = smr_requests (hd items), sma_repeats = int (length items),
               sma_ok_streams_total = sum_list (map smr_ok_streams items),
               sma_errors_total = sum_list (map smr_errors items),
               sma_warmup_errors_total = sum_list (map smr_warmup_errors items),
               sma_warmup_error_types = merge_error_types (map smr_warmup_error_types items),
               sma_error_rate_percent = error_rate (sum_list (map smr_errors items)) (sum_list (map smr_requests items)),
               sma_ok_streams_s_median = ok_streams_s_median, sma_streams_s_median = streams_s_median,
               sma_streams_s_cv_percent = streams_s_cv_percent, sma_mb_s_median = mb_s_median,
               sma_lines_s_median = lines_s_median,
               sma_text_chars_read_total = sum_list (map smr_text_chars_read_total items),
               sma_lines_read_total = sum_list (map smr_lines_read_total items),
               sma_p50_ms_median = p50_ms_median, sma_p95_ms_median = p95_ms_median,
               sma_p99_ms_median = p99_ms_median, sma_first_chunk_p50_ms_median = first_chunk_p50_ms_median,
               sma_first_chunk_p95_ms_median = first_chunk_p95_ms_median, sma_rss_mb_max = rss_mb_max,
               sma_threads_max = threads_max, sma_fds_max = fds_max,
               sma_final_active_requests_max = final_active_requests_max,
               sma_final_response_body_closed_max = final_response_body_closed_max,
               sma_final_response_body_reuse_eligible_max = final_response_body_reuse_eligible_max,
               sma_final_response_body_aborted_max = final_response_body_aborted_max,
               sma_final_connections_opened_max = final_connections_opened_max,
               sma_final_connections_reused_max = final_connections_reused_max,
               sma_final_connections_closed_max = final_connections_closed_max,
               sma_final_connections_aborted_max = final_connections_aborted_max,
               sma_final_idle_connections_max = final_idle_connections_max,
               sma_error_types = merge_error_types (map smr_error_types items),
               sma_bytes_read_total = sum_list (map smr_bytes_read_total items),
               sma_chunks_read_total = sum_list (map smr_chunks_read_total items),
               sma_verified_eof_bytes_total = sum_list (map smr_verified_eof_bytes_total items),
               sma_verified_eof_chunks_total = sum_list (map smr_verified_eof_chunks_total items),
               sma_throughput_scope = throughput_scope, sma_timing_scope = timing_scope_name,
               sma_resource_coverage = coverage\<rparr>))))))))))))))))))))))))"

definition aggregate_streaming_results :: "StreamingResult list \<Rightarrow> StreamingAggregateRow list result" where
  "aggregate_streaming_results results = mapE streaming_group (sort_key fst (group_by streaming_key results))"

definition streaming_row_key :: "StreamingAggregateRow \<Rightarrow> streaming_key" where
  "streaming_row_key r =
     (sma_mode r, sma_client r, sma_case r, sma_read r, sma_consume r, sma_concurrency r, sma_request_limit r,
      sma_throughput_scope r, sma_timing_scope r)"

interpretation streaming_rows: aggregation streaming_key "\<lambda>k. k" streaming_group streaming_row_key sma_repeats
  by unfold_locales (auto simp: streaming_group_def streaming_row_key_def bindE_ok)

definition streaming_measured :: "StreamingResult \<Rightarrow> bool" where
  "streaming_measured r \<longleftrightarrow> is_finite (smr_streams_per_second r) \<and> pred_option is_finite (smr_peak_rss_mb r)"

lemma streaming_group_total:
  assumes "items \<noteq> []" "list_all streaming_measured items"
  shows "\<exists>row. streaming_group (k, items) = Inr row"
proof -
  obtain mode client case_name read consume concurrency request_limit throughput_scope timing_scope_name where
    k: "k = (mode, client, case_name, read, consume, concurrency, request_limit, throughput_scope, timing_scope_name)"
    by (cases k) auto
  show ?thesis
    using assms unfolding streaming_group_def k prod.case
    by (intro bindE_total median_map_total optional_median_total variation_total resource_max_total coverage_total)
      (simp_all add: list_all_iff streaming_measured_def observation_optional)
qed

lemma streaming_accounted:
  assumes "list_all streaming_measured results"
  shows "\<exists>rows. aggregate_streaming_results results = Inr rows \<and>
    accounted streaming_key (\<lambda>k. k) streaming_row_key sma_repeats results rows"
proof -
  have "\<exists>rows. mapE streaming_group (sort_key (\<lambda>g. fst g) (group_by streaming_key results)) = Inr rows"
    using assms by (intro streaming_rows.rows_total streaming_group_total) (auto simp: list_all_iff)
  then show ?thesis using streaming_rows.rows_accounted unfolding aggregate_streaming_results_def by blast
qed

end
