(* ===== verification/Lifecycle_Config.thy ===== *)
theory Lifecycle_Config
  imports Validity_Attribution "HOL-Library.Multiset"
begin

text \<open>
  streaming/attribution_models.py and streaming/lifecycle_models.py: the configurations of the research
  profiles with their validation, and the plan of their cases. A configuration is read back from JSON by
  the worker process, so its fields are JSON values and the type tests of the code are tests of the model.
\<close>

subsection \<open>Value tests\<close>

text \<open>
  The exact value of a finite number, \<open>None\<close> for what \<^verbatim>\<open>isinstance(value, bool) or not isinstance(value,
  int | float) or not math.isfinite(value)\<close> excludes.\<close>

fun finite_number :: "json \<Rightarrow> pyfloat option result" where
  "finite_number (JInt n) = bindE (float_of_int n) (\<lambda>_. Inr (Some (Fin (of_int n))))"
| "finite_number (JFloat x) = Inr (if is_finite x then Some x else None)"
| "finite_number v = Inr None"

fun int_between :: "int \<Rightarrow> int \<Rightarrow> json \<Rightarrow> bool" where
  "int_between lo hi (JInt n) = (lo \<le> n \<and> n \<le> hi)"
| "int_between lo hi v = False"

fun is_bool :: "json \<Rightarrow> bool" where
  "is_bool (JBool b) = True"
| "is_bool v = False"

fun int_of :: "json \<Rightarrow> int" where
  "int_of (JInt n) = n"
| "int_of v = 0"

text \<open>\<^verbatim>\<open>value in {...}\<close> for a set of strings: a list or an object cannot be hashed.\<close>

fun in_names :: "string list \<Rightarrow> json \<Rightarrow> bool result" where
  "in_names names (JStr s) = Inr (s \<in> set names)"
| "in_names names (JList xs) = Inl (TypeError ''unhashable type'')"
| "in_names names (JObj d) = Inl (TypeError ''unhashable type'')"
| "in_names names v = Inr False"

definition num :: "json \<Rightarrow> pyfloat" where
  "num v = (case as_float v of None \<Rightarrow> NaN | Some x \<Rightarrow> x)"

definition between :: "pyfloat \<Rightarrow> pyfloat \<Rightarrow> pyfloat \<Rightarrow> bool" where
  "between lo hi x = (fle lo x \<and> fle x hi)"

subsection \<open>Attribution\<close>

definition MAX_BODY_BYTES :: int where "MAX_BODY_BYTES = 1048576"
definition MAX_PROFILER_LABEL :: nat where "MAX_PROFILER_LABEL = 128"
definition MIN_WINDOW_STREAMS :: int where "MIN_WINDOW_STREAMS = 20"
definition MAX_WINDOW_STREAMS :: int where "MAX_WINDOW_STREAMS = 2048"
definition MAX_WINDOW_DURATION_S :: int where "MAX_WINDOW_DURATION_S = 5"
definition MAX_HISTOGRAM_BINS :: int where "MAX_HISTOGRAM_BINS = 1024"
definition MAX_REPLAY_SEGMENTS :: nat where "MAX_REPLAY_SEGMENTS = 64"
definition DEFAULT_PERF_SAMPLE_FREQUENCY_HZ :: int where "DEFAULT_PERF_SAMPLE_FREQUENCY_HZ = 499"
definition PERF_SAMPLE_FREQUENCIES_HZ :: "int list" where "PERF_SAMPLE_FREQUENCIES_HZ = [499, 1999]"

record AttributionConfig =
  ac_server_delay_s :: json
  ac_requested_client_read_bytes :: json
  ac_consumer_delay_s :: json
  ac_instrumentation :: json
  ac_profiler_label :: json
  ac_profiler :: json
  ac_perf_sample_frequency_hz :: json
  ac_chunk_sample_cap :: json
  ac_histogram_bins_cap :: json
  ac_replay_max_bytes :: json
  ac_replay_max_chunks :: json
  ac_minimum_duration_s :: json
  ac_max_window_streams :: json
  ac_server_observations :: json

definition PROFILERS :: "string list" where
  "PROFILERS = [''none'', ''cprofile'', ''sample-client'', ''sample-server'', ''perf-client'', ''perf-server'']"

definition validate_window :: "AttributionConfig \<Rightarrow> unit result" where
  "validate_window c =
     bindE (finite_number (ac_minimum_duration_s c)) (\<lambda>duration.
     bindE (raise_if (case duration of None \<Rightarrow> True | Some d \<Rightarrow> d \<noteq> Fin 0 \<and> \<not> between (Fin 1) (Fin (of_int MAX_WINDOW_DURATION_S)) d)
       (ValueError ''Minimum load duration must be zero (fixed rounds) or between 1 and 5 seconds'')) (\<lambda>_.
     bindE (raise_if (\<not> int_between MIN_WINDOW_STREAMS MAX_WINDOW_STREAMS (ac_max_window_streams c))
       (ValueError ''A duration window requires a hard limit between 20 and 2048 complete streams'')) (\<lambda>_.
       raise_if (\<not> is_bool (ac_server_observations c)) (ValueError ''Server body observations must be boolean''))))"

definition validate_delay :: "string \<Rightarrow> json \<Rightarrow> rat \<Rightarrow> string \<Rightarrow> unit result" where
  "validate_delay name v maximum_s shown =
     bindE (finite_number v) (\<lambda>delay.
       raise_if (case delay of None \<Rightarrow> True | Some d \<Rightarrow> \<not> between (Fin 0) (round64 maximum_s) d)
         (ValueError (name @ '' must be finite and between zero and '' @ shown @ '' seconds'')))"

definition validate_profiler :: "AttributionConfig \<Rightarrow> unit result" where
  "validate_profiler c =
     bindE (in_names PROFILERS (ac_profiler c)) (\<lambda>known.
     bindE (raise_if (\<not> known)
       (ValueError ''Profiler must be none, cprofile, sample-client, sample-server, perf-client or perf-server'')) (\<lambda>_.
     bindE (raise_if (ac_profiler c \<noteq> JStr ''none'' \<and>
         (ac_instrumentation c \<noteq> JStr ''diagnostic'' \<or> \<not> truthy (ac_profiler_label c)))
       (ValueError ''An active profiler requires diagnostic instrumentation and a profiler label'')) (\<lambda>_.
     bindE (raise_if (\<not> type_is_int (ac_perf_sample_frequency_hz c) \<or>
         int_of (ac_perf_sample_frequency_hz c) \<notin> set PERF_SAMPLE_FREQUENCIES_HZ)
       (ValueError ''Perf sampling frequency must be 499 or 1999 Hz'')) (\<lambda>_.
     bindE (in_names [''perf-client'', ''perf-server''] (ac_profiler c)) (\<lambda>perf.
       raise_if (int_of (ac_perf_sample_frequency_hz c) \<noteq> DEFAULT_PERF_SAMPLE_FREQUENCY_HZ \<and> \<not> perf)
         (ValueError ''A nondefault perf sampling frequency requires an active perf profiler''))))))"

definition bad_label :: "AttributionConfig \<Rightarrow> bool" where
  "bad_label c =
     (case ac_profiler_label c of
        JNull \<Rightarrow> False
      | JStr label \<Rightarrow>
          ac_instrumentation c \<noteq> JStr ''diagnostic'' \<or> strip label = [] \<or> MAX_PROFILER_LABEL < length label
      | _ \<Rightarrow> True)"

definition validate_cap :: "string \<times> json \<times> int \<Rightarrow> unit result" where
  "validate_cap cap =
     (case cap of (name, v, maximum) \<Rightarrow>
        raise_if (\<not> int_between 1 maximum v)
          (ValueError (name @ '' must be a positive integer no greater than '' @ int_str maximum)))"

definition attribution_caps :: "AttributionConfig \<Rightarrow> (string \<times> json \<times> int) list" where
  "attribution_caps c =
     [(''chunk_sample_cap'', ac_chunk_sample_cap c, 128), (''histogram_bins_cap'', ac_histogram_bins_cap c, 1024),
      (''replay_max_bytes'', ac_replay_max_bytes c, 268435456),
      (''replay_max_chunks'', ac_replay_max_chunks c, 1000000)]"

definition validate_observations :: "AttributionConfig \<Rightarrow> string option \<Rightarrow> unit result" where
  "validate_observations c client =
     bindE (validate_profiler c) (\<lambda>_.
     let size = ac_requested_client_read_bytes c
     in bindE (raise_if (size \<noteq> JNull \<and> \<not> int_between 1 MAX_BODY_BYTES size)
          (ValueError ''Requested public client read size must be null/native or an integer within 1 MiB'')) (\<lambda>_.
        bindE (raise_if (size \<noteq> JNull \<and> client \<noteq> None \<and> client \<noteq> Some ''httpx'')
          (ValueError ''Explicit client read size is supported only by HTTPX; FogHTTP must use its native public iterator'')) (\<lambda>_.
        bindE (in_names [''control'', ''diagnostic''] (ac_instrumentation c)) (\<lambda>known.
        bindE (raise_if (\<not> known) (ValueError ''Instrumentation must be control or diagnostic'')) (\<lambda>_.
        bindE (raise_if (bad_label c)
          (ValueError ''A bounded nonempty profiler label requires diagnostic instrumentation'')) (\<lambda>_.
          forE validate_cap (attribution_caps c)))))))"

definition validate_attribution_config :: "AttributionConfig \<Rightarrow> string option \<Rightarrow> unit result" where
  "validate_attribution_config c client =
     bindE (validate_window c) (\<lambda>_.
     bindE (validate_delay ''server_delay_s'' (ac_server_delay_s c) (1 / 10) ''0.1'') (\<lambda>_.
     bindE (validate_delay ''consumer_delay_s'' (ac_consumer_delay_s c) 1 ''1.0'') (\<lambda>_.
       validate_observations c client)))"

subsection \<open>Lifecycle\<close>

definition MAX_REPEATS :: int where "MAX_REPEATS = 3"
definition MAX_CASES :: int where "MAX_CASES = 48"

record LifecycleConfig =
  lc_body_bytes :: json
  lc_server_write_bytes :: json
  lc_warmup_rounds :: json
  lc_batches :: json
  lc_rounds_per_batch :: json
  lc_sample_interval_s :: json
  lc_case_timeout_s :: json
  lc_settle_timeout_s :: json
  lc_rss_ceiling_bytes :: json
  lc_max_samples :: json
  lc_post_gc :: json
  lc_attribution :: "AttributionConfig option"

definition BASELINE_CONFIG :: LifecycleConfig where
  "BASELINE_CONFIG =
     \<lparr>lc_body_bytes = JInt 1048576, lc_server_write_bytes = JInt 65536, lc_warmup_rounds = JInt 2,
      lc_batches = JInt 5, lc_rounds_per_batch = JInt 20, lc_sample_interval_s = JFloat (round64 (5 / 100)),
      lc_case_timeout_s = JFloat (Fin 240), lc_settle_timeout_s = JFloat (Fin 5),
      lc_rss_ceiling_bytes = JInt (2 * 1024 * 1024 * 1024), lc_max_samples = JInt 12000,
      lc_post_gc = JBool True, lc_attribution = None\<rparr>"

definition int_config_fields :: "LifecycleConfig \<Rightarrow> (string \<times> json) list" where
  "int_config_fields c =
     [(''body_bytes'', lc_body_bytes c), (''server_write_bytes'', lc_server_write_bytes c),
      (''warmup_rounds'', lc_warmup_rounds c), (''batches'', lc_batches c),
      (''rounds_per_batch'', lc_rounds_per_batch c), (''rss_ceiling_bytes'', lc_rss_ceiling_bytes c),
      (''max_samples'', lc_max_samples c)]"

definition time_config_fields :: "LifecycleConfig \<Rightarrow> (string \<times> json) list" where
  "time_config_fields c =
     [(''sample_interval_s'', lc_sample_interval_s c), (''case_timeout_s'', lc_case_timeout_s c),
      (''settle_timeout_s'', lc_settle_timeout_s c)]"

definition validate_config_types :: "LifecycleConfig \<Rightarrow> unit result" where
  "validate_config_types c =
     bindE (forE (\<lambda>(name, v). raise_if (\<not> type_is_int v) (ValueError (''Lifecycle '' @ name @ '' must be an integer'')))
       (int_config_fields c)) (\<lambda>_.
     bindE (forE (\<lambda>(name, v). bindE (finite_number v) (\<lambda>x.
         raise_if (x = None) (ValueError (''Lifecycle '' @ name @ '' must be a finite number''))))
       (time_config_fields c)) (\<lambda>_.
       raise_if (\<not> is_bool (lc_post_gc c)) (ValueError ''Lifecycle post_gc must be boolean'')))"

definition profile_window :: "AttributionConfig \<Rightarrow> (int \<times> string) option" where
  "profile_window a =
     (let profiler = py_str (ac_profiler a)
      in if starts_with profiler ''sample-'' then Some (2, ''Native sampling'')
         else if starts_with profiler ''perf-'' then Some (1, ''Linux perf sampling'') else None)"

definition validate_profile_window :: "LifecycleConfig \<Rightarrow> unit result" where
  "validate_profile_window c =
     (case lc_attribution c of
        None \<Rightarrow> Inr ()
      | Some a \<Rightarrow>
          (case profile_window a of
             None \<Rightarrow> Inr ()
           | Some (minimum, name) \<Rightarrow>
               raise_if (int_of (lc_batches c) \<noteq> 1 \<or> flt (num (ac_minimum_duration_s a)) (Fin (of_int minimum)))
                 (ValueError (name @ '' requires one duration window of at least '' @ int_str minimum @ '' second(s)''))))"

text \<open>
  The sums and products are of numbers that were bounded before, so that conversions are exact; a division
  by the positive fragment size is rounded before it is rounded up.\<close>

definition server_writes :: "LifecycleConfig \<Rightarrow> int" where
  "server_writes c =
     (case round64 (of_int (int_of (lc_body_bytes c)) / of_int (int_of (lc_server_write_bytes c))) of
        Fin r \<Rightarrow> \<lceil>r\<rceil> | _ \<Rightarrow> 0)"

definition total_rounds :: "LifecycleConfig \<Rightarrow> int" where
  "total_rounds c = int_of (lc_warmup_rounds c) + int_of (lc_batches c) * int_of (lc_rounds_per_batch c)"

definition server_delay_total :: "LifecycleConfig \<Rightarrow> AttributionConfig \<Rightarrow> pyfloat" where
  "server_delay_total c a =
     fmul (fmul (Fin (of_int (server_writes c - 1))) (num (ac_server_delay_s a))) (Fin (of_int (total_rounds c)))"

definition validate_attribution_window :: "LifecycleConfig \<Rightarrow> AttributionConfig \<Rightarrow> unit result" where
  "validate_attribution_window c a =
     bindE (validate_attribution_config a None) (\<lambda>_.
     bindE (validate_profile_window c) (\<lambda>_.
     bindE (raise_if (truthy (ac_minimum_duration_s a) \<and>
         (int_of (lc_batches c) \<noteq> 1 \<or>
          fle (num (lc_case_timeout_s c)) (fadd (num (ac_minimum_duration_s a)) (num (lc_settle_timeout_s c)))))
       (ValueError ''Duration windows require one batch and room for settlement inside the existing case deadline'')) (\<lambda>_.
       raise_if (fle (num (lc_case_timeout_s c)) (server_delay_total c a))
         (ValueError ''Configured server delays alone exceed the hard per-case deadline''))))"

definition validate_lifecycle_config :: "LifecycleConfig \<Rightarrow> unit result" where
  "validate_lifecycle_config c =
     bindE (validate_config_types c) (\<lambda>_.
     bindE (raise_if (\<not> (0 < int_of (lc_server_write_bytes c) \<and>
         int_of (lc_server_write_bytes c) < int_of (lc_body_bytes c) \<and>
         int_of (lc_body_bytes c) \<le> int_of (lc_body_bytes BASELINE_CONFIG)))
       (ValueError ''Lifecycle bodies must fit 1 MiB with a smaller server fragment'')) (\<lambda>_.
     bindE (raise_if (\<not> int_between 0 (int_of (lc_warmup_rounds BASELINE_CONFIG)) (lc_warmup_rounds c) \<or>
         \<not> int_between 1 (int_of (lc_batches BASELINE_CONFIG)) (lc_batches c) \<or>
         \<not> int_between 1 (int_of (lc_rounds_per_batch BASELINE_CONFIG)) (lc_rounds_per_batch c))
       (ValueError ''Lifecycle request cap: warmup <= 2 rounds, batches <= 5, rounds per batch <= 20'')) (\<lambda>_.
     bindE (raise_if (\<not> (flt (Fin 0) (num (lc_sample_interval_s c)) \<and> fle (num (lc_sample_interval_s c)) (Fin 1)) \<or>
         \<not> (flt (Fin 0) (num (lc_settle_timeout_s c)) \<and>
             fle (num (lc_settle_timeout_s c)) (num (lc_settle_timeout_s BASELINE_CONFIG))))
       (ValueError ''Lifecycle sampling and settlement intervals must be positive and bounded'')) (\<lambda>_.
     bindE (raise_if (\<not> (flt (Fin 0) (num (lc_case_timeout_s c)) \<and>
           fle (num (lc_case_timeout_s c)) (num (lc_case_timeout_s BASELINE_CONFIG))) \<or>
         \<not> int_between 1 (int_of (lc_rss_ceiling_bytes BASELINE_CONFIG)) (lc_rss_ceiling_bytes c))
       (ValueError ''Lifecycle limits must fit a 240-second deadline and 2 GiB per PID'')) (\<lambda>_.
     bindE (raise_if (\<not> int_between 1 (int_of (lc_max_samples BASELINE_CONFIG)) (lc_max_samples c))
       (ValueError ''Lifecycle resource samples must be bounded by 12000 scalar records'')) (\<lambda>_.
       case lc_attribution c of None \<Rightarrow> Inr () | Some a \<Rightarrow> validate_attribution_window c a))))))"

subsection \<open>Cases\<close>

record LifecycleCase =
  lk_sequence :: json
  lk_client :: json
  lk_mode :: json
  lk_case :: json
  lk_concurrency :: json
  lk_repeat :: json

text \<open>\<^verbatim>\<open>set(values) <= {...}\<close>; the set is built first, so one value that cannot be hashed raises.\<close>

definition hashable :: "json \<Rightarrow> bool" where
  "hashable v = (case v of JList _ \<Rightarrow> False | JObj _ \<Rightarrow> False | _ \<Rightarrow> True)"

definition subset_of :: "json list \<Rightarrow> json list \<Rightarrow> bool result" where
  "subset_of values allowed =
     (if list_ex (\<lambda>v. \<not> hashable v) values then Inl (TypeError ''unhashable type'')
      else Inr (list_all (\<lambda>v. list_ex (py_eq v) allowed) values))"

definition validate_choice :: "json list \<Rightarrow> json list \<Rightarrow> string \<Rightarrow> unit result" where
  "validate_choice values allowed message =
     (if values = [] then Inl (ValueError message)
      else bindE (subset_of values allowed) (\<lambda>ok. raise_if (\<not> ok) (ValueError message)))"

definition validate_selection ::
  "json list \<Rightarrow> json list \<Rightarrow> json list \<Rightarrow> json list \<Rightarrow> int \<Rightarrow> unit result"
where
  "validate_selection clients modes cases concurrency_levels repeats =
     bindE (validate_choice clients [JStr ''foghttp'', JStr ''httpx''] ''Lifecycle profile supports foghttp and httpx'') (\<lambda>_.
     bindE (validate_choice modes [JStr ''sync'', JStr ''async''] ''Lifecycle profile requires sync or async modes'') (\<lambda>_.
     bindE (validate_choice cases [JStr ''first-chunk-close-1m'', JStr ''stream-1m'']
       ''Lifecycle profile supports first-chunk-close-1m and stream-1m'') (\<lambda>_.
     bindE (validate_choice concurrency_levels [JInt 1, JInt 10]
       ''Lifecycle profile requires concurrency 1/10 and at most 3 fresh repetitions'') (\<lambda>_.
       raise_if (\<not> (1 \<le> repeats \<and> repeats \<le> MAX_REPEATS))
         (ValueError ''Lifecycle profile requires concurrency 1/10 and at most 3 fresh repetitions'')))))"

definition validate_attribution_case :: "LifecycleCase \<Rightarrow> LifecycleConfig \<Rightarrow> AttributionConfig \<Rightarrow> unit result" where
  "validate_attribution_case k c a =
     bindE (raise_if (lk_mode k \<noteq> JStr ''async'' \<or> lk_case k \<noteq> JStr ''stream-1m'')
       (ValueError ''Async bytes measurements require async stream-1m; early close and cancellation are controls'')) (\<lambda>_.
     bindE (validate_attribution_config a (Some (py_str (lk_client k)))) (\<lambda>_.
       raise_if (truthy (ac_minimum_duration_s a) \<and>
           int_of (ac_max_window_streams a) < int_of (lc_rounds_per_batch c) * int_of (lk_concurrency k))
         (ValueError ''Window stream limit must accommodate all declared minimum rounds'')))"

definition validate_lifecycle_case :: "LifecycleCase \<Rightarrow> LifecycleConfig option \<Rightarrow> unit result" where
  "validate_lifecycle_case k config =
     bindE (raise_if (\<not> int_between 1 MAX_CASES (lk_sequence k))
       (ValueError ''Lifecycle case sequence must be a positive integer within the bounded plan'')) (\<lambda>_.
     bindE (raise_if (\<not> type_is_int (lk_concurrency k) \<or> \<not> type_is_int (lk_repeat k))
       (ValueError ''Lifecycle concurrency and repetition must be integers'')) (\<lambda>_.
     bindE (validate_selection [lk_client k] [lk_mode k] [lk_case k] [lk_concurrency k] (int_of (lk_repeat k))) (\<lambda>_.
       case config of
         None \<Rightarrow> Inr ()
       | Some c \<Rightarrow> (case lc_attribution c of None \<Rightarrow> Inr () | Some a \<Rightarrow> validate_attribution_case k c a))))"

text \<open>\<^verbatim>\<open>dict.fromkeys\<close> keeps the first of equal values.\<close>

definition from_keys :: "'a list \<Rightarrow> 'a list" where
  "from_keys xs = rev (remdups (rev xs))"

type_synonym planned_case = "string \<times> string \<times> string \<times> int \<times> int"

definition plan_products :: "string list \<Rightarrow> string list \<Rightarrow> string list \<Rightarrow> int list \<Rightarrow> int \<Rightarrow> planned_case list" where
  "plan_products clients modes cases concurrency_levels repeats =
     concat (map (\<lambda>client. concat (map (\<lambda>mode. concat (map (\<lambda>case_name. concat (map (\<lambda>concurrency.
       map (\<lambda>repeat. (client, mode, case_name, concurrency, repeat)) [1..repeats])
         (from_keys concurrency_levels))) (from_keys cases))) (from_keys modes))) (from_keys clients))"

definition lifecycle_case :: "nat \<times> planned_case \<Rightarrow> LifecycleCase" where
  "lifecycle_case indexed =
     (case indexed of (index, client, mode, case_name, concurrency, repeat) \<Rightarrow>
        \<lparr>lk_sequence = JInt (int index), lk_client = JStr client, lk_mode = JStr mode, lk_case = JStr case_name,
         lk_concurrency = JInt concurrency, lk_repeat = JInt repeat\<rparr>)"

definition build_lifecycle_plan ::
  "(int \<Rightarrow> planned_case list \<Rightarrow> planned_case list) \<Rightarrow> string list \<Rightarrow> string list \<Rightarrow> string list \<Rightarrow> int list \<Rightarrow>
   int \<Rightarrow> int \<Rightarrow> bool \<Rightarrow> LifecycleCase list result"
where
  "build_lifecycle_plan rng_shuffle clients modes cases concurrency_levels repeats seed shuffle =
     bindE (validate_selection (map JStr clients) (map JStr modes) (map JStr cases) (map JInt concurrency_levels) repeats) (\<lambda>_.
       let plan = plan_products clients modes cases concurrency_levels repeats
       in Inr (map lifecycle_case (enumerate 1 (if shuffle then rng_shuffle seed plan else plan))))"

subsection \<open>The plan is bounded and valid\<close>

lemma from_keys_set [simp]: "set (from_keys xs) = set xs" "distinct (from_keys xs)"
  by (simp_all add: from_keys_def)

lemma choice_ok [ok]:
  "validate_choice values allowed m = Inr u \<longleftrightarrow>
     values \<noteq> [] \<and> list_all (\<lambda>v. hashable v \<and> list_ex (py_eq v) allowed) values"
  by (auto simp: validate_choice_def subset_of_def list_ex_iff list_all_iff raise_if_def)

lemma selection_ok [ok]:
  "validate_selection (map JStr clients) (map JStr modes) (map JStr cases) (map JInt levels) repeats = Inr () \<longleftrightarrow>
     clients \<noteq> [] \<and> set clients \<subseteq> {''foghttp'', ''httpx''} \<and> modes \<noteq> [] \<and> set modes \<subseteq> {''sync'', ''async''} \<and>
     cases \<noteq> [] \<and> set cases \<subseteq> {''first-chunk-close-1m'', ''stream-1m''} \<and> levels \<noteq> [] \<and> set levels \<subseteq> {1, 10} \<and>
     1 \<le> repeats \<and> repeats \<le> 3"
proof -
  have strings: "list_all (\<lambda>v. hashable v \<and> list_ex (py_eq v) [JStr a, JStr b]) (map JStr xs) \<longleftrightarrow> set xs \<subseteq> {a, b}" for a b xs
    by (auto simp: list_all_iff hashable_def)
  have numbers: "list_all (\<lambda>v. hashable v \<and> list_ex (py_eq v) [JInt 1, JInt 10]) (map JInt xs) \<longleftrightarrow> set xs \<subseteq> {1, 10}" for xs
    by (auto simp: list_all_iff hashable_def)
  show ?thesis
    by (simp only: validate_selection_def bindE_ok choice_ok strings numbers)
      (auto simp: raise_if_def MAX_REPEATS_def)
qed

lemma plan_products_set:
  "set (plan_products clients modes cases levels repeats) =
     set clients \<times> set modes \<times> set cases \<times> set levels \<times> {1..repeats}"
  by (force simp: plan_products_def)

lemma plan_products_length:
  "length (plan_products clients modes cases levels repeats) =
     length (from_keys clients) * (length (from_keys modes) * (length (from_keys cases) *
       (length (from_keys levels) * nat repeats)))"
  by (simp add: plan_products_def length_concat comp_def sum_list_triv)

lemma from_keys_length: "length (from_keys xs) = card (set xs)"
  using distinct_card [OF from_keys_set(2) [of xs]] by simp

lemma plan_products_distinct: "distinct (plan_products clients modes cases levels repeats)"
  by (rule card_distinct)
    (simp add: plan_products_set plan_products_length from_keys_length card_cartesian_product)

lemma card_pair_le: "A \<subseteq> {a, b} \<Longrightarrow> card A \<le> 2"
  using card_mono [of "{a, b}" A] card_insert_le_m1 [of 2 "{b}" a] by simp

lemma products_bounded:
  assumes "set clients \<subseteq> {''foghttp'', ''httpx''}" "set modes \<subseteq> {''sync'', ''async''}"
    "set cases \<subseteq> {''first-chunk-close-1m'', ''stream-1m''}" "set levels \<subseteq> {1, 10}" "repeats \<le> 3"
  shows "length (plan_products clients modes cases levels repeats) \<le> 48"
proof -
  have "length (plan_products clients modes cases levels repeats) \<le> 2 * (2 * (2 * (2 * 3)))"
    unfolding plan_products_length from_keys_length using assms
    by (intro mult_le_mono card_pair_le) simp_all
  then show ?thesis by simp
qed

lemma planned_case_valid:
  assumes "1 \<le> index" "index \<le> 48" "client \<in> {''foghttp'', ''httpx''}" "mode \<in> {''sync'', ''async''}"
    "case_name \<in> {''first-chunk-close-1m'', ''stream-1m''}" "concurrency \<in> {1, 10}" "1 \<le> repeat" "repeat \<le> 3"
  shows "validate_lifecycle_case (lifecycle_case (index, client, mode, case_name, concurrency, repeat)) None = Inr ()"
proof -
  have "validate_selection [JStr client] [JStr mode] [JStr case_name] [JInt concurrency] repeat = Inr ()"
    using selection_ok [of "[client]" "[mode]" "[case_name]" "[concurrency]" repeat] assms by simp
  with assms(1,2) show ?thesis by (simp add: validate_lifecycle_case_def lifecycle_case_def raise_if_def MAX_CASES_def)
qed

definition case_cell :: "LifecycleCase \<Rightarrow> json \<times> json \<times> json \<times> json \<times> json" where
  "case_cell k = (lk_client k, lk_mode k, lk_case k, lk_concurrency k, lk_repeat k)"

definition planned_cell :: "planned_case \<Rightarrow> json \<times> json \<times> json \<times> json \<times> json" where
  "planned_cell planned =
     (case planned of (client, mode, case_name, concurrency, repeat) \<Rightarrow>
        (JStr client, JStr mode, JStr case_name, JInt concurrency, JInt repeat))"

lemma planned_cell_inj: "inj planned_cell"
  by (auto simp: inj_def planned_cell_def)

lemma planned_sequence:
  "map (\<lambda>k. (lk_sequence k, case_cell k)) (map lifecycle_case (enumerate i plan)) =
     zip (map (JInt \<circ> int) [i..<i + length plan]) (map planned_cell plan)"
  by (induction plan arbitrary: i)
    (auto simp: lifecycle_case_def case_cell_def planned_cell_def upt_conv_Cons simp del: upt_Suc)



subsection \<open>Accepted configurations are bounded\<close>

lemma int_between_iff: "int_between lo hi v \<longleftrightarrow> type_is_int v \<and> lo \<le> int_of v \<and> int_of v \<le> hi"
  by (cases v) auto

lemma attribution_config_window:
  assumes "validate_attribution_config a client = Inr ()"
  shows "20 \<le> int_of (ac_max_window_streams a) \<and> int_of (ac_max_window_streams a) \<le> 2048 \<and>
    (if truthy (ac_minimum_duration_s a)
     then fle (Fin 1) (num (ac_minimum_duration_s a)) \<and> fle (num (ac_minimum_duration_s a)) (Fin 5) else True) \<and>
    list_all (\<lambda>(name, v, maximum). int_between 1 maximum v) (attribution_caps a)"
proof -
  from assms have window: "validate_window a = Inr ()" and observations: "validate_observations a client = Inr ()"
    by (auto simp: validate_attribution_config_def bindE_ok)
  then have "list_all (\<lambda>(name, v, maximum). int_between 1 maximum v) (attribution_caps a)"
    by (auto simp: validate_observations_def Let_def bindE_ok raise_if_def attribution_caps_def validate_cap_def
        split: if_splits)
  moreover from window obtain d where
    d: "finite_number (ac_minimum_duration_s a) = Inr (Some d)" "d = Fin 0 \<or> between (Fin 1) (Fin 5) d"
    by (auto simp: validate_window_def bindE_ok raise_if_def MAX_WINDOW_DURATION_S_def split: option.splits if_splits)
  moreover have "as_float (ac_minimum_duration_s a) = Some d" "truthy (ac_minimum_duration_s a) \<longleftrightarrow> d \<noteq> Fin 0"
    using d(1) by (cases "ac_minimum_duration_s a"; auto simp: bindE_ok split: if_splits)+
  ultimately show ?thesis
    using window
    by (auto simp: validate_window_def bindE_ok raise_if_def int_between_iff num_def between_def
        MIN_WINDOW_STREAMS_def MAX_WINDOW_STREAMS_def split: if_splits)
qed

text \<open>
  C38: an accepted case does a bounded amount of work before its deadline: bodies fit one MiB and are
  written in at least two fragments, a case requests at most 1020 streams in rounds and 2048 in a duration
  window, its deadline is positive and at most 240 seconds, a duration window leaves room for settlement
  before it, and the configured server delays alone stay below it.\<close>

theorem lifecycle_case_bounded:
  assumes "validate_lifecycle_config c = Inr ()" "validate_lifecycle_case k (Some c) = Inr ()"
  shows "0 < int_of (lc_server_write_bytes c) \<and> int_of (lc_server_write_bytes c) < int_of (lc_body_bytes c) \<and>
    int_of (lc_body_bytes c) \<le> 1048576 \<and>
    1 \<le> total_rounds c \<and> total_rounds c * int_of (lk_concurrency k) \<le> 1020 \<and>
    flt (Fin 0) (num (lc_case_timeout_s c)) \<and> fle (num (lc_case_timeout_s c)) (Fin 240) \<and>
    (case lc_attribution c of
       None \<Rightarrow> True
     | Some a \<Rightarrow>
         \<not> fle (num (lc_case_timeout_s c)) (server_delay_total c a) \<and>
         (if truthy (ac_minimum_duration_s a)
          then int_of (lc_batches c) = 1 \<and>
            \<not> fle (num (lc_case_timeout_s c)) (fadd (num (ac_minimum_duration_s a)) (num (lc_settle_timeout_s c))) \<and>
            int_of (lc_rounds_per_batch c) * int_of (lk_concurrency k) \<le> int_of (ac_max_window_streams a) \<and>
            int_of (ac_max_window_streams a) \<le> 2048
          else True))"
proof -
  have base: "int_of (lc_body_bytes BASELINE_CONFIG) = 1048576" "int_of (lc_warmup_rounds BASELINE_CONFIG) = 2"
      "int_of (lc_batches BASELINE_CONFIG) = 5" "int_of (lc_rounds_per_batch BASELINE_CONFIG) = 20"
      "num (lc_case_timeout_s BASELINE_CONFIG) = Fin 240"
    by (simp_all add: BASELINE_CONFIG_def num_def)
  from assms(2) obtain n where n: "lk_concurrency k = JInt n" "n = 1 \<or> n = 10"
    by (cases "lk_concurrency k")
      (auto simp: validate_lifecycle_case_def validate_selection_def bindE_ok raise_if_def choice_ok split: if_splits)
  have sizes: "0 < int_of (lc_server_write_bytes c)" "int_of (lc_server_write_bytes c) < int_of (lc_body_bytes c)"
      "int_of (lc_body_bytes c) \<le> 1048576" "0 \<le> int_of (lc_warmup_rounds c)" "int_of (lc_warmup_rounds c) \<le> 2"
      "1 \<le> int_of (lc_batches c)" "int_of (lc_batches c) \<le> 5" "1 \<le> int_of (lc_rounds_per_batch c)"
      "int_of (lc_rounds_per_batch c) \<le> 20"
      "flt (Fin 0) (num (lc_case_timeout_s c))" "fle (num (lc_case_timeout_s c)) (Fin 240)"
      "case lc_attribution c of None \<Rightarrow> True | Some a \<Rightarrow> validate_attribution_window c a = Inr ()"
    using assms(1)
    by (auto simp: validate_lifecycle_config_def bindE_ok raise_if_def int_between_iff base split: if_splits option.splits)
  have "int_of (lc_batches c) * int_of (lc_rounds_per_batch c) \<le> 5 * 20"
    using sizes(6-9) by (intro mult_mono) simp_all
  moreover have "1 * 1 \<le> int_of (lc_batches c) * int_of (lc_rounds_per_batch c)"
    using sizes(6,8) by (intro mult_mono) simp_all
  ultimately have rounds: "1 \<le> total_rounds c" "total_rounds c \<le> 102"
    using sizes(4,5) by (simp_all add: total_rounds_def)
  with n have "total_rounds c * int_of (lk_concurrency k) \<le> 1020" by auto
  moreover have "case lc_attribution c of None \<Rightarrow> True | Some a \<Rightarrow> validate_attribution_case k c a = Inr ()"
    using assms(2) by (auto simp: validate_lifecycle_case_def bindE_ok split: option.splits)
  ultimately show ?thesis
    using sizes rounds attribution_config_window
    by (auto simp: validate_attribution_window_def validate_attribution_case_def bindE_ok raise_if_def
        split: option.splits if_splits)
qed

definition window_attribution :: AttributionConfig where
  "window_attribution =
     \<lparr>ac_server_delay_s = JFloat (Fin 0), ac_requested_client_read_bytes = JNull, ac_consumer_delay_s = JInt 0,
      ac_instrumentation = JStr ''control'', ac_profiler_label = JNull, ac_profiler = JStr ''none'',
      ac_perf_sample_frequency_hz = JInt 499, ac_chunk_sample_cap = JInt 128, ac_histogram_bins_cap = JInt 1024,
      ac_replay_max_bytes = JInt 268435456, ac_replay_max_chunks = JInt 1000000,
      ac_minimum_duration_s = JInt 2, ac_max_window_streams = JInt 2048, ac_server_observations = JBool False\<rparr>"

definition window_config :: LifecycleConfig where
  "window_config =
     \<lparr>lc_body_bytes = JInt 1048576, lc_server_write_bytes = JInt 65536, lc_warmup_rounds = JInt 2,
      lc_batches = JInt 1, lc_rounds_per_batch = JInt 20, lc_sample_interval_s = JInt 1,
      lc_case_timeout_s = JFloat (Fin 240), lc_settle_timeout_s = JFloat (Fin 5), lc_rss_ceiling_bytes = JInt 65536,
      lc_max_samples = JInt 12000, lc_post_gc = JBool True, lc_attribution = Some window_attribution\<rparr>"

lemma no_delay: "0 \<le> m \<Longrightarrow> validate_delay name (JFloat (Fin 0)) m shown = Inr ()"
  using round64_ge_0 [of m]
  by (cases "round64 m") (auto simp: validate_delay_def raise_if_def between_def fle_def less_eq_pyfloat_def)

lemma small_floats: "round64 (0::rat) = Fin 0" "round64 (1::rat) = Fin 1" "round64 (2::rat) = Fin 2" "round64 (7::rat) = Fin 7" "round64 (16 :: rat) = Fin 16"
  using round64_of_int [of 0] round64_of_int [of 1] round64_of_int [of 2] round64_of_int [of 7] round64_of_int [of 16] by simp_all

lemma window_attribution_valid: "validate_attribution_config window_attribution client = Inr ()"
proof -
  have "validate_window window_attribution = Inr ()"
    by (simp add: validate_window_def window_attribution_def raise_if_def small_floats float_of_int_def between_def
        MAX_WINDOW_DURATION_S_def MIN_WINDOW_STREAMS_def MAX_WINDOW_STREAMS_def fle_def)
  moreover have "validate_observations window_attribution client = Inr ()"
    by (simp add: validate_observations_def validate_profiler_def window_attribution_def raise_if_def PROFILERS_def
        PERF_SAMPLE_FREQUENCIES_HZ_def DEFAULT_PERF_SAMPLE_FREQUENCY_HZ_def bad_label_def attribution_caps_def
        validate_cap_def)
  moreover have "validate_delay name (JInt 0) 1 shown = Inr ()" for name shown
    by (simp add: validate_delay_def float_of_int_def raise_if_def between_def small_floats fle_def)
  moreover have "ac_server_delay_s window_attribution = JFloat (Fin 0)" "ac_consumer_delay_s window_attribution = JInt 0"
    by (simp_all add: window_attribution_def)
  ultimately show ?thesis by (simp add: validate_attribution_config_def no_delay)
qed

lemma window_config_valid: "validate_lifecycle_config window_config = Inr ()"
proof -
  have "validate_config_types window_config = Inr ()"
    by (simp add: validate_config_types_def raise_if_def int_config_fields_def time_config_fields_def window_config_def
        float_of_int_def small_floats)
  moreover have "validate_attribution_window window_config window_attribution = Inr ()"
  proof -
    have "profile_window window_attribution = None"
      by (simp add: profile_window_def starts_with_def window_attribution_def)
    moreover have "server_delay_total window_config window_attribution = Fin 0"
      by (simp add: server_delay_total_def server_writes_def small_floats total_rounds_def num_def window_config_def
          window_attribution_def)
    moreover have "num (ac_minimum_duration_s window_attribution) = Fin 2"
      by (simp add: window_attribution_def num_def)
    moreover have "lc_attribution window_config = Some window_attribution" "int_of (lc_batches window_config) = 1"
        "num (lc_case_timeout_s window_config) = Fin 240" "num (lc_settle_timeout_s window_config) = Fin 5"
      by (simp_all add: window_config_def num_def)
    ultimately show ?thesis
      by (simp add: validate_attribution_window_def window_attribution_valid validate_profile_window_def
          raise_if_def small_floats fle_def)
  qed
  ultimately show ?thesis
    by (simp add: validate_lifecycle_config_def raise_if_def window_config_def num_def BASELINE_CONFIG_def fle_def)
qed

lemma lifecycle_case_bounded_witness: "total_rounds window_config * 10 \<le> 1020"
proof -
  let ?k = "lifecycle_case (1, ''foghttp'', ''async'', ''stream-1m'', 10, 1)"
  have "validate_attribution_case ?k window_config window_attribution = Inr ()"
    by (simp add: validate_attribution_case_def lifecycle_case_def raise_if_def window_attribution_valid)
      (simp add: window_attribution_def window_config_def)
  then have "validate_lifecycle_case ?k (Some window_config) = Inr ()"
    using planned_case_valid [of 1 "''foghttp''" "''async''" "''stream-1m''" 10 1]
    by (auto simp: validate_lifecycle_case_def window_config_def bindE_ok)
  from lifecycle_case_bounded [OF window_config_valid this] show ?thesis by (simp add: lifecycle_case_def)
qed

end
