(* ===== verification/Stream_Observation.thy ===== *)
theory Stream_Observation
  imports Lifecycle_Config
begin

text \<open>
  streaming/attribution_consume.py: what a measured stream observes. The observations of a stream and the
  budget that all streams of a batch share are explicit states; the awaits of a stream are events, so that
  a batch is a list of events of several streams in any interleaving. The bytes that were hashed are kept
  in the place of the hash object, and the clock readings are part of the events.
\<close>

subsection \<open>The shared budget\<close>

type_synonym histogram = "(int \<times> int) list"

record ObservationBudget =
  bg_record_cap :: int
  bg_histogram_bins_cap :: int
  bg_records :: int
  bg_histogram_bins :: int
  bg_global_histogram :: "histogram option"
  bg_global_histogram_complete :: bool

definition plain_budget :: ObservationBudget where
  "plain_budget =
     \<lparr>bg_record_cap = 4096, bg_histogram_bins_cap = 4096, bg_records = 0, bg_histogram_bins = 0,
      bg_global_histogram = None, bg_global_histogram_complete = True\<rparr>"

definition take_record :: "ObservationBudget \<Rightarrow> bool \<times> ObservationBudget" where
  "take_record g =
     (if bg_record_cap g \<le> bg_records g then (False, g) else (True, g\<lparr>bg_records := bg_records g + 1\<rparr>))"

definition take_histogram_bin :: "ObservationBudget \<Rightarrow> bool \<times> ObservationBudget" where
  "take_histogram_bin g =
     (if bg_histogram_bins_cap g \<le> bg_histogram_bins g then (False, g)
      else (True, g\<lparr>bg_histogram_bins := bg_histogram_bins g + 1\<rparr>))"

definition budget_scope :: "ObservationBudget \<Rightarrow> string" where
  "budget_scope g =
     (let shared = ''Shared per batch across all streams; delivery and diagnostic trace records share one cap''
      in if bg_global_histogram g \<noteq> None
         then shared @ ''; histogram bins count unique sizes across the whole timed window'' else shared)"

definition budget_payload :: "ObservationBudget \<Rightarrow> obj" where
  "budget_payload g =
     [(''record_cap'', JInt (bg_record_cap g)), (''records'', JInt (bg_records g)),
      (''histogram_bins_cap'', JInt (bg_histogram_bins_cap g)), (''histogram_bins'', JInt (bg_histogram_bins g)),
      (''scope'', JStr (budget_scope g))]"

subsection \<open>Observations of a stream\<close>

record DeliverySample =
  ds_index :: int
  ds_size_bytes :: int
  ds_gap_ms :: "pyfloat option"
  ds_offset_ns :: int

record DiagnosticTrace =
  dt_index :: int
  dt_await_start_ns :: int
  dt_await_finished_ns :: int
  dt_consumer_finished_ns :: int

record ChunkObservations =
  co_bytes_read :: int
  co_chunks_read :: int
  co_empty_deliveries :: int
  co_first_ns :: "int option"
  co_previous_ns :: "int option"
  co_min_bytes :: "int option"
  co_max_bytes :: "int option"
  co_histogram :: histogram
  co_histogram_complete :: bool
  co_delivery_samples :: "DeliverySample list"
  co_trace :: "DiagnosticTrace list"

definition no_observations :: ChunkObservations where
  "no_observations =
     \<lparr>co_bytes_read = 0, co_chunks_read = 0, co_empty_deliveries = 0, co_first_ns = None, co_previous_ns = None,
      co_min_bytes = None, co_max_bytes = None, co_histogram = [], co_histogram_complete = True,
      co_delivery_samples = [], co_trace = []\<rparr>"

text \<open>A difference of clock readings in milliseconds and in seconds.\<close>

definition millis :: "int \<Rightarrow> pyfloat" where "millis ns = round64 (of_int ns / 1000000)"

definition seconds :: "int \<Rightarrow> pyfloat" where "seconds ns = round64 (of_int ns / 1000000000)"

text \<open>\<^verbatim>\<open>self.budget is None or self.budget.take...()\<close>\<close>

definition take_if_shared ::
  "(ObservationBudget \<Rightarrow> bool \<times> ObservationBudget) \<Rightarrow> ObservationBudget option \<Rightarrow> bool \<times> ObservationBudget option"
where
  "take_if_shared take_one budget =
     (case budget of None \<Rightarrow> (True, None) | Some g \<Rightarrow> (case take_one g of (granted, g') \<Rightarrow> (granted, Some g')))"

definition global_histogram :: "ObservationBudget option \<Rightarrow> histogram option" where
  "global_histogram budget = (case budget of None \<Rightarrow> None | Some g \<Rightarrow> bg_global_histogram g)"

definition count_globally :: "int \<Rightarrow> ObservationBudget \<Rightarrow> histogram \<Rightarrow> ObservationBudget" where
  "count_globally nbytes g h =
     (if map_of h nbytes \<noteq> None then g\<lparr>bg_global_histogram := Some (counter_add h nbytes 1)\<rparr>
      else
        (case take_histogram_bin g of (granted, g') \<Rightarrow>
           if granted then g'\<lparr>bg_global_histogram := Some (counter_add h nbytes 1)\<rparr>
           else g'\<lparr>bg_global_histogram_complete := False\<rparr>))"

definition count_locally ::
  "AttributionConfig \<Rightarrow> int \<Rightarrow> ObservationBudget option \<times> ChunkObservations \<Rightarrow>
   ObservationBudget option \<times> ChunkObservations"
where
  "count_locally c nbytes s =
     (case s of (budget, obs) \<Rightarrow>
        if map_of (co_histogram obs) nbytes \<noteq> None
        then (budget, obs\<lparr>co_histogram := counter_add (co_histogram obs) nbytes 1\<rparr>)
        else if int (length (co_histogram obs)) < int_of (ac_histogram_bins_cap c) then
          (case take_if_shared take_histogram_bin budget of (granted, budget') \<Rightarrow>
             if granted then (budget', obs\<lparr>co_histogram := counter_add (co_histogram obs) nbytes 1\<rparr>)
             else (budget', obs\<lparr>co_histogram_complete := False\<rparr>))
        else (budget, obs\<lparr>co_histogram_complete := False\<rparr>))"

definition count_size ::
  "AttributionConfig \<Rightarrow> int \<Rightarrow> ObservationBudget option \<times> ChunkObservations \<Rightarrow>
   ObservationBudget option \<times> ChunkObservations"
where
  "count_size c nbytes s =
     (case s of
        (Some g, obs) \<Rightarrow>
          (case bg_global_histogram g of
             Some h \<Rightarrow> (Some (count_globally nbytes g h), obs)
           | None \<Rightarrow> count_locally c nbytes s)
      | (None, obs) \<Rightarrow> count_locally c nbytes s)"

definition sample_delivery ::
  "AttributionConfig \<Rightarrow> DeliverySample \<Rightarrow> ObservationBudget option \<times> ChunkObservations \<Rightarrow>
   ObservationBudget option \<times> ChunkObservations"
where
  "sample_delivery c sample s =
     (case s of (budget, obs) \<Rightarrow>
        if int (length (co_delivery_samples obs)) < int_of (ac_chunk_sample_cap c) then
          (case take_if_shared take_record budget of (granted, budget') \<Rightarrow>
             (budget', if granted then obs\<lparr>co_delivery_samples := co_delivery_samples obs @ [sample]\<rparr> else obs))
        else s)"

definition count_bytes :: "int \<Rightarrow> ChunkObservations \<Rightarrow> ChunkObservations" where
  "count_bytes nbytes obs =
     obs\<lparr>co_bytes_read := co_bytes_read obs + nbytes, co_chunks_read := co_chunks_read obs + 1,
       co_min_bytes := Some (case co_min_bytes obs of None \<Rightarrow> nbytes | Some m \<Rightarrow> min m nbytes),
       co_max_bytes := Some (case co_max_bytes obs of None \<Rightarrow> nbytes | Some m \<Rightarrow> max m nbytes)\<rparr>"

definition observe ::
  "AttributionConfig \<Rightarrow> int \<Rightarrow> int \<Rightarrow> int \<Rightarrow> ObservationBudget option \<times> ChunkObservations \<Rightarrow>
   ObservationBudget option \<times> ChunkObservations"
where
  "observe c nbytes arrived_ns started_ns s =
     (case s of (budget, obs) \<Rightarrow>
        if nbytes = 0 then (budget, obs\<lparr>co_empty_deliveries := co_empty_deliveries obs + 1\<rparr>)
        else
          (case count_size c nbytes (budget, count_bytes nbytes obs) of (budget1, obs1) \<Rightarrow>
             let obs2 = obs1\<lparr>co_first_ns := Some (case co_first_ns obs1 of None \<Rightarrow> arrived_ns | Some ns \<Rightarrow> ns)\<rparr>;
                 gap = map_option (\<lambda>previous. millis (arrived_ns - previous)) (co_previous_ns obs2)
             in (case sample_delivery c \<lparr>ds_index = co_chunks_read obs2, ds_size_bytes = nbytes, ds_gap_ms = gap,
                     ds_offset_ns = arrived_ns - started_ns\<rparr> (budget1, obs2) of (budget2, obs3) \<Rightarrow>
                   (budget2, obs3\<lparr>co_previous_ns := Some arrived_ns\<rparr>))))"

subsection \<open>A stream\<close>

record PendingStream =
  ps_stream :: int
  ps_observations :: ChunkObservations
  ps_data :: string
  ps_started_ns :: int
  ps_finished_ns :: int
  ps_close_started_ns :: "int option"
  ps_eof :: bool
  ps_status_code :: "int option"
  ps_content_length :: "string option"
  ps_content_encoding :: "string option"
  ps_transfer_encoding :: "string option"
  ps_http_version :: "string option"
  ps_error :: "(string \<times> string) option"

definition new_stream :: "int \<Rightarrow> int \<Rightarrow> PendingStream" where
  "new_stream stream started_ns =
     \<lparr>ps_stream = stream, ps_observations = no_observations, ps_data = [], ps_started_ns = started_ns,
      ps_finished_ns = 0, ps_close_started_ns = None, ps_eof = False, ps_status_code = None,
      ps_content_length = None, ps_content_encoding = None, ps_transfer_encoding = None, ps_http_version = None,
      ps_error = None\<rparr>"

text \<open>
  Where a stream is in \<^verbatim>\<open>consume_attribution_stream\<close>: before its response, in the loop over its chunks, in
  the \<^verbatim>\<open>finally\<close> of the loop, leaving the response context, and returned. An event is what an await
  gives: the response with its headers, a chunk with the readings around it, the end of the body, an
  exception; and the two clock readings of the \<^verbatim>\<open>finally\<close> blocks.\<close>

datatype stream_phase = Opening | Reading | Closing | Leaving | StreamDone

datatype stream_event =
    Opened int "string option" "string option" "string option" "string option"
  | Delivered string int int int
  | Exhausted
  | Raised string string
  | CloseStarted int
  | Finished int

definition trace_delivery ::
  "AttributionConfig \<Rightarrow> int \<Rightarrow> int \<Rightarrow> int \<Rightarrow> ObservationBudget option \<times> ChunkObservations \<Rightarrow>
   ObservationBudget option \<times> ChunkObservations"
where
  "trace_delivery c await_started arrived consumer_finished s =
     (case s of (budget, obs) \<Rightarrow>
        if ac_instrumentation c = JStr ''diagnostic'' \<and>
           int (length (co_trace obs)) < int_of (ac_chunk_sample_cap c) then
          (case take_if_shared take_record budget of (granted, budget') \<Rightarrow>
             (budget',
              if granted
              then obs\<lparr>co_trace := co_trace obs @ [\<lparr>dt_index = co_chunks_read obs, dt_await_start_ns = await_started,
                     dt_await_finished_ns = arrived, dt_consumer_finished_ns = consumer_finished\<rparr>]\<rparr>
              else obs))
        else s)"

definition deliver ::
  "AttributionConfig \<Rightarrow> int \<Rightarrow> string \<Rightarrow> int \<Rightarrow> int \<Rightarrow> int \<Rightarrow> ObservationBudget option \<times> PendingStream \<Rightarrow>
   stream_phase \<times> ObservationBudget option \<times> PendingStream"
where
  "deliver c body_bytes chunk await_started arrived consumer_finished s =
     (case s of (budget, p) \<Rightarrow>
        (case observe c (int (length chunk)) arrived (ps_started_ns p) (budget, ps_observations p) of (budget1, obs) \<Rightarrow>
           if chunk = [] then (Reading, budget1, p\<lparr>ps_observations := obs\<rparr>)
           else if body_bytes < co_bytes_read obs then
             (Closing, budget1, p\<lparr>ps_observations := obs, ps_data := ps_data p @ chunk,
                ps_error := Some (''ValueError'', ''Public iterator exceeded declared payload size'')\<rparr>)
           else
             (case trace_delivery c await_started arrived consumer_finished (budget1, obs) of (budget2, obs') \<Rightarrow>
                (Reading, budget2, p\<lparr>ps_observations := obs', ps_data := ps_data p @ chunk\<rparr>))))"

type_synonym stream_state = "stream_phase \<times> ObservationBudget option \<times> PendingStream"

fun stream_step :: "AttributionConfig \<Rightarrow> int \<Rightarrow> stream_state \<Rightarrow> stream_event \<Rightarrow> stream_state option" where
  "stream_step c body (Opening, b, p) (Opened status length_header encoding transfer version) =
     Some (Reading, b, p\<lparr>ps_status_code := Some status, ps_content_length := length_header,
       ps_content_encoding := encoding, ps_transfer_encoding := transfer, ps_http_version := version\<rparr>)"
| "stream_step c body (Opening, b, p) (Raised kind message) = Some (Leaving, b, p\<lparr>ps_error := Some (kind, message)\<rparr>)"
| "stream_step c body (Reading, b, p) (Delivered chunk await_started arrived consumer_finished) =
     Some (deliver c body chunk await_started arrived consumer_finished (b, p))"
| "stream_step c body (Reading, b, p) Exhausted = Some (Closing, b, p\<lparr>ps_eof := True\<rparr>)"
| "stream_step c body (Reading, b, p) (Raised kind message) = Some (Closing, b, p\<lparr>ps_error := Some (kind, message)\<rparr>)"
| "stream_step c body (Closing, b, p) (CloseStarted ns) = Some (Leaving, b, p\<lparr>ps_close_started_ns := Some ns\<rparr>)"
| "stream_step c body (Leaving, b, p) (Raised kind message) = Some (Leaving, b, p\<lparr>ps_error := Some (kind, message)\<rparr>)"
| "stream_step c body (Leaving, b, p) (Finished ns) = Some (StreamDone, b, p\<lparr>ps_finished_ns := ns\<rparr>)"
| "stream_step c body s e = None"

subsection \<open>Finalization\<close>

definition integrity_error :: "int \<Rightarrow> string \<Rightarrow> string \<Rightarrow> PendingStream \<Rightarrow> string option" where
  "integrity_error body_bytes found_digest expected_digest p =
     (if ps_status_code p \<noteq> Some 200 \<or> ps_content_length p \<noteq> Some (int_str body_bytes)
      then Some ''Response status or Content-Length differs from the declared workload''
      else if ps_transfer_encoding p \<noteq> None \<or>
              ps_http_version p \<noteq> Some ''HTTP/1.1'' \<and> ps_http_version p \<noteq> Some ''1.1''
      then Some ''Response must use HTTP/1.1 Content-Length framing''
      else if ps_content_encoding p \<noteq> None
      then Some ''Response must be uncompressed with no Content-Encoding header''
      else if \<not> ps_eof p \<or> co_bytes_read (ps_observations p) \<noteq> body_bytes \<or> found_digest \<noteq> expected_digest
      then Some ''Response failed complete-body EOF/length/SHA-256 integrity validation''
      else None)"

definition final_error :: "(string \<Rightarrow> string) \<Rightarrow> int \<Rightarrow> string \<Rightarrow> PendingStream \<Rightarrow> (string \<times> string) option" where
  "final_error sha256 body_bytes expected_digest p =
     (case ps_error p of
        Some e \<Rightarrow> Some e
      | None \<Rightarrow> map_option (\<lambda>message. (''IntegrityError'', message))
          (integrity_error body_bytes (sha256 (ps_data p)) expected_digest p))"

definition verified_success_bytes :: "(string \<Rightarrow> string) \<Rightarrow> int \<Rightarrow> string \<Rightarrow> PendingStream \<Rightarrow> int" where
  "verified_success_bytes sha256 body_bytes expected_digest p =
     (if final_error sha256 body_bytes expected_digest p = None then co_bytes_read (ps_observations p) else 0)"

subsection \<open>The streams of a batch\<close>

type_synonym batch_state = "ObservationBudget option \<times> (stream_phase \<times> PendingStream) list"

definition batch_step ::
  "AttributionConfig \<Rightarrow> int \<Rightarrow> batch_state \<Rightarrow> nat \<times> stream_event \<Rightarrow> batch_state option"
where
  "batch_step c body s indexed =
     (case s of (b, streams) \<Rightarrow>
      case indexed of (i, event) \<Rightarrow>
        if i < length streams then
          (case streams ! i of (phase, p) \<Rightarrow>
             map_option (\<lambda>(phase', b', p'). (b', streams[i := (phase', p')])) (stream_step c body (phase, b, p) event))
        else None)"

fun batch_run ::
  "AttributionConfig \<Rightarrow> int \<Rightarrow> batch_state \<Rightarrow> (nat \<times> stream_event) list \<Rightarrow> batch_state option"
where
  "batch_run c body s [] = Some s"
| "batch_run c body s (e # es) = (case batch_step c body s e of None \<Rightarrow> None | Some s' \<Rightarrow> batch_run c body s' es)"

subsection \<open>What observing keeps\<close>

definition chunk_bounds :: "ChunkObservations \<Rightarrow> bool" where
  "chunk_bounds obs =
     (case (co_min_bytes obs, co_max_bytes obs) of
        (None, None) \<Rightarrow> co_chunks_read obs = 0 \<and> co_bytes_read obs = 0
      | (Some lo, Some hi) \<Rightarrow>
          1 \<le> co_chunks_read obs \<and> 1 \<le> lo \<and> lo \<le> hi \<and> lo * co_chunks_read obs \<le> co_bytes_read obs \<and>
          co_bytes_read obs \<le> hi * co_chunks_read obs
      | _ \<Rightarrow> False)"

definition observed_stream :: "PendingStream \<Rightarrow> bool" where
  "observed_stream p \<longleftrightarrow>
     chunk_bounds (ps_observations p) \<and> co_bytes_read (ps_observations p) = int (length (ps_data p))"

lemma count_size_keeps [simp]:
  "co_bytes_read (snd (count_size c n s)) = co_bytes_read (snd s)"
  "co_chunks_read (snd (count_size c n s)) = co_chunks_read (snd s)"
  "co_min_bytes (snd (count_size c n s)) = co_min_bytes (snd s)"
  "co_max_bytes (snd (count_size c n s)) = co_max_bytes (snd s)"
  by (auto simp: count_size_def count_locally_def split: prod.splits option.splits)

lemma sample_delivery_keeps [simp]:
  "co_bytes_read (snd (sample_delivery c d s)) = co_bytes_read (snd s)"
  "co_chunks_read (snd (sample_delivery c d s)) = co_chunks_read (snd s)"
  "co_min_bytes (snd (sample_delivery c d s)) = co_min_bytes (snd s)"
  "co_max_bytes (snd (sample_delivery c d s)) = co_max_bytes (snd s)"
  by (auto simp: sample_delivery_def split: prod.splits)

lemma trace_delivery_keeps [simp]:
  "co_bytes_read (snd (trace_delivery c a b d s)) = co_bytes_read (snd s)"
  "co_chunks_read (snd (trace_delivery c a b d s)) = co_chunks_read (snd s)"
  "co_min_bytes (snd (trace_delivery c a b d s)) = co_min_bytes (snd s)"
  "co_max_bytes (snd (trace_delivery c a b d s)) = co_max_bytes (snd s)"
  by (auto simp: trace_delivery_def split: prod.splits)

definition observed :: "int \<Rightarrow> ChunkObservations \<Rightarrow> ChunkObservations \<Rightarrow> bool" where
  "observed n obs obs' \<longleftrightarrow>
     (let counted = if n = 0 then obs else count_bytes n obs
      in co_bytes_read obs' = co_bytes_read counted \<and> co_chunks_read obs' = co_chunks_read counted \<and>
         co_min_bytes obs' = co_min_bytes counted \<and> co_max_bytes obs' = co_max_bytes counted)"

lemma observe_observed: "observed n obs (snd (observe c n arrived started (b, obs)))"
proof (cases "n = 0")
  case False
  obtain b1 obs1 where 1: "count_size c n (b, count_bytes n obs) = (b1, obs1)" by fastforce
  let ?obs2 = "obs1\<lparr>co_first_ns := Some (case co_first_ns obs1 of None \<Rightarrow> arrived | Some ns \<Rightarrow> ns)\<rparr>"
  let ?d = "\<lparr>ds_index = co_chunks_read ?obs2, ds_size_bytes = n,
    ds_gap_ms = map_option (\<lambda>previous. millis (arrived - previous)) (co_previous_ns ?obs2), ds_offset_ns = arrived - started\<rparr>"
  obtain b2 obs3 where 2: "sample_delivery c ?d (b1, ?obs2) = (b2, obs3)" by fastforce
  have "observe c n arrived started (b, obs) = (b2, obs3\<lparr>co_previous_ns := Some arrived\<rparr>)"
    using False 1 2 by (simp add: observe_def Let_def)
  moreover note count_size_keeps [of c n "(b, count_bytes n obs)", unfolded 1 snd_conv]
    sample_delivery_keeps [of c ?d "(b1, ?obs2)", unfolded 2 snd_conv]
  ultimately show ?thesis using False by (simp add: observed_def)
qed (simp add: observe_def observed_def)

lemma count_bytes_bounds:
  assumes "chunk_bounds obs" "0 < n"
  shows "chunk_bounds (count_bytes n obs)"
proof -
  have "(min lo n) * (k + 1) \<le> total + n" "total + n \<le> (max hi n) * (k + 1)"
    if "lo * k \<le> total" "total \<le> hi * k" "1 \<le> k" for lo hi k total :: int
  proof -
    have "min lo n * k \<le> lo * k" "hi * k \<le> max hi n * k" using that(3) by (intro mult_right_mono; simp)+
    with that(1,2) show "(min lo n) * (k + 1) \<le> total + n" "total + n \<le> (max hi n) * (k + 1)"
      by (simp_all add: distrib_left)
  qed
  with assms show ?thesis
    by (auto simp: chunk_bounds_def count_bytes_def split: option.splits)
qed

lemma observed_bounds: "chunk_bounds obs \<Longrightarrow> 0 \<le> n \<Longrightarrow> observed n obs obs' \<Longrightarrow> chunk_bounds obs'"
  using count_bytes_bounds [of obs n] by (cases "n = 0") (auto simp: observed_def Let_def chunk_bounds_def split: option.splits)

subsection \<open>The histogram of a window covers every chunk\<close>

definition histogram_bytes :: "histogram \<Rightarrow> int" where
  "histogram_bytes h = (\<Sum>(nbytes, count)\<leftarrow>h. nbytes * count)"

lemma histogram_bytes_add: "histogram_bytes (counter_add h n k) = histogram_bytes h + n * k"
proof -
  have "histogram_bytes (AList.update n (v + k) h) = histogram_bytes h + n * (v + k) - n * v"
    if "counter_get h n = v" for v
    using that
    by (induction h) (auto simp: histogram_bytes_def counter_get_def split: if_splits)
  then show ?thesis by (simp add: counter_add_def algebra_simps)
qed

definition wf_histogram :: "histogram \<Rightarrow> bool" where
  "wf_histogram h \<longleftrightarrow> distinct (map fst h) \<and> list_all (\<lambda>(nbytes, count). 0 < nbytes \<and> 0 < count) h"

lemma counter_get_pos: "wf_histogram h \<Longrightarrow> 0 \<le> counter_get h n"
  by (fastforce simp: wf_histogram_def counter_get_def list_all_iff split: option.splits dest: map_of_SomeD)

lemma set_update: "set (AList.update k v d) \<subseteq> insert (k, v) (set d)"
  by (induction d) auto

lemma wf_histogram_add:
  assumes "wf_histogram h" "0 < n"
  shows "wf_histogram (counter_add h n 1)"
proof -
  have "distinct (map fst (counter_add h n 1))"
    using assms(1) by (simp add: wf_histogram_def counter_add_def distinct_update)
  moreover have "0 < fst kv \<and> 0 < snd kv" if "kv \<in> set (counter_add h n 1)" for kv
  proof -
    have "kv = (n, counter_get h n + 1) \<or> kv \<in> set h"
      using that set_update [of n "counter_get h n + 1" h] by (auto simp: counter_add_def)
    then show ?thesis
      using counter_get_pos [OF assms(1), of n] assms by (auto simp: wf_histogram_def list_all_iff)
  qed
  ultimately show ?thesis by (auto simp: wf_histogram_def list_all_iff)
qed

lemma counter_add_keys: "fst ` set (counter_add h n k) = insert n (fst ` set h)"
  by (simp add: counter_add_def dom_update)

lemma counter_add_length:
  "length (counter_add h n k) = (if map_of h n = None then Suc (length h) else length h)"
  unfolding counter_add_def by (induction h) (auto simp: counter_get_def)

definition budget_counts :: "ObservationBudget \<Rightarrow> histogram option \<times> bool \<times> int \<times> int" where
  "budget_counts g =
     (bg_global_histogram g, bg_global_histogram_complete g, bg_histogram_bins g, bg_histogram_bins_cap g)"

lemma sample_delivery_counts: "map_option budget_counts (fst (sample_delivery c d s)) = map_option budget_counts (fst s)"
  by (auto simp: sample_delivery_def take_if_shared_def take_record_def budget_counts_def split: prod.splits option.splits)

lemma trace_delivery_counts: "map_option budget_counts (fst (trace_delivery c a b d s)) = map_option budget_counts (fst s)"
  by (auto simp: trace_delivery_def take_if_shared_def take_record_def budget_counts_def split: prod.splits option.splits)

lemma observe_counts:
  assumes "bg_global_histogram g = Some h" "n \<noteq> 0"
  shows "map_option budget_counts (fst (observe c n arrived started (Some g, obs))) =
    Some (budget_counts (count_globally n g h))"
proof -
  have 1: "count_size c n (Some g, count_bytes n obs) = (Some (count_globally n g h), count_bytes n obs)"
    by (simp add: count_size_def assms(1))
  let ?obs2 = "count_bytes n obs\<lparr>co_first_ns := Some (case co_first_ns (count_bytes n obs) of None \<Rightarrow> arrived | Some ns \<Rightarrow> ns)\<rparr>"
  let ?d = "\<lparr>ds_index = co_chunks_read ?obs2, ds_size_bytes = n,
    ds_gap_ms = map_option (\<lambda>previous. millis (arrived - previous)) (co_previous_ns ?obs2), ds_offset_ns = arrived - started\<rparr>"
  obtain b2 obs3 where 2: "sample_delivery c ?d (Some (count_globally n g h), ?obs2) = (b2, obs3)" by fastforce
  have "fst (observe c n arrived started (Some g, obs)) = b2" using assms(2) 1 2 by (simp add: observe_def Let_def)
  with sample_delivery_counts [of c ?d "(Some (count_globally n g h), ?obs2)", unfolded 2 fst_conv]
  show ?thesis by simp
qed

text \<open>
  The invariant of a timed window: the bins of the shared histogram are distinct, positive and within the
  cap, and as long as the histogram is complete it counts every chunk and byte of every stream.\<close>

definition covered :: "ObservationBudget \<Rightarrow> histogram \<Rightarrow> PendingStream list \<Rightarrow> bool" where
  "covered g h streams \<longleftrightarrow>
     wf_histogram h \<and> int (length h) = bg_histogram_bins g \<and> bg_histogram_bins g \<le> bg_histogram_bins_cap g \<and>
     (if bg_global_histogram_complete g
      then counter_total h = (\<Sum>p\<leftarrow>streams. co_chunks_read (ps_observations p)) \<and>
        histogram_bytes h = (\<Sum>p\<leftarrow>streams. co_bytes_read (ps_observations p)) \<and>
        list_all (\<lambda>p. set_option (co_min_bytes (ps_observations p)) \<union> set_option (co_max_bytes (ps_observations p))
          \<subseteq> fst ` set h) streams
      else True)"

definition window_inv :: "int \<Rightarrow> batch_state \<Rightarrow> bool" where
  "window_inv cap s \<longleftrightarrow>
     (case s of (b, streams) \<Rightarrow>
        list_all (\<lambda>(phase, p). observed_stream p) streams \<and>
        (\<exists>g h. b = Some g \<and> bg_global_histogram g = Some h \<and> bg_histogram_bins_cap g = cap \<and>
           covered g h (map snd streams)))"

lemma count_globally_facts:
  assumes "wf_histogram h" "int (length h) = bg_histogram_bins g" "bg_histogram_bins g \<le> bg_histogram_bins_cap g"
    and "bg_global_histogram g = Some h" "0 < n"
  obtains h' where "bg_global_histogram (count_globally n g h) = Some h'" "wf_histogram h'"
    "int (length h') = bg_histogram_bins (count_globally n g h)"
    "bg_histogram_bins (count_globally n g h) \<le> bg_histogram_bins_cap (count_globally n g h)"
    "bg_histogram_bins_cap (count_globally n g h) = bg_histogram_bins_cap g"
    "bg_global_histogram_complete (count_globally n g h) \<longrightarrow> bg_global_histogram_complete g \<and> h' = counter_add h n 1"
proof -
  have "count_globally n g h = g\<lparr>bg_global_histogram := Some (counter_add h n 1)\<rparr> \<and> map_of h n \<noteq> None \<or>
      count_globally n g h = g\<lparr>bg_histogram_bins := bg_histogram_bins g + 1, bg_global_histogram := Some (counter_add h n 1)\<rparr>
        \<and> map_of h n = None \<and> bg_histogram_bins g < bg_histogram_bins_cap g \<or>
      count_globally n g h = g\<lparr>bg_global_histogram_complete := False\<rparr>"
    by (auto simp: count_globally_def take_histogram_bin_def)
  then show thesis
  proof (elim disjE conjE)
    assume "count_globally n g h = g\<lparr>bg_global_histogram_complete := False\<rparr>"
    with assms show thesis by (intro that [of h]) simp_all
  qed (use assms wf_histogram_add in \<open>(intro that [of "counter_add h n 1"]; simp add: counter_add_length)+\<close>)
qed

lemma observed_same: "observed 0 obs obs"
  by (simp add: observed_def)

lemma stream_step_cases:
  assumes "stream_step c body (phase, Some g, p) e = Some (phase', b', p')" "bg_global_histogram g = Some h"
  obtains (quiet) "b' = Some g" "observed 0 (ps_observations p) (ps_observations p')" "ps_data p' = ps_data p"
  | (chunk) chunk g' where "chunk \<noteq> []" "b' = Some g'"
      "budget_counts g' = budget_counts (count_globally (int (length chunk)) g h)"
      "observed (int (length chunk)) (ps_observations p) (ps_observations p')" "ps_data p' = ps_data p @ chunk"
proof (cases "phase = Reading \<and> (\<exists>chunk a r d. e = Delivered chunk a r d)")
  case True
  then obtain chunk a r d where e: "phase = Reading" "e = Delivered chunk a r d" by blast
  let ?n = "int (length chunk)"
  obtain b1 obs1 where 1: "observe c ?n r (ps_started_ns p) (Some g, ps_observations p) = (b1, obs1)" by fastforce
  note obs = observe_observed [of ?n "ps_observations p" c r "ps_started_ns p" "Some g", unfolded 1 snd_conv]
  obtain b2 obs2 where 2: "trace_delivery c a r d (b1, obs1) = (b2, obs2)" by fastforce
  note kept = trace_delivery_keeps [of c a r d "(b1, obs1)", unfolded 2 snd_conv]
    trace_delivery_counts [of c a r d "(b1, obs1)", unfolded 2 fst_conv]
  have step: "deliver c body chunk a r d (Some g, p) = (phase', b', p')" using assms(1) e by simp
  show thesis
  proof (cases "chunk = []")
    case True
    then have empty: "observe c 0 r (ps_started_ns p) (Some g, ps_observations p) = (b1, obs1)" "b1 = Some g"
      using 1 by (auto simp: observe_def)
    with step True obs show thesis by (intro quiet) (auto simp: deliver_def)
  next
    case False
    have counts: "map_option budget_counts b1 = Some (budget_counts (count_globally ?n g h))"
      using observe_counts [OF assms(2), of ?n c r "ps_started_ns p" "ps_observations p"] False by (simp add: 1)
    have "ps_data p' = ps_data p @ chunk" "(b', ps_observations p') = (b1, obs1) \<or> (b', ps_observations p') = (b2, obs2)"
      using step False by (auto simp: deliver_def 1 2 split: if_splits)
    with kept obs counts False show thesis
      by (elim disjE) (auto simp: observed_def Let_def intro!: chunk)
  qed
next
  case False
  with assms(1) show thesis
    by (cases "(c, body, (phase, Some g, p), e)" rule: stream_step.cases) (auto intro!: quiet observed_same)
qed

lemma covered_same:
  assumes "covered g h ps" "i < length ps"
    and same: "co_bytes_read (ps_observations p) = co_bytes_read (ps_observations (ps ! i))"
      "co_chunks_read (ps_observations p) = co_chunks_read (ps_observations (ps ! i))"
      "co_min_bytes (ps_observations p) = co_min_bytes (ps_observations (ps ! i))"
      "co_max_bytes (ps_observations p) = co_max_bytes (ps_observations (ps ! i))"
  shows "covered g h (ps[i := p])"
proof (cases "bg_global_histogram_complete g")
  case True
  let ?P = "\<lambda>p. set_option (co_min_bytes (ps_observations p)) \<union> set_option (co_max_bytes (ps_observations p)) \<subseteq> fst ` set h"
  have all: "list_all ?P ps" using assms(1) True by (simp add: covered_def)
  then have "?P (ps ! i)" using assms(2) by (simp add: list_all_length)
  then have "list_all ?P (ps[i := p])" using all same(3,4) by (intro list_all_replace) simp_all
  with assms(1,2) same(1,2) True show ?thesis by (simp add: covered_def sum_list_replace)
qed (use assms(1) in \<open>simp add: covered_def\<close>)

lemma window_step:
  assumes "window_inv cap s" "batch_step c body s e = Some s'"
  shows "window_inv cap s'"
proof -
  obtain g h streams where s: "s = (Some g, streams)" "bg_global_histogram g = Some h" "bg_histogram_bins_cap g = cap"
      "covered g h (map snd streams)" "list_all (\<lambda>(phase, p). observed_stream p) streams"
    using assms(1) by (auto simp: window_inv_def)
  obtain i event where e: "e = (i, event)" by (cases e)
  obtain phase p where old: "i < length streams" "streams ! i = (phase, p)"
    using assms(2) by (cases "streams ! i") (auto simp: batch_step_def s e split: if_splits)
  obtain phase' b' p' where new: "stream_step c body (phase, Some g, p) event = Some (phase', b', p')"
      "s' = (b', streams[i := (phase', p')])"
    using assms(2) old by (auto simp: batch_step_def s e)
  have observed_p: "observed_stream p" using s(5) old by (auto simp: list_all_length)
  have update: "map snd (streams[i := (phase', p')]) = (map snd streams)[i := p']" "map snd streams ! i = p"
    using old by (simp_all add: map_update)
  have facts: "wf_histogram h" "int (length h) = bg_histogram_bins g" "bg_histogram_bins g \<le> bg_histogram_bins_cap g"
    using s(4) by (simp_all add: covered_def)
  from new(1) s(2) show ?thesis
  proof (cases rule: stream_step_cases)
    case quiet
    then have same: "co_bytes_read (ps_observations p') = co_bytes_read (ps_observations p)"
        "co_chunks_read (ps_observations p') = co_chunks_read (ps_observations p)"
        "co_min_bytes (ps_observations p') = co_min_bytes (ps_observations p)"
        "co_max_bytes (ps_observations p') = co_max_bytes (ps_observations p)"
      by (simp_all add: observed_def Let_def)
    have "observed_stream p'" using observed_p quiet(3) same(1) observed_bounds [OF _ _ quiet(2)] by (simp add: observed_stream_def)
    moreover have "covered g h ((map snd streams)[i := p'])"
      using s(4) old(1) update(2) same by (intro covered_same) simp_all
    ultimately show ?thesis
      using s(2,3,5) new(2) quiet(1) update(1) by (auto simp: window_inv_def intro!: list_all_replace)
  next
    case (chunk chunk g')
    let ?n = "int (length chunk)"
    have n: "0 < ?n" using chunk(1) by simp
    have obs: "co_bytes_read (ps_observations p') = co_bytes_read (ps_observations p) + ?n"
        "co_chunks_read (ps_observations p') = co_chunks_read (ps_observations p) + 1"
        "set_option (co_min_bytes (ps_observations p')) \<union> set_option (co_max_bytes (ps_observations p')) \<subseteq>
           insert ?n (set_option (co_min_bytes (ps_observations p)) \<union> set_option (co_max_bytes (ps_observations p)))"
      using chunk(4) n
      by (auto simp: observed_def Let_def count_bytes_def min_def max_def split: option.splits if_splits)
    have "observed_stream p'"
      using observed_p chunk(4,5) obs(1) observed_bounds [OF _ _ chunk(4)] by (simp add: observed_stream_def)
    obtain h' where h': "bg_global_histogram (count_globally ?n g h) = Some h'" "wf_histogram h'"
        "int (length h') = bg_histogram_bins (count_globally ?n g h)"
        "bg_histogram_bins (count_globally ?n g h) \<le> bg_histogram_bins_cap (count_globally ?n g h)"
        "bg_histogram_bins_cap (count_globally ?n g h) = bg_histogram_bins_cap g"
        "bg_global_histogram_complete (count_globally ?n g h) \<longrightarrow> bg_global_histogram_complete g \<and> h' = counter_add h ?n 1"
      by (rule count_globally_facts [OF facts s(2) n])
    have g': "bg_global_histogram g' = Some h'" "int (length h') = bg_histogram_bins g'"
        "bg_histogram_bins g' \<le> bg_histogram_bins_cap g'" "bg_histogram_bins_cap g' = cap"
        "bg_global_histogram_complete g' \<Longrightarrow> bg_global_histogram_complete g \<and> h' = counter_add h ?n 1"
      using chunk(3) h' s(3) by (simp_all add: budget_counts_def)
    have "covered g' h' ((map snd streams)[i := p'])"
    proof (cases "bg_global_histogram_complete g'")
      case True
      have complete: "counter_total h = (\<Sum>p\<leftarrow>map snd streams. co_chunks_read (ps_observations p))"
          "histogram_bytes h = (\<Sum>p\<leftarrow>map snd streams. co_bytes_read (ps_observations p))"
          "list_all (\<lambda>p. set_option (co_min_bytes (ps_observations p)) \<union> set_option (co_max_bytes (ps_observations p))
            \<subseteq> fst ` set h) (map snd streams)"
        using g'(5) [OF True] s(4) by (simp_all add: covered_def)
      have here: "set_option (co_min_bytes (ps_observations p)) \<union> set_option (co_max_bytes (ps_observations p)) \<subseteq> fst ` set h"
        using complete(3) nth_mem [of i "map snd streams"] old(1) update(2) unfolding list_all_iff by auto
      have "counter_total h' = counter_total h + 1" "histogram_bytes h' = histogram_bytes h + ?n"
          "fst ` set h' = insert ?n (fst ` set h)"
        using g'(5) [OF True] py_counter.total_add [of h ?n 1]
        by (simp_all add: histogram_bytes_add counter_add_keys)
      moreover have "list_all (\<lambda>p. set_option (co_min_bytes (ps_observations p)) \<union> set_option (co_max_bytes (ps_observations p))
            \<subseteq> insert ?n (fst ` set h)) ((map snd streams)[i := p'])"
        using complete(3) obs(3) here by (intro list_all_replace) (auto simp: list_all_iff)
      ultimately show ?thesis
        using True h'(2) g'(2,3) complete(1,2) old(1) update(2) obs(1,2) by (simp add: covered_def sum_list_replace)
    qed (use h'(2) g'(2,3) in \<open>simp add: covered_def\<close>)
    with \<open>observed_stream p'\<close> show ?thesis
      using s(5) g'(1,4) new(2) chunk(2) update(1) by (auto simp: window_inv_def intro!: list_all_replace)
  qed
qed

lemma window_run: "window_inv cap s \<Longrightarrow> batch_run c body s es = Some s' \<Longrightarrow> window_inv cap s'"
  by (induction es arbitrary: s) (auto split: option.splits dest: window_step)

end
