(* ===== verification/Window_Evidence.thy ===== *)
theory Window_Evidence
  imports Stream_Observation
begin

text \<open>
  streaming/report_values.py and streaming/attribution_window.py: reading untrusted values of a report, and
  the check that the record of a timed window agrees with its streams, its histogram and its replay. The
  sum of floats of the platform is the parameter \<open>fsum\<close>.
\<close>

subsection \<open>Values of a report\<close>

fun object_list :: "json \<Rightarrow> obj list" where
  "object_list (JList xs) = map object_value (filter is_dict xs)"
| "object_list v = []"

fun list_value :: "json \<Rightarrow> json list" where
  "list_value (JList xs) = xs"
| "list_value v = []"

fun number :: "json \<Rightarrow> pyfloat option result" where
  "number (JInt n) = bindE (float_of_int n) (\<lambda>x. Inr (Some x))"
| "number (JFloat x) = Inr (if is_finite x then Some x else None)"
| "number v = Inr None"

fun int_value :: "json \<Rightarrow> int" where
  "int_value (JInt n) = n"
| "int_value v = 0"

subsection \<open>Tests that can raise\<close>

fun allE :: "('a \<Rightarrow> bool result) \<Rightarrow> 'a list \<Rightarrow> bool result" where
  "allE f [] = Inr True"
| "allE f (x # xs) = bindE (f x) (\<lambda>b. if b then allE f xs else Inr False)"

definition andE :: "bool \<Rightarrow> bool result \<Rightarrow> bool result" where
  "andE b m = (if b then m else Inr False)"

lemma allE_True [ok]: "allE f xs = Inr True \<longleftrightarrow> list_all (\<lambda>x. f x = Inr True) xs"
  by (induction xs) (auto simp: bindE_ok)

lemma andE_True [ok]: "andE b m = Inr True \<longleftrightarrow> b \<and> m = Inr True"
  by (simp add: andE_def)

text \<open>\<^verbatim>\<open>key in histogram\<close>\<close>

definition key_in :: "histogram \<Rightarrow> json \<Rightarrow> bool result" where
  "key_in h v =
     (if \<not> hashable v then Inl (TypeError ''unhashable type'')
      else Inr (list_ex (\<lambda>(nbytes, count). py_eq v (JInt nbytes)) h))"

text \<open>\<^verbatim>\<open>math.isclose\<close> of the standard library, for finite tolerances.\<close>

definition fabs :: "pyfloat \<Rightarrow> pyfloat" where
  "fabs x = (if flt x (Fin 0) then fneg x else x)"

definition isclose :: "pyfloat \<Rightarrow> pyfloat \<Rightarrow> pyfloat \<Rightarrow> pyfloat \<Rightarrow> bool" where
  "isclose a b rel_tol abs_tol =
     (if feq a b then True
      else if \<not> is_finite a \<and> a \<noteq> NaN \<or> \<not> is_finite b \<and> b \<noteq> NaN then False
      else
        (let diff = fabs (fsub b a)
         in fle diff (fabs (fmul rel_tol b)) \<or> fle diff (fabs (fmul rel_tol a)) \<or> fle diff abs_tol))"

definition TOLERANCE :: pyfloat where "TOLERANCE = round64 (1 / 1000000000000)"

subsection \<open>The workload of a window\<close>

definition window_workload_matches :: "obj \<Rightarrow> obj \<Rightarrow> int \<Rightarrow> bool result" where
  "window_workload_matches batch configuration concurrency =
     (let declared = object_value (get configuration ''attribution'');
          window = object_value (get batch ''window'');
          rounds = get batch ''rounds''; minimum_rounds = get configuration ''rounds_per_batch'';
          limit = get declared ''max_window_streams''
      in bindE (number (get batch ''duration_s'')) (\<lambda>duration.
         bindE (number (get declared ''minimum_duration_s'')) (\<lambda>target.
           case (duration, target) of
             (Some d, Some t) \<Rightarrow>
               if \<not> between (Fin 1) (Fin (of_int MAX_WINDOW_DURATION_S)) t \<or>
                  \<not> int_between MIN_WINDOW_STREAMS MAX_WINDOW_STREAMS limit \<or>
                  \<not> type_is_int rounds \<or> \<not> type_is_int minimum_rounds \<or> int_of rounds < int_of minimum_rounds
               then Inr False
               else if concurrency = 0 then Inl (ZeroDivisionError ''integer division or modulo by zero'')
               else if int_of limit div concurrency < int_of rounds \<or>
                  \<not> py_eq (get window ''minimum_duration_s'') (JFloat t) \<or>
                  \<not> py_eq (get window ''minimum_rounds'') minimum_rounds \<or>
                  \<not> py_eq (get window ''max_streams'') limit \<or>
                  \<not> py_eq (get batch ''requests'') (JInt (int_of rounds * concurrency))
               then Inr False
               else
                 (let reached = fle t d
                  in Inr (get window ''target_reached'' = JBool reached \<and>
                       (if reached then get window ''stop_reason'' = JStr ''duration-reached''
                        else get window ''stop_reason'' = JStr ''stream-limit'' \<and>
                          int_of rounds = int_of limit div concurrency)))
           | _ \<Rightarrow> Inr False)))"

subsection \<open>The histogram and the replay of a window\<close>

fun histogram_bins :: "histogram \<Rightarrow> obj list \<Rightarrow> histogram option" where
  "histogram_bins h [] = Some h"
| "histogram_bins h (item # items) =
     (case (get item ''size_bytes'', get item ''count'') of
        (JInt nbytes, JInt chunks) \<Rightarrow>
          if nbytes \<le> 0 \<or> chunks \<le> 0 \<or> map_of h nbytes \<noteq> None then None
          else histogram_bins (AList.update nbytes chunks h) items
      | _ \<Rightarrow> None)"

definition parse_histogram :: "json \<Rightarrow> histogram option" where
  "parse_histogram value =
     (let bins = object_list value
      in if \<not> is_list value \<or> bins = [] \<or> length bins \<noteq> length (list_value value) then None
         else histogram_bins [] bins)"

definition stream_chunk_bounds_match :: "obj \<Rightarrow> int \<Rightarrow> bool" where
  "stream_chunk_bounds_match sample body =
     (let chunks = get sample ''chunks_read''; distribution = object_value (get sample ''distribution'');
          minimum = get distribution ''min_bytes''; maximum = get distribution ''max_bytes''
      in int_between 1 body chunks \<and> type_is_int minimum \<and> type_is_int maximum \<and>
         1 \<le> int_of minimum \<and> int_of minimum \<le> int_of maximum \<and> int_of maximum \<le> body \<and>
         int_of minimum * int_of chunks \<le> body \<and> body \<le> int_of maximum * int_of chunks)"

text \<open>The segments in turn: \<open>None\<close> where the loop returns false, else the combined histogram.\<close>

definition segment_times :: "string list" where
  "segment_times = [''scalar_only_s'', ''sha256_only_s'', ''combined_s'']"

definition nonnegative_number :: "json \<Rightarrow> bool result" where
  "nonnegative_number v = bindE (number v) (\<lambda>x. Inr (case x of None \<Rightarrow> False | Some d \<Rightarrow> \<not> flt d (Fin 0)))"

fun combine_segments :: "obj \<Rightarrow> histogram \<Rightarrow> obj list \<Rightarrow> histogram option result" where
  "combine_segments config combined [] = Inr (Some combined)"
| "combine_segments config combined (segment # segments) =
     (case parse_histogram (get segment ''histogram'') of
        None \<Rightarrow> Inr None
      | Some bins \<Rightarrow>
          if \<not> py_eq (get segment ''replay_bytes'') (JInt (histogram_bytes bins)) \<or>
             \<not> py_eq (get segment ''replay_chunks'') (JInt (counter_total bins)) \<or>
             int_value (get config ''replay_max_bytes'') < histogram_bytes bins \<or>
             int_value (get config ''replay_max_chunks'') < counter_total bins
          then Inr None
          else
            bindE (allE (\<lambda>key. nonnegative_number (get segment key)) segment_times) (\<lambda>measured.
              if measured then combine_segments config (merge_counts combined bins) segments else Inr None))"

text \<open>Dictionaries compare without their order.\<close>

definition same_counts :: "histogram \<Rightarrow> histogram \<Rightarrow> bool" where
  "same_counts h k = (length h = length k \<and> list_all (\<lambda>(nbytes, count). map_of k nbytes = Some count) h)"

definition number_or_zero :: "json \<Rightarrow> pyfloat result" where
  "number_or_zero v = bindE (number v) (\<lambda>x. Inr (case x of None \<Rightarrow> Fin 0 | Some d \<Rightarrow> d))"

definition total_matches :: "(pyfloat list \<Rightarrow> pyfloat) \<Rightarrow> obj \<Rightarrow> obj list \<Rightarrow> string \<Rightarrow> bool result" where
  "total_matches fsum replay segments key =
     bindE (number (get replay key)) (\<lambda>total.
       case total of
         None \<Rightarrow> Inr False
       | Some t \<Rightarrow>
           bindE (mapE (\<lambda>segment. number_or_zero (get segment key)) segments) (\<lambda>times.
             Inr (isclose t (fsum times) TOLERANCE TOLERANCE)))"

definition replay_matches :: "(pyfloat list \<Rightarrow> pyfloat) \<Rightarrow> obj \<Rightarrow> histogram \<Rightarrow> obj \<Rightarrow> bool result" where
  "replay_matches fsum replay h config =
     (let segments = object_list (get replay ''segments'')
      in if segments = [] \<or> MAX_REPLAY_SEGMENTS < length segments then Inr False
         else
           bindE (combine_segments config [] segments) (\<lambda>combined.
             case combined of
               None \<Rightarrow> Inr False
             | Some k \<Rightarrow>
                 andE (same_counts k h \<and> py_eq (get replay ''replay_bytes'') (JInt (histogram_bytes h)) \<and>
                     py_eq (get replay ''replay_chunks'') (JInt (counter_total h)))
                   (allE (total_matches fsum replay segments) segment_times)))"

definition sample_in_window :: "histogram \<Rightarrow> int \<Rightarrow> obj \<Rightarrow> bool result" where
  "sample_in_window h body sample =
     (let distribution = object_value (get sample ''distribution'')
      in andE (get distribution ''scope'' = JStr ''batch-global'' \<and> py_eq (get distribution ''histogram'') (JList []))
           (bindE (key_in h (get distribution ''min_bytes'')) (\<lambda>minimum. andE minimum
              (bindE (key_in h (get distribution ''max_bytes'')) (\<lambda>maximum.
                 Inr (maximum \<and> stream_chunk_bounds_match sample body))))))"

definition window_distribution_matches :: "(pyfloat list \<Rightarrow> pyfloat) \<Rightarrow> obj \<Rightarrow> obj \<Rightarrow> bool result" where
  "window_distribution_matches fsum batch configuration =
     (let window = object_value (get batch ''window'');
          distribution = object_value (get window ''global_histogram'');
          attribution = object_value (get configuration ''attribution'');
          body = get configuration ''body_bytes''; samples = object_list (get batch ''samples'');
          cap = get attribution ''histogram_bins_cap''
      in case parse_histogram (get distribution ''histogram'') of
           None \<Rightarrow> Inr False
         | Some h \<Rightarrow>
             if \<not> type_is_int body \<or> \<not> int_between 1 MAX_HISTOGRAM_BINS cap \<or> int_of cap < int (length h) \<or>
                list_ex (\<lambda>(nbytes, count). int_of body < nbytes) h \<or>
                get distribution ''complete'' \<noteq> JBool True \<or> get distribution ''scope'' \<noteq> JStr ''batch-global'' \<or>
                \<not> py_eq (get distribution ''bins_cap'') cap \<or> samples = []
             then Inr False
             else if counter_total h \<noteq> sum_list (map (\<lambda>sample. int_value (get sample ''chunks_read'')) samples) \<or>
                histogram_bytes h \<noteq> int_of body * int (length samples) \<or>
                \<not> py_eq (get distribution ''observed_count'') (JInt (counter_total h)) \<or>
                \<not> py_eq (get distribution ''observed_bytes'') (JInt (histogram_bytes h)) \<or>
                \<not> py_eq (get batch ''chunks_read_total'') (JInt (counter_total h)) \<or>
                \<not> py_eq (get batch ''total_observed_bytes'') (JInt (histogram_bytes h))
             then Inr False
             else
               bindE (allE (sample_in_window h (int_of body)) samples) (\<lambda>ok.
                 andE ok (replay_matches fsum (object_value (get batch ''overhead'')) h attribution)))"

end
