(* ===== verification/Attribution_Measure.thy ===== *)
theory Attribution_Measure
  imports Window_Evidence Aggregation
begin

text \<open>
  streaming/attribution_measure.py with bytes_payloads.py and the payloads of attribution_consume.py: a batch
  of measured streams, its replay, and the record of both. The event loop's schedule, the clock readings,
  the process counters and the replay times are inputs; SHA-256 and the float sum are parameters.
\<close>

subsection \<open>The expected body\<close>

definition BYTE_PATTERN :: string where "BYTE_PATTERN = map char_of [0..<256::nat]"

definition DIGEST_BLOCK :: string where "DIGEST_BLOCK = concat (replicate 256 BYTE_PATTERN)"

definition streaming_bytes_payload :: "nat \<Rightarrow> string" where
  "streaming_bytes_payload size_bytes =
     concat (replicate (size_bytes div length BYTE_PATTERN) BYTE_PATTERN) @
     take (size_bytes mod length BYTE_PATTERN) BYTE_PATTERN"

text \<open>Hashing the blocks one by one hashes their concatenation.\<close>

definition streaming_bytes_sha256 :: "(string \<Rightarrow> string) \<Rightarrow> nat \<Rightarrow> string" where
  "streaming_bytes_sha256 sha256 size_bytes =
     sha256 (concat (replicate (size_bytes div length DIGEST_BLOCK) DIGEST_BLOCK) @
       take (size_bytes mod length DIGEST_BLOCK) DIGEST_BLOCK)"

text \<open>The digest is that of the payload, byte for byte.\<close>

lemma repeated_blocks:
  "concat (replicate k pattern) = map (\<lambda>i. pattern ! (i mod length pattern)) [0..<k * length pattern]"
proof (induction k)
  case (Suc k)
  let ?l = "length pattern"
  have "map (\<lambda>i. pattern ! (i mod ?l)) [k * ?l..<k * ?l + ?l] = pattern"
    by (rule nth_equalityI) simp_all
  moreover have "concat (replicate (Suc k) pattern) = concat (replicate k pattern) @ pattern"
    by (induction k) simp_all
  moreover have "[0..<Suc k * ?l] = [0..<k * ?l] @ [k * ?l..<k * ?l + ?l]"
    using upt_add_eq_append [of 0 "k * ?l" ?l] by (simp add: add.commute)
  ultimately show ?case using Suc by simp
qed simp

lemma repeated_pattern:
  assumes "pattern \<noteq> []"
  shows "concat (replicate (n div length pattern) pattern) @ take (n mod length pattern) pattern =
    map (\<lambda>i. pattern ! (i mod length pattern)) [0..<n]"
proof -
  let ?l = "length pattern"
  define q r where "q = n div ?l" and "r = n mod ?l"
  have r: "n = q * ?l + r" "r < ?l" using assms by (simp_all add: q_def r_def)
  have "take r pattern = map (\<lambda>i. pattern ! (i mod ?l)) [q * ?l..<q * ?l + r]"
    using r(2) by (intro nth_equalityI) simp_all
  moreover have "[0..<n] = [0..<q * ?l] @ [q * ?l..<q * ?l + r]"
    using upt_add_eq_append [of 0 "q * ?l" r] by (simp add: r(1))
  ultimately show ?thesis by (simp add: repeated_blocks flip: q_def r_def)
qed

lemma BYTE_PATTERN_nth: "length BYTE_PATTERN = 256" "BYTE_PATTERN ! (i mod 256) = char_of (i mod 256)"
  by (simp_all add: BYTE_PATTERN_def)

lemma DIGEST_BLOCK_nth: "length DIGEST_BLOCK = 65536" "DIGEST_BLOCK ! (i mod 65536) = char_of (i mod 256)"
proof -
  note block = repeated_blocks [of 256 BYTE_PATTERN, folded DIGEST_BLOCK_def, unfolded BYTE_PATTERN_nth]
  show "length DIGEST_BLOCK = 65536" by (subst block) simp
  have "i mod 65536 < 256 * 256" by simp
  then have "DIGEST_BLOCK ! (i mod 65536) = char_of (i mod 65536 mod 256)"
    unfolding block by (subst nth_map) (simp_all only: length_upt nth_upt add_0 minus_nat.diff_0)
  then show "DIGEST_BLOCK ! (i mod 65536) = char_of (i mod 256)" by (simp add: mod_mod_cancel)
qed

lemma streaming_bytes_code [code]:
  "streaming_bytes_payload n = map (\<lambda>i. char_of (i mod 256)) [0..<n]"
  "streaming_bytes_sha256 sha256 n = sha256 (map (\<lambda>i. char_of (i mod 256)) [0..<n])"
proof -
  have nonempty: "BYTE_PATTERN \<noteq> []" "DIGEST_BLOCK \<noteq> []"
    using BYTE_PATTERN_nth(1) DIGEST_BLOCK_nth(1) by (metis list.size(3) zero_neq_numeral)+
  show "streaming_bytes_payload n = map (\<lambda>i. char_of (i mod 256)) [0..<n]"
    using repeated_pattern [OF nonempty(1), of n] by (simp add: streaming_bytes_payload_def BYTE_PATTERN_nth)
  show "streaming_bytes_sha256 sha256 n = sha256 (map (\<lambda>i. char_of (i mod 256)) [0..<n])"
    using repeated_pattern [OF nonempty(2), of n] by (simp add: streaming_bytes_sha256_def DIGEST_BLOCK_nth)
qed

subsection \<open>Payloads of a stream\<close>

definition histogram_json :: "histogram \<Rightarrow> json" where
  "histogram_json h =
     JList (map (\<lambda>(nbytes, n). JObj [(''size_bytes'', JInt nbytes), (''count'', JInt n)]) (sort_key fst h))"

definition optional_str :: "string option \<Rightarrow> json" where
  "optional_str s = (case s of None \<Rightarrow> JNull | Some t \<Rightarrow> JStr t)"

definition distribution_json :: "AttributionConfig \<Rightarrow> ObservationBudget option \<Rightarrow> ChunkObservations \<Rightarrow> obj" where
  "distribution_json c b obs =
     [(''histogram'', histogram_json (co_histogram obs)),
      (''complete'', JBool (case b of
         Some g \<Rightarrow> if bg_global_histogram g \<noteq> None then bg_global_histogram_complete g else co_histogram_complete obs
       | None \<Rightarrow> co_histogram_complete obs)),
      (''observed_count'', JInt (co_chunks_read obs)), (''min_bytes'', optional_int (co_min_bytes obs)),
      (''max_bytes'', optional_int (co_max_bytes obs)), (''bins_cap'', ac_histogram_bins_cap c)] @
     (if global_histogram b \<noteq> None then [(''scope'', JStr ''batch-global'')] else [])"

definition delivery_json :: "DeliverySample \<Rightarrow> json" where
  "delivery_json d =
     JObj [(''index'', JInt (ds_index d)), (''size_bytes'', JInt (ds_size_bytes d)),
       (''gap_ms'', optional_float (ds_gap_ms d)), (''offset_ns'', JInt (ds_offset_ns d))]"

definition trace_json :: "DiagnosticTrace \<Rightarrow> json" where
  "trace_json t =
     JObj [(''index'', JInt (dt_index t)), (''await_start_ns'', JInt (dt_await_start_ns t)),
       (''await_finished_ns'', JInt (dt_await_finished_ns t)),
       (''consumer_finished_ns'', JInt (dt_consumer_finished_ns t))]"

definition diagnostic :: "AttributionConfig \<Rightarrow> bool" where
  "diagnostic c = (ac_instrumentation c = JStr ''diagnostic'')"

definition observation_json ::
  "AttributionConfig \<Rightarrow> pyfloat \<Rightarrow> ObservationBudget option \<Rightarrow> ChunkObservations \<Rightarrow> obj"
where
  "observation_json c resolution b obs =
     (let recorded = int (length (co_delivery_samples obs))
      in [(''bytes_read'', JInt (co_bytes_read obs)), (''chunks_read'', JInt (co_chunks_read obs)),
          (''empty_deliveries'', JInt (co_empty_deliveries obs)),
          (''distribution'', JObj (distribution_json c b obs)),
          (''delivery_samples'', JList (map delivery_json (co_delivery_samples obs))),
          (''gap_samples_ms'', JList (map JFloat (List.map_filter ds_gap_ms (co_delivery_samples obs)))),
          (''delivery_sample_count'', JInt recorded),
          (''delivery_samples_truncated'', JBool (recorded < co_chunks_read obs)),
          (''delivery_samples_dropped'', JInt (co_chunks_read obs - recorded)),
          (''sampling_rule'', JStr ''first N nonempty deliveries per stream until the shared batch cap; adjacent arrival gaps, no extrapolation''),
          (''chunk_sample_cap'', ac_chunk_sample_cap c),
          (''clock'', JStr ''time.perf_counter_ns; monotonic; gap milliseconds and offset nanoseconds''),
          (''clock_resolution_s'', JFloat resolution),
          (''gap_scope'', JStr ''Public Python delivery to delivery, including prior hashing/bookkeeping/consumer delay''),
          (''trace'', JList (map trace_json (co_trace obs))),
          (''trace_samples_dropped'', JInt (if diagnostic c then co_chunks_read obs - int (length (co_trace obs)) else 0)),
          (''trace_scope'', JStr (if diagnostic c
             then ''Diagnostic public anext await and harness consumer timestamps; not native wakeups or copies''
             else ''Disabled for control instrumentation''))])"

definition error_json :: "(string \<times> string) option \<Rightarrow> json" where
  "error_json e =
     (case e of None \<Rightarrow> JNull | Some (kind, message) \<Rightarrow> JObj [(''type'', JStr kind), (''message'', JStr message)])"

definition finalize_stream ::
  "(string \<Rightarrow> string) \<Rightarrow> AttributionConfig \<Rightarrow> pyfloat \<Rightarrow> ObservationBudget option \<Rightarrow> int \<Rightarrow> string \<Rightarrow> PendingStream \<Rightarrow> obj"
where
  "finalize_stream sha256 c resolution b body_bytes expected_digest p =
     (let e = final_error sha256 body_bytes expected_digest p; obs = ps_observations p
      in [(''stream'', JInt (ps_stream p)), (''status'', JStr (if e = None then ''ok'' else ''failed'')),
          (''error'', error_json e), (''duration_ms'', JFloat (millis (ps_finished_ns p - ps_started_ns p))),
          (''first_item_ms'', optional_float (map_option (\<lambda>ns. millis (ns - ps_started_ns p)) (co_first_ns obs))),
          (''close_return_ms'', optional_float (map_option (\<lambda>ns. millis (ps_finished_ns p - ns)) (ps_close_started_ns p))),
          (''eof'', JBool (ps_eof p)), (''status_code'', optional_int (ps_status_code p)),
          (''content_length'', optional_str (ps_content_length p)),
          (''content_encoding'', optional_str (ps_content_encoding p)),
          (''transfer_encoding'', optional_str (ps_transfer_encoding p)),
          (''http_version'', optional_str (ps_http_version p)), (''sha256'', JStr (sha256 (ps_data p))),
          (''verified_success_bytes'', JInt (verified_success_bytes sha256 body_bytes expected_digest p))] @
         observation_json c resolution b obs)"

subsection \<open>Process counters\<close>

text \<open>A snapshot has either both counters or the reason why there are none.\<close>

record CpuSnapshot =
  cs_pid :: int
  cs_probe_started_ns :: int
  cs_counters :: "string + pyfloat \<times> pyfloat"
  cs_probe_finished_ns :: int

text \<open>What the probe of the process gives: the counters, or the type and message of an exception.\<close>

definition cpu_snapshot :: "int \<Rightarrow> int \<Rightarrow> (string \<times> string) + (pyfloat \<times> pyfloat) \<Rightarrow> int \<Rightarrow> CpuSnapshot" where
  "cpu_snapshot pid started probe finished =
     \<lparr>cs_pid = pid, cs_probe_started_ns = started,
      cs_counters = (case probe of Inl (kind, message) \<Rightarrow> Inl (kind @ '': '' @ message) | Inr counters \<Rightarrow> Inr counters),
      cs_probe_finished_ns = finished\<rparr>"

definition snapshot_json :: "CpuSnapshot \<Rightarrow> json" where
  "snapshot_json s =
     JObj ([(''pid'', JInt (cs_pid s)), (''probe_started_ns'', JInt (cs_probe_started_ns s))] @
       (case cs_counters s of
          Inl why \<Rightarrow> [(''user_s'', JNull), (''system_s'', JNull), (''reason'', JStr why)]
        | Inr (user, system) \<Rightarrow> [(''user_s'', JFloat user), (''system_s'', JFloat system), (''reason'', JNull)]) @
       [(''probe_finished_ns'', JInt (cs_probe_finished_ns s))])"

text \<open>A quotient that is \<^verbatim>\<open>None\<close> without a numerator or with a divisor that is not accepted.\<close>

definition quotient_json :: "bool \<Rightarrow> pyfloat option \<Rightarrow> pyfloat result \<Rightarrow> json result" where
  "quotient_json accepted cpu_total divisor =
     (case cpu_total of
        Some t \<Rightarrow> if accepted then bindE divisor (\<lambda>d. bindE (fdiv t d) (\<lambda>q. Inr (JFloat q))) else Inr JNull
      | None \<Rightarrow> Inr JNull)"

definition cpu_times :: "CpuSnapshot \<Rightarrow> CpuSnapshot \<Rightarrow> string + (pyfloat \<times> pyfloat)" where
  "cpu_times before after =
     (case (cs_counters before, cs_counters after) of
        (Inl why, _) \<Rightarrow> Inl why
      | (Inr _, Inl why) \<Rightarrow> Inl why
      | (Inr (start_user, start_system), Inr (end_user, end_system)) \<Rightarrow>
          if flt end_user start_user \<or> flt end_system start_system then Inl ''Process CPU counter decreased''
          else Inr (fsub end_user start_user, fsub end_system start_system))"

definition cpu_delta_json :: "CpuSnapshot \<Rightarrow> CpuSnapshot \<Rightarrow> int \<Rightarrow> int \<Rightarrow> int \<Rightarrow> obj result" where
  "cpu_delta_json before after started_ns finished_ns verified_bytes =
     (let times = cpu_times before after; duration = seconds (finished_ns - started_ns);
          cpu_total = (case times of Inr (user, system) \<Rightarrow> Some (fadd user system) | Inl _ \<Rightarrow> None)
      in bindE (quotient_json (verified_bytes \<noteq> 0) cpu_total (float_of_int verified_bytes)) (\<lambda>per_byte.
         bindE (quotient_json (flt (Fin 0) duration) cpu_total (Inr duration)) (\<lambda>per_second.
           Inr [(''pid'', JInt (cs_pid before)),
                (''user_s'', case times of Inr (user, _) \<Rightarrow> JFloat user | Inl _ \<Rightarrow> JNull),
                (''system_s'', case times of Inr (_, system) \<Rightarrow> JFloat system | Inl _ \<Rightarrow> JNull),
                (''total_s'', optional_float cpu_total), (''cpu_seconds_per_verified_byte'', per_byte),
                (''cpu_seconds_per_wall_second'', per_second),
                (''unavailable_reason'', case times of Inl why \<Rightarrow> JStr why | Inr _ \<Rightarrow> JNull),
                (''normalization_unavailable_reason'',
                   if verified_bytes \<noteq> 0 then JNull else JStr ''No verified-success bytes''),
                (''before'', snapshot_json before), (''after'', snapshot_json after),
                (''load_boundary_overhang_ns'', JInt (started_ns - cs_probe_started_ns before +
                   cs_probe_finished_ns after - finished_ns)),
                (''scope'', JStr ''Separate process user/system counters bracketing load, including the reported boundary probe span''),
                (''resolution_s'', JNull),
                (''resolution_unavailable_reason'', JStr ''psutil/OS process counter resolution is not exposed by this measurement''),
                (''cpu_wall_interpretation'', JStr ''Aggregate process CPU seconds / wall seconds; multiple cores may exceed one'')])))"

subsection \<open>The replay of a batch\<close>

definition observed_histogram :: "ChunkObservations list \<Rightarrow> int \<Rightarrow> histogram \<times> bool" where
  "observed_histogram observations bins_cap =
     foldl (\<lambda>acc item. foldl (\<lambda>(h, complete) (nbytes, chunks).
         if map_of h nbytes \<noteq> None \<or> int (length h) < bins_cap
         then (counter_add h nbytes chunks, complete) else (h, False)) acc (co_histogram item))
       ([], list_all co_histogram_complete observations) observations"

text \<open>
  The segments of a replay, \<open>None\<close> where the caller gives up because there would be more than \<open>room\<close>. The
  counts of a segment never exceed the limits, so the capacity is not negative.\<close>

function replay_segments ::
  "int \<Rightarrow> int \<Rightarrow> nat \<Rightarrow> histogram \<Rightarrow> int \<Rightarrow> int \<Rightarrow> histogram \<Rightarrow> histogram list option"
where
  "replay_segments max_bytes max_chunks room segment byte_count chunk_count [] =
     (if segment = [] then Some [] else if room = 0 then None else Some [segment])"
| "replay_segments max_bytes max_chunks room segment byte_count chunk_count ((nbytes, remaining) # items) =
     (if remaining = 0 then replay_segments max_bytes max_chunks room segment byte_count chunk_count items
      else
        (let capacity = min ((max_bytes - byte_count) div nbytes) (max_chunks - chunk_count);
             part = min remaining capacity
         in if capacity \<le> 0 then
              (case room of
                 0 \<Rightarrow> None
               | Suc left \<Rightarrow> map_option ((#) segment)
                   (replay_segments max_bytes max_chunks left [] 0 0 ((nbytes, remaining) # items)))
            else replay_segments max_bytes max_chunks room (counter_add segment nbytes part)
              (byte_count + nbytes * part) (chunk_count + part) ((nbytes, remaining - part) # items)))"
  by pat_completeness auto

termination
  by (relation "measures [\<lambda>(mb, mc, room, seg, bs, cs, items). room, \<lambda>(mb, mc, room, seg, bs, cs, items). length items,
      \<lambda>(mb, mc, room, seg, bs, cs, items). case items of [] \<Rightarrow> 0 | (n, r) # _ \<Rightarrow> nat \<bar>r\<bar>]")
    (auto simp: min_def)

text \<open>The clock readings of a replay, before and after each of its variants.\<close>

type_synonym replay_clock = "string \<Rightarrow> int \<times> int"

definition replay_histogram :: "replay_clock \<Rightarrow> histogram \<Rightarrow> obj" where
  "replay_histogram clock h =
     [(''replay_bytes'', JInt (histogram_bytes h)), (''replay_chunks'', JInt (counter_total h))] @
     map (\<lambda>key. (key, JFloat (seconds (snd (clock key) - fst (clock key))))) segment_times"

definition replay_failure_reason ::
  "histogram \<Rightarrow> bool \<Rightarrow> int \<Rightarrow> int \<Rightarrow> AttributionConfig \<Rightarrow> bool \<Rightarrow> string option"
where
  "replay_failure_reason h exact observed_bytes observed_chunks c window =
     (if \<not> exact then Some ''Observed chunk size histogram exceeded its bound; exact distribution unavailable''
      else if observed_chunks = 0 then Some ''No delivered chunks to replay''
      else if \<not> window \<and> (int_of (ac_replay_max_bytes c) < observed_bytes \<or>
          int_of (ac_replay_max_chunks c) < observed_chunks)
      then Some ''Exact distribution exceeds explicit overhead replay byte/chunk limit''
      else if h = [] \<or> counter_total h \<noteq> observed_chunks \<or> histogram_bytes h \<noteq> observed_bytes
      then Some ''Histogram does not exactly cover every observed byte and chunk''
      else if list_ex (\<lambda>(nbytes, chunks). int_of (ac_replay_max_bytes c) < nbytes) h
      then Some ''An observed chunk exceeds the explicit replay byte limit''
      else None)"

text \<open>The sums of the times of the segments.\<close>

definition replay_totals :: "(pyfloat list \<Rightarrow> pyfloat) \<Rightarrow> replay_clock list \<Rightarrow> obj" where
  "replay_totals fsum clocks =
     map (\<lambda>key. (key, JFloat (fsum (map (\<lambda>clock. seconds (snd (clock key) - fst (clock key))) clocks)))) segment_times"

definition overhead_limits :: "AttributionConfig \<Rightarrow> bool \<Rightarrow> json" where
  "overhead_limits c window =
     JObj ([(''bytes'', ac_replay_max_bytes c), (''chunks'', ac_replay_max_chunks c), (''bins'', ac_histogram_bins_cap c)] @
       (if window then [(''segments'', JInt (int MAX_REPLAY_SEGMENTS))] else []))"

definition overhead_scope :: "bool \<Rightarrow> string" where
  "overhead_scope window =
     (if window
      then ''Offline synthetic memoryview replay of the exact whole-window histogram; sorted sizes, original order omitted; each segment stays within the unchanged replay limits''
      else ''Offline synthetic memoryview replay of exact observed size histogram; sorted sizes, original order omitted'')"

definition overhead_limitation :: "bool \<Rightarrow> string" where
  "overhead_limitation window =
     ''Harness cost estimate only; no transport/copy/wakeup attribution or baseline subtraction; excludes asyncio scheduling, slow-consumer sleeps and diagnostic await trace; '' @
     (if window
      then ''one synthetic observer/digest reset per segment, original per-stream and shared-budget behavior differs; one replay per variant per segment''
      else ''one synthetic observer, original per-stream reset/sample-cap behavior differs; one replay per variant'')"

definition overhead_result ::
  "AttributionConfig \<Rightarrow> bool \<Rightarrow> string \<Rightarrow> bool \<Rightarrow> int \<Rightarrow> int \<Rightarrow> json \<Rightarrow> bool \<Rightarrow> obj \<Rightarrow> obj"
where
  "overhead_result c window status exact observed_bytes observed_chunks why replays replayed =
     dict_update
       [(''status'', JStr status), (''distribution_complete'', JBool exact), (''observed_bytes'', JInt observed_bytes),
        (''observed_chunks'', JInt observed_chunks), (''replay_bytes'', JInt 0), (''replay_chunks'', JInt 0),
        (''scalar_only_s'', JNull), (''sha256_only_s'', JNull), (''combined_s'', JNull), (''reason'', why),
        (''limits'', overhead_limits c window), (''scope'', JStr (overhead_scope (window \<and> replays))),
        (''limitation'', JStr (overhead_limitation window))]
       replayed"

definition segment_json :: "replay_clock \<Rightarrow> histogram \<Rightarrow> json" where
  "segment_json clock h = JObj (replay_histogram clock h @ [(''histogram'', histogram_json h)])"

definition replayed_segments :: "(pyfloat list \<Rightarrow> pyfloat) \<Rightarrow> (nat \<Rightarrow> replay_clock) \<Rightarrow> histogram list \<Rightarrow> obj" where
  "replayed_segments fsum clocks segments =
     [(''segments'', JList (map (\<lambda>(i, h). segment_json (clocks i) h) (enumerate 0 segments))),
      (''replay_bytes'', JInt (sum_list (map histogram_bytes segments))),
      (''replay_chunks'', JInt (sum_list (map counter_total segments)))] @
     replay_totals fsum (map clocks [0..<length segments])"

definition replay_harness_overhead ::
  "(pyfloat list \<Rightarrow> pyfloat) \<Rightarrow> (nat \<Rightarrow> replay_clock) \<Rightarrow> ChunkObservations list \<Rightarrow> AttributionConfig \<Rightarrow>
   ObservationBudget option \<Rightarrow> obj"
where
  "replay_harness_overhead fsum clocks observations c window_budget =
     (let window = window_budget \<noteq> None;
          (h, exact) = (case (global_histogram window_budget, window_budget) of
              (Some shared, Some g) \<Rightarrow> (shared, bg_global_histogram_complete g)
            | _ \<Rightarrow> observed_histogram observations (int_of (ac_histogram_bins_cap c)));
          observed_bytes = sum_list (map co_bytes_read observations);
          observed_chunks = sum_list (map co_chunks_read observations);
          finished = (\<lambda>status why. overhead_result c window status exact observed_bytes observed_chunks why)
      in case replay_failure_reason h exact observed_bytes observed_chunks c window of
           Some failure \<Rightarrow> finished ''unavailable'' (JStr failure) False []
         | None \<Rightarrow>
             if \<not> window then finished ''ok'' JNull True (replay_histogram (clocks 0) h)
             else
               (case replay_segments (int_of (ac_replay_max_bytes c)) (int_of (ac_replay_max_chunks c))
                       MAX_REPLAY_SEGMENTS [] 0 0 (sort_key fst h) of
                  None \<Rightarrow> finished ''unavailable'' (JStr ''Exact distribution exceeds the bounded 64-segment replay limit'') False []
                | Some segments \<Rightarrow> finished ''ok'' JNull True (replayed_segments fsum clocks segments)))"

subsection \<open>A batch\<close>

text \<open>
  What a batch observes of the outside: the counters before and after, the clock at its ends, for each
  round the start times of its streams, the schedule of their events and the clock after it, the clock
  around finalization and replay, and what the Python profiler wrote.\<close>

record round_input =
  ri_starts :: "int list"
  ri_events :: "(nat \<times> stream_event) list"
  ri_now :: int

record batch_input =
  bi_before :: "CpuSnapshot \<times> CpuSnapshot"
  bi_started :: int
  bi_rounds :: "round_input list"
  bi_finished :: int
  bi_after :: "CpuSnapshot \<times> CpuSnapshot"
  bi_finalize_ns :: int
  bi_resolution :: pyfloat
  bi_replays :: "nat \<Rightarrow> replay_clock"
  bi_profile :: "obj result"

definition duration_elapsed :: "AttributionConfig \<Rightarrow> int \<Rightarrow> bool" where
  "duration_elapsed c elapsed =
     (case ac_minimum_duration_s c of
        JInt n \<Rightarrow> n * 1000000000 \<le> elapsed
      | JFloat x \<Rightarrow> fle (fmul x (Fin 1000000000)) (Fin (of_int elapsed))
      | _ \<Rightarrow> False)"

definition open_round :: "int list \<Rightarrow> batch_state \<Rightarrow> batch_state" where
  "open_round starts s =
     (case s of (b, streams) \<Rightarrow>
        (b, streams @ map (\<lambda>(i, ns). (Opening, new_stream (int i + 1) ns)) (enumerate (length streams) starts)))"

text \<open>
  The rounds of a load: \<open>None\<close> for inputs that are no execution, where a round does not open one stream
  for each place or not all of its streams have returned.\<close>

fun consume_load ::
  "AttributionConfig \<Rightarrow> int \<Rightarrow> int \<Rightarrow> int \<Rightarrow> bool \<Rightarrow> int \<Rightarrow> nat \<Rightarrow> round_input list \<Rightarrow> batch_state \<Rightarrow> batch_state option"
where
  "consume_load c body concurrency rounds window started 0 inputs s = (if inputs = [] then Some s else None)"
| "consume_load c body concurrency rounds window started (Suc offsets) [] s = None"
| "consume_load c body concurrency rounds window started (Suc offsets) (r # inputs) s =
     (if int (length (ri_starts r)) \<noteq> concurrency then None
      else
        (case batch_run c body (open_round (ri_starts r) s) (ri_events r) of
           None \<Rightarrow> None
         | Some (b, streams) \<Rightarrow>
             if \<not> list_all (\<lambda>(phase, p). phase = StreamDone) streams then None
             else if window \<and> rounds * concurrency \<le> int (length streams) \<and> duration_elapsed c (ri_now r - started)
             then (if inputs = [] then Some (b, streams) else None)
             else consume_load c body concurrency rounds window started offsets inputs (b, streams)))"

definition MAX_ROUNDS :: int where "MAX_ROUNDS = 20"

definition timed_window :: "AttributionConfig \<Rightarrow> int \<Rightarrow> bool" where
  "timed_window c batch = (flt (Fin 0) (num (ac_minimum_duration_s c)) \<and> 0 < batch)"

definition validate_batch :: "AttributionConfig \<Rightarrow> string \<Rightarrow> json \<Rightarrow> json \<Rightarrow> json \<Rightarrow> bool \<Rightarrow> unit result" where
  "validate_batch c client body concurrency rounds window =
     bindE (validate_attribution_config c (Some client)) (\<lambda>_.
     bindE (raise_if (\<not> int_between 1 MAX_BODY_BYTES body)
       (ValueError ''Attribution payload must be a positive integer within 1 MiB'')) (\<lambda>_.
     bindE (raise_if (\<not> type_is_int concurrency \<or> int_of concurrency \<notin> {1, 10} \<or> \<not> int_between 0 MAX_ROUNDS rounds)
       (ValueError ''Attribution batch requires concurrency 1/10 and zero to twenty bounded rounds'')) (\<lambda>_.
       raise_if (window \<and>
           (int_of rounds \<le> 0 \<or> int_of (ac_max_window_streams c) < int_of rounds * int_of concurrency))
         (ValueError ''Timed window minimum rounds must fit the explicit stream bound''))))"

definition window_budget :: "AttributionConfig \<Rightarrow> ObservationBudget" where
  "window_budget c =
     plain_budget\<lparr>bg_histogram_bins_cap := int_of (ac_histogram_bins_cap c), bg_global_histogram := Some []\<rparr>"

definition rate_json :: "int \<Rightarrow> pyfloat \<Rightarrow> json result" where
  "rate_json n duration =
     (if duration = Fin 0 then Inr JNull
      else bindE (float_of_int n) (\<lambda>x. bindE (fdiv x duration) (\<lambda>q. Inr (JFloat q))))"

definition mb_rate_json :: "int \<Rightarrow> pyfloat \<Rightarrow> json result" where
  "mb_rate_json n duration =
     (if duration = Fin 0 then Inr JNull
      else bindE (fdiv (round64 (of_int n / 1048576)) duration) (\<lambda>q. Inr (JFloat q)))"

definition batch_budget_json :: "AttributionConfig \<Rightarrow> ObservationBudget \<Rightarrow> bool \<Rightarrow> ChunkObservations list \<Rightarrow> json" where
  "batch_budget_json c g window observations =
     (let chunks = sum_list (map co_chunks_read observations);
          deliveries = sum_list (map (\<lambda>obs. int (length (co_delivery_samples obs))) observations);
          traces = sum_list (map (\<lambda>obs. int (length (co_trace obs))) observations)
      in JObj (dict_update (budget_payload g)
           [(''total_deliveries'', JInt chunks), (''recorded_delivery_samples'', JInt deliveries),
            (''dropped_delivery_samples'', JInt (chunks - deliveries)), (''recorded_trace_samples'', JInt traces),
            (''dropped_trace_samples'', JInt (if diagnostic c then chunks - traces else 0)),
            (''histogram_complete'', JBool (if window then bg_global_histogram_complete g
               else list_all co_histogram_complete observations))]))"

definition batch_timing_json :: "batch_input \<Rightarrow> json" where
  "batch_timing_json inp =
     JObj [(''load_started_ns'', JInt (bi_started inp)), (''load_finished_ns'', JInt (bi_finished inp)),
       (''clock'', JStr ''time.perf_counter_ns; monotonic; nanoseconds''),
       (''clock_resolution_s'', JFloat (bi_resolution inp)),
       (''scope'', JStr ''Async scheduling, bytes iteration, incremental SHA-256, scalar observations, consumer delays and context exit; stops before CPU end probes, digest finalization/comparison, replay, sampler teardown, client close and reports''),
       (''digest_finalize_duration_ns'', JInt (bi_finalize_ns inp)),
       (''verified_only_after_finalization'', JBool True)]"

definition ATTRIBUTION_LIMITS :: json where
  "ATTRIBUTION_LIMITS =
     JObj [(''native_copy_count'', JNull), (''event_loop_wakeups'', JNull), (''future_completions'', JNull),
       (''unavailable_reason'', JStr ''Public bytes delivery/await observations cannot isolate native copies, loop wakeups or Future completion cost'')]"

definition batch_error :: "obj \<Rightarrow> json option" where
  "batch_error sample =
     (if truthy (get sample ''error'')
      then Some (JObj (dict_update [(''stream'', get sample ''stream'')] (object_value (get sample ''error'')))) else None)"

definition window_json :: "AttributionConfig \<Rightarrow> int \<Rightarrow> pyfloat \<Rightarrow> ObservationBudget \<Rightarrow> int \<Rightarrow> int \<Rightarrow> json" where
  "window_json c rounds duration g chunks nbytes =
     (let target_reached = fle (num (ac_minimum_duration_s c)) duration
      in JObj [(''minimum_duration_s'', ac_minimum_duration_s c), (''minimum_rounds'', JInt rounds),
           (''max_streams'', ac_max_window_streams c),
           (''stop_reason'', JStr (if target_reached then ''duration-reached'' else ''stream-limit'')),
           (''target_reached'', JBool target_reached),
           (''global_histogram'', JObj
             [(''histogram'', histogram_json (case bg_global_histogram g of Some h \<Rightarrow> h | None \<Rightarrow> [])),
              (''complete'', JBool (bg_global_histogram_complete g)), (''observed_count'', JInt chunks),
              (''observed_bytes'', JInt nbytes), (''bins_cap'', ac_histogram_bins_cap c),
              (''scope'', JStr ''batch-global'')])])"

definition batch_json ::
  "(string \<Rightarrow> string) \<Rightarrow> (pyfloat list \<Rightarrow> pyfloat) \<Rightarrow> AttributionConfig \<Rightarrow> int \<Rightarrow> int \<Rightarrow> int \<Rightarrow> int \<Rightarrow> batch_input \<Rightarrow>
   ObservationBudget \<Rightarrow> PendingStream list \<Rightarrow> obj result"
where
  "batch_json sha256 fsum c body concurrency rounds batch inp g pending =
     (let window = timed_window c batch; observations = map ps_observations pending;
          requests = int (length pending); actual_rounds = requests div concurrency;
          expected = streaming_bytes_sha256 sha256 (nat body);
          samples = map (finalize_stream sha256 c (bi_resolution inp) (Some g) body expected) pending;
          verified = sum_list (map (verified_success_bytes sha256 body expected) pending);
          nbytes = sum_list (map co_bytes_read observations); chunks = sum_list (map co_chunks_read observations);
          successes = int (length (filter (\<lambda>p. final_error sha256 body expected p = None) pending));
          duration = seconds (bi_finished inp - bi_started inp);
          cpu = (\<lambda>before after. cpu_delta_json before after (bi_started inp) (bi_finished inp) verified)
      in bindE (rate_json requests duration) (\<lambda>streams_per_second.
         bindE (rate_json successes duration) (\<lambda>ok_streams_per_second.
         bindE (rate_json verified duration) (\<lambda>verified_bytes_per_second.
         bindE (mb_rate_json verified duration) (\<lambda>mb_per_second.
         bindE (cpu (fst (bi_before inp)) (fst (bi_after inp))) (\<lambda>client_cpu.
         bindE (cpu (snd (bi_before inp)) (snd (bi_after inp))) (\<lambda>server_cpu.
         bindE (if ac_profiler c = JStr ''cprofile'' \<and> batch \<noteq> 0
                then bindE (bi_profile inp) (\<lambda>written. Inr [(''python_profile'', JObj written)]) else Inr []) (\<lambda>profiled.
           Inr ([(''batch'', JInt batch), (''rounds'', JInt actual_rounds), (''requests'', JInt requests),
                (''ok_streams'', JInt successes), (''duration_s'', JFloat duration),
                (''streams_per_second'', streams_per_second), (''ok_streams_per_second'', ok_streams_per_second),
                (''verified_success_bytes'', JInt verified), (''total_observed_bytes'', JInt nbytes),
                (''failed_observed_bytes'', JInt (nbytes - verified)), (''bytes_read_total'', JInt verified),
                (''chunks_read_total'', JInt chunks), (''verified_bytes_per_second'', verified_bytes_per_second),
                (''mb_per_second'', mb_per_second), (''expected_aborts'', JInt 0),
                (''errors'', JList (List.map_filter batch_error samples)), (''samples'', JList (map JObj samples)),
                (''observation_budget'', batch_budget_json c g window observations),
                (''cpu'', JObj [(''client'', JObj client_cpu), (''server'', JObj server_cpu)]),
                (''timing'', batch_timing_json inp),
                (''overhead'', JObj (replay_harness_overhead fsum (bi_replays inp) observations c
                   (if window then Some g else None))),
                (''attribution_limits'', ATTRIBUTION_LIMITS)] @ profiled @
               (if window then [(''window'', window_json c rounds duration g chunks nbytes)] else []))))))))))"

definition measure_async_batch ::
  "(string \<Rightarrow> string) \<Rightarrow> (pyfloat list \<Rightarrow> pyfloat) \<Rightarrow> AttributionConfig \<Rightarrow> string \<Rightarrow> json \<Rightarrow> json \<Rightarrow> json \<Rightarrow> int \<Rightarrow>
   bool \<Rightarrow> batch_input \<Rightarrow> obj result option"
where
  "measure_async_batch sha256 fsum c client body concurrency rounds batch profile_path inp =
     (let window = timed_window c batch; places = int_of concurrency
      in case validate_batch c client body concurrency rounds window of
           Inl e \<Rightarrow> Some (Inl e)
         | Inr _ \<Rightarrow>
             if ac_profiler c = JStr ''cprofile'' \<and> batch \<noteq> 0 \<and> \<not> profile_path
             then Some (Inl (ValueError ''Measured cProfile load requires an explicit worker-owned profile path''))
             else
               (let offsets = (if window then int_of (ac_max_window_streams c) div places else int_of rounds);
                    g = (if window then window_budget c else plain_budget)
                in case consume_load c (int_of body) places (int_of rounds) window (bi_started inp) (nat offsets)
                          (bi_rounds inp) (Some g, []) of
                     Some (Some g', streams) \<Rightarrow>
                       Some (batch_json sha256 fsum c (int_of body) places (int_of rounds) batch inp g' (map snd streams))
                   | _ \<Rightarrow> None))"

end
