(* ===== verification/Config_Payload.thy ===== *)
theory Config_Payload
  imports Lifecycle_Config
begin

text \<open>
  How a configuration and a case travel from the coordinator to its worker process: \<^verbatim>\<open>asdict\<close> of a
  dataclass, and \<^verbatim>\<open>lifecycle_config_from_payload\<close> (streaming/lifecycle_models.py), which calls the
  dataclasses with the payload as keywords.
\<close>

subsection \<open>Payloads\<close>

definition ATTRIBUTION_DEFAULTS :: AttributionConfig where
  "ATTRIBUTION_DEFAULTS =
     \<lparr>ac_server_delay_s = JFloat (Fin 0), ac_requested_client_read_bytes = JNull, ac_consumer_delay_s = JFloat (Fin 0),
      ac_instrumentation = JStr ''control'', ac_profiler_label = JNull, ac_profiler = JStr ''none'',
      ac_perf_sample_frequency_hz = JInt DEFAULT_PERF_SAMPLE_FREQUENCY_HZ, ac_chunk_sample_cap = JInt 128,
      ac_histogram_bins_cap = JInt 1024, ac_replay_max_bytes = JInt 268435456, ac_replay_max_chunks = JInt 1000000,
      ac_minimum_duration_s = JFloat (Fin 0), ac_max_window_streams = JInt 2048, ac_server_observations = JBool False\<rparr>"

definition attribution_payload :: "AttributionConfig \<Rightarrow> obj" where
  "attribution_payload c =
     [(''server_delay_s'', ac_server_delay_s c), (''requested_client_read_bytes'', ac_requested_client_read_bytes c),
      (''consumer_delay_s'', ac_consumer_delay_s c), (''instrumentation'', ac_instrumentation c),
      (''profiler_label'', ac_profiler_label c), (''profiler'', ac_profiler c),
      (''perf_sample_frequency_hz'', ac_perf_sample_frequency_hz c), (''chunk_sample_cap'', ac_chunk_sample_cap c),
      (''histogram_bins_cap'', ac_histogram_bins_cap c), (''replay_max_bytes'', ac_replay_max_bytes c),
      (''replay_max_chunks'', ac_replay_max_chunks c), (''minimum_duration_s'', ac_minimum_duration_s c),
      (''max_window_streams'', ac_max_window_streams c), (''server_observations'', ac_server_observations c)]"

definition lifecycle_fields :: "LifecycleConfig \<Rightarrow> obj" where
  "lifecycle_fields c =
     [(''body_bytes'', lc_body_bytes c), (''server_write_bytes'', lc_server_write_bytes c),
      (''warmup_rounds'', lc_warmup_rounds c), (''batches'', lc_batches c), (''rounds_per_batch'', lc_rounds_per_batch c),
      (''sample_interval_s'', lc_sample_interval_s c), (''case_timeout_s'', lc_case_timeout_s c),
      (''settle_timeout_s'', lc_settle_timeout_s c), (''rss_ceiling_bytes'', lc_rss_ceiling_bytes c),
      (''max_samples'', lc_max_samples c), (''post_gc'', lc_post_gc c)]"

definition lifecycle_payload :: "LifecycleConfig \<Rightarrow> obj" where
  "lifecycle_payload c =
     lifecycle_fields c @
     [(''attribution'', case lc_attribution c of None \<Rightarrow> JNull | Some a \<Rightarrow> JObj (attribution_payload a))]"

definition case_payload :: "LifecycleCase \<Rightarrow> obj" where
  "case_payload k =
     [(''sequence'', lk_sequence k), (''client'', lk_client k), (''mode'', lk_mode k), (''case'', lk_case k),
      (''concurrency'', lk_concurrency k), (''repeat'', lk_repeat k)]"

subsection \<open>Keyword calls\<close>

text \<open>A keyword that is no parameter raises; the first of them is named.\<close>

definition check_keywords :: "string \<Rightarrow> string list \<Rightarrow> obj \<Rightarrow> unit result" where
  "check_keywords cls names keywords =
     (case filter (\<lambda>kv. fst kv \<notin> set names) keywords of
        [] \<Rightarrow> Inr ()
      | kv # _ \<Rightarrow> Inl (TypeError (cls @ ''.__init__() got an unexpected keyword argument '' @ str_repr (fst kv))))"

definition attribution_from_keywords :: "obj \<Rightarrow> AttributionConfig result" where
  "attribution_from_keywords keywords =
     bindE (check_keywords ''AttributionConfig'' (map fst (attribution_payload ATTRIBUTION_DEFAULTS)) keywords) (\<lambda>_.
       let field = (\<lambda>name. get_default keywords name (get (attribution_payload ATTRIBUTION_DEFAULTS) name))
       in Inr \<lparr>ac_server_delay_s = field ''server_delay_s'',
            ac_requested_client_read_bytes = field ''requested_client_read_bytes'',
            ac_consumer_delay_s = field ''consumer_delay_s'', ac_instrumentation = field ''instrumentation'',
            ac_profiler_label = field ''profiler_label'', ac_profiler = field ''profiler'',
            ac_perf_sample_frequency_hz = field ''perf_sample_frequency_hz'',
            ac_chunk_sample_cap = field ''chunk_sample_cap'', ac_histogram_bins_cap = field ''histogram_bins_cap'',
            ac_replay_max_bytes = field ''replay_max_bytes'', ac_replay_max_chunks = field ''replay_max_chunks'',
            ac_minimum_duration_s = field ''minimum_duration_s'', ac_max_window_streams = field ''max_window_streams'',
            ac_server_observations = field ''server_observations''\<rparr>)"

definition lifecycle_from_keywords :: "obj \<Rightarrow> AttributionConfig option \<Rightarrow> LifecycleConfig result" where
  "lifecycle_from_keywords keywords attribution =
     bindE (check_keywords ''LifecycleConfig'' (map fst (lifecycle_fields BASELINE_CONFIG)) keywords) (\<lambda>_.
       let field = (\<lambda>name. get_default keywords name (get (lifecycle_fields BASELINE_CONFIG) name))
       in Inr \<lparr>lc_body_bytes = field ''body_bytes'', lc_server_write_bytes = field ''server_write_bytes'',
            lc_warmup_rounds = field ''warmup_rounds'', lc_batches = field ''batches'',
            lc_rounds_per_batch = field ''rounds_per_batch'', lc_sample_interval_s = field ''sample_interval_s'',
            lc_case_timeout_s = field ''case_timeout_s'', lc_settle_timeout_s = field ''settle_timeout_s'',
            lc_rss_ceiling_bytes = field ''rss_ceiling_bytes'', lc_max_samples = field ''max_samples'',
            lc_post_gc = field ''post_gc'', lc_attribution = attribution\<rparr>)"

definition lifecycle_config_from_payload :: "obj \<Rightarrow> LifecycleConfig result" where
  "lifecycle_config_from_payload payload =
     (let keywords = filter (\<lambda>kv. fst kv \<noteq> ''attribution'') payload
      in case get payload ''attribution'' of
           JNull \<Rightarrow> lifecycle_from_keywords keywords None
         | JObj attribution \<Rightarrow>
             bindE (attribution_from_keywords attribution) (\<lambda>a. lifecycle_from_keywords keywords (Some a))
         | _ \<Rightarrow> Inl (TypeError ''Attribution configuration must be an object''))"

subsection \<open>What the worker reads is what the coordinator sent\<close>

lemma get_Cons: "get ((k, v) # d) j = (if j = k then v else get d j)"
  by (simp add: get_def)

lemma get_default_Cons: "get_default ((k, v) # d) j w = (if j = k then v else get_default d j w)"
  by (simp add: get_default_def)

lemma attribution_roundtrip: "attribution_from_keywords (attribution_payload c) = Inr c"
  by (simp add: attribution_from_keywords_def check_keywords_def attribution_payload_def bindE_ok Let_def get_default_Cons)

lemma lifecycle_fields_roundtrip:
  "lifecycle_from_keywords (lifecycle_fields c) a = Inr (c\<lparr>lc_attribution := a\<rparr>)"
  by (simp add: lifecycle_from_keywords_def check_keywords_def lifecycle_fields_def bindE_ok Let_def get_default_Cons)

lemma lifecycle_config_roundtrip: "lifecycle_config_from_payload (lifecycle_payload c) = Inr c"
proof -
  have keys: "filter (\<lambda>kv. fst kv \<noteq> ''attribution'') (lifecycle_payload c) = lifecycle_fields c"
    by (simp add: lifecycle_payload_def lifecycle_fields_def)
  have "get (lifecycle_payload c) ''attribution'' =
      (case lc_attribution c of None \<Rightarrow> JNull | Some a \<Rightarrow> JObj (attribution_payload a))"
    by (simp add: lifecycle_payload_def lifecycle_fields_def get_Cons)
  then show ?thesis
    by (cases "lc_attribution c")
      (simp_all add: lifecycle_config_from_payload_def keys attribution_roundtrip lifecycle_fields_roundtrip bindE_ok Let_def)
qed

lemma lifecycle_config_defaults: "lifecycle_config_from_payload [] = Inr BASELINE_CONFIG"
  by (simp add: lifecycle_config_from_payload_def lifecycle_from_keywords_def check_keywords_def lifecycle_fields_def
      BASELINE_CONFIG_def get_Cons get_default_def get_def bindE_ok)

end
