(* ===== verification/Window_Agreement.thy ===== *)
theory Window_Agreement
  imports Attribution_Measure Config_Payload
begin

text \<open>
  The record a timed window writes (attribution_measure.py) is the record its check accepts
  (attribution_window.py): the histogram counts every chunk, the replay splits it into segments within
  their limits, and the reason why the window stopped agrees with its duration.
\<close>

subsection \<open>Histograms\<close>

lemma wf_histogram_Nil [simp]: "wf_histogram []"
  by (simp add: wf_histogram_def)

lemma histogram_bytes_Nil [simp]: "histogram_bytes [] = 0"
  by (simp add: histogram_bytes_def)

lemma histogram_bytes_Cons [simp]: "histogram_bytes ((n, k) # h) = n * k + histogram_bytes h"
  by (simp add: histogram_bytes_def)

lemma counter_total_Cons [simp]: "counter_total ((n, k) # h) = k + counter_total h"
  by (simp add: counter_total_def)

lemma wf_histogram_Cons:
  "wf_histogram ((n, k) # h) \<longleftrightarrow> n \<notin> fst ` set h \<and> 0 < n \<and> 0 < k \<and> wf_histogram h"
  by (auto simp: wf_histogram_def)

lemma wf_histogram_add':
  assumes "wf_histogram h" "0 < n" "0 < k"
  shows "wf_histogram (counter_add h n k)"
proof -
  have "distinct (map fst (counter_add h n k))"
    using assms(1) by (simp add: wf_histogram_def counter_add_def distinct_update)
  moreover have "0 < fst kv \<and> 0 < snd kv" if "kv \<in> set (counter_add h n k)" for kv
  proof -
    have "kv = (n, counter_get h n + k) \<or> kv \<in> set h"
      using that set_update [of n "counter_get h n + k" h] by (auto simp: counter_add_def)
    then show ?thesis
      using counter_get_pos [OF assms(1), of n] assms by (auto simp: wf_histogram_def list_all_iff)
  qed
  ultimately show ?thesis by (auto simp: wf_histogram_def list_all_iff)
qed

lemma wf_merge: "wf_histogram h \<Longrightarrow> wf_histogram k \<Longrightarrow> wf_histogram (merge_counts h k)"
  unfolding merge_counts_def
  by (induction k arbitrary: h) (auto simp: wf_histogram_Cons wf_histogram_add' split: prod.splits)

lemma counter_get_map_of: "wf_histogram h \<Longrightarrow> map_of h n = (if counter_get h n = 0 then None else Some (counter_get h n))"
  by (fastforce simp: counter_get_def wf_histogram_def list_all_iff split: option.splits dest: map_of_SomeD)

lemma counter_get_add [simp]: "counter_get (counter_add h n k) m = counter_get h m + (if n = m then k else 0)"
  by (simp add: counter_get_def counter_add_def)

lemma counter_get_Cons: "counter_get ((n, k) # h) m = (if n = m then k else counter_get h m)"
  by (simp add: counter_get_def)

lemma counter_get_absent: "n \<notin> fst ` set h \<Longrightarrow> counter_get h n = 0"
  using map_of_eq_None_iff [of h n] by (simp add: counter_get_def)

lemma counter_get_merge:
  "wf_histogram k \<Longrightarrow> counter_get (merge_counts h k) n = counter_get h n + counter_get k n"
  unfolding merge_counts_def
proof (induction k arbitrary: h)
  case (Cons kv k)
  obtain m v where kv: "kv = (m, v)" by (cases kv)
  with Cons.prems have "wf_histogram k" "counter_get k m = 0"
    by (auto simp: wf_histogram_Cons intro!: counter_get_absent)
  with Cons.IH [of "counter_add h m v"] show ?case by (auto simp: kv counter_get_Cons)
qed simp

lemma same_countsI:
  assumes "wf_histogram h" "wf_histogram k" "\<And>n. counter_get h n = counter_get k n"
  shows "same_counts h k"
proof -
  have eq: "map_of h = map_of k" using counter_get_map_of assms by fastforce
  then have "fst ` set h = fst ` set k" by (metis dom_map_of_conv_image_fst)
  then have "card (set (map fst h)) = card (set (map fst k))" by simp
  with assms(1,2) have "length h = length k"
    using distinct_card [of "map fst h"] distinct_card [of "map fst k"] by (simp add: wf_histogram_def)
  moreover have "list_all (\<lambda>(n, v). map_of k n = Some v) h"
    using assms(1) by (auto simp: list_all_iff wf_histogram_def simp flip: eq intro: map_of_is_SomeI)
  ultimately show ?thesis by (simp add: same_counts_def)
qed

lemma sorted_histogram:
  assumes "wf_histogram h"
  shows "wf_histogram (sort_key fst h)" "map_of (sort_key fst h) = map_of h"
    "histogram_bytes (sort_key fst h) = histogram_bytes h" "counter_total (sort_key fst h) = counter_total h"
proof -
  have perm: "mset (sort_key fst h) = mset h" by simp
  have keys: "mset (map fst (sort_key fst h)) = mset (map fst h)" by (simp only: mset_map perm)
  then show wf: "wf_histogram (sort_key fst h)"
    using assms by (simp add: wf_histogram_def list_all_iff mset_eq_imp_distinct_iff [OF keys])
  show "map_of (sort_key fst h) = map_of h"
    using assms wf by (intro map_of_inject_set [THEN iffD2]) (simp_all add: wf_histogram_def)
  show "histogram_bytes (sort_key fst h) = histogram_bytes h"
    unfolding histogram_bytes_def by (simp only: sum_mset_sum_list [symmetric] mset_map perm)
  show "counter_total (sort_key fst h) = counter_total h"
    unfolding counter_total_def by (simp only: sum_mset_sum_list [symmetric] mset_map perm)
qed

subsection \<open>The segments of a replay\<close>

text \<open>A segment within the limits of the replay.\<close>

definition segment_ok :: "int \<Rightarrow> int \<Rightarrow> histogram \<Rightarrow> bool" where
  "segment_ok max_bytes max_chunks h \<longleftrightarrow>
     wf_histogram h \<and> histogram_bytes h \<le> max_bytes \<and> counter_total h \<le> max_chunks"

definition replayable :: "int \<Rightarrow> histogram \<Rightarrow> bool" where
  "replayable max_bytes items \<longleftrightarrow> list_all (\<lambda>(n, k). 0 < n \<and> n \<le> max_bytes \<and> 0 \<le> k) items"

text \<open>What a list of segments adds up to.\<close>

definition segments_sum :: "histogram list \<Rightarrow> histogram \<Rightarrow> histogram \<Rightarrow> bool" where
  "segments_sum segments segment items \<longleftrightarrow>
     (\<forall>n. (\<Sum>s\<leftarrow>segments. counter_get s n) = counter_get segment n + (\<Sum>(m, k)\<leftarrow>items. if m = n then k else 0)) \<and>
     (\<Sum>s\<leftarrow>segments. histogram_bytes s) = histogram_bytes segment + histogram_bytes items \<and>
     (\<Sum>s\<leftarrow>segments. counter_total s) = counter_total segment + counter_total items"

lemma capacity_room:
  assumes "0 < n" "n \<le> max_bytes" "(0::int) < max_chunks"
  shows "0 < min ((max_bytes - 0) div n) (max_chunks - 0)"
  using assms pos_imp_zdiv_pos_iff [of n max_bytes] by simp

lemma capacity_fits:
  assumes "0 < n" "part \<le> (max_bytes - bytes) div n"
  shows "bytes + n * part \<le> (max_bytes :: int)"
proof -
  have "n * part \<le> n * ((max_bytes - bytes) div n)" using assms by simp
  also have "\<dots> \<le> max_bytes - bytes" using assms(1) by (simp add: minus_mod_eq_mult_div [symmetric])
  finally show ?thesis by simp
qed

lemma replay_blocked:
  assumes "replay_segments max_bytes max_chunks room segment bytes chunks ((n, left) # items) = Some segments"
    and "left \<noteq> 0" "min ((max_bytes - bytes) div n) (max_chunks - chunks) \<le> 0"
  obtains less more where "room = Suc less" "segments = segment # more"
    "replay_segments max_bytes max_chunks less [] 0 0 ((n, left) # items) = Some more"
  using trans [OF replay_segments.simps(2) [symmetric] assms(1)] assms(2,3) that
  by (auto simp: Let_def simp del: replay_segments.simps split: nat.splits)

lemma replay_granted:
  assumes "left \<noteq> 0" "0 < min ((max_bytes - bytes) div n) (max_chunks - chunks)"
  shows "replay_segments max_bytes max_chunks room segment bytes chunks ((n, left) # items) =
    (let part = min left (min ((max_bytes - bytes) div n) (max_chunks - chunks))
     in replay_segments max_bytes max_chunks room (counter_add segment n part) (bytes + n * part) (chunks + part)
          ((n, left - part) # items))"
  using assms by (subst replay_segments.simps(2)) (auto simp: Let_def simp del: replay_segments.simps)

lemma replay_segments_sound:
  assumes "replay_segments max_bytes max_chunks room segment bytes chunks items = Some segments"
    and "segment_ok max_bytes max_chunks segment" "bytes = histogram_bytes segment" "chunks = counter_total segment"
    and "replayable max_bytes items" "0 < max_chunks"
  shows "length segments \<le> room \<and> list_all (\<lambda>s. s \<noteq> [] \<and> segment_ok max_bytes max_chunks s) segments \<and>
    segments_sum segments segment items"
  using assms
proof (induction max_bytes max_chunks room segment bytes chunks items arbitrary: segments rule: replay_segments.induct)
  case (1 max_bytes max_chunks room segment bytes chunks)
  then show ?case by (auto simp: segments_sum_def split: if_splits)
next
  case (2 max_bytes max_chunks room segment bytes chunks n left items)
  note whole = 2(4) and ok = 2(5) and counts = 2(6,7) and items = 2(8) and positive = 2(9)
  define capacity where "capacity = min ((max_bytes - bytes) div n) (max_chunks - chunks)"
  have n: "0 < n" "n \<le> max_bytes" "0 \<le> left" and rest: "replayable max_bytes items"
    using items by (simp_all add: replayable_def)
  consider "left = 0" | "left \<noteq> 0" "capacity \<le> 0" | "left \<noteq> 0" "0 < capacity" by linarith
  then show ?case
  proof cases
    case 1
    then show ?thesis using 2(1) [OF _ _ ok counts rest positive] whole by (simp add: segments_sum_def)
  next
    case blocked: 2
    have "segment \<noteq> []"
      using blocked(2) capacity_room [OF n(1,2) positive] counts by (auto simp: capacity_def)
    moreover obtain less more where more: "room = Suc less" "segments = segment # more"
        "replay_segments max_bytes max_chunks less [] 0 0 ((n, left) # items) = Some more"
      by (rule replay_blocked [OF whole blocked [unfolded capacity_def]])
    moreover have "segment_ok max_bytes max_chunks []" using n positive by (simp add: segment_ok_def)
    ultimately show ?thesis
      using 2(2) [OF blocked(1) capacity_def refl blocked(2) more(1) more(3) _ _ _ items positive] ok counts
      by (simp add: segments_sum_def)
  next
    case granted: 3
    define part where "part = min left capacity"
    have part: "0 < part" "part \<le> left" "part \<le> (max_bytes - bytes) div n" "part \<le> max_chunks - chunks"
      using granted n(3) by (auto simp: part_def capacity_def)
    have added: "segment_ok max_bytes max_chunks (counter_add segment n part)"
      using ok counts part(1,4) n(1) capacity_fits [OF n(1) part(3)]
      by (simp add: segment_ok_def wf_histogram_add' histogram_bytes_add py_counter.total_add)
    have step: "replay_segments max_bytes max_chunks room (counter_add segment n part) (bytes + n * part)
        (chunks + part) ((n, left - part) # items) = Some segments"
      using whole replay_granted [OF granted [unfolded capacity_def]] by (simp only: capacity_def part_def Let_def)
    have "replayable max_bytes ((n, left - part) # items)" using rest n part(2) by (simp add: replayable_def)
    with 2(3) [OF granted(1) capacity_def part_def _ step added] granted counts positive show ?thesis
      by (simp add: segments_sum_def histogram_bytes_add py_counter.total_add algebra_simps)
  qed
qed

subsection \<open>Reading the record of a histogram\<close>

lemma histogram_bins_fresh:
  assumes "distinct (map fst h @ map fst items)" "list_all (\<lambda>(n, k). 0 < n \<and> 0 < k) items"
  shows "histogram_bins h (map (\<lambda>(n, k). [(''size_bytes'', JInt n), (''count'', JInt k)]) items) = Some (h @ items)"
  using assms
proof (induction items arbitrary: h)
  case (Cons item items)
  obtain n k where item: "item = (n, k)" by (cases item)
  with Cons.prems have "map_of h n = None" by (auto simp: map_of_eq_None_iff)
  moreover from this have "AList.update n k h = h @ [(n, k)]" by (induction h) (auto split: if_splits)
  ultimately show ?case using Cons.IH [of "h @ [(n, k)]"] Cons.prems by (simp add: item get_Cons)
qed simp

lemma parse_histogram_json:
  assumes "wf_histogram h" "h \<noteq> []"
  shows "parse_histogram (histogram_json h) = Some (sort_key fst h)"
proof -
  let ?item = "\<lambda>(n, k). [(''size_bytes'', JInt n), (''count'', JInt k)] :: obj"
  have items: "object_list (histogram_json h) = map ?item (sort_key fst h)"
    unfolding histogram_json_def by (simp add: filter_map comp_def case_prod_beta)
  have nonempty: "sort_key fst h \<noteq> []" using assms(2) by (metis length_0_conv length_sort)
  show ?thesis
    using histogram_bins_fresh [of "[]" "sort_key fst h"] sorted_histogram(1) [OF assms(1)] nonempty
    unfolding parse_histogram_def items Let_def by (simp add: wf_histogram_def histogram_json_def)
qed

subsection \<open>Times\<close>

lemma seconds_mono: "m \<le> n \<Longrightarrow> seconds m \<le> seconds n"
  unfolding seconds_def by (intro round64_mono divide_right_mono) simp_all

lemma seconds_whole: "\<bar>n\<bar> \<le> 2 ^ 53 \<Longrightarrow> seconds (n * 1000000000) = Fin (of_int n)"
  using round64_of_int [of n] by (simp add: seconds_def)

lemma seconds_finite:
  assumes "0 \<le> n" "n < 2 ^ 63"
  obtains q where "seconds n = Fin q" "0 \<le> q" "q \<le> 2 ^ 53"
proof -
  have "Fin 0 \<le> seconds n" "seconds n \<le> Fin (2 ^ 53)"
    using seconds_mono [of 0 n] seconds_mono [of n "2 ^ 53 * 1000000000"] assms seconds_whole [of 0]
      seconds_whole [of "2 ^ 53"] by simp_all
  then show thesis using that by (cases "seconds n") (auto simp: less_eq_pyfloat_def)
qed

text \<open>Readings of a monotone clock of 64 bits.\<close>

definition clock_ok :: "replay_clock \<Rightarrow> bool" where
  "clock_ok clock \<longleftrightarrow> (\<forall>key \<in> set segment_times. 0 \<le> snd (clock key) - fst (clock key) \<and> snd (clock key) - fst (clock key) < 2 ^ 63)"

text \<open>A sum of at most 64 times below 2 to the 53 is finite.\<close>

definition sums_times :: "(pyfloat list \<Rightarrow> pyfloat) \<Rightarrow> bool" where
  "sums_times fsum \<longleftrightarrow>
     (\<forall>ts. list_all (\<lambda>t. Fin 0 \<le> t \<and> t \<le> Fin (2 ^ 53)) ts \<and> length ts \<le> MAX_REPLAY_SEGMENTS \<longrightarrow> is_finite (fsum ts))"

definition replay_time :: "string \<Rightarrow> replay_clock \<Rightarrow> pyfloat" where
  "replay_time key clock = seconds (snd (clock key) - fst (clock key))"

lemma replay_time_finite:
  assumes "clock_ok clock" "key \<in> set segment_times"
  obtains q where "replay_time key clock = Fin q" "0 \<le> q" "q \<le> 2 ^ 53"
  using assms seconds_finite [of "snd (clock key) - fst (clock key)"] by (auto simp: clock_ok_def replay_time_def)

lemma nonnegative_replay_time:
  "clock_ok clock \<Longrightarrow> key \<in> set segment_times \<Longrightarrow> nonnegative_number (JFloat (replay_time key clock)) = Inr True"
  by (erule replay_time_finite) (auto simp: nonnegative_number_def bindE_ok)

lemma isclose_refl: "is_finite x \<Longrightarrow> isclose x x rel_tol abs_tol"
  by (cases x) (simp_all add: isclose_def)

subsection \<open>The replay of a window is accepted\<close>

definition segment_obj :: "replay_clock \<Rightarrow> histogram \<Rightarrow> obj" where
  "segment_obj clock h = replay_histogram clock h @ [(''histogram'', histogram_json h)]"

lemma segment_fields:
  "get (segment_obj clock h) ''histogram'' = histogram_json h"
  "get (segment_obj clock h) ''replay_bytes'' = JInt (histogram_bytes h)"
  "get (segment_obj clock h) ''replay_chunks'' = JInt (counter_total h)"
  "key \<in> set segment_times \<Longrightarrow> get (segment_obj clock h) key = JFloat (replay_time key clock)"
  by (auto simp: segment_obj_def replay_histogram_def segment_times_def get_Cons replay_time_def)

lemma combine_segments_json:
  assumes "get config ''replay_max_bytes'' = JInt max_bytes" "get config ''replay_max_chunks'' = JInt max_chunks"
    and "list_all (\<lambda>(clock, h). clock_ok clock \<and> h \<noteq> [] \<and> segment_ok max_bytes max_chunks h) segments"
  shows "combine_segments config combined (map (\<lambda>(clock, h). segment_obj clock h) segments) =
    Inr (Some (foldl merge_counts combined (map (\<lambda>(clock, h). sort_key fst h) segments)))"
  using assms(3)
proof (induction segments arbitrary: combined)
  case (Cons segment segments)
  obtain clock h where s: "segment = (clock, h)" by (cases segment)
  with Cons.prems have h: "clock_ok clock" "h \<noteq> []" "wf_histogram h" "histogram_bytes h \<le> max_bytes" "counter_total h \<le> max_chunks"
    by (simp_all add: segment_ok_def)
  have "allE (\<lambda>key. nonnegative_number (get (segment_obj clock h) key)) segment_times = Inr True"
    using nonnegative_replay_time [OF h(1)] segment_fields(4) by (simp add: allE_True list_all_iff)
  with Cons h assms(1,2) show ?case
    by (simp add: s segment_fields(1-3) parse_histogram_json sorted_histogram bindE_ok)
qed simp

lemma combined_segments:
  assumes "list_all (\<lambda>s. wf_histogram s) segments" "wf_histogram combined"
  shows "wf_histogram (foldl merge_counts combined (map (sort_key fst) segments)) \<and>
    counter_get (foldl merge_counts combined (map (sort_key fst) segments)) n =
      counter_get combined n + (\<Sum>s\<leftarrow>segments. counter_get s n)"
  using assms
proof (induction segments arbitrary: combined)
  case (Cons s segments)
  have "wf_histogram s" using Cons.prems by simp
  note sorted = sorted_histogram [OF this]
  have "counter_get (sort_key fst s) n = counter_get s n" by (simp add: counter_get_def sorted)
  with Cons.IH [of "merge_counts combined (sort_key fst s)"] Cons.prems sorted(1) show ?case
    by (simp add: wf_merge counter_get_merge)
qed simp

lemma total_matches_json:
  assumes "get replay key = JFloat (fsum (map (replay_time key) clocks))" "key \<in> set segment_times"
    and "list_all clock_ok clocks" "length clocks = length segments" "sums_times fsum" "length clocks \<le> MAX_REPLAY_SEGMENTS"
  shows "total_matches fsum replay (map (\<lambda>(clock, h). segment_obj clock h) (zip clocks segments)) key = Inr True"
proof -
  have times: "list_all (\<lambda>t. Fin 0 \<le> t \<and> t \<le> Fin (2 ^ 53)) (map (replay_time key) clocks)"
    using assms(3) unfolding list_all_iff by (auto elim!: replay_time_finite [OF _ assms(2)])
  then have finite: "is_finite (fsum (map (replay_time key) clocks))"
    using assms(5,6) by (simp add: sums_times_def)
  have "mapE (\<lambda>segment. number_or_zero (get segment key)) (map (\<lambda>(clock, h). segment_obj clock h) (zip clocks segments)) =
      Inr (map (replay_time key) clocks)"
    using assms(3,4)
  proof (induction clocks arbitrary: segments)
    case (Cons clock clocks)
    then obtain h hs where "segments = h # hs" by (cases segments) auto
    moreover obtain q where "replay_time key clock = Fin q" using Cons.prems replay_time_finite [OF _ assms(2)] by auto
    ultimately show ?case
      using Cons segment_fields(4) [OF assms(2)] by (simp add: number_or_zero_def bindE_ok)
  qed simp
  with finite show ?thesis by (simp add: total_matches_def assms(1) isclose_refl)
qed

lemma overhead_result_replayed:
  assumes "map_of (rev replayed) key = Some v"
  shows "get (overhead_result c window status exact nbytes chunks why replays replayed) key = v"
proof -
  have "get (dict_update d e) key = v" if "map_of (rev e) key = Some v" for d e
    using that
  proof (induction e arbitrary: d rule: rev_induct)
    case (snoc kv e)
    then show ?case by (cases kv) (auto simp: dict_update_def split: if_splits)
  qed simp
  with assms show ?thesis by (simp add: overhead_result_def)
qed

lemma replayed_fields:
  assumes "replay = overhead_result c True ''ok'' True nbytes chunks JNull True (replayed_segments fsum clocks segments)"
  shows "object_list (get replay ''segments'') =
      map (\<lambda>(clock, h). segment_obj clock h) (zip (map clocks [0..<length segments]) segments)"
    "get replay ''replay_bytes'' = JInt (sum_list (map histogram_bytes segments))"
    "get replay ''replay_chunks'' = JInt (sum_list (map counter_total segments))"
    "key \<in> set segment_times \<Longrightarrow>
      get replay key = JFloat (fsum (map (replay_time key) (map clocks [0..<length segments])))"
proof -
  note at = overhead_result_replayed [of "replayed_segments fsum clocks segments" _ _ c True "''ok''" True nbytes chunks JNull True,
      folded assms]
  have items: "enumerate 0 segments = zip [0..<length segments] segments" by (simp add: enumerate_eq_zip)
  have "get replay ''segments'' = JList (map (\<lambda>(i, h). segment_json (clocks i) h) (enumerate 0 segments))"
    by (rule at) (simp add: replayed_segments_def replay_totals_def segment_times_def)
  then show "object_list (get replay ''segments'') =
      map (\<lambda>(clock, h). segment_obj clock h) (zip (map clocks [0..<length segments]) segments)"
    by (simp add: items segment_json_def segment_obj_def filter_map comp_def case_prod_beta zip_map1)
  show "get replay ''replay_bytes'' = JInt (sum_list (map histogram_bytes segments))"
    "get replay ''replay_chunks'' = JInt (sum_list (map counter_total segments))"
    by (rule at, simp add: replayed_segments_def replay_totals_def segment_times_def)+
  assume "key \<in> set segment_times"
  then have "key = ''scalar_only_s'' \<or> key = ''sha256_only_s'' \<or> key = ''combined_s''" by (simp add: segment_times_def)
  then have "map_of (rev (replayed_segments fsum clocks segments)) key =
      Some (JFloat (fsum (map (replay_time key) (map clocks [0..<length segments]))))"
    by (elim disjE) (simp_all add: replayed_segments_def replay_totals_def segment_times_def replay_time_def comp_def)
  then show "get replay key = JFloat (fsum (map (replay_time key) (map clocks [0..<length segments])))" by (rule at)
qed

lemma replay_segments_partition:
  assumes "replay_segments max_bytes max_chunks room [] 0 0 (sort_key fst h) = Some segments"
    and "wf_histogram h" "list_all (\<lambda>(n, k). n \<le> max_bytes) h" "0 < max_chunks" "0 \<le> max_bytes"
  shows "length segments \<le> room" "list_all (\<lambda>s. s \<noteq> [] \<and> segment_ok max_bytes max_chunks s) segments"
    "\<And>n. (\<Sum>s\<leftarrow>segments. counter_get s n) = counter_get h n"
    "(\<Sum>s\<leftarrow>segments. histogram_bytes s) = histogram_bytes h" "(\<Sum>s\<leftarrow>segments. counter_total s) = counter_total h"
proof -
  note sorted = sorted_histogram [OF assms(2)]
  have "segment_ok max_bytes max_chunks []" using assms(4,5) by (simp add: segment_ok_def)
  moreover have "replayable max_bytes (sort_key fst h)"
    using assms(2,3) by (fastforce simp: replayable_def wf_histogram_def list_all_iff)
  ultimately have sound: "length segments \<le> room \<and> list_all (\<lambda>s. s \<noteq> [] \<and> segment_ok max_bytes max_chunks s) segments \<and>
      segments_sum segments [] (sort_key fst h)"
    using replay_segments_sound [OF assms(1)] assms(4) by simp
  then show "length segments \<le> room" "list_all (\<lambda>s. s \<noteq> [] \<and> segment_ok max_bytes max_chunks s) segments" by simp_all
  have "(\<Sum>(m, k)\<leftarrow>items. if m = n then k else 0) = counter_get items n" if "wf_histogram items" for items n
    using that by (induction items) (auto simp: counter_get_Cons wf_histogram_Cons counter_get_absent)
  then have "(\<Sum>(m, k)\<leftarrow>sort_key fst h. if m = n then k else 0) = counter_get h n" for n
    using sorted by (simp add: counter_get_def)
  with sound show "(\<Sum>s\<leftarrow>segments. counter_get s n) = counter_get h n" for n by (simp add: segments_sum_def)
  from sound sorted(3,4) show "(\<Sum>s\<leftarrow>segments. histogram_bytes s) = histogram_bytes h"
    "(\<Sum>s\<leftarrow>segments. counter_total s) = counter_total h" by (simp_all add: segments_sum_def)
qed

lemma overhead_status: "get (overhead_result c window status exact nbytes chunks why replays []) ''status'' = JStr status"
  by (simp add: overhead_result_def dict_update_def get_Cons)

lemma overhead_ok:
  assumes "get (replay_harness_overhead fsum clocks observations c (Some g)) ''status'' = JStr ''ok''"
    and "bg_global_histogram g = Some h"
  obtains segments where "bg_global_histogram_complete g" "h \<noteq> []"
    "counter_total h = sum_list (map co_chunks_read observations)"
    "histogram_bytes h = sum_list (map co_bytes_read observations)"
    "list_all (\<lambda>(n, k). n \<le> int_of (ac_replay_max_bytes c)) h"
    "replay_segments (int_of (ac_replay_max_bytes c)) (int_of (ac_replay_max_chunks c)) MAX_REPLAY_SEGMENTS [] 0 0
       (sort_key fst h) = Some segments"
    "replay_harness_overhead fsum clocks observations c (Some g) =
       overhead_result c True ''ok'' True (histogram_bytes h) (counter_total h) JNull True
         (replayed_segments fsum clocks segments)"
proof -
  let ?fail = "replay_failure_reason h (bg_global_histogram_complete g) (sum_list (map co_bytes_read observations))
    (sum_list (map co_chunks_read observations)) c True"
  have whole: "global_histogram (Some g) = Some h" by (simp add: global_histogram_def assms(2))
  have none: "?fail = None"
    using assms(1) by (cases ?fail) (simp_all add: replay_harness_overhead_def whole overhead_status Let_def)
  obtain segments where "replay_segments (int_of (ac_replay_max_bytes c)) (int_of (ac_replay_max_chunks c))
      MAX_REPLAY_SEGMENTS [] 0 0 (sort_key fst h) = Some segments"
    using assms(1)
    by (cases "replay_segments (int_of (ac_replay_max_bytes c)) (int_of (ac_replay_max_chunks c)) MAX_REPLAY_SEGMENTS []
      0 0 (sort_key fst h)") (simp_all add: replay_harness_overhead_def whole none overhead_status Let_def)
  with none show thesis
    by (intro that [of segments])
      (auto simp: replay_failure_reason_def replay_harness_overhead_def whole none Let_def list_ex_iff list_all_iff
        split: if_splits)
qed

lemma counter_total_pos: "wf_histogram h \<Longrightarrow> h \<noteq> [] \<Longrightarrow> 0 < counter_total h"
proof (induction h)
  case (Cons nk h)
  then show ?case by (cases nk; cases h) (auto simp: wf_histogram_Cons)
qed simp

lemma replay_accepted:
  assumes "get replay ''status'' = JStr ''ok''" "replay = replay_harness_overhead fsum clocks observations c (Some g)"
    and "bg_global_histogram g = Some h" "wf_histogram h"
    and "ac_replay_max_bytes c = JInt max_bytes" "ac_replay_max_chunks c = JInt max_chunks" "0 < max_chunks" "0 \<le> max_bytes"
    and "get config ''replay_max_bytes'' = JInt max_bytes" "get config ''replay_max_chunks'' = JInt max_chunks"
    and "\<forall>i. clock_ok (clocks i)" "sums_times fsum"
  shows "replay_matches fsum replay h config = Inr True"
proof -
  obtain segments where run: "h \<noteq> []" "list_all (\<lambda>(n, k). n \<le> max_bytes) h"
      "replay_segments max_bytes max_chunks MAX_REPLAY_SEGMENTS [] 0 0 (sort_key fst h) = Some segments"
      "replay = overhead_result c True ''ok'' True (histogram_bytes h) (counter_total h) JNull True
         (replayed_segments fsum clocks segments)"
    using overhead_ok [of fsum clocks observations c g h] assms(1-3,5,6) by (metis int_of.simps(1))
  note part = replay_segments_partition [OF run(3) assms(4) run(2) assms(7,8)]
  note fields = replayed_fields [OF run(4)]
  let ?clocks = "map clocks [0..<length segments]"
  have segments: "segments \<noteq> []" using part(5) counter_total_pos [OF assms(4) run(1)] by auto
  have pairs: "map (\<lambda>(clock, s). sort_key fst s) (zip ?clocks segments) = map (sort_key fst) segments"
    by (intro nth_equalityI) auto
  have "list_all (\<lambda>(clock, s). clock_ok clock \<and> s \<noteq> [] \<and> segment_ok max_bytes max_chunks s) (zip ?clocks segments)"
    using part(2) assms(11) by (auto simp: list_all_iff set_zip)
  then have combined: "combine_segments config [] (map (\<lambda>(clock, s). segment_obj clock s) (zip ?clocks segments)) =
      Inr (Some (foldl merge_counts [] (map (sort_key fst) segments)))"
    using combine_segments_json [OF assms(9,10)] pairs by simp
  have wf: "list_all (\<lambda>s. wf_histogram s) segments" using part(2) by (auto simp: segment_ok_def list_all_iff)
  have same: "same_counts (foldl merge_counts [] (map (sort_key fst) segments)) h"
    using combined_segments [OF wf, of "[]"] part(3) assms(4) by (intro same_countsI) auto
  have "list_all (\<lambda>key. total_matches fsum replay (map (\<lambda>(clock, s). segment_obj clock s) (zip ?clocks segments)) key = Inr True)
      segment_times"
    unfolding list_all_iff
    using fields(4) assms(11,12) part(1) by (auto intro!: total_matches_json simp: list_all_iff)
  with same part(1,4,5) segments show ?thesis
    by (simp add: replay_matches_def fields(1-3) combined bindE_ok allE_True andE_True Let_def)
qed

lemma replay_matches_sorted:
  "wf_histogram h \<Longrightarrow> replay_matches fsum replay (sort_key fst h) config = replay_matches fsum replay h config"
  by (simp add: replay_matches_def same_counts_def sorted_histogram Let_def)

subsection \<open>Streams of a window\<close>

text \<open>
  In a window no stream has a histogram of its own, and each size of the shared one was delivered to a stream.\<close>

definition shared_inv :: "batch_state \<Rightarrow> bool" where
  "shared_inv s \<longleftrightarrow>
     (case s of (b, streams) \<Rightarrow>
        list_all (\<lambda>(phase, p). co_histogram (ps_observations p) = []) streams \<and>
        (\<exists>g h. b = Some g \<and> bg_global_histogram g = Some h \<and>
           (\<forall>n \<in> fst ` set h. \<exists>(phase, p) \<in> set streams. n \<le> co_bytes_read (ps_observations p))))"

lemma observe_shared:
  assumes "bg_global_histogram g = Some h" "observe c n arrived started (Some g, obs) = (b', obs')"
  shows "co_histogram obs' = co_histogram obs" "co_bytes_read obs' = co_bytes_read obs + n"
    "\<exists>g'. b' = Some g' \<and> (bg_global_histogram g' = Some h \<or> bg_global_histogram g' = Some (counter_add h n 1))"
  using assms
  by (auto simp: observe_def count_size_def count_bytes_def sample_delivery_def take_if_shared_def take_record_def
      count_globally_def take_histogram_bin_def Let_def split: if_splits)

lemma deliver_shared:
  assumes "bg_global_histogram g = Some h" "deliver c body chunk a r d (Some g, p) = (phase', b', p')"
  shows "co_histogram (ps_observations p') = co_histogram (ps_observations p) \<and>
    co_bytes_read (ps_observations p') = co_bytes_read (ps_observations p) + int (length chunk) \<and>
    (\<exists>g'. b' = Some g' \<and>
      (bg_global_histogram g' = Some h \<or> bg_global_histogram g' = Some (counter_add h (int (length chunk)) 1)))"
proof -
  obtain b1 obs where 1: "observe c (int (length chunk)) r (ps_started_ns p) (Some g, ps_observations p) = (b1, obs)" by fastforce
  note facts = observe_shared [OF assms(1) 1]
  then obtain g1 where "b1 = Some g1" by auto
  with facts 1 assms(2) show ?thesis
    by (auto simp: deliver_def trace_delivery_def take_if_shared_def take_record_def split: if_splits)
qed

lemma stream_step_shared:
  assumes "bg_global_histogram g = Some h" "stream_step c body (phase, Some g, p) e = Some (phase', b', p')"
  shows "co_histogram (ps_observations p') = co_histogram (ps_observations p) \<and>
    (\<exists>n g'. 0 \<le> n \<and> co_bytes_read (ps_observations p') = co_bytes_read (ps_observations p) + n \<and> b' = Some g' \<and>
      (bg_global_histogram g' = Some h \<or> bg_global_histogram g' = Some (counter_add h n 1)))"
proof (cases "phase = Reading \<and> (\<exists>chunk a r d. e = Delivered chunk a r d)")
  case True
  then obtain chunk a r d where "phase = Reading" "e = Delivered chunk a r d" by blast
  with assms(2) deliver_shared [OF assms(1), of c body chunk a r d p phase' b' p'] show ?thesis
    by (auto intro!: exI [of _ "int (length chunk)"])
next
  case False
  with assms show ?thesis
    by (cases "(c, body, (phase, Some g, p), e)" rule: stream_step.cases) (auto intro: exI [of _ 0])
qed

lemma shared_step:
  assumes "shared_inv s" "window_inv cap s" "batch_step c body s e = Some s'"
  shows "shared_inv s'"
proof -
  obtain g h streams where s: "s = (Some g, streams)" "bg_global_histogram g = Some h"
      "list_all (\<lambda>(phase, p). co_histogram (ps_observations p) = []) streams"
      "\<forall>n \<in> fst ` set h. \<exists>(phase, p) \<in> set streams. n \<le> co_bytes_read (ps_observations p)"
    using assms(1) by (auto simp: shared_inv_def)
  obtain i event where e: "e = (i, event)" by (cases e)
  obtain phase p where old: "i < length streams" "streams ! i = (phase, p)"
    using assms(3) by (cases "streams ! i") (auto simp: batch_step_def s e split: if_splits)
  obtain phase' b' p' where new: "stream_step c body (phase, Some g, p) event = Some (phase', b', p')"
      "s' = (b', streams[i := (phase', p')])"
    using assms(3) old by (auto simp: batch_step_def s e)
  have "(\<lambda>(phase, p). observed_stream p) (streams ! i)"
    using assms(2) old(1) by (simp add: window_inv_def s(1) list_all_length case_prod_beta)
  then have bytes: "0 \<le> co_bytes_read (ps_observations p)" by (simp add: old(2) observed_stream_def)
  obtain n g' where step: "co_histogram (ps_observations p') = co_histogram (ps_observations p)" "0 \<le> n"
      "co_bytes_read (ps_observations p') = co_bytes_read (ps_observations p) + n" "b' = Some g'"
      "bg_global_histogram g' = Some h \<or> bg_global_histogram g' = Some (counter_add h n 1)"
    using stream_step_shared [OF s(2) new(1)] by blast
  have local: "co_histogram (ps_observations p) = []" using s(3) old by (auto simp: list_all_length)
  let ?new = "streams[i := (phase', p')]"
  have here: "(phase', p') \<in> set ?new" using old(1) by (simp add: set_update_memI)
  have kept: "\<exists>(phase, p) \<in> set ?new. m \<le> co_bytes_read (ps_observations p)" if m: "m \<in> fst ` set h" for m
  proof -
    obtain q where "q \<in> set streams" "m \<le> co_bytes_read (ps_observations (snd q))"
      using s(4) m by (auto simp: case_prod_beta)
    then obtain j where j: "j < length streams" "m \<le> co_bytes_read (ps_observations (snd (streams ! j)))"
      by (auto simp: in_set_conv_nth)
    show ?thesis
    proof (cases "j = i")
      case True
      with j old step(2,3) show ?thesis by (intro bexI [OF _ here]) simp
    next
      case False
      with j have "?new ! j = streams ! j" "j < length ?new" by simp_all
      with j(2) show ?thesis by (metis case_prod_beta nth_mem)
    qed
  qed
  obtain h' where h': "bg_global_histogram g' = Some h'" "fst ` set h' \<subseteq> insert n (fst ` set h)"
    using step(5) by (auto simp: counter_add_keys)
  have "\<exists>(phase, p) \<in> set ?new. m \<le> co_bytes_read (ps_observations p)" if "m \<in> fst ` set h'" for m
  proof (cases "m = n")
    case True
    with bytes step(3) show ?thesis by (intro bexI [OF _ here]) simp
  next
    case False
    with that h'(2) have "m \<in> fst ` set h" by blast
    then show ?thesis by (rule kept)
  qed
  moreover have "list_all (\<lambda>(phase, p). co_histogram (ps_observations p) = []) ?new"
    using s(3) step(1) local by (intro list_all_replace) simp_all
  ultimately show ?thesis by (simp add: new(2) shared_inv_def step(4) h'(1))
qed

lemma window_shared_run:
  "window_inv cap s \<and> shared_inv s \<Longrightarrow> batch_run c body s es = Some s' \<Longrightarrow> window_inv cap s' \<and> shared_inv s'"
  by (induction es arbitrary: s) (auto split: option.splits dest: window_step shared_step)

lemma covered_append:
  assumes "covered g h streams" "list_all (\<lambda>p. ps_observations p = no_observations) fresh"
  shows "covered g h (streams @ fresh)"
proof -
  have "(\<Sum>p\<leftarrow>fresh. f (ps_observations p)) = (\<Sum>p\<leftarrow>fresh. f no_observations)" for f :: "ChunkObservations \<Rightarrow> int"
    using assms(2) by (induction fresh) simp_all
  from this [of co_chunks_read] this [of co_bytes_read]
  have zero: "(\<Sum>p\<leftarrow>fresh. co_chunks_read (ps_observations p)) = 0" "(\<Sum>p\<leftarrow>fresh. co_bytes_read (ps_observations p)) = 0"
    by (simp_all add: no_observations_def sum_list_triv)
  have "list_all (\<lambda>p. set_option (co_min_bytes (ps_observations p)) \<union> set_option (co_max_bytes (ps_observations p))
      \<subseteq> fst ` set h) fresh"
    using assms(2) by (simp add: list_all_iff no_observations_def)
  with zero assms(1) show ?thesis by (cases "bg_global_histogram_complete g") (simp_all add: covered_def)
qed

lemma window_append:
  assumes "window_inv cap (b, streams)" "shared_inv (b, streams)"
    and "list_all (\<lambda>p. observed_stream p \<and> ps_observations p = no_observations) (map snd fresh)"
  shows "window_inv cap (b, streams @ fresh)" "shared_inv (b, streams @ fresh)"
proof -
  have fresh: "list_all (\<lambda>p. ps_observations p = no_observations) (map snd fresh)"
    "list_all (\<lambda>(phase, p). observed_stream p) fresh" "list_all (\<lambda>(phase, p). co_histogram (ps_observations p) = []) fresh"
    using assms(3) by (auto simp: list_all_iff no_observations_def)
  with assms(1) covered_append [OF _ fresh(1)] show "window_inv cap (b, streams @ fresh)"
    by (auto simp: window_inv_def)
  from fresh(3) assms(2) show "shared_inv (b, streams @ fresh)" by (fastforce simp: shared_inv_def)
qed

lemma window_open:
  assumes "window_inv cap s \<and> shared_inv s"
  shows "window_inv cap (open_round starts s) \<and> shared_inv (open_round starts s)"
proof -
  obtain b streams where s: "s = (b, streams)" by (cases s)
  have "list_all (\<lambda>p. observed_stream p \<and> ps_observations p = no_observations)
      (map snd (map (\<lambda>(i, ns). (Opening, new_stream (int i + 1) ns)) (enumerate m starts)))" for m
    by (auto simp: list_all_iff observed_stream_def new_stream_def no_observations_def chunk_bounds_def)
  with window_append [of cap b streams] assms show ?thesis by (simp add: s open_round_def)
qed

lemma consume_window:
  assumes "consume_load c body places rounds True started offsets inputs s = Some s'"
    and "window_inv cap s \<and> shared_inv s"
  shows "window_inv cap s' \<and> shared_inv s'"
  using assms
proof (induction c body places rounds True started offsets inputs s rule: consume_load.induct)
  case (3 c body places rounds started offsets r inputs s)
  obtain b streams where run: "batch_run c body (open_round (ri_starts r) s) (ri_events r) = Some (b, streams)"
    using 3(2) by (auto split: if_splits option.splits)
  have "window_inv cap (b, streams) \<and> shared_inv (b, streams)"
    using window_shared_run [OF window_open [OF 3(3)] run] .
  with 3(1) [OF _ run refl] 3(2) run show ?case by (auto split: if_splits)
qed (auto split: if_splits)

lemma batch_run_length: "batch_run c body s es = Some s' \<Longrightarrow> length (snd s') = length (snd s)"
proof (induction es arbitrary: s)
  case (Cons e es)
  then obtain s1 where "batch_step c body s e = Some s1" "batch_run c body s1 es = Some s'"
    by (auto split: option.splits)
  moreover from this have "length (snd s1) = length (snd s)"
    by (auto simp: batch_step_def split: prod.splits if_splits)
  ultimately show ?case using Cons.IH by simp
qed simp

lemma consume_rounds:
  assumes "consume_load c body places rounds True started offsets inputs s = Some s'"
  shows "int (length (snd s')) = int (length (snd s)) + places * int (length inputs) \<and> length inputs \<le> offsets \<and>
    (length inputs = offsets \<or> inputs \<noteq> [] \<and> rounds * places \<le> int (length (snd s')) \<and>
      duration_elapsed c (ri_now (last inputs) - started))"
  using assms
proof (induction c body places rounds True started offsets inputs s rule: consume_load.induct)
  case (3 c body places rounds started offsets r inputs s)
  obtain b streams where run: "batch_run c body (open_round (ri_starts r) s) (ri_events r) = Some (b, streams)"
    using 3(2) by (auto split: if_splits option.splits)
  have "length streams = length (snd s) + length (ri_starts r)"
    using batch_run_length [OF run] by (simp add: open_round_def case_prod_beta)
  then show ?case
    using 3(1) [OF _ run refl] 3(2) run by (auto simp: algebra_simps split: if_splits)
qed (auto split: if_splits)

subsection \<open>The reason why a window stopped\<close>

text \<open>A minimum duration of whole nanoseconds, as an integer of seconds or as the float nearest to it.\<close>

definition whole_nanoseconds :: "json \<Rightarrow> bool" where
  "whole_nanoseconds v \<longleftrightarrow> (case v of JInt n \<Rightarrow> True | JFloat x \<Rightarrow> (\<exists>m. x = seconds m) | _ \<Rightarrow> False)"

lemma round64_part:
  assumes "\<bar>q\<bar> \<le> (2::int) ^ 53" "k \<le> 1074"
  shows "round64 (of_int q / 2 ^ k) = Fin (of_int q / 2 ^ k)"
proof (rule round64_exact [where m = q and e = "- int k"])
  show "of_int q / 2 ^ k = of_int q * pow2 (- int k)" using pow2_diff [of 0 "int k"] by (simp add: pow2_of_nat) (simp add: pow2_def)
  have "\<bar>of_int q / 2 ^ k :: rat\<bar> \<le> of_int \<bar>q\<bar>" by (simp add: abs_divide divide_le_eq mult_le_cancel_left1)
  also have "\<dots> \<le> of_int (2 ^ 53)" using assms(1) by (simp only: of_int_le_iff)
  also have "\<dots> < float_limit" by (simp add: float_limit_def)
  finally show "\<bar>of_int q / 2 ^ k :: rat\<bar> < float_limit" .
qed (use assms in simp_all)

lemma duration_reached:
  assumes "duration_elapsed c e" "e \<le> elapsed" "whole_nanoseconds (ac_minimum_duration_s c)"
    and "between (Fin 1) (Fin 5) (num (ac_minimum_duration_s c))"
  shows "num (ac_minimum_duration_s c) \<le> seconds elapsed"
proof (cases "ac_minimum_duration_s c")
  case (JInt n)
  then have n: "1 \<le> n" "n \<le> 5" "n * 1000000000 \<le> elapsed"
    using assms by (auto simp: between_def num_def duration_elapsed_def fle_def)
  then show ?thesis using seconds_mono [OF n(3)] seconds_whole [of n] by (simp add: JInt num_def)
next
  case (JFloat x)
  then obtain m where m: "x = seconds m" using assms(3) by (auto simp: whole_nanoseconds_def)
  obtain r where r: "x = Fin r" "1 \<le> r" "r \<le> 5"
    using assms(4) by (cases x) (auto simp: JFloat num_def between_def fle_def)
  have "m \<le> e"
  proof (rule ccontr)
    assume "\<not> m \<le> e"
    then have less: "e \<le> m - 1" by simp
    have sm: "seconds m = Fin r" using m r(1) by simp
    have "0 \<le> m"
      using seconds_mono [of m 0] seconds_whole [of 0] sm r(2) by (cases "0 \<le> m") simp_all
    moreover have "m < 6 * 1000000000"
      using seconds_mono [of "6 * 1000000000" m] seconds_whole [of 6] sm r(3) by (cases "m < 6 * 1000000000") simp_all
    ultimately have m0: "0 \<le> m" "m < 6 * 1000000000" .
    define q where "q = \<lfloor>of_int m / 1000000000 * 2 ^ 31 :: rat\<rfloor>"
    have q: "of_int q \<le> (of_int m / 1000000000 * 2 ^ 31 :: rat)" "(of_int m / 1000000000 * 2 ^ 31 :: rat) < of_int q + 1"
      unfolding q_def by linarith+
    have "0 \<le> q" using m0(1) by (simp add: q_def)
    moreover have "of_int q \<le> (of_int (6 * 2 ^ 31) :: rat)" using q(1) m0(2) by simp
    then have "q \<le> 6 * 2 ^ 31" by (simp only: of_int_le_iff)
    then have "q \<le> 2 ^ 53" by simp
    ultimately have "Fin (of_int q / 2 ^ 31) \<le> Fin r"
      using round64_mono [of "of_int q / 2 ^ 31" "of_int m / 1000000000"] round64_part [of q 31] q(1) sm
      by (simp add: seconds_def pos_divide_le_eq)
    then have low: "of_int q / 2 ^ 31 \<le> r" by simp
    have "of_int (2 * m - 1) / 2 \<le> r * 1000000000"
      using low q(2) by (simp add: field_simps)
    moreover have "round64 (of_int (2 * m - 1) / 2) = Fin (of_int (2 * m - 1) / 2)"
      using round64_part [of "2 * m - 1" 1] m0 by simp
    ultimately have "Fin (of_int (2 * m - 1) / 2) \<le> round64 (r * 1000000000)"
      using round64_mono by metis
    moreover have "round64 (r * 1000000000) \<le> Fin (of_int e)"
      using assms(1) by (cases "round64 (r * 1000000000)") (auto simp: JFloat r duration_elapsed_def fle_def less_eq_pyfloat_def)
    ultimately have "of_int (2 * m - 1) / 2 \<le> (of_int e :: rat)" using order_trans by fastforce
    then have "(of_int (2 * m - 1) :: rat) \<le> of_int (2 * e)" by simp
    then have "2 * m - 1 \<le> 2 * e" by (simp only: of_int_le_iff)
    with less show False by simp
  qed
  with assms(2) have "seconds m \<le> seconds elapsed" by (intro seconds_mono) simp
  then show ?thesis by (simp add: JFloat num_def m)
qed (use assms(3) in \<open>simp_all add: whole_nanoseconds_def\<close>)

subsection \<open>The record of a window\<close>

lemma profiled_window:
  "(if b then bindE m (\<lambda>w. Inr [(''python_profile'', JObj w)]) else Inr []) = Inr profiled \<Longrightarrow>
    get (profiled @ d) ''window'' = get d ''window''"
  by (auto simp: bindE_ok get_Cons split: if_splits)

lemma batch_fields:
  assumes "batch_json sha256 fsum c body concurrency rounds n inp g pending = Inr batch" "timed_window c n"
  shows "get batch ''rounds'' = JInt (int (length pending) div concurrency)"
    "get batch ''requests'' = JInt (int (length pending))"
    "get batch ''ok_streams'' = JInt (int (length (filter (\<lambda>p. final_error sha256 body
       (streaming_bytes_sha256 sha256 (nat body)) p = None) pending)))"
    "get batch ''duration_s'' = JFloat (seconds (bi_finished inp - bi_started inp))"
    "get batch ''total_observed_bytes'' = JInt (sum_list (map co_bytes_read (map ps_observations pending)))"
    "get batch ''chunks_read_total'' = JInt (sum_list (map co_chunks_read (map ps_observations pending)))"
    "get batch ''samples'' = JList (map JObj (map (finalize_stream sha256 c (bi_resolution inp) (Some g) body
       (streaming_bytes_sha256 sha256 (nat body))) pending))"
    "get batch ''overhead'' =
       JObj (replay_harness_overhead fsum (bi_replays inp) (map ps_observations pending) c (Some g))"
    "get batch ''window'' = window_json c rounds (seconds (bi_finished inp - bi_started inp)) g
       (sum_list (map co_chunks_read (map ps_observations pending)))
       (sum_list (map co_bytes_read (map ps_observations pending)))"
  by (insert assms(1) [unfolded batch_json_def Let_def if_P [OF assms(2)] bindE_ok])
    (elim exE conjE, drule Inr_inject, erule subst, simp add: get_Cons profiled_window)+

lemma stream_fields:
  "get (finalize_stream sha256 c resolution b body expected p) ''chunks_read'' = JInt (co_chunks_read (ps_observations p))"
  "get (finalize_stream sha256 c resolution b body expected p) ''distribution'' = JObj (distribution_json c b (ps_observations p))"
  by (simp_all add: finalize_stream_def observation_json_def Let_def get_Cons)

lemma distribution_fields:
  assumes "bg_global_histogram g = Some h"
  shows "get (distribution_json c (Some g) obs) ''scope'' = JStr ''batch-global''"
    "get (distribution_json c (Some g) obs) ''histogram'' = histogram_json (co_histogram obs)"
    "get (distribution_json c (Some g) obs) ''min_bytes'' = optional_int (co_min_bytes obs)"
    "get (distribution_json c (Some g) obs) ''max_bytes'' = optional_int (co_max_bytes obs)"
  by (simp_all add: distribution_json_def global_histogram_def assms get_Cons)

lemma key_in_keys: "n \<in> fst ` set h \<Longrightarrow> key_in h (JInt n) = Inr True"
  by (fastforce simp: key_in_def hashable_def list_ex_iff)

lemma integrity_bytes: "final_error sha256 body expected p = None \<Longrightarrow> co_bytes_read (ps_observations p) = body"
  by (auto simp: final_error_def integrity_error_def split: option.splits if_splits)

lemma sample_accepted:
  assumes "bg_global_histogram g = Some h" "keys = sort_key fst h" "1 \<le> body"
    and "co_bytes_read (ps_observations p) = body" "observed_stream p" "co_histogram (ps_observations p) = []"
    and "set_option (co_min_bytes (ps_observations p)) \<union> set_option (co_max_bytes (ps_observations p)) \<subseteq> fst ` set h"
    and "\<forall>n \<in> fst ` set h. n \<le> body"
  shows "sample_in_window keys body (finalize_stream sha256 c resolution (Some g) body expected p) = Inr True"
proof -
  obtain lo hi where size: "co_min_bytes (ps_observations p) = Some lo" "co_max_bytes (ps_observations p) = Some hi"
      "1 \<le> co_chunks_read (ps_observations p)" "1 \<le> lo" "lo \<le> hi" "lo * co_chunks_read (ps_observations p) \<le> body"
      "body \<le> hi * co_chunks_read (ps_observations p)"
    using assms(3-5) by (auto simp: observed_stream_def chunk_bounds_def split: option.splits)
  have "1 * co_chunks_read (ps_observations p) \<le> lo * co_chunks_read (ps_observations p)"
    using size(3,4) by (intro mult_right_mono) simp_all
  with size(6) have chunks: "co_chunks_read (ps_observations p) \<le> body" by simp
  have "lo \<in> fst ` set keys" "hi \<in> fst ` set keys" "hi \<le> body" using assms(2,7,8) size(1,2) by auto
  with size chunks assms(6) show ?thesis
    by (simp add: sample_in_window_def stream_fields distribution_fields [OF assms(1)] optional_int_def histogram_json_def
        key_in_keys stream_chunk_bounds_match_def bindE_ok andE_True Let_def)
qed

text \<open>A window as the coordinator configures it and the batch it measures.\<close>

definition window_setting :: "LifecycleConfig \<Rightarrow> AttributionConfig \<Rightarrow> int \<Rightarrow> int \<Rightarrow> bool" where
  "window_setting cfg c body rounds \<longleftrightarrow>
     lc_attribution cfg = Some c \<and> lc_body_bytes cfg = JInt body \<and> lc_rounds_per_batch cfg = JInt rounds \<and>
     whole_nanoseconds (ac_minimum_duration_s c)"

definition window_clocks :: "batch_input \<Rightarrow> bool" where
  "window_clocks inp \<longleftrightarrow>
     (\<forall>r \<in> set (bi_rounds inp). ri_now r \<le> bi_finished inp) \<and> 0 \<le> bi_finished inp - bi_started inp \<and>
     bi_finished inp - bi_started inp < 2 ^ 63 \<and> (\<forall>i. clock_ok (bi_replays inp i))"

lemma payload_fields:
  assumes "lc_attribution cfg = Some c"
  shows "object_value (get (lifecycle_payload cfg) ''attribution'') = attribution_payload c"
    "get (lifecycle_payload cfg) ''body_bytes'' = lc_body_bytes cfg"
    "get (lifecycle_payload cfg) ''rounds_per_batch'' = lc_rounds_per_batch cfg"
  by (simp_all add: lifecycle_payload_def lifecycle_fields_def get_Cons assms)

lemma attribution_fields:
  "get (attribution_payload c) ''minimum_duration_s'' = ac_minimum_duration_s c"
  "get (attribution_payload c) ''max_window_streams'' = ac_max_window_streams c"
  "get (attribution_payload c) ''histogram_bins_cap'' = ac_histogram_bins_cap c"
  "get (attribution_payload c) ''replay_max_bytes'' = ac_replay_max_bytes c"
  "get (attribution_payload c) ''replay_max_chunks'' = ac_replay_max_chunks c"
  by (simp_all add: attribution_payload_def get_Cons)

lemma window_valid:
  assumes "validate_batch c client (JInt body) concurrency (JInt rounds) True = Inr ()"
  obtains places limit cap max_bytes max_chunks where "concurrency = JInt places" "places \<in> {1, 10}"
    "ac_max_window_streams c = JInt limit" "MIN_WINDOW_STREAMS \<le> limit" "limit \<le> MAX_WINDOW_STREAMS"
    "0 < rounds" "rounds * places \<le> limit" "1 \<le> body" "ac_histogram_bins_cap c = JInt cap" "1 \<le> cap" "cap \<le> MAX_HISTOGRAM_BINS"
    "ac_replay_max_bytes c = JInt max_bytes" "0 < max_bytes" "ac_replay_max_chunks c = JInt max_chunks" "0 < max_chunks"
proof -
  have between: "int_between lo hi v \<Longrightarrow> \<exists>n. v = JInt n \<and> lo \<le> n \<and> n \<le> hi" for lo hi v by (cases v) simp_all
  have valid: "validate_window c = Inr ()" "validate_observations c (Some client) = Inr ()"
    and places: "type_is_int concurrency" "int_of concurrency \<in> {1, 10}" "1 \<le> body" "0 < rounds"
      "rounds * int_of concurrency \<le> int_of (ac_max_window_streams c)"
    using assms by (auto simp: validate_batch_def validate_attribution_config_def bindE_ok raise_if_def split: if_splits)
  have "int_between MIN_WINDOW_STREAMS MAX_WINDOW_STREAMS (ac_max_window_streams c)"
    using valid(1) by (auto simp: validate_window_def bindE_ok raise_if_def split: if_splits)
  moreover have "list_all (\<lambda>cap. validate_cap cap = Inr ()) (attribution_caps c)"
    using valid(2) by (auto simp: validate_observations_def bindE_ok Let_def forE_ok list_all_iff)
  then have "int_between 1 1024 (ac_histogram_bins_cap c)" "int_between 1 268435456 (ac_replay_max_bytes c)"
      "int_between 1 1000000 (ac_replay_max_chunks c)"
    by (auto simp: attribution_caps_def validate_cap_def raise_if_def split: if_splits)
  ultimately show thesis
    using places by (cases concurrency) (auto dest!: between intro!: that simp: MAX_HISTOGRAM_BINS_def)
qed

lemma window_fields:
  "get (object_value (window_json c rounds d g chunks nbytes)) ''minimum_duration_s'' = ac_minimum_duration_s c"
  "get (object_value (window_json c rounds d g chunks nbytes)) ''minimum_rounds'' = JInt rounds"
  "get (object_value (window_json c rounds d g chunks nbytes)) ''max_streams'' = ac_max_window_streams c"
  "get (object_value (window_json c rounds d g chunks nbytes)) ''target_reached'' = JBool (fle (num (ac_minimum_duration_s c)) d)"
  "get (object_value (window_json c rounds d g chunks nbytes)) ''stop_reason'' =
     JStr (if fle (num (ac_minimum_duration_s c)) d then ''duration-reached'' else ''stream-limit'')"
  by (simp_all add: window_json_def Let_def get_Cons)

lemma window_duration:
  assumes "validate_window c = Inr ()" "timed_window c n"
  obtains t where "num (ac_minimum_duration_s c) = Fin t" "number (ac_minimum_duration_s c) = Inr (Some (Fin t))"
    "1 \<le> t" "t \<le> 5" "py_eq (ac_minimum_duration_s c) (JFloat (Fin t))"
proof -
  obtain d where d: "finite_number (ac_minimum_duration_s c) = Inr (Some d)"
      "d = Fin 0 \<or> between (Fin 1) (Fin 5) d"
    using assms(1)
    by (auto simp: validate_window_def bindE_ok raise_if_def MAX_WINDOW_DURATION_S_def split: if_splits option.splits)
  have num: "num (ac_minimum_duration_s c) = d"
    using d(1) by (cases "ac_minimum_duration_s c") (auto simp: num_def bindE_ok split: if_splits)
  with d(2) assms(2) obtain t where t: "d = Fin t" "1 \<le> t" "t \<le> 5"
    by (cases d) (auto simp: timed_window_def between_def fle_def)
  have "float_of_int m = Inr (Fin (of_int m))" if "1 \<le> m" "m \<le> 5" for m
    using that round64_of_int [of m] by (simp add: float_of_int_def)
  with t d(1) num show thesis
    by (cases "ac_minimum_duration_s c") (auto simp: num_def bindE_ok fle_def split: if_splits intro!: that)
qed

lemma window_workload_verified:
  assumes "validate_batch c client (JInt body) (JInt places) (JInt rounds) True = Inr ()" "timed_window c n"
    and "consume_load c body places rounds True (bi_started inp) (nat (int_of (ac_max_window_streams c) div places))
      (bi_rounds inp) (b0, []) = Some (Some g, streams)"
    and "batch_json sha256 fsum c body places rounds n inp g (map snd streams) = Inr batch"
    and "window_setting cfg c body rounds" "window_clocks inp"
  shows "window_workload_matches batch (lifecycle_payload cfg) places = Inr True"
proof -
  obtain limit where valid: "places \<in> {1, 10}" "ac_max_window_streams c = JInt limit" "MIN_WINDOW_STREAMS \<le> limit"
      "limit \<le> MAX_WINDOW_STREAMS" "0 < rounds" "rounds * places \<le> limit"
    using assms(1) by (rule window_valid) auto
  note setting = assms(5) [unfolded window_setting_def] and clocks = assms(6) [unfolded window_clocks_def]
  have "validate_window c = Inr ()"
    using assms(1) by (auto simp: validate_batch_def validate_attribution_config_def bindE_ok)
  then obtain t where t: "num (ac_minimum_duration_s c) = Fin t" "number (ac_minimum_duration_s c) = Inr (Some (Fin t))"
      "1 \<le> t" "t \<le> 5" "py_eq (ac_minimum_duration_s c) (JFloat (Fin t))"
    by (rule window_duration [OF _ assms(2)])
  define k where "k = int (length (bi_rounds inp))"
  have positive: "0 < places" using valid(1) by auto
  have N: "rounds \<le> limit div places" "0 \<le> limit div places"
    using valid(6) positive zdiv_mono1 [OF valid(6) positive] valid(5) by auto
  note load = consume_rounds [OF assms(3)]
  have k: "int (length streams) = places * k" "k \<le> limit div places"
    using load N(2) by (auto simp: k_def valid(2))
  have stop: "k = limit div places \<or> bi_rounds inp \<noteq> [] \<and> rounds \<le> k \<and>
      duration_elapsed c (ri_now (last (bi_rounds inp)) - bi_started inp)"
    using load N(2) positive by (auto simp: k_def valid(2) mult.commute)
  with N(1) have rounds: "rounds \<le> k" by auto
  obtain d where d: "seconds (bi_finished inp - bi_started inp) = Fin d"
    using seconds_finite [of "bi_finished inp - bi_started inp"] clocks by blast
  have "t \<le> d" if "k \<noteq> limit div places"
  proof -
    have "bi_rounds inp \<noteq> []" "duration_elapsed c (ri_now (last (bi_rounds inp)) - bi_started inp)"
      using stop that by auto
    then have "num (ac_minimum_duration_s c) \<le> seconds (bi_finished inp - bi_started inp)"
      using clocks setting t by (intro duration_reached [of c "ri_now (last (bi_rounds inp)) - bi_started inp"])
        (auto simp: between_def fle_def)
    then show ?thesis by (simp add: t(1) d)
  qed
  then have stopped: "\<not> fle (Fin t) (Fin d) \<longrightarrow> k = limit div places"
    by (cases "k = limit div places") (auto simp: fle_def)
  have div: "places * k div places = k" using positive by simp
  note fields = batch_fields [OF assms(4,2)] and payload = payload_fields [of cfg c]
  have sizes: "between (Fin 1) (Fin (of_int MAX_WINDOW_DURATION_S)) (Fin t)" "int_between MIN_WINDOW_STREAMS MAX_WINDOW_STREAMS (JInt limit)"
    using t valid by (simp_all add: between_def fle_def MAX_WINDOW_DURATION_S_def) linarith
  show ?thesis
    using stopped setting t(2,5) positive rounds k(2) sizes
    unfolding window_workload_matches_def Let_def fields payload(1) [OF setting [THEN conjunct1]]
      payload(2,3) [OF setting [THEN conjunct1]] attribution_fields window_fields valid(2) d
    by (simp add: k(1) div t(1) bindE_ok mult.commute d)
qed

lemma window_distribution_verified:
  assumes "validate_batch c client (JInt body) (JInt places) (JInt rounds) True = Inr ()" "timed_window c n"
    and "consume_load c body places rounds True (bi_started inp) (nat (int_of (ac_max_window_streams c) div places))
      (bi_rounds inp) (Some (window_budget c), []) = Some (Some g, streams)"
    and "batch_json sha256 fsum c body places rounds n inp g (map snd streams) = Inr batch"
    and "window_setting cfg c body rounds" "window_clocks inp" "sums_times fsum"
    and "get batch ''ok_streams'' = get batch ''requests''"
    and "get (object_value (get batch ''overhead'')) ''status'' = JStr ''ok''"
  shows "window_distribution_matches fsum batch (lifecycle_payload cfg) = Inr True"
proof -
  obtain cap max_bytes max_chunks where valid: "1 \<le> body" "ac_histogram_bins_cap c = JInt cap" "1 \<le> cap"
      "cap \<le> MAX_HISTOGRAM_BINS" "ac_replay_max_bytes c = JInt max_bytes" "0 < max_bytes"
      "ac_replay_max_chunks c = JInt max_chunks" "0 < max_chunks"
    using assms(1) by (rule window_valid) auto
  note setting = assms(5) [unfolded window_setting_def] and fields = batch_fields [OF assms(4,2)]
  let ?pending = "map snd streams" and ?expected = "streaming_bytes_sha256 sha256 (nat body)"
  have "window_inv cap (Some (window_budget c), []) \<and> shared_inv (Some (window_budget c), [])"
    using valid by (simp add: window_inv_def shared_inv_def window_budget_def plain_budget_def covered_def)
  then have inv: "window_inv cap (Some g, streams)" "shared_inv (Some g, streams)"
    using consume_window [OF assms(3)] by blast+
  then obtain h where h: "bg_global_histogram g = Some h" "bg_histogram_bins_cap g = cap" "covered g h ?pending"
      "list_all observed_stream ?pending" "list_all (\<lambda>p. co_histogram (ps_observations p) = []) ?pending"
      "\<forall>n \<in> fst ` set h. \<exists>p \<in> set ?pending. n \<le> co_bytes_read (ps_observations p)"
    by (auto simp: window_inv_def shared_inv_def list_all_iff case_prod_beta)
  have "length (filter (\<lambda>p. final_error sha256 body ?expected p = None) ?pending) = length ?pending"
    using assms(8) by (simp add: fields)
  then have "list_all (\<lambda>p. final_error sha256 body ?expected p = None) ?pending"
    by (metis filter_id_conv length_filter_less list_all_iff nat_neq_iff)
  then have bytes: "list_all (\<lambda>p. co_bytes_read (ps_observations p) = body) ?pending"
    using integrity_bytes by (auto simp: list_all_iff)
  let ?replay = "replay_harness_overhead fsum (bi_replays inp) (map ps_observations ?pending) c (Some g)"
  have status: "get ?replay ''status'' = JStr ''ok''" using assms(9) by (simp add: fields)
  obtain segments where over: "bg_global_histogram_complete g" "h \<noteq> []"
      "counter_total h = sum_list (map co_chunks_read (map ps_observations ?pending))"
      "histogram_bytes h = sum_list (map co_bytes_read (map ps_observations ?pending))"
    using overhead_ok [OF status h(1)] by metis
  have wf: "wf_histogram h" "int (length h) \<le> cap" using h(2,3) by (simp_all add: covered_def)
  have total: "sum_list (map co_bytes_read (map ps_observations ?pending)) = body * int (length streams)"
    using bytes by (induction streams) (auto simp: algebra_simps)
  note sorted = sorted_histogram [OF wf(1)]
  let ?sample = "finalize_stream sha256 c (bi_resolution inp) (Some g) body ?expected"
  have samples: "object_list (get batch ''samples'') = map ?sample ?pending"
    by (simp add: fields filter_map comp_def)
  have nonempty: "streams \<noteq> []" using over(3) counter_total_pos [OF wf(1) over(2)] by auto
  have chunks: "sum_list (map (\<lambda>s. int_value (get s ''chunks_read'')) (map ?sample ?pending)) = counter_total h"
    using over(3) by (simp add: stream_fields comp_def)
  have "n \<le> body" if "n \<in> fst ` set h" for n using h(6) bytes that by (auto simp: list_all_iff)
  note small = this
  have seen: "list_all (\<lambda>p. set_option (co_min_bytes (ps_observations p)) \<union> set_option (co_max_bytes (ps_observations p))
      \<subseteq> fst ` set h) ?pending"
    using h(3) over(1) by (simp add: covered_def)
  have accepted: "allE (sample_in_window (sort_key fst h) body) (map ?sample ?pending) = Inr True"
    using bytes seen h(4,5) small sample_accepted [OF h(1) refl valid(1)] by (simp add: allE_True list_all_iff)
  have parsed: "parse_histogram (histogram_json h) = Some (sort_key fst h)" by (rule parse_histogram_json [OF wf(1) over(2)])
  have replayed: "replay_matches fsum ?replay (sort_key fst h) (attribution_payload c) = Inr True"
    unfolding replay_matches_sorted [OF wf(1)]
    using replay_accepted [OF status refl h(1) wf(1) valid(5,7,8) less_imp_le [OF valid(6)]] assms(6,7)
    by (simp add: attribution_fields valid(5,7) window_clocks_def)
  have large: "\<not> list_ex (\<lambda>(n, k). body < n) (sort_key fst h)"
    using small by (force simp: list_ex_iff)
  show ?thesis
    unfolding window_distribution_matches_def Let_def samples fields(5,6,8,9) payload_fields [OF setting [THEN conjunct1]]
      attribution_fields
    using parsed large valid(3,4) wf(2) over(1,3,4) nonempty total setting
    by (simp add: window_json_def h(1) get_Cons valid(2) sorted chunks total accepted replayed bindE_ok andE_True
        Let_def fields del: map_map)
qed

text \<open>
  C36: the record of a timed window is evidence its own check accepts: under every schedule of the
  streams, when all of them succeeded and the replay ran, the check of a report finds the workload of
  the window (its rounds, its bounds, and the reason why it stopped) and its histogram (every chunk and byte
  of every stream, and a replay in bounded segments that add up to it) as configured. Clocks are monotone,
  the minimum duration is a whole number of nanoseconds, and sums of times do not overflow.\<close>

theorem window_record_verified:
  assumes "measure_async_batch sha256 fsum c client (JInt body) (JInt places) (JInt rounds) n profile_path inp = Some (Inr batch)"
    and "timed_window c n" "window_setting cfg c body rounds" "window_clocks inp" "sums_times fsum"
    and "get batch ''ok_streams'' = get batch ''requests''"
    and "get (object_value (get batch ''overhead'')) ''status'' = JStr ''ok''"
  shows "window_workload_matches batch (lifecycle_payload cfg) places = Inr True \<and>
    window_distribution_matches fsum batch (lifecycle_payload cfg) = Inr True"
proof -
  obtain g streams where run: "validate_batch c client (JInt body) (JInt places) (JInt rounds) True = Inr ()"
      "consume_load c body places rounds True (bi_started inp) (nat (int_of (ac_max_window_streams c) div places))
        (bi_rounds inp) (Some (window_budget c), []) = Some (Some g, streams)"
      "batch_json sha256 fsum c body places rounds n inp g (map snd streams) = Inr batch"
    using assms(1,2) by (auto simp: measure_async_batch_def Let_def split: sum.splits option.splits if_splits)
  show ?thesis
    using window_workload_verified [OF run(1) assms(2) run(2,3) assms(3,4)]
      window_distribution_verified [OF run(1) assms(2) run(2,3) assms(3-7)] by blast
qed

definition sample_batch :: batch_input where
  "sample_batch =
     (let counters = cpu_snapshot 1 0 (Inr (Fin 0, Fin 0)) 0
      in \<lparr>bi_before = (counters, counters), bi_started = 0,
          bi_rounds = [\<lparr>ri_starts = [0], ri_events = [(0, Opened 200 (Some ''1'') None None (Some ''HTTP/1.1'')),
            (0, Delivered ''x'' 1 2 3), (0, Exhausted), (0, CloseStarted 4), (0, Finished 5)], ri_now = 2000000000\<rparr>],
          bi_finished = 2000000000, bi_after = (counters, counters), bi_finalize_ns = 1, bi_resolution = Fin 0,
          bi_replays = (\<lambda>i key. (0, 1)), bi_profile = Inr []\<rparr>)"

lemma single_stream:
  assumes "case r of Some (Some g, [(phase, p)]) \<Rightarrow> phase = StreamDone \<and> P g p | _ \<Rightarrow> False"
  shows "\<exists>g p. r = Some (Some g, [(StreamDone, p)]) \<and> P g p"
proof -
  obtain b streams where r: "r = Some (b, streams)" using assms by (cases r) auto
  obtain g where b: "b = Some g" using assms r by (cases b) auto
  obtain s where s: "streams = [s]" using assms r b by (cases streams; cases "tl streams") (auto split: prod.splits)
  obtain phase p where "s = (phase, p)" by (cases s)
  with assms r b s show ?thesis by simp
qed

lemma fdiv_ok: "b \<noteq> 0 \<Longrightarrow> \<exists>q. fdiv x (Fin b) = Inr q"
  by (cases x) auto

lemma sample_load:
  "case consume_load window_attribution 1 1 1 True 0 (Suc 2047) (bi_rounds sample_batch) (Some (window_budget window_attribution), []) of
     Some (Some g, [(phase, p)]) \<Rightarrow>
       phase = StreamDone \<and> final_error (\<lambda>_. ''x'') 1 ''x'' p = None \<and> bg_global_histogram g = Some [(1, 1)] \<and>
       bg_global_histogram_complete g \<and> co_bytes_read (ps_observations p) = 1 \<and> co_chunks_read (ps_observations p) = 1
   | _ \<Rightarrow> False"
  by code_simp

definition sample_setting :: LifecycleConfig where
  "sample_setting = window_config\<lparr>lc_body_bytes := JInt 1, lc_rounds_per_batch := JInt 1\<rparr>"

lemma sample_record:
  obtains batch where "measure_async_batch (\<lambda>_. ''x'') (\<lambda>_. Fin 0) window_attribution ''httpx'' (JInt 1) (JInt 1) (JInt 1) 1 False
      sample_batch = Some (Inr batch)"
    "get batch ''ok_streams'' = get batch ''requests''"
    "get (object_value (get batch ''overhead'')) ''status'' = JStr ''ok''" "timed_window window_attribution 1"
proof -
  have timed: "timed_window window_attribution 1" by code_simp
  have valid: "validate_batch window_attribution ''httpx'' (JInt 1) (JInt 1) (JInt 1) True = Inr ()"
    by (simp add: validate_batch_def window_attribution_valid bindE_ok raise_if_def MAX_BODY_BYTES_def MAX_ROUNDS_def)
      (simp add: window_attribution_def)
  obtain g p where run: "consume_load window_attribution 1 1 1 True 0 (Suc 2047) (bi_rounds sample_batch)
        (Some (window_budget window_attribution), []) = Some (Some g, [(StreamDone, p)])"
      "final_error (\<lambda>_. ''x'') 1 ''x'' p = None" "bg_global_histogram g = Some [(1, 1)]"
      "bg_global_histogram_complete g" "co_bytes_read (ps_observations p) = 1" "co_chunks_read (ps_observations p) = 1"
    using single_stream [OF sample_load] by blast
  have digest: "streaming_bytes_sha256 (\<lambda>_. ''x'') k = ''x''" for k by (simp add: streaming_bytes_sha256_def)
  have verified: "verified_success_bytes (\<lambda>_. ''x'') 1 ''x'' p = 1"
    by (simp add: verified_success_bytes_def run)
  have rates: "\<exists>j. rate_json 1 (seconds (bi_finished sample_batch - bi_started sample_batch)) = Inr j"
      "\<exists>j. mb_rate_json 1 (seconds (bi_finished sample_batch - bi_started sample_batch)) = Inr j"
      "\<exists>j. cpu_delta_json (fst (bi_before sample_batch)) (fst (bi_after sample_batch)) (bi_started sample_batch)
         (bi_finished sample_batch) 1 = Inr j"
    using fdiv_ok [of 2 "Fin 1"] fdiv_ok [of 2 "round64 (1 / 1048576)"] fdiv_ok [of 2 "fadd (fsub (Fin 0) (Fin 0)) (fsub (Fin 0) (Fin 0))"]
      fdiv_ok [of 1 "fadd (fsub (Fin 0) (Fin 0)) (fsub (Fin 0) (Fin 0))"]
    by (auto simp: rate_json_def mb_rate_json_def cpu_delta_json_def quotient_json_def cpu_times_def cpu_snapshot_def
        sample_batch_def seconds_def small_floats bindE_def float_of_int_def Let_def)
  obtain batch where batch: "batch_json (\<lambda>_. ''x'') (\<lambda>_. Fin 0) window_attribution 1 1 1 1 sample_batch g [p] = Inr batch"
    using rates
    by (auto simp: batch_json_def Let_def digest run(2) verified timed sample_batch_def window_attribution_def bindE_def)
  have measured: "measure_async_batch (\<lambda>_. ''x'') (\<lambda>_. Fin 0) window_attribution ''httpx'' (JInt 1) (JInt 1) (JInt 1) 1 False
      sample_batch = Some (Inr batch)"
  proof -
    have "nat (int_of (ac_max_window_streams window_attribution) div 1) = Suc 2047" by (simp add: window_attribution_def)
    moreover have "ac_profiler window_attribution \<noteq> JStr ''cprofile''" "bi_started sample_batch = 0"
      by (simp_all add: window_attribution_def sample_batch_def Let_def)
    ultimately show ?thesis
      using timed valid run(1) batch by (simp add: measure_async_batch_def Let_def del: consume_load.simps)
  qed
  note fields = batch_fields [OF batch timed]
  have "replay_segments 268435456 1000000 MAX_REPLAY_SEGMENTS [] 0 0 [(1, 1)] \<noteq> None" by code_simp
  then obtain segments where "replay_segments 268435456 1000000 MAX_REPLAY_SEGMENTS [] 0 0 [(1, 1)] = Some segments" by blast
  then have "get (replay_harness_overhead (\<lambda>_. Fin 0) (bi_replays sample_batch) [ps_observations p] window_attribution (Some g))
      ''status'' = JStr ''ok''"
    by (simp add: replay_harness_overhead_def global_histogram_def replay_failure_reason_def run window_attribution_def
        overhead_result_def dict_update_def replayed_segments_def replay_totals_def segment_times_def get_Cons Let_def
        del: replay_segments.simps)
  then have "get (object_value (get batch ''overhead'')) ''status'' = JStr ''ok''" unfolding fields by simp
  moreover have "get batch ''ok_streams'' = get batch ''requests''" unfolding fields by (simp add: digest run(2))
  ultimately show thesis using measured timed by (intro that)
qed

lemma window_record_verified_witness:
  "\<exists>batch. measure_async_batch (\<lambda>_. ''x'') (\<lambda>_. Fin 0) window_attribution ''httpx'' (JInt 1) (JInt 1) (JInt 1) 1 False
      sample_batch = Some (Inr batch) \<and>
    window_workload_matches batch (lifecycle_payload sample_setting) 1 = Inr True \<and>
    window_distribution_matches (\<lambda>_. Fin 0) batch (lifecycle_payload sample_setting) = Inr True"
proof -
  obtain batch where batch: "measure_async_batch (\<lambda>_. ''x'') (\<lambda>_. Fin 0) window_attribution ''httpx'' (JInt 1) (JInt 1)
        (JInt 1) 1 False sample_batch = Some (Inr batch)"
      "get batch ''ok_streams'' = get batch ''requests''"
      "get (object_value (get batch ''overhead'')) ''status'' = JStr ''ok''" "timed_window window_attribution 1"
    by (rule sample_record)
  have "window_setting sample_setting window_attribution 1 1"
    by (simp add: window_setting_def sample_setting_def window_config_def whole_nanoseconds_def window_attribution_def)
  moreover have "window_clocks sample_batch" by (simp add: window_clocks_def sample_batch_def clock_ok_def Let_def)
  moreover have "sums_times (\<lambda>_. Fin 0)" by (simp add: sums_times_def)
  ultimately show ?thesis using batch window_record_verified [OF batch(1,4) _ _ _ batch(2,3)] by blast
qed

end
