(* ===== verification/Lifecycle_Aggregation.thy ===== *)
theory Lifecycle_Aggregation
  imports Window_Evidence Aggregation Validity_Lifecycle
begin

text \<open>
  streaming/lifecycle_aggregation.py: the rows of the lifecycle profile, one for each combination of mode,
  client, case and concurrency, from the JSON results of its fresh repetitions. The values are read with
  \<^verbatim>\<open>number\<close>, which raises on an integer beyond the range of a float, so each step can raise. The sum of
  floats of the platform is the parameter \<open>fsum\<close>.
\<close>

subsection \<open>Statistics of optional values\<close>

definition present :: "pyfloat option list \<Rightarrow> pyfloat list" where
  "present values = List.map_filter id values"

definition maximum_optional :: "pyfloat option list \<Rightarrow> pyfloat option" where
  "maximum_optional values =
     (case present values of [] \<Rightarrow> None | x # xs \<Rightarrow> Some (foldl (\<lambda>m y. if flt m y then y else m) x xs))"

definition minimum_optional :: "pyfloat option list \<Rightarrow> pyfloat option" where
  "minimum_optional values =
     (case present values of [] \<Rightarrow> None | x # xs \<Rightarrow> Some (foldl (\<lambda>m y. if flt y m then y else m) x xs))"

definition quantile_index :: "rat \<Rightarrow> nat \<Rightarrow> nat" where
  "quantile_index fraction n =
     (case fmul (round64 fraction) (Fin (of_nat (n - 1))) of Fin x \<Rightarrow> nat (round_half_even x) | _ \<Rightarrow> 0)"

definition quantile :: "json list \<Rightarrow> rat \<Rightarrow> pyfloat option result" where
  "quantile values fraction =
     bindE (mapE number values) (\<lambda>xs.
       let ordered = sort (present xs)
       in Inr (if ordered = [] then None else Some (ordered ! quantile_index fraction (length ordered))))"

definition cv_optional :: "pyfloat list \<Rightarrow> pyfloat option result" where
  "cv_optional values =
     (if int (length values) < LIFECYCLE_MIN_VARIATION_REPETITIONS then Inr None
      else if list_ex (\<lambda>v. \<not> is_finite v) values
      then Inl (AttributeError ([CHR 0x27] @ ''float'' @ [CHR 0x27] @ '' object has no attribute '' @ [CHR 0x27] @ ''numerator'' @ [CHR 0x27]))
      else
        (let xs = List.map_filter finite_value values; mean = round64 (exact_mean xs)
         in if mean = Fin 0 then Inr None
            else bindE (fdiv (stdev xs) mean) (\<lambda>x. Inr (Some (fmul x (Fin 100))))))"

text \<open>The same, of JSON values and as JSON.\<close>

definition median_json :: "json list \<Rightarrow> json result" where
  "median_json values = bindE (mapE number values) (\<lambda>xs. bindE (optional_median xs) (\<lambda>m. Inr (optional_float m)))"

definition maximum_json :: "json list \<Rightarrow> json result" where
  "maximum_json values = bindE (mapE number values) (\<lambda>xs. Inr (optional_float (maximum_optional xs)))"

definition minimum_json :: "json list \<Rightarrow> json result" where
  "minimum_json values = bindE (mapE number values) (\<lambda>xs. Inr (optional_float (minimum_optional xs)))"

definition quantile_json :: "json list \<Rightarrow> rat \<Rightarrow> json result" where
  "quantile_json values fraction = bindE (quantile values fraction) (\<lambda>q. Inr (optional_float q))"

text \<open>\<^verbatim>\<open>sorted({...})\<close> of strings.\<close>

definition sorted_names :: "string list \<Rightarrow> json" where
  "sorted_names names = JList (map JStr (sort (remdups names)))"

subsection \<open>A repetition\<close>

definition report_of :: "obj \<Rightarrow> obj" where
  "report_of result = object_value (get result ''client_report'')"

definition child_batches :: "obj \<Rightarrow> obj list" where
  "child_batches child = object_list (get child ''batches'')"

definition child_samples :: "obj \<Rightarrow> obj list" where
  "child_samples child = concat (map (\<lambda>batch. object_list (get batch ''samples'')) (child_batches child))"

definition repeat_duration :: "(pyfloat list \<Rightarrow> pyfloat) \<Rightarrow> obj \<Rightarrow> pyfloat option result" where
  "repeat_duration fsum child =
     bindE (mapE (\<lambda>batch. number (get batch ''duration_s'')) (child_batches child)) (\<lambda>durations.
       Inr (if durations = [] \<or> None \<in> set durations then None else Some (fsum (present durations))))"

definition ratio :: "int \<Rightarrow> pyfloat \<Rightarrow> pyfloat result" where
  "ratio n duration = bindE (float_of_int n) (\<lambda>x. fdiv x duration)"

definition repeat_rate :: "(pyfloat list \<Rightarrow> pyfloat) \<Rightarrow> obj \<Rightarrow> pyfloat option result" where
  "repeat_rate fsum child =
     bindE (repeat_duration fsum child) (\<lambda>duration.
       case duration of
         None \<Rightarrow> Inr None
       | Some d \<Rightarrow>
           if fle d (Fin 0) then Inr None
           else bindE (ratio (sum_list (map (\<lambda>batch. int_value (get batch ''ok_streams'')) (child_batches child))) d)
             (\<lambda>rate. Inr (Some rate)))"

definition repeat_latency_median :: "obj list \<Rightarrow> rat \<Rightarrow> json result" where
  "repeat_latency_median children fraction =
     bindE (mapE (\<lambda>child. quantile (map (\<lambda>s. get s ''duration_ms'') (child_samples child)) fraction) children) (\<lambda>xs.
       bindE (optional_median xs) (\<lambda>m. Inr (optional_float m)))"

text \<open>A repetition succeeded when its worker says so and its coordinator saw no failure.\<close>

definition repeat_succeeded :: "obj \<Rightarrow> bool" where
  "repeat_succeeded result \<longleftrightarrow> get (report_of result) ''status'' = JStr ''ok'' \<and> \<not> truthy (get result ''failure'')"

definition repeat_failed :: "obj \<Rightarrow> bool" where
  "repeat_failed result \<longleftrightarrow> truthy (get result ''failure'') \<or> get (report_of result) ''status'' \<noteq> JStr ''ok''"

subsection \<open>Resources\<close>

definition observed_or :: "string \<Rightarrow> json \<Rightarrow> string" where
  "observed_or missing v = (if truthy v then py_str v else missing)"

definition metric_unavailable :: "obj list \<Rightarrow> string \<Rightarrow> json result" where
  "metric_unavailable items metric =
     bindE (mapE (\<lambda>item. bindE (number (get item metric)) (\<lambda>x. Inr (item, x))) items) (\<lambda>numbers.
       Inr (sorted_names (map (\<lambda>(item, x).
           observed_or ''No observation for this metric.'' (get (object_value (get item ''unavailable'')) metric))
         (filter (\<lambda>(item, x). x = None) numbers))))"

definition aggregate_unavailability :: "obj list \<Rightarrow> string list \<Rightarrow> json result" where
  "aggregate_unavailability items metrics =
     bindE (mapE (\<lambda>metric. bindE (metric_unavailable items metric) (\<lambda>v. Inr (metric, v))) metrics) (\<lambda>entries.
       Inr (JObj entries))"

definition RESOURCE_METRICS :: "string list" where
  "RESOURCE_METRICS = [''rss_bytes'', ''threads'', ''fds'']"

definition sampled_peak :: "string \<Rightarrow> obj \<Rightarrow> obj" where
  "sampled_peak role result =
     object_value (get (object_value (get (object_value (get result ''resources'')) ''sampled_peaks'')) role)"

text \<open>The reasons one repetition gives for a metric its peak lacks.\<close>

definition missing_peak_reasons :: "string \<Rightarrow> string \<Rightarrow> obj \<Rightarrow> string list result" where
  "missing_peak_reasons role metric result =
     bindE (number (get (sampled_peak role result) metric)) (\<lambda>peak.
       if peak \<noteq> None then Inr []
       else
         (let samples = object_list (get (object_value (get result ''resources'')) ''samples'');
              given = filter (\<lambda>v. v \<noteq> JNull) (map (\<lambda>sample. get (object_value (get sample ''unavailable'')) metric)
                (filter (\<lambda>sample. get sample ''role'' = JStr role) samples))
          in Inr (if given = [] then [''No available parent-owned sample for this metric in this repetition.'']
                  else map py_str given)))"

definition resource_unavailable_reasons :: "obj list \<Rightarrow> string \<Rightarrow> string \<Rightarrow> json result" where
  "resource_unavailable_reasons results role metric =
     bindE (mapE (missing_peak_reasons role metric) results) (\<lambda>given. Inr (sorted_names (concat given)))"

definition aggregate_resources :: "obj list \<Rightarrow> obj list \<Rightarrow> string \<Rightarrow> json result" where
  "aggregate_resources results children role =
     (let peaks = map (sampled_peak role) results;
          lifetime = (if role = ''client''
            then concat (map (\<lambda>child. map (\<lambda>phase. get phase ''lifetime_high_water_rss_bytes'') (object_list (get child ''phases''))) children)
            else [])
      in bindE (maximum_json (map (\<lambda>peak. get peak ''rss_bytes'') peaks)) (\<lambda>rss.
         bindE (maximum_json (map (\<lambda>peak. get peak ''threads'') peaks)) (\<lambda>threads.
         bindE (maximum_json (map (\<lambda>peak. get peak ''fds'') peaks)) (\<lambda>fds.
         bindE (maximum_json lifetime) (\<lambda>high_water.
         bindE (mapE (\<lambda>metric. bindE (resource_unavailable_reasons results role metric) (\<lambda>v. Inr (metric, v))) RESOURCE_METRICS) (\<lambda>unavailable.
           Inr (JObj
             [(''scope'', JStr ''one PID per fresh repetition''), (''rss_unit'', JStr ''bytes''),
              (''sampled_peak_rss_bytes_max'', rss), (''sampled_peak_threads_max'', threads),
              (''sampled_peak_fds_max'', fds), (''lifetime_high_water_rss_bytes_max'', high_water),
              (''lifetime_high_water_unavailable_reason'',
                if high_water \<noteq> JNull then JNull else JStr ''No worker lifetime high-water observation for this role.''),
              (''unavailable'', JObj unavailable)])))))))"

subsection \<open>Phases\<close>

definition phase_cpu :: "obj list \<Rightarrow> ((string \<times> string \<times> string) \<times> obj) list" where
  "phase_cpu results =
     concat (map (\<lambda>result. map (\<lambda>delta.
         ((py_str (get delta ''role''), py_str (get delta ''from_phase''), py_str (get delta ''to_phase'')), delta))
       (object_list (get (object_value (get result ''resources'')) ''cpu_phase_deltas''))) results)"

definition phase_resources :: "obj list \<Rightarrow> ((string \<times> string) \<times> obj) list" where
  "phase_resources results =
     concat (map (\<lambda>result. concat (map (\<lambda>phase.
         map (\<lambda>role. ((role, py_str (get phase ''phase'')), object_value (get phase role)))
           (filter (\<lambda>role. object_value (get phase role) \<noteq> []) [''client'', ''server'']))
       (object_list (get (object_value (get result ''resources'')) ''phases'')))) results)"

text \<open>The items of each key, in the order of the keys.\<close>

definition grouped_by_key :: "('k :: linorder \<times> 'v) list \<Rightarrow> ('k \<times> 'v list) list" where
  "grouped_by_key pairs = map (\<lambda>(k, items). (k, map snd items)) (sort_key fst (group_by fst pairs))"

definition cpu_phase_json :: "(string \<times> string \<times> string) \<times> obj list \<Rightarrow> json result" where
  "cpu_phase_json phase =
     (case phase of ((role, start, finish), items) \<Rightarrow>
        bindE (median_json (map (\<lambda>item. get item ''user_s'') items)) (\<lambda>user.
        bindE (median_json (map (\<lambda>item. get item ''system_s'') items)) (\<lambda>system.
        bindE (aggregate_unavailability items [''user_s'', ''system_s'']) (\<lambda>unavailable.
          Inr (JObj [(''role'', JStr role), (''from_phase'', JStr start), (''to_phase'', JStr finish),
            (''user_s_median'', user), (''system_s_median'', system), (''unavailable'', unavailable)])))))"

definition phase_resource_json :: "(string \<times> string) \<times> obj list \<Rightarrow> json result" where
  "phase_resource_json phase =
     (case phase of ((role, name), items) \<Rightarrow>
        bindE (mapE (\<lambda>metric. bindE (median_json (map (\<lambda>item. get item metric) items)) (\<lambda>m. Inr (metric @ ''_median'', m)))
          RESOURCE_METRICS) (\<lambda>medians.
        bindE (aggregate_unavailability items RESOURCE_METRICS) (\<lambda>unavailable.
          Inr (JObj ([(''role'', JStr role), (''phase'', JStr name)] @ medians @ [(''unavailable'', unavailable)])))))"

subsection \<open>Rows\<close>

definition MEASUREMENT_SCOPE :: string where "MEASUREMENT_SCOPE = ''separate-client-server-pids-v1''"

type_synonym lifecycle_key = "string \<times> string \<times> string \<times> int"

definition case_of :: "obj \<Rightarrow> obj" where "case_of result = object_value (get result ''case'')"

definition lifecycle_key :: "obj \<Rightarrow> lifecycle_key" where
  "lifecycle_key result =
     (let k = case_of result
      in (py_str (get_default k ''mode'' (JStr [])), py_str (get_default k ''client'' (JStr [])),
          py_str (get_default k ''case'' (JStr [])), int_value (get k ''concurrency'')))"

text \<open>The aborts a held tail expected, where the control succeeded.\<close>

definition held_aborts :: "obj \<Rightarrow> int" where
  "held_aborts control =
     (let held = object_value (get control ''held_tail'')
      in if get held ''status'' = JStr ''ok'' then int_value (get held ''expected_aborts'') else 0)"

definition error_count :: "obj \<Rightarrow> int" where
  "error_count d = int (length (object_list (get d ''errors'')))"

text \<open>The statistics of the streams and of the repetitions.\<close>

definition case_timings :: "(pyfloat list \<Rightarrow> pyfloat) \<Rightarrow> obj list \<Rightarrow> obj result" where
  "case_timings fsum children =
     (let samples = concat (map child_samples children); controls = map (\<lambda>child. object_value (get child ''controls'')) children
      in bindE (mapE (repeat_rate fsum) children) (\<lambda>rates.
         bindE (mapE (repeat_duration fsum) children) (\<lambda>durations.
         bindE (optional_median rates) (\<lambda>rate_median.
         bindE (cv_optional (present rates)) (\<lambda>rate_cv.
         bindE (cv_optional (present durations)) (\<lambda>duration_cv.
         bindE (repeat_latency_median children (1 / 2)) (\<lambda>p50.
         bindE (repeat_latency_median children (95 / 100)) (\<lambda>p95.
         bindE (repeat_latency_median children (99 / 100)) (\<lambda>p99.
         bindE (quantile_json (map (\<lambda>s. get s ''first_item_ms'') samples) (95 / 100)) (\<lambda>first_item.
         bindE (quantile_json (map (\<lambda>s. get s ''close_return_ms'') samples) (95 / 100)) (\<lambda>close_return.
         bindE (minimum_json (map (\<lambda>s. get s ''first_chunk_bytes'') samples)) (\<lambda>chunk_min.
         bindE (maximum_json (map (\<lambda>s. get s ''first_chunk_bytes'') samples)) (\<lambda>chunk_max.
         bindE (quantile_json (concat (map (\<lambda>control. list_value (get (object_value (get control ''recovery'')) ''latencies_ms'')) controls)) (95 / 100)) (\<lambda>recovery.
         bindE (median_json (map (\<lambda>child. get child ''client_construction_ms'') children)) (\<lambda>construction.
         bindE (median_json (map (\<lambda>child. get child ''client_close_ms'') children)) (\<lambda>close.
           Inr [(''ok_streams_s_median'', optional_float rate_median), (''streams_s_cv_percent'', optional_float rate_cv),
             (''duration_s_cv_percent'', optional_float duration_cv),
             (''variation_sample_count'', JInt (int (length (present rates)))),
             (''variation_limit_percent'', JFloat LIFECYCLE_VARIATION_LIMIT_PERCENT),
             (''p50_ms_median'', p50), (''p95_ms_median'', p95), (''p99_ms_median'', p99),
             (''first_item_p95_ms'', first_item), (''close_return_p95_ms'', close_return),
             (''first_chunk_bytes_min'', chunk_min), (''first_chunk_bytes_max'', chunk_max), (''recovery_p95_ms'', recovery),
             (''client_construction_ms_median'', construction), (''client_close_ms_median'', close)]))))))))))))))))"

definition case_counts :: "lifecycle_key \<Rightarrow> obj list \<Rightarrow> obj" where
  "case_counts key results =
     (case key of (mode, client, case_name, concurrency) \<Rightarrow>
        let children = map report_of results; batches = concat (map child_batches children);
            configs = map (\<lambda>child. get child ''config'') children
        in [(''profile'', JStr ''lifecycle''), (''measurement_scope'', JStr MEASUREMENT_SCOPE),
            (''configuration'', JObj (if children = [] then [] else object_value (hd configs))),
            (''configurations_match'', JBool (children \<noteq> [] \<and> list_all (\<lambda>config. py_eq config (hd configs)) configs)),
            (''mode'', JStr mode), (''client'', JStr client), (''case'', JStr case_name), (''read'', JStr ''bytes''),
            (''consume'', JStr (if case_name = ''stream-1m'' then ''all'' else ''first-chunk'')),
            (''concurrency'', JInt concurrency), (''request_limit'', JInt concurrency),
            (''repeats'', JInt (int (length results))),
            (''successful_repeats'', JInt (int (length (filter repeat_succeeded results)))),
            (''batch_count'', JInt (int (length batches))),
            (''ok_streams_total'', JInt (sum_list (map (\<lambda>batch. int_value (get batch ''ok_streams'')) batches))),
            (''bytes_read_total'', JInt (sum_list (map (\<lambda>batch. int_value (get batch ''bytes_read_total'')) batches))),
            (''expected_aborts_total'', JInt (sum_list (map (\<lambda>child. held_aborts (object_value (get child ''controls''))) children))),
            (''errors_total'', JInt (sum_list (map error_count children))),
            (''warmup_errors_total'', JInt (sum_list (map (\<lambda>child. error_count (object_value (get child ''warmup''))) children))),
            (''failed_cases'', JInt (int (length (filter repeat_failed results))))])"

definition case_resources :: "obj list \<Rightarrow> obj result" where
  "case_resources results =
     (let children = map report_of results
      in bindE (mapE (\<lambda>role. bindE (aggregate_resources results children role) (\<lambda>v. Inr (role, v))) [''client'', ''server'']) (\<lambda>resources.
         bindE (mapE cpu_phase_json (grouped_by_key (phase_cpu results))) (\<lambda>cpu.
         bindE (mapE phase_resource_json (grouped_by_key (phase_resources results))) (\<lambda>phases.
           Inr [(''resources'', JObj resources), (''cpu_phase_deltas'', JList cpu), (''phase_resources'', JList phases)]))))"

definition aggregate_case :: "(pyfloat list \<Rightarrow> pyfloat) \<Rightarrow> lifecycle_key \<times> obj list \<Rightarrow> obj result" where
  "aggregate_case fsum grouped =
     (case grouped of (key, results) \<Rightarrow>
        bindE (case_timings fsum (map report_of results)) (\<lambda>timings.
        bindE (case_resources results) (\<lambda>resources.
          Inr (case_counts key results @ timings @ resources))))"

definition aggregate_lifecycle_results :: "(pyfloat list \<Rightarrow> pyfloat) \<Rightarrow> obj list \<Rightarrow> obj list result" where
  "aggregate_lifecycle_results fsum results =
     mapE (aggregate_case fsum) (sort_key (\<lambda>g. fst g) (group_by lifecycle_key results))"

subsection \<open>Diagnostics of a repetition\<close>

definition pid_mismatch :: "obj \<Rightarrow> obj \<Rightarrow> bool" where
  "pid_mismatch result sample =
     (case get sample ''role'' of
        JStr role \<Rightarrow> (role \<noteq> ''client'' \<and> role \<noteq> ''server'') \<or> \<not> py_eq (get sample ''pid'') (get result (role @ ''_pid''))
      | _ \<Rightarrow> True)"

definition pid_identity_valid :: "obj \<Rightarrow> bool" where
  "pid_identity_valid result =
     (let pids = map (get result) [''parent_pid'', ''client_pid'', ''server_pid'']
      in list_all (\<lambda>pid. type_is_int pid \<and> 0 < int_value pid) pids \<and> distinct pids \<and>
         py_eq (get (report_of result) ''worker_pid'') (get result ''client_pid'') \<and>
         \<not> list_ex (pid_mismatch result) (object_list (get (object_value (get result ''resources'')) ''samples'')))"

text \<open>\<^verbatim>\<open>{sample.get("role") for sample in samples} == {"client", "server"}\<close>\<close>

definition roles_present :: "obj list \<Rightarrow> bool result" where
  "roles_present samples =
     (let roles = map (\<lambda>sample. get sample ''role'') samples
      in if list_ex (\<lambda>role. \<not> hashable role) roles then Inl (TypeError ''unhashable type'')
         else Inr (set roles = {JStr ''client'', JStr ''server''}))"

definition child_diagnostic :: "obj \<Rightarrow> obj result" where
  "child_diagnostic result =
     (let child = report_of result; metadata = object_value (get child ''metadata'');
          resources = object_value (get result ''resources'')
      in bindE (roles_present (object_list (get resources ''samples''))) (\<lambda>roles.
           Inr (dict_update (case_of result)
             [(''scenario'', get (case_of result) ''case''), (''returncode'', get result ''returncode''),
              (''server_returncode'', get result ''server_returncode''), (''report_path'', get result ''report_path''),
              (''failure'', get result ''failure''), (''failures'', get_default result ''failures'' (JList [])),
              (''parent_pid'', get result ''parent_pid''), (''client_pid'', get result ''client_pid''),
              (''server_pid'', get result ''server_pid''), (''pid_identity_valid'', JBool (pid_identity_valid result)),
              (''worker_status'', get child ''status''), (''controls'', get child ''controls''),
              (''errors'', get child ''errors''), (''resources_truncated'', get resources ''truncated''),
              (''resource_samples_present'', JBool roles),
              (''research_provenance'', get metadata ''research_provenance''),
              (''package_sources'', get metadata ''package_sources'')])))"

subsection \<open>Every repetition is in one row\<close>

definition lifecycle_row_key :: "obj \<Rightarrow> lifecycle_key" where
  "lifecycle_row_key row =
     (py_str (get row ''mode''), py_str (get row ''client''), py_str (get row ''case''), int_value (get row ''concurrency''))"

lemma case_row_fields:
  assumes "aggregate_case fsum (key, items) = Inr row"
  shows "lifecycle_row_key row = key" "get row ''repeats'' = JInt (int (length items))"
    "get row ''successful_repeats'' = JInt (int (length (filter repeat_succeeded items)))"
    "get row ''failed_cases'' = JInt (int (length (filter repeat_failed items)))"
proof -
  obtain mode client case_name concurrency where key: "key = (mode, client, case_name, concurrency)" by (cases key)
  obtain rest where row: "row = case_counts key items @ rest"
    using assms by (auto simp: aggregate_case_def bindE_ok)
  show "lifecycle_row_key row = key" "get row ''repeats'' = JInt (int (length items))"
    "get row ''successful_repeats'' = JInt (int (length (filter repeat_succeeded items)))"
    "get row ''failed_cases'' = JInt (int (length (filter repeat_failed items)))"
    by (simp_all add: row key case_counts_def lifecycle_row_key_def Let_def get_def)
qed

interpretation lifecycle_rows: aggregation lifecycle_key "\<lambda>k. k" "aggregate_case fsum" lifecycle_row_key
  "\<lambda>row. int_value (get row ''repeats'')"
  by unfold_locales (simp_all add: case_row_fields)

lemma repeats_split:
  "int (length (filter repeat_succeeded results)) + int (length (filter repeat_failed results)) = int (length results)"
proof -
  have "filter repeat_failed results = filter (\<lambda>r. \<not> repeat_succeeded r) results"
    by (intro filter_cong) (auto simp: repeat_failed_def repeat_succeeded_def)
  then show ?thesis using sum_length_filter_compl [of repeat_succeeded results] by simp
qed

lemma sum_over_keys:
  assumes "distinct ks" "key ` set xs \<subseteq> set ks"
  shows "(\<Sum>k\<leftarrow>ks. int (length (filter (\<lambda>x. key x = k) xs))) = int (length xs)"
  using assms(2)
proof (induction xs)
  case (Cons x xs)
  have "(\<Sum>k\<leftarrow>ks. int (length (filter (\<lambda>y. key y = k) (x # xs)))) =
      (\<Sum>k\<leftarrow>ks. (if key x = k then 1 else 0) + int (length (filter (\<lambda>y. key y = k) xs)))"
    by (rule arg_cong [where f = sum_list]) simp
  also have "\<dots> = (\<Sum>k\<leftarrow>ks. if key x = k then 1 else 0) + int (length xs)"
    using Cons by (simp add: sum_list_addf)
  also have "(\<Sum>k\<leftarrow>ks. if key x = k then 1 else 0) = (1 :: int)"
    using assms(1) Cons.prems by (simp add: sum_list_distinct_conv_sum_set)
  finally show ?case by simp
qed (simp add: sum_list_triv)

lemma lifecycle_accounted:
  assumes "aggregate_lifecycle_results fsum results = Inr rows"
  shows "accounted lifecycle_key (\<lambda>k. k) lifecycle_row_key (\<lambda>row. int_value (get row ''repeats'')) results rows"
    "list_all (\<lambda>row. int_value (get row ''successful_repeats'') + int_value (get row ''failed_cases'') =
       int_value (get row ''repeats'')) rows"
    "(\<Sum>row\<leftarrow>rows. int_value (get row ''failed_cases'')) = int (length (filter repeat_failed results))"
proof -
  note built = assms [unfolded aggregate_lifecycle_results_def]
  show acc: "accounted lifecycle_key (\<lambda>k. k) lifecycle_row_key (\<lambda>row. int_value (get row ''repeats'')) results rows"
    by (rule lifecycle_rows.rows_accounted [OF built])
  have row: "int_value (get row ''successful_repeats'') + int_value (get row ''failed_cases'') = int_value (get row ''repeats'') \<and>
      int_value (get row ''failed_cases'') =
        int (length (filter (\<lambda>r. lifecycle_key r = lifecycle_row_key row) (filter repeat_failed results)))"
    if member: "row \<in> set rows" for row
  proof -
    obtain k items where g: "(k, items) \<in> set (group_by lifecycle_key results)" "aggregate_case fsum (k, items) = Inr row"
      using mapE_image [OF built member] by auto
    note fields = case_row_fields [OF g(2)]
    have "items = filter (\<lambda>r. lifecycle_key r = k) results" using group_by_member(1) [OF g(1)] by simp
    then have "filter repeat_failed items = filter (\<lambda>r. lifecycle_key r = k) (filter repeat_failed results)"
      by (simp add: conj_commute)
    then show ?thesis using repeats_split [of items] by (simp add: fields)
  qed
  then show "list_all (\<lambda>row. int_value (get row ''successful_repeats'') + int_value (get row ''failed_cases'') =
      int_value (get row ''repeats'')) rows" unfolding list_all_iff using row by blast
  have "(\<Sum>row\<leftarrow>rows. int_value (get row ''failed_cases'')) =
      (\<Sum>k\<leftarrow>map lifecycle_row_key rows. int (length (filter (\<lambda>r. lifecycle_key r = k) (filter repeat_failed results))))"
    unfolding map_map comp_def using row by (intro arg_cong [where f = sum_list] map_cong) simp_all
  also have "\<dots> = int (length (filter repeat_failed results))"
    using acc by (intro sum_over_keys) (auto simp: accounted_def)
  finally show "(\<Sum>row\<leftarrow>rows. int_value (get row ''failed_cases'')) = int (length (filter repeat_failed results))" .
qed

end
