(* ===== verification/Lifecycle_Reports.thy ===== *)
theory Lifecycle_Reports
  imports Lifecycle_Aggregation Config_Payload Isolation_Reports
begin

text \<open>
  streaming/lifecycle_reports.py: the published report of the lifecycle profile, from the results of its
  cases. What the process finds out about itself (time, platform, packages, sources) is an input; writing
  and rendering the payload are left out.
\<close>

record profile_environment =
  pe_timestamp :: string
  pe_python :: string
  pe_platform :: string
  pe_package_versions :: obj
  pe_package_sources :: json
  pe_harness_source :: json
  pe_provenance :: "(json \<times> json) option"

text \<open>\<^verbatim>\<open>[object_value(result.get("case")) for result in results] == [asdict(case) for case in plan]\<close>\<close>

definition plan_matches :: "obj list \<Rightarrow> LifecycleCase list \<Rightarrow> bool" where
  "plan_matches results plan =
     py_eq (JList (map (\<lambda>r. JObj (case_of r)) results)) (JList (map (\<lambda>k. JObj (case_payload k)) plan))"

definition sampling_json :: "LifecycleConfig \<Rightarrow> json" where
  "sampling_json config =
     JObj [(''owner'', JStr ''parent process outside client event loop''),
       (''interval_s'', lc_sample_interval_s config), (''maximum_samples_per_case'', lc_max_samples config),
       (''limitations'', JStr ''Sampled peaks can miss shorter peaks; probes have nonzero overhead. Stable RSS does not prove bounded memory or absence of leaks.'')]"

definition RESOURCE_UNITS :: json where
  "RESOURCE_UNITS =
     JObj [(''rss'', JStr ''bytes''), (''cpu_user'', JStr ''seconds''), (''cpu_system'', JStr ''seconds''),
       (''monotonic'', JStr ''nanoseconds''), (''fds'', JStr ''count''), (''threads'', JStr ''count'')]"

definition lifecycle_record :: "obj list \<Rightarrow> LifecycleCase list \<Rightarrow> obj list \<Rightarrow> obj" where
  "lifecycle_record results plan children =
     [(''expected_cases'', JInt (int (length plan))), (''cases'', JList (map JObj children)),
      (''plan_matches'', JBool (plan_matches results plan))]"

definition lifecycle_metadata ::
  "profile_environment \<Rightarrow> BenchmarkArgs \<Rightarrow> LifecycleConfig \<Rightarrow> LifecycleCase list \<Rightarrow> timing_scope \<Rightarrow> obj list \<Rightarrow> obj list \<Rightarrow> obj"
where
  "lifecycle_metadata env args config plan scope results children =
     [(''timestamp'', JStr (pe_timestamp env)), (''python'', JStr (pe_python env)), (''platform'', JStr (pe_platform env)),
      (''suite'', JStr ''response-streaming''), (''profile'', JStr ''lifecycle''),
      (''timing_scope'', JStr (scope_value scope)), (''measurement_scope'', JStr MEASUREMENT_SCOPE),
      (''resource_units'', RESOURCE_UNITS), (''sampling'', sampling_json config),
      (''config'', JObj (lifecycle_payload config)), (''args'', JObj (args_json args)),
      (''plan'', JList (map (\<lambda>k. JObj (case_payload k)) plan)), (''package_versions'', JObj (pe_package_versions env)),
      (''package_sources'', pe_package_sources env), (''harness_source'', pe_harness_source env),
      (''isolation'', JObj [(''mode'', JStr ''per-lifecycle-case''), (''children'', JList (map JObj children))]),
      (''lifecycle'', JObj (lifecycle_record results plan children)),
      (''comparison_policy'', JStr ''Early close and EOF deliver different byte counts. Throughput is comparable only within an identical lifecycle case and configuration; no competitive ranking is produced.'')]"

definition write_lifecycle_reports ::
  "(pyfloat list \<Rightarrow> pyfloat) \<Rightarrow> (string \<Rightarrow> string) \<Rightarrow> profile_environment \<Rightarrow> obj list \<Rightarrow> BenchmarkArgs \<Rightarrow>
   LifecycleConfig \<Rightarrow> LifecycleCase list \<Rightarrow> obj result"
where
  "write_lifecycle_reports fsum sha256 env results args config plan =
     bindE (aggregate_lifecycle_results fsum results) (\<lambda>aggregate.
     bindE (mapE child_diagnostic results) (\<lambda>children.
     bindE (current_timing_scope ''response-streaming'' ''lifecycle'') (\<lambda>scope.
     bindE (metadata_with_validity sha256 (pe_provenance env)
         (lifecycle_metadata env args config plan scope results children) aggregate) (\<lambda>metadata.
       Inr [(''metadata'', JObj metadata), (''aggregate'', JList (map JObj aggregate)),
         (''runs'', JList (map JObj results))]))))"

subsection \<open>A case without a reason succeeded\<close>

lemma diagnostic_fields:
  assumes "child_diagnostic result = Inr child"
  shows "get child ''failure'' = get result ''failure''" "get child ''worker_status'' = get (report_of result) ''status''"
    "get child ''pid_identity_valid'' = JBool (pid_identity_valid result)"
    "get child ''client_pid'' = get result ''client_pid''" "get child ''server_pid'' = get result ''server_pid''"
    "get child ''controls'' = get (report_of result) ''controls''"
proof -
  obtain roles where "child = dict_update (case_of result)
      [(''scenario'', get (case_of result) ''case''), (''returncode'', get result ''returncode''),
        (''server_returncode'', get result ''server_returncode''), (''report_path'', get result ''report_path''),
        (''failure'', get result ''failure''), (''failures'', get_default result ''failures'' (JList [])),
        (''parent_pid'', get result ''parent_pid''), (''client_pid'', get result ''client_pid''),
        (''server_pid'', get result ''server_pid''), (''pid_identity_valid'', JBool (pid_identity_valid result)),
        (''worker_status'', get (report_of result) ''status''), (''controls'', get (report_of result) ''controls''),
        (''errors'', get (report_of result) ''errors''),
        (''resources_truncated'', get (object_value (get result ''resources'')) ''truncated''),
        (''resource_samples_present'', JBool roles),
        (''research_provenance'', get (object_value (get (report_of result) ''metadata'')) ''research_provenance''),
        (''package_sources'', get (object_value (get (report_of result) ''metadata'')) ''package_sources'')]"
    using assms by (auto simp: child_diagnostic_def bindE_ok Let_def)
  then show "get child ''failure'' = get result ''failure''" "get child ''worker_status'' = get (report_of result) ''status''"
    "get child ''pid_identity_valid'' = JBool (pid_identity_valid result)"
    "get child ''client_pid'' = get result ''client_pid''" "get child ''server_pid'' = get result ''server_pid''"
    "get child ''controls'' = get (report_of result) ''controls''"
    by (simp_all add: dict_update_def)
qed

text \<open>A case has no reason to be invalid only if its repetition succeeded and its processes are its own.\<close>

lemma case_reasons_none:
  assumes "case_reasons child = Inr reasons" "Invalid \<notin> vr_status ` set reasons" "child_diagnostic result = Inr child"
  shows "repeat_succeeded result \<and> pid_identity_valid result"
proof -
  note fields = diagnostic_fields [OF assms(3)]
  let ?failed = "if truthy (get child ''failure'') \<or> truthy (get child ''failures'') \<or>
        get child ''worker_status'' \<noteq> JStr ''ok'' \<or> truthy (get child ''errors'')
     then [invalid ''lifecycle_case_failed''
             ''Lifecycle child, server, resource guard or owned control failed; raw output is retained.'' (row_reference child)]
     else []"
  let ?identity = "if get child ''pid_identity_valid'' \<noteq> JBool True
     then [invalid ''lifecycle_pid_identity_invalid''
             ''Parent/client/server PIDs or per-PID samples do not match the declared ownership.'' (row_reference child)]
     else []"
  have "\<exists>rest. reasons = ?failed @ ?identity @ rest"
    using assms(1) unfolding case_reasons_def Let_def
    by (cases "get child ''controls''") (simp_all only: json.case sum.inject bindE_ok, blast+)
  then have "Invalid \<notin> vr_status ` set ?failed" "Invalid \<notin> vr_status ` set ?identity" using assms(2) by auto
  then show ?thesis
    by (auto simp: invalid_def make_reason_def fields repeat_succeeded_def split: if_splits)
qed

lemma plan_reasons_none:
  assumes "plan_case_reasons (lifecycle_record results plan children) = Inr reasons" "Invalid \<notin> vr_status ` set reasons"
    and "mapE child_diagnostic results = Inr children"
  shows "list_all (\<lambda>r. repeat_succeeded r \<and> pid_identity_valid r) results \<and> length results = length plan \<and>
    plan_matches results plan \<and> distinct (owned_pids results)"
proof -
  have listed: "get (lifecycle_record results plan children) ''cases'' = JList (map JObj children)"
      "get (lifecycle_record results plan children) ''expected_cases'' = JInt (int (length plan))"
      "get (lifecycle_record results plan children) ''plan_matches'' = JBool (plan_matches results plan)"
    by (simp_all add: lifecycle_record_def get_Cons)
  have lengths: "length children = length results" by (rule mapE_length [OF assms(3)])
  obtain found where found: "mapE case_reasons children = Inr found"
    and reasons: "Invalid \<notin> vr_status ` set (concat found)" "Invalid \<notin> vr_status ` set (pid_reuse_reasons children)"
      "length children = length plan" "plan_matches results plan"
    using assms(1,2)
    by (auto simp: plan_case_reasons_def listed bindE_ok Let_def mapE_map comp_def invalid_def make_reason_def
        image_Un split: if_splits)
  have "repeat_succeeded r \<and> pid_identity_valid r" if r: "r \<in> set results" for r
  proof -
    obtain child where child: "child \<in> set children" "child_diagnostic r = Inr child"
      using assms(3) r by (metis mapE_member)
    obtain rs where "rs \<in> set found" "case_reasons child = Inr rs" using found child(1) by (metis mapE_member)
    with case_reasons_none [OF _ _ child(2)] reasons(1) show ?thesis by auto
  qed
  moreover have "distinct (owned_pids children)" by (rule pid_reuse_visible [OF reasons(2)])
  moreover have "map (\<lambda>c. [get c ''client_pid'', get c ''server_pid'']) children =
      map (\<lambda>c. [get c ''client_pid'', get c ''server_pid'']) results"
    by (rule mapE_keep [OF assms(3)]) (simp add: diagnostic_fields)
  then have "owned_pids children = owned_pids results" by (simp only: owned_pids_def)
  ultimately show ?thesis using lengths reasons(3,4) by (simp add: list_all_iff)
qed

text \<open>
  C37: a published lifecycle report accounts for its repetitions and overlooks no failure: each repetition
  is in the one row of its combination, where it counts as successful or as failed, and the rows count
  exactly the failed ones; the validity of the report reads back from its metadata, and is invalid unless
  every repetition succeeded in processes of its own that no other repetition used, as planned.\<close>

theorem lifecycle_report_sound:
  assumes "write_lifecycle_reports fsum sha256 env results args config plan = Inr payload"
  shows "\<exists>metadata rows validity s.
    payload = [(''metadata'', JObj metadata), (''aggregate'', JList (map JObj rows)), (''runs'', JList (map JObj results))] \<and>
    accounted lifecycle_key (\<lambda>k. k) lifecycle_row_key (\<lambda>row. int_value (get row ''repeats'')) results rows \<and>
    list_all (\<lambda>row. int_value (get row ''successful_repeats'') + int_value (get row ''failed_cases'') =
      int_value (get row ''repeats'')) rows \<and>
    (\<Sum>row\<leftarrow>rows. int_value (get row ''failed_cases'')) = int (length (filter repeat_failed results)) \<and>
    get metadata ''validity'' = JObj validity \<and> validity_summary_from_payload validity = Inr s \<and>
    (vs_status s = Invalid \<or>
      list_all (\<lambda>r. repeat_succeeded r \<and> pid_identity_valid r) results \<and> length results = length plan \<and>
      plan_matches results plan \<and> distinct (owned_pids results))"
proof -
  obtain rows children scope published where
    w: "aggregate_lifecycle_results fsum results = Inr rows" "mapE child_diagnostic results = Inr children"
      "metadata_with_validity sha256 (pe_provenance env) (lifecycle_metadata env args config plan scope results children) rows
         = Inr published"
    and payload: "payload = [(''metadata'', JObj published), (''aggregate'', JList (map JObj rows)),
      (''runs'', JList (map JObj results))]"
    using assms by (auto simp: write_lifecycle_reports_def bindE_ok)
  let ?metadata = "lifecycle_metadata env args config plan scope results children"
  obtain s where read: "validity_summary_from_payload (object_value (get published ''validity'')) = Inr s"
      "get published ''validity'' = JObj (validity_payload s)"
    using w(3) consistent_round_trip [OF classify_consistent] by (fastforce simp: metadata_with_validity_def Let_def bindE_ok)
  obtain extended suite where extended: "classify_report_validity sha256 suite rows extended = Inr s"
      "\<And>key. key \<notin> set COMMON_METADATA \<Longrightarrow> get extended key = get ?metadata key"
    using published_summary [OF w(3) read(1)] by metis
  have "get extended ''profile'' = JStr ''lifecycle''"
      "get extended ''lifecycle'' = JObj (lifecycle_record results plan children)"
    by (simp_all add: extended(2) COMMON_METADATA_def) (simp_all add: lifecycle_metadata_def get_Cons)
  note fields = this
  obtain cs attribution lifecycle found where
    parts: "lifecycle_report_reasons extended rows = Inr lifecycle"
      "vs_status s = combined_status (map vr_status (cs @ streaming_profile_reasons suite extended rows @
         attribution @ lifecycle @ concat found))"
    using extended(1) unfolding classify_report_validity_def bindE_ok Let_def sum.inject by (elim exE conjE) auto
  obtain plan_found more where plan_found: "plan_case_reasons (lifecycle_record results plan children) = Inr plan_found"
      "lifecycle = plan_found @ more"
    using parts(1) by (auto simp: lifecycle_report_reasons_def uses_streaming_profile_def fields bindE_ok)
  have "vs_status s = Invalid" if "Invalid \<in> vr_status ` set plan_found"
  proof -
    have "Invalid \<le> vs_status s" using that unfolding parts(2) plan_found(2) by (intro combined_upper) auto
    then show ?thesis by (cases "vs_status s") (simp_all add: less_eq_validity_status_def)
  qed
  then show ?thesis
    using payload lifecycle_accounted [OF w(1)] read plan_reasons_none [OF plan_found(1) _ w(2)]
    by (intro exI [of _ published] exI [of _ rows] exI [of _ "validity_payload s"] exI [of _ s]) auto
qed

definition plain_profile_environment :: profile_environment where
  "plain_profile_environment =
     \<lparr>pe_timestamp = ''20250101-000000'', pe_python = ''3.13'', pe_platform = ''linux'', pe_package_versions = [],
      pe_package_sources = JNull, pe_harness_source = JNull, pe_provenance = None\<rparr>"

definition plain_case :: LifecycleCase where
  "plain_case =
     \<lparr>lk_sequence = JInt 1, lk_client = JStr ''httpx'', lk_mode = JStr ''async'', lk_case = JStr ''full'',
      lk_concurrency = JInt 1, lk_repeat = JInt 1\<rparr>"

definition small_config :: LifecycleConfig where
  "small_config =
     \<lparr>lc_body_bytes = JInt 1024, lc_server_write_bytes = JInt 512, lc_warmup_rounds = JInt 1, lc_batches = JInt 1,
      lc_rounds_per_batch = JInt 1, lc_sample_interval_s = JFloat (Fin 1), lc_case_timeout_s = JFloat (Fin 240),
      lc_settle_timeout_s = JFloat (Fin 5), lc_rss_ceiling_bytes = JInt 4096, lc_max_samples = JInt 100,
      lc_post_gc = JBool True, lc_attribution = None\<rparr>"

text \<open>A run that stopped before its first case: the report is written, and it is invalid.\<close>

definition stopped_report :: "obj result" where
  "stopped_report =
     write_lifecycle_reports (\<lambda>_. Fin 0) id plain_profile_environment [] plain_args small_config [plain_case]"

lemma stopped_report_written:
  "case stopped_report of Inl _ \<Rightarrow> False | Inr payload \<Rightarrow> get payload ''runs'' = JList []"
  by code_simp

lemma lifecycle_report_sound_witness:
  "\<exists>payload metadata validity s. stopped_report = Inr payload \<and>
     get payload ''metadata'' = JObj metadata \<and> get metadata ''validity'' = JObj validity \<and>
     validity_summary_from_payload validity = Inr s \<and> vs_status s = Invalid"
proof -
  from stopped_report_written obtain payload where payload: "stopped_report = Inr payload"
    by (auto split: sum.splits)
  with lifecycle_report_sound [OF payload [unfolded stopped_report_def]] show ?thesis
    by (force simp: get_def)
qed

end
