(* ===== verification/Attribution_Aggregation.thy ===== *)
theory Attribution_Aggregation
  imports Attribution_Measure Lifecycle_Aggregation Config_Payload
begin

text \<open>
  streaming/attribution_aggregation.py: the rows of the asynchronous bytes profile. A row of the lifecycle
  profile is extended with the verified throughput, the CPU counters and the replay of its repetitions, and
  with what the evidence of its streams shows: each stream complete and verified, each batch of the declared
  size, load times and CPU probes in order.
\<close>

definition TIMING_SCOPE :: string where "TIMING_SCOPE = ''load-only-incremental-sha256-v1''"

definition GC_THRESHOLD_COUNT :: nat where "GC_THRESHOLD_COUNT = 3"

definition "integer" :: "json \<Rightarrow> int" where "integer v = int_value v"

definition same_cell :: "obj \<Rightarrow> obj \<Rightarrow> bool" where
  "same_cell k row =
     list_all (\<lambda>key. py_eq (get k key) (get row key)) [''mode'', ''client'', ''case'', ''concurrency'']"

definition attribution_of :: "obj \<Rightarrow> obj" where
  "attribution_of configuration = object_value (get configuration ''attribution'')"

definition windowed :: "obj \<Rightarrow> bool" where
  "windowed configuration = truthy (get (attribution_of configuration) ''minimum_duration_s'')"

subsection \<open>Rates and chunks\<close>

definition repeat_verified_rate :: "(pyfloat list \<Rightarrow> pyfloat) \<Rightarrow> obj \<Rightarrow> pyfloat option result" where
  "repeat_verified_rate fsum child =
     (let batches = child_batches child; byte_values = map (\<lambda>batch. get batch ''verified_success_bytes'') batches
      in bindE (mapE (\<lambda>batch. number (get batch ''duration_s'')) batches) (\<lambda>durations.
           if batches = [] \<or>
              list_ex (\<lambda>v. case v of None \<Rightarrow> True | Some d \<Rightarrow> fle d (Fin 0)) durations \<or>
              list_ex (\<lambda>v. \<not> type_is_int v \<or> int_value v < 0) byte_values
           then Inr None
           else bindE (ratio (sum_list (map integer byte_values)) (fsum (present durations))) (\<lambda>rate. Inr (Some rate))))"

definition extreme_chunk :: "obj list \<Rightarrow> string \<Rightarrow> bool \<Rightarrow> json result" where
  "extreme_chunk samples field minimum =
     (let values = map (\<lambda>sample. get (object_value (get sample ''distribution'')) field) samples
      in if minimum then minimum_json values else maximum_json values)"

definition gap_quantile :: "obj list \<Rightarrow> rat \<Rightarrow> json result" where
  "gap_quantile samples fraction =
     quantile_json (concat (map (\<lambda>sample. list_value (get sample ''gap_samples_ms'')) samples)) fraction"

subsection \<open>Evidence of a stream\<close>

definition latency_matches :: "obj \<Rightarrow> bool result" where
  "latency_matches sample =
     bindE (number (get sample ''duration_ms'')) (\<lambda>duration.
     bindE (number (get sample ''first_item_ms'')) (\<lambda>first.
     bindE (number (get sample ''close_return_ms'')) (\<lambda>close.
       case (duration, first, close) of
         (Some d, Some f, Some c) \<Rightarrow> Inr (flt (Fin 0) d \<and> between (Fin 0) d f \<and> between (Fin 0) d c)
       | _ \<Rightarrow> Inr False)))"

definition histogram_matches :: "obj \<Rightarrow> int \<Rightarrow> bool" where
  "histogram_matches sample body =
     (let bins = object_list (get (object_value (get sample ''distribution'')) ''histogram'')
      in bins \<noteq> [] \<and>
         list_all (\<lambda>item. type_is_int (get item ''size_bytes'') \<and> 0 < integer (get item ''size_bytes'') \<and>
           type_is_int (get item ''count'') \<and> 0 < integer (get item ''count'')) bins \<and>
         py_eq (JInt (sum_list (map (\<lambda>item. integer (get item ''count'')) bins))) (get sample ''chunks_read'') \<and>
         sum_list (map (\<lambda>item. integer (get item ''size_bytes'') * integer (get item ''count'')) bins) = body)"

text \<open>\<^verbatim>\<open>value in {...}\<close> of strings\<close>

definition in_strings :: "json \<Rightarrow> string list \<Rightarrow> bool result" where
  "in_strings v names =
     (if \<not> hashable v then Inl (TypeError ''unhashable type'') else Inr (v \<in> JStr ` set names))"

definition stream_evidence_complete :: "(string \<Rightarrow> string) \<Rightarrow> int \<Rightarrow> bool \<Rightarrow> obj \<Rightarrow> bool result" where
  "stream_evidence_complete sha256 body global_distribution sample =
     (let distribution = object_value (get sample ''distribution'')
      in andE (get sample ''status'' = JStr ''ok'' \<and> get sample ''eof'' = JBool True \<and>
            py_eq (get sample ''status_code'') (JInt 200) \<and> get sample ''content_length'' = JStr (int_str body) \<and>
            get sample ''content_encoding'' = JNull \<and> get sample ''transfer_encoding'' = JNull)
         (bindE (in_strings (get sample ''http_version'') [''HTTP/1.1'', ''1.1'']) (\<lambda>version.
            andE (version \<and> get sample ''sha256'' = JStr (streaming_bytes_sha256 sha256 (nat body)) \<and>
                py_eq (get sample ''bytes_read'') (JInt body) \<and> py_eq (get sample ''verified_success_bytes'') (JInt body) \<and>
                get distribution ''complete'' = JBool True \<and>
                py_eq (get distribution ''observed_count'') (get sample ''chunks_read'') \<and>
                is_list (get sample ''delivery_samples'') \<and> truthy (get sample ''clock''))
              (bindE (number (get sample ''clock_resolution_s'')) (\<lambda>resolution.
                 andE ((case resolution of None \<Rightarrow> False | Some r \<Rightarrow> flt (Fin 0) r) \<and>
                     (global_distribution \<or> histogram_matches sample body))
                   (latency_matches sample))))))"

definition sample_evidence_complete :: "(string \<Rightarrow> string) \<Rightarrow> obj list \<Rightarrow> obj \<Rightarrow> bool \<Rightarrow> bool result" where
  "sample_evidence_complete sha256 samples configuration global_distribution =
     (let body = get configuration ''body_bytes''
      in andE (int_between 1 1048576 body \<and> samples \<noteq> [])
         (allE (stream_evidence_complete sha256 (int_of body) global_distribution) samples))"

definition batch_evidence_complete ::
  "(string \<Rightarrow> string) \<Rightarrow> (pyfloat list \<Rightarrow> pyfloat) \<Rightarrow> obj \<Rightarrow> obj \<Rightarrow> bool result"
where
  "batch_evidence_complete sha256 fsum batch configuration =
     bindE (sample_evidence_complete sha256 (object_list (get batch ''samples'')) configuration (windowed configuration)) (\<lambda>complete.
       andE complete
         (if windowed configuration then window_distribution_matches fsum batch configuration else Inr True))"

definition gc_evidence_matches :: "obj \<Rightarrow> obj \<Rightarrow> bool" where
  "gc_evidence_matches child environment =
     (let actual = object_value (get child ''gc_configuration'')
      in py_eq (JObj actual) (get environment ''gc'') \<and> is_bool (get actual ''enabled'') \<and>
         (case get actual ''threshold'' of
            JList thresholds \<Rightarrow> length thresholds = GC_THRESHOLD_COUNT \<and>
              list_all (\<lambda>v. type_is_int v \<and> 0 \<le> int_value v) thresholds
          | _ \<Rightarrow> False) \<and>
         get actual ''automatic_policy_changed'' = JBool False)"

subsection \<open>Evidence of a batch and of a repetition\<close>

text \<open>Division of integers, correctly rounded.\<close>

definition seconds_between :: "int \<Rightarrow> int \<Rightarrow> pyfloat result" where
  "seconds_between start finish =
     (let q = seconds (finish - start)
      in if is_finite q then Inr q else Inl (OverflowError ''integer division result too large for a float''))"

definition cpu_boundary_matches :: "obj \<Rightarrow> int \<Rightarrow> int \<Rightarrow> bool" where
  "cpu_boundary_matches cpu load_start load_finish =
     (let before = object_value (get cpu ''before''); after = object_value (get cpu ''after'');
          times = [get before ''probe_started_ns'', get before ''probe_finished_ns'',
            get after ''probe_started_ns'', get after ''probe_finished_ns'']
      in list_all type_is_int times \<and>
         (case map integer times of
            [start_before, end_before, start_after, end_after] \<Rightarrow>
              0 \<le> start_before \<and> start_before \<le> end_before \<and> end_before \<le> load_start \<and> load_start < load_finish \<and>
              load_finish \<le> start_after \<and> start_after \<le> end_after \<and>
              py_eq (get before ''pid'') (get cpu ''pid'') \<and> py_eq (get cpu ''pid'') (get after ''pid'') \<and>
              get cpu ''load_boundary_overhang_ns'' = JInt (load_start - start_before + end_after - load_finish)
          | _ \<Rightarrow> False))"

definition same_time :: "pyfloat \<Rightarrow> pyfloat \<Rightarrow> bool" where
  "same_time d load = isclose d load TOLERANCE TOLERANCE"

definition batch_timing_matches :: "obj \<Rightarrow> bool result" where
  "batch_timing_matches batch =
     (let timing = object_value (get batch ''timing''); start = get timing ''load_started_ns'';
          finish = get timing ''load_finished_ns''; finalize = get timing ''digest_finalize_duration_ns''
      in bindE (number (get batch ''duration_s'')) (\<lambda>duration.
           case duration of
             Some d \<Rightarrow>
               andE (type_is_int start \<and> type_is_int finish \<and> 0 \<le> int_of start \<and> int_of start < int_of finish)
                 (bindE (seconds_between (int_of start) (int_of finish)) (\<lambda>load.
                    Inr (same_time d load \<and> type_is_int finalize \<and> 0 \<le> int_of finalize \<and>
                      truthy (get timing ''clock'') \<and> get timing ''verified_only_after_finalization'' = JBool True \<and>
                      list_all (\<lambda>role. cpu_boundary_matches (object_value (get (object_value (get batch ''cpu'')) role))
                        (int_of start) (int_of finish)) [''client'', ''server''])))
           | None \<Rightarrow> Inr False))"

definition batch_workload_matches :: "obj \<Rightarrow> int \<Rightarrow> int \<Rightarrow> bool" where
  "batch_workload_matches batch rounds concurrency =
     (let requests = rounds * concurrency; samples = object_list (get batch ''samples'')
      in py_eq (get batch ''rounds'') (JInt rounds) \<and> py_eq (get batch ''requests'') (JInt requests) \<and>
         int (length samples) = requests \<and>
         py_eq (JList (map (\<lambda>sample. get sample ''stream'') samples)) (JList (map JInt [1..requests])) \<and>
         \<not> truthy (get batch ''errors'') \<and> py_eq (get batch ''ok_streams'') (JInt requests))"

definition batch_declared :: "obj \<Rightarrow> int \<Rightarrow> int \<Rightarrow> obj \<Rightarrow> bool result" where
  "batch_declared configuration rounds concurrency batch =
     bindE (if windowed configuration
            then bindE (window_workload_matches batch configuration concurrency) (\<lambda>matches.
              Inr (matches \<and> batch_workload_matches batch (integer (get batch ''rounds'')) concurrency))
            else Inr (batch_workload_matches batch rounds concurrency)) (\<lambda>workload.
       andE workload (batch_timing_matches batch))"

definition declared_workload_matches :: "(string \<Rightarrow> string) \<Rightarrow> obj \<Rightarrow> bool result" where
  "declared_workload_matches sha256 result =
     (let child = report_of result; configuration = object_value (get child ''config'');
          count = get configuration ''batches''; rounds = get configuration ''rounds_per_batch'';
          concurrency = get (case_of result) ''concurrency''; warmup = get configuration ''warmup_rounds'';
          batches = child_batches child; warmed = object_value (get child ''warmup'')
      in if \<not> list_all type_is_int [count, rounds, concurrency, warmup] \<or> int_of count \<le> 0 \<or> int_of rounds \<le> 0 \<or>
            int_of concurrency \<le> 0 \<or> int_of warmup < 0
         then Inr False
         else
           andE (int (length batches) = int_of count \<and>
               py_eq (JList (map (\<lambda>batch. get batch ''batch'') batches)) (JList (map JInt [1..int_of count])))
             (bindE (allE (batch_declared configuration (int_of rounds) (int_of concurrency)) batches) (\<lambda>declared.
                andE (declared \<and> batch_workload_matches warmed (int_of warmup) (int_of concurrency))
                  (if int_of warmup = 0 then Inr True
                   else sample_evidence_complete sha256 (object_list (get warmed ''samples'')) configuration False))))"

definition batch_cpu_identity :: "obj \<Rightarrow> bool" where
  "batch_cpu_identity result =
     (let batches = child_batches (report_of result)
      in batches \<noteq> [] \<and>
         list_all (\<lambda>batch. list_all (\<lambda>role.
             py_eq (get (object_value (get (object_value (get batch ''cpu'')) role)) ''pid'') (get result (role @ ''_pid'')))
           [''client'', ''server'']) batches)"

subsection \<open>CPU counters and replays\<close>

definition CPU_TIMES :: "string list" where "CPU_TIMES = [''user_s'', ''system_s'', ''total_s'']"

definition CPU_MEDIANS :: "string list" where
  "CPU_MEDIANS = CPU_TIMES @ [''cpu_seconds_per_verified_byte'', ''cpu_seconds_per_wall_second'']"

definition cpu_observations :: "obj \<Rightarrow> string \<Rightarrow> obj list" where
  "cpu_observations child role =
     map (\<lambda>batch. object_value (get (object_value (get batch ''cpu'')) role)) (child_batches child)"

text \<open>A sum, where every value is there.\<close>

definition complete_sum :: "(pyfloat list \<Rightarrow> pyfloat) \<Rightarrow> pyfloat option list \<Rightarrow> json" where
  "complete_sum fsum values =
     optional_float (if values \<noteq> [] \<and> None \<notin> set values then Some (fsum (present values)) else None)"

definition cpu_summary :: "(pyfloat list \<Rightarrow> pyfloat) \<Rightarrow> string \<Rightarrow> obj \<Rightarrow> obj result" where
  "cpu_summary fsum role child =
     (let batches = child_batches child;
          verified = sum_list (map (\<lambda>batch. integer (get batch ''verified_success_bytes'')) batches)
      in bindE (mapE (\<lambda>batch. number_or_zero (get batch ''duration_s'')) batches) (\<lambda>durations.
         let wall = (if durations = [] then Fin 0 else fsum durations)
         in bindE (mapE (\<lambda>key. bindE (mapE (\<lambda>item. number (get item key)) (cpu_observations child role))
                (\<lambda>values. Inr (key, complete_sum fsum values))) CPU_TIMES) (\<lambda>cpu_sums.
            bindE (number (get cpu_sums ''total_s'')) (\<lambda>cpu_total.
            bindE (quotient_json (0 < verified) cpu_total (float_of_int verified)) (\<lambda>per_byte.
            bindE (quotient_json (flt (Fin 0) wall) cpu_total (Inr wall)) (\<lambda>per_second.
              Inr (cpu_sums @ [(''cpu_seconds_per_verified_byte'', per_byte), (''cpu_seconds_per_wall_second'', per_second)])))))))"

definition cpu_complete :: "string \<Rightarrow> obj \<Rightarrow> bool result" where
  "cpu_complete role child =
     (let observations = cpu_observations child role
      in andE (observations \<noteq> [])
         (bindE (allE (\<lambda>item. allE (\<lambda>key. nonnegative_number (get item key)) CPU_TIMES) observations) (\<lambda>times.
            Inr (times \<and> list_all (\<lambda>item. \<not> truthy (get item ''unavailable_reason'')) observations))))"

definition cpu_unavailable :: "string \<Rightarrow> obj list \<Rightarrow> string list" where
  "cpu_unavailable role children =
     map py_str (filter truthy
       (map (\<lambda>item. get item ''unavailable_reason'') (concat (map (\<lambda>child. cpu_observations child role) children))))"

definition medians_of :: "obj list \<Rightarrow> string list \<Rightarrow> obj result" where
  "medians_of items keys =
     mapE (\<lambda>key. bindE (median_json (map (\<lambda>item. get item key) items)) (\<lambda>m. Inr (key @ ''_median'', m))) keys"

text \<open>\<^verbatim>\<open>complete\<close> stops being tested at the first repetition that is not complete.\<close>

definition aggregate_cpu :: "(pyfloat list \<Rightarrow> pyfloat) \<Rightarrow> obj list \<Rightarrow> string \<Rightarrow> json result" where
  "aggregate_cpu fsum children role =
     bindE (foldE (\<lambda>(complete, repeats) child.
         bindE (andE complete (cpu_complete role child)) (\<lambda>complete'.
         bindE (cpu_summary fsum role child) (\<lambda>summary. Inr (complete', repeats @ [summary]))))
       (children \<noteq> [], []) children) (\<lambda>(complete, repeats).
     bindE (medians_of repeats CPU_MEDIANS) (\<lambda>medians.
       Inr (JObj ([(''complete'', JBool complete)] @ medians @
         [(''unavailable'', sorted_names (cpu_unavailable role children)),
          (''scope'', JStr ''Per-PID CPU counters bracketing load plus retained boundary probe overhang; user+system may exceed wall time with multicore work'')]))))"

definition overhead_observed :: "obj \<Rightarrow> bool result" where
  "overhead_observed item =
     andE (get item ''status'' = JStr ''ok'' \<and> \<not> truthy (get item ''reason''))
       (allE (\<lambda>key. nonnegative_number (get item key)) segment_times)"

definition aggregate_overhead :: "obj list \<Rightarrow> json result" where
  "aggregate_overhead batches =
     (let observations = map (\<lambda>batch. object_value (get batch ''overhead'')) batches
      in bindE (andE (observations \<noteq> []) (allE overhead_observed observations)) (\<lambda>complete.
         bindE (medians_of observations segment_times) (\<lambda>medians.
           Inr (JObj ([(''complete'', JBool complete),
               (''distribution_complete'', JBool (observations \<noteq> [] \<and>
                  list_all (\<lambda>item. get item ''distribution_complete'' = JBool True) observations))] @ medians @
             [(''reasons'', sorted_names (map py_str (filter truthy (map (\<lambda>item. get item ''reason'') observations)))),
              (''scope'', JStr ''separate bounded in-memory replay over observed chunk sizes; no subtraction from primary metrics'')])))))"

subsection \<open>Rows\<close>

definition own_conditions :: "obj \<Rightarrow> obj \<Rightarrow> obj" where
  "own_conditions conditions row =
     (let requested = get (attribution_of (object_value (get conditions ''configuration''))) ''requested_client_read_bytes'';
          native = (get row ''client'' = JStr ''foghttp'')
      in dict_update conditions
         [(''read_policy'', JStr (if \<not> native \<and> requested \<noteq> JNull then ''public-iterator-requested-size'' else ''native-public-iterator'')),
          (''requested_client_read_bytes'', if native then JNull else requested)])"

definition expected_streams :: "obj \<Rightarrow> nat \<Rightarrow> obj list \<Rightarrow> int" where
  "expected_streams row selected batches =
     (let configuration = object_value (get row ''configuration'')
      in if windowed configuration then sum_list (map (\<lambda>batch. integer (get batch ''requests'')) batches)
         else integer (get configuration ''batches'') * integer (get configuration ''rounds_per_batch'') *
              integer (get row ''concurrency'') * int selected)"

definition sample_counts :: "obj list \<Rightarrow> int \<Rightarrow> obj" where
  "sample_counts samples expected =
     [(''integrity_failures_total'', JInt (int (length (filter (\<lambda>s. get s ''status'' \<noteq> JStr ''ok'') samples)))),
      (''complete_streams_total'', JInt (int (length
         (filter (\<lambda>s. get s ''status'' = JStr ''ok'' \<and> get s ''eof'' = JBool True) samples)))),
      (''expected_streams_total'', JInt expected), (''stream_samples_total'', JInt (int (length samples))),
      (''delivered_chunks_total'', JInt (sum_list (map (\<lambda>s. integer (get s ''chunks_read'')) samples)))]"

definition byte_counts :: "obj list \<Rightarrow> obj" where
  "byte_counts batches =
     [(''verified_bytes_total'', JInt (sum_list (map (\<lambda>b. integer (get b ''verified_success_bytes'')) batches))),
      (''total_observed_bytes'', JInt (sum_list (map (\<lambda>b. integer (get b ''total_observed_bytes'')) batches))),
      (''failed_observed_bytes'', JInt (sum_list (map (\<lambda>b. integer (get b ''failed_observed_bytes'')) batches)))]"

text \<open>What the evidence of the repetitions shows.\<close>

definition evidence_flags ::
  "(string \<Rightarrow> string) \<Rightarrow> (pyfloat list \<Rightarrow> pyfloat) \<Rightarrow> obj \<Rightarrow> obj \<Rightarrow> obj list \<Rightarrow> obj result"
where
  "evidence_flags sha256 fsum conditions configuration selected =
     (let children = map report_of selected; batches = concat (map child_batches children)
      in bindE (allE (\<lambda>batch. batch_evidence_complete sha256 fsum batch configuration) batches) (\<lambda>streams.
         bindE (mapE (\<lambda>batch. number_or_zero (get batch ''duration_s'')) batches) (\<lambda>durations.
         bindE (allE (declared_workload_matches sha256) selected) (\<lambda>declared.
           Inr [(''stream_measurement_evidence_complete'', JBool (streams \<and> batches \<noteq> [])),
             (''duration_window_complete'', JBool (windowed configuration \<longrightarrow>
                list_all (\<lambda>batch. get (object_value (get batch ''window'')) ''target_reached'' = JBool True) batches)),
             (''load_duration_s_min'', optional_float (minimum_optional (map Some durations))),
             (''load_duration_s_max'', optional_float (maximum_optional (map Some durations))),
             (''server_health_complete'', JBool (batches \<noteq> [] \<and>
                list_all (\<lambda>batch. get (object_value (get batch ''server_health'')) ''status'' = JStr ''ok'') batches)),
             (''cpu_pid_identity_valid'', JBool (list_all batch_cpu_identity selected)),
             (''declared_workload_complete'', JBool declared),
             (''gc_configuration_matches'', JBool (list_all
                (\<lambda>child. gc_evidence_matches child (object_value (get conditions ''environment''))) children))]))))"

definition attribution_row ::
  "(string \<Rightarrow> string) \<Rightarrow> (pyfloat list \<Rightarrow> pyfloat) \<Rightarrow> obj list \<Rightarrow> obj \<Rightarrow> obj \<Rightarrow> obj result"
where
  "attribution_row sha256 fsum results conditions row =
     (let selected = filter (\<lambda>r. same_cell (case_of r) row) results;
          children = map report_of selected; batches = concat (map child_batches children);
          samples = concat (map (\<lambda>batch. object_list (get batch ''samples'')) batches);
          own = own_conditions conditions row;
          declared = attribution_of (object_value (get conditions ''configuration''))
      in bindE (mapE (repeat_verified_rate fsum) children) (\<lambda>rates.
         bindE (condition_fingerprint sha256 own) (\<lambda>fingerprint.
         bindE (optional_median rates) (\<lambda>rate_median.
         bindE (cv_optional (present rates)) (\<lambda>rate_cv.
         bindE (extreme_chunk samples ''min_bytes'' True) (\<lambda>chunk_min.
         bindE (extreme_chunk samples ''max_bytes'' False) (\<lambda>chunk_max.
         bindE (gap_quantile samples (95 / 100)) (\<lambda>gap_p95.
         bindE (mapE (\<lambda>role. bindE (aggregate_cpu fsum children role) (\<lambda>v. Inr (role, v))) [''client'', ''server'']) (\<lambda>cpu.
         bindE (aggregate_overhead batches) (\<lambda>overhead.
         bindE (evidence_flags sha256 fsum conditions (object_value (get row ''configuration'')) selected) (\<lambda>flags.
           Inr (dict_update row
            ([(''profile'', JStr ''async-bytes''), (''schema_version'', JInt ATTRIBUTION_SCHEMA_VERSION),
              (''policy_version'', JStr ATTRIBUTION_POLICY_VERSION), (''conditions'', JObj own),
              (''condition_fingerprint'', JStr fingerprint), (''primary_metric'', JStr ''verified_bytes_s_median''),
              (''timing_scope'', JStr TIMING_SCOPE), (''throughput_scope'', JStr ''verified-eof-v2'')] @
             byte_counts batches @
             [(''verified_bytes_s_median'', optional_float rate_median),
              (''verified_bytes_s_cv_percent'', optional_float rate_cv),
              (''variation_sample_count'', JInt (int (length (present rates))))] @
             sample_counts samples (expected_streams row (length selected) batches) @
             [(''chunk_bytes_min'', chunk_min), (''chunk_bytes_max'', chunk_max), (''gap_p95_ms'', gap_p95),
              (''gap_sample_count'', JInt (sum_list (map (\<lambda>s. int (length (list_value (get s ''gap_samples_ms'')))) samples))),
              (''gap_sampling_rule'', JStr ''first bounded public chunk observations per stream; excludes first delivery''),
              (''cpu'', JObj cpu), (''overhead'', overhead),
              (''instrumentation'', get declared ''instrumentation''), (''profiler_label'', get declared ''profiler_label'')] @
             flags @
             (if get declared ''profiler'' = JStr ''cprofile''
              then [(''python_profile_thread_scope_qualified'', JBool (list_all (\<lambda>batch.
                get (object_value (get batch ''python_profile'')) ''attribution_qualification'' = JStr ''qualified-thread-scope'') batches))]
              else []))))))))))))))"

definition aggregate_attribution_results ::
  "(string \<Rightarrow> string) \<Rightarrow> (pyfloat list \<Rightarrow> pyfloat) \<Rightarrow> obj list \<Rightarrow> obj \<Rightarrow> obj list result"
where
  "aggregate_attribution_results sha256 fsum results conditions =
     bindE (aggregate_lifecycle_results fsum results) (\<lambda>rows.
       mapE (attribution_row sha256 fsum results conditions) rows)"

subsection \<open>A row without a fatal reason measured what it reports\<close>

lemma get_dict_update: "get (dict_update d e) key = (case map_of (rev e) key of None \<Rightarrow> get d key | Some v \<Rightarrow> v)"
  by (induction e arbitrary: d rule: rev_induct) (auto simp: dict_update_def get_def update_conv split: option.splits)

text \<open>A stream whose bytes were counted, checked against the digest of the payload, and read to the end.\<close>

definition verified_stream :: "(string \<Rightarrow> string) \<Rightarrow> int \<Rightarrow> obj \<Rightarrow> bool" where
  "verified_stream sha256 body s \<longleftrightarrow>
     get s ''status'' = JStr ''ok'' \<and> get s ''eof'' = JBool True \<and> py_eq (get s ''status_code'') (JInt 200) \<and>
     get s ''sha256'' = JStr (streaming_bytes_sha256 sha256 (nat body)) \<and> py_eq (get s ''bytes_read'') (JInt body) \<and>
     py_eq (get s ''verified_success_bytes'') (JInt body)"

lemma stream_evidence_verified:
  "stream_evidence_complete sha256 body w s = Inr True \<Longrightarrow> verified_stream sha256 body s"
  by (auto simp: stream_evidence_complete_def verified_stream_def Let_def andE_True bindE_ok)

lemma batch_evidence_verified:
  assumes "batch_evidence_complete sha256 fsum batch configuration = Inr True"
  shows "object_list (get batch ''samples'') \<noteq> []" "int_between 1 1048576 (get configuration ''body_bytes'')"
    "list_all (verified_stream sha256 (int_of (get configuration ''body_bytes''))) (object_list (get batch ''samples''))"
proof -
  have "sample_evidence_complete sha256 (object_list (get batch ''samples'')) configuration (windowed configuration) = Inr True"
    using assms by (auto simp: batch_evidence_complete_def bindE_ok andE_True)
  then have evidence: "int_between 1 1048576 (get configuration ''body_bytes'') \<and> object_list (get batch ''samples'') \<noteq> []"
    "list_all (\<lambda>s. stream_evidence_complete sha256 (int_of (get configuration ''body_bytes'')) (windowed configuration) s = Inr True)
      (object_list (get batch ''samples''))"
    by (auto simp: sample_evidence_complete_def andE_True allE_True Let_def)
  then show "object_list (get batch ''samples'') \<noteq> []" "int_between 1 1048576 (get configuration ''body_bytes'')"
    by simp_all
  show "list_all (verified_stream sha256 (int_of (get configuration ''body_bytes''))) (object_list (get batch ''samples''))"
    by (rule list.pred_mono_strong [OF evidence(2)]) (rule stream_evidence_verified)
qed

lemma samples_of_batches:
  "concat (map (\<lambda>batch. object_list (get batch ''samples'')) (concat (map child_batches (map report_of results)))) =
     concat (map (\<lambda>r. child_samples (report_of r)) results)"
  by (induction results) (simp_all add: child_samples_def)

text \<open>The fields of a row that its admission reads, apart from the rest of the row.\<close>

definition EVIDENCE_KEYS :: "string list" where
  "EVIDENCE_KEYS =
     [''configuration'', ''mode'', ''client'', ''case'', ''concurrency'', ''repeats'', ''successful_repeats'',
      ''stream_samples_total'', ''integrity_failures_total'', ''expected_streams_total'', ''verified_bytes_total'',
      ''stream_measurement_evidence_complete'', ''declared_workload_complete'', ''cpu_pid_identity_valid'']"

definition no_evidence :: "obj \<Rightarrow> bool" where
  "no_evidence d \<longleftrightarrow> list_all (\<lambda>k. k \<notin> set EVIDENCE_KEYS) (map fst d)"

lemma no_evidence_None: "no_evidence d \<Longrightarrow> key \<in> set EVIDENCE_KEYS \<Longrightarrow> map_of (rev d) key = None"
  by (force simp: no_evidence_def list_all_iff map_of_eq_None_iff)

lemma attribution_row_shape:
  assumes "attribution_row sha256 fsum results conditions lrow = Inr row"
    and "selected = filter (\<lambda>r. same_cell (case_of r) lrow) results"
    and "batches = concat (map child_batches (map report_of selected))"
    and "streams = concat (map (\<lambda>r. child_samples (report_of r)) selected)"
    and "configuration = object_value (get lrow ''configuration'')"
  obtains pre mid post more flags where "evidence_flags sha256 fsum conditions configuration selected = Inr flags"
    "row = dict_update lrow (pre @ byte_counts batches @ mid @
       sample_counts streams (expected_streams lrow (length selected) batches) @ post @ flags @ more)"
    "no_evidence pre" "no_evidence mid" "no_evidence post" "no_evidence more"
proof -
  have "\<exists>pre mid post more flags. evidence_flags sha256 fsum conditions configuration selected = Inr flags \<and>
    row = dict_update lrow (pre @ byte_counts batches @ mid @
       sample_counts streams (expected_streams lrow (length selected) batches) @ post @ flags @ more) \<and>
    no_evidence pre \<and> no_evidence mid \<and> no_evidence post \<and> no_evidence more"
    using assms(1) unfolding attribution_row_def Let_def bindE_ok sum.inject assms(2-5) samples_of_batches
    apply (elim exE conjE)
    apply (intro exI conjI, assumption, erule sym)
       apply (simp_all add: no_evidence_def EVIDENCE_KEYS_def)
    done
  then show thesis using that by blast
qed

lemma evidence_flags_fields:
  assumes "evidence_flags sha256 fsum conditions configuration selected = Inr flags"
    and "batches = concat (map child_batches (map report_of selected))"
  obtains streams declared where
    "map_of (rev flags) ''stream_measurement_evidence_complete'' = Some (JBool (streams \<and> batches \<noteq> []))"
    "allE (\<lambda>batch. batch_evidence_complete sha256 fsum batch configuration) batches = Inr streams"
    "map_of (rev flags) ''declared_workload_complete'' = Some (JBool declared)"
    "allE (declared_workload_matches sha256) selected = Inr declared"
    "map_of (rev flags) ''cpu_pid_identity_valid'' = Some (JBool (list_all batch_cpu_identity selected))"
    "map fst flags = [''stream_measurement_evidence_complete'', ''duration_window_complete'', ''load_duration_s_min'',
       ''load_duration_s_max'', ''server_health_complete'', ''cpu_pid_identity_valid'', ''declared_workload_complete'',
       ''gc_configuration_matches'']"
proof -
  obtain streams durations declared where
    parts: "allE (\<lambda>batch. batch_evidence_complete sha256 fsum batch configuration) batches = Inr streams"
      "allE (declared_workload_matches sha256) selected = Inr declared"
    and flags: "flags = [(''stream_measurement_evidence_complete'', JBool (streams \<and> batches \<noteq> [])),
             (''duration_window_complete'', JBool (windowed configuration \<longrightarrow>
                list_all (\<lambda>batch. get (object_value (get batch ''window'')) ''target_reached'' = JBool True) batches)),
             (''load_duration_s_min'', optional_float (minimum_optional (map Some durations))),
             (''load_duration_s_max'', optional_float (maximum_optional (map Some durations))),
             (''server_health_complete'', JBool (batches \<noteq> [] \<and>
                list_all (\<lambda>batch. get (object_value (get batch ''server_health'')) ''status'' = JStr ''ok'') batches)),
             (''cpu_pid_identity_valid'', JBool (list_all batch_cpu_identity selected)),
             (''declared_workload_complete'', JBool declared),
             (''gc_configuration_matches'', JBool (list_all
                (\<lambda>child. gc_evidence_matches child (object_value (get conditions ''environment''))) (map report_of selected)))]"
    using assms(1) unfolding evidence_flags_def Let_def bindE_ok sum.inject assms(2) by (elim exE conjE) (rule that [unfolded assms(2)], assumption+, erule sym)
  show thesis by (rule that [OF _ parts(1) _ parts(2)]) (simp_all add: flags)
qed

lemma attribution_row_fields:
  assumes "attribution_row sha256 fsum results conditions lrow = Inr row"
    and "selected = filter (\<lambda>r. same_cell (case_of r) lrow) results"
    and "batches = concat (map child_batches (map report_of selected))"
    and "streams = concat (map (\<lambda>r. child_samples (report_of r)) selected)"
    and "configuration = object_value (get lrow ''configuration'')"
  shows "get row ''stream_samples_total'' = JInt (int (length streams))"
    and "get row ''integrity_failures_total'' = JInt (int (length (filter (\<lambda>s. get s ''status'' \<noteq> JStr ''ok'') streams)))"
    and "get row ''expected_streams_total'' = JInt (expected_streams lrow (length selected) batches)"
    and "get row ''verified_bytes_total'' = JInt (sum_list (map (\<lambda>b. integer (get b ''verified_success_bytes'')) batches))"
    and "key \<in> {''configuration'', ''mode'', ''client'', ''case'', ''concurrency'', ''repeats'', ''successful_repeats''} \<Longrightarrow>
      get row key = get lrow key"
    and "get row ''stream_measurement_evidence_complete'' = JBool True \<Longrightarrow> batches \<noteq> [] \<and>
      list_all (\<lambda>b. batch_evidence_complete sha256 fsum b configuration = Inr True) batches"
    and "get row ''declared_workload_complete'' = JBool True \<Longrightarrow>
      list_all (\<lambda>r. declared_workload_matches sha256 r = Inr True) selected"
    and "get row ''cpu_pid_identity_valid'' = JBool True \<Longrightarrow> list_all batch_cpu_identity selected"
proof -
  obtain pre mid post more flags where flags: "evidence_flags sha256 fsum conditions configuration selected = Inr flags"
    and row: "row = dict_update lrow (pre @ byte_counts batches @ mid @
       sample_counts streams (expected_streams lrow (length selected) batches) @ post @ flags @ more)"
    and other: "no_evidence pre" "no_evidence mid" "no_evidence post" "no_evidence more"
    by (rule attribution_row_shape [OF assms])
  obtain evident declared where f:
    "map_of (rev flags) ''stream_measurement_evidence_complete'' = Some (JBool (evident \<and> batches \<noteq> []))"
    "allE (\<lambda>batch. batch_evidence_complete sha256 fsum batch configuration) batches = Inr evident"
    "map_of (rev flags) ''declared_workload_complete'' = Some (JBool declared)"
    "allE (declared_workload_matches sha256) selected = Inr declared"
    "map_of (rev flags) ''cpu_pid_identity_valid'' = Some (JBool (list_all batch_cpu_identity selected))"
    and keys: "map fst flags = [''stream_measurement_evidence_complete'', ''duration_window_complete'', ''load_duration_s_min'',
       ''load_duration_s_max'', ''server_health_complete'', ''cpu_pid_identity_valid'', ''declared_workload_complete'',
       ''gc_configuration_matches'']"
    by (rule evidence_flags_fields [OF flags assms(3)])
  have absent: "map_of (rev flags) k = None" if "k \<notin> set (map fst flags)" for k
    using that by (simp add: map_of_eq_None_iff)
  note at = row get_dict_update map_add_def EVIDENCE_KEYS_def no_evidence_None [OF other(1)] no_evidence_None [OF other(2)]
    no_evidence_None [OF other(3)] no_evidence_None [OF other(4)] byte_counts_def sample_counts_def
  show "get row ''stream_samples_total'' = JInt (int (length streams))"
    "get row ''integrity_failures_total'' = JInt (int (length (filter (\<lambda>s. get s ''status'' \<noteq> JStr ''ok'') streams)))"
    "get row ''expected_streams_total'' = JInt (expected_streams lrow (length selected) batches)"
    "get row ''verified_bytes_total'' = JInt (sum_list (map (\<lambda>b. integer (get b ''verified_success_bytes'')) batches))"
    by (simp_all add: at absent [unfolded keys])
  show "get row key = get lrow key"
    if "key \<in> {''configuration'', ''mode'', ''client'', ''case'', ''concurrency'', ''repeats'', ''successful_repeats''}"
    using that by (elim insertE) (simp_all add: at absent [unfolded keys])
  show "batches \<noteq> [] \<and> list_all (\<lambda>b. batch_evidence_complete sha256 fsum b configuration = Inr True) batches"
    if "get row ''stream_measurement_evidence_complete'' = JBool True"
    using that f(1,2) by (auto simp: at allE_True)
  show "list_all (\<lambda>r. declared_workload_matches sha256 r = Inr True) selected"
    if "get row ''declared_workload_complete'' = JBool True"
    using that f(3,4) by (auto simp: at allE_True)
  show "list_all batch_cpu_identity selected" if "get row ''cpu_pid_identity_valid'' = JBool True"
    using that by (simp add: at f(5))
qed

lemma workload_complete:
  assumes "attribution_row_reasons sha256 row = Inr reasons" "Invalid \<notin> vr_status ` set reasons"
  obtains e p where "get row ''expected_streams_total'' = JInt e" "0 < e"
    "get (object_value (get row ''configuration'')) ''body_bytes'' = JInt p" "0 < p"
    "get row ''verified_bytes_total'' = JInt (e * p)" "py_eq (get row ''stream_samples_total'') (JInt e)"
    "py_eq (get row ''successful_repeats'') (get row ''repeats'')"
    "get row ''stream_measurement_evidence_complete'' = JBool True"
    "get row ''declared_workload_complete'' = JBool True" "get row ''cpu_pid_identity_valid'' = JBool True"
proof -
  have fatal: "Invalid \<in> vr_status ` set reasons"
    if "workload_incomplete row (object_value (get row ''configuration'')) \<or> not_true row ''cpu_pid_identity_valid''"
    using assms(1) that unfolding attribution_row_reasons_def Let_def bindE_ok sum.inject
    by (elim exE conjE, hypsubst, elim disjE) (simp_all only: set_append image_Un Un_iff if_True list.set image_insert insert_iff reason_def
        make_reason_def validity_reason.select_convs simp_thms)
  then have complete: "\<not> workload_incomplete row (object_value (get row ''configuration''))"
    and identity: "get row ''cpu_pid_identity_valid'' = JBool True"
    using assms(2) by (auto simp: not_true_def)
  obtain e where e: "get row ''expected_streams_total'' = JInt e"
    using complete by (cases "get row ''expected_streams_total''") (simp_all add: workload_incomplete_def)
  obtain p where p: "get (object_value (get row ''configuration'')) ''body_bytes'' = JInt p"
    using complete by (cases "get (object_value (get row ''configuration'')) ''body_bytes''") (simp_all add: workload_incomplete_def e)
  obtain v where v: "get row ''verified_bytes_total'' = JInt v"
    using complete by (cases "get row ''verified_bytes_total''") (simp_all add: workload_incomplete_def e p)
  show thesis using complete identity by (intro that [OF e _ p]) (simp_all add: workload_incomplete_def e p v not_true_def)
qed

text \<open>
  C35: a row of the asynchronous bytes profile that is not invalid reports what was measured. It is the row
  of the repetitions of its cell, which all succeeded. Each of their streams was read to the end, has the
  size of the payload and its digest, and the verified bytes of the row are the bytes of these streams,
  at least one. Each repetition has the declared workload, with load times between its CPU probes, and its
  CPU counters are those of its own processes.\<close>

theorem attribution_row_measured:
  assumes "aggregate_attribution_results sha256 fsum results conditions = Inr rows" "row \<in> set rows"
    and "attribution_row_reasons sha256 row = Inr reasons" "Invalid \<notin> vr_status ` set reasons"
    and "selected = filter (\<lambda>r. same_cell (case_of r) row) results"
    and "streams = concat (map (\<lambda>r. child_samples (report_of r)) selected)"
  shows "\<exists>p. get (object_value (get row ''configuration'')) ''body_bytes'' = JInt p \<and> 0 < p \<and> streams \<noteq> [] \<and>
    list_all (verified_stream sha256 p) streams \<and> get row ''verified_bytes_total'' = JInt (int (length streams) * p) \<and>
    list_all (\<lambda>r. declared_workload_matches sha256 r = Inr True \<and> batch_cpu_identity r) selected \<and>
    list_all repeat_succeeded (filter (\<lambda>r. lifecycle_key r = lifecycle_row_key row) results)"
proof -
  obtain lrows where lrows: "aggregate_lifecycle_results fsum results = Inr lrows"
      "mapE (attribution_row sha256 fsum results conditions) lrows = Inr rows"
    using assms(1) by (auto simp: aggregate_attribution_results_def bindE_ok)
  obtain lrow where lrow: "lrow \<in> set lrows" "attribution_row sha256 fsum results conditions lrow = Inr row"
    using mapE_image [OF lrows(2) assms(2)] by blast
  obtain k items where g: "(k, items) \<in> set (group_by lifecycle_key results)" "aggregate_case fsum (k, items) = Inr lrow"
    using mapE_image [OF lrows(1) [unfolded aggregate_lifecycle_results_def] lrow(1)] by auto
  let ?selected = "filter (\<lambda>r. same_cell (case_of r) lrow) results"
  note fields = attribution_row_fields [OF lrow(2) refl refl refl refl]
  have same: "?selected = selected" by (simp add: assms(5) same_cell_def fields(5))
  have row_key: "lifecycle_row_key row = k"
    by (simp add: lifecycle_row_key_def fields(5)) (simp add: case_row_fields(1) [OF g(2)] flip: lifecycle_row_key_def)
  obtain e p where ev: "get row ''expected_streams_total'' = JInt e" "0 < e"
    "get (object_value (get row ''configuration'')) ''body_bytes'' = JInt p" "0 < p"
    "get row ''verified_bytes_total'' = JInt (e * p)" "py_eq (get row ''stream_samples_total'') (JInt e)"
    "py_eq (get row ''successful_repeats'') (get row ''repeats'')"
    "get row ''stream_measurement_evidence_complete'' = JBool True"
    "get row ''declared_workload_complete'' = JBool True" "get row ''cpu_pid_identity_valid'' = JBool True"
    by (rule workload_complete [OF assms(3,4)])
  have e: "e = int (length streams)" using ev(6) by (simp add: fields(1) same assms(6))
  have "length (filter repeat_succeeded items) = length items"
    using ev(7) by (simp add: fields(5) case_row_fields(2,3) [OF g(2)])
  then have "list_all repeat_succeeded items" by (metis filter_id_conv length_filter_less list_all_iff nat_neq_iff)
  then have succeeded: "list_all repeat_succeeded (filter (\<lambda>r. lifecycle_key r = lifecycle_row_key row) results)"
    using group_by_member(1) [OF g(1)] by (simp add: row_key)
  have "list_all (verified_stream sha256 p) (concat (map (\<lambda>b. object_list (get b ''samples''))
      (concat (map child_batches (map report_of ?selected)))))"
    using fields(6) [OF ev(8)] batch_evidence_verified(3) ev(3) by (fastforce simp: list_all_iff fields(5))
  then have "list_all (verified_stream sha256 p) streams" by (simp only: samples_of_batches same assms(6))
  moreover have "list_all (\<lambda>r. declared_workload_matches sha256 r = Inr True \<and> batch_cpu_identity r) selected"
    using fields(7) [OF ev(9)] fields(8) [OF ev(10)] by (simp add: same list_all_iff)
  ultimately show ?thesis using ev(2-5) e succeeded by auto
qed

subsection \<open>A row that measured\<close>

text \<open>Times that agree exactly, and a single observation, need no rounding.\<close>

lemma same_time_code [code]:
  "same_time d load = (if feq d load then True else isclose d load TOLERANCE TOLERANCE)"
  by (simp add: same_time_def isclose_def)

lemma quantile_index_code [code]:
  "quantile_index fraction n =
     (if n \<le> 1 then 0
      else case fmul (round64 fraction) (Fin (of_nat (n - 1))) of Fin x \<Rightarrow> nat (round_half_even x) | _ \<Rightarrow> 0)"
proof (cases "n \<le> 1")
  case True
  then have "of_nat (n - 1) = (0 :: rat)" by simp
  then show ?thesis by (cases "round64 fraction") (simp_all add: quantile_index_def round64_def round_half_even_def)
qed (simp add: quantile_index_def)

definition sample_stream :: obj where
  "sample_stream =
     [(''stream'', JInt 1), (''status'', JStr ''ok''), (''eof'', JBool True), (''status_code'', JInt 200),
      (''content_length'', JStr ''1''), (''http_version'', JStr ''1.1''), (''sha256'', JStr ''x''), (''bytes_read'', JInt 1),
      (''chunks_read'', JInt 1), (''verified_success_bytes'', JInt 1),
      (''distribution'', JObj [(''complete'', JBool True), (''observed_count'', JInt 1),
         (''histogram'', JList [JObj [(''size_bytes'', JInt 1), (''count'', JInt 1)]])]),
      (''delivery_samples'', JList []), (''clock'', JStr ''ns''), (''clock_resolution_s'', JFloat (Fin 1)),
      (''duration_ms'', JFloat (Fin 3)), (''first_item_ms'', JFloat (Fin 1)), (''close_return_ms'', JFloat (Fin 1))]"

definition sample_probes :: "int \<Rightarrow> json" where
  "sample_probes pid =
     (let probe = (\<lambda>ns. JObj [(''pid'', JInt pid), (''probe_started_ns'', JInt ns), (''probe_finished_ns'', JInt ns)])
      in JObj [(''pid'', JInt pid), (''user_s'', JInt 1), (''system_s'', JInt 0), (''total_s'', JInt 1), (''before'', probe 0), (''after'', probe 1000000000), (''load_boundary_overhang_ns'', JInt 0)])"

definition sample_measured :: obj where
  "sample_measured =
     [(''batch'', JInt 1), (''rounds'', JInt 1), (''requests'', JInt 1), (''ok_streams'', JInt 1), (''duration_s'', JFloat (Fin 1)),
      (''verified_success_bytes'', JInt 1), (''samples'', JList [JObj sample_stream]),
      (''timing'', JObj [(''load_started_ns'', JInt 0), (''load_finished_ns'', JInt 1000000000), (''clock'', JStr ''ns''),
         (''digest_finalize_duration_ns'', JInt 0), (''verified_only_after_finalization'', JBool True)]),
      (''cpu'', JObj [(''client'', sample_probes 11), (''server'', sample_probes 12)]),
      (''server_health'', JObj [(''status'', JStr ''ok'')]),
      (''overhead'', JObj [(''status'', JStr ''ok''), (''distribution_complete'', JBool True), (''scalar_only_s'', JInt 1),
         (''sha256_only_s'', JInt 1), (''combined_s'', JInt 1)])]"

definition sample_gc :: json where
  "sample_gc =
     JObj [(''enabled'', JBool True), (''threshold'', JList [JInt 700, JInt 10, JInt 10]), (''automatic_policy_changed'', JBool False)]"

definition sample_declared :: json where
  "sample_declared =
     JObj [(''body_bytes'', JInt 1), (''batches'', JInt 1), (''rounds_per_batch'', JInt 1), (''warmup_rounds'', JInt 0)]"

definition sample_conditions :: obj where
  "sample_conditions = [(''configuration'', sample_declared), (''environment'', JObj [(''gc'', sample_gc)])]"

definition sample_result :: obj where
  "sample_result =
     [(''case'', JObj [(''client'', JStr ''foghttp''), (''mode'', JStr ''async''), (''case'', JStr ''stream-1m''), (''concurrency'', JInt 1)]),
      (''client_pid'', JInt 11), (''server_pid'', JInt 12),
      (''client_report'', JObj [(''status'', JStr ''ok''), (''config'', sample_declared), (''gc_configuration'', sample_gc),
         (''warmup'', JObj [(''rounds'', JInt 0), (''requests'', JInt 0), (''ok_streams'', JInt 0)]),
         (''batches'', JList [JObj sample_measured])])]"


text \<open>What a row needs not to be invalid; the other reasons ask for a rerun at most.\<close>

definition admitted :: "(string \<Rightarrow> string) \<Rightarrow> obj \<Rightarrow> bool" where
  "admitted sha256 row \<longleftrightarrow>
     (case positive_number (get row ''verified_bytes_s_median'') False of Inr (Some x) \<Rightarrow> True | _ \<Rightarrow> False) \<and>
     (case positive_number (get row ''verified_bytes_s_cv_percent'') True of Inr v \<Rightarrow> True | _ \<Rightarrow> False) \<and>
     (case resource_evidence_reasons row of Inr [] \<Rightarrow> True | _ \<Rightarrow> False) \<and>
     (case fingerprint_reasons sha256 row of [] \<Rightarrow> True | _ \<Rightarrow> False) \<and>
     \<not> workload_incomplete row (object_value (get row ''configuration'')) \<and>
     \<not> not_true row ''server_health_complete'' \<and> \<not> not_true row ''cpu_pid_identity_valid''"

lemma admitted_not_invalid:
  assumes "admitted sha256 row"
  shows "\<exists>reasons. attribution_row_reasons sha256 row = Inr reasons \<and> Invalid \<notin> vr_status ` set reasons"
proof -
  obtain x v where parts: "positive_number (get row ''verified_bytes_s_median'') False = Inr (Some x)"
      "positive_number (get row ''verified_bytes_s_cv_percent'') True = Inr v" "resource_evidence_reasons row = Inr []"
      "fingerprint_reasons sha256 row = []"
    and fine: "\<not> workload_incomplete row (object_value (get row ''configuration''))"
      "\<not> not_true row ''server_health_complete''" "\<not> not_true row ''cpu_pid_identity_valid''"
    using assms by (auto simp: admitted_def split: sum.splits option.splits list.splits)
  have rerun: "Invalid \<notin> vr_status ` set (if b then [reason NeedsRerun c m row] else [])" for b c m
    by (cases b) (simp_all add: reason_def make_reason_def)
  show ?thesis
    unfolding attribution_row_reasons_def Let_def parts bindE_simps
    by (intro exI conjI, rule refl) (simp only: fine if_False option.simps append_Nil append_Nil2 set_append image_Un Un_iff
      rerun list.set image_empty empty_iff simp_thms)
qed

text \<open>The row of one repetition of one stream of one byte.\<close>

lemma sample_row_admitted:
  "case aggregate_attribution_results (\<lambda>_. ''x'') (\<lambda>_. Fin 1) [sample_result] sample_conditions of
     Inr [row] \<Rightarrow> admitted (\<lambda>_. ''x'') row \<and> same_cell (case_of sample_result) row | _ \<Rightarrow> False"
  by code_simp

lemma attribution_row_measured_witness:
  "\<exists>row p. get row ''verified_bytes_total'' = JInt p \<and> verified_stream (\<lambda>_. ''x'') p sample_stream"
proof -
  obtain row where row: "aggregate_attribution_results (\<lambda>_. ''x'') (\<lambda>_. Fin 1) [sample_result] sample_conditions = Inr [row]"
      "admitted (\<lambda>_. ''x'') row" "same_cell (case_of sample_result) row"
    using sample_row_admitted by (auto split: sum.splits list.splits)
  obtain reasons where reasons: "attribution_row_reasons (\<lambda>_. ''x'') row = Inr reasons" "Invalid \<notin> vr_status ` set reasons"
    using admitted_not_invalid [OF row(2)] by blast
  have streams: "child_samples (report_of sample_result) = [sample_stream]"
    by (simp add: child_samples_def child_batches_def report_of_def sample_result_def sample_measured_def get_Cons)
  show ?thesis
    using attribution_row_measured [OF row(1) _ reasons refl refl] row(3) by (auto simp: streams)
qed

end
