(* ===== verification/Lifecycle_Sampling.thy ===== *)
theory Lifecycle_Sampling
  imports Attribution_Aggregation
begin

text \<open>
  isolation/lifecycle_resources.py: the samples the coordinator of a lifecycle case takes of its server and
  client processes. What the operating system answers to a probe is an input. A sampler keeps a bounded
  series, the peaks, and at each phase the change of the CPU counters; it reports a failure where it
  cannot enforce the ceiling of the resident memory or where the series is full.
\<close>

subsection \<open>A sample\<close>

record ResourceSample =
  sm_role :: string
  sm_pid :: int
  sm_monotonic_ns :: int
  sm_phase :: string
  sm_rss_bytes :: "int option"
  sm_threads :: "int option"
  sm_fds :: "int option"
  sm_cpu_user_s :: "pyfloat option"
  sm_cpu_system_s :: "pyfloat option"
  sm_probe_duration_ns :: int
  sm_process_terminated :: bool
  sm_termination_reason :: "string option"
  sm_unavailable :: "(string \<times> string) list"

definition sample_payload :: "ResourceSample \<Rightarrow> obj" where
  "sample_payload s =
     [(''role'', JStr (sm_role s)), (''pid'', JInt (sm_pid s)), (''monotonic_ns'', JInt (sm_monotonic_ns s)),
      (''phase'', JStr (sm_phase s)), (''rss_bytes'', optional_int (sm_rss_bytes s)),
      (''threads'', optional_int (sm_threads s)), (''fds'', optional_int (sm_fds s)),
      (''cpu_user_s'', optional_float (sm_cpu_user_s s)), (''cpu_system_s'', optional_float (sm_cpu_system_s s)),
      (''probe_duration_ns'', JInt (sm_probe_duration_ns s)), (''process_terminated'', JBool (sm_process_terminated s)),
      (''termination_reason'', optional_str (sm_termination_reason s)),
      (''unavailable'', JObj (map (\<lambda>(metric, reason). (metric, JStr reason)) (sm_unavailable s)))]"

text \<open>
  A probe, with the reason where psutil could not open the process and whether it was because there is no
  such process; and what one reading finds: values or the text of an exception, again with whether it
  says that there is no such process.\<close>

record ProcessResourceProbe =
  pb_role :: string
  pb_pid :: int
  pb_reason :: "(string \<times> bool) option"
  pb_completion :: bool
  pb_wait_for_exit :: bool

record probe_reading =
  rd_started_ns :: int
  rd_finished_ns :: int
  rd_rss :: "(string \<times> bool) + int"
  rd_threads :: "string + int"
  rd_fds :: "string + int"
  rd_cpu :: "string + (pyfloat \<times> pyfloat)"
  rd_returncode :: "int option"
  rd_exit :: "int option"

definition confirm_termination :: "ProcessResourceProbe \<Rightarrow> probe_reading \<Rightarrow> bool \<Rightarrow> ResourceSample \<Rightarrow> ResourceSample" where
  "confirm_termination probe r rss_exit_candidate s =
     (if \<not> rss_exit_candidate \<or> \<not> pb_completion probe then s
      else
        (case (if rd_returncode r = None \<and> pb_wait_for_exit probe then rd_exit r else rd_returncode r) of
           None \<Rightarrow> s
         | Some code \<Rightarrow> s\<lparr>sm_process_terminated := True,
             sm_termination_reason := Some (''Owned child exit around RSS probe; confirmed return code '' @ int_str code)\<rparr>))"

definition SAMPLE_METRICS :: "string list" where
  "SAMPLE_METRICS = [''rss_bytes'', ''threads'', ''fds'', ''cpu_user_s'', ''cpu_system_s'']"

definition unavailable_reasons :: "probe_reading \<Rightarrow> (string \<times> string) list" where
  "unavailable_reasons r =
     (case rd_rss r of Inl (why, gone) \<Rightarrow> [(''rss_bytes'', why)] | Inr _ \<Rightarrow> []) @
     (case rd_threads r of Inl why \<Rightarrow> [(''threads'', why)] | Inr _ \<Rightarrow> []) @
     (case rd_fds r of Inl why \<Rightarrow> [(''fds'', why)] | Inr _ \<Rightarrow> []) @
     (case rd_cpu r of Inl why \<Rightarrow> [(''cpu_user_s'', why), (''cpu_system_s'', why)] | Inr _ \<Rightarrow> [])"

definition reading :: "'e + 'a \<Rightarrow> 'a option" where
  "reading v = (case v of Inl _ \<Rightarrow> None | Inr x \<Rightarrow> Some x)"

definition probe_sample :: "ProcessResourceProbe \<Rightarrow> string \<Rightarrow> probe_reading \<Rightarrow> ResourceSample" where
  "probe_sample probe phase r =
     (let blank = \<lparr>sm_role = pb_role probe, sm_pid = pb_pid probe, sm_monotonic_ns = rd_started_ns r, sm_phase = phase,
            sm_rss_bytes = None, sm_threads = None, sm_fds = None, sm_cpu_user_s = None, sm_cpu_system_s = None,
            sm_probe_duration_ns = 0, sm_process_terminated = False, sm_termination_reason = None, sm_unavailable = []\<rparr>;
          timed = (\<lambda>s. s\<lparr>sm_probe_duration_ns := rd_finished_ns r - rd_started_ns r\<rparr>)
      in case pb_reason probe of
           Some (why, gone) \<Rightarrow>
             timed (confirm_termination probe r gone (blank\<lparr>sm_unavailable := map (\<lambda>metric. (metric, why)) SAMPLE_METRICS\<rparr>))
         | None \<Rightarrow>
             let s = blank\<lparr>sm_rss_bytes := reading (rd_rss r), sm_threads := reading (rd_threads r), sm_fds := reading (rd_fds r),
                   sm_cpu_user_s := map_option fst (reading (rd_cpu r)), sm_cpu_system_s := map_option snd (reading (rd_cpu r)),
                   sm_unavailable := unavailable_reasons r\<rparr>;
                 zero = (sm_rss_bytes s = Some 0)
             in timed (confirm_termination probe r (zero \<or> (case rd_rss r of Inl (_, gone) \<Rightarrow> gone | Inr _ \<Rightarrow> False))
                  (if zero then s\<lparr>sm_rss_bytes := None, sm_unavailable := AList.update ''rss_bytes''
                     ''RSS probe returned zero; live process memory is unavailable'' (sm_unavailable s)\<rparr> else s)))"

subsection \<open>Changes of the CPU counters\<close>

definition counter_delta :: "string \<Rightarrow> pyfloat option \<Rightarrow> pyfloat option \<Rightarrow> ResourceSample \<Rightarrow> ResourceSample \<Rightarrow> string + pyfloat" where
  "counter_delta attribute start finish before after =
     (case (start, finish) of
        (Some a, Some b) \<Rightarrow> if flt b a then Inl ''CPU counter decreased; phase delta is unavailable'' else Inr (fsub b a)
      | _ \<Rightarrow> Inl (case map_of (sm_unavailable before) attribute of
            Some why \<Rightarrow> if why \<noteq> [] then why else
              (case map_of (sm_unavailable after) attribute of Some why' \<Rightarrow> why' | None \<Rightarrow> ''Unavailable'')
          | None \<Rightarrow> (case map_of (sm_unavailable after) attribute of Some why' \<Rightarrow> why' | None \<Rightarrow> ''Unavailable'')))"

definition cpu_delta :: "ResourceSample \<Rightarrow> ResourceSample \<Rightarrow> obj" where
  "cpu_delta before after =
     (let user = counter_delta ''cpu_user_s'' (sm_cpu_user_s before) (sm_cpu_user_s after) before after;
          sys = counter_delta ''cpu_system_s'' (sm_cpu_system_s before) (sm_cpu_system_s after) before after;
          missing = (\<lambda>output d. case d of Inl why \<Rightarrow> [(output, JStr why)] | Inr _ \<Rightarrow> [])
      in [(''role'', JStr (sm_role after)), (''pid'', JInt (sm_pid after)), (''from_phase'', JStr (sm_phase before)),
          (''to_phase'', JStr (sm_phase after)), (''user_s'', optional_float (reading user)),
          (''system_s'', optional_float (reading sys)),
          (''unavailable'', JObj (missing ''user_s'' user @ missing ''system_s'' sys))])"

subsection \<open>The sampler\<close>

record sampled_peaks =
  pk_rss_bytes :: "int option"
  pk_threads :: "int option"
  pk_fds :: "int option"

record LifecycleResourceSampler =
  sl_interval_s :: json
  sl_max_samples :: int
  sl_rss_ceiling_bytes :: int
  sl_probes :: "(string \<times> ProcessResourceProbe) list"
  sl_samples :: "obj list"
  sl_phases :: "obj list"
  sl_cpu_phase_deltas :: "obj list"
  sl_previous_phase :: "(string \<times> ResourceSample) list"
  sl_peaks :: "(string \<times> sampled_peaks) list"
  sl_truncated :: bool

definition new_sampler :: "json \<Rightarrow> int \<Rightarrow> int \<Rightarrow> LifecycleResourceSampler" where
  "new_sampler interval_s max_samples rss_ceiling_bytes =
     \<lparr>sl_interval_s = interval_s, sl_max_samples = max_samples, sl_rss_ceiling_bytes = rss_ceiling_bytes, sl_probes = [],
      sl_samples = [], sl_phases = [], sl_cpu_phase_deltas = [], sl_previous_phase = [], sl_peaks = [], sl_truncated = False\<rparr>"

definition no_peaks :: sampled_peaks where
  "no_peaks = \<lparr>pk_rss_bytes = None, pk_threads = None, pk_fds = None\<rparr>"

definition attach :: "ProcessResourceProbe \<Rightarrow> LifecycleResourceSampler \<Rightarrow> LifecycleResourceSampler" where
  "attach probe s =
     s\<lparr>sl_probes := AList.update (pb_role probe) probe (sl_probes s),
       sl_peaks := AList.update (pb_role probe) no_peaks (sl_peaks s)\<rparr>"

definition raise_peak :: "int option \<Rightarrow> int option \<Rightarrow> int option" where
  "raise_peak previous v =
     (case v of None \<Rightarrow> previous | Some x \<Rightarrow> (case previous of None \<Rightarrow> Some x | Some y \<Rightarrow> Some (max x y)))"

definition raise_peaks :: "ResourceSample \<Rightarrow> sampled_peaks \<Rightarrow> sampled_peaks" where
  "raise_peaks s p =
     \<lparr>pk_rss_bytes = raise_peak (pk_rss_bytes p) (sm_rss_bytes s), pk_threads = raise_peak (pk_threads p) (sm_threads s),
      pk_fds = raise_peak (pk_fds p) (sm_fds s)\<rparr>"

text \<open>Where the resident memory of a sample is above the ceiling, or unknown while the process may live.\<close>

definition rss_failure :: "int \<Rightarrow> string \<Rightarrow> ResourceSample \<Rightarrow> string list result" where
  "rss_failure limit role s =
     (case sm_rss_bytes s of
        Some rss \<Rightarrow> Inr (if limit < rss
          then [role @ '' PID '' @ int_str (sm_pid s) @ '' exceeded RSS ceiling '' @ int_str limit @ '' bytes''] else [])
      | None \<Rightarrow>
          if sm_process_terminated s then Inr []
          else bindE (dict_item (sm_unavailable s) ''rss_bytes'') (\<lambda>why.
            Inr [''Cannot enforce RSS ceiling for '' @ role @ '' PID '' @ int_str (sm_pid s) @ '': '' @ why]))"

definition observe_sample ::
  "LifecycleResourceSampler \<times> string list \<Rightarrow> string \<times> ResourceSample \<Rightarrow> (LifecycleResourceSampler \<times> string list) result"
where
  "observe_sample state seen =
     (case (state, seen) of ((s, failures), (role, sample)) \<Rightarrow>
        let room = (int (length (sl_samples s)) < sl_max_samples s);
            full = (if room \<or> sl_truncated s then [] else [''Resource sample cap reached; incomplete series'']);
            s' = (if room then s\<lparr>sl_samples := sl_samples s @ [sample_payload sample]\<rparr> else s\<lparr>sl_truncated := True\<rparr>)
        in bindE (dict_item (sl_peaks s') role) (\<lambda>peaks.
           bindE (rss_failure (sl_rss_ceiling_bytes s) role sample) (\<lambda>rss.
             Inr (s'\<lparr>sl_peaks := AList.update role (raise_peaks sample peaks) (sl_peaks s')\<rparr>, failures @ full @ rss))))"

definition observations :: "LifecycleResourceSampler \<Rightarrow> string \<Rightarrow> (string \<Rightarrow> probe_reading) \<Rightarrow> (string \<times> ResourceSample) list" where
  "observations s phase readings = map (\<lambda>(role, probe). (role, probe_sample probe phase (readings role))) (sl_probes s)"

definition take_sample ::
  "LifecycleResourceSampler \<Rightarrow> string \<Rightarrow> (string \<Rightarrow> probe_reading) \<Rightarrow> (LifecycleResourceSampler \<times> string list) result"
where
  "take_sample s phase readings = foldE observe_sample (s, []) (observations s phase readings)"

definition phase_delta :: "LifecycleResourceSampler \<Rightarrow> string \<times> ResourceSample \<Rightarrow> obj list" where
  "phase_delta s seen =
     (case map_of (sl_previous_phase s) (fst seen) of None \<Rightarrow> [] | Some previous \<Rightarrow> [cpu_delta previous (snd seen)])"

text \<open>A phase marker, whose phase \<open>check_marker\<close> has found to be a string.\<close>

definition mark ::
  "LifecycleResourceSampler \<Rightarrow> obj \<Rightarrow> string \<Rightarrow> (string \<Rightarrow> probe_reading) \<Rightarrow> (LifecycleResourceSampler \<times> string list) result"
where
  "mark s marker phase readings =
     bindE (take_sample s phase readings) (\<lambda>(s', failures).
       let seen = observations s phase readings;
           entry = dict_update [(''sequence'', get marker ''sequence''), (''phase'', JStr phase), (''worker'', JObj marker)]
             (map (\<lambda>(role, sample). (role, JObj (sample_payload sample))) seen)
       in Inr (s'\<lparr>sl_phases := sl_phases s' @ [entry],
            sl_cpu_phase_deltas := sl_cpu_phase_deltas s' @ concat (map (phase_delta s') seen),
            sl_previous_phase := dict_update (sl_previous_phase s') seen\<rparr>, failures))"

definition role_intervals :: "obj list \<Rightarrow> string \<Rightarrow> pyfloat list result" where
  "role_intervals samples role =
     (let timestamps = map (\<lambda>item. int_value (get item ''monotonic_ns'')) (filter (\<lambda>item. get item ''role'' = JStr role) samples)
      in mapE (\<lambda>(start, finish). seconds_between start finish) (zip timestamps (tl timestamps)))"

definition observed_intervals :: "LifecycleResourceSampler \<Rightarrow> obj result" where
  "observed_intervals s =
     mapE (\<lambda>(role, probe).
       bindE (role_intervals (sl_samples s) role) (\<lambda>intervals.
       bindE (optional_median (map Some intervals)) (\<lambda>median.
         Inr (role, JObj
           [(''count'', JInt (int (length intervals))), (''min'', optional_float (minimum_optional (map Some intervals))),
            (''max'', optional_float (maximum_optional (map Some intervals))), (''median'', optional_float median),
            (''includes_phase_barrier_samples'', JBool True)])))) (sl_probes s)"

definition peaks_json :: "sampled_peaks \<Rightarrow> json" where
  "peaks_json p =
     JObj [(''rss_bytes'', optional_int (pk_rss_bytes p)), (''threads'', optional_int (pk_threads p)),
       (''fds'', optional_int (pk_fds p))]"

definition sampler_payload :: "LifecycleResourceSampler \<Rightarrow> obj result" where
  "sampler_payload s =
     bindE (observed_intervals s) (\<lambda>intervals.
       Inr [(''scope'', JStr ''separate-client-server-processes''), (''sample_interval_s'', sl_interval_s s),
         (''max_samples'', JInt (sl_max_samples s)), (''rss_ceiling_bytes'', JInt (sl_rss_ceiling_bytes s)),
         (''units'', JObj [(''rss_bytes'', JStr ''bytes''), (''cpu_user_s'', JStr ''seconds''), (''cpu_system_s'', JStr ''seconds'')]),
         (''sampling_location'', JStr ''parent-process-outside-client-event-loop''),
         (''peak_limitation'', JStr ''Sampled peaks can miss events shorter than the observed sampling intervals''),
         (''samples'', JList (map JObj (sl_samples s))), (''phases'', JList (map JObj (sl_phases s))),
         (''cpu_phase_deltas'', JList (map JObj (sl_cpu_phase_deltas s))),
         (''sampled_peaks'', JObj (map (\<lambda>(role, p). (role, peaks_json p)) (sl_peaks s))),
         (''observed_intervals_s'', JObj intervals),
         (''rss_ceiling_scope'', JStr ''Observed per-PID samples; peaks between probes may exceed the declared ceiling''),
         (''probe_overhead'', JStr ''Per-sample probe_duration_ns records parent-side probe cost; it is not zero''),
         (''exit_confirmation_timeout_s'', JFloat (round64 (5 / 100))), (''truncated'', JBool (sl_truncated s))])"

subsection \<open>Samples within the bounds\<close>

lemma confirm_termination_keeps [simp]:
  "sm_rss_bytes (confirm_termination probe r c s) = sm_rss_bytes s"
  "sm_unavailable (confirm_termination probe r c s) = sm_unavailable s"
  by (simp_all add: confirm_termination_def split: option.split)

text \<open>A missing value has a reason, so that the sampler never fails to find it.\<close>

lemma probe_sample_reason:
  assumes "sm_rss_bytes (probe_sample probe phase r) = None"
  shows "map_of (sm_unavailable (probe_sample probe phase r)) ''rss_bytes'' \<noteq> None"
proof (cases "pb_reason probe")
  case None
  then show ?thesis using assms
    by (cases "rd_rss r") (auto simp: probe_sample_def Let_def unavailable_reasons_def reading_def)
next
  case (Some why)
  then show ?thesis by (cases why) (simp add: probe_sample_def Let_def SAMPLE_METRICS_def)
qed

text \<open>The resident memory is known and not above the ceiling, or the process had ended.\<close>

definition bounded_sample :: "int \<Rightarrow> obj \<Rightarrow> bool" where
  "bounded_sample limit d \<longleftrightarrow>
     (case get d ''rss_bytes'' of JInt rss \<Rightarrow> rss \<le> limit | JNull \<Rightarrow> get d ''process_terminated'' = JBool True | _ \<Rightarrow> False)"

definition bounded_peak :: "int \<Rightarrow> sampled_peaks \<Rightarrow> bool" where
  "bounded_peak limit p \<longleftrightarrow> (case pk_rss_bytes p of None \<Rightarrow> True | Some rss \<Rightarrow> rss \<le> limit)"

definition within_bounds :: "LifecycleResourceSampler \<Rightarrow> bool" where
  "within_bounds s \<longleftrightarrow>
     \<not> sl_truncated s \<and> int (length (sl_samples s)) \<le> max 0 (sl_max_samples s) \<and>
     list_all (bounded_sample (sl_rss_ceiling_bytes s)) (sl_samples s) \<and>
     list_all (\<lambda>(role, p). bounded_peak (sl_rss_ceiling_bytes s) p) (sl_peaks s)"

text \<open>What no sample changes.\<close>

definition same_setting :: "LifecycleResourceSampler \<Rightarrow> LifecycleResourceSampler \<Rightarrow> bool" where
  "same_setting s t \<longleftrightarrow>
     sl_max_samples t = sl_max_samples s \<and> sl_rss_ceiling_bytes t = sl_rss_ceiling_bytes s \<and>
     sl_interval_s t = sl_interval_s s \<and> sl_probes t = sl_probes s \<and> sl_phases t = sl_phases s"

lemma rss_failure_bounded:
  assumes "rss_failure limit role s = Inr []"
  shows "bounded_sample limit (sample_payload s)" "bounded_peak limit p \<Longrightarrow> bounded_peak limit (raise_peaks s p)"
  using assms
  by (auto simp: rss_failure_def bounded_sample_def sample_payload_def get_Cons optional_int_def bounded_peak_def raise_peaks_def
      raise_peak_def bindE_ok split: option.splits if_splits)

lemma observe_sample_bounded:
  assumes "observe_sample (s, failures) (role, sample) = Inr (t, failures')"
  shows "same_setting s t \<and> (\<exists>more. failures' = failures @ more \<and> (more = [] \<longrightarrow> within_bounds s \<longrightarrow> within_bounds t))"
proof -
  define room where "room \<longleftrightarrow> int (length (sl_samples s)) < sl_max_samples s"
  define s' where "s' = (if room then s\<lparr>sl_samples := sl_samples s @ [sample_payload sample]\<rparr> else s\<lparr>sl_truncated := True\<rparr>)"
  define full where "full = (if room \<or> sl_truncated s then [] else [''Resource sample cap reached; incomplete series''])"
  obtain peaks rss where parts: "map_of (sl_peaks s') role = Some peaks" "rss_failure (sl_rss_ceiling_bytes s) role sample = Inr rss"
      "t = s'\<lparr>sl_peaks := AList.update role (raise_peaks sample peaks) (sl_peaks s')\<rparr>" "failures' = failures @ full @ rss"
    using assms by (auto simp: observe_sample_def bindE_ok dict_item_def Let_def s'_def full_def room_def split: option.splits)
  have "within_bounds t" if none: "full @ rss = []" and within: "within_bounds s"
  proof -
    have room: room using none within by (auto simp: full_def within_bounds_def split: if_splits)
    have rss: "rss_failure (sl_rss_ceiling_bytes s) role sample = Inr []" using parts(2) none by simp
    have "(role, peaks) \<in> set (sl_peaks s)" using parts(1) room by (auto simp: s'_def dest: map_of_SomeD)
    then have "bounded_peak (sl_rss_ceiling_bytes s) peaks" using within by (auto simp: within_bounds_def list_all_iff)
    then have "list_all (\<lambda>(role, p). bounded_peak (sl_rss_ceiling_bytes s) p)
        (AList.update role (raise_peaks sample peaks) (sl_peaks s))"
      using within rss_failure_bounded(2) [OF rss] set_update [of role "raise_peaks sample peaks" "sl_peaks s"]
      by (auto simp: within_bounds_def list_all_iff)
    with within room rss_failure_bounded(1) [OF rss] show ?thesis
      by (simp add: within_bounds_def parts(3) s'_def) (simp add: room_def)
  qed
  then show ?thesis by (auto simp: parts(3,4) same_setting_def s'_def)
qed

lemma take_samples_bounded:
  assumes "foldE observe_sample (s, failures) seen = Inr (t, failures')"
  shows "same_setting s t \<and> (\<exists>more. failures' = failures @ more \<and> (more = [] \<longrightarrow> within_bounds s \<longrightarrow> within_bounds t))"
  using assms
proof (induction seen arbitrary: s failures)
  case (Cons item seen)
  obtain role sample where item: "item = (role, sample)" by (cases item)
  obtain u middle where u: "observe_sample (s, failures) (role, sample) = Inr (u, middle)"
      "foldE observe_sample (u, middle) seen = Inr (t, failures')"
    using Cons.prems by (auto simp: item bindE_ok)
  from observe_sample_bounded [OF u(1)] Cons.IH [OF u(2)] show ?case by (auto simp: same_setting_def)
qed (simp add: same_setting_def)

lemma take_sample_bounded:
  assumes "take_sample s phase readings = Inr (t, failures)"
  shows "same_setting s t" "failures = [] \<Longrightarrow> within_bounds s \<Longrightarrow> within_bounds t"
  using take_samples_bounded [OF assms [unfolded take_sample_def]] by auto

lemma mark_bounded:
  assumes "mark s marker phase readings = Inr (t, failures)" "''sequence'' \<notin> fst ` set (sl_probes s)"
  shows "sl_max_samples t = sl_max_samples s \<and> sl_rss_ceiling_bytes t = sl_rss_ceiling_bytes s \<and> sl_probes t = sl_probes s"
    and "failures = [] \<Longrightarrow> within_bounds s \<Longrightarrow> within_bounds t"
    and "\<exists>d. sl_phases t = sl_phases s @ [d] \<and> get d ''sequence'' = get marker ''sequence''"
proof -
  let ?entry = "dict_update [(''sequence'', get marker ''sequence''), (''phase'', JStr phase), (''worker'', JObj marker)]
    (map (\<lambda>(role, sample). (role, JObj (sample_payload sample))) (observations s phase readings))"
  obtain u where u: "take_sample s phase readings = Inr (u, failures)"
    "t = u\<lparr>sl_phases := sl_phases u @ [?entry], sl_cpu_phase_deltas := sl_cpu_phase_deltas u @
        concat (map (phase_delta u) (observations s phase readings)),
      sl_previous_phase := dict_update (sl_previous_phase u) (observations s phase readings)\<rparr>"
    using assms(1) by (auto simp: mark_def bindE_ok Let_def)
  note bounded = take_sample_bounded [OF u(1)]
  then show "sl_max_samples t = sl_max_samples s \<and> sl_rss_ceiling_bytes t = sl_rss_ceiling_bytes s \<and> sl_probes t = sl_probes s"
    by (simp add: u(2) same_setting_def)
  show "within_bounds t" if "failures = []" "within_bounds s"
    using bounded(2) [OF that] by (simp add: u(2) within_bounds_def)
  have "fst ` set (map (\<lambda>(role, sample). (role, JObj (sample_payload sample))) (observations s phase readings)) = fst ` set (sl_probes s)"
    by (force simp: observations_def image_iff)
  then have "map_of (rev (map (\<lambda>(role, sample). (role, JObj (sample_payload sample))) (observations s phase readings))) ''sequence'' = None"
    using assms(2) by (simp add: map_of_eq_None_iff)
  then have "get ?entry ''sequence'' = get marker ''sequence''" by (simp add: get_dict_update get_Cons)
  with bounded(1) show "\<exists>d. sl_phases t = sl_phases s @ [d] \<and> get d ''sequence'' = get marker ''sequence''"
    by (simp add: u(2) same_setting_def)
qed

lemma take_sample_total:
  assumes "fst ` set (sl_probes s) \<subseteq> fst ` set (sl_peaks s)"
  shows "\<exists>t failures. take_sample s phase readings = Inr (t, failures)"
proof -
  have "\<exists>t failures'. foldE observe_sample (u, failures) seen = Inr (t, failures')"
    if "fst ` set seen \<subseteq> fst ` set (sl_peaks u)"
      "\<forall>(role, sample) \<in> set seen. \<exists>probe r. sample = probe_sample probe phase r" for u failures seen
    using that
  proof (induction seen arbitrary: u failures)
    case (Cons item seen)
    obtain role sample where item: "item = (role, sample)" by (cases item)
    obtain peaks where peaks: "map_of (sl_peaks u) role = Some peaks"
      using Cons.prems(1) by (auto simp: item dest!: weak_map_of_SomeI)
    obtain probe r where probe: "sample = probe_sample probe phase r" using Cons.prems(2) by (auto simp: item)
    have "\<exists>rss. rss_failure (sl_rss_ceiling_bytes u) role sample = Inr rss"
    proof (cases "sm_rss_bytes sample")
      case None
      then obtain why where "map_of (sm_unavailable sample) ''rss_bytes'' = Some why" using probe_sample_reason probe by blast
      with None show ?thesis by (simp add: rss_failure_def dict_item_def)
    qed (simp add: rss_failure_def)
    then obtain rss where rss: "rss_failure (sl_rss_ceiling_bytes u) role sample = Inr rss" ..
    obtain v more where v: "observe_sample (u, failures) item = Inr (v, more)" "fst ` set (sl_peaks u) \<subseteq> fst ` set (sl_peaks v)"
    proof -
      have "map_of (sl_peaks (u\<lparr>sl_samples := x\<rparr>)) role = Some peaks" "map_of (sl_peaks (u\<lparr>sl_truncated := True\<rparr>)) role = Some peaks" for x
        using peaks by simp_all
      then show thesis
        using that rss unfolding item observe_sample_def Let_def dict_item_def
        by (cases "int (length (sl_samples u)) < sl_max_samples u") (auto simp: dom_update)
    qed
    show ?case using v Cons.IH [of v more] Cons.prems by auto
  qed simp
  moreover have "fst ` set (observations s phase readings) = fst ` set (sl_probes s)"
    by (force simp: observations_def image_iff)
  moreover have "\<forall>(role, sample) \<in> set (observations s phase readings). \<exists>probe r. sample = probe_sample probe phase r"
    by (auto simp: observations_def)
  ultimately show ?thesis using assms unfolding take_sample_def by simp
qed

end
