(* ===== verification/Lifecycle_Coordinator.thy ===== *)
theory Lifecycle_Coordinator
  imports Lifecycle_Sampling
begin

text \<open>
  isolation/lifecycle.py: the coordinator of one lifecycle case. It starts a server process and a client
  process, answers the phase markers of the client, samples both processes, and writes a receipt. What the
  coordinator meets is an input: the results of starting and polling the processes, the clock, the files it
  finds, the answers to its probes, and what signalling the process groups returned. The sessions of the
  native profilers are left out, and so is the cancellation of the coordinator.
\<close>

definition STARTUP_TIMEOUT_S :: pyfloat where "STARTUP_TIMEOUT_S = Fin 5"
definition MAX_CONTROL_BYTES :: int where "MAX_CONTROL_BYTES = 65536"
definition MAX_REPORT_BYTES :: int where "MAX_REPORT_BYTES = 16 * 1024 * 1024"
definition MAX_PHASES :: int where "MAX_PHASES = 256"
definition MAX_PHASE_NAME :: int where "MAX_PHASE_NAME = 128"

subsection \<open>Commands\<close>

definition server_command :: "string \<Rightarrow> LifecycleConfig \<Rightarrow> string \<Rightarrow> string list" where
  "server_command executable config ready_file =
     [executable, ''-m'', ''foghttp_benchmark.streaming.lifecycle_server'', ''--ready-file'', ready_file,
      ''--body-bytes'', py_str (lc_body_bytes config), ''--write-bytes'', py_str (lc_server_write_bytes config)] @
     (case lc_attribution config of
        None \<Rightarrow> []
      | Some a \<Rightarrow> [''--bytes-measurement'', ''--write-delay-s'', py_str (ac_server_delay_s a)] @
          (if truthy (ac_server_observations a) then [] else [''--no-body-observations'']))"

definition client_command :: "string \<Rightarrow> string \<Rightarrow> string \<Rightarrow> string \<Rightarrow> string \<Rightarrow> string list" where
  "client_command executable case_file server_url control_dir output =
     [executable, ''-m'', ''foghttp_benchmark.streaming.lifecycle_worker'', ''--case-file'', case_file,
      ''--server-url'', server_url, ''--control-dir'', control_dir, ''--output'', output]"

subsection \<open>Files\<close>

text \<open>A file the coordinator reads: its name, its size, and what decoding and parsing its text gives.\<close>

record stored_file =
  sf_name :: string
  sf_bytes :: int
  sf_value :: "json result"

definition read_object :: "int \<Rightarrow> stored_file \<Rightarrow> obj result" where
  "read_object max_bytes f =
     bindE (raise_if (max_bytes < sf_bytes f) (ValueError (''JSON exceeds '' @ int_str max_bytes @ '' bytes: '' @ sf_name f))) (\<lambda>_.
     bindE (sf_value f) (\<lambda>v.
       case v of JObj d \<Rightarrow> Inr d | _ \<Rightarrow> Inl (TypeError (''Expected a JSON object in '' @ sf_name f))))"

subsection \<open>Process groups\<close>

text \<open>
  What looking at one process finds; what \<^verbatim>\<open>os.killpg\<close> did and, where it was refused, whether the direct child
  exited in time and what the processes were at each turn of the loop before its deadline.\<close>

datatype member_look =
    OtherGroup
  | LiveMember
  | DeadMember
  | Vanished
  | Uninspectable string

datatype signal_outcome =
    Signalled
  | NoGroup
  | Refused string bool "member_look list list"
  | SignalFailed string

record owned_process =
  op_role :: string
  op_pid :: int

fun group_has_live_members :: "int \<Rightarrow> member_look list \<Rightarrow> bool result" where
  "group_has_live_members gid [] = Inr False"
| "group_has_live_members gid (look # looks) =
     (case look of
        LiveMember \<Rightarrow> Inr True
      | Uninspectable why \<Rightarrow>
          Inl (RuntimeError (''Cannot inspect possible owned process group '' @ int_str gid @ '': '' @ why))
      | _ \<Rightarrow> group_has_live_members gid looks)"

fun group_quiescent :: "int \<Rightarrow> member_look list list \<Rightarrow> bool result" where
  "group_quiescent gid [] = Inr False"
| "group_quiescent gid (turn # turns) =
     bindE (group_has_live_members gid turn) (\<lambda>live. if live then group_quiescent gid turns else Inr True)"

definition group_quiescent_after_exit :: "owned_process \<Rightarrow> bool \<Rightarrow> member_look list list \<Rightarrow> bool result" where
  "group_quiescent_after_exit owned exited turns = (if exited then group_quiescent (op_pid owned) turns else Inr False)"

definition signal_owned_group :: "owned_process \<Rightarrow> signal_outcome \<Rightarrow> string option" where
  "signal_owned_group owned outcome =
     (let refused = (\<lambda>why. ''Cannot signal owned '' @ op_role owned @ '' group '' @ int_str (op_pid owned) @ '': '' @ why)
      in case outcome of
           Signalled \<Rightarrow> None
         | NoGroup \<Rightarrow> None
         | SignalFailed why \<Rightarrow> Some (refused why)
         | Refused why exited turns \<Rightarrow>
             (case group_quiescent_after_exit owned exited turns of
                Inr True \<Rightarrow> None
              | Inr False \<Rightarrow> Some (refused why)
              | Inl e \<Rightarrow> Some (''Cannot verify owned group '' @ int_str (op_pid owned) @ '' after '' @ why @ '': '' @ error_message e)))"

text \<open>Whether the child was reaped in time, or else what killing it raised.\<close>

definition wait_owned_child :: "owned_process \<Rightarrow> string option \<Rightarrow> string option" where
  "wait_owned_child owned problem =
     map_option (\<lambda>why. ''Cannot reap owned '' @ op_role owned @ '' PID '' @ int_str (op_pid owned) @ '': '' @ why) problem"

record reaping =
  rp_terminated :: signal_outcome
  rp_killed :: signal_outcome
  rp_unreaped :: "string option"

definition reap_processes :: "(owned_process \<times> reaping) list \<Rightarrow> unit result" where
  "reap_processes processes =
     (let failures = List.map_filter (\<lambda>(owned, r). signal_owned_group owned (rp_terminated r)) processes @
            List.map_filter (\<lambda>(owned, r). signal_owned_group owned (rp_killed r)) processes @
            List.map_filter (\<lambda>(owned, r). wait_owned_child owned (rp_unreaped r)) processes
      in raise_if (failures \<noteq> []) (RuntimeError (join ''; '' failures)))"

subsection \<open>Phase markers\<close>

record coordination =
  cn_sampler :: LifecycleResourceSampler
  cn_acks :: "int list"

definition check_marker ::
  "stored_file option \<Rightarrow> (string \<Rightarrow> probe_reading) \<Rightarrow> int \<Rightarrow> coordination \<Rightarrow> (int \<times> string list \<times> coordination) result"
where
  "check_marker file readings sequence c =
     (case file of
        None \<Rightarrow> Inr (sequence, [], c)
      | Some f \<Rightarrow>
          bindE (read_object MAX_CONTROL_BYTES f) (\<lambda>marker.
          bindE (raise_if (\<not> type_is_int (get marker ''sequence'') \<or> int_value (get marker ''sequence'') < 1)
            (ValueError ''Invalid phase marker sequence'')) (\<lambda>_.
            let next_sequence = int_value (get marker ''sequence'')
            in if next_sequence = sequence then Inr (sequence, [], c)
               else
                 bindE (raise_if (next_sequence \<noteq> sequence + 1 \<or> MAX_PHASES < next_sequence)
                   (ValueError ''Out-of-order or excessive phase markers'')) (\<lambda>_.
                   case get marker ''phase'' of
                     JStr phase \<Rightarrow>
                       bindE (raise_if (phase = [] \<or> MAX_PHASE_NAME < int (length phase))
                         (ValueError ''Invalid phase marker name'')) (\<lambda>_.
                       bindE (mark (cn_sampler c) marker phase readings) (\<lambda>(s, failures).
                         Inr (next_sequence, failures, \<lparr>cn_sampler = s, cn_acks = cn_acks c @ [next_sequence]\<rparr>)))
                   | _ \<Rightarrow> Inl (ValueError ''Invalid phase marker name'')))))"

subsection \<open>Starting the server\<close>

text \<open>
  A turn of the startup loop: the clock in its condition, what polling the server returned, the clock
  before and after a sample, the answers to the probes, and the readiness file.\<close>

record startup_turn =
  st_now :: pyfloat
  st_server :: "int option"
  st_check :: pyfloat
  st_readings :: "string \<Rightarrow> probe_reading"
  st_after :: pyfloat
  st_ready :: "stored_file option"

text \<open>The parts of a URL, as \<^verbatim>\<open>urllib.parse.urlsplit\<close> finds them; reading the port can raise.\<close>

record url_parts =
  up_scheme :: string
  up_hostname :: "string option"
  up_port :: "int option result"

definition ready_url :: "(string \<Rightarrow> url_parts result) \<Rightarrow> int \<Rightarrow> obj \<Rightarrow> string result" where
  "ready_url urlsplit pid ready =
     (let mismatch = ValueError ''Server readiness identity or loopback URL mismatch''
      in case get ready ''url'' of
           JStr url \<Rightarrow>
             bindE (urlsplit url) (\<lambda>parsed.
             bindE (raise_if (\<not> py_eq (get ready ''pid'') (JInt pid) \<or> up_hostname parsed \<noteq> Some ''127.0.0.1'') mismatch) (\<lambda>_.
             bindE (if up_scheme parsed \<noteq> ''http'' then Inr True else bindE (up_port parsed) (\<lambda>port. Inr (port = None))) (\<lambda>other.
             bindE (raise_if other (ValueError ''Server readiness must describe a local HTTP endpoint'')) (\<lambda>_.
               Inr url))))
         | _ \<Rightarrow> Inl mismatch)"

text \<open>\<open>None\<close> for turns that end before the loop does.\<close>

fun await_server ::
  "(string \<Rightarrow> url_parts result) \<Rightarrow> int \<Rightarrow> pyfloat \<Rightarrow> startup_turn list \<Rightarrow> pyfloat \<Rightarrow> LifecycleResourceSampler \<Rightarrow>
   (LifecycleResourceSampler \<times> string result) option"
where
  "await_server urlsplit pid deadline [] next_sample s = None"
| "await_server urlsplit pid deadline (t # turns) next_sample s =
     (if \<not> flt (st_now t) deadline then Some (s, Inl (OSError ''TimeoutError'' ''Server startup timeout or case deadline exceeded''))
      else
        (case st_server t of
           Some code \<Rightarrow> Some (s, Inl (RuntimeError (''Server exited during startup with code '' @ int_str code)))
         | None \<Rightarrow>
             (case (if fle next_sample (st_check t)
                    then bindE (take_sample s ''server-startup'' (st_readings t)) (\<lambda>(s', failures).
                      Inr (s', failures, fadd (st_after t) (num (sl_interval_s s'))))
                    else Inr (s, [], next_sample)) of
                Inl e \<Rightarrow> Some (s, Inl e)
              | Inr (s', failure # _, _) \<Rightarrow> Some (s', Inl (RuntimeError failure))
              | Inr (s', [], later) \<Rightarrow>
                  (case st_ready t of
                     Some f \<Rightarrow> Some (s', bindE (read_object MAX_CONTROL_BYTES f) (ready_url urlsplit pid))
                   | None \<Rightarrow> await_server urlsplit pid deadline turns later s'))))"

subsection \<open>Watching the client\<close>

text \<open>A turn of the monitoring loop; in the last one the client has exited, and nothing but the marker,
  its probes and the server is looked at.\<close>

record monitor_turn =
  mt_client :: "int option"
  mt_now :: pyfloat
  mt_server :: "int option"
  mt_marker :: "stored_file option"
  mt_mark_readings :: "string \<Rightarrow> probe_reading"
  mt_check :: pyfloat
  mt_report :: "(int \<times> stored_file) option"
  mt_readings :: "string \<Rightarrow> probe_reading"
  mt_after :: pyfloat

definition worker_reap_request :: "(int \<times> stored_file) option \<Rightarrow> int \<Rightarrow> (int \<times> string option) result" where
  "worker_reap_request report previous_stamp =
     (case report of
        None \<Rightarrow> Inr (previous_stamp, None)
      | Some (stamp, f) \<Rightarrow>
          if stamp = previous_stamp then Inr (stamp, None)
          else bindE (read_object MAX_REPORT_BYTES f) (\<lambda>payload.
            let reason = get payload ''force_reap_reason''
            in Inr (stamp, if truthy reason then Some (''Client requested forced process cleanup: '' @ py_str reason) else None)))"

definition current_phase :: "LifecycleResourceSampler \<Rightarrow> string" where
  "current_phase s = (if sl_phases s = [] then ''client-startup'' else py_str (get (last (sl_phases s)) ''phase''))"

text \<open>The periodic part of a turn: the request for a forced cleanup, then a sample.\<close>

definition periodic ::
  "monitor_turn \<Rightarrow> pyfloat \<Rightarrow> int \<Rightarrow> coordination \<Rightarrow> (string list \<times> pyfloat \<times> int \<times> coordination) result"
where
  "periodic t next_sample stamp c =
     (if \<not> fle next_sample (mt_check t) then Inr ([], next_sample, stamp, c)
      else
        bindE (worker_reap_request (mt_report t) stamp) (\<lambda>(stamp', force_reap).
          case force_reap of
            Some why \<Rightarrow> Inr ([why], next_sample, stamp', c)
          | None \<Rightarrow>
              bindE (take_sample (cn_sampler c) (current_phase (cn_sampler c)) (mt_readings t)) (\<lambda>(s, failures).
                Inr (failures, fadd (mt_after t) (num (sl_interval_s s)), stamp', c\<lparr>cn_sampler := s\<rparr>))))"

definition exit_failures :: "monitor_turn \<Rightarrow> int \<Rightarrow> string list" where
  "exit_failures t code =
     (case mt_server t of Some n \<Rightarrow> [''Server exited before owned shutdown with code '' @ int_str n] | None \<Rightarrow> []) @
     (if code \<noteq> 0 then [''Client exited with code '' @ int_str code] else [])"

fun monitor_client ::
  "pyfloat \<Rightarrow> monitor_turn list \<Rightarrow> int \<Rightarrow> int \<Rightarrow> pyfloat \<Rightarrow> coordination \<Rightarrow> (coordination \<times> string list result) option"
where
  "monitor_client deadline [] sequence stamp next_sample c = None"
| "monitor_client deadline (t # turns) sequence stamp next_sample c =
     (case mt_client t of
        Some code \<Rightarrow>
          (case check_marker (mt_marker t) (mt_mark_readings t) sequence c of
             Inl e \<Rightarrow> Some (c, Inl e)
           | Inr (_, failures, c') \<Rightarrow> Some (c', Inr (failures @ exit_failures t code)))
      | None \<Rightarrow>
          if fle deadline (mt_now t) then Some (c, Inr [''Hard per-case deadline exceeded''])
          else
            (case mt_server t of
               Some n \<Rightarrow> Some (c, Inr [''Server exited while client was active with code '' @ int_str n])
             | None \<Rightarrow>
                 (case check_marker (mt_marker t) (mt_mark_readings t) sequence c of
                    Inl e \<Rightarrow> Some (c, Inl e)
                  | Inr (sequence', failures, c') \<Rightarrow>
                      if failures \<noteq> [] then Some (c', Inr failures)
                      else
                        (case periodic t next_sample stamp c' of
                           Inl e \<Rightarrow> Some (c', Inl e)
                         | Inr (failures', later, stamp', c'') \<Rightarrow>
                             if failures' \<noteq> [] then Some (c'', Inr failures')
                             else monitor_client deadline turns sequence' stamp' later c''))))"

subsection \<open>A case\<close>

text \<open>
  What a run meets: whether each process could be started, opened by psutil and reaped, its return code
  after the cleanup and the end of its output, next to the turns of both loops and the report that is found.\<close>

record case_run =
  lr_executable :: string
  lr_output_dir :: string
  lr_parent_pid :: int
  lr_started :: pyfloat
  lr_launched :: "string \<Rightarrow> int result"
  lr_opened :: "string \<Rightarrow> (string \<times> bool) option"
  lr_startup_started :: pyfloat
  lr_startup :: "startup_turn list"
  lr_turns :: "monitor_turn list"
  lr_reaped :: "string \<Rightarrow> reaping"
  lr_returncode :: "string \<Rightarrow> int option"
  lr_tails :: "string \<Rightarrow> string \<times> string"
  lr_report :: "stored_file option"

definition in_output :: "case_run \<Rightarrow> string \<Rightarrow> string" where
  "in_output r name = lr_output_dir r @ ''/'' @ name"

definition owned_probe :: "case_run \<Rightarrow> string \<Rightarrow> int \<Rightarrow> ProcessResourceProbe" where
  "owned_probe r role pid =
     \<lparr>pb_role = role, pb_pid = pid, pb_reason = lr_opened r role, pb_completion = True, pb_wait_for_exit = True\<rparr>"

definition config_sampler :: "LifecycleConfig \<Rightarrow> LifecycleResourceSampler" where
  "config_sampler config =
     new_sampler (lc_sample_interval_s config) (int_of (lc_max_samples config)) (int_of (lc_rss_ceiling_bytes config))"

text \<open>The processes that were started, with the state and the result of the body.\<close>

record case_body =
  bo_processes :: "(owned_process \<times> string list) list"
  bo_coordination :: coordination
  bo_result :: "string list result"

definition run_client ::
  "case_run \<Rightarrow> pyfloat \<Rightarrow> owned_process \<times> string list \<Rightarrow> string \<Rightarrow> LifecycleResourceSampler \<Rightarrow> case_body option"
where
  "run_client r deadline server url s =
     (case lr_launched r ''client'' of
        Inl e \<Rightarrow> Some \<lparr>bo_processes = [server], bo_coordination = \<lparr>cn_sampler = s, cn_acks = []\<rparr>, bo_result = Inl e\<rparr>
      | Inr pid \<Rightarrow>
          let command = client_command (lr_executable r) (in_output r ''case.json'') url (in_output r ''control'') (in_output r ''client.json'');
              c = \<lparr>cn_sampler = attach (owned_probe r ''client'' pid) s, cn_acks = []\<rparr>
          in map_option (\<lambda>(c', found). \<lparr>bo_processes = [server, (\<lparr>op_role = ''client'', op_pid = pid\<rparr>, command)],
               bo_coordination = c', bo_result = found\<rparr>)
               (monitor_client deadline (lr_turns r) 0 0 (Fin 0) c))"

definition run_body :: "(string \<Rightarrow> url_parts result) \<Rightarrow> LifecycleConfig \<Rightarrow> case_run \<Rightarrow> case_body option" where
  "run_body urlsplit config r =
     (let s = config_sampler config; deadline = fadd (lr_started r) (num (lc_case_timeout_s config))
      in case lr_launched r ''server'' of
           Inl e \<Rightarrow> Some \<lparr>bo_processes = [], bo_coordination = \<lparr>cn_sampler = s, cn_acks = []\<rparr>, bo_result = Inl e\<rparr>
         | Inr pid \<Rightarrow>
             let server = (\<lparr>op_role = ''server'', op_pid = pid\<rparr>,
                   server_command (lr_executable r) config (in_output r ''server-ready.json''));
                 limit = fadd (lr_startup_started r) STARTUP_TIMEOUT_S
             in case await_server urlsplit pid (if flt limit deadline then limit else deadline) (lr_startup r) (Fin 0)
                    (attach (owned_probe r ''server'' pid) s) of
                  None \<Rightarrow> None
                | Some (s', Inl e) \<Rightarrow>
                    Some \<lparr>bo_processes = [server], bo_coordination = \<lparr>cn_sampler = s', cn_acks = []\<rparr>, bo_result = Inl e\<rparr>
                | Some (s', Inr url) \<Rightarrow> run_client r deadline server url s')"

text \<open>An exception of the cleanup replaces one of the body, and follows its failures.\<close>

definition case_failures :: "string list result \<Rightarrow> unit result \<Rightarrow> string list" where
  "case_failures body cleanup =
     (case body of Inr failures \<Rightarrow> failures | Inl _ \<Rightarrow> []) @
     (case cleanup of Inl e \<Rightarrow> [error_text e] | Inr _ \<Rightarrow> (case body of Inl e \<Rightarrow> [error_text e] | Inr _ \<Rightarrow> []))"

definition initial_receipt :: "case_run \<Rightarrow> LifecycleCase \<Rightarrow> obj" where
  "initial_receipt r k =
     [(''case'', JObj (case_payload k)), (''parent_pid'', JInt (lr_parent_pid r)), (''client_pid'', JNull), (''server_pid'', JNull),
      (''client_report'', JNull), (''report_path'', JNull), (''output_dir'', JStr (lr_output_dir r))]"

definition process_of :: "string \<Rightarrow> (owned_process \<times> string list) list \<Rightarrow> (owned_process \<times> string list) option" where
  "process_of role processes = List.find (\<lambda>(owned, command). op_role owned = role) processes"

text \<open>The report of the client: what is added to the receipt and to the failures.\<close>

definition read_report :: "case_run \<Rightarrow> (owned_process \<times> string list) option \<Rightarrow> string list \<Rightarrow> (obj \<times> string list) result" where
  "read_report r client failures =
     (case lr_report r of
        None \<Rightarrow> Inr ([], if client \<noteq> None \<and> failures = [] then [''Client lifecycle report is missing''] else [])
      | Some f \<Rightarrow>
          (case read_object MAX_REPORT_BYTES f of
             Inr payload \<Rightarrow> Inr ([(''client_report'', JObj payload), (''report_path'', JStr (in_output r ''client.json''))],
               if get payload ''status'' \<noteq> JStr ''ok'' \<or> get payload ''errors'' \<noteq> JList []
               then [''Client lifecycle report contains failures''] else [])
           | Inl e \<Rightarrow>
               if type_or_value_error e \<or> (case e of OSError c m \<Rightarrow> True | _ \<Rightarrow> False)
               then Inr ([], [''Invalid client lifecycle report: '' @ error_message e]) else Inl e))"

definition returncode_json :: "case_run \<Rightarrow> string \<Rightarrow> (owned_process \<times> string list) option \<Rightarrow> json" where
  "returncode_json r role p = (case p of None \<Rightarrow> JInt (- 1) | Some _ \<Rightarrow> optional_int (lr_returncode r role))"

definition finalize_receipt :: "case_run \<Rightarrow> obj \<Rightarrow> (owned_process \<times> string list) list \<Rightarrow> string list \<Rightarrow> LifecycleResourceSampler \<Rightarrow> obj result" where
  "finalize_receipt r receipt processes failures s =
     (let client = process_of ''client'' processes; server = process_of ''server'' processes
      in bindE (sampler_payload s) (\<lambda>resources.
         bindE (read_report r client failures) (\<lambda>(report, more).
           let found = failures @ more
           in Inr (dict_update receipt
             ([(''returncode'', returncode_json r ''client'' client), (''server_returncode'', returncode_json r ''server'' server),
               (''command'', case client of None \<Rightarrow> JList [] | Some (_, command) \<Rightarrow> JList (map JStr command)),
               (''resources'', JObj resources)] @ report @
              [(''failures'', JList (map JStr found)),
               (''failure'', if found = [] then JNull else JStr (hd found)),
               (''status'', JStr (if found = [] then ''ok'' else ''failed''))] @
              concat (map (\<lambda>(owned, command).
                [(op_role owned @ ''_stdout_tail'', JStr (fst (lr_tails r (op_role owned)))),
                 (op_role owned @ ''_stderr_tail'', JStr (snd (lr_tails r (op_role owned))))]) processes))))))"

definition run_lifecycle_case ::
  "(string \<Rightarrow> url_parts result) \<Rightarrow> LifecycleCase \<Rightarrow> LifecycleConfig \<Rightarrow> case_run \<Rightarrow> obj result option"
where
  "run_lifecycle_case urlsplit k config r =
     (case bindE (validate_lifecycle_case k (Some config)) (\<lambda>_. validate_lifecycle_config config) of
        Inl e \<Rightarrow> Some (Inl e)
      | Inr _ \<Rightarrow>
          map_option (\<lambda>body.
            let processes = bo_processes body;
                cleanup = reap_processes (map (\<lambda>(owned, _). (owned, lr_reaped r (op_role owned))) processes);
                receipt = dict_update (initial_receipt r k)
                  (map (\<lambda>(owned, _). (op_role owned @ ''_pid'', JInt (op_pid owned))) processes)
            in finalize_receipt r receipt processes (case_failures (bo_result body) cleanup) (cn_sampler (bo_coordination body)))
          (run_body urlsplit config r))"

subsection \<open>A case without a failure\<close>

text \<open>
  After \<open>n\<close> phases: each was acknowledged and recorded once, in order, and every sample is within bounds.\<close>

definition coordinated :: "int \<Rightarrow> coordination \<Rightarrow> bool" where
  "coordinated n c \<longleftrightarrow>
     0 \<le> n \<and> n \<le> MAX_PHASES \<and> cn_acks c = [1..n] \<and>
     map (\<lambda>d. get d ''sequence'') (sl_phases (cn_sampler c)) = map JInt [1..n] \<and>
     ''sequence'' \<notin> fst ` set (sl_probes (cn_sampler c)) \<and> within_bounds (cn_sampler c)"

definition same_limits :: "LifecycleResourceSampler \<Rightarrow> LifecycleResourceSampler \<Rightarrow> bool" where
  "same_limits s t \<longleftrightarrow> sl_max_samples t = sl_max_samples s \<and> sl_rss_ceiling_bytes t = sl_rss_ceiling_bytes s"

lemma check_marker_cases:
  assumes "check_marker file readings n c = Inr (m, failures, d)"
  obtains "m = n" "failures = []" "d = c"
  | marker phase s where "get marker ''sequence'' = JInt (n + 1)" "n + 1 \<le> MAX_PHASES"
      "mark (cn_sampler c) marker phase readings = Inr (s, failures)" "m = n + 1"
      "d = \<lparr>cn_sampler = s, cn_acks = cn_acks c @ [n + 1]\<rparr>"
proof (cases "file")
  case None
  then show thesis using assms that(1) by (simp add: check_marker_def)
next
  case (Some f)
  let ?seq = "\<lambda>marker. int_value (get marker ''sequence'')"
  obtain marker where marker: "type_is_int (get marker ''sequence'')"
    and rest: "(if ?seq marker = n then Inr (n, [], c)
         else bindE (raise_if (?seq marker \<noteq> n + 1 \<or> MAX_PHASES < ?seq marker)
             (ValueError ''Out-of-order or excessive phase markers'')) (\<lambda>_.
           case get marker ''phase'' of
             JStr phase \<Rightarrow>
               bindE (raise_if (phase = [] \<or> MAX_PHASE_NAME < int (length phase)) (ValueError ''Invalid phase marker name'')) (\<lambda>_.
               bindE (mark (cn_sampler c) marker phase readings) (\<lambda>(s, failures).
                 Inr (?seq marker, failures, \<lparr>cn_sampler = s, cn_acks = cn_acks c @ [?seq marker]\<rparr>)))
           | _ \<Rightarrow> Inl (ValueError ''Invalid phase marker name''))) = Inr (m, failures, d)"
    using assms unfolding check_marker_def Some option.case Let_def bindE_ok by (auto simp: raise_if_def split: if_splits)
  from marker obtain k where k: "get marker ''sequence'' = JInt k" by (cases "get marker ''sequence''") simp_all
  show thesis
  proof (cases "k = n")
    case True
    then show thesis using rest that(1) by (simp add: k)
  next
    case False
    obtain phase where "get marker ''phase'' = JStr phase"
      using rest False by (cases "get marker ''phase''") (simp_all add: k bindE_ok)
    then show thesis
      using rest False k that(2) by (auto simp: bindE_ok raise_if_def split: if_splits)
  qed
qed

lemma check_marker_coordinated:
  assumes "check_marker file readings n c = Inr (m, [], d)" "coordinated n c"
  shows "coordinated m d \<and> same_limits (cn_sampler c) (cn_sampler d)"
proof (rule check_marker_cases [OF assms(1)])
  assume "m = n" "d = c"
  then show ?thesis using assms(2) by (simp add: same_limits_def)
next
  fix marker phase s
  assume s: "get marker ''sequence'' = JInt (n + 1)" "n + 1 \<le> MAX_PHASES"
    "mark (cn_sampler c) marker phase readings = Inr (s, [])" "m = n + 1" "d = \<lparr>cn_sampler = s, cn_acks = cn_acks c @ [n + 1]\<rparr>"
  have "[1..n + 1] = [1..n] @ [n + 1]" using assms(2) upto_rec2 [of 1 "n + 1"] by (simp add: coordinated_def)
  moreover have "''sequence'' \<notin> fst ` set (sl_probes (cn_sampler c))" using assms(2) by (simp add: coordinated_def)
  note marked = mark_bounded [OF s(3) this]
  ultimately show ?thesis
    using assms(2) s marked by (auto simp: coordinated_def same_limits_def)
qed

lemma periodic_coordinated:
  assumes "periodic t next_sample stamp c = Inr ([], later, stamp', d)" "coordinated n c"
  shows "coordinated n d \<and> same_limits (cn_sampler c) (cn_sampler d)"
proof (cases "d = c")
  case True
  then show ?thesis using assms(2) by (simp add: same_limits_def)
next
  case False
  then obtain s where s: "take_sample (cn_sampler c) (current_phase (cn_sampler c)) (mt_readings t) = Inr (s, [])"
      "d = c\<lparr>cn_sampler := s\<rparr>"
    using assms(1) by (auto simp: periodic_def bindE_ok split: if_splits option.splits)
  then show ?thesis
    using assms(2) take_sample_bounded [OF s(1)] by (auto simp: coordinated_def same_limits_def same_setting_def)
qed

lemma monitor_client_coordinated:
  assumes "monitor_client deadline turns n stamp next_sample c = Some (d, Inr [])" "coordinated n c"
  shows "\<exists>m. coordinated m d \<and> same_limits (cn_sampler c) (cn_sampler d) \<and>
    (\<exists>t \<in> set turns. mt_client t = Some 0 \<and> mt_server t = None)"
  using assms
proof (induction deadline turns n stamp next_sample c rule: monitor_client.induct)
  case (2 deadline t turns n stamp next_sample c)
  show ?case
  proof (cases "mt_client t")
    case (Some code)
    then obtain m where "check_marker (mt_marker t) (mt_mark_readings t) n c = Inr (m, [], d)" "exit_failures t code = []"
      using "2.prems"(1) by (auto split: sum.splits)
    then show ?thesis
      using check_marker_coordinated "2.prems"(2) Some by (fastforce simp: exit_failures_def split: option.splits if_splits)
  next
    case None
    obtain m d1 where m: "check_marker (mt_marker t) (mt_mark_readings t) n c = Inr (m, [], d1)"
        "\<not> fle deadline (mt_now t)" "mt_server t = None"
      using "2.prems"(1) None by (auto split: sum.splits if_splits option.splits)
    obtain later stamp' d2 where p: "periodic t next_sample stamp d1 = Inr ([], later, stamp', d2)"
        "monitor_client deadline turns m stamp' later d2 = Some (d, Inr [])"
      using "2.prems"(1) None m by (auto split: sum.splits if_splits)
    note first = check_marker_coordinated [OF m(1) "2.prems"(2)]
    note second = periodic_coordinated [OF p(1) first [THEN conjunct1]]
    show ?thesis
      using "2.IH" [OF None m(2,3,1) refl refl _ p(1) refl refl refl _ p(2) second [THEN conjunct1]] first second
      by (auto simp: same_limits_def)
  qed
qed simp

lemma within_attach:
  assumes "within_bounds s"
  shows "within_bounds (attach probe s)" "same_limits s (attach probe s)" "sl_phases (attach probe s) = sl_phases s"
    "fst ` set (sl_probes (attach probe s)) = insert (pb_role probe) (fst ` set (sl_probes s))"
proof -
  have "bounded_peak (sl_rss_ceiling_bytes s) no_peaks" by (simp add: bounded_peak_def no_peaks_def)
  then show "within_bounds (attach probe s)"
    using assms set_update [of "pb_role probe" no_peaks "sl_peaks s"] by (auto simp: within_bounds_def attach_def list_all_iff)
qed (simp_all add: attach_def same_limits_def dom_update)

lemma await_server_bounded:
  assumes "await_server urlsplit pid deadline turns next_sample s = Some (t, Inr url)" "within_bounds s"
  shows "within_bounds t \<and> same_setting s t"
  using assms
proof (induction urlsplit pid deadline turns next_sample s rule: await_server.induct)
  case (2 urlsplit pid deadline turn turns next_sample s)
  obtain u later where u: "(if fle next_sample (st_check turn)
       then bindE (take_sample s ''server-startup'' (st_readings turn)) (\<lambda>(s', failures).
         Inr (s', failures, fadd (st_after turn) (num (sl_interval_s s'))))
       else Inr (s, [], next_sample)) = Inr (u, [], later)"
    and running: "flt (st_now turn) deadline" "st_server turn = None"
    using "2.prems"(1) by (auto split: if_splits option.splits sum.splits list.splits)
  have setting: "within_bounds u \<and> same_setting s u"
    using u take_sample_bounded "2.prems"(2) by (auto simp: bindE_ok same_setting_def split: if_splits)
  show ?case
  proof (cases "st_ready turn")
    case None
    then have rest: "await_server urlsplit pid deadline turns later u = Some (t, Inr url)"
      using "2.prems"(1) running u by simp
    show ?thesis
      using "2.IH" [OF _ running(2) u refl refl refl None rest] running(1) setting by (auto simp: same_setting_def)
  next
    case (Some f)
    then show ?thesis using "2.prems"(1) running u setting by simp
  qed
qed simp

lemma new_sampler_within [simp]: "within_bounds (config_sampler config)"
  by (simp add: config_sampler_def new_sampler_def within_bounds_def)

lemma run_body_coordinated:
  assumes "run_body urlsplit config r = Some body" "bo_result body = Inr []"
  shows "\<exists>n. coordinated n (bo_coordination body) \<and> same_limits (config_sampler config) (cn_sampler (bo_coordination body)) \<and>
    (\<exists>t \<in> set (lr_turns r). mt_client t = Some 0 \<and> mt_server t = None) \<and> process_of ''client'' (bo_processes body) \<noteq> None"
proof -
  let ?s = "config_sampler config"
  let ?deadline = "fadd (lr_started r) (num (lc_case_timeout_s config))"
  obtain pid s url server where s: "await_server urlsplit pid
      (if flt (fadd (lr_startup_started r) STARTUP_TIMEOUT_S) ?deadline then fadd (lr_startup_started r) STARTUP_TIMEOUT_S else ?deadline)
      (lr_startup r) (Fin 0) (attach (owned_probe r ''server'' pid) ?s) = Some (s, Inr url)"
    "run_client r ?deadline (\<lparr>op_role = ''server'', op_pid = pid\<rparr>, server) url s = Some body"
    using assms by (auto simp: run_body_def Let_def split: sum.splits option.splits)
  note attached = within_attach [OF new_sampler_within [of config], of "owned_probe r ''server'' pid"]
  note started = await_server_bounded [OF s(1) attached(1)]
  then have within: "within_bounds s" by simp
  obtain cpid c' command where client:
    "monitor_client ?deadline (lr_turns r) 0 0 (Fin 0) \<lparr>cn_sampler = attach (owned_probe r ''client'' cpid) s, cn_acks = []\<rparr> =
       Some (c', Inr [])" "bo_coordination body = c'"
    "bo_processes body = [(\<lparr>op_role = ''server'', op_pid = pid\<rparr>, server), (\<lparr>op_role = ''client'', op_pid = cpid\<rparr>, command)]"
    using s(2) assms(2) by (auto simp: run_client_def Let_def split: sum.splits option.splits)
  note own = within_attach [OF within, of "owned_probe r ''client'' cpid"]
  have "coordinated 0 \<lparr>cn_sampler = attach (owned_probe r ''client'' cpid) s, cn_acks = []\<rparr>"
    using own started attached
    by (simp add: coordinated_def MAX_PHASES_def same_setting_def config_sampler_def new_sampler_def owned_probe_def)
  from monitor_client_coordinated [OF client(1) this] show ?thesis
    using own(2) started attached(2) by (auto simp: client(2,3) same_limits_def same_setting_def process_of_def)
qed

lemma tail_keys_absent:
  assumes "last key \<noteq> CHR ''l''"
  shows "map_of (rev (concat (map (\<lambda>(owned, command).
    [(op_role owned @ ''_stdout_tail'', f owned), (op_role owned @ ''_stderr_tail'', g owned)]) ps))) key = None"
  using assms by (induction ps) (auto simp: map_add_def)

lemma receipt_fields:
  assumes "finalize_receipt r receipt processes failures s = Inr final"
  obtains resources report more where "sampler_payload s = Inr resources"
    "read_report r (process_of ''client'' processes) failures = Inr (report, more)"
    "get final ''resources'' = JObj resources"
    "get final ''status'' = JStr (if failures @ more = [] then ''ok'' else ''failed'')"
    "get final ''failure'' = (if failures @ more = [] then JNull else JStr (hd (failures @ more)))"
    "get final ''client_report'' = (case map_of report ''client_report'' of Some v \<Rightarrow> v | None \<Rightarrow> get receipt ''client_report'')"
    "get final ''case'' = get receipt ''case''"
proof -
  obtain resources report more where parts: "sampler_payload s = Inr resources"
    "read_report r (process_of ''client'' processes) failures = Inr (report, more)"
    using assms by (auto simp: finalize_receipt_def bindE_ok Let_def)
  have keys: "report = [] \<or> (\<exists>a b. report = [(''client_report'', a), (''report_path'', b)])"
    using parts(2) by (auto simp: read_report_def split: option.splits sum.splits if_splits)
  have final: "final = dict_update receipt
     ([(''returncode'', returncode_json r ''client'' (process_of ''client'' processes)),
       (''server_returncode'', returncode_json r ''server'' (process_of ''server'' processes)),
       (''command'', case process_of ''client'' processes of None \<Rightarrow> JList [] | Some (_, command) \<Rightarrow> JList (map JStr command)),
       (''resources'', JObj resources)] @ report @
      [(''failures'', JList (map JStr (failures @ more))),
       (''failure'', if failures @ more = [] then JNull else JStr (hd (failures @ more))),
       (''status'', JStr (if failures @ more = [] then ''ok'' else ''failed''))] @
      concat (map (\<lambda>(owned, command).
        [(op_role owned @ ''_stdout_tail'', JStr (fst (lr_tails r (op_role owned)))),
         (op_role owned @ ''_stderr_tail'', JStr (snd (lr_tails r (op_role owned))))]) processes))"
    using assms unfolding finalize_receipt_def Let_def parts bindE_simps prod.case by simp
  note at = final get_dict_update map_add_def tail_keys_absent
  show thesis
    by (rule that [OF parts]; insert keys; elim disjE exE; simp add: at)
qed

text \<open>
  C34: the receipt of a lifecycle case tells a repetition that stayed within its bounds from one that did
  not. It is that of the given case, and names a failure unless its status is \<^verbatim>\<open>ok\<close>. With this status the
  repetition counts as successful in the aggregation: the client exited with code zero while the server
  ran, its report was read and has no errors, each phase was recorded once and in order, and every
  sample is kept and shows resident memory within the ceiling, or a process that had ended.\<close>

theorem lifecycle_case_receipt:
  assumes "run_lifecycle_case urlsplit k config r = Some (Inr receipt)"
  shows "get receipt ''case'' = JObj (case_payload k) \<and>
    (get receipt ''status'' = JStr ''ok'' \<longleftrightarrow> get receipt ''failure'' = JNull) \<and>
    (get receipt ''status'' = JStr ''ok'' \<longrightarrow>
      repeat_succeeded receipt \<and> get (report_of receipt) ''errors'' = JList [] \<and>
      (\<exists>t \<in> set (lr_turns r). mt_client t = Some 0 \<and> mt_server t = None) \<and>
      (\<exists>resources samples phases n. get receipt ''resources'' = JObj resources \<and>
        get resources ''truncated'' = JBool False \<and> get resources ''samples'' = JList (map JObj samples) \<and>
        int (length samples) \<le> max 0 (int_of (lc_max_samples config)) \<and>
        list_all (bounded_sample (int_of (lc_rss_ceiling_bytes config))) samples \<and>
        get resources ''phases'' = JList (map JObj phases) \<and>
        map (\<lambda>d. get d ''sequence'') phases = map JInt [1..n] \<and> n \<le> MAX_PHASES))"
proof -
  obtain body where body: "run_body urlsplit config r = Some body"
    and final: "finalize_receipt r
       (dict_update (initial_receipt r k) (map (\<lambda>(owned, _). (op_role owned @ ''_pid'', JInt (op_pid owned))) (bo_processes body)))
       (bo_processes body)
       (case_failures (bo_result body) (reap_processes (map (\<lambda>(owned, _). (owned, lr_reaped r (op_role owned))) (bo_processes body))))
       (cn_sampler (bo_coordination body)) = Inr receipt"
    using assms by (auto simp: run_lifecycle_case_def Let_def split: sum.splits)
  let ?pids = "map (\<lambda>(owned, _). (op_role owned @ ''_pid'', JInt (op_pid owned))) (bo_processes body)"
  let ?failures = "case_failures (bo_result body) (reap_processes (map (\<lambda>(owned, _). (owned, lr_reaped r (op_role owned))) (bo_processes body)))"
  obtain resources report more where fields: "sampler_payload (cn_sampler (bo_coordination body)) = Inr resources"
    "read_report r (process_of ''client'' (bo_processes body)) ?failures = Inr (report, more)"
    "get receipt ''resources'' = JObj resources"
    "get receipt ''status'' = JStr (if ?failures @ more = [] then ''ok'' else ''failed'')"
    "get receipt ''failure'' = (if ?failures @ more = [] then JNull else JStr (hd (?failures @ more)))"
    "get receipt ''client_report'' = (case map_of report ''client_report'' of Some v \<Rightarrow> v
       | None \<Rightarrow> get (dict_update (initial_receipt r k) ?pids) ''client_report'')"
    "get receipt ''case'' = get (dict_update (initial_receipt r k) ?pids) ''case''"
    by (rule receipt_fields [OF final])
  have "map_of (rev ?pids) ''case'' = None" by (auto simp: map_of_eq_None_iff dest!: arg_cong [where f = last])
  then have "get receipt ''case'' = JObj (case_payload k)"
    by (simp add: fields(7) get_dict_update initial_receipt_def get_Cons)
  moreover have "repeat_succeeded receipt \<and> get (report_of receipt) ''errors'' = JList [] \<and>
      (\<exists>t \<in> set (lr_turns r). mt_client t = Some 0 \<and> mt_server t = None) \<and>
      (\<exists>samples phases n. get resources ''truncated'' = JBool False \<and> get resources ''samples'' = JList (map JObj samples) \<and>
        int (length samples) \<le> max 0 (int_of (lc_max_samples config)) \<and>
        list_all (bounded_sample (int_of (lc_rss_ceiling_bytes config))) samples \<and>
        get resources ''phases'' = JList (map JObj phases) \<and>
        map (\<lambda>d. get d ''sequence'') phases = map JInt [1..n] \<and> n \<le> MAX_PHASES)"
    if "?failures @ more = []"
  proof -
    have none: "?failures = []" "more = []" using that by simp_all
    have "bo_result body = Inr []" using none(1) by (auto simp: case_failures_def split: sum.splits)
    from run_body_coordinated [OF body this] obtain n t where n: "coordinated n (bo_coordination body)"
        "same_limits (config_sampler config) (cn_sampler (bo_coordination body))"
        "process_of ''client'' (bo_processes body) \<noteq> None"
      and t: "t \<in> set (lr_turns r)" "mt_client t = Some 0" "mt_server t = None" by blast
    obtain payload where "report = [(''client_report'', JObj payload), (''report_path'', JStr (in_output r ''client.json''))]"
        "get payload ''status'' = JStr ''ok''" "get payload ''errors'' = JList []"
      using fields(2) none n(3) by (auto simp: read_report_def split: option.splits sum.splits if_splits)
    then have report: "repeat_succeeded receipt" "get (report_of receipt) ''errors'' = JList []"
      using fields(5,6) none by (simp_all add: repeat_succeeded_def report_of_def)
    have "get resources ''truncated'' = JBool (sl_truncated (cn_sampler (bo_coordination body)))"
        "get resources ''samples'' = JList (map JObj (sl_samples (cn_sampler (bo_coordination body))))"
        "get resources ''phases'' = JList (map JObj (sl_phases (cn_sampler (bo_coordination body))))"
      using fields(1) by (auto simp: sampler_payload_def bindE_ok get_Cons)
    with report t n(1,2) show ?thesis
      by (auto simp: coordinated_def within_bounds_def same_limits_def config_sampler_def new_sampler_def)
  qed
  ultimately show ?thesis using fields(3-5) by (auto split: if_splits)
qed

text \<open>A run whose client passes one phase and exits.\<close>

definition steady_reading :: "int \<Rightarrow> probe_reading" where
  "steady_reading now =
     \<lparr>rd_started_ns = now, rd_finished_ns = now + 1, rd_rss = Inr 4096, rd_threads = Inr 1, rd_fds = Inr 3, rd_cpu = Inl ''denied'',
      rd_returncode = None, rd_exit = None\<rparr>"

definition steady_turn :: "int option \<Rightarrow> obj option \<Rightarrow> monitor_turn" where
  "steady_turn code marker =
     \<lparr>mt_client = code, mt_now = Fin 1, mt_server = None,
      mt_marker = map_option (\<lambda>d. \<lparr>sf_name = ''marker.json'', sf_bytes = 40, sf_value = Inr (JObj d)\<rparr>) marker,
      mt_mark_readings = (\<lambda>_. steady_reading 1000000000), mt_check = Fin 1, mt_report = None, mt_readings = (\<lambda>_. steady_reading 2000000000),
      mt_after = Fin 1\<rparr>"

definition steady_run :: case_run where
  "steady_run =
     \<lparr>lr_executable = ''python'', lr_output_dir = ''out'', lr_parent_pid = 1, lr_started = Fin 0,
      lr_launched = (\<lambda>role. Inr (if role = ''server'' then 20 else 30)), lr_opened = (\<lambda>_. None), lr_startup_started = Fin 0,
      lr_startup = [\<lparr>st_now = Fin 0, st_server = None, st_check = Fin 0, st_readings = (\<lambda>_. steady_reading 0), st_after = Fin 0,
        st_ready = Some \<lparr>sf_name = ''server-ready.json'', sf_bytes = 50,
          sf_value = Inr (JObj [(''url'', JStr ''http://127.0.0.1:80''), (''pid'', JInt 20)])\<rparr>\<rparr>],
      lr_turns = [steady_turn None (Some [(''sequence'', JInt 1), (''phase'', JStr ''warmup'')]), steady_turn (Some 0) None],
      lr_reaped = (\<lambda>_. \<lparr>rp_terminated = Signalled, rp_killed = NoGroup, rp_unreaped = None\<rparr>),
      lr_returncode = (\<lambda>_. Some 0), lr_tails = (\<lambda>_. ([], [])),
      lr_report = Some \<lparr>sf_name = ''client.json'', sf_bytes = 30,
        sf_value = Inr (JObj [(''status'', JStr ''ok''), (''errors'', JList [])])\<rparr>\<rparr>"

definition steady_case :: LifecycleCase where
  "steady_case = lifecycle_case (1, ''foghttp'', ''async'', ''stream-1m'', 10, 1)"

definition steady_url :: "string \<Rightarrow> url_parts result" where
  "steady_url url = Inr \<lparr>up_scheme = ''http'', up_hostname = Some ''127.0.0.1'', up_port = Inr (Some 80)\<rparr>"

lemma window_case_valid:
  "validate_lifecycle_case steady_case (Some window_config) = Inr ()"
proof -
  let ?k = "lifecycle_case (1, ''foghttp'', ''async'', ''stream-1m'', 10, 1)"
  have "validate_attribution_case ?k window_config window_attribution = Inr ()"
    by (simp add: validate_attribution_case_def lifecycle_case_def raise_if_def window_attribution_valid)
      (simp add: window_attribution_def window_config_def)
  then show ?thesis unfolding steady_case_def
    using planned_case_valid [of 1 "''foghttp''" "''async''" "''stream-1m''" 10 1]
    by (auto simp: validate_lifecycle_case_def window_config_def bindE_ok)
qed

definition body_failures :: "case_run \<Rightarrow> case_body \<Rightarrow> string list" where
  "body_failures r body = case_failures (bo_result body)
     (reap_processes (map (\<lambda>(owned, _). (owned, lr_reaped r (op_role owned))) (bo_processes body)))"

lemma steady_body:
  "map_option (\<lambda>body. body_failures steady_run body = [] \<and>
     (case read_report steady_run (process_of ''client'' (bo_processes body)) [] of Inl e \<Rightarrow> False | Inr (_, found) \<Rightarrow> found = []) \<and>
     reading (observed_intervals (cn_sampler (bo_coordination body))) \<noteq> None \<and>
     cn_acks (bo_coordination body) = [1] \<and> length (sl_samples (cn_sampler (bo_coordination body))) = 5)
   (run_body steady_url window_config steady_run) = Some True"
  by code_simp

lemma lifecycle_case_receipt_witness:
  "\<exists>receipt. run_lifecycle_case steady_url steady_case window_config steady_run =
     Some (Inr receipt) \<and> repeat_succeeded receipt"
proof -
  obtain body where body: "run_body steady_url window_config steady_run = Some body" "body_failures steady_run body = []"
    and shown: "reading (observed_intervals (cn_sampler (bo_coordination body))) \<noteq> None"
      "case read_report steady_run (process_of ''client'' (bo_processes body)) [] of Inl e \<Rightarrow> False | Inr (_, found) \<Rightarrow> found = []"
    using steady_body by (auto simp del: not_None_eq)
  obtain intervals where parts: "observed_intervals (cn_sampler (bo_coordination body)) = Inr intervals"
    using shown(1) by (cases "observed_intervals (cn_sampler (bo_coordination body))") (simp_all add: reading_def)
  obtain report where report: "read_report steady_run (process_of ''client'' (bo_processes body)) [] = Inr (report, [])"
    using shown(2) by (cases "read_report steady_run (process_of ''client'' (bo_processes body)) []") auto
  obtain resources where "sampler_payload (cn_sampler (bo_coordination body)) = Inr resources"
    using parts by (simp add: sampler_payload_def)
  then obtain receipt where run: "run_lifecycle_case steady_url steady_case window_config steady_run = Some (Inr receipt)"
    and final: "finalize_receipt steady_run (dict_update (initial_receipt steady_run steady_case)
       (map (\<lambda>(owned, _). (op_role owned @ ''_pid'', JInt (op_pid owned))) (bo_processes body)))
       (bo_processes body) [] (cn_sampler (bo_coordination body)) = Inr receipt"
    using body report
    by (simp add: run_lifecycle_case_def window_case_valid window_config_valid body_failures_def finalize_receipt_def Let_def)
  have "get receipt ''status'' = JStr ''ok''" by (rule receipt_fields [OF final]) (use report in simp)
  with lifecycle_case_receipt [OF run] run show ?thesis by blast
qed

end
