(* ===== verification/Python_Regex.thy ===== *)
theory Python_Regex
  imports PyJson
begin

text \<open>
  The part of Python's \<^verbatim>\<open>re\<close> the program uses, over strings of code points below 256: a pattern is a value
  of a datatype, and matching is the backtracking search of the standard library: every way to match at a
  position, in the order in which it is tried. The first one is the match.
\<close>

datatype regex =
    RChar "char \<Rightarrow> bool"
  | REmpty
  | RSeq regex regex
  | RAlt regex regex
  | RStar regex            \<comment> \<open>greedy\<close>
  | RLazy regex
  | RGroup string regex
  | RBegin                 \<comment> \<open>\<^verbatim>\<open>^\<close>, and with the flag MULTILINE\<close>
  | RLineBegin
  | REnd                   \<comment> \<open>\<^verbatim>\<open>$\<close>, and with the flag MULTILINE\<close>
  | RLineEnd
  | RBoundary

text \<open>A position: the character before it, the rest of the string, and the groups so far.\<close>

type_synonym match_state = "char option \<times> string \<times> (string \<times> string) list"

abbreviation remaining :: "match_state \<Rightarrow> string" where
  "remaining s \<equiv> fst (snd s)"

definition newline :: char where "newline = CHR 0x0A"

definition word_char :: "char \<Rightarrow> bool" where
  "word_char c = (let n = char_code c in
     48 \<le> n \<and> n \<le> 57 \<or> 65 \<le> n \<and> n \<le> 90 \<or> n = 95 \<or> 97 \<le> n \<and> n \<le> 122 \<or>
     n \<in> {170, 178, 179, 181, 185, 186, 188, 189, 190} \<or> 192 \<le> n \<and> n \<noteq> 215 \<and> n \<noteq> 247)"

definition at_boundary :: "match_state \<Rightarrow> bool" where
  "at_boundary s =
     ((case fst s of None \<Rightarrow> False | Some c \<Rightarrow> word_char c) \<noteq>
      (case remaining s of [] \<Rightarrow> False | c # _ \<Rightarrow> word_char c))"

definition holds_at :: "bool \<Rightarrow> match_state \<Rightarrow> match_state list" where
  "holds_at b s = (if b then [s] else [])"

definition consume_char :: "(char \<Rightarrow> bool) \<Rightarrow> match_state \<Rightarrow> match_state list" where
  "consume_char p s =
     (case s of (prior, rest, groups) \<Rightarrow>
        (case rest of [] \<Rightarrow> [] | c # cs \<Rightarrow> if p c then [(Some c, cs, groups)] else []))"

definition add_group :: "string \<Rightarrow> match_state \<Rightarrow> match_state \<Rightarrow> match_state" where
  "add_group name start finish =
     (case finish of (prior, rest, groups) \<Rightarrow>
        (prior, rest, (name, take (length (remaining start) - length rest) (remaining start)) # groups))"

function matches :: "regex \<Rightarrow> match_state \<Rightarrow> match_state list" where
  "matches (RChar p) s = consume_char p s"
| "matches REmpty s = [s]"
| "matches (RSeq q r) s = concat (map (matches r) (matches q s))"
| "matches (RAlt q r) s = matches q s @ matches r s"
| "matches (RStar r) s =
     concat (map (\<lambda>t. if length (remaining t) < length (remaining s) then matches (RStar r) t else []) (matches r s)) @ [s]"
| "matches (RLazy r) s =
     s # concat (map (\<lambda>t. if length (remaining t) < length (remaining s) then matches (RLazy r) t else []) (matches r s))"
| "matches (RGroup name r) s = map (add_group name s) (matches r s)"
| "matches RBegin s = holds_at (fst s = None) s"
| "matches RLineBegin s = holds_at (fst s = None \<or> fst s = Some newline) s"
| "matches REnd s = holds_at (remaining s = [] \<or> remaining s = [newline]) s"
| "matches RLineEnd s = holds_at (remaining s = [] \<or> hd (remaining s) = newline) s"
| "matches RBoundary s = holds_at (at_boundary s) s"
  by pat_completeness auto
termination
  by (relation "measures [\<lambda>(r, s). size r, \<lambda>(r, s). length (remaining s)]") auto

text \<open>\<^verbatim>\<open>re.match\<close> and \<^verbatim>\<open>re.search\<close>: the groups of the first match.\<close>

definition regex_match :: "regex \<Rightarrow> string \<Rightarrow> (string \<times> string) list option" where
  "regex_match r s = (case matches r (None, s, []) of [] \<Rightarrow> None | m # _ \<Rightarrow> Some (snd (snd m)))"

fun search_from :: "regex \<Rightarrow> char option \<Rightarrow> string \<Rightarrow> (string \<times> string) list option" where
  "search_from r prior [] = (case matches r (prior, [], []) of [] \<Rightarrow> None | m # _ \<Rightarrow> Some (snd (snd m)))"
| "search_from r prior (c # cs) =
     (case matches r (prior, c # cs, []) of [] \<Rightarrow> search_from r (Some c) cs | m # _ \<Rightarrow> Some (snd (snd m)))"

definition regex_search :: "regex \<Rightarrow> string \<Rightarrow> (string \<times> string) list option" where
  "regex_search r s = search_from r None s"

definition found :: "regex \<Rightarrow> string \<Rightarrow> bool" where
  "found r s \<longleftrightarrow> regex_search r s \<noteq> None"

definition group :: "(string \<times> string) list \<Rightarrow> string \<Rightarrow> string" where
  "group m name = (case map_of m name of Some text \<Rightarrow> text | None \<Rightarrow> [])"

subsection \<open>Building patterns\<close>

definition rseq :: "regex list \<Rightarrow> regex" where
  "rseq rs = foldr RSeq rs REmpty"

definition lit :: "string \<Rightarrow> regex" where
  "lit s = rseq (map (\<lambda>c. RChar (\<lambda>d. d = c)) s)"

definition any_case :: "string \<Rightarrow> regex" where
  "any_case s = rseq (map (\<lambda>c. RChar (\<lambda>d. lower_char d = lower_char c)) s)"

definition many1 :: "regex \<Rightarrow> regex" where
  "many1 r = RSeq r (RStar r)"

definition optional :: "regex \<Rightarrow> regex" where
  "optional r = RAlt r REmpty"

definition space :: regex where "space = RChar is_space"
definition nonspace :: regex where "nonspace = RChar (\<lambda>c. \<not> is_space c)"
definition decimal :: regex where "decimal = RChar is_digit"
definition anychar :: regex where "anychar = RChar (\<lambda>c. c \<noteq> newline)"

subsection \<open>Lines and numbers\<close>

definition line_break :: "char \<Rightarrow> bool" where
  "line_break c = (let n = char_code c in 10 \<le> n \<and> n \<le> 13 \<or> 28 \<le> n \<and> n \<le> 30 \<or> n = 133)"

text \<open>\<^verbatim>\<open>str.splitlines\<close>, with the characters of the current line.\<close>

fun split_lines :: "string \<Rightarrow> string \<Rightarrow> string list" where
  "split_lines line [] = (if line = [] then [] else [rev line])"
| "split_lines line (c # cs) =
     (if \<not> line_break c then split_lines (c # line) cs
      else rev line # split_lines [] (if char_code c = 13 \<and> cs \<noteq> [] \<and> hd cs = newline then tl cs else cs))"

definition splitlines :: "string \<Rightarrow> string list" where
  "splitlines s = split_lines [] s"

text \<open>\<^verbatim>\<open>int\<close> of decimal digits, which the interpreter limits in number.\<close>

definition int_of_digits :: "string \<Rightarrow> int result" where
  "int_of_digits ds =
     (if length ds \<le> max_int_digits then Inr (digits_value ds)
      else Inl (ValueError (''Exceeds the limit ('' @ nat_str (int max_int_digits) @
        '' digits) for integer string conversion: value has '' @ nat_str (int (length ds)) @
        '' digits; use sys.set_int_max_str_digits() to increase the limit'')))"

lemma int_of_digits_code [code]:
  "int_of_digits ds =
     (if int (length ds) \<le> 4300 then Inr (digits_value ds)
      else Inl (ValueError (''Exceeds the limit (4300 digits) for integer string conversion: value has '' @
        nat_str (int (length ds)) @ '' digits; use sys.set_int_max_str_digits() to increase the limit'')))"
proof -
  have "nat_str 4300 = ''4300''" by (simp add: nat_str.simps digit_char_def)
  then show ?thesis by (simp add: int_of_digits_def max_int_digits_def)
qed

end
