(* ===== verification/Perf_Evidence.thy ===== *)
theory Perf_Evidence
  imports Python_Regex
begin

text \<open>
  perf_evidence.py: what the decoded text of a \<^verbatim>\<open>perf\<close> recording proves about its event and its samples.
\<close>

definition DEFAULT_PERF_SAMPLE_FREQUENCY_HZ :: int where "DEFAULT_PERF_SAMPLE_FREQUENCY_HZ = 499"
definition PERF_SAMPLE_FREQUENCIES_HZ :: "int list" where "PERF_SAMPLE_FREQUENCIES_HZ = [499, 1999]"

definition SAMPLE_PATTERN :: regex where
  "SAMPLE_PATTERN = rseq
     [RBegin, RStar space, nonspace, RLazy anychar, many1 space, RGroup ''pid'' (many1 decimal), RStar space, lit ''/'',
      RStar space, RGroup ''tid'' (many1 decimal), many1 space,
      RGroup ''time'' (rseq ([many1 decimal, lit ''.''] @ replicate 9 decimal)), lit '':'', many1 space,
      RGroup ''period'' (many1 decimal), many1 space, RGroup ''event'' (many1 nonspace), lit '':'', RAlt space REnd]"

definition EVENT_MARKER_PATTERN :: regex where
  "EVENT_MARKER_PATTERN = rseq
     [many1 decimal, lit ''.'', many1 decimal, lit '':'', many1 space, optional (rseq [many1 decimal, many1 space]),
      many1 nonspace, lit '':'']"

definition LOST_PATTERN :: regex where
  "LOST_PATTERN = RAlt
     (RSeq (any_case ''PERF_RECORD_'')
        (RAlt (any_case ''LOST'') (RAlt (any_case ''LOST_SAMPLES'') (RAlt (any_case ''THROTTLE'') (any_case ''UNTHROTTLE'')))))
     (RSeq RBoundary (any_case ''truncat''))"

definition REQUIRED_ATTRIBUTES :: "(string \<times> regex) list" where
  "REQUIRED_ATTRIBUTES =
     [(''type'', RSeq (lit ''1'') (optional (RSeq (RStar space) (lit ''(software)'')))),
      (''config'', RSeq (lit ''0'') (optional (RSeq (RStar space) (lit ''(PERF_COUNT_SW_CPU_CLOCK)'')))),
      (''exclude_kernel'', lit ''1''), (''exclude_hv'', lit ''1''), (''use_clockid'', lit ''1''), (''clockid'', lit ''1''),
      (''freq'', lit ''1''), (''sample_stack_user'', lit ''8192'')]"

definition EVENT_NAME_PATTERN :: regex where
  "EVENT_NAME_PATTERN = rseq [RBoundary, lit ''name'', RStar space, lit ''='', RStar space, lit ''cpu-clock:u,'']"

definition value_end :: regex where
  "value_end = RAlt (lit '','') (RSeq (RStar space) REnd)"

definition frequency_pattern :: "int \<Rightarrow> regex" where
  "frequency_pattern hz = rseq
     [lit ''{'', RStar space, lit ''sample_period,'', RStar space, lit ''sample_freq'', RStar space, lit ''}'', RStar space,
      lit ''='', RStar space, lit (int_str hz), value_end]"

definition attribute_pattern :: "string \<Rightarrow> regex \<Rightarrow> regex" where
  "attribute_pattern attribute v = rseq
     [RAlt RBegin (RSeq (lit '','') (RStar space)), lit attribute, RStar space, lit ''='', RStar space, v, value_end]"

definition STACK_PATTERN :: regex where
  "STACK_PATTERN =
     (let other = RStar (RChar (\<lambda>c. c \<noteq> CHR '',''))
      in rseq [lit ''sample_type'', RStar space, lit ''='', RStar space, other, RBoundary, lit ''TIME'', RBoundary, other,
           RBoundary, lit ''STACK_USER'', RBoundary])"

definition inspect_event :: "string \<Rightarrow> int \<Rightarrow> unit result" where
  "inspect_event header hz =
     bindE (raise_if (hz \<notin> set PERF_SAMPLE_FREQUENCIES_HZ) (ValueError ''Perf sampling frequency must be 499 or 1999 Hz'')) (\<lambda>_.
       let events = filter (\<lambda>line. starts_with line ''# event :'') (splitlines header)
       in case events of
            [event] \<Rightarrow>
              bindE (raise_if (\<not> found EVENT_NAME_PATTERN event)
                (ValueError ''Perf recording must contain exactly the cpu-clock:u event'')) (\<lambda>_.
              bindE (raise_if (\<not> found (frequency_pattern hz) event)
                (ValueError (''Perf recording does not prove the declared '' @ int_str hz @ '' Hz sampling frequency''))) (\<lambda>_.
              bindE (forE (\<lambda>(attribute, v). raise_if (\<not> found (attribute_pattern attribute v) event)
                  (ValueError (''Perf recording does not prove required event attribute '' @ attribute))) REQUIRED_ATTRIBUTES) (\<lambda>_.
                raise_if (\<not> found STACK_PATTERN event)
                  (ValueError ''Perf recording must retain timestamped user stack samples''))))
          | _ \<Rightarrow> Inl (ValueError ''Perf recording must contain exactly the cpu-clock:u event''))"

text \<open>
  The nanoseconds of a timestamp: \<^verbatim>\<open>Decimal\<close> multiplies with 28 significant digits.\<close>

definition decimal_ns :: "string \<Rightarrow> int" where
  "decimal_ns time =
     (let c = digits_value (filter is_digit time); extra = length (nat_str c) - 28
      in round_half_even (of_int c / 10 ^ extra) * 10 ^ extra)"

definition LOST_SAMPLES_PATTERN :: regex where
  "LOST_SAMPLES_PATTERN = rseq [RLineBegin, lit ''# Total Lost Samples:'', many1 space, lit ''0'', RStar space, RLineEnd]"

definition SAMPLE_COUNT_PATTERN :: regex where
  "SAMPLE_COUNT_PATTERN = rseq
     [RLineBegin, lit ''# Samples:'', many1 space, RGroup ''1'' (many1 decimal), many1 space,
      lit ''of event '' , lit [CHR 0x27], lit ''cpu-clock:u'', lit [CHR 0x27], RStar space, RLineEnd]"

text \<open>A sample: its time, its thread and its period.\<close>

fun script_samples :: "int \<Rightarrow> string list \<Rightarrow> (int \<times> int \<times> int) list result" where
  "script_samples pid [] = Inr []"
| "script_samples pid (line # lines) =
     (if line = [] \<or> starts_with line ''#'' then script_samples pid lines
      else
        (case regex_match SAMPLE_PATTERN line of
           None \<Rightarrow>
             if found EVENT_MARKER_PATTERN line
             then Inl (ValueError ''Perf script contains a sample without explicit PID/TID and nanosecond clock evidence'')
             else script_samples pid lines
         | Some m \<Rightarrow>
             bindE (int_of_digits (group m ''pid'')) (\<lambda>sampled.
             bindE (raise_if (sampled \<noteq> pid \<or> group m ''event'' \<noteq> ''cpu-clock:u'')
               (ValueError ''Perf sample event/PID differs from the owned target'')) (\<lambda>_.
             bindE (int_of_digits (group m ''tid'')) (\<lambda>tid.
             bindE (int_of_digits (group m ''period'')) (\<lambda>period.
             bindE (script_samples pid lines) (\<lambda>samples.
               Inr ((decimal_ns (group m ''time''), tid, period) # samples))))))))"

record perf_text =
  px_header :: string
  px_script :: string
  px_summary :: string
  px_record_stderr :: string

definition optional_min :: "int list \<Rightarrow> json" where
  "optional_min ts = (if ts = [] then JNull else JInt (Min (set ts)))"

definition optional_max :: "int list \<Rightarrow> json" where
  "optional_max ts = (if ts = [] then JNull else JInt (Max (set ts)))"

definition perf_payload :: "int \<Rightarrow> (int \<times> int \<times> int) list \<Rightarrow> obj" where
  "perf_payload pid samples =
     (let timestamps = map fst samples
      in [(''sample_count'', JInt (int (length timestamps))),
          (''sample_pids'', JList (if timestamps = [] then [] else [JInt pid])),
          (''sample_tids'', JList (map JInt (sort (remdups (map (fst \<circ> snd) samples))))),
          (''sample_period_sum'', JInt (sum_list (map (snd \<circ> snd) samples))),
          (''first_sample_ns'', optional_min timestamps), (''last_sample_ns'', optional_max timestamps),
          (''event'', JStr ''cpu-clock:u''), (''event_type'', JInt 1), (''event_config'', JInt 0),
          (''exclude_kernel'', JBool True), (''exclude_hv'', JBool True), (''clockid'', JInt 1), (''lost_samples'', JInt 0)])"

definition inspect_perf_text :: "perf_text \<Rightarrow> int \<Rightarrow> int \<Rightarrow> obj result" where
  "inspect_perf_text text pid hz =
     bindE (inspect_event (px_header text) hz) (\<lambda>_.
     bindE (raise_if (\<not> found LOST_SAMPLES_PATTERN (px_summary text))
       (ValueError ''Perf report does not prove zero lost samples'')) (\<lambda>_.
     bindE (raise_if (found LOST_PATTERN (px_script text) \<or> found LOST_PATTERN (px_record_stderr text))
       (ValueError ''Perf recording contains lost, throttled or truncated records'')) (\<lambda>_.
     bindE (script_samples pid (splitlines (px_script text))) (\<lambda>samples.
     bindE (case regex_search SAMPLE_COUNT_PATTERN (px_summary text) of
              None \<Rightarrow> Inr ()
            | Some m \<Rightarrow> bindE (int_of_digits (group m ''1'')) (\<lambda>reported.
                raise_if (reported \<noteq> int (length samples))
                  (ValueError ''Perf decoded sample count differs from the exact report summary count''))) (\<lambda>_.
       Inr (perf_payload pid samples))))))"

end
