(* ===== verification/Python_Path.thy ===== *)
theory Python_Path
  imports Python_Regex
begin

text \<open>
  Pure POSIX paths as \<^verbatim>\<open>pathlib\<close> parses them, and what a file system answers: resolving a path, its size, its
  bytes, and decoding bytes as UTF-8. Each answer can be an exception.
\<close>

record posix_path =
  pp_root :: string
  pp_parts :: "string list"

definition path_of :: "string \<Rightarrow> posix_path" where
  "path_of s =
     \<lparr>pp_root = (if starts_with s ''//'' \<and> \<not> starts_with s ''///'' then ''//'' else if starts_with s ''/'' then ''/'' else []),
      pp_parts = filter (\<lambda>part. part \<noteq> [] \<and> part \<noteq> ''.'') (split_on CHR ''/'' s)\<rparr>"

definition is_absolute :: "posix_path \<Rightarrow> bool" where
  "is_absolute p \<longleftrightarrow> pp_root p \<noteq> []"

definition join_path :: "posix_path \<Rightarrow> posix_path \<Rightarrow> posix_path" where
  "join_path p q = (if is_absolute q then q else \<lparr>pp_root = pp_root p, pp_parts = pp_parts p @ pp_parts q\<rparr>)"

definition is_relative_to :: "posix_path \<Rightarrow> posix_path \<Rightarrow> bool" where
  "is_relative_to p q \<longleftrightarrow> pp_root p = pp_root q \<and> take (length (pp_parts q)) (pp_parts p) = pp_parts q"

definition path_text :: "posix_path \<Rightarrow> string" where
  "path_text p = (if pp_root p = [] \<and> pp_parts p = [] then ''.'' else pp_root p @ join ''/'' (pp_parts p))"

record file_system =
  fs_resolve :: "posix_path \<Rightarrow> posix_path result"
  fs_size :: "posix_path \<Rightarrow> int result"
  fs_bytes :: "posix_path \<Rightarrow> string result"
  fs_decode :: "string \<Rightarrow> string result"

text \<open>\<^verbatim>\<open>v in {x, y}\<close> for an integer \<open>v\<close>: building the set hashes its elements.\<close>

definition hash_check :: "json \<Rightarrow> unit result" where
  "hash_check v =
     (case v of JList _ \<Rightarrow> Inl (TypeError (''unhashable type: '' @ str_repr ''list''))
      | JObj _ \<Rightarrow> Inl (TypeError (''unhashable type: '' @ str_repr ''dict'')) | _ \<Rightarrow> Inr ())"

definition in_pair :: "json \<Rightarrow> json \<Rightarrow> json \<Rightarrow> bool result" where
  "in_pair v x y = bindE (hash_check x) (\<lambda>_. bindE (hash_check y) (\<lambda>_. Inr (py_eq v x \<or> py_eq v y)))"

lemma in_pair_ok [ok]: "in_pair v x y = Inr b \<longleftrightarrow> hash_check x = Inr () \<and> hash_check y = Inr () \<and> b = (py_eq v x \<or> py_eq v y)"
  by (auto simp: in_pair_def ok)

end
