(* ===== verification/Profile_Evidence.thy ===== *)
theory Profile_Evidence
  imports Perf_Evidence Python_Path Validity_Attribution
begin

text \<open>
  profile_evidence.py: whether the profiler artifacts of a repetition are those its configuration declares.
  The file system and SHA-256 of bytes are parameters.
\<close>

definition MAX_PROFILE_BYTES :: int where "MAX_PROFILE_BYTES = 16 * 1024 * 1024"
definition MAX_PERF_BYTES :: int where "MAX_PERF_BYTES = 64 * 1024 * 1024"

subsection \<open>Values\<close>

definition positive_integer :: "json \<Rightarrow> bool" where
  "positive_integer v \<longleftrightarrow> (case v of JInt i \<Rightarrow> 0 < i | _ \<Rightarrow> False)"

definition profile_batches :: "obj \<Rightarrow> obj list" where
  "profile_batches child = (case get child ''batches'' of JList items \<Rightarrow> map object_value items | _ \<Rightarrow> [])"

text \<open>\<^verbatim>\<open>type(x) is type(y)\<close>\<close>

fun same_type :: "json \<Rightarrow> json \<Rightarrow> bool" where
  "same_type JNull JNull = True"
| "same_type (JBool a) (JBool b) = True"
| "same_type (JInt i) (JInt j) = True"
| "same_type (JFloat x) (JFloat y) = True"
| "same_type (JStr s) (JStr t) = True"
| "same_type (JList xs) (JList ys) = True"
| "same_type (JObj d) (JObj e) = True"
| "same_type v w = False"

subsection \<open>Files\<close>

definition escapes :: "string \<Rightarrow> py_error" where
  "escapes what = ValueError (what @ '' escapes the report directory'')"

text \<open>
  Whether the name cannot be that of an artifact. The first part of a path without parts, such as \<^verbatim>\<open>.\<close>, does
  not exist: indexing raises, with an exception that no caller expects.\<close>

definition bad_artifact_name :: "json \<Rightarrow> bool result" where
  "bad_artifact_name name =
     (case name of
        JStr s \<Rightarrow>
          if s = [] \<or> is_absolute (path_of s) \<or> ''..'' \<in> set (pp_parts (path_of s)) then Inr True
          else (case pp_parts (path_of s) of
                  [] \<Rightarrow> Inl (IndexError ''tuple index out of range'')
                | part # _ \<Rightarrow> Inr (part \<noteq> ''profiles''))
      | _ \<Rightarrow> Inr True)"

definition same_artifact :: "file_system \<Rightarrow> json \<Rightarrow> posix_path \<Rightarrow> bool result" where
  "same_artifact fs actual path =
     (case actual of
        JStr s \<Rightarrow>
          if \<not> is_absolute (path_of s) then Inr False
          else bindE (fs_resolve fs (path_of s)) (\<lambda>resolved. Inr (resolved = path))
      | _ \<Rightarrow> Inr False)"

definition same_size :: "file_system \<Rightarrow> json \<Rightarrow> int \<Rightarrow> posix_path \<Rightarrow> bool result" where
  "same_size fs declared limit path =
     (case declared of
        JInt n \<Rightarrow> if 0 < n \<and> n \<le> limit then bindE (fs_size fs path) (\<lambda>m. Inr (m = n)) else Inr False
      | _ \<Rightarrow> Inr False)"

text \<open>\<^verbatim>\<open>stream.read(n)\<close>\<close>

definition read_up_to :: "int \<Rightarrow> string \<Rightarrow> string" where
  "read_up_to n data = take (nat n) data"

lemma read_up_to_code [code]: "read_up_to n data = (if int (length data) \<le> n then data else take (nat n) data)"
  by (simp add: read_up_to_def)

definition profile_file ::
  "file_system \<Rightarrow> (string \<Rightarrow> string) \<Rightarrow> posix_path \<Rightarrow> obj \<Rightarrow> obj \<Rightarrow> posix_path list \<Rightarrow> int \<Rightarrow> (string \<times> posix_path list) result"
where
  "profile_file fs sha256 base outcome evidence seen limit =
     (case get outcome ''output_dir'' of
        JStr output \<Rightarrow>
          bindE (raise_if (output = []) (ValueError ''Profile case output directory is missing'')) (\<lambda>_.
          bindE (fs_resolve fs (path_of output)) (\<lambda>case_directory.
          bindE (raise_if (\<not> is_relative_to case_directory base) (escapes ''Profile case output directory'')) (\<lambda>_.
          bindE (bad_artifact_name (get evidence ''relative_path'')) (\<lambda>bad.
          bindE (raise_if bad (ValueError ''Profile artifact requires a case-relative path'')) (\<lambda>_.
          let name = (case get evidence ''relative_path'' of JStr s \<Rightarrow> s | _ \<Rightarrow> [])
          in bindE (fs_resolve fs (join_path case_directory (path_of name))) (\<lambda>path.
          bindE (raise_if (\<not> is_relative_to path case_directory \<or> \<not> is_relative_to path base \<or> path \<in> set seen)
            (ValueError ''Profile artifact escapes its owned case directory or is duplicated'')) (\<lambda>_.
          bindE (same_artifact fs (get evidence ''path'') path) (\<lambda>same.
          bindE (raise_if (\<not> same) (ValueError ''Profile artifact absolute and case-relative paths differ'')) (\<lambda>_.
          bindE (same_size fs (get evidence ''size_bytes'') limit path) (\<lambda>sized.
          bindE (raise_if (\<not> sized) (ValueError (''Profile artifact size differs or exceeds the nonempty '' @
              int_str (limit div (1024 * 1024)) @ '' MiB bound''))) (\<lambda>_.
          bindE (fs_bytes fs path) (\<lambda>data.
          let content = read_up_to (limit + 1) data
          in bindE (raise_if (get evidence ''size_bytes'' \<noteq> JInt (int (length content)) \<or>
                get evidence ''sha256'' \<noteq> JStr (sha256 content))
              (ValueError ''Profile artifact checksum or read size differs'')) (\<lambda>_.
            Inr (content, path # seen))))))))))))))
      | _ \<Rightarrow> Inl (ValueError ''Profile case output directory is missing''))"

subsection \<open>Bounds of the load\<close>

definition load_bounds :: "obj \<Rightarrow> obj \<Rightarrow> (int \<times> int) result" where
  "load_bounds batch evidence =
     (let timing = object_value (get batch ''timing'');
          mismatch = ValueError ''Profile artifact load timestamps differ from the actual measured batch''
      in case (get timing ''load_started_ns'', get timing ''load_finished_ns'') of
           (JInt started, JInt finished) \<Rightarrow>
             bindE (raise_if (\<not> 0 < started \<or> \<not> 0 < finished \<or> finished \<le> started \<or>
                 get evidence ''load_started_ns'' \<noteq> JInt started \<or> get evidence ''load_finished_ns'' \<noteq> JInt finished)
               mismatch) (\<lambda>_. Inr (started, finished))
         | _ \<Rightarrow> Inl mismatch)"

subsection \<open>Python profiles\<close>

definition digit_text :: "string \<Rightarrow> bool" where
  "digit_text s \<longleftrightarrow> s \<noteq> [] \<and> list_all (\<lambda>c. is_digit c \<or> char_code c \<in> {178, 179, 185}) s"

definition version_number :: "string \<Rightarrow> int result" where
  "version_number s =
     (if list_all is_digit s then int_of_digits s
      else Inl (ValueError (''invalid literal for int() with base 10: '' @ str_repr s)))"

definition python_scope :: "obj \<Rightarrow> unit result" where
  "python_scope evidence =
     (let version = split_on CHR ''.'' (py_str (get_default evidence ''python_version'' (JStr [])));
          unknown = ValueError ''Python profiler version must identify its monitoring scope''
      in case version of
           major # minor # _ \<Rightarrow>
             bindE (raise_if (\<not> digit_text major \<or> \<not> digit_text minor) unknown) (\<lambda>_.
             bindE (version_number major) (\<lambda>a.
             bindE (version_number minor) (\<lambda>b.
               let monitoring = (3 < a \<or> a = 3 \<and> 12 \<le> b);
                   scope = (if monitoring then ''interpreter-monitoring'' else ''enabling-thread'');
                   qualification = (if monitoring then ''unqualified-cross-thread-context'' else ''qualified-thread-scope'')
               in raise_if (get evidence ''thread_scope'' \<noteq> JStr scope \<or> get evidence ''attribution_qualification'' \<noteq> JStr qualification \<or>
                      \<not> positive_integer (get evidence ''enabling_thread_id'') \<or>
                      \<not> py_eq (get evidence ''enabling_thread_id'') (get evidence ''thread_id''))
                    (ValueError ''Python profiler thread scope/qualification differs from the recorded runtime''))))
         | _ \<Rightarrow> Inl unknown)"

definition python_identity :: "obj \<Rightarrow> obj \<Rightarrow> obj \<Rightarrow> bool" where
  "python_identity outcome child evidence \<longleftrightarrow>
     get evidence ''profiler'' = JStr ''cprofile'' \<and> get evidence ''status'' = JStr ''ok'' \<and>
     positive_integer (get outcome ''client_pid'') \<and> py_eq (get evidence ''pid'') (get outcome ''client_pid'') \<and>
     py_eq (get child ''worker_pid'') (get outcome ''client_pid'') \<and> positive_integer (get evidence ''thread_id'') \<and>
     is_str (get evidence ''python_version'') \<and> truthy (get evidence ''python_version'')"

definition python_brackets :: "obj \<Rightarrow> int \<Rightarrow> int \<Rightarrow> bool" where
  "python_brackets evidence started finished \<longleftrightarrow>
     (case (get evidence ''enabled_before_ns'', get evidence ''disabled_after_ns'') of
        (JInt enabled, JInt disabled) \<Rightarrow>
          0 < enabled \<and> 0 < disabled \<and> enabled \<le> started \<and> finished \<le> disabled \<and>
          get evidence ''load_boundary_overhang_ns'' = JInt (started - enabled + disabled - finished)
      | _ \<Rightarrow> False)"

definition python_batch ::
  "file_system \<Rightarrow> (string \<Rightarrow> string) \<Rightarrow> posix_path \<Rightarrow> obj \<Rightarrow> obj \<Rightarrow> posix_path list \<Rightarrow> obj \<Rightarrow> posix_path list result"
where
  "python_batch fs sha256 base outcome child seen batch =
     (let evidence = object_value (get batch ''python_profile'')
      in bindE (raise_if (\<not> python_identity outcome child evidence)
           (ValueError ''Python profile identity/status/version is missing or differs from the owned client'')) (\<lambda>_.
         bindE (load_bounds batch evidence) (\<lambda>(started, finished).
         bindE (raise_if (\<not> python_brackets evidence started finished)
           (ValueError ''Python profiler enable/disable boundaries do not bracket the measured load'')) (\<lambda>_.
         bindE (profile_file fs sha256 base outcome evidence seen MAX_PROFILE_BYTES) (\<lambda>(content, seen').
         bindE (python_scope evidence) (\<lambda>_. Inr seen'))))))"

definition python_evidence :: "file_system \<Rightarrow> (string \<Rightarrow> string) \<Rightarrow> posix_path \<Rightarrow> obj \<Rightarrow> obj \<Rightarrow> unit result" where
  "python_evidence fs sha256 base outcome child =
     bindE (raise_if (profile_batches child = []) (ValueError ''Declared cProfile measurement has no measured batches'')) (\<lambda>_.
     bindE (raise_if (get (object_value (get child ''warmup'')) ''python_profile'' \<noteq> JNull)
       (ValueError ''Warmup must not contain an explicit Python load profile'')) (\<lambda>_.
       check (foldE (python_batch fs sha256 base outcome child) [] (profile_batches child))))"

subsection \<open>Native profiles\<close>

definition tool_overlap :: "int \<Rightarrow> int \<Rightarrow> int \<Rightarrow> int \<Rightarrow> int" where
  "tool_overlap started finished begun ended = max 0 (min finished ended - max started begun)"

definition tool_recorded :: "obj \<Rightarrow> int \<Rightarrow> int \<Rightarrow> int \<Rightarrow> bool \<Rightarrow> bool" where
  "tool_recorded evidence begun ended overlap qualified \<longleftrightarrow>
     get evidence ''tool_load_overlap_ns'' = JInt overlap \<and> get evidence ''tool_outside_load_ns'' = JInt (ended - begun - overlap) \<and>
     get evidence ''qualification'' = JStr (if qualified then ''qualified'' else ''unqualified'') \<and>
     is_str (get evidence ''qualification_reason'') \<and> truthy (get evidence ''qualification_reason'')"

definition tool_times :: "obj \<Rightarrow> py_error \<Rightarrow> (int \<times> int) result" where
  "tool_times evidence missing =
     (case (get evidence ''tool_started_ns'', get evidence ''tool_finished_ns'') of
        (JInt begun, JInt ended) \<Rightarrow>
          bindE (raise_if (\<not> 0 < begun \<or> \<not> 0 < ended \<or> ended \<le> begun) missing) (\<lambda>_. Inr (begun, ended))
      | _ \<Rightarrow> Inl missing)"

definition native_bounds :: "obj \<Rightarrow> obj \<Rightarrow> unit result" where
  "native_bounds batch evidence =
     bindE (load_bounds batch evidence) (\<lambda>(started, finished).
     bindE (tool_times evidence (ValueError ''Native profiler invocation timestamps are missing or unordered'')) (\<lambda>(begun, ended).
       raise_if (\<not> tool_recorded evidence begun ended (tool_overlap started finished begun ended)
           (started \<le> begun \<and> begun < ended \<and> ended \<le> finished))
         (ValueError ''Native profile qualification/overlap differs from actual load and invocation timestamps'')))"

definition PROCESS_PATTERN :: regex where
  "PROCESS_PATTERN = rseq
     [RLineBegin, lit ''Process:'', many1 space, many1 anychar, lit ''['', RGroup ''1'' (many1 decimal), lit '']'',
      RStar space, RLineEnd]"

definition ANALYSIS_PATTERN :: regex where
  "ANALYSIS_PATTERN = rseq
     [RLineBegin, lit ''Analysis of sampling '', many1 anychar, lit '' (pid '', RGroup ''1'' (many1 decimal),
      lit '') every 1 millisecond'', RStar space, RLineEnd]"

definition native_identity :: "file_system \<Rightarrow> string \<Rightarrow> obj \<Rightarrow> int \<Rightarrow> unit result" where
  "native_identity fs content evidence pid =
     (let mismatch = ValueError ''Native sample headers/call graph do not prove the owned target identity''
      in bindE (fs_decode fs content) (\<lambda>text.
           case (regex_search PROCESS_PATTERN text, regex_search ANALYSIS_PATTERN text) of
             (Some process, Some analysis) \<Rightarrow>
               bindE (raise_if (\<not> found (lit ''Call graph:'') text) mismatch) (\<lambda>_.
               bindE (int_of_digits (group process ''1'')) (\<lambda>a.
               bindE (raise_if (a \<noteq> pid) mismatch) (\<lambda>_.
               bindE (int_of_digits (group analysis ''1'')) (\<lambda>b.
                 raise_if (b \<noteq> pid \<or> \<not> py_eq (get evidence ''pid_from_report'') (JInt pid) \<or>
                     \<not> py_eq (get evidence ''pid_from_analysis_header'') (JInt pid)) mismatch))))
           | _ \<Rightarrow> Inl mismatch))"

text \<open>What the records of both native profilers must say; the identity of the profiler hashes the owned processes.\<close>

definition native_record :: "obj \<Rightarrow> obj \<Rightarrow> string \<Rightarrow> string \<Rightarrow> bool" where
  "native_record outcome evidence profiler role \<longleftrightarrow>
     get evidence ''profiler'' = JStr profiler \<and> get evidence ''status'' = JStr ''ok'' \<and>
     get evidence ''returncode'' = JInt 0 \<and> get evidence ''cleanup_interrupted'' = JBool False \<and>
     get evidence ''failures'' = JList [] \<and> positive_integer (get outcome (role @ ''_pid'')) \<and>
     get evidence ''target_role'' = JStr role \<and> py_eq (get evidence ''target_pid'') (get outcome (role @ ''_pid'')) \<and>
     positive_integer (get evidence ''profiler_pid'')"

definition check_native_record :: "obj \<Rightarrow> obj \<Rightarrow> string \<Rightarrow> string \<Rightarrow> bool \<Rightarrow> py_error \<Rightarrow> unit result" where
  "check_native_record outcome evidence profiler role declared mismatch =
     bindE (raise_if (\<not> native_record outcome evidence profiler role) mismatch) (\<lambda>_.
     bindE (in_pair (get evidence ''profiler_pid'') (get outcome ''client_pid'') (get outcome ''server_pid'')) (\<lambda>own.
       raise_if (own \<or> \<not> declared) mismatch))"

definition sample_command :: "int \<Rightarrow> json \<Rightarrow> json list" where
  "sample_command pid path =
     [JStr ''/usr/bin/sample'', JStr (int_str pid), JStr ''1'', JStr ''1'', JStr ''-mayDie'', JStr ''-file'', path]"

definition int_in :: "json \<Rightarrow> int" where
  "int_in v = (case v of JInt i \<Rightarrow> i | _ \<Rightarrow> 0)"

definition native_evidence :: "file_system \<Rightarrow> (string \<Rightarrow> string) \<Rightarrow> posix_path \<Rightarrow> obj \<Rightarrow> obj \<Rightarrow> string \<Rightarrow> unit result" where
  "native_evidence fs sha256 base outcome child backend =
     (let evidence = object_value (get outcome ''native_profile'');
          role = (if backend = ''sample-client'' then ''client'' else ''server'');
          pid = int_in (get outcome (role @ ''_pid'')); batches = profile_batches child
      in bindE (check_native_record outcome evidence ''sample'' role
             (get evidence ''sample_duration_s'' = JInt 1 \<and> get evidence ''sample_interval_ms'' = JInt 1 \<and> length batches = 1)
             (ValueError ''Native profile identity/status/scope differs from the declared owned target'')) (\<lambda>_.
         bindE (raise_if (\<not> py_eq (get evidence ''command'') (JList (sample_command pid (get evidence ''path''))))
           (ValueError ''Native profile command differs from its declared fixed tool/target/interval'')) (\<lambda>_.
         bindE (native_bounds (hd batches) evidence) (\<lambda>_.
         bindE (profile_file fs sha256 base outcome evidence [] MAX_PROFILE_BYTES) (\<lambda>(content, seen).
           native_identity fs content evidence pid)))))"

subsection \<open>Perf profiles\<close>

definition perf_bounds :: "obj \<Rightarrow> obj \<Rightarrow> unit result" where
  "perf_bounds batch evidence =
     bindE (load_bounds batch evidence) (\<lambda>(started, finished).
     bindE (tool_times evidence (ValueError ''Perf invocation timestamps are missing or unordered'')) (\<lambda>(begun, ended).
       let sampled = (case (get evidence ''first_sample_ns'', get evidence ''last_sample_ns'') of
             (JInt sample_first, JInt sample_last) \<Rightarrow>
               started \<le> sample_first \<and> sample_first \<le> sample_last \<and> sample_last \<le> finished
           | _ \<Rightarrow> False)
       in raise_if (\<not> tool_recorded evidence begun ended (tool_overlap started finished begun ended)
              (started \<le> begun \<and> begun < ended \<and> ended \<le> finished \<and> sampled))
            (ValueError ''Perf qualification/overlap differs from measured load and actual samples'')))"

definition perf_command :: "string \<Rightarrow> int \<Rightarrow> int \<Rightarrow> json \<Rightarrow> json list" where
  "perf_command tool frequency pid path =
     map JStr ([tool, ''record'', ''--clockid'', ''mono'', ''-F'', int_str frequency] @
       (if frequency \<noteq> DEFAULT_PERF_SAMPLE_FREQUENCY_HZ then [''--strict-freq''] else []) @
       [''-e'', ''cpu-clock:u'', ''--call-graph'', ''dwarf,8192'', ''-p'', int_str pid, ''-o'']) @
     [path, JStr ''--'', JStr ''/usr/bin/sleep'', JStr ''0.5'']"

definition decoding_arguments :: "(string \<times> string list) list" where
  "decoding_arguments =
     [(''header'', [''report'', ''--header-only'', ''--stdio'']),
      (''script'', [''script'', ''--ns'', ''--header'', ''--show-lost-events'', ''-F'', ''comm,pid,tid,time,period,event,ip,sym,dso'']),
      (''summary'', [''report'', ''--stdio'', ''--no-children'', ''--percent-limit'', ''100''])]"

definition decoding_command :: "string \<Rightarrow> string list \<Rightarrow> json \<Rightarrow> json" where
  "decoding_command tool arguments path = JList (map JStr ([tool] @ arguments @ [''-i'']) @ [path])"

definition ARTIFACT_NAMES :: "string list" where
  "ARTIFACT_NAMES = [''header'', ''script'', ''summary'', ''record_stderr'']"

fun read_texts ::
  "file_system \<Rightarrow> (string \<Rightarrow> string) \<Rightarrow> posix_path \<Rightarrow> obj \<Rightarrow> posix_path list \<Rightarrow> obj \<Rightarrow> (string \<times> string) list result"
where
  "read_texts fs sha256 base outcome seen [] = Inr []"
| "read_texts fs sha256 base outcome seen ((name, v) # artifacts) =
     bindE (profile_file fs sha256 base outcome (object_value v) seen MAX_PROFILE_BYTES) (\<lambda>(content, seen').
     bindE (fs_decode fs content) (\<lambda>text.
     bindE (read_texts fs sha256 base outcome seen' artifacts) (\<lambda>texts. Inr ((name, text) # texts))))"

definition text_of :: "(string \<times> string) list \<Rightarrow> perf_text" where
  "text_of texts =
     \<lparr>px_header = group texts ''header'', px_script = group texts ''script'', px_summary = group texts ''summary'',
      px_record_stderr = group texts ''record_stderr''\<rparr>"

definition perf_declared :: "obj \<Rightarrow> obj list \<Rightarrow> int \<Rightarrow> bool" where
  "perf_declared evidence batches frequency \<longleftrightarrow>
     py_eq (get evidence ''sample_duration_s'') (JFloat (Fin (1 / 2))) \<and> get evidence ''sample_frequency_hz'' = JInt frequency \<and>
     length batches = 1 \<and>
     (case get evidence ''tool_path'' of JStr tool \<Rightarrow> is_absolute (path_of tool) | _ \<Rightarrow> False) \<and>
     hex_digest (JStr (py_str (get_default evidence ''tool_sha256'' (JStr [])))) 64 \<and>
     starts_with (py_str (get_default evidence ''tool_version'' (JStr []))) ''perf version '' \<and>
     get (object_value (get evidence ''python_clock'')) ''implementation'' = JStr ''clock_gettime(CLOCK_MONOTONIC)''"

definition perf_texts ::
  "file_system \<Rightarrow> (string \<Rightarrow> string) \<Rightarrow> posix_path \<Rightarrow> obj \<Rightarrow> obj \<Rightarrow> string \<Rightarrow> posix_path list \<Rightarrow> perf_text result"
where
  "perf_texts fs sha256 base outcome evidence tool seen =
     (let artifacts = object_value (get evidence ''text_artifacts'')
      in bindE (raise_if (fst ` set artifacts \<noteq> set ARTIFACT_NAMES)
           (ValueError ''Perf recording requires complete bounded decoded text artifacts'')) (\<lambda>_.
         bindE (forE (\<lambda>(name, arguments).
             raise_if (\<not> py_eq (get (object_value (get artifacts name)) ''command'') (decoding_command tool arguments (get evidence ''path'')))
               (ValueError ''Perf text decoding command differs from the declared owned raw recording'')) decoding_arguments) (\<lambda>_.
         bindE (read_texts fs sha256 base outcome seen artifacts) (\<lambda>texts. Inr (text_of texts)))))"

definition perf_evidence :: "file_system \<Rightarrow> (string \<Rightarrow> string) \<Rightarrow> posix_path \<Rightarrow> obj \<Rightarrow> obj \<Rightarrow> string \<Rightarrow> int \<Rightarrow> unit result" where
  "perf_evidence fs sha256 base outcome child backend frequency =
     (let evidence = object_value (get outcome ''native_profile'');
          role = (if backend = ''perf-client'' then ''client'' else ''server'');
          pid = int_in (get outcome (role @ ''_pid'')); batches = profile_batches child;
          tool = (case get evidence ''tool_path'' of JStr s \<Rightarrow> s | _ \<Rightarrow> [])
      in bindE (check_native_record outcome evidence ''perf'' role (perf_declared evidence batches frequency)
             (ValueError ''Perf profile identity/status/tool/scope differs from the declared owned target'')) (\<lambda>_.
         bindE (raise_if (\<not> py_eq (get evidence ''command'') (JList (perf_command tool frequency pid (get evidence ''path''))))
           (ValueError ''Perf recording command differs from its declared tool/target/event/clock'')) (\<lambda>_.
         bindE (profile_file fs sha256 base outcome evidence [] MAX_PERF_BYTES) (\<lambda>(content, seen).
         bindE (raise_if (\<not> starts_with content ''PERFILE2'')
           (ValueError ''Perf raw artifact does not identify the supported perf.data file format'')) (\<lambda>_.
         bindE (perf_texts fs sha256 base outcome evidence tool seen) (\<lambda>text.
         bindE (inspect_perf_text text pid frequency) (\<lambda>parsed.
         bindE (raise_if (list_ex (\<lambda>(key, v). \<not> py_eq (get evidence key) v \<or> \<not> same_type (get evidence key) v) parsed)
           (ValueError ''Perf sample identity/count/timestamps differ from decoded text artifacts'')) (\<lambda>_.
           perf_bounds (hd batches) evidence))))))))"

subsection \<open>A repetition\<close>

definition PROFILER_BACKENDS :: "string list" where
  "PROFILER_BACKENDS = [''cprofile'', ''sample-client'', ''sample-server'', ''perf-client'', ''perf-server'']"

definition python_profiled :: "obj \<Rightarrow> bool" where
  "python_profiled child \<longleftrightarrow> list_ex (\<lambda>batch. get batch ''python_profile'' \<noteq> JNull) (profile_batches child)"

definition invalid_frequency :: "json \<Rightarrow> json \<Rightarrow> bool" where
  "invalid_frequency frequency backend \<longleftrightarrow>
     (case frequency of
        JInt hz \<Rightarrow> hz \<notin> set PERF_SAMPLE_FREQUENCIES_HZ \<or>
          hz \<noteq> DEFAULT_PERF_SAMPLE_FREQUENCY_HZ \<and> backend \<noteq> JStr ''perf-client'' \<and> backend \<noteq> JStr ''perf-server''
      | _ \<Rightarrow> True)"

definition backend_evidence ::
  "file_system \<Rightarrow> (string \<Rightarrow> string) \<Rightarrow> obj \<Rightarrow> obj \<Rightarrow> posix_path \<Rightarrow> string \<Rightarrow> json \<Rightarrow> unit result"
where
  "backend_evidence fs sha256 outcome child directory backend frequency =
     bindE (fs_resolve fs directory) (\<lambda>base.
       if backend = ''cprofile'' then python_evidence fs sha256 base outcome child
       else if starts_with backend ''perf-'' then perf_evidence fs sha256 base outcome child backend (int_in frequency)
       else native_evidence fs sha256 base outcome child backend)"

definition declared_profiler :: "obj \<Rightarrow> json" where
  "declared_profiler attribution = get_default attribution ''profiler'' (JStr ''none'')"

definition reported_attribution :: "obj \<Rightarrow> obj" where
  "reported_attribution child = object_value (get (object_value (get child ''config'')) ''attribution'')"

definition inspect_profile_evidence ::
  "file_system \<Rightarrow> (string \<Rightarrow> string) \<Rightarrow> obj \<Rightarrow> posix_path \<Rightarrow> string list result"
where
  "inspect_profile_evidence fs sha256 outcome directory =
     (let child = object_value (get outcome ''client_report'');
          attribution = reported_attribution child; declared = declared_profiler attribution;
          frequency = get_default attribution ''perf_sample_frequency_hz'' (JInt DEFAULT_PERF_SAMPLE_FREQUENCY_HZ)
      in if declared = JStr ''none'' then
           Inr (if invalid_frequency frequency declared \<or> get outcome ''native_profile'' \<noteq> JNull \<or>
                  get (object_value (get child ''warmup'')) ''python_profile'' \<noteq> JNull \<or> python_profiled child
                then [''Profile artifacts or nondefault sampling exist without a declared profiler backend''] else [])
         else if invalid_frequency frequency declared \<or> declared \<notin> JStr ` set PROFILER_BACKENDS then
           Inr [''Unknown declared profiler backend or invalid perf sampling frequency'']
         else if get attribution ''instrumentation'' \<noteq> JStr ''diagnostic'' \<or>
             \<not> (case get attribution ''profiler_label'' of JStr label \<Rightarrow> strip label \<noteq> [] | _ \<Rightarrow> False) then
           Inr [''Declared profiling requires diagnostic instrumentation and an explicit profiler label'']
         else if declared = JStr ''cprofile'' \<and> get outcome ''native_profile'' \<noteq> JNull \<or>
             declared \<noteq> JStr ''cprofile'' \<and> python_profiled child then
           Inr [''Profile artifact conflicts with its declared profiler backend'']
         else
           (case backend_evidence fs sha256 outcome child directory (case declared of JStr s \<Rightarrow> s | _ \<Rightarrow> []) frequency of
              Inr _ \<Rightarrow> Inr []
            | Inl e \<Rightarrow>
                if type_or_value_error e \<or> (case e of OSError _ _ \<Rightarrow> True | RuntimeError _ \<Rightarrow> True | _ \<Rightarrow> False)
                then Inr [''Invalid profiler evidence: '' @ error_message e] else Inl e))"

subsection \<open>What accepted evidence shows\<close>

text \<open>
  The file of an artifact and its bytes: named by a path below \<^verbatim>\<open>profiles\<close> of the case directory, which resolves
  to the same file as the absolute path recorded, inside the case and the report, within the bound and with the
  recorded size and digest.\<close>

definition owned_path :: "file_system \<Rightarrow> posix_path \<Rightarrow> obj \<Rightarrow> obj \<Rightarrow> posix_path \<Rightarrow> bool" where
  "owned_path fs base outcome evidence path \<longleftrightarrow>
     (\<exists>output case_directory name parts recorded.
        get outcome ''output_dir'' = JStr output \<and> fs_resolve fs (path_of output) = Inr case_directory \<and>
        is_relative_to case_directory base \<and>
        get evidence ''relative_path'' = JStr name \<and> \<not> is_absolute (path_of name) \<and>
        pp_parts (path_of name) = ''profiles'' # parts \<and> ''..'' \<notin> set parts \<and>
        fs_resolve fs (join_path case_directory (path_of name)) = Inr path \<and>
        get evidence ''path'' = JStr recorded \<and> is_absolute (path_of recorded) \<and>
        fs_resolve fs (path_of recorded) = Inr path \<and>
        is_relative_to path case_directory \<and> is_relative_to path base)"

definition owned_artifact ::
  "file_system \<Rightarrow> (string \<Rightarrow> string) \<Rightarrow> posix_path \<Rightarrow> obj \<Rightarrow> obj \<Rightarrow> int \<Rightarrow> posix_path \<Rightarrow> string \<Rightarrow> bool"
where
  "owned_artifact fs sha256 base outcome evidence limit path content \<longleftrightarrow>
     owned_path fs base outcome evidence path \<and> fs_bytes fs path = Inr content \<and>
     content \<noteq> [] \<and> int (length content) \<le> limit \<and>
     get evidence ''size_bytes'' = JInt (int (length content)) \<and> get evidence ''sha256'' = JStr (sha256 content)"

lemma bad_artifact_name_ok:
  "bad_artifact_name v = Inr False \<longleftrightarrow>
     (\<exists>name parts. v = JStr name \<and> \<not> is_absolute (path_of name) \<and>
        pp_parts (path_of name) = ''profiles'' # parts \<and> ''..'' \<notin> set parts \<and> name \<noteq> [])"
  by (auto simp: bad_artifact_name_def split: json.splits list.splits)

lemma same_artifact_ok:
  "same_artifact fs v path = Inr True \<longleftrightarrow>
     (\<exists>recorded. v = JStr recorded \<and> is_absolute (path_of recorded) \<and> fs_resolve fs (path_of recorded) = Inr path)"
  by (auto simp: same_artifact_def ok split: json.splits)

lemma same_size_ok:
  "same_size fs declared limit path = Inr True \<longleftrightarrow> (\<exists>n. declared = JInt n \<and> 0 < n \<and> n \<le> limit \<and> fs_size fs path = Inr n)"
  by (cases declared) (auto simp: same_size_def ok)

lemma profile_file_owned:
  assumes "profile_file fs sha256 base outcome evidence seen limit = Inr (content, seen')"
  obtains path where "seen' = path # seen" "path \<notin> set seen"
    "owned_artifact fs sha256 base outcome evidence limit path content"
proof -
  obtain out where out: "get outcome ''output_dir'' = JStr out"
    using assms by (auto simp: profile_file_def split: json.splits)
  obtain case_directory path data where parts: "fs_resolve fs (path_of out) = Inr case_directory"
      "is_relative_to case_directory base" "bad_artifact_name (get evidence ''relative_path'') = Inr False"
      "fs_resolve fs (join_path case_directory (path_of (case get evidence ''relative_path'' of JStr s \<Rightarrow> s | _ \<Rightarrow> []))) = Inr path"
      "is_relative_to path case_directory" "is_relative_to path base" "path \<notin> set seen"
      "same_artifact fs (get evidence ''path'') path = Inr True"
      "same_size fs (get evidence ''size_bytes'') limit path = Inr True" "fs_bytes fs path = Inr data"
      "content = read_up_to (limit + 1) data" "get evidence ''size_bytes'' = JInt (int (length content))"
      "get evidence ''sha256'' = JStr (sha256 content)" "seen' = path # seen"
    using assms unfolding profile_file_def out Let_def json.case by (auto simp: ok)
  then have bound: "0 < int (length content)" "int (length content) \<le> limit" by (auto simp: same_size_ok)
  moreover have "length content = min (length data) (nat (limit + 1))" using parts(11) by (simp add: read_up_to_def)
  ultimately have "length data \<le> nat (limit + 1)" by linarith
  then have "content = data" using parts(11) by (simp add: read_up_to_def)
  moreover have "owned_path fs base outcome evidence path"
    using parts(1-6,8) out unfolding owned_path_def bad_artifact_name_ok same_artifact_ok by auto
  ultimately show thesis using that parts(7,10,12-14) bound by (auto simp: owned_artifact_def)
qed

lemma load_bounds_ok:
  "load_bounds batch evidence = Inr (started, finished) \<longleftrightarrow>
     get (object_value (get batch ''timing'')) ''load_started_ns'' = JInt started \<and>
     get (object_value (get batch ''timing'')) ''load_finished_ns'' = JInt finished \<and>
     0 < started \<and> started < finished \<and>
     get evidence ''load_started_ns'' = JInt started \<and> get evidence ''load_finished_ns'' = JInt finished"
  by (auto simp: load_bounds_def Let_def ok split: json.splits)

lemma tool_times_ok:
  "tool_times evidence e = Inr (begun, ended) \<longleftrightarrow>
     get evidence ''tool_started_ns'' = JInt begun \<and> get evidence ''tool_finished_ns'' = JInt ended \<and> 0 < begun \<and> begun < ended"
  by (auto simp: tool_times_def ok split: json.splits)

text \<open>
  A Python profile that was taken around the load of its batch; a native one and how much of it fell into the load:
  it is qualified exactly when the tool, and for perf every sample, ran inside the load.\<close>

definition profiled_load :: "obj \<Rightarrow> obj \<Rightarrow> bool" where
  "profiled_load batch evidence \<longleftrightarrow>
     (\<exists>started finished enabled disabled.
        load_bounds batch evidence = Inr (started, finished) \<and>
        get evidence ''enabled_before_ns'' = JInt enabled \<and> get evidence ''disabled_after_ns'' = JInt disabled \<and>
        enabled \<le> started \<and> started < finished \<and> finished \<le> disabled \<and>
        get evidence ''load_boundary_overhang_ns'' = JInt ((started - enabled) + (disabled - finished)))"

definition samples_inside :: "obj \<Rightarrow> int \<Rightarrow> int \<Rightarrow> bool" where
  "samples_inside evidence started finished \<longleftrightarrow>
     (\<exists>a b. get evidence ''first_sample_ns'' = JInt a \<and> get evidence ''last_sample_ns'' = JInt b \<and>
        started \<le> a \<and> a \<le> b \<and> b \<le> finished)"

definition sampled_load :: "obj \<Rightarrow> obj \<Rightarrow> bool \<Rightarrow> bool" where
  "sampled_load batch evidence perf \<longleftrightarrow>
     (\<exists>started finished begun ended overlap.
        load_bounds batch evidence = Inr (started, finished) \<and>
        get evidence ''tool_started_ns'' = JInt begun \<and> get evidence ''tool_finished_ns'' = JInt ended \<and> begun < ended \<and>
        overlap = max 0 (min finished ended - max started begun) \<and>
        get evidence ''tool_load_overlap_ns'' = JInt overlap \<and>
        get evidence ''tool_outside_load_ns'' = JInt (ended - begun - overlap) \<and>
        (get evidence ''qualification'' = JStr ''qualified'') =
          (started \<le> begun \<and> ended \<le> finished \<and> (perf \<longrightarrow> samples_inside evidence started finished)))"

lemma recorded_load:
  assumes "load_bounds batch evidence = Inr (started, finished)" "tool_times evidence e = Inr (begun, ended)"
    and "tool_recorded evidence begun ended (tool_overlap started finished begun ended) inside"
    and "inside = (started \<le> begun \<and> ended \<le> finished \<and> (perf \<longrightarrow> samples_inside evidence started finished))"
  shows "sampled_load batch evidence perf"
proof -
  have times: "get evidence ''tool_started_ns'' = JInt begun" "get evidence ''tool_finished_ns'' = JInt ended" "begun < ended"
    using assms(2) by (simp_all add: tool_times_ok)
  have said: "get evidence ''tool_load_overlap_ns'' = JInt (tool_overlap started finished begun ended)"
      "get evidence ''tool_outside_load_ns'' = JInt (ended - begun - tool_overlap started finished begun ended)"
      "get evidence ''qualification'' = JStr (if inside then ''qualified'' else ''unqualified'')"
    using assms(3) by (simp_all only: tool_recorded_def)
  have "(get evidence ''qualification'' = JStr ''qualified'') = inside" by (simp add: said(3))
  with assms(1,4) times said(1,2) show ?thesis
    unfolding sampled_load_def
    by (intro exI [of _ started] exI [of _ finished] exI [of _ begun] exI [of _ ended]
        exI [of _ "tool_overlap started finished begun ended"] conjI) (simp_all only: tool_overlap_def)
qed

lemma native_bounds_sound:
  assumes "native_bounds batch evidence = Inr ()"
  shows "sampled_load batch evidence False"
proof -
  obtain started finished begun ended where bounds: "load_bounds batch evidence = Inr (started, finished)"
      "tool_times evidence (ValueError ''Native profiler invocation timestamps are missing or unordered'') = Inr (begun, ended)"
      "tool_recorded evidence begun ended (tool_overlap started finished begun ended)
         (started \<le> begun \<and> begun < ended \<and> ended \<le> finished)"
    using assms by (auto simp: native_bounds_def ok)
  moreover have "begun < ended" using bounds(2) by (simp add: tool_times_ok)
  ultimately show ?thesis by (intro recorded_load [OF bounds]) simp
qed

lemma perf_bounds_sound:
  assumes "perf_bounds batch evidence = Inr ()"
  shows "sampled_load batch evidence True"
proof -
  obtain started finished begun ended where bounds: "load_bounds batch evidence = Inr (started, finished)"
      "tool_times evidence (ValueError ''Perf invocation timestamps are missing or unordered'') = Inr (begun, ended)"
      "tool_recorded evidence begun ended (tool_overlap started finished begun ended)
         (started \<le> begun \<and> begun < ended \<and> ended \<le> finished \<and>
          (case (get evidence ''first_sample_ns'', get evidence ''last_sample_ns'') of
             (JInt sample_first, JInt sample_last) \<Rightarrow>
               started \<le> sample_first \<and> sample_first \<le> sample_last \<and> sample_last \<le> finished
           | _ \<Rightarrow> False))"
    using assms unfolding perf_bounds_def Let_def by (auto simp: ok)
  have "(case (a, b) of (JInt sample_first, JInt sample_last) \<Rightarrow>
      started \<le> sample_first \<and> sample_first \<le> sample_last \<and> sample_last \<le> finished | _ \<Rightarrow> False) =
    (\<exists>i j. a = JInt i \<and> b = JInt j \<and> started \<le> i \<and> i \<le> j \<and> j \<le> finished)" for a b
    by (cases a; cases b) simp_all
  moreover have "begun < ended" using bounds(2) by (simp add: tool_times_ok)
  ultimately show ?thesis by (intro recorded_load [OF bounds]) (simp add: samples_inside_def)
qed

text \<open>The recording of a batch by \<^verbatim>\<open>cProfile\<close>.\<close>

definition python_recording ::
  "file_system \<Rightarrow> (string \<Rightarrow> string) \<Rightarrow> posix_path \<Rightarrow> obj \<Rightarrow> obj \<Rightarrow> obj \<Rightarrow> posix_path \<Rightarrow> bool"
where
  "python_recording fs sha256 base outcome child batch path \<longleftrightarrow>
     (let evidence = object_value (get batch ''python_profile'')
      in (\<exists>content. owned_artifact fs sha256 base outcome evidence MAX_PROFILE_BYTES path content) \<and>
         profiled_load batch evidence \<and> python_identity outcome child evidence \<and> python_scope evidence = Inr ())"

lemma python_batch_sound:
  assumes "python_batch fs sha256 base outcome child seen batch = Inr seen'"
  shows "\<exists>path. seen' = path # seen \<and> path \<notin> set seen \<and> python_recording fs sha256 base outcome child batch path"
proof -
  let ?evidence = "object_value (get batch ''python_profile'')"
  obtain started finished content where parts: "python_identity outcome child ?evidence"
      "load_bounds batch ?evidence = Inr (started, finished)" "python_brackets ?evidence started finished"
      "profile_file fs sha256 base outcome ?evidence seen MAX_PROFILE_BYTES = Inr (content, seen')"
      "python_scope ?evidence = Inr ()"
    using assms by (auto simp: python_batch_def Let_def ok)
  then have "profiled_load batch ?evidence"
    by (auto simp: profiled_load_def python_brackets_def load_bounds_ok split: json.splits)
  with parts(1,5) show ?thesis
    unfolding python_recording_def Let_def by (metis profile_file_owned [OF parts(4)])
qed

lemma python_batches_sound:
  assumes "foldE (python_batch fs sha256 base outcome child) seen batches = Inr seen'"
  shows "\<exists>paths. distinct paths \<and> set paths \<inter> set seen = {} \<and>
    list_all2 (python_recording fs sha256 base outcome child) batches paths"
  using assms
proof (induction batches arbitrary: seen)
  case (Cons batch batches)
  obtain middle where middle: "python_batch fs sha256 base outcome child seen batch = Inr middle"
      "foldE (python_batch fs sha256 base outcome child) middle batches = Inr seen'"
    using Cons.prems by (auto simp: ok)
  obtain path where path: "middle = path # seen" "path \<notin> set seen"
      "python_recording fs sha256 base outcome child batch path"
    using python_batch_sound [OF middle(1)] by blast
  obtain paths where "distinct paths" "set paths \<inter> set middle = {}"
      "list_all2 (python_recording fs sha256 base outcome child) batches paths"
    using Cons.IH [OF middle(2)] by blast
  with path show ?case by (intro exI [of _ "path # paths"]) auto
qed simp

text \<open>
  The recording of the only batch by \<^verbatim>\<open>sample\<close>: the process it was started on is the owned one, its command is the
  fixed one, and the two headers of the text it wrote name that process.\<close>

definition native_role :: "string \<Rightarrow> string" where
  "native_role backend = (if ends_with backend ''-client'' then ''client'' else ''server'')"

definition sample_recording ::
  "file_system \<Rightarrow> (string \<Rightarrow> string) \<Rightarrow> posix_path \<Rightarrow> obj \<Rightarrow> obj \<Rightarrow> string \<Rightarrow> bool"
where
  "sample_recording fs sha256 base outcome batch role \<longleftrightarrow>
     (let evidence = object_value (get outcome ''native_profile'')
      in \<exists>pid path content text process analysis.
        native_record outcome evidence ''sample'' role \<and> get outcome (role @ ''_pid'') = JInt pid \<and>
        get evidence ''sample_duration_s'' = JInt 1 \<and> get evidence ''sample_interval_ms'' = JInt 1 \<and>
        py_eq (get evidence ''command'') (JList (sample_command pid (get evidence ''path''))) \<and>
        sampled_load batch evidence False \<and>
        owned_artifact fs sha256 base outcome evidence MAX_PROFILE_BYTES path content \<and>
        fs_decode fs content = Inr text \<and> found (lit ''Call graph:'') text \<and>
        regex_search PROCESS_PATTERN text = Some process \<and> int_of_digits (group process ''1'') = Inr pid \<and>
        regex_search ANALYSIS_PATTERN text = Some analysis \<and> int_of_digits (group analysis ''1'') = Inr pid \<and>
        py_eq (get evidence ''pid_from_report'') (JInt pid) \<and> py_eq (get evidence ''pid_from_analysis_header'') (JInt pid))"

text \<open>
  The recording of the only batch by \<^verbatim>\<open>perf\<close>: the raw recording and its four decoded texts are files of their
  own, the commands that made them are the declared ones, the texts show the declared event and frequency, samples of
  the owned process only and none lost, and what was recorded of the samples is what the texts say.\<close>

definition perf_recording ::
  "file_system \<Rightarrow> (string \<Rightarrow> string) \<Rightarrow> posix_path \<Rightarrow> obj \<Rightarrow> obj \<Rightarrow> string \<Rightarrow> int \<Rightarrow> bool"
where
  "perf_recording fs sha256 base outcome batch role hz \<longleftrightarrow>
     (let evidence = object_value (get outcome ''native_profile'');
          artifacts = object_value (get evidence ''text_artifacts'')
      in \<exists>pid tool path content files text samples.
        native_record outcome evidence ''perf'' role \<and> get outcome (role @ ''_pid'') = JInt pid \<and>
        perf_declared evidence [batch] hz \<and> get evidence ''tool_path'' = JStr tool \<and>
        py_eq (get evidence ''command'') (JList (perf_command tool hz pid (get evidence ''path''))) \<and>
        sampled_load batch evidence True \<and>
        owned_artifact fs sha256 base outcome evidence MAX_PERF_BYTES path content \<and> starts_with content ''PERFILE2'' \<and>
        fst ` set artifacts = set ARTIFACT_NAMES \<and> distinct (path # map fst files) \<and>
        list_all2 (\<lambda>artifact entry. \<exists>bytes.
          owned_artifact fs sha256 base outcome (object_value (snd artifact)) MAX_PROFILE_BYTES (fst entry) bytes \<and>
          fs_decode fs bytes = Inr (snd entry)) artifacts files \<and>
        text = text_of (map2 (\<lambda>artifact entry. (fst artifact, snd entry)) artifacts files) \<and>
        list_all (\<lambda>(name, arguments). py_eq (get (object_value (get artifacts name)) ''command'')
          (decoding_command tool arguments (get evidence ''path''))) decoding_arguments \<and>
        inspect_event (px_header text) hz = Inr () \<and> found LOST_SAMPLES_PATTERN (px_summary text) \<and>
        \<not> found LOST_PATTERN (px_script text) \<and> \<not> found LOST_PATTERN (px_record_stderr text) \<and>
        script_samples pid (splitlines (px_script text)) = Inr samples \<and>
        (case regex_search SAMPLE_COUNT_PATTERN (px_summary text) of
           None \<Rightarrow> True | Some m \<Rightarrow> int_of_digits (group m ''1'') = Inr (int (length samples))) \<and>
        list_all (\<lambda>(key, v). py_eq (get evidence key) v) (perf_payload pid samples))"

lemma native_record_pid:
  "native_record outcome evidence profiler role \<Longrightarrow> get outcome (role @ ''_pid'') = JInt (int_in (get outcome (role @ ''_pid'')))"
  by (auto simp: native_record_def positive_integer_def int_in_def split: json.splits)

lemma native_evidence_sound:
  assumes "native_evidence fs sha256 base outcome child backend = Inr ()" "backend \<in> {''sample-client'', ''sample-server''}"
  shows "\<exists>batch. profile_batches child = [batch] \<and> sample_recording fs sha256 base outcome batch (native_role backend)"
proof -
  let ?evidence = "object_value (get outcome ''native_profile'')"
  let ?pid = "int_in (get outcome (native_role backend @ ''_pid''))"
  have role: "(if backend = ''sample-client'' then ''client'' else ''server'') = native_role backend"
    using assms(2) by (auto simp: native_role_def ends_with_def)
  obtain content seen where parts: "native_record outcome ?evidence ''sample'' (native_role backend)"
      "get ?evidence ''sample_duration_s'' = JInt 1" "get ?evidence ''sample_interval_ms'' = JInt 1"
      "length (profile_batches child) = 1"
      "py_eq (get ?evidence ''command'') (JList (sample_command ?pid (get ?evidence ''path'')))"
      "native_bounds (hd (profile_batches child)) ?evidence = Inr ()"
      "profile_file fs sha256 base outcome ?evidence [] MAX_PROFILE_BYTES = Inr (content, seen)"
      "native_identity fs content ?evidence ?pid = Inr ()"
    using assms(1) unfolding native_evidence_def Let_def role check_native_record_def
    by (auto simp only: bindE_ok raise_if_ok simp_thms prod.case; blast)
  from parts(4) obtain batch where batch: "profile_batches child = [batch]" by (auto simp: length_Suc_conv)
  obtain path where owned: "owned_artifact fs sha256 base outcome ?evidence MAX_PROFILE_BYTES path content"
    by (rule profile_file_owned [OF parts(7)])
  obtain body process analysis where named: "fs_decode fs content = Inr body" "found (lit ''Call graph:'') body"
      "regex_search PROCESS_PATTERN body = Some process" "int_of_digits (group process ''1'') = Inr ?pid"
      "regex_search ANALYSIS_PATTERN body = Some analysis" "int_of_digits (group analysis ''1'') = Inr ?pid"
      "py_eq (get ?evidence ''pid_from_report'') (JInt ?pid)" "py_eq (get ?evidence ''pid_from_analysis_header'') (JInt ?pid)"
    using parts(8) unfolding native_identity_def Let_def
    by (auto simp only: bindE_ok raise_if_ok simp_thms split: option.splits; blast)
  show ?thesis
    unfolding sample_recording_def Let_def batch
    using parts(1-3,5) native_record_pid [OF parts(1)] native_bounds_sound [OF parts(6)] owned named
    by (intro exI [of _ batch] conjI exI [of _ ?pid] exI [of _ path] exI [of _ content] exI [of _ body]
        exI [of _ process] exI [of _ analysis]) (simp_all only: batch list.sel)
qed

lemma read_texts_sound:
  assumes "read_texts fs sha256 base outcome seen artifacts = Inr texts"
  shows "\<exists>files. distinct (map fst files) \<and> fst ` set files \<inter> set seen = {} \<and>
    list_all2 (\<lambda>artifact entry. \<exists>bytes.
      owned_artifact fs sha256 base outcome (object_value (snd artifact)) MAX_PROFILE_BYTES (fst entry) bytes \<and>
      fs_decode fs bytes = Inr (snd entry)) artifacts files \<and>
    texts = map2 (\<lambda>artifact entry. (fst artifact, snd entry)) artifacts files"
  using assms
proof (induction artifacts arbitrary: seen texts)
  case (Cons artifact artifacts)
  obtain name v where artifact: "artifact = (name, v)" by force
  obtain content seen' body rest where parts:
      "profile_file fs sha256 base outcome (object_value v) seen MAX_PROFILE_BYTES = Inr (content, seen')"
      "fs_decode fs content = Inr body" "read_texts fs sha256 base outcome seen' artifacts = Inr rest"
      "texts = (name, body) # rest"
    using Cons.prems by (auto simp: artifact ok)
  obtain path where path: "seen' = path # seen" "path \<notin> set seen"
      "owned_artifact fs sha256 base outcome (object_value v) MAX_PROFILE_BYTES path content"
    by (rule profile_file_owned [OF parts(1)])
  obtain files where "distinct (map fst files)" "fst ` set files \<inter> set seen' = {}"
      "list_all2 (\<lambda>artifact entry. \<exists>bytes.
        owned_artifact fs sha256 base outcome (object_value (snd artifact)) MAX_PROFILE_BYTES (fst entry) bytes \<and>
        fs_decode fs bytes = Inr (snd entry)) artifacts files"
      "rest = map2 (\<lambda>artifact entry. (fst artifact, snd entry)) artifacts files"
    using Cons.IH [OF parts(3)] by blast
  with path parts(2,4) show ?case by (intro exI [of _ "(path, body) # files"]) (auto simp: artifact)
qed simp

lemma perf_evidence_sound:
  assumes "perf_evidence fs sha256 base outcome child backend hz = Inr ()" "backend \<in> {''perf-client'', ''perf-server''}"
  shows "\<exists>batch. profile_batches child = [batch] \<and> perf_recording fs sha256 base outcome batch (native_role backend) hz"
proof -
  let ?evidence = "object_value (get outcome ''native_profile'')"
  let ?artifacts = "object_value (get ?evidence ''text_artifacts'')"
  let ?pid = "int_in (get outcome (native_role backend @ ''_pid''))"
  let ?tool = "case get ?evidence ''tool_path'' of JStr s \<Rightarrow> s | _ \<Rightarrow> []"
  have role: "(if backend = ''perf-client'' then ''client'' else ''server'') = native_role backend"
    using assms(2) by (auto simp: native_role_def ends_with_def)
  obtain content seen decoded parsed where parts: "native_record outcome ?evidence ''perf'' (native_role backend)"
      "perf_declared ?evidence (profile_batches child) hz"
      "py_eq (get ?evidence ''command'') (JList (perf_command ?tool hz ?pid (get ?evidence ''path'')))"
      "profile_file fs sha256 base outcome ?evidence [] MAX_PERF_BYTES = Inr (content, seen)" "starts_with content ''PERFILE2''"
      "perf_texts fs sha256 base outcome ?evidence ?tool seen = Inr decoded" "inspect_perf_text decoded ?pid hz = Inr parsed"
      "\<not> list_ex (\<lambda>(key, v). \<not> py_eq (get ?evidence key) v \<or> \<not> same_type (get ?evidence key) v) parsed"
      "perf_bounds (hd (profile_batches child)) ?evidence = Inr ()"
    using assms(1) unfolding perf_evidence_def Let_def role check_native_record_def
    by (auto simp only: bindE_ok raise_if_ok simp_thms prod.case; blast)
  from parts(2) obtain batch tool where batch: "profile_batches child = [batch]" and tool: "get ?evidence ''tool_path'' = JStr tool"
    by (auto simp: perf_declared_def length_Suc_conv split: json.splits)
  obtain path where path: "seen = [path]" "owned_artifact fs sha256 base outcome ?evidence MAX_PERF_BYTES path content"
    by (rule profile_file_owned [OF parts(4)])
  obtain texts where texts: "fst ` set ?artifacts = set ARTIFACT_NAMES" "decoded = text_of texts"
      "list_all (\<lambda>(name, arguments). py_eq (get (object_value (get ?artifacts name)) ''command'')
          (decoding_command tool arguments (get ?evidence ''path''))) decoding_arguments"
      "read_texts fs sha256 base outcome seen ?artifacts = Inr texts"
    using parts(6) unfolding perf_texts_def Let_def tool json.case
    by (auto simp: bindE_ok raise_if_ok forE_ok list_all_iff case_prod_beta simp del: read_texts.simps)
  obtain files where files: "distinct (path # map fst files)"
      "list_all2 (\<lambda>artifact entry. \<exists>bytes.
        owned_artifact fs sha256 base outcome (object_value (snd artifact)) MAX_PROFILE_BYTES (fst entry) bytes \<and>
        fs_decode fs bytes = Inr (snd entry)) ?artifacts files"
      "texts = map2 (\<lambda>artifact entry. (fst artifact, snd entry)) ?artifacts files"
    using read_texts_sound [OF texts(4)] by (auto simp: path(1))
  obtain samples where shown: "inspect_event (px_header decoded) hz = Inr ()" "found LOST_SAMPLES_PATTERN (px_summary decoded)"
      "\<not> found LOST_PATTERN (px_script decoded)" "\<not> found LOST_PATTERN (px_record_stderr decoded)"
      "script_samples ?pid (splitlines (px_script decoded)) = Inr samples" "parsed = perf_payload ?pid samples"
      "case regex_search SAMPLE_COUNT_PATTERN (px_summary decoded) of
         None \<Rightarrow> True | Some m \<Rightarrow> int_of_digits (group m ''1'') = Inr (int (length samples))"
    using parts(7) unfolding inspect_perf_text_def by (auto simp: bindE_ok raise_if_ok split: option.splits)
  have recorded: "list_all (\<lambda>(key, v). py_eq (get ?evidence key) v) (perf_payload ?pid samples)"
    using parts(8) unfolding shown(6) by (auto simp only: list_all_iff list_ex_iff split: prod.splits)
  show ?thesis
    unfolding perf_recording_def Let_def
    by (rule exI [of _ batch], rule conjI [OF batch], rule exI [of _ ?pid], rule exI [of _ tool], rule exI [of _ path],
        rule exI [of _ content], rule exI [of _ files], rule exI [of _ decoded], rule exI [of _ samples])
      (intro conjI parts(1) native_record_pid [OF parts(1)] parts(2) [unfolded batch] tool parts(3) [unfolded tool json.case]
        perf_bounds_sound [OF parts(9) [unfolded batch list.sel]] path(2) parts(5) texts(1) files(1,2)
        texts(2) [unfolded files(3)] texts(3) shown(1-5,7) recorded)
qed

lemma profiler_backends:
  "set PROFILER_BACKENDS = {''cprofile''} \<union> {''perf-client'', ''perf-server''} \<union> {''sample-client'', ''sample-server''}"
  unfolding PROFILER_BACKENDS_def by (simp only: list.set Un_insert_left Un_empty_left insert_commute)

lemma refused_unless:
  assumes "(if none then Inr (if stray then [s] else []) else if unknown then Inr [u] else if undeclared then Inr [d]
      else if conflict then Inr [c] else outcome) = Inr []"
  shows "\<not> none \<Longrightarrow> \<not> unknown" "\<not> none \<Longrightarrow> \<not> undeclared" "\<not> none \<Longrightarrow> \<not> conflict" "\<not> none \<Longrightarrow> outcome = Inr []"
  using assms by (auto split: if_splits)

text \<open>
  C28: the artifacts of a profiled repetition that pass the inspection are what the declared profiler recorded of it,
  in a diagnostic run. With \<^verbatim>\<open>cprofile\<close> every measured batch has a profile of its own: of the owned client, switched on
  before the load and off after it, in a file of its own. With \<^verbatim>\<open>sample\<close> the record is one of \<^verbatim>\<open>sample\<close>, of the declared
  process, and the text in its file names that process twice and holds a call graph. With \<^verbatim>\<open>perf\<close> the record is one of
  \<^verbatim>\<open>perf\<close>, of the declared process at the declared frequency; the raw recording and the four decoded texts are five files,
  and the texts show samples of the declared process only, no loss, and the recorded counts and times. A native record is
  qualified exactly when tool and samples stayed inside the load. Every file lies below the profiles of its case, is the one
  recorded both by its relative and by its absolute path, and has the recorded size and digest.\<close>

theorem profile_evidence_sound:
  assumes "inspect_profile_evidence fs sha256 outcome directory = Inr []"
    and "child = object_value (get outcome ''client_report'')"
    and "declared_profiler (reported_attribution child) = JStr backend" "backend \<noteq> ''none''"
  shows "\<exists>base. fs_resolve fs directory = Inr base \<and>
    get (reported_attribution child) ''instrumentation'' = JStr ''diagnostic'' \<and>
    (if backend = ''cprofile'' then
       get outcome ''native_profile'' = JNull \<and> profile_batches child \<noteq> [] \<and>
       (\<exists>paths. distinct paths \<and>
         list_all2 (python_recording fs sha256 base outcome child) (profile_batches child) paths)
     else if backend \<in> {''sample-client'', ''sample-server''} then
       (\<exists>batch. profile_batches child = [batch] \<and> get batch ''python_profile'' = JNull \<and>
          sample_recording fs sha256 base outcome batch (native_role backend))
     else backend \<in> {''perf-client'', ''perf-server''} \<and>
       (\<exists>batch hz. profile_batches child = [batch] \<and> get batch ''python_profile'' = JNull \<and>
          hz \<in> set PERF_SAMPLE_FREQUENCIES_HZ \<and>
          get_default (reported_attribution child) ''perf_sample_frequency_hz'' (JInt DEFAULT_PERF_SAMPLE_FREQUENCY_HZ) = JInt hz \<and>
          perf_recording fs sha256 base outcome batch (native_role backend) hz))"
proof -
  let ?frequency = "get_default (reported_attribution child) ''perf_sample_frequency_hz'' (JInt DEFAULT_PERF_SAMPLE_FREQUENCY_HZ)"
  note accepted = refused_unless [OF assms(1) [unfolded inspect_profile_evidence_def Let_def assms(2) [symmetric] assms(3)]]
  have known: "backend \<in> set PROFILER_BACKENDS" and frequency: "\<not> invalid_frequency ?frequency (JStr backend)"
    using accepted(1) assms(4) by auto
  have diagnostic: "get (reported_attribution child) ''instrumentation'' = JStr ''diagnostic''"
    using accepted(2) assms(4) by auto
  have alone: "if backend = ''cprofile'' then get outcome ''native_profile'' = JNull else \<not> python_profiled child"
    using accepted(3) assms(4) by auto
  have inspected: "backend_evidence fs sha256 outcome child directory backend ?frequency = Inr ()"
    using accepted(4) assms(4) by (auto split: sum.split_asm if_split_asm)
  from inspected obtain base where base: "fs_resolve fs directory = Inr base" by (auto simp: backend_evidence_def ok)
  have unprofiled: "get batch ''python_profile'' = JNull" if "profile_batches child = [batch]" "backend \<noteq> ''cprofile''" for batch
    using alone that by (simp add: python_profiled_def)
  consider "backend = ''cprofile''" | "backend \<in> {''perf-client'', ''perf-server''}" | "backend \<in> {''sample-client'', ''sample-server''}"
    using known unfolding profiler_backends by (simp only: Un_iff singleton_iff) argo
  then show ?thesis
  proof cases
    case 1
    then obtain seen where seen: "profile_batches child \<noteq> []"
        "foldE (python_batch fs sha256 base outcome child) [] (profile_batches child) = Inr seen"
      using inspected base by (auto simp: backend_evidence_def python_evidence_def check_def ok)
    show ?thesis
      unfolding if_P [OF 1] using base diagnostic alone [unfolded if_P [OF 1]] seen(1) python_batches_sound [OF seen(2)] by blast
  next
    case 2
    then have perf: "perf_evidence fs sha256 base outcome child backend (int_in ?frequency) = Inr ()"
        and other: "backend \<noteq> ''cprofile''" "backend \<notin> {''sample-client'', ''sample-server''}"
      using inspected base by (auto simp: backend_evidence_def starts_with_def)
    have hz: "int_in ?frequency \<in> set PERF_SAMPLE_FREQUENCIES_HZ" "?frequency = JInt (int_in ?frequency)"
      using frequency by (auto simp: invalid_frequency_def int_in_def split: json.splits)
    show ?thesis
      unfolding if_not_P [OF other(1)] if_not_P [OF other(2)]
      using base diagnostic 2 hz perf_evidence_sound [OF perf 2] unprofiled [OF _ other(1)] by metis
  next
    case 3
    then have native: "native_evidence fs sha256 base outcome child backend = Inr ()" and other: "backend \<noteq> ''cprofile''"
      using inspected base by (auto simp: backend_evidence_def starts_with_def)
    show ?thesis
      unfolding if_not_P [OF other] if_P [OF 3]
      using base diagnostic native_evidence_sound [OF native 3] unprofiled [OF _ other] by metis
  qed
qed

text \<open>A repetition with one Python profile, in a file system without links.\<close>

definition plain_files :: file_system where
  "plain_files = \<lparr>fs_resolve = Inr, fs_size = (\<lambda>_. Inr 5), fs_bytes = (\<lambda>_. Inr ''stats''), fs_decode = Inr\<rparr>"

definition fixed_digest :: "string \<Rightarrow> string" where "fixed_digest s = ''5d''"

definition profiled_outcome :: obj where
  "profiled_outcome =
     [(''output_dir'', JStr ''/r/case''), (''client_pid'', JInt 7),
      (''client_report'', JObj
        [(''worker_pid'', JInt 7),
         (''config'', JObj [(''attribution'', JObj [(''profiler'', JStr ''cprofile''), (''instrumentation'', JStr ''diagnostic''),
            (''profiler_label'', JStr ''load'')])]),
         (''batches'', JList [JObj
           [(''timing'', JObj [(''load_started_ns'', JInt 20), (''load_finished_ns'', JInt 30)]),
            (''python_profile'', JObj
              [(''profiler'', JStr ''cprofile''), (''status'', JStr ''ok''), (''pid'', JInt 7), (''thread_id'', JInt 1),
               (''python_version'', JStr ''3.11.4''), (''load_started_ns'', JInt 20), (''load_finished_ns'', JInt 30),
               (''enabled_before_ns'', JInt 18), (''disabled_after_ns'', JInt 31), (''load_boundary_overhang_ns'', JInt 3),
               (''relative_path'', JStr ''profiles/p''), (''path'', JStr ''/r/case/profiles/p''), (''size_bytes'', JInt 5),
               (''sha256'', JStr ''5d''), (''thread_scope'', JStr ''enabling-thread''),
               (''attribution_qualification'', JStr ''qualified-thread-scope''), (''enabling_thread_id'', JInt 1)])]])])]"

lemma profiled_outcome_accepted: "inspect_profile_evidence plain_files fixed_digest profiled_outcome (path_of ''/r'') = Inr []"
  by code_simp

text \<open>One that \<^verbatim>\<open>sample\<close> recorded, partly outside the load.\<close>

definition sampled_text :: string where
  "sampled_text = ''Process: a[7]'' @ [CHR 0x0A] @ ''Analysis of sampling a (pid 7) every 1 millisecond'' @ [CHR 0x0A] @ ''Call graph:''"

definition sampled_files :: file_system where
  "sampled_files =
     \<lparr>fs_resolve = Inr, fs_size = (\<lambda>_. Inr (int (length sampled_text))), fs_bytes = (\<lambda>_. Inr sampled_text), fs_decode = Inr\<rparr>"

definition sampled_outcome :: obj where
  "sampled_outcome =
     [(''output_dir'', JStr ''/r/case''), (''client_pid'', JInt 7), (''server_pid'', JInt 8),
      (''native_profile'', JObj
        [(''profiler'', JStr ''sample''), (''status'', JStr ''ok''), (''returncode'', JInt 0), (''cleanup_interrupted'', JBool False),
         (''failures'', JList []), (''target_role'', JStr ''client''), (''target_pid'', JInt 7), (''profiler_pid'', JInt 9),
         (''sample_duration_s'', JInt 1), (''sample_interval_ms'', JInt 1),
         (''command'', JList (sample_command 7 (JStr ''/r/case/profiles/s''))),
         (''load_started_ns'', JInt 20), (''load_finished_ns'', JInt 30), (''tool_started_ns'', JInt 25), (''tool_finished_ns'', JInt 36),
         (''tool_load_overlap_ns'', JInt 5), (''tool_outside_load_ns'', JInt 6), (''qualification'', JStr ''unqualified''),
         (''qualification_reason'', JStr ''late''), (''pid_from_report'', JInt 7), (''pid_from_analysis_header'', JInt 7),
         (''relative_path'', JStr ''profiles/s''), (''path'', JStr ''/r/case/profiles/s''),
         (''size_bytes'', JInt (int (length sampled_text))), (''sha256'', JStr ''5d'')]),
      (''client_report'', JObj
        [(''config'', JObj [(''attribution'', JObj [(''profiler'', JStr ''sample-client''), (''instrumentation'', JStr ''diagnostic''),
            (''profiler_label'', JStr ''load'')])]),
         (''batches'', JList [JObj [(''timing'', JObj [(''load_started_ns'', JInt 20), (''load_finished_ns'', JInt 30)])]])])]"

lemma sampled_outcome_accepted: "inspect_profile_evidence sampled_files fixed_digest sampled_outcome (path_of ''/r'') = Inr []"
  by code_simp

lemma profile_evidence_sound_witness:
  "(\<exists>base (paths :: posix_path list). fs_resolve plain_files (path_of ''/r'') = Inr base \<and> distinct paths \<and>
     length paths = length (profile_batches (object_value (get profiled_outcome ''client_report'')))) \<and>
   (\<exists>base batch. sample_recording sampled_files fixed_digest base sampled_outcome batch ''client'')"
proof
  have "declared_profiler (reported_attribution (object_value (get profiled_outcome ''client_report''))) = JStr ''cprofile''"
    by code_simp
  from profile_evidence_sound [OF profiled_outcome_accepted refl this] show
    "\<exists>base (paths :: posix_path list). fs_resolve plain_files (path_of ''/r'') = Inr base \<and> distinct paths \<and>
     length paths = length (profile_batches (object_value (get profiled_outcome ''client_report'')))"
    by (auto dest!: list_all2_lengthD [symmetric])
  have "declared_profiler (reported_attribution (object_value (get sampled_outcome ''client_report''))) = JStr ''sample-client''"
    "native_role ''sample-client'' = ''client''"
    by code_simp+
  with profile_evidence_sound [OF sampled_outcome_accepted refl this(1)] show
    "\<exists>base batch. sample_recording sampled_files fixed_digest base sampled_outcome batch ''client''"
    by auto
qed

text \<open>
  The inspection of an artifact whose name is a single dot does not end with a verdict but with an exception
  that neither it nor its callers catch.\<close>

lemma dot_artifact_raises:
  assumes "get outcome ''output_dir'' = JStr out" "out \<noteq> []" "fs_resolve fs (path_of out) = Inr case_directory"
    "is_relative_to case_directory base" "get evidence ''relative_path'' = JStr ''.''"
  shows "profile_file fs sha256 base outcome evidence seen limit = Inl (IndexError ''tuple index out of range'')"
proof -
  have "path_of ''.'' = \<lparr>pp_root = [], pp_parts = []\<rparr>" by (simp add: path_of_def starts_with_def)
  with assms show ?thesis by (simp add: profile_file_def raise_if_def bad_artifact_name_def is_absolute_def)
qed

end
