(* ===== verification/Profiler_Sessions.thy ===== *)
theory Profiler_Sessions
  imports Profile_Evidence Lifecycle_Coordinator
begin

text \<open>
  isolation/native_profile.py and isolation/perf_profile.py: the session of a native profiler that the coordinator
  attaches to a process of a case. It waits for the measured phase, starts the tool after a delay, watches it, and
  at the end writes the evidence that \<open>inspect_profile_evidence\<close> reads. What starting and polling the tool returns,
  the clock and the file system are inputs; so is what running the tool on its own recording does.
\<close>

definition NATIVE_ATTACH_DELAY_NS :: int where "NATIVE_ATTACH_DELAY_NS = 200000000"
definition PERF_ATTACH_DELAY_NS :: int where "PERF_ATTACH_DELAY_NS = 100000000"
definition MAX_TEXT_BYTES :: int where "MAX_TEXT_BYTES = 16 * 1024 * 1024"

record profiler_session =
  ps_role :: string
  ps_target_pid :: int
  ps_path :: posix_path
  ps_command :: "json list"
  ps_process :: "(int \<times> int option) option"
  ps_marker_seen_ns :: "int option"
  ps_started_ns :: "int option"
  ps_finished_ns :: "int option"
  ps_cleanup_interrupted :: bool

text \<open>The clock and the tool it found, as the constructor of the \<^verbatim>\<open>perf\<close> session reads them.\<close>

record perf_tool =
  pl_path :: posix_path
  pl_version :: string
  pl_sha256 :: string
  pl_clock_implementation :: string
  pl_clock_resolution :: json

record perf_session = profiler_session +
  pf_tool :: perf_tool
  pf_frequency :: int
  pf_directory :: posix_path
  pf_stderr :: posix_path

subsection \<open>Creation\<close>

definition idle_session :: "string \<Rightarrow> int \<Rightarrow> posix_path \<Rightarrow> json list \<Rightarrow> profiler_session" where
  "idle_session role pid path command =
     \<lparr>ps_role = role, ps_target_pid = pid, ps_path = path, ps_command = command, ps_process = None, ps_marker_seen_ns = None,
      ps_started_ns = None, ps_finished_ns = None, ps_cleanup_interrupted = False\<rparr>"

definition ROLES :: "string list" where "ROLES = [''client'', ''server'']"

definition new_native_session :: "string \<Rightarrow> string \<Rightarrow> int \<Rightarrow> posix_path result \<Rightarrow> bool \<Rightarrow> profiler_session result" where
  "new_native_session platform role pid output existing =
     bindE (raise_if (platform \<noteq> ''darwin'' \<or> role \<notin> set ROLES \<or> pid \<le> 0)
       (ValueError ''Native sample requires macOS and an owned client/server PID'')) (\<lambda>_.
     bindE output (\<lambda>directory.
       let path = join_path directory (path_of ''profiles/native-sample.txt'')
       in bindE (raise_if existing (OSError ''FileExistsError'' ''Native profile output or logs already exist'')) (\<lambda>_.
            Inr (idle_session role pid path (sample_command pid (JStr (path_text path)))))))"

definition new_perf_session ::
  "string \<Rightarrow> string \<Rightarrow> int \<Rightarrow> int \<Rightarrow> string \<times> bool \<times> json \<Rightarrow> posix_path result option \<Rightarrow> string result \<Rightarrow> string result \<Rightarrow>
   posix_path result \<Rightarrow> bool \<Rightarrow> perf_session result"
where
  "new_perf_session platform role pid hz clock executable version sha256 output occupied =
     (case clock of (implementation, monotonic, resolution) \<Rightarrow>
        bindE (raise_if (platform \<noteq> ''linux'' \<or> role \<notin> set ROLES \<or> pid \<le> 0)
          (TypeError ''Perf profiling requires Linux and an owned client/server PID'')) (\<lambda>_.
        bindE (raise_if (hz \<notin> set Perf_Evidence.PERF_SAMPLE_FREQUENCIES_HZ) (ValueError ''Perf sampling frequency must be 499 or 1999 Hz'')) (\<lambda>_.
        bindE (raise_if (implementation \<noteq> ''clock_gettime(CLOCK_MONOTONIC)'' \<or> \<not> monotonic)
          (ValueError ''Perf monotonic sample timestamps require Python CLOCK_MONOTONIC load boundaries'')) (\<lambda>_.
        bindE (case executable of
            None \<Rightarrow> Inl (OSError ''FileNotFoundError''
              ''Linux perf executable is unavailable; profiling cannot fall back to unprofiled execution'')
          | Some resolved \<Rightarrow> resolved) (\<lambda>tool.
        bindE version (\<lambda>stdout.
        bindE (raise_if (\<not> starts_with (strip stdout) ''perf version '')
          (ValueError ''Resolved perf executable did not identify its version'')) (\<lambda>_.
        bindE sha256 (\<lambda>digest.
        bindE output (\<lambda>resolved.
          let directory = join_path resolved (path_of ''profiles''); path = join_path directory (path_of ''perf.data'')
          in bindE (raise_if occupied (OSError ''FileExistsError'' ''Perf profile directory already contains files'')) (\<lambda>_.
            Inr (profiler_session.extend
              (idle_session role pid path (perf_command (path_text tool) hz pid (JStr (path_text path))))
              \<lparr>pf_tool = \<lparr>pl_path = tool, pl_version = strip stdout, pl_sha256 = digest, pl_clock_implementation = implementation,
                 pl_clock_resolution = resolution\<rparr>,
               pf_frequency = hz, pf_directory = directory,
               pf_stderr = join_path directory (path_of ''perf-record-stderr.txt'')\<rparr>)))))))))))"

subsection \<open>Watching the tool\<close>

definition poll_session :: "int option \<Rightarrow> int \<Rightarrow> 'a profiler_session_scheme \<Rightarrow> 'a profiler_session_scheme" where
  "poll_session polled now s =
     (case ps_process s of
        None \<Rightarrow> s
      | Some (pid, code) \<Rightarrow>
          let code' = (case code of None \<Rightarrow> polled | Some _ \<Rightarrow> code)
          in s\<lparr>ps_process := Some (pid, code'),
               ps_finished_ns := (if code' \<noteq> None \<and> ps_finished_ns s = None then Some now else ps_finished_ns s)\<rparr>)"

text \<open>A call of \<^verbatim>\<open>tick\<close>: the clock, the clock before the start of the tool, its PID or what starting it raised,
  what polling it returned, and the clock after that.\<close>

record profiler_turn =
  pt_now :: int
  pt_starting :: int
  pt_launched :: "int result"
  pt_polled :: "int option"
  pt_after :: int

definition watch_tool :: "string \<Rightarrow> profiler_turn \<Rightarrow> 'a profiler_session_scheme \<Rightarrow> 'a profiler_session_scheme \<times> unit result" where
  "watch_tool exited t s =
     (let s' = poll_session (pt_polled t) (pt_after t) s
      in (s', case ps_process s' of
                Some (_, Some code) \<Rightarrow> raise_if (code \<noteq> 0) (RuntimeError (exited @ '' exited with code '' @ int_str code))
              | _ \<Rightarrow> Inr ()))"

definition attach_due :: "int \<Rightarrow> profiler_turn \<Rightarrow> 'a profiler_session_scheme \<Rightarrow> bool" where
  "attach_due delay t s =
     (case (ps_process s, ps_marker_seen_ns s) of (None, Some seen) \<Rightarrow> seen + delay \<le> pt_now t | _ \<Rightarrow> False)"

definition tick_session ::
  "int \<Rightarrow> string \<Rightarrow> string \<Rightarrow> string \<Rightarrow> profiler_turn \<Rightarrow> 'a profiler_session_scheme \<Rightarrow> 'a profiler_session_scheme \<times> unit result"
where
  "tick_session delay ended exited phase t s =
     (let seen = (if phase = ''batch_1_start'' \<and> ps_marker_seen_ns s = None then s\<lparr>ps_marker_seen_ns := Some (pt_now t)\<rparr> else s)
      in if \<not> attach_due delay t seen then watch_tool exited t seen
         else if phase \<noteq> ''batch_1_start'' then (seen, Inl (RuntimeError ended))
         else
           (let starting = seen\<lparr>ps_started_ns := Some (pt_starting t)\<rparr>
            in case pt_launched t of
                 Inl e \<Rightarrow> (starting, Inl e)
               | Inr pid \<Rightarrow> watch_tool exited t (starting\<lparr>ps_process := Some (pid, None)\<rparr>)))"

definition native_tick :: "string \<Rightarrow> profiler_turn \<Rightarrow> 'a profiler_session_scheme \<Rightarrow> 'a profiler_session_scheme \<times> unit result" where
  "native_tick = tick_session NATIVE_ATTACH_DELAY_NS ''Measured load phase ended before the scheduled native attach''
     ''Native profiler''"

definition perf_tick :: "string \<Rightarrow> profiler_turn \<Rightarrow> 'a profiler_session_scheme \<Rightarrow> 'a profiler_session_scheme \<times> unit result" where
  "perf_tick = tick_session PERF_ATTACH_DELAY_NS ''Measured load ended before scheduled perf attach'' ''Perf profiler''"

definition before_cleanup :: "int option \<Rightarrow> int \<Rightarrow> 'a profiler_session_scheme \<Rightarrow> 'a profiler_session_scheme" where
  "before_cleanup polled now s =
     (let s' = poll_session polled now s
      in s'\<lparr>ps_cleanup_interrupted := (case ps_process s' of Some (_, None) \<Rightarrow> True | _ \<Rightarrow> False)\<rparr>)"

subsection \<open>The load the tool was to measure\<close>

definition reported_load :: "py_error \<Rightarrow> py_error \<Rightarrow> py_error \<Rightarrow> obj option \<Rightarrow> (int \<times> int) result" where
  "reported_load no_batch no_timing unordered report =
     (case (case report of None \<Rightarrow> JNull | Some child \<Rightarrow> get child ''batches'') of
        JList [JObj batch] \<Rightarrow>
          (case get batch ''timing'' of
             JObj timing \<Rightarrow>
               (case (get timing ''load_started_ns'', get timing ''load_finished_ns'') of
                  (JInt start, JInt finish) \<Rightarrow> bindE (raise_if (\<not> (0 < start \<and> start < finish)) unordered) (\<lambda>_. Inr (start, finish))
                | _ \<Rightarrow> Inl unordered)
           | _ \<Rightarrow> Inl no_timing)
      | _ \<Rightarrow> Inl no_batch)"

definition tool_interval :: "py_error \<Rightarrow> 'a profiler_session_scheme \<Rightarrow> (int \<times> int) result" where
  "tool_interval missing s =
     (case (ps_started_ns s, ps_finished_ns s) of
        (Some begun, Some ended) \<Rightarrow> bindE (raise_if (ended \<le> begun) missing) (\<lambda>_. Inr (begun, ended))
      | _ \<Rightarrow> Inl missing)"

definition qualification_fields :: "int \<Rightarrow> int \<Rightarrow> int \<Rightarrow> int \<Rightarrow> bool \<Rightarrow> string \<Rightarrow> string \<Rightarrow> obj" where
  "qualification_fields start finish begun ended qualified inside mixed =
     [(''load_started_ns'', JInt start), (''load_finished_ns'', JInt finish),
      (''tool_load_overlap_ns'', JInt (tool_overlap start finish begun ended)),
      (''tool_outside_load_ns'', JInt (ended - begun - tool_overlap start finish begun ended)),
      (''qualification'', JStr (if qualified then ''qualified'' else ''unqualified'')),
      (''qualification_reason'', JStr (if qualified then inside else mixed))]"

definition unfinished :: "'a profiler_session_scheme \<Rightarrow> bool" where
  "unfinished s \<longleftrightarrow> (case ps_process s of Some (_, Some code) \<Rightarrow> code \<noteq> 0 | _ \<Rightarrow> True) \<or> ps_cleanup_interrupted s"

definition process_pid :: "'a profiler_session_scheme \<Rightarrow> json" where
  "process_pid s = optional_int (map_option fst (ps_process s))"

definition process_returncode :: "'a profiler_session_scheme \<Rightarrow> json" where
  "process_returncode s = (case ps_process s of None \<Rightarrow> JNull | Some (_, code) \<Rightarrow> optional_int code)"

subsection \<open>The evidence of \<^verbatim>\<open>sample\<close>\<close>

definition native_payload :: "profiler_session \<Rightarrow> obj" where
  "native_payload s =
     [(''profiler'', JStr ''sample''), (''status'', JStr ''failed''), (''target_role'', JStr (ps_role s)),
      (''target_pid'', JInt (ps_target_pid s)), (''profiler_pid'', process_pid s), (''returncode'', process_returncode s),
      (''command'', JList (ps_command s)), (''path'', JStr (path_text (ps_path s))),
      (''relative_path'', JStr ''profiles/native-sample.txt''), (''sample_duration_s'', JInt 1), (''sample_interval_ms'', JInt 1),
      (''marker_seen_ns'', optional_int (ps_marker_seen_ns s)), (''attach_delay_ns'', JInt NATIVE_ATTACH_DELAY_NS),
      (''tool_started_ns'', optional_int (ps_started_ns s)), (''tool_finished_ns'', optional_int (ps_finished_ns s)),
      (''cleanup_interrupted'', JBool (ps_cleanup_interrupted s)), (''qualification'', JStr ''unqualified''),
      (''qualification_reason'', JStr ''Native profile did not complete with verified load boundaries''),
      (''clock'', JStr ''time.perf_counter_ns; monotonic; nanoseconds''),
      (''timing_scope'', JStr (''Conservative full tool invocation: before process launch through observed exit, '' @
         ''including attach, collection, symbolication and file output; not exact sampled instruction times'')),
      (''scope'', JStr ''Owned target only; profiler process excluded from client/server CPU and RSS samples''),
      (''limitation'', JStr (''All-thread periodic stack weights are thread-wall observations, not CPU percentages; '' @
         ''blocked threads, profiling perturbation, inlining and missing symbols prevent exact cost partition''))]"

text \<open>The payload so far, and how reading the artifact ended.\<close>

definition sampled_pids :: "string \<Rightarrow> (int \<times> int) result" where
  "sampled_pids text =
     (case (regex_search PROCESS_PATTERN text, regex_search ANALYSIS_PATTERN text) of
        (Some process, Some analysis) \<Rightarrow>
          bindE (raise_if (\<not> found (lit ''Call graph:'') text)
            (ValueError ''Native profile is missing process identity or sampled call graph'')) (\<lambda>_.
          bindE (int_of_digits (group process ''1'')) (\<lambda>a.
          bindE (int_of_digits (group analysis ''1'')) (\<lambda>b. Inr (a, b))))
      | _ \<Rightarrow> Inl (ValueError ''Native profile is missing process identity or sampled call graph''))"

definition read_native_artifact :: "file_system \<Rightarrow> (string \<Rightarrow> string) \<Rightarrow> profiler_session \<Rightarrow> obj \<Rightarrow> obj \<times> unit result" where
  "read_native_artifact fs sha256 s payload =
     (case bindE (fs_size fs (ps_path s)) (\<lambda>bytes.
           bindE (raise_if (\<not> (0 < bytes \<and> bytes \<le> MAX_PROFILE_BYTES))
             (ValueError ''Native profile must be nonempty and bounded by 16 MiB'')) (\<lambda>_.
           bindE (fs_bytes fs (ps_path s)) (\<lambda>content. Inr (bytes, content)))) of
        Inl e \<Rightarrow> (payload, Inl e)
      | Inr (bytes, content) \<Rightarrow>
          let measured = dict_update payload [(''size_bytes'', JInt bytes), (''sha256'', JStr (sha256 content))]
          in case bindE (fs_decode fs content) sampled_pids of
               Inl e \<Rightarrow> (measured, Inl e)
             | Inr (a, b) \<Rightarrow>
                 (dict_update measured [(''pid_from_report'', JInt a), (''pid_from_analysis_header'', JInt b)],
                  raise_if (a \<noteq> ps_target_pid s \<or> b \<noteq> ps_target_pid s)
                    (ValueError ''Native profile PID does not match the owned target'')))"

definition native_qualify :: "profiler_session \<Rightarrow> obj option \<Rightarrow> obj result" where
  "native_qualify s report =
     bindE (reported_load (ValueError ''Native profile requires exactly one reported measured batch'')
         (TypeError ''Native profile requires actual measured load timestamps'')
         (ValueError ''Native profile load boundaries must be positive ordered nanosecond timestamps'') report) (\<lambda>(start, finish).
     bindE (tool_interval (ValueError ''Native profiler invocation boundaries are missing or invalid'') s) (\<lambda>(begun, ended).
       Inr (qualification_fields start finish begun ended (start \<le> begun \<and> begun < ended \<and> ended \<le> finish)
         ''Full tool invocation lies inside the measured load interval''
         ''Mixed or absent load overlap; profile cannot be treated as measured-load-only'')))"

text \<open>An exception of the inspection that is caught becomes a failure.\<close>

definition close_payload :: "string \<Rightarrow> (py_error \<Rightarrow> bool) \<Rightarrow> string list \<Rightarrow> obj \<Rightarrow> unit result \<Rightarrow> (obj \<times> string list) result" where
  "close_payload label caught failures payload r =
     (let close = (\<lambda>found. Inr (dict_update payload
            [(''failures'', JList (map JStr found)), (''status'', JStr (if found = [] then ''ok'' else ''failed''))], found))
      in case r of
           Inr _ \<Rightarrow> close failures
         | Inl e \<Rightarrow> if caught e then close (failures @ [label @ error_message e]) else Inl e)"

definition os_type_or_value_error :: "py_error \<Rightarrow> bool" where
  "os_type_or_value_error e \<longleftrightarrow> type_or_value_error e \<or> (case e of OSError _ _ \<Rightarrow> True | _ \<Rightarrow> False)"

definition native_finalize ::
  "file_system \<Rightarrow> (string \<Rightarrow> string) \<Rightarrow> obj option \<Rightarrow> int option \<Rightarrow> int \<Rightarrow> profiler_session \<Rightarrow> (obj \<times> string list) result"
where
  "native_finalize fs sha256 report polled now before =
     (let s = poll_session polled now before;
          failures = (if unfinished s then [''Native profiler did not finish successfully before owned cleanup''] else []);
          (payload, r) = read_native_artifact fs sha256 s (native_payload s);
          (payload', r') =
            (case bindE r (\<lambda>_. native_qualify s report) of Inl e \<Rightarrow> (payload, Inl e) | Inr entries \<Rightarrow> (dict_update payload entries, Inr ()))
      in close_payload ''Invalid native profile: '' os_type_or_value_error failures payload' r')"

subsection \<open>The evidence of \<^verbatim>\<open>perf\<close>\<close>

definition path_name :: "posix_path \<Rightarrow> string" where
  "path_name p = (if pp_parts p = [] then [] else last (pp_parts p))"

definition read_artifact :: "file_system \<Rightarrow> (string \<Rightarrow> string) \<Rightarrow> posix_path \<Rightarrow> int \<Rightarrow> (obj \<times> string) result" where
  "read_artifact fs sha256 path limit =
     bindE (fs_size fs path) (\<lambda>bytes.
     bindE (raise_if (\<not> (0 < bytes \<and> bytes \<le> limit))
       (ValueError (''Perf artifact must be nonempty and no larger than '' @ int_str limit @ '' bytes''))) (\<lambda>_.
     bindE (fs_bytes fs path) (\<lambda>data.
       let content = read_up_to (limit + 1) data
       in bindE (raise_if (int (length content) \<noteq> bytes) (ValueError ''Perf artifact changed during bounded capture'')) (\<lambda>_.
            Inr ([(''path'', JStr (path_text path)), (''relative_path'', JStr (''profiles/'' @ path_name path)),
                  (''size_bytes'', JInt bytes), (''sha256'', JStr (sha256 content))], content)))))"

definition read_recording :: "file_system \<Rightarrow> (string \<Rightarrow> string) \<Rightarrow> posix_path \<Rightarrow> obj result" where
  "read_recording fs sha256 path =
     bindE (read_artifact fs sha256 path MAX_PERF_BYTES) (\<lambda>(artifact, content).
     bindE (raise_if (\<not> starts_with content ''PERFILE2'')
       (ValueError ''Raw perf artifact does not identify the supported perf.data file format'')) (\<lambda>_. Inr artifact))"

definition text_file :: "perf_session \<Rightarrow> string \<Rightarrow> posix_path" where
  "text_file s name = join_path (pf_directory s) (path_of (''perf-'' @ name @ ''.txt''))"

text \<open>The parameter \<open>extracted\<close> is what running the tool for one of the texts returns or raises.\<close>

definition extract_texts :: "file_system \<Rightarrow> (string \<Rightarrow> string) \<Rightarrow> (string \<Rightarrow> unit result) \<Rightarrow> perf_session \<Rightarrow> (obj \<times> (string \<times> string) list) result" where
  "extract_texts fs sha256 extracted s =
     bindE (mapE (\<lambda>(name, arguments).
         bindE (extracted name) (\<lambda>_.
         bindE (read_artifact fs sha256 (text_file s name) MAX_TEXT_BYTES) (\<lambda>(artifact, content).
         bindE (fs_decode fs content) (\<lambda>text.
           Inr (name, artifact @ [(''command'',
             decoding_command (path_text (pl_path (pf_tool s))) arguments (JStr (path_text (ps_path s))))], text)))))
       decoding_arguments) (\<lambda>decoded.
     bindE (read_artifact fs sha256 (pf_stderr s) MAX_TEXT_BYTES) (\<lambda>(artifact, content).
     bindE (fs_decode fs content) (\<lambda>text.
       let found = decoded @ [(''record_stderr'', artifact, text)]
       in Inr (map (\<lambda>(name, artifact, text). (name, JObj artifact)) found, map (\<lambda>(name, artifact, text). (name, text)) found))))"

definition perf_session_payload :: "perf_session \<Rightarrow> obj" where
  "perf_session_payload s =
     [(''profiler'', JStr ''perf''), (''status'', JStr ''failed''), (''target_role'', JStr (ps_role s)),
      (''target_pid'', JInt (ps_target_pid s)), (''profiler_pid'', process_pid s), (''returncode'', process_returncode s),
      (''cleanup_interrupted'', JBool (ps_cleanup_interrupted s)), (''command'', JList (ps_command s)),
      (''tool_path'', JStr (path_text (pl_path (pf_tool s)))), (''tool_version'', JStr (pl_version (pf_tool s))),
      (''tool_sha256'', JStr (pl_sha256 (pf_tool s))), (''marker_seen_ns'', optional_int (ps_marker_seen_ns s)),
      (''attach_delay_ns'', JInt PERF_ATTACH_DELAY_NS), (''tool_started_ns'', optional_int (ps_started_ns s)),
      (''tool_finished_ns'', optional_int (ps_finished_ns s)), (''sample_duration_s'', JFloat (Fin (1 / 2))),
      (''sample_frequency_hz'', JInt (pf_frequency s)), (''qualification'', JStr ''unqualified''),
      (''qualification_reason'', JStr ''Perf capture did not complete with verified scope''),
      (''clock'', JStr ''CLOCK_MONOTONIC (clockid 1); time.perf_counter_ns; nanoseconds''),
      (''python_clock'', JObj [(''implementation'', JStr (pl_clock_implementation (pf_tool s))),
         (''resolution_s'', pl_clock_resolution (pf_tool s))]),
      (''scope'', JStr ''Owned target user-space on-CPU samples only; profiler excluded from client/server resource roles''),
      (''limitation'', JStr (''Software CPU-clock sampling excludes kernel CPU, blocked time and off-CPU latency; '' @
         ''8192-byte DWARF stack snapshots, optimized frames, missing symbols and sampling perturbation '' @
         ''limit attribution. Sample periods retain frequency weights, not exact user CPU duration. '' @
         ''A qualified profile proves sample scope, not complete call chains or exact cost partition.''))]"

definition perf_qualify :: "perf_session \<Rightarrow> obj \<Rightarrow> obj option \<Rightarrow> obj result" where
  "perf_qualify s payload report =
     bindE (reported_load (ValueError ''Perf profile requires exactly one measured batch'')
         (TypeError ''Perf profile requires actual measured load timestamps'')
         (ValueError ''Perf measured load timestamps must be positive and ordered'') report) (\<lambda>(start, finish).
     bindE (tool_interval (ValueError ''Perf invocation boundaries are missing or unordered'') s) (\<lambda>(begun, ended).
       let sampled = (case (get payload ''first_sample_ns'', get payload ''last_sample_ns'') of
             (JInt a, JInt b) \<Rightarrow> start \<le> a \<and> a \<le> b \<and> b \<le> finish | _ \<Rightarrow> False)
       in Inr (qualification_fields start finish begun ended (start \<le> begun \<and> begun < ended \<and> ended \<le> finish \<and> sampled)
         ''Full perf invocation and nonempty timestamped user CPU samples lie inside measured load''
         ''Empty or mixed/outside-load capture cannot establish measured-load-only on-CPU scope'')))"

text \<open>Each step adds to the payload, which keeps what was added before a step raised.\<close>

definition inspect_recording ::
  "file_system \<Rightarrow> (string \<Rightarrow> string) \<Rightarrow> (string \<Rightarrow> unit result) \<Rightarrow> obj option \<Rightarrow> perf_session \<Rightarrow> obj \<Rightarrow> obj \<times> unit result"
where
  "inspect_recording fs sha256 extracted report s payload =
     (case read_recording fs sha256 (ps_path s) of
        Inl e \<Rightarrow> (payload, Inl e)
      | Inr artifact \<Rightarrow>
          let recorded = dict_update payload artifact
          in case extract_texts fs sha256 extracted s of
               Inl e \<Rightarrow> (recorded, Inl e)
             | Inr (artifacts, texts) \<Rightarrow>
                 let decoded = dict_update recorded [(''text_artifacts'', JObj artifacts)]
                 in case inspect_perf_text (text_of texts) (ps_target_pid s) (pf_frequency s) of
                      Inl e \<Rightarrow> (decoded, Inl e)
                    | Inr parsed \<Rightarrow>
                        let sampled = dict_update decoded parsed
                        in case perf_qualify s sampled report of
                             Inl e \<Rightarrow> (sampled, Inl e)
                           | Inr entries \<Rightarrow> (dict_update sampled entries, Inr ()))"

definition perf_finalize ::
  "file_system \<Rightarrow> (string \<Rightarrow> string) \<Rightarrow> (string \<Rightarrow> unit result) \<Rightarrow> obj option \<Rightarrow> int option \<Rightarrow> int \<Rightarrow> perf_session \<Rightarrow>
   (obj \<times> string list) result"
where
  "perf_finalize fs sha256 extracted report polled now before =
     (let s = poll_session polled now before; payload = perf_session_payload s;
          caught = (\<lambda>e. os_type_or_value_error e \<or> (case e of SubprocessError _ _ \<Rightarrow> True | _ \<Rightarrow> False))
      in if unfinished s
         then close_payload [] caught [''Perf profiler did not finish successfully before owned cleanup''] payload (Inr ())
         else (case inspect_recording fs sha256 extracted report s payload of
                 (payload', r) \<Rightarrow> close_payload ''Invalid perf profile: '' caught [] payload' r))"

subsection \<open>The life of a session\<close>

datatype session_event =
    Ticked string profiler_turn
  | Cleaned "int option" int

definition after_event ::
  "(string \<Rightarrow> profiler_turn \<Rightarrow> 'a profiler_session_scheme \<Rightarrow> 'a profiler_session_scheme \<times> unit result) \<Rightarrow>
   'a profiler_session_scheme \<Rightarrow> session_event \<Rightarrow> 'a profiler_session_scheme"
where
  "after_event tick s e = (case e of Ticked phase t \<Rightarrow> fst (tick phase t s) | Cleaned polled now \<Rightarrow> before_cleanup polled now s)"

definition session_after ::
  "(string \<Rightarrow> profiler_turn \<Rightarrow> 'a profiler_session_scheme \<Rightarrow> 'a profiler_session_scheme \<times> unit result) \<Rightarrow>
   session_event list \<Rightarrow> 'a profiler_session_scheme \<Rightarrow> 'a profiler_session_scheme"
where
  "session_after tick events s = foldl (after_event tick) s events"

text \<open>What no event changes; and a clock whose readings are positive.\<close>

definition same_target :: "'a profiler_session_scheme \<Rightarrow> 'a profiler_session_scheme \<Rightarrow> bool" where
  "same_target s t \<longleftrightarrow>
     ps_role t = ps_role s \<and> ps_target_pid t = ps_target_pid s \<and> ps_path t = ps_path s \<and> ps_command t = ps_command s \<and>
     profiler_session.more t = profiler_session.more s"

definition started_late :: "'a profiler_session_scheme \<Rightarrow> bool" where
  "started_late s \<longleftrightarrow> (case ps_started_ns s of None \<Rightarrow> True | Some begun \<Rightarrow> 0 < begun)"

fun positive_clock :: "session_event \<Rightarrow> bool" where
  "positive_clock (Ticked phase t) = (0 < pt_starting t)"
| "positive_clock (Cleaned polled now) = True"

lemma poll_session_target: "same_target s (poll_session polled now s)" "ps_started_ns (poll_session polled now s) = ps_started_ns s"
  "map_option fst (ps_process (poll_session polled now s)) = map_option fst (ps_process s)"
  by (simp_all add: poll_session_def same_target_def Let_def split: option.split prod.split)

lemma same_target_trans: "same_target s t \<Longrightarrow> same_target t u \<Longrightarrow> same_target s u"
  by (simp add: same_target_def)

lemma watch_tool_target: "same_target s (fst (watch_tool exited t s))" "ps_started_ns (fst (watch_tool exited t s)) = ps_started_ns s"
  using poll_session_target by (simp_all add: watch_tool_def Let_def)

lemma tick_session_target:
  "same_target s (fst (tick_session delay ended exited phase t s))"
  "started_late s \<Longrightarrow> 0 < pt_starting t \<Longrightarrow> started_late (fst (tick_session delay ended exited phase t s))"
proof -
  define seen where "seen = (if phase = ''batch_1_start'' \<and> ps_marker_seen_ns s = None then s\<lparr>ps_marker_seen_ns := Some (pt_now t)\<rparr> else s)"
  have seen: "same_target s seen" "ps_started_ns seen = ps_started_ns s" by (simp_all add: seen_def same_target_def)
  note parts = watch_tool_target [where s = seen and exited = exited and t = t]
    watch_tool_target [where s = "seen\<lparr>ps_started_ns := Some (pt_starting t), ps_process := Some (x, None)\<rparr>" and exited = exited and t = t for x]
  show "same_target s (fst (tick_session delay ended exited phase t s))"
    using seen parts by (simp add: tick_session_def Let_def seen_def [symmetric] same_target_def split: sum.split)
  show "started_late (fst (tick_session delay ended exited phase t s))" if "started_late s" "0 < pt_starting t"
    using that seen parts by (simp add: tick_session_def Let_def seen_def [symmetric] started_late_def split: sum.split)
qed

lemma session_after_target:
  assumes "\<And>phase t s. same_target s (fst (tick phase t s))"
    and "\<And>phase t s. started_late s \<Longrightarrow> 0 < pt_starting t \<Longrightarrow> started_late (fst (tick phase t s))"
    and "list_all positive_clock events" "started_late s"
  shows "same_target s (session_after tick events s) \<and> started_late (session_after tick events s)"
  using assms(3,4) unfolding session_after_def
proof (induction events arbitrary: s)
  case (Cons e events)
  have "same_target s (after_event tick s e) \<and> started_late (after_event tick s e)"
  proof (cases e)
    case (Ticked phase t)
    then show ?thesis using assms(1,2) Cons.prems by (simp add: after_event_def)
  next
    case (Cleaned polled now)
    then show ?thesis using poll_session_target [where s = s and polled = polled and now = now] Cons.prems(2)
      by (simp add: after_event_def before_cleanup_def Let_def same_target_def started_late_def)
  qed
  with Cons.IH [of "after_event tick s e"] Cons.prems(1) same_target_trans show ?case by auto
qed (simp add: same_target_def)

end
