(* ===== verification/Profiler_Agreement.thy ===== *)
theory Profiler_Agreement
  imports Profiler_Sessions
begin

text \<open>
  The sessions of the native profilers and the inspection of profiler artifacts agree: the evidence of a session that
  ended without a failure is accepted.
\<close>

subsection \<open>Evidence that is accepted\<close>

lemma relative_join:
  assumes "is_relative_to case_directory base" "pp_root q = []"
  shows "is_relative_to (join_path case_directory q) case_directory" "is_relative_to (join_path case_directory q) base"
  using assms by (auto simp: is_relative_to_def join_path_def is_absolute_def)
    (metis append_eq_conv_conj append_take_drop_id length_take min.absorb2 nat_le_linear take_all take_append)

text \<open>A file that nobody changes, at a path that is written as it is read.\<close>

definition settled_file :: "file_system \<Rightarrow> posix_path \<Rightarrow> bool" where
  "settled_file fs p \<longleftrightarrow>
     is_absolute p \<and> path_of (path_text p) = p \<and> fs_resolve fs p = Inr p \<and>
     (case fs_bytes fs p of Inr data \<Rightarrow> fs_size fs p = Inr (int (length data)) | Inl _ \<Rightarrow> True)"

lemma profile_file_accepts:
  assumes "get outcome ''output_dir'' = JStr out" "out \<noteq> []" "fs_resolve fs (path_of out) = Inr case_directory"
    and "is_relative_to case_directory base" "path_of name = \<lparr>pp_root = [], pp_parts = [''profiles'', part]\<rparr>" "part \<noteq> ''..''" "name \<noteq> []"
    and "path = join_path case_directory (path_of name)" "settled_file fs path" "path \<notin> set seen"
    and "get evidence ''relative_path'' = JStr name" "get evidence ''path'' = JStr (path_text path)"
    and "get evidence ''size_bytes'' = JInt n" "0 < n" "n \<le> limit" "fs_size fs path = Inr n" "fs_bytes fs path = Inr data"
    and "get evidence ''sha256'' = JStr (sha256 data)"
  shows "profile_file fs sha256 base outcome evidence seen limit = Inr (data, path # seen)"
proof -
  have n: "n = int (length data)" and absolute: "is_absolute path" "path_of (path_text path) = path" "fs_resolve fs path = Inr path"
    using assms(9,16,17) by (simp_all add: settled_file_def)
  have relative: "pp_root (path_of name) = []" by (simp add: assms(5))
  have bad: "bad_artifact_name (JStr name) = Inr False"
    using assms(5-7) by (simp add: bad_artifact_name_def is_absolute_def)
  have same: "same_artifact fs (JStr (path_text path)) path = Inr True"
    using absolute by (simp add: same_artifact_def)
  have sized: "same_size fs (JInt n) limit path = Inr True"
    using assms(14-16) by (simp add: same_size_def)
  have all: "read_up_to (limit + 1) data = data" using assms(15) n by (simp add: read_up_to_def)
  note inside = relative_join [OF assms(4) relative, folded assms(8)]
  show ?thesis
    unfolding profile_file_def assms(1,11,12,13) json.case Let_def
    using assms(2,3,4,10,17,18) inside bad same sized all absolute n
    by (simp add: raise_if_def assms(8) [symmetric])
qed

lemma close_payload_ok:
  "close_payload label caught failures payload r = Inr (final, []) \<longleftrightarrow>
     failures = [] \<and> r = Inr () \<and> final = dict_update payload [(''failures'', JList []), (''status'', JStr ''ok'')]"
  by (auto simp: close_payload_def Let_def split: sum.splits if_splits)

lemma reported_load_ok:
  assumes "reported_load e1 e2 e3 report = Inr (start, finish)"
  obtains child batch where "report = Some child" "profile_batches child = [batch]"
    "get (object_value (get batch ''timing'')) ''load_started_ns'' = JInt start"
    "get (object_value (get batch ''timing'')) ''load_finished_ns'' = JInt finish" "0 < start" "start < finish"
proof -
  from assms obtain child batch timing where "report = Some child" "get child ''batches'' = JList [JObj batch]"
      "get batch ''timing'' = JObj timing" "get timing ''load_started_ns'' = JInt start" "get timing ''load_finished_ns'' = JInt finish"
      "0 < start" "start < finish"
    by (auto simp: reported_load_def ok split: option.splits json.splits list.splits)
  then show thesis using that by (simp add: profile_batches_def)
qed

lemma tool_interval_ok:
  assumes "tool_interval e s = Inr (begun, ended)"
  shows "ps_started_ns s = Some begun" "ps_finished_ns s = Some ended" "begun < ended"
  using assms by (auto simp: tool_interval_def ok split: option.splits)

text \<open>What the payload of a session that ended well says.\<close>

definition session_record :: "obj \<Rightarrow> string \<Rightarrow> 'a profiler_session_scheme \<Rightarrow> string \<Rightarrow> bool" where
  "session_record payload tool s name \<longleftrightarrow>
     get payload ''profiler'' = JStr tool \<and> get payload ''status'' = JStr ''ok'' \<and> get payload ''failures'' = JList [] \<and>
     get payload ''target_role'' = JStr (ps_role s) \<and> get payload ''target_pid'' = JInt (ps_target_pid s) \<and>
     get payload ''profiler_pid'' = process_pid s \<and> get payload ''returncode'' = process_returncode s \<and>
     get payload ''cleanup_interrupted'' = JBool (ps_cleanup_interrupted s) \<and> get payload ''command'' = JList (ps_command s) \<and>
     get payload ''path'' = JStr (path_text (ps_path s)) \<and> get payload ''relative_path'' = JStr name \<and>
     get payload ''tool_started_ns'' = optional_int (ps_started_ns s) \<and> get payload ''tool_finished_ns'' = optional_int (ps_finished_ns s)"

definition session_bounds :: "obj \<Rightarrow> 'a profiler_session_scheme \<Rightarrow> obj \<Rightarrow> (int \<Rightarrow> int \<Rightarrow> bool) \<Rightarrow> bool" where
  "session_bounds payload s batch sampled \<longleftrightarrow>
     (\<exists>start finish begun ended. load_bounds batch payload = Inr (start, finish) \<and>
        ps_started_ns s = Some begun \<and> ps_finished_ns s = Some ended \<and> begun < ended \<and>
        tool_recorded payload begun ended (tool_overlap start finish begun ended)
          (start \<le> begun \<and> begun < ended \<and> ended \<le> finish \<and> sampled start finish))"

lemma qualification_bounds:
  assumes "payload = dict_update (dict_update p (qualification_fields start finish begun ended qualified inside mixed))
      [(''failures'', JList []), (''status'', JStr ''ok'')]"
    and "get (object_value (get batch ''timing'')) ''load_started_ns'' = JInt start"
    and "get (object_value (get batch ''timing'')) ''load_finished_ns'' = JInt finish" "0 < start" "start < finish"
    and "inside \<noteq> []" "mixed \<noteq> []"
  shows "load_bounds batch payload = Inr (start, finish)"
    "tool_recorded payload begun ended (tool_overlap start finish begun ended) qualified"
  using assms by (simp_all add: load_bounds_ok tool_recorded_def get_dict_update qualification_fields_def)

lemma native_finalize_ok:
  assumes "native_finalize fs sha256 report polled now before = Inr (payload, [])"
  defines "s \<equiv> poll_session polled now before"
  obtains child batch content decoded where "\<not> unfinished s" "report = Some child" "profile_batches child = [batch]"
    "session_record payload ''sample'' s ''profiles/native-sample.txt''" "session_bounds payload s batch (\<lambda>_ _. True)"
    "fs_bytes fs (ps_path s) = Inr content"
    "fs_decode fs content = Inr decoded" "sampled_pids decoded = Inr (ps_target_pid s, ps_target_pid s)"
    "get payload ''sha256'' = JStr (sha256 content)" "\<exists>n. get payload ''size_bytes'' = JInt n \<and> fs_size fs (ps_path s) = Inr n \<and> 0 < n \<and> n \<le> MAX_PROFILE_BYTES"
    "get payload ''pid_from_report'' = JInt (ps_target_pid s)" "get payload ''pid_from_analysis_header'' = JInt (ps_target_pid s)"
    "get payload ''sample_duration_s'' = JInt 1" "get payload ''sample_interval_ms'' = JInt 1"
proof -
  obtain p r where read: "read_native_artifact fs sha256 s (native_payload s) = (p, r)" by fastforce
  have closed: "\<not> unfinished s" "r = Inr ()" "\<exists>entries. native_qualify s report = Inr entries \<and>
      payload = dict_update (dict_update p entries) [(''failures'', JList []), (''status'', JStr ''ok'')]"
    using assms(1) unfolding native_finalize_def Let_def s_def [symmetric] read prod.case
    by (auto simp: close_payload_ok bindE_def split: sum.splits if_splits)
  obtain n content decoded where art: "fs_size fs (ps_path s) = Inr n" "0 < n" "n \<le> MAX_PROFILE_BYTES" "fs_bytes fs (ps_path s) = Inr content"
      "fs_decode fs content = Inr decoded" "sampled_pids decoded = Inr (ps_target_pid s, ps_target_pid s)"
      "p = dict_update (dict_update (native_payload s) [(''size_bytes'', JInt n), (''sha256'', JStr (sha256 content))])
         [(''pid_from_report'', JInt (ps_target_pid s)), (''pid_from_analysis_header'', JInt (ps_target_pid s))]"
    using read closed(2) by (auto simp: read_native_artifact_def Let_def ok split: sum.splits prod.splits)
  obtain start finish begun ended where parts: "tool_interval (ValueError ''Native profiler invocation boundaries are missing or invalid'') s = Inr (begun, ended)"
      "reported_load (ValueError ''Native profile requires exactly one reported measured batch'')
         (TypeError ''Native profile requires actual measured load timestamps'')
         (ValueError ''Native profile load boundaries must be positive ordered nanosecond timestamps'') report = Inr (start, finish)"
    and payload: "payload = dict_update (dict_update p (qualification_fields start finish begun ended
         (start \<le> begun \<and> begun < ended \<and> ended \<le> finish) ''Full tool invocation lies inside the measured load interval''
         ''Mixed or absent load overlap; profile cannot be treated as measured-load-only''))
       [(''failures'', JList []), (''status'', JStr ''ok'')]"
    using closed(3) by (auto simp: native_qualify_def ok)
  obtain child batch where load: "report = Some child" "profile_batches child = [batch]"
      "get (object_value (get batch ''timing'')) ''load_started_ns'' = JInt start"
      "get (object_value (get batch ''timing'')) ''load_finished_ns'' = JInt finish" "0 < start" "start < finish"
    by (rule reported_load_ok [OF parts(2)])
  note bounds = qualification_bounds [OF payload load(3-6)]
  have "session_bounds payload s batch (\<lambda>_ _. True)"
    using tool_interval_ok [OF parts(1)] bounds unfolding session_bounds_def by auto
  moreover have "session_record payload ''sample'' s ''profiles/native-sample.txt''"
    unfolding session_record_def payload art(7) qualification_fields_def native_payload_def
    by (simp add: get_dict_update get_Cons)
  moreover have "get payload ''sha256'' = JStr (sha256 content)" "get payload ''size_bytes'' = JInt n"
      "get payload ''pid_from_report'' = JInt (ps_target_pid s)" "get payload ''pid_from_analysis_header'' = JInt (ps_target_pid s)"
      "get payload ''sample_duration_s'' = JInt 1" "get payload ''sample_interval_ms'' = JInt 1"
    unfolding payload art(7) qualification_fields_def native_payload_def
    by (simp_all add: get_dict_update get_Cons)
  ultimately show thesis using that closed(1) load(1,2) art by blast
qed

text \<open>
  A receipt with the evidence of a session, of a repetition that declared the profiler; and a case directory inside
  the report directory.\<close>

definition profiled_receipt ::
  "obj \<Rightarrow> string \<Rightarrow> obj \<Rightarrow> obj \<Rightarrow> 'a profiler_session_scheme \<Rightarrow> string \<Rightarrow> int \<Rightarrow> bool"
where
  "profiled_receipt outcome out payload child s backend hz \<longleftrightarrow>
     get outcome ''native_profile'' = JObj payload \<and> get outcome ''client_report'' = JObj child \<and>
     get outcome ''output_dir'' = JStr out \<and> out \<noteq> [] \<and> get outcome (ps_role s @ ''_pid'') = JInt (ps_target_pid s) \<and>
     (\<exists>c d. get outcome ''client_pid'' = JInt c \<and> get outcome ''server_pid'' = JInt d \<and>
        (\<forall>p. map_option fst (ps_process s) = Some p \<longrightarrow> 0 < p \<and> p \<noteq> c \<and> p \<noteq> d)) \<and>
     (let attribution = reported_attribution child
      in declared_profiler attribution = JStr backend \<and> get attribution ''instrumentation'' = JStr ''diagnostic'' \<and>
         (\<exists>label. get attribution ''profiler_label'' = JStr label \<and> strip label \<noteq> []) \<and>
         get_default attribution ''perf_sample_frequency_hz'' (JInt Perf_Evidence.DEFAULT_PERF_SAMPLE_FREQUENCY_HZ) = JInt hz) \<and>
     \<not> python_profiled child"

definition reported_inside :: "file_system \<Rightarrow> posix_path \<Rightarrow> string \<Rightarrow> bool" where
  "reported_inside fs directory out \<longleftrightarrow>
     (case (fs_resolve fs directory, fs_resolve fs (path_of out)) of
        (Inr base, Inr case_directory) \<Rightarrow> is_relative_to case_directory base | _ \<Rightarrow> False)"

lemma session_record_native:
  assumes "session_record payload tool s name" "\<not> unfinished s" "profiled_receipt outcome out payload child s backend hz"
    and "0 < ps_target_pid s"
  shows "native_record outcome payload tool (ps_role s)"
    "in_pair (get payload ''profiler_pid'') (get outcome ''client_pid'') (get outcome ''server_pid'') = Inr False"
proof -
  obtain p where p: "ps_process s = Some (p, Some 0)" "\<not> ps_cleanup_interrupted s"
    using assms(2) by (auto simp: unfinished_def split: option.splits)
  obtain c d where "get outcome ''client_pid'' = JInt c" "get outcome ''server_pid'' = JInt d" "0 < p" "p \<noteq> c" "p \<noteq> d"
    using assms(3) p(1) by (auto simp: profiled_receipt_def)
  with p assms(1,3,4) show "native_record outcome payload tool (ps_role s)"
    "in_pair (get payload ''profiler_pid'') (get outcome ''client_pid'') (get outcome ''server_pid'') = Inr False"
    by (simp_all add: session_record_def native_record_def profiled_receipt_def process_pid_def process_returncode_def optional_int_def
        positive_integer_def in_pair_def hash_check_def)
qed

lemma sampled_identity:
  assumes "fs_decode fs content = Inr decoded" "sampled_pids decoded = Inr (pid, pid)"
    and "get payload ''pid_from_report'' = JInt pid" "get payload ''pid_from_analysis_header'' = JInt pid"
  shows "native_identity fs content payload pid = Inr ()"
  using assms by (auto simp: native_identity_def sampled_pids_def Let_def ok split: option.splits)

lemma session_tool_times:
  assumes "session_bounds payload s batch sampled" "session_record payload tool s name" "started_late s"
  obtains start finish begun ended where "load_bounds batch payload = Inr (start, finish)"
    "\<forall>e. tool_times payload e = Inr (begun, ended)"
    "tool_recorded payload begun ended (tool_overlap start finish begun ended)
       (start \<le> begun \<and> begun < ended \<and> ended \<le> finish \<and> sampled start finish)"
proof -
  obtain start finish begun ended where parts: "load_bounds batch payload = Inr (start, finish)" "ps_started_ns s = Some begun"
      "ps_finished_ns s = Some ended" "begun < ended" "tool_recorded payload begun ended (tool_overlap start finish begun ended)
        (start \<le> begun \<and> begun < ended \<and> ended \<le> finish \<and> sampled start finish)"
    using assms(1) by (auto simp: session_bounds_def)
  moreover from parts have "tool_times payload e = Inr (begun, ended)" for e
    using assms(2,3) by (simp add: tool_times_ok session_record_def optional_int_def started_late_def)
  ultimately show thesis using that by blast
qed

lemma native_session_state:
  assumes "new_native_session platform role pid (Inr case_directory) existing = Inr s0"
    and "s = session_after native_tick events s0" "list_all positive_clock events"
  shows "ps_role s = role" "role \<in> set ROLES" "ps_target_pid s = pid" "0 < pid"
    "ps_path s = join_path case_directory (path_of ''profiles/native-sample.txt'')"
    "ps_command s = sample_command pid (JStr (path_text (ps_path s)))" "started_late s"
proof -
  have s0: "s0 = idle_session role pid (join_path case_directory (path_of ''profiles/native-sample.txt''))
      (sample_command pid (JStr (path_text (join_path case_directory (path_of ''profiles/native-sample.txt'')))))"
    "role \<in> set ROLES" "0 < pid"
    using assms(1) by (auto simp: new_native_session_def ok Let_def)
  have "same_target s0 s \<and> started_late s"
    unfolding assms(2) native_tick_def
    by (rule session_after_target) (use assms(3) tick_session_target in \<open>auto simp: s0(1) started_late_def idle_session_def\<close>)
  with s0 show "ps_role s = role" "role \<in> set ROLES" "ps_target_pid s = pid" "0 < pid"
    "ps_path s = join_path case_directory (path_of ''profiles/native-sample.txt'')"
    "ps_command s = sample_command pid (JStr (path_text (ps_path s)))" "started_late s"
    by (simp_all add: same_target_def idle_session_def)
qed

lemma backend_accepted:
  assumes "profiled_receipt outcome out payload child s backend hz" "backend \<in> set PROFILER_BACKENDS" "backend \<noteq> ''cprofile''"
    and "invalid_frequency (JInt hz) (JStr backend) = False"
    and "backend_evidence fs sha256 outcome child directory backend (JInt hz) = Inr ()"
  shows "inspect_profile_evidence fs sha256 outcome directory = Inr []"
proof -
  have "backend \<noteq> ''none''" using assms(2) by (auto simp: PROFILER_BACKENDS_def)
  with assms show ?thesis by (auto simp: inspect_profile_evidence_def profiled_receipt_def Let_def)
qed

lemma sample_path: "path_of ''profiles/native-sample.txt'' = \<lparr>pp_root = [], pp_parts = [''profiles'', ''native-sample.txt'']\<rparr>"
  by code_simp

lemma native_session_accepted:
  assumes "new_native_session platform role pid (fs_resolve fs (path_of out)) existing = Inr s0"
    and "s = session_after native_tick events s0" "list_all positive_clock events"
    and "native_finalize fs sha256 (Some child) polled now s = Inr (payload, [])"
    and "profiled_receipt outcome out payload child s (''sample-'' @ role) Perf_Evidence.DEFAULT_PERF_SAMPLE_FREQUENCY_HZ"
    and "reported_inside fs directory out" "settled_file fs (ps_path s)"
  shows "inspect_profile_evidence fs sha256 outcome directory = Inr []"
proof -
  obtain base case_directory where inside: "fs_resolve fs directory = Inr base" "fs_resolve fs (path_of out) = Inr case_directory"
      "is_relative_to case_directory base"
    using assms(6) by (auto simp: reported_inside_def split: sum.splits)
  note state = native_session_state [OF assms(1) [unfolded inside(2)] assms(2,3)]
  let ?s = "poll_session polled now s"
  have polled: "ps_role ?s = role" "ps_target_pid ?s = pid" "ps_path ?s = ps_path s" "ps_command ?s = ps_command s"
      "started_late ?s" "map_option fst (ps_process ?s) = map_option fst (ps_process s)"
    using poll_session_target [where s = s and polled = polled and now = now] state(1,3,7)
    by (simp_all add: same_target_def started_late_def)
  obtain child' batch content decoded n where final: "\<not> unfinished ?s" "child' = child" "profile_batches child = [batch]"
      "session_record payload ''sample'' ?s ''profiles/native-sample.txt''" "session_bounds payload ?s batch (\<lambda>_ _. True)"
      "fs_bytes fs (ps_path s) = Inr content" "fs_decode fs content = Inr decoded" "sampled_pids decoded = Inr (pid, pid)"
      "get payload ''sha256'' = JStr (sha256 content)" "get payload ''size_bytes'' = JInt n" "fs_size fs (ps_path s) = Inr n" "0 < n"
      "n \<le> MAX_PROFILE_BYTES" "get payload ''pid_from_report'' = JInt pid" "get payload ''pid_from_analysis_header'' = JInt pid"
      "get payload ''sample_duration_s'' = JInt 1" "get payload ''sample_interval_ms'' = JInt 1"
    by (rule native_finalize_ok [OF assms(4)]) (auto simp: polled)
  have receipt: "profiled_receipt outcome out payload child ?s (''sample-'' @ role) Perf_Evidence.DEFAULT_PERF_SAMPLE_FREQUENCY_HZ"
    using assms(5) unfolding profiled_receipt_def polled(1,2,6) state(1,3) by assumption
  note said = session_record_native [OF final(4,1) receipt, unfolded polled(1,2), OF state(4)]
  have evidence: "object_value (get outcome ''native_profile'') = payload" "get outcome (role @ ''_pid'') = JInt pid"
      "get outcome ''output_dir'' = JStr out" "out \<noteq> []"
    using assms(5) state(1,3) by (simp_all add: profiled_receipt_def)
  have artifact: "profile_file fs sha256 base outcome payload [] MAX_PROFILE_BYTES = Inr (content, [ps_path s])"
    using final(4,6,9-13) assms(7) state(5) polled(3)
    by (intro profile_file_accepts [OF evidence(3,4) inside(2,3) sample_path]) (simp_all add: session_record_def)
  obtain start finish begun ended where times: "load_bounds batch payload = Inr (start, finish)"
    "\<forall>e. tool_times payload e = Inr (begun, ended)"
    "tool_recorded payload begun ended (tool_overlap start finish begun ended)
       (start \<le> begun \<and> begun < ended \<and> ended \<le> finish \<and> True)"
    by (rule session_tool_times [OF final(5,4) polled(5)])
  then have bounds: "native_bounds batch payload = Inr ()" by (simp add: native_bounds_def raise_if_def)
  have command: "py_eq (get payload ''command'') (JList (sample_command pid (get payload ''path'')))"
    using final(4) state(6) by (simp add: session_record_def polled(3,4) sample_command_def)
  have role: "(if ''sample-'' @ role = ''sample-client'' then ''client'' else ''server'') = role"
      "''sample-'' @ role \<in> set PROFILER_BACKENDS" "''sample-'' @ role \<noteq> ''cprofile''" "\<not> starts_with (''sample-'' @ role) ''perf-''"
    using state(2) by (auto simp: ROLES_def PROFILER_BACKENDS_def starts_with_def)
  have "native_evidence fs sha256 base outcome child (''sample-'' @ role) = Inr ()"
    unfolding native_evidence_def Let_def role(1) evidence(1,2) final(3) check_native_record_def int_in_def json.case list.sel
    using said command bounds artifact sampled_identity [OF final(7,8,14,15)] final(16,17)
    by (simp add: raise_if_def)
  then show ?thesis
    using backend_accepted [OF receipt role(2,3)] inside(1) role(3,4)
    by (simp add: backend_evidence_def invalid_frequency_def Perf_Evidence.PERF_SAMPLE_FREQUENCIES_HZ_def Perf_Evidence.DEFAULT_PERF_SAMPLE_FREQUENCY_HZ_def)
qed

subsection \<open>The evidence of \<^verbatim>\<open>perf\<close> is accepted\<close>

definition profile_path :: "posix_path \<Rightarrow> string \<Rightarrow> posix_path" where
  "profile_path case_directory part = join_path case_directory \<lparr>pp_root = [], pp_parts = [''profiles'', part]\<rparr>"

definition plain_name :: "string \<Rightarrow> bool" where
  "plain_name part \<longleftrightarrow> part \<noteq> ''..'' \<and> path_of (''profiles/'' @ part) = \<lparr>pp_root = [], pp_parts = [''profiles'', part]\<rparr>"

lemma artifact_accepted:
  assumes "read_artifact fs sha256 path limit = Inr (artifact, content)" "path = profile_path case_directory part" "plain_name part"
    and "get outcome ''output_dir'' = JStr out" "out \<noteq> []" "fs_resolve fs (path_of out) = Inr case_directory"
    and "is_relative_to case_directory base" "settled_file fs path" "path \<notin> set seen"
    and "\<forall>key \<in> {''relative_path'', ''path'', ''size_bytes'', ''sha256''}. get evidence key = get artifact key"
  shows "profile_file fs sha256 base outcome evidence seen limit = Inr (content, path # seen)"
proof -
  obtain n data where parts: "fs_size fs path = Inr n" "0 < n" "n \<le> limit" "fs_bytes fs path = Inr data" "content = read_up_to (limit + 1) data"
    "artifact = [(''path'', JStr (path_text path)), (''relative_path'', JStr (''profiles/'' @ path_name path)),
       (''size_bytes'', JInt n), (''sha256'', JStr (sha256 content))]"
    using assms(1) by (auto simp: read_artifact_def ok Let_def)
  have "n = int (length data)" using assms(8) parts(1,4) by (simp add: settled_file_def)
  then have content: "content = data" using parts(3,5) by (simp add: read_up_to_def)
  have name: "path_name path = part" by (simp add: assms(2) profile_path_def path_name_def join_path_def is_absolute_def)
  have path: "path = join_path case_directory (path_of (''profiles/'' @ part))"
    using assms(2,3) by (simp add: profile_path_def plain_name_def)
  show ?thesis unfolding content
    by (rule profile_file_accepts [OF assms(4-7) _ _ _ path assms(8,9)])
      (use assms(3,10) parts(1-4,6) content name in \<open>auto simp: plain_name_def get_Cons\<close>)
qed

lemma perf_paths: "plain_name ''perf.data''" "plain_name ''perf-header.txt''" "plain_name ''perf-script.txt''"
  "plain_name ''perf-summary.txt''" "plain_name ''perf-record-stderr.txt''"
  by code_simp+

lemma extract_texts_ok:
  assumes "extract_texts fs sha256 extracted s = Inr (artifacts, texts)"
  defines "command \<equiv> \<lambda>arguments. decoding_command (path_text (pl_path (pf_tool s))) arguments (JStr (path_text (ps_path s)))"
  obtains a1 c1 t1 a2 c2 t2 a3 c3 t3 a4 c4 t4 where
    "read_artifact fs sha256 (text_file s ''header'') MAX_TEXT_BYTES = Inr (a1, c1)" "fs_decode fs c1 = Inr t1"
    "read_artifact fs sha256 (text_file s ''script'') MAX_TEXT_BYTES = Inr (a2, c2)" "fs_decode fs c2 = Inr t2"
    "read_artifact fs sha256 (text_file s ''summary'') MAX_TEXT_BYTES = Inr (a3, c3)" "fs_decode fs c3 = Inr t3"
    "read_artifact fs sha256 (pf_stderr s) MAX_TEXT_BYTES = Inr (a4, c4)" "fs_decode fs c4 = Inr t4"
    "artifacts = [(''header'', JObj (a1 @ [(''command'', command [''report'', ''--header-only'', ''--stdio''])])),
      (''script'', JObj (a2 @ [(''command'', command [''script'', ''--ns'', ''--header'', ''--show-lost-events'', ''-F'',
         ''comm,pid,tid,time,period,event,ip,sym,dso''])])),
      (''summary'', JObj (a3 @ [(''command'', command [''report'', ''--stdio'', ''--no-children'', ''--percent-limit'', ''100''])])),
      (''record_stderr'', JObj a4)]"
    "texts = [(''header'', t1), (''script'', t2), (''summary'', t3), (''record_stderr'', t4)]"
  using assms(1) unfolding extract_texts_def decoding_arguments_def command_def by (auto simp: ok Let_def)

lemma read_artifact_keys:
  assumes "read_artifact fs sha256 path limit = Inr (artifact, content)"
  shows "key \<in> {''relative_path'', ''path'', ''size_bytes'', ''sha256''} \<Longrightarrow> get (artifact @ d) key = get artifact key"
    and "get (artifact @ [(''command'', v)]) ''command'' = v"
  using assms by (auto simp: read_artifact_def ok Let_def get_Cons)

lemma py_eq_texts: "py_eq_list (map JStr xs) (map JStr xs)" "py_eq (decoding_command tool arguments (JStr p)) (decoding_command tool arguments (JStr p))"
proof -
  show strs: "py_eq_list (map JStr xs) (map JStr xs)" for xs by (induction xs) simp_all
  show "py_eq (decoding_command tool arguments (JStr p)) (decoding_command tool arguments (JStr p))"
    using strs [of "[tool] @ arguments @ [''-i'', p]"] by (simp add: decoding_command_def)
qed

lemma parsed_recorded:
  assumes "\<forall>key. key \<in> fst ` set (perf_payload pid samples) \<longrightarrow> get payload key = get (perf_payload pid samples) key"
  shows "\<not> list_ex (\<lambda>(key, v). \<not> py_eq (get payload key) v \<or> \<not> same_type (get payload key) v) (perf_payload pid samples)"
proof -
  have ints: "py_eq_list (map JInt xs) (map JInt xs)" for xs by (induction xs) simp_all
  have "py_eq v v \<and> same_type v v" if "(key, v) \<in> set (perf_payload pid samples)" for key v
    using that ints ints [of "[pid]"] by (auto simp: perf_payload_def Let_def optional_min_def optional_max_def)
  moreover have "get payload key = v" if "(key, v) \<in> set (perf_payload pid samples)" for key v
  proof -
    have "distinct (map fst (perf_payload pid samples))" by (simp add: perf_payload_def Let_def)
    then have "get (perf_payload pid samples) key = v" using that by (simp add: get_def)
    with assms that show ?thesis by force
  qed
  ultimately show ?thesis by (auto simp: list_ex_iff)
qed

lemma get_default_present: "get d key = v \<Longrightarrow> v \<noteq> JNull \<Longrightarrow> get_default d key w = v"
  by (auto simp: get_def get_default_def split: option.splits)

text \<open>The files of a \<^verbatim>\<open>perf\<close> session, in the order in which they are read.\<close>

definition perf_files :: "posix_path \<Rightarrow> posix_path list" where
  "perf_files case_directory = map (profile_path case_directory)
     [''perf.data'', ''perf-header.txt'', ''perf-script.txt'', ''perf-summary.txt'', ''perf-record-stderr.txt'']"

lemma perf_session_state:
  assumes "new_perf_session platform role pid hz clock executable version hashed (Inr case_directory) occupied = Inr s0"
    and "s = session_after perf_tick events s0" "list_all positive_clock events"
  shows "ps_role s = role" "role \<in> set ROLES" "ps_target_pid s = pid" "0 < pid" "hz \<in> set Perf_Evidence.PERF_SAMPLE_FREQUENCIES_HZ"
    "[ps_path s, text_file s ''header'', text_file s ''script'', text_file s ''summary'', pf_stderr s] = perf_files case_directory"
    "ps_command s = perf_command (path_text (pl_path (pf_tool s))) hz pid (JStr (path_text (ps_path s)))" "started_late s"
    "pf_frequency s = hz" "starts_with (pl_version (pf_tool s)) ''perf version ''"
    "pl_clock_implementation (pf_tool s) = ''clock_gettime(CLOCK_MONOTONIC)''"
    "executable = Some (Inr (pl_path (pf_tool s)))" "hashed = Inr (pl_sha256 (pf_tool s))"
proof -
  obtain implementation monotonic resolution where clock: "clock = (implementation, monotonic, resolution)" by (cases clock)
  let ?directory = "join_path case_directory (path_of ''profiles'')"
  let ?path = "join_path ?directory (path_of ''perf.data'')"
  obtain tool stdout sha where s0: "s0 = profiler_session.extend
      (idle_session role pid ?path (perf_command (path_text tool) hz pid (JStr (path_text ?path))))
      \<lparr>pf_tool = \<lparr>pl_path = tool, pl_version = strip stdout, pl_sha256 = sha, pl_clock_implementation = implementation,
         pl_clock_resolution = resolution\<rparr>,
       pf_frequency = hz, pf_directory = ?directory, pf_stderr = join_path ?directory (path_of ''perf-record-stderr.txt'')\<rparr>"
    "role \<in> set ROLES" "0 < pid" "hz \<in> set Perf_Evidence.PERF_SAMPLE_FREQUENCIES_HZ" "implementation = ''clock_gettime(CLOCK_MONOTONIC)''"
    "starts_with (strip stdout) ''perf version ''" "executable = Some (Inr tool)" "hashed = Inr sha"
    using assms(1) unfolding clock new_perf_session_def prod.case Let_def by (auto simp: ok split: option.splits)
  have target: "same_target s0 s \<and> started_late s"
    unfolding assms(2) perf_tick_def
    by (rule session_after_target)
      (use assms(3) tick_session_target in \<open>auto simp: s0(1) started_late_def idle_session_def profiler_session.extend_def\<close>)
  then have s: "ps_role s = ps_role s0" "ps_target_pid s = ps_target_pid s0" "ps_path s = ps_path s0" "ps_command s = ps_command s0"
      "pf_tool s = pf_tool s0" "pf_frequency s = pf_frequency s0" "pf_directory s = pf_directory s0" "pf_stderr s = pf_stderr s0"
      "started_late s"
    by (cases s; cases s0; simp add: same_target_def)+
  have names: "path_of ''profiles'' = \<lparr>pp_root = [], pp_parts = [''profiles'']\<rparr>" "path_of ''perf.data'' = \<lparr>pp_root = [], pp_parts = [''perf.data'']\<rparr>"
    "path_of ''perf-header.txt'' = \<lparr>pp_root = [], pp_parts = [''perf-header.txt'']\<rparr>"
    "path_of ''perf-script.txt'' = \<lparr>pp_root = [], pp_parts = [''perf-script.txt'']\<rparr>"
    "path_of ''perf-summary.txt'' = \<lparr>pp_root = [], pp_parts = [''perf-summary.txt'']\<rparr>"
    "path_of ''perf-record-stderr.txt'' = \<lparr>pp_root = [], pp_parts = [''perf-record-stderr.txt'']\<rparr>" by code_simp+
  show "ps_role s = role" "role \<in> set ROLES" "ps_target_pid s = pid" "0 < pid" "hz \<in> set Perf_Evidence.PERF_SAMPLE_FREQUENCIES_HZ"
    "ps_command s = perf_command (path_text (pl_path (pf_tool s))) hz pid (JStr (path_text (ps_path s)))" "started_late s"
    "pf_frequency s = hz" "starts_with (pl_version (pf_tool s)) ''perf version ''"
    "pl_clock_implementation (pf_tool s) = ''clock_gettime(CLOCK_MONOTONIC)''"
    "executable = Some (Inr (pl_path (pf_tool s)))" "hashed = Inr (pl_sha256 (pf_tool s))"
    using s s0 by (simp_all add: idle_session_def profiler_session.extend_def)
  show "[ps_path s, text_file s ''header'', text_file s ''script'', text_file s ''summary'', pf_stderr s] = perf_files case_directory"
    using s s0(1) by (simp add: idle_session_def profiler_session.extend_def perf_files_def profile_path_def text_file_def names join_path_def is_absolute_def)
qed

definition samples_within :: "obj \<Rightarrow> int \<Rightarrow> int \<Rightarrow> bool" where
  "samples_within payload start finish \<longleftrightarrow>
     (case (get payload ''first_sample_ns'', get payload ''last_sample_ns'') of
        (JInt a, JInt b) \<Rightarrow> start \<le> a \<and> a \<le> b \<and> b \<le> finish | _ \<Rightarrow> False)"

lemma perf_finalize_ok:
  assumes "perf_finalize fs sha256 extracted report polled now before = Inr (payload, [])"
  defines "s \<equiv> poll_session polled now before"
  obtains child batch artifact content artifacts texts samples where "\<not> unfinished s" "report = Some child" "profile_batches child = [batch]"
    "session_record payload ''perf'' s (''profiles/'' @ path_name (ps_path s))"
    "session_bounds payload s batch (samples_within payload)"
    "read_artifact fs sha256 (ps_path s) MAX_PERF_BYTES = Inr (artifact, content)" "starts_with content ''PERFILE2''"
    "\<forall>key \<in> {''relative_path'', ''path'', ''size_bytes'', ''sha256''}. get payload key = get artifact key"
    "extract_texts fs sha256 extracted s = Inr (artifacts, texts)" "get payload ''text_artifacts'' = JObj artifacts"
    "inspect_perf_text (text_of texts) (ps_target_pid s) (pf_frequency s) = Inr (perf_payload (ps_target_pid s) samples)"
    "\<And>key. key \<in> fst ` set (perf_payload (ps_target_pid s) samples) \<Longrightarrow>
       get payload key = get (perf_payload (ps_target_pid s) samples) key"
    "get payload ''tool_path'' = JStr (path_text (pl_path (pf_tool s)))" "get payload ''tool_version'' = JStr (pl_version (pf_tool s))"
    "get payload ''tool_sha256'' = JStr (pl_sha256 (pf_tool s))" "get payload ''sample_duration_s'' = JFloat (Fin (1 / 2))"
    "get payload ''sample_frequency_hz'' = JInt (pf_frequency s)"
    "get (object_value (get payload ''python_clock'')) ''implementation'' = JStr (pl_clock_implementation (pf_tool s))"
proof -
  obtain p r where inspected: "inspect_recording fs sha256 extracted report s (perf_session_payload s) = (p, r)" by fastforce
  have closed: "\<not> unfinished s" "r = Inr ()" "payload = dict_update p [(''failures'', JList []), (''status'', JStr ''ok'')]"
    using assms(1) unfolding perf_finalize_def Let_def s_def [symmetric] inspected prod.case
    by (auto simp: close_payload_ok split: if_splits)
  obtain artifact content artifacts texts samples entries where parts:
      "read_artifact fs sha256 (ps_path s) MAX_PERF_BYTES = Inr (artifact, content)" "starts_with content ''PERFILE2''"
      "extract_texts fs sha256 extracted s = Inr (artifacts, texts)"
      "inspect_perf_text (text_of texts) (ps_target_pid s) (pf_frequency s) = Inr (perf_payload (ps_target_pid s) samples)"
      "perf_qualify s (dict_update (dict_update (dict_update (perf_session_payload s) artifact) [(''text_artifacts'', JObj artifacts)])
         (perf_payload (ps_target_pid s) samples)) report = Inr entries"
      "p = dict_update (dict_update (dict_update (dict_update (perf_session_payload s) artifact) [(''text_artifacts'', JObj artifacts)])
         (perf_payload (ps_target_pid s) samples)) entries"
    using inspected closed(2)
    by (auto simp: inspect_recording_def read_recording_def inspect_perf_text_def ok Let_def split: sum.splits prod.splits)
  obtain start finish begun ended where load: "tool_interval (ValueError ''Perf invocation boundaries are missing or unordered'') s = Inr (begun, ended)"
      "reported_load (ValueError ''Perf profile requires exactly one measured batch'')
         (TypeError ''Perf profile requires actual measured load timestamps'')
         (ValueError ''Perf measured load timestamps must be positive and ordered'') report = Inr (start, finish)"
    and entries: "entries = qualification_fields start finish begun ended (start \<le> begun \<and> begun < ended \<and> ended \<le> finish \<and>
         samples_within (dict_update (dict_update (dict_update (perf_session_payload s) artifact) [(''text_artifacts'', JObj artifacts)])
           (perf_payload (ps_target_pid s) samples)) start finish)
         ''Full perf invocation and nonempty timestamped user CPU samples lie inside measured load''
         ''Empty or mixed/outside-load capture cannot establish measured-load-only on-CPU scope''"
    using parts(5) unfolding samples_within_def perf_qualify_def by (auto simp: ok Let_def)
  obtain child batch where batch: "report = Some child" "profile_batches child = [batch]"
      "get (object_value (get batch ''timing'')) ''load_started_ns'' = JInt start"
      "get (object_value (get batch ''timing'')) ''load_finished_ns'' = JInt finish" "0 < start" "start < finish"
    by (rule reported_load_ok [OF load(2)])
  obtain n hash where artifact: "artifact = [(''path'', JStr (path_text (ps_path s))),
      (''relative_path'', JStr (''profiles/'' @ path_name (ps_path s))), (''size_bytes'', JInt n), (''sha256'', JStr hash)]"
    using parts(1) by (auto simp: read_artifact_def ok Let_def)
  note payload = closed(3) [unfolded parts(6)]
  have same: "samples_within payload start finish = samples_within (dict_update (dict_update (dict_update (perf_session_payload s) artifact)
      [(''text_artifacts'', JObj artifacts)]) (perf_payload (ps_target_pid s) samples)) start finish" for start finish
    by (simp add: samples_within_def payload entries qualification_fields_def get_dict_update)
  have "session_bounds payload s batch (samples_within payload)"
    using tool_interval_ok [OF load(1)] qualification_bounds [OF payload [unfolded entries] batch(3-6)]
    unfolding session_bounds_def same by auto
  moreover have "session_record payload ''perf'' s (''profiles/'' @ path_name (ps_path s))"
    unfolding session_record_def payload entries qualification_fields_def perf_session_payload_def perf_payload_def Let_def artifact
    by (simp add: get_dict_update get_Cons)
  moreover have "get payload key = get artifact key" if "key \<in> {''relative_path'', ''path'', ''size_bytes'', ''sha256''}" for key
    using that unfolding payload entries qualification_fields_def perf_payload_def Let_def artifact
    by (elim insertE emptyE) (simp_all add: get_dict_update get_Cons)
  moreover have "get payload key = get (perf_payload (ps_target_pid s) samples) key"
    if "key \<in> fst ` set (perf_payload (ps_target_pid s) samples)" for key
    using that unfolding payload entries qualification_fields_def perf_payload_def Let_def list.set image_insert image_empty fst_conv
    by (elim insertE emptyE) (simp_all add: get_dict_update get_Cons)
  moreover have "get payload ''text_artifacts'' = JObj artifacts" "get payload ''tool_path'' = JStr (path_text (pl_path (pf_tool s)))"
      "get payload ''tool_version'' = JStr (pl_version (pf_tool s))" "get payload ''tool_sha256'' = JStr (pl_sha256 (pf_tool s))"
      "get payload ''sample_duration_s'' = JFloat (Fin (1 / 2))" "get payload ''sample_frequency_hz'' = JInt (pf_frequency s)"
      "get (object_value (get payload ''python_clock'')) ''implementation'' = JStr (pl_clock_implementation (pf_tool s))"
    unfolding payload entries qualification_fields_def perf_session_payload_def perf_payload_def Let_def artifact
    by (simp_all add: get_dict_update get_Cons)
  ultimately show thesis
    using that [OF closed(1) batch(1,2) _ _ parts(1,2) _ parts(3) _ parts(4)] by blast
qed

lemma perf_texts_accepted:
  assumes "extract_texts fs sha256 extracted s = Inr (artifacts, texts)" "get payload ''text_artifacts'' = JObj artifacts"
    and "get payload ''path'' = JStr (path_text (ps_path s))"
    and "[ps_path s, text_file s ''header'', text_file s ''script'', text_file s ''summary'', pf_stderr s] = perf_files case_directory"
    and "get outcome ''output_dir'' = JStr out" "out \<noteq> []" "fs_resolve fs (path_of out) = Inr case_directory"
    and "is_relative_to case_directory base" "list_all (settled_file fs) (perf_files case_directory)"
  shows "perf_texts fs sha256 base outcome payload (path_text (pl_path (pf_tool s))) [ps_path s] = Inr (text_of texts)"
proof -
  let ?command = "\<lambda>arguments. decoding_command (path_text (pl_path (pf_tool s))) arguments (JStr (path_text (ps_path s)))"
  obtain a1 c1 t1 a2 c2 t2 a3 c3 t3 a4 c4 t4 where
    t1: "read_artifact fs sha256 (text_file s ''header'') MAX_TEXT_BYTES = Inr (a1, c1)" "fs_decode fs c1 = Inr t1" and
    t2: "read_artifact fs sha256 (text_file s ''script'') MAX_TEXT_BYTES = Inr (a2, c2)" "fs_decode fs c2 = Inr t2" and
    t3: "read_artifact fs sha256 (text_file s ''summary'') MAX_TEXT_BYTES = Inr (a3, c3)" "fs_decode fs c3 = Inr t3" and
    t4: "read_artifact fs sha256 (pf_stderr s) MAX_TEXT_BYTES = Inr (a4, c4)" "fs_decode fs c4 = Inr t4" and
    artifacts: "artifacts = [(''header'', JObj (a1 @ [(''command'', ?command [''report'', ''--header-only'', ''--stdio''])])),
      (''script'', JObj (a2 @ [(''command'', ?command [''script'', ''--ns'', ''--header'', ''--show-lost-events'', ''-F'',
         ''comm,pid,tid,time,period,event,ip,sym,dso''])])),
      (''summary'', JObj (a3 @ [(''command'', ?command [''report'', ''--stdio'', ''--no-children'', ''--percent-limit'', ''100''])])),
      (''record_stderr'', JObj a4)]" and
    texts: "texts = [(''header'', t1), (''script'', t2), (''summary'', t3), (''record_stderr'', t4)]"
    by (rule extract_texts_ok [OF assms(1)])
  have limit: "MAX_PROFILE_BYTES = MAX_TEXT_BYTES" by (simp add: MAX_PROFILE_BYTES_def MAX_TEXT_BYTES_def)
  have files: "ps_path s = profile_path case_directory ''perf.data''" "text_file s ''header'' = profile_path case_directory ''perf-header.txt''"
    "text_file s ''script'' = profile_path case_directory ''perf-script.txt''"
    "text_file s ''summary'' = profile_path case_directory ''perf-summary.txt''" "pf_stderr s = profile_path case_directory ''perf-record-stderr.txt''"
    using assms(4) by (simp_all add: perf_files_def)
  have different: "profile_path case_directory a = profile_path case_directory b \<longleftrightarrow> a = b" for a b
    by (simp add: profile_path_def join_path_def is_absolute_def)
  have settled: "settled_file fs (profile_path case_directory part)"
    if "part \<in> {''perf.data'', ''perf-header.txt'', ''perf-script.txt'', ''perf-summary.txt'', ''perf-record-stderr.txt''}" for part
    using that assms(9) unfolding perf_files_def by (elim insertE emptyE) simp_all
  note accepted = artifact_accepted [OF _ refl _ assms(5-8), where limit = MAX_TEXT_BYTES]
  have step: "profile_file fs sha256 base outcome (object_value (JObj d)) seen MAX_PROFILE_BYTES = Inr (c, profile_path case_directory part # seen)"
    if "read_artifact fs sha256 (profile_path case_directory part) MAX_TEXT_BYTES = Inr (a, c)" "plain_name part"
      "settled_file fs (profile_path case_directory part)" "profile_path case_directory part \<notin> set seen" "d = a \<or> (\<exists>x. d = a @ x)"
    for a c d part seen
    unfolding limit object_value.simps
    by (rule accepted [OF that(1-4)]) (use that(5) read_artifact_keys(1) [OF that(1)] in auto)
  let ?path = "profile_path case_directory"
  note s1 = step [OF t1(1) [unfolded files(2)] perf_paths(2), where seen = "[?path ''perf.data'']"]
  note s2 = step [OF t2(1) [unfolded files(3)] perf_paths(3), where seen = "[?path ''perf-header.txt'', ?path ''perf.data'']"]
  note s3 = step [OF t3(1) [unfolded files(4)] perf_paths(4),
      where seen = "[?path ''perf-script.txt'', ?path ''perf-header.txt'', ?path ''perf.data'']"]
  note s4 = step [OF t4(1) [unfolded files(5)] perf_paths(5),
      where seen = "[?path ''perf-summary.txt'', ?path ''perf-script.txt'', ?path ''perf-header.txt'', ?path ''perf.data'']"]
  have "read_texts fs sha256 base outcome [ps_path s] artifacts = Inr texts"
    unfolding artifacts texts files(1) by (simp add: s1 s2 s3 s4 settled different t1(2) t2(2) t3(2) t4(2) del: object_value.simps)
  moreover have "forE (\<lambda>(name, arguments).
      raise_if (\<not> py_eq (get (object_value (get artifacts name)) ''command'') (decoding_command (path_text (pl_path (pf_tool s))) arguments (get payload ''path'')))
        (ValueError ''Perf text decoding command differs from the declared owned raw recording'')) decoding_arguments = Inr ()"
    using read_artifact_keys(2) [OF t1(1)] read_artifact_keys(2) [OF t2(1)] read_artifact_keys(2) [OF t3(1)]
    by (simp add: decoding_arguments_def artifacts get_Cons assms(3) py_eq_texts raise_if_def)
  ultimately show ?thesis
    unfolding perf_texts_def Let_def assms(2) object_value.simps
    by (simp add: artifacts ARTIFACT_NAMES_def raise_if_def)
qed

definition perf_command_text :: "string \<Rightarrow> int \<Rightarrow> int \<Rightarrow> string \<Rightarrow> string list" where
  "perf_command_text tool frequency pid path =
     [tool, ''record'', ''--clockid'', ''mono'', ''-F'', int_str frequency] @
     (if frequency \<noteq> Perf_Evidence.DEFAULT_PERF_SAMPLE_FREQUENCY_HZ then [''--strict-freq''] else []) @
     [''-e'', ''cpu-clock:u'', ''--call-graph'', ''dwarf,8192'', ''-p'', int_str pid, ''-o'', path, ''--'', ''/usr/bin/sleep'', ''0.5'']"

lemma perf_command_strings: "perf_command tool frequency pid (JStr path) = map JStr (perf_command_text tool frequency pid path)"
  by (simp add: perf_command_def perf_command_text_def)

lemma perf_session_accepted:
  assumes "new_perf_session platform role pid hz clock (Some (Inr tool)) version (Inr hash) (fs_resolve fs (path_of out)) occupied = Inr s0"
    and "s = session_after perf_tick events s0" "list_all positive_clock events"
    and "is_absolute (path_of (path_text tool))" "hex_digest (JStr hash) 64"
    and "perf_finalize fs sha256 extracted (Some child) polled now s = Inr (payload, [])"
    and "profiled_receipt outcome out payload child s (''perf-'' @ role) hz" "reported_inside fs directory out"
    and "\<And>case_directory. fs_resolve fs (path_of out) = Inr case_directory \<Longrightarrow> list_all (settled_file fs) (perf_files case_directory)"
  shows "inspect_profile_evidence fs sha256 outcome directory = Inr []"
proof -
  obtain base case_directory where inside: "fs_resolve fs directory = Inr base" "fs_resolve fs (path_of out) = Inr case_directory"
      "is_relative_to case_directory base"
    using assms(8) by (auto simp: reported_inside_def split: sum.splits)
  note state = perf_session_state [OF assms(1) [unfolded inside(2)] assms(2,3)]
  note settled = assms(9) [OF inside(2)]
  let ?s = "poll_session polled now s"
  have kept: "same_target s ?s" "started_late ?s" and process: "map_option fst (ps_process ?s) = map_option fst (ps_process s)"
    using poll_session_target [where s = s and polled = polled and now = now] state(8) by (simp_all add: started_late_def)
  then have polled: "ps_role ?s = role" "ps_target_pid ?s = pid" "ps_path ?s = ps_path s" "ps_command ?s = ps_command s"
      "pf_tool ?s = pf_tool s" "pf_frequency ?s = hz" "pf_directory ?s = pf_directory s" "pf_stderr ?s = pf_stderr s"
    using state(1,3,9) by (cases s; cases ?s; simp add: same_target_def)+
  have tool: "pl_path (pf_tool s) = tool" "pl_sha256 (pf_tool s) = hash" using state(12,13) by simp_all
  obtain child' batch artifact content artifacts texts samples where final: "\<not> unfinished ?s" "child' = child" "profile_batches child = [batch]"
    "session_record payload ''perf'' ?s (''profiles/'' @ path_name (ps_path s))" "session_bounds payload ?s batch (samples_within payload)"
    "read_artifact fs sha256 (ps_path s) MAX_PERF_BYTES = Inr (artifact, content)" "starts_with content ''PERFILE2''"
    "\<forall>key \<in> {''relative_path'', ''path'', ''size_bytes'', ''sha256''}. get payload key = get artifact key"
    "extract_texts fs sha256 extracted ?s = Inr (artifacts, texts)" "get payload ''text_artifacts'' = JObj artifacts"
    "inspect_perf_text (text_of texts) pid hz = Inr (perf_payload pid samples)"
    "\<forall>key. key \<in> fst ` set (perf_payload pid samples) \<longrightarrow> get payload key = get (perf_payload pid samples) key"
    "get payload ''tool_path'' = JStr (path_text tool)" "get payload ''tool_version'' = JStr (pl_version (pf_tool s))"
    "get payload ''tool_sha256'' = JStr hash" "get payload ''sample_duration_s'' = JFloat (Fin (1 / 2))"
    "get payload ''sample_frequency_hz'' = JInt hz"
    "get (object_value (get payload ''python_clock'')) ''implementation'' = JStr (pl_clock_implementation (pf_tool s))"
    by (rule perf_finalize_ok [OF assms(6)]) (simp only: polled tool option.inject, blast)
  have receipt: "profiled_receipt outcome out payload child ?s (''perf-'' @ role) hz"
    using assms(7) unfolding profiled_receipt_def polled(1,2) process state(1,3) by assumption
  note said = session_record_native [OF final(4,1) receipt, unfolded polled(1,2), OF state(4)]
  have evidence: "object_value (get outcome ''native_profile'') = payload" "get outcome (role @ ''_pid'') = JInt pid"
      "get outcome ''output_dir'' = JStr out" "out \<noteq> []"
    using assms(7) state(1,3) by (simp_all add: profiled_receipt_def)
  have paths: "ps_path s = profile_path case_directory ''perf.data''"
    "[ps_path ?s, text_file ?s ''header'', text_file ?s ''script'', text_file ?s ''summary'', pf_stderr ?s] = perf_files case_directory"
    using state(6) by (simp_all add: perf_files_def text_file_def polled)
  have "settled_file fs (ps_path s)" using settled paths(1) by (simp add: perf_files_def)
  then have recording: "profile_file fs sha256 base outcome payload [] MAX_PERF_BYTES = Inr (content, [ps_path s])"
    by (intro artifact_accepted [OF final(6) paths(1) perf_paths(1) evidence(3,4) inside(2,3) _ _ final(8)]) simp_all
  have path: "get payload ''path'' = JStr (path_text (ps_path s))" using final(4) by (simp add: session_record_def polled)
  have texts: "perf_texts fs sha256 base outcome payload (path_text tool) [ps_path s] = Inr (text_of texts)"
    using perf_texts_accepted [OF final(9,10) path [folded polled(3)] paths(2) evidence(3,4) inside(2,3) settled] by (simp only: polled tool)
  obtain start finish begun ended where times: "load_bounds batch payload = Inr (start, finish)"
    "\<forall>e. tool_times payload e = Inr (begun, ended)"
    "tool_recorded payload begun ended (tool_overlap start finish begun ended)
       (start \<le> begun \<and> begun < ended \<and> ended \<le> finish \<and> samples_within payload start finish)"
    by (rule session_tool_times [OF final(5,4) kept(2)])
  then have bounds: "perf_bounds batch payload = Inr ()" unfolding samples_within_def by (simp add: perf_bounds_def raise_if_def)
  have command: "py_eq (get payload ''command'') (JList (perf_command (path_text tool) hz pid (get payload ''path'')))"
    using final(4) state(7) py_eq_texts(1) [of "perf_command_text (path_text tool) hz pid (path_text (ps_path s))"]
    by (simp add: session_record_def polled(3,4) tool perf_command_strings)
  have declared: "perf_declared payload [batch] hz"
    using final(13,16-18) get_default_present [OF final(14)] get_default_present [OF final(15)] state(10,11) assms(4,5)
    by (simp add: perf_declared_def)
  have role: "(if ''perf-'' @ role = ''perf-client'' then ''client'' else ''server'') = role"
      "''perf-'' @ role \<in> set PROFILER_BACKENDS" "''perf-'' @ role \<noteq> ''cprofile''" "starts_with (''perf-'' @ role) ''perf-''"
      "''perf-'' @ role \<in> {''perf-client'', ''perf-server''}"
    using state(2) by (auto simp: ROLES_def PROFILER_BACKENDS_def starts_with_def)
  have "perf_evidence fs sha256 base outcome child (''perf-'' @ role) hz = Inr ()"
    unfolding perf_evidence_def Let_def role(1) evidence(1,2) final(3) check_native_record_def int_in_def json.case list.sel final(13)
    using said command bounds recording texts declared final(7,11) parsed_recorded [OF final(12)]
    by (simp add: raise_if_def)
  then show ?thesis
    using backend_accepted [OF receipt role(2,3)] inside(1) role(3-5) state(5)
    by (auto simp: backend_evidence_def invalid_frequency_def int_in_def)
qed

text \<open>
  C25: what the session of a native profiler records is evidence that the inspection accepts. A session is attached
  to the client or the server of a case, and any number of ticks and cleanups later it is finalized without a failure;
  then the receipt with its payload passes, if the repetition declared that profiler, the files of the session stay as
  they are, and the processes are distinct. This holds of \<^verbatim>\<open>sample\<close> on macOS and of \<^verbatim>\<open>perf\<close> on Linux.\<close>

theorem session_evidence_accepted:
  assumes "list_all positive_clock events" "reported_inside fs directory out"
  shows "(new_native_session platform role pid (fs_resolve fs (path_of out)) existing = Inr s0 \<and>
       s = session_after native_tick events s0 \<and> settled_file fs (ps_path s) \<and>
       native_finalize fs sha256 (Some child) polled now s = Inr (payload, []) \<and>
       profiled_receipt outcome out payload child s (''sample-'' @ role) Perf_Evidence.DEFAULT_PERF_SAMPLE_FREQUENCY_HZ \<longrightarrow>
       inspect_profile_evidence fs sha256 outcome directory = Inr []) \<and>
     (new_perf_session platform role pid hz clock (Some (Inr tool)) version (Inr hash) (fs_resolve fs (path_of out)) occupied = Inr p0 \<and>
       p = session_after perf_tick events p0 \<and> is_absolute (path_of (path_text tool)) \<and> hex_digest (JStr hash) 64 \<and>
       (\<forall>case_directory. fs_resolve fs (path_of out) = Inr case_directory \<longrightarrow> list_all (settled_file fs) (perf_files case_directory)) \<and>
       perf_finalize fs sha256 extracted (Some child) polled now p = Inr (payload, []) \<and>
       profiled_receipt outcome out payload child p (''perf-'' @ role) hz \<longrightarrow>
       inspect_profile_evidence fs sha256 outcome directory = Inr [])"
  using assms native_session_accepted [of platform role pid fs out existing s0 s events sha256 child polled now payload outcome directory]
    perf_session_accepted [of platform role pid hz clock tool version hash fs out occupied p0 p events sha256 extracted child polled now
      payload outcome directory]
  by blast

subsection \<open>A session of \<^verbatim>\<open>sample\<close>\<close>

definition sample_text :: string where
  "sample_text = ''Process: a[7]'' @ [newline] @ ''Analysis of sampling a (pid 7) every 1 millisecond'' @ [newline] @ ''Call graph:''"

definition sample_files :: file_system where
  "sample_files = \<lparr>fs_resolve = Inr, fs_size = (\<lambda>_. Inr (int (length sample_text))), fs_bytes = (\<lambda>_. Inr sample_text), fs_decode = Inr\<rparr>"

definition sample_turn :: "int \<Rightarrow> int option \<Rightarrow> session_event" where
  "sample_turn now polled = Ticked ''batch_1_start''
     \<lparr>pt_now = now, pt_starting = now, pt_launched = Inr 9, pt_polled = polled, pt_after = now + 1\<rparr>"

definition sample_events :: "session_event list" where
  "sample_events = [sample_turn 10 None, sample_turn 200000020 None, sample_turn 200000030 (Some 0), Cleaned None 200000040]"

definition sample_child :: obj where
  "sample_child =
     [(''config'', JObj [(''attribution'', JObj [(''profiler'', JStr ''sample-client''), (''instrumentation'', JStr ''diagnostic''),
         (''profiler_label'', JStr ''load'')])]),
      (''batches'', JList [JObj [(''timing'', JObj [(''load_started_ns'', JInt 5), (''load_finished_ns'', JInt 300000000)])]])]"

definition sample_outcome :: "obj \<Rightarrow> obj" where
  "sample_outcome payload =
     [(''output_dir'', JStr ''/r/case''), (''client_pid'', JInt 7), (''server_pid'', JInt 8), (''client_report'', JObj sample_child),
      (''native_profile'', JObj payload)]"

definition attached_session :: profiler_session where
  "attached_session =
     (case new_native_session ''darwin'' ''client'' 7 (fs_resolve sample_files (path_of ''/r/case'')) False of Inr s \<Rightarrow> s)"

lemma sample_session:
  "new_native_session ''darwin'' ''client'' 7 (fs_resolve sample_files (path_of ''/r/case'')) False = Inr attached_session"
  "settled_file sample_files (ps_path (session_after native_tick sample_events attached_session))"
  "map_option fst (ps_process (session_after native_tick sample_events attached_session)) = Some 9"
  "ps_role (session_after native_tick sample_events attached_session) = ''client''"
  "ps_target_pid (session_after native_tick sample_events attached_session) = 7"
  by code_simp+

lemma sample_finalized:
  "case native_finalize sample_files fixed_digest (Some sample_child) None 200000050 (session_after native_tick sample_events attached_session) of
     Inl e \<Rightarrow> False | Inr (payload, failures) \<Rightarrow> failures = []"
  by code_simp

lemma session_evidence_accepted_witness:
  "\<exists>payload. native_finalize sample_files fixed_digest (Some sample_child) None 200000050
       (session_after native_tick sample_events attached_session) = Inr (payload, []) \<and>
     inspect_profile_evidence sample_files fixed_digest (sample_outcome payload) (path_of ''/r'') = Inr []"
proof -
  let ?s = "session_after native_tick sample_events attached_session"
  obtain payload where payload: "native_finalize sample_files fixed_digest (Some sample_child) None 200000050 ?s = Inr (payload, [])"
    using sample_finalized by (auto split: sum.splits prod.splits)
  have clock: "list_all positive_clock sample_events" by code_simp
  have inside: "reported_inside sample_files (path_of ''/r'') ''/r/case''" by code_simp
  have receipt: "profiled_receipt (sample_outcome payload) ''/r/case'' payload sample_child ?s (''sample-'' @ ''client'')
      Perf_Evidence.DEFAULT_PERF_SAMPLE_FREQUENCY_HZ"
    using sample_session(3) by (auto simp: profiled_receipt_def sample_outcome_def sample_session(4,5) get_Cons get_default_Cons get_default_def
      sample_child_def reported_attribution_def declared_profiler_def Let_def python_profiled_def profile_batches_def strip_def
      is_space_def char_code_def get_def)
  from session_evidence_accepted [OF clock inside, of "''darwin''" "''client''" 7 False attached_session ?s fixed_digest sample_child
      None 200000050 payload "sample_outcome payload"] sample_session(1,2) payload receipt
  show ?thesis by blast
qed

end
