(* ===== verification/Spec2Isabelle.thy ===== *)
theory Spec2Isabelle
  imports Compare_Analysis Load_Workers Run_Settling Progress Request_Reports Isolation_Reports
    Operation_Reports Upstream_Reports Resource_Reports Streaming_Reports Window_Agreement
    Lifecycle_Reports Lifecycle_Coordinator Profiler_Agreement
begin

text \<open>
  A verification library for the FogHTTP benchmark harness (\<^verbatim>\<open>src/foghttp_benchmark\<close>). The program
  runs HTTP clients under load, aggregates what it measured into rows, classifies how far the rows can be
  trusted, publishes them as a JSON report, and reads such reports back to compare them. The library
  follows the data: from the arguments, through a run, to the report, and from a report to a comparison.

  \<^bold>\<open>Foundations.\<close> \<^verbatim>\<open>Prelude\<close> has errors as values (\<^verbatim>\<open>py_error + 'a\<close>, one constructor per exception class
  the code raises or catches), the error monad with its loops, the collection \<^verbatim>\<open>ok\<close> of rules that say
  when a check succeeds, insertion-ordered dictionaries as association lists, and grouping.
  \<^verbatim>\<open>PyFloat\<close> is IEEE binary64 over rationals with rounding half to even (negative zero is zero: no
  operation of the program tells them apart). \<^verbatim>\<open>PyText\<close> has strings over code points below 256, \<^verbatim>\<open>str\<close> and
  \<^verbatim>\<open>repr\<close> of numbers, \<^verbatim>\<open>int\<close> and \<^verbatim>\<open>float\<close> of text. \<^verbatim>\<open>PyJson\<close> has JSON values, Python equality between
  them, truth, \<^verbatim>\<open>repr\<close> and \<^verbatim>\<open>dumps\<close>. \<^verbatim>\<open>Constants\<close> holds the tables of constants.py, \<^verbatim>\<open>Statistics\<close>
  statistics.py and resource_metrics.py (percentile, coefficient of variation with the correctly rounded
  square root of the standard library, merged error counts, nullable maxima, coverage).

  \<^bold>\<open>Producing a report.\<close> \<^verbatim>\<open>Argument_Validation\<close> (validation.py) decides which arguments a suite accepts;
  \<^verbatim>\<open>Suite_Selection\<close> (suite_selection.py, clients/registry.py) parses the lists and selects clients;
  \<^verbatim>\<open>Isolation_Planning\<close> (isolation/planning.py) plans the child processes; \<^verbatim>\<open>Request_Runs\<close> (runner.py,
  request_suite.py, models.py) builds the plan of runs and the record of a run; \<^verbatim>\<open>Load_Workers\<close> (load.py)
  is the load loop as a step relation of one shared counter and a pool of workers, over every
  interleaving and every outcome of a request; \<^verbatim>\<open>Run_Settling\<close> (run_settling.py) decides on the pause
  after a run; \<^verbatim>\<open>Progress\<close> (progress.py) is the plain progress output over an explicit clock;
  \<^verbatim>\<open>Request_Reports\<close> (reports.py) aggregates the runs into the rows of the report, \<^verbatim>\<open>Operation_Reports\<close>,
  \<^verbatim>\<open>Upstream_Reports\<close>, \<^verbatim>\<open>Resource_Reports\<close> and \<^verbatim>\<open>Streaming_Reports\<close> those of the other suites, over the shared
  grouping and statistics of \<^verbatim>\<open>Aggregation\<close>.
  \<^verbatim>\<open>Report_Finalization\<close> (report_finalization.py and the finalizers of the suites) and
  \<^verbatim>\<open>Isolation_Reports\<close> (isolation/reports.py) merge the reports of child processes into the published one.

  \<^bold>\<open>Research profiles.\<close> \<^verbatim>\<open>Lifecycle_Config\<close> (streaming/lifecycle_models.py, attribution_models.py) validates
  the configurations of the streaming research profiles and plans their cases; \<^verbatim>\<open>Config_Payload\<close> is their
  JSON form between coordinator and worker process. \<^verbatim>\<open>Stream_Observation\<close> (attribution_consume.py) is a
  stream as a state machine whose events are what its awaits return, and the observations of a batch of
  streams over a shared budget, under every interleaving; \<^verbatim>\<open>Attribution_Measure\<close> (attribution_measure.py)
  is the measured batch: its rounds, its replay and its record. \<^verbatim>\<open>Window_Evidence\<close> (attribution_window.py) is
  the check of the record of a timed window, \<^verbatim>\<open>Window_Agreement\<close> the proof that the two agree.
  \<^verbatim>\<open>Lifecycle_Aggregation\<close> (lifecycle_aggregation.py) puts the results of the cases into rows, and
  \<^verbatim>\<open>Lifecycle_Reports\<close> (lifecycle_reports.py) publishes them with their validity; \<^verbatim>\<open>Attribution_Aggregation\<close>
  (attribution_aggregation.py) extends the rows with the evidence of the asynchronous bytes profile.
  \<^verbatim>\<open>Lifecycle_Sampling\<close> (isolation/lifecycle_resources.py) samples the processes of a case, and
  \<^verbatim>\<open>Lifecycle_Coordinator\<close> (isolation/lifecycle.py) is the coordinator of a case, from the start of its server
  to the receipt, over what the operating system answers at each turn of its two loops.
  \<^verbatim>\<open>Profile_Evidence\<close> (profile_evidence.py) inspects the artifacts of a profiled repetition, with
  \<^verbatim>\<open>Perf_Evidence\<close> (perf_evidence.py) for the text of a \<^verbatim>\<open>perf\<close> recording; \<^verbatim>\<open>Python_Regex\<close> is the
  backtracking matcher of regular expressions and \<^verbatim>\<open>Python_Path\<close> has the paths and files they use.
  \<^verbatim>\<open>Profiler_Sessions\<close> (isolation/native_profile.py, perf_profile.py) are the sessions that record such
  artifacts, and \<^verbatim>\<open>Profiler_Agreement\<close> is the proof that the inspection accepts what they record.

  \<^bold>\<open>Classifying.\<close> \<^verbatim>\<open>Validity_Core\<close> (validity/helpers.py, models.py) has statuses, reasons and summaries;
  \<^verbatim>\<open>Validity_Rules\<close> the rules for ordinary rows with the exemptions of known incompatibilities;
  \<^verbatim>\<open>Streaming_Profiles\<close>, \<^verbatim>\<open>Validity_Lifecycle\<close> and \<^verbatim>\<open>Validity_Attribution\<close> the rules of the research
  profiles; \<^verbatim>\<open>Validity_Summary\<close> the summaries, their combination over child processes, their JSON form and
  the metadata they are published in.

  \<^bold>\<open>Reading and comparing.\<close> \<^verbatim>\<open>Report_Fields\<close>, \<^verbatim>\<open>Report_Identity\<close>, \<^verbatim>\<open>Report_Ordinary\<close> and
  \<^verbatim>\<open>Report_Resources\<close> (report_schema/) are the admission checks on rows, in the order of the code and with
  its messages; \<^verbatim>\<open>Measurement_Timing\<close> the timing scopes; \<^verbatim>\<open>Report_Decoding\<close> puts them together with the
  migration of old reports; \<^verbatim>\<open>Compare_Loading\<close> and \<^verbatim>\<open>Compare_Analysis\<close> (compare/) build comparison rows and
  the comparison itself.

  \<^bold>\<open>What is shown.\<close> End to end: a merged report keeps what its children reported and overlooks no
  failure (C1), reads back as what was published (C2), and the rows a request benchmark writes are admitted
  by the reader (C4). A decoded report is sound and a fixed point of decoding (C5, C6), and what the reader
  admits the comparison can load (C7). The load loop accounts for every request, ends from every state, and
  would hang without workers (C3, C16, C18), which the argument validation excludes (C17). The admission
  checks are exact: each accepts its declarative description and nothing else (C8, C23, C29). Every suite
  accounts for each of its runs (C30), and its ratios are relative to the right baseline (C19, C40).
  The cases of the research profiles are complete and bounded (C38, C39), and the record a timed window
  writes is the evidence its check accepts, under every schedule of its streams (C36); a
  published lifecycle report accounts for its repetitions and overlooks no failure (C37); a row of verified
  throughput that is not invalid counts streams that were read whole and digested (C35); profiler artifacts that pass the inspection were
  recorded of the owned processes around the measured load (C28), and those of a session pass it (C25).
  Validity: summaries combine to the worst of their parts without losing a reason (C9, C10), survive
  publication, of a suite with what its children recorded and of a merged report, and the JSON round trip
  (C11, C33, C12); exemptions never exceed the errors (C21), and a row without a reason has no errors, or
  errors that bypassed a proxy, which the proxy classifier reports in the proxy suite (C22); profiles,
  incomplete workloads and timing scopes are found (C24, C26, C27).
  A comparison neither loses rows nor depends on the order in which the reports list them, the listing of
  reasons apart, and its wins are consistent
  (C13, C14, C15). Plans of child processes never share a directory (C20); progress output is bounded and
  its heartbeats come when they are due and never closer than their interval (C31, C32); a receipt with status \<^verbatim>\<open>ok\<close> is that of a repetition which stayed
  within its bounds (C34).

  \<^bold>\<open>How it is organised.\<close> Where several operations share a contract it is a locale, interpreted on the
  model in the theory of the provider: the reader of comparison rows (\<^verbatim>\<open>row_reader\<close>), the counters of
  errors (\<^verbatim>\<open>counter_store\<close>), the severity of statuses (\<^verbatim>\<open>severity_order\<close>), the finalizers of merged
  reports (\<^verbatim>\<open>merged_finalizer\<close>) and the aggregations of the suites (\<^verbatim>\<open>aggregation\<close>). No fuel is used: the
  loops of the model are structural recursion or, where a replay is cut into segments, recursion with a
  measure (the segments that are left, then the sizes, then the chunks); the load loop, whose number of
  steps depends on the scheduler, is a relation whose traces are proved to be bounded.

  \<^bold>\<open>Parameters.\<close> The float sum, \<^verbatim>\<open>log\<close> and \<^verbatim>\<open>exp\<close> of the platform (a record \<^verbatim>\<open>float_library\<close>), SHA-256,
  the failure of importing a module, the shuffle of the random generator, the resolved output directory
  and the executable, the parts of a URL, and what a file system answers. Clocks, schedules, client outcomes,
  the answers of child processes and resource peaks are inputs of the operations that read them.

  \<^bold>\<open>Not modelled.\<close> Third-party clients and their adapters, sockets and servers, the worker processes and
  profiling tools, rendering and files, cancellation of tasks, the rich display. Of the suites other than the
  request suite, how a single run is measured is left out, because it is a sequence of calls into
  third-party clients; their runs are inputs of the aggregation.
\<close>

subsection \<open>The reports of all suites\<close>

text \<open>
  C30: every suite accounts for each of its runs: when the throughputs and memory peaks of the runs are
  finite, aggregation returns one row for each combination of dimensions that was run, in the order of the
  suite, whose repeats are the runs of that combination and add up to all runs. The request and the
  compressed-response suite share one aggregation, the other six have their own; for the proxy suite,
  whose ratios may be refused as ambiguous, the statement is about whatever it returns.\<close>

theorem suites_account_for_runs:
  assumes "list_all request_measured requests" "list_all creation_measured creations"
    and "list_all builder_measured builders" "list_all upstream_measured upstreams"
    and "list_all resource_measured resources" "list_all streaming_measured streams"
    and "aggregate_proxy_connect_results proxies = Inr proxy_rows"
  shows "(\<exists>rows. aggregate_results requests = Inr rows \<and>
      accounted run_key (\<lambda>k. k) row_key ar_repeats requests rows) \<and>
    (\<exists>rows. aggregate_creation_results creations = Inr rows \<and>
      accounted creation_key (\<lambda>k. k) creation_row_key cca_repeats creations rows) \<and>
    (\<exists>rows. aggregate_request_builder_results builders = Inr rows \<and>
      accounted builder_key builder_sort_key builder_row_key rba_repeats builders rows) \<and>
    (\<exists>rows. aggregate_one_upstream_results upstreams = Inr rows \<and>
      accounted upstream_key upstream_sort_key upstream_row_key oua_repeats upstreams rows) \<and>
    (\<exists>rows. aggregate_resource_results resources = Inr rows \<and>
      accounted from_result resource_sort_key resource_row_key bpa_repeats resources rows) \<and>
    (\<exists>rows. aggregate_streaming_results streams = Inr rows \<and>
      accounted streaming_key (\<lambda>k. k) streaming_row_key sma_repeats streams rows) \<and>
    accounted proxy_key proxy_sort_key proxy_row_key pca_repeats proxies proxy_rows"
  using assms request_accounted creation_accounted builder_accounted upstream_accounted resource_accounted
    streaming_accounted proxy_accounted by blast

text \<open>One run of each suite.\<close>

definition no_proxy_use :: ProxyStatsDelta where
  "no_proxy_use = \<lparr>pd_http_requests = 0, pd_connect_requests = 0, pd_proxy_authorization_headers = 0, pd_tunnel_client_bytes = 0, pd_tunnel_upstream_bytes = 0\<rparr>"

definition creation_run :: ClientCreationResult where
  "creation_run =
     \<lparr>ccr_client = ''foghttp'', ccr_mode = ''async'', ccr_scenario = ''get'', ccr_client_count = 2,
      ccr_iterations = 2, ccr_repeat = 2, ccr_duration_s = Fin 1, ccr_operations_per_second = Fin 1,
      ccr_p50_ms = Fin 1, ccr_p90_ms = Fin 1, ccr_p95_ms = Fin 1, ccr_p99_ms = Fin 1, ccr_min_ms = Fin 1,
      ccr_max_ms = Fin 1, ccr_close_p50_ms = None, ccr_close_p95_ms = None, ccr_errors = 0, ccr_error_types = [],
      ccr_peak_rss_delta_mb = None, ccr_end_rss_delta_mb = None, ccr_peak_threads_delta = None,
      ccr_end_threads_delta = None, ccr_peak_fds_delta = None, ccr_end_fds_delta = None\<rparr>"

definition builder_run :: RequestBuilderResult where
  "builder_run =
     \<lparr>rbr_client = ''foghttp'', rbr_mode = ''async'', rbr_case = ''get'', rbr_group = ''get'',
      rbr_kind = ''get'', rbr_profile = ''get'', rbr_iterations = 2, rbr_repeat = 2, rbr_duration_s = Fin 1,
      rbr_operations_per_second = Fin 1, rbr_p50_ms = Fin 1, rbr_p95_ms = Fin 1, rbr_p99_ms = Fin 1, rbr_errors = 0,
      rbr_error_types = [], rbr_peak_rss_mb = None, rbr_peak_threads = None, rbr_peak_fds = None\<rparr>"

definition pressure_run :: ResourceBackpressureResult where
  "pressure_run =
     \<lparr>bpr_client = ''foghttp'', bpr_mode = ''async'', bpr_scenario = ''get'', bpr_concurrency = 2,
      bpr_request_limit = 2, bpr_per_origin_request_limit = None, bpr_max_pending_requests = 2,
      bpr_max_response_body_size = None, bpr_max_buffered_response_bytes = None, bpr_pool_timeout_s = Fin 1,
      bpr_requests = 2, bpr_warmup = 2, bpr_repeat = 2, bpr_duration_s = Fin 1, bpr_ok_requests = 2, bpr_errors = 0,
      bpr_warmup_errors = 0, bpr_error_types = [], bpr_warmup_error_types = [], bpr_p50_ms = Fin 1,
      bpr_p95_ms = Fin 1, bpr_p99_ms = Fin 1, bpr_peak_rss_mb = None, bpr_peak_threads = None, bpr_peak_fds = None,
      bpr_peak_active_requests = None, bpr_peak_pending_requests = None, bpr_peak_buffered_response_bytes = None,
      bpr_client_stats = None, bpr_recovery_ok = None, bpr_recovery_error = None\<rparr>"

definition stream_run :: StreamingResult where
  "stream_run =
     \<lparr>smr_client = ''foghttp'', smr_mode = ''async'', smr_case = ''get'', smr_read = ''get'',
      smr_consume = ''get'', smr_concurrency = 2, smr_request_limit = 2, smr_requests = 2, smr_repeat = 2,
      smr_duration_s = Fin 1, smr_streams_per_second = Fin 1, smr_ok_streams_per_second = Fin 1, smr_ok_streams = 2,
      smr_bytes_read_total = 2, smr_mb_per_second = Fin 1, smr_chunks_read_total = 2, smr_text_chars_read_total = 2,
      smr_lines_read_total = 2, smr_lines_per_second = Fin 1, smr_p50_ms = Fin 1, smr_p95_ms = Fin 1,
      smr_p99_ms = Fin 1, smr_first_chunk_p50_ms = None, smr_first_chunk_p95_ms = None, smr_errors = 0,
      smr_warmup_errors = 0, smr_error_types = [], smr_warmup_error_types = [], smr_peak_rss_mb = None,
      smr_peak_threads = None, smr_peak_fds = None, smr_client_stats = None, smr_verified_eof_bytes_total = 2,
      smr_verified_eof_chunks_total = 2, smr_throughput_scope = ''get'', smr_timing_scope = ''get''\<rparr>"

definition proxy_run :: ProxyConnectResult where
  "proxy_run =
     \<lparr>pcr_client = ''foghttp'', pcr_mode = ''async'', pcr_case = ''get'', pcr_group = ''get'',
      pcr_target_scheme = ''http'', pcr_config = ''direct'', pcr_lifecycle = ''reused-client'', pcr_concurrency = 2,
      pcr_request_limit = 2, pcr_requests = 2, pcr_repeat = 2, pcr_duration_s = Fin 1,
      pcr_requests_per_second = Fin 1, pcr_ok_requests_per_second = Fin 1, pcr_ok_requests = 2, pcr_p50_ms = Fin 1,
      pcr_p95_ms = Fin 1, pcr_p99_ms = Fin 1, pcr_errors = 0, pcr_warmup_errors = 0, pcr_error_types = [],
      pcr_warmup_error_types = [], pcr_measured_proxy = no_proxy_use, pcr_total_proxy = no_proxy_use,
      pcr_peak_rss_mb = None, pcr_peak_threads = None, pcr_peak_fds = None, pcr_client_stats = None\<rparr>"

lemma runs_measured:
  "list_all request_measured plain_results" "list_all creation_measured [creation_run, creation_run]"
  "list_all builder_measured [builder_run]" "list_all upstream_measured [upstream_run ''direct'' (Fin 8), upstream_run ''prepared'' (Fin 9)]"
  "list_all resource_measured [pressure_run]" "list_all streaming_measured [stream_run, stream_run]"
  by (simp_all add: plain_results_def plain_run_def request_measured_def creation_run_def creation_measured_def builder_run_def
      builder_measured_def upstream_run_def upstream_measured_def pressure_run_def resource_measured_def stream_run_def
      streaming_measured_def)

lemma proxy_runs_aggregated: "case aggregate_proxy_connect_results [proxy_run] of Inl e \<Rightarrow> False | Inr rows \<Rightarrow> True"
  by code_simp

lemma suites_account_for_runs_witness:
  "\<exists>requests creations upstreams streams proxies.
     aggregate_results plain_results = Inr requests \<and> sum_list (map ar_repeats requests) = 2 \<and>
     aggregate_creation_results [creation_run, creation_run] = Inr creations \<and> sum_list (map cca_repeats creations) = 2 \<and>
     aggregate_one_upstream_results [upstream_run ''direct'' (Fin 8), upstream_run ''prepared'' (Fin 9)] = Inr upstreams \<and>
     sum_list (map oua_repeats upstreams) = 2 \<and>
     aggregate_streaming_results [stream_run, stream_run] = Inr streams \<and> sum_list (map sma_repeats streams) = 2 \<and>
     aggregate_proxy_connect_results [proxy_run] = Inr proxies \<and> sum_list (map pca_repeats proxies) = 1"
proof -
  obtain proxies where proxies: "aggregate_proxy_connect_results [proxy_run] = Inr proxies"
    using proxy_runs_aggregated by (auto split: sum.splits)
  from suites_account_for_runs [OF runs_measured this] this show ?thesis
    by (auto simp: accounted_def plain_results_def)
qed

end
